(* ===== verification/Prelude.thy ===== *)
theory Prelude
  imports Main "HOL-Library.Word"
begin

text \<open>
  Shared vocabulary of the development: the integer types of the C and C++ sources, little-endian
  byte images of unsigned integers, bounded reads of a byte image, and the interface locale
  \<open>record_codec\<close> for structures of a fixed packed size, with the one array lemma every table of
  such structures uses.  The named collections gather the facts the component theories simplify with.
\<close>

unbundle bit_operations_syntax

named_theorems layout_simps \<open>sizes and offsets of packed structures\<close>
named_theorems codec_simps \<open>encode/decode equations of packed structures\<close>

type_synonym byte = "8 word"
type_synonym u8 = "8 word"
type_synonym u16 = "16 word"
type_synonym u32 = "32 word"
type_synonym u64 = "64 word"

section \<open>Byte images of unsigned integers\<close>

text \<open>\<open>le_bytes n v\<close> is the little-endian image of \<open>v\<close> in \<open>n\<close> bytes, \<open>le_nat\<close> its value.\<close>

fun le_bytes :: "nat \<Rightarrow> nat \<Rightarrow> byte list" where
  "le_bytes 0 v = []"
| "le_bytes (Suc n) v = of_nat (v mod 256) # le_bytes n (v div 256)"

fun le_nat :: "byte list \<Rightarrow> nat" where
  "le_nat [] = 0"
| "le_nat (b # bs) = unat b + 256 * le_nat bs"

lemma length_le_bytes [simp]: "length (le_bytes n v) = n"
  by (induction n arbitrary: v) auto

lemma unat_of_nat_byte: "unat (of_nat (v mod 256) :: byte) = v mod 256"
  by (simp add: unat_of_nat)

lemma le_nat_le_bytes: "le_nat (le_bytes n v) = v mod 256 ^ n"
proof (induction n arbitrary: v)
  case 0
  then show ?case by simp
next
  case (Suc n)
  have "v mod 256 + 256 * (v div 256 mod 256 ^ n) = v mod (256 * 256 ^ n)"
    by (simp add: mod_mult2_eq)
  with Suc show ?case by (simp add: unat_of_nat_byte)
qed

lemma le_nat_bound: "le_nat bs < 256 ^ length bs"
proof (induction bs)
  case Nil
  then show ?case by simp
next
  case (Cons b bs)
  have "unat b < 256"
    using unsigned_less [of b, where ?'a = nat] by simp
  moreover have "256 * le_nat bs + 256 \<le> 256 * 256 ^ length bs"
    using Cons by (metis Suc_leI add.commute mult_Suc_right mult_le_mono2)
  ultimately show ?case by simp
qed

lemma le_bytes_le_nat: "le_bytes (length bs) (le_nat bs) = bs"
proof (induction bs)
  case Nil
  then show ?case by simp
next
  case (Cons b bs)
  have b: "unat b < 256"
    using unsigned_less [of b, where ?'a = nat] by simp
  have "(unat b + 256 * le_nat bs) mod 256 = unat b" "(unat b + 256 * le_nat bs) div 256 = le_nat bs"
    using b by simp_all
  with Cons show ?case by simp
qed

lemma le_nat_zeros [simp]: "le_nat (replicate n 0) = 0"
  by (induction n) auto

section \<open>Bounded reads\<close>

text \<open>
  \<open>slice bs off n\<close> is the run of \<open>n\<close> bytes at \<open>off\<close>, \<open>None\<close> when the run leaves the image: a
  C read there is outside the object.  \<open>rd\<close> reads an \<open>n\<close>-byte little-endian unsigned integer.
\<close>

definition slice :: "'a list \<Rightarrow> nat \<Rightarrow> nat \<Rightarrow> 'a list option" where
  "slice bs off n = (if off + n \<le> length bs then Some (take n (drop off bs)) else None)"

definition rd :: "nat \<Rightarrow> byte list \<Rightarrow> nat \<Rightarrow> nat option" where
  "rd n bs off = map_option le_nat (slice bs off n)"

definition rd8 :: "byte list \<Rightarrow> nat \<Rightarrow> u8 option" where
  "rd8 bs off = map_option of_nat (rd 1 bs off)"

definition rd16 :: "byte list \<Rightarrow> nat \<Rightarrow> u16 option" where
  "rd16 bs off = map_option of_nat (rd 2 bs off)"

definition rd32 :: "byte list \<Rightarrow> nat \<Rightarrow> u32 option" where
  "rd32 bs off = map_option of_nat (rd 4 bs off)"

definition rd64 :: "byte list \<Rightarrow> nat \<Rightarrow> u64 option" where
  "rd64 bs off = map_option of_nat (rd 8 bs off)"

lemma slice_Some_iff: "slice bs off n = Some xs \<longleftrightarrow> off + n \<le> length bs \<and> xs = take n (drop off bs)"
  by (auto simp: slice_def)

lemma slice_length: "slice bs off n = Some xs \<Longrightarrow> length xs = n"
  by (auto simp: slice_def split: if_splits)

lemma slice_skip [simp]: "slice (xs @ ys) (length xs + off) n = slice ys off n"
  by (simp add: slice_def)

lemma slice_skip_eq: "off = length xs + k \<Longrightarrow> slice (xs @ ys) off n = slice ys k n"
  by simp

lemma slice_head [simp]: "slice (xs @ ys) 0 (length xs) = Some xs"
  by (simp add: slice_def)

lemma slice_mid: "slice (xs @ ys @ zs) (length xs) (length ys) = Some ys"
  by (simp add: slice_def)

lemma slice_append_left: "off + n \<le> length xs \<Longrightarrow> slice (xs @ ys) off n = slice xs off n"
  by (auto simp: slice_def)

lemma slice_slice:
  "slice bs off n = Some xs \<Longrightarrow> k + m \<le> n \<Longrightarrow> slice xs k m = slice bs (off + k) m"
  by (auto simp: slice_def drop_take add.commute min_def split: if_splits)

lemma rd_le_bytes: "rd n (xs @ le_bytes n v @ ys) (length xs) = Some (v mod 256 ^ n)"
  using slice_mid [of xs "le_bytes n v" ys] by (simp add: rd_def le_nat_le_bytes)

section \<open>Packed structures\<close>

text \<open>
  A structure with \<open>[[gnu::packed]]\<close> layout and a fixed size has an image of that size and is read
  back from it whatever follows.  Every structure of the store and ELF formats interprets this
  locale; the client lemma is indexing: the \<open>i\<close>-th element of a table lies at \<open>i * width\<close>.
\<close>

locale record_codec =
  fixes enc :: "'r \<Rightarrow> byte list"
    and dec :: "byte list \<Rightarrow> nat \<Rightarrow> 'r option"
    and width :: nat
  assumes enc_length [simp]: "length (enc r) = width"
    and dec_enc: "dec (xs @ enc r @ ys) (length xs) = Some r"
begin

lemma table_length: "length (concat (map enc rs)) = width * length rs"
  by (induction rs) auto

lemma table_nth:
  assumes "i < length rs"
  shows "dec (xs @ concat (map enc rs) @ ys) (length xs + width * i) = Some (rs ! i)"
proof -
  have split: "rs = take i rs @ rs ! i # drop (Suc i) rs"
    using assms by (rule id_take_nth_drop)
  have "dec ((xs @ concat (map enc (take i rs))) @ enc (rs ! i) @ concat (map enc (drop (Suc i) rs)) @ ys)
          (length (xs @ concat (map enc (take i rs)))) = Some (rs ! i)"
    by (rule dec_enc)
  moreover have "length (xs @ concat (map enc (take i rs))) = length xs + width * i"
    using assms by (simp add: table_length)
  moreover have "xs @ concat (map enc rs) @ ys =
      (xs @ concat (map enc (take i rs))) @ enc (rs ! i) @ concat (map enc (drop (Suc i) rs)) @ ys"
    by (subst split) simp
  ultimately show ?thesis by simp
qed

lemma dec_enc_eq: "off = length xs \<Longrightarrow> dec (xs @ enc r @ ys) off = Some r"
  by (simp add: dec_enc)

end

text \<open>The fixed-width unsigned integers are themselves such structures.\<close>

definition enc16 :: "u16 \<Rightarrow> byte list" where
  "enc16 w = le_bytes 2 (unat w)"

definition enc32 :: "u32 \<Rightarrow> byte list" where
  "enc32 w = le_bytes 4 (unat w)"

definition enc64 :: "u64 \<Rightarrow> byte list" where
  "enc64 w = le_bytes 8 (unat w)"

definition enc8 :: "u8 \<Rightarrow> byte list" where
  "enc8 w = le_bytes 1 (unat w)"

lemma length_enc [simp]:
  "length (enc32 w) = 4" "length (enc64 v) = 8" "length (enc8 u) = 1" "length (enc16 x) = 2"
  by (simp_all add: enc32_def enc64_def enc8_def enc16_def)

interpretation c16: record_codec enc16 rd16 2
proof unfold_locales
  fix xs ys and r :: u16
  have "unat r < 256 ^ 2" using unsigned_less [of r, where ?'a = nat] by simp
  then show "rd16 (xs @ enc16 r @ ys) (length xs) = Some r"
    by (simp only: rd16_def enc16_def rd_le_bytes mod_less) simp
qed simp

interpretation c32: record_codec enc32 rd32 4
proof unfold_locales
  fix xs ys and r :: u32
  have "unat r < 256 ^ 4" using unsigned_less [of r, where ?'a = nat] by simp
  then show "rd32 (xs @ enc32 r @ ys) (length xs) = Some r"
    by (simp only: rd32_def enc32_def rd_le_bytes mod_less) simp
qed simp

interpretation c64: record_codec enc64 rd64 8
proof unfold_locales
  fix xs ys and r :: u64
  have "unat r < 256 ^ 8" using unsigned_less [of r, where ?'a = nat] by simp
  then show "rd64 (xs @ enc64 r @ ys) (length xs) = Some r"
    by (simp only: rd64_def enc64_def rd_le_bytes mod_less) simp
qed simp

interpretation c8: record_codec enc8 rd8 1
proof unfold_locales
  fix xs ys and r :: u8
  have "unat r < 256 ^ 1" using unsigned_less [of r, where ?'a = nat] by simp
  then show "rd8 (xs @ enc8 r @ ys) (length xs) = Some r"
    by (simp only: rd8_def enc8_def rd_le_bytes mod_less) simp
qed simp

text \<open>
  Reading past a prefix, and reading the field that starts here: with \<open>append_assoc\<close> these walk
  any structure that is written as a sequence of integers.
\<close>

lemma slice_past: "length xs \<le> off \<Longrightarrow> slice (xs @ ys) off n = slice ys (off - length xs) n"
  by (auto simp: slice_def)

lemma rd_past [codec_simps]:
  assumes "length xs \<le> off"
  shows "rd8 (xs @ ys) off = rd8 ys (off - length xs)"
    and "rd16 (xs @ ys) off = rd16 ys (off - length xs)"
    and "rd32 (xs @ ys) off = rd32 ys (off - length xs)"
    and "rd64 (xs @ ys) off = rd64 ys (off - length xs)"
  using assms by (simp_all add: rd8_def rd16_def rd32_def rd64_def rd_def slice_past)

lemma rd_here [codec_simps]:
  "rd8 (enc8 a @ ys) 0 = Some a"
  "rd16 (enc16 b @ ys) 0 = Some b"
  "rd32 (enc32 c @ ys) 0 = Some c"
  "rd64 (enc64 d @ ys) 0 = Some d"
  using c8.dec_enc [of "[]" a ys] c16.dec_enc [of "[]" b ys] c32.dec_enc [of "[]" c ys]
    c64.dec_enc [of "[]" d ys] by simp_all

section \<open>Clearing low bits\<close>

lemma AND_NOT_mask: "x AND NOT (mask k) = x - take_bit k (x :: 'a :: ring_bit_operations)"
proof -
  have "push_bit k (drop_bit k x) = x AND NOT (mask k)"
    by (rule bit_eqI) (auto simp: bit_simps not_le dest: bit_imp_possible_bit)
  moreover have "push_bit k (drop_bit k x) + take_bit k x = x" by (rule bits_ident)
  ultimately show ?thesis by (simp add: eq_diff_eq)
qed

section \<open>Rounding up\<close>

definition round_up :: "nat \<Rightarrow> nat \<Rightarrow> nat" where
  "round_up p n = (n + p - 1) - (n + p - 1) mod p"

lemma round_up_bounds:
  assumes "0 < p"
  shows "n \<le> round_up p n" "round_up p n < n + p" "p dvd round_up p n"
proof -
  have m: "(n + p - 1) mod p < p" "(n + p - 1) mod p \<le> n + p - 1" using assms by simp_all
  show "n \<le> round_up p n" "round_up p n < n + p" unfolding round_up_def using m assms by linarith+
  show "p dvd round_up p n" unfolding round_up_def by (rule dvd_minus_mod)
qed

lemma round_up_least:
  assumes "0 < p" "p dvd k" "n \<le> k"
  shows "round_up p n \<le> k"
proof (rule ccontr)
  assume above: "\<not> round_up p n \<le> k"
  moreover have "p dvd round_up p n - k" using round_up_bounds(3) [OF assms(1)] assms(2) by (rule dvd_diff_nat)
  ultimately have "p \<le> round_up p n - k" by (simp add: dvd_imp_le)
  with above round_up_bounds(2) [OF assms(1), of n] assms(3) show False by linarith
qed

lemma round_up_dvd: "0 < p \<Longrightarrow> p dvd n \<Longrightarrow> round_up p n = n"
  using round_up_bounds(1) [of p n] round_up_least [of p n n] by simp

lemma round_up_mono: "0 < p \<Longrightarrow> a \<le> b \<Longrightarrow> round_up p a \<le> round_up p b"
  using round_up_bounds [of p b] by (intro round_up_least) auto

lemma and_not_round_up:
  assumes "a = 2 ^ k"
  shows "nat ((int v + int a - 1) AND NOT (int a - 1)) = round_up a v"
proof -
  let ?x = "v + a - 1"
  have a: "int a = 2 ^ k" "0 < a" using assms by simp_all
  have "int v + int a - 1 = int ?x" using a(2) by simp
  moreover have "int ?x AND NOT (int a - 1) = int ?x - int ?x mod int a"
    using AND_NOT_mask [of "int ?x" k] by (simp add: a(1) mask_eq_exp_minus_1 take_bit_eq_mod)
  ultimately have "(int v + int a - 1) AND NOT (int a - 1) = int ?x - int (?x mod a)" by (simp only: of_nat_mod)
  also have "\<dots> = int (round_up a v)" by (simp only: round_up_def of_nat_diff [OF mod_less_eq_dividend])
  finally show ?thesis by simp
qed

section \<open>Errors\<close>

text \<open>A step that may fail with an error, and the value it goes on with.\<close>

definition or_abort :: "'e \<Rightarrow> 'a option \<Rightarrow> 'e + 'a" where
  "or_abort e x = (case x of None \<Rightarrow> Inl e | Some v \<Rightarrow> Inr v)"

definition bind_sum :: "'e + 'a \<Rightarrow> ('a \<Rightarrow> 'e + 'b) \<Rightarrow> 'e + 'b" where
  "bind_sum x f = (case x of Inl e \<Rightarrow> Inl e | Inr v \<Rightarrow> f v)"

lemma or_abort_simps [simp]: "or_abort e (Some v) = Inr v" "or_abort e None = Inl e"
  by (simp_all add: or_abort_def)

lemma bind_sum_simps [simp]: "bind_sum (Inr v) f = f v" "bind_sum (Inl e) f = Inl e"
  by (simp_all add: bind_sum_def)

lemma bind_sum_Inr_iff: "bind_sum x f = Inr r \<longleftrightarrow> (\<exists>v. x = Inr v \<and> f v = Inr r)"
  by (cases x) auto

lemma bind_sum_cong [fundef_cong]: "x = x' \<Longrightarrow> (\<And>v. x' = Inr v \<Longrightarrow> f v = f' v) \<Longrightarrow> bind_sum x f = bind_sum x' f'"
  by (cases x') auto

section \<open>Keys of a hashtable\<close>

text \<open>The keys of a PowerShell hashtable ignore case.\<close>

definition fold_case :: "string \<Rightarrow> string" where
  "fold_case s = map (\<lambda>c. let n = of_char c :: nat in if 65 \<le> n \<and> n \<le> 90 then char_of (n + 32) else c) s"

text \<open>The same on the bits of a character, for evaluation.\<close>

lemma fold_case_char:
  "(let n = of_char c :: nat in if 65 \<le> n \<and> n \<le> 90 then char_of (n + 32) else c) =
   (case c of Char b0 b1 b2 b3 b4 b5 b6 b7 \<Rightarrow>
     if \<not> b7 \<and> b6 \<and> \<not> b5 \<and> (b0 \<or> b1 \<or> b2 \<or> b3 \<or> b4) \<and> \<not> (b4 \<and> b3 \<and> (b2 \<or> (b1 \<and> b0)))
     then Char b0 b1 b2 b3 b4 True b6 b7 else c)"
proof (cases c)
  case (Char b0 b1 b2 b3 b4 b5 b6 b7)
  then show ?thesis
    by (cases b0; cases b1; cases b2; cases b3; cases b4; cases b5; cases b6; cases b7; simp add: Let_def char_of_def bit_0)
qed

lemma fold_case_code [code]:
  "fold_case s = map (\<lambda>c. case c of Char b0 b1 b2 b3 b4 b5 b6 b7 \<Rightarrow>
     if \<not> b7 \<and> b6 \<and> \<not> b5 \<and> (b0 \<or> b1 \<or> b2 \<or> b3 \<or> b4) \<and> \<not> (b4 \<and> b3 \<and> (b2 \<or> (b1 \<and> b0)))
     then Char b0 b1 b2 b3 b4 True b6 b7 else c) s"
  unfolding fold_case_def fold_case_char by (rule refl)

definition offset_of :: "(string \<times> nat) list \<Rightarrow> string \<Rightarrow> nat option" where
  "offset_of offsets s = map_option snd (List.find (\<lambda>(k, _). fold_case k = fold_case s) offsets)"

end
