(* ===== verification/Store_Format.thy ===== *)
theory Store_Format
  imports Prelude "HOL-Library.Monad_Syntax"
begin

text \<open>
  The assembly store format of \<open>lib/xamarin-app.hh\<close>: the magic numbers, the version word of each
  ABI, and the packed structures of the store with their byte images.  A structure's fields are read
  in declaration order, and its width is the sum of its fields because the sources declare the
  store structures packed.
\<close>

section \<open>Constants\<close>

definition FORMAT_TAG :: u64 where
  "FORMAT_TAG = 0x00045E6972616D58"

definition COMPRESSED_DATA_MAGIC :: u32 where
  "COMPRESSED_DATA_MAGIC = 0x535A4158"

definition ASSEMBLY_STORE_MAGIC :: u32 where
  "ASSEMBLY_STORE_MAGIC = 0x41424158"

datatype abi = Aarch64 | Arm | X86_64 | I386

text \<open>\<open>INTPTR_MAX == INT64_MAX\<close> holds exactly for the two 64-bit ABIs.\<close>

fun abi64 :: "abi \<Rightarrow> bool" where
  "abi64 Aarch64 = True"
| "abi64 Arm = False"
| "abi64 X86_64 = True"
| "abi64 I386 = False"

definition ASSEMBLY_STORE_64BIT_FLAG :: "abi \<Rightarrow> u32" where
  "ASSEMBLY_STORE_64BIT_FLAG a = (if abi64 a then 0x80000000 else 0x00000000)"

fun ASSEMBLY_STORE_ABI :: "abi \<Rightarrow> u32" where
  "ASSEMBLY_STORE_ABI Aarch64 = 0x00010000"
| "ASSEMBLY_STORE_ABI Arm = 0x00020000"
| "ASSEMBLY_STORE_ABI X86_64 = 0x00030000"
| "ASSEMBLY_STORE_ABI I386 = 0x00040000"

definition ASSEMBLY_STORE_FORMAT_VERSION :: "abi \<Rightarrow> u32" where
  "ASSEMBLY_STORE_FORMAT_VERSION a = 4 OR ASSEMBLY_STORE_64BIT_FLAG a OR ASSEMBLY_STORE_ABI a"

lemma format_version_values:
  "ASSEMBLY_STORE_FORMAT_VERSION Aarch64 = 0x80010004"
  "ASSEMBLY_STORE_FORMAT_VERSION Arm = 0x00020004"
  "ASSEMBLY_STORE_FORMAT_VERSION X86_64 = 0x80030004"
  "ASSEMBLY_STORE_FORMAT_VERSION I386 = 0x00040004"
  by (simp_all add: ASSEMBLY_STORE_FORMAT_VERSION_def ASSEMBLY_STORE_64BIT_FLAG_def)

section \<open>Structures\<close>

record AssemblyStoreHeader =
  sh_magic :: u32
  sh_version :: u32
  sh_entry_count :: u32
  sh_index_entry_count :: u32
  sh_index_size :: u32
  sh_content_id :: u64

record AssemblyStoreIndexEntry =
  ie_name_hash :: u32
  ie_descriptor_index :: u32
  ie_ignore :: u8

record AssemblyStoreEntryDescriptor =
  ed_mapping_index :: u32
  ed_data_offset :: u32
  ed_data_size :: u32
  ed_debug_data_offset :: u32
  ed_debug_data_size :: u32
  ed_config_data_offset :: u32
  ed_config_data_size :: u32

record CompressedAssemblyHeader =
  ch_magic :: u32
  ch_descriptor_index :: u32
  ch_uncompressed_length :: u32

record CompressedAssemblyDescriptor =
  cd_uncompressed_file_size :: u32
  cd_loaded :: bool
  cd_buffer_offset :: u32

definition sizeof_header :: nat where "sizeof_header = 28"
definition sizeof_index_entry :: nat where "sizeof_index_entry = 9"
definition sizeof_descriptor :: nat where "sizeof_descriptor = 28"
definition sizeof_compressed_header :: nat where "sizeof_compressed_header = 12"

lemmas sizeof_defs [layout_simps] =
  sizeof_header_def sizeof_index_entry_def sizeof_descriptor_def sizeof_compressed_header_def

section \<open>Byte images\<close>

definition enc_header :: "AssemblyStoreHeader \<Rightarrow> byte list" where
  "enc_header h = enc32 (sh_magic h) @ enc32 (sh_version h) @ enc32 (sh_entry_count h) @
     enc32 (sh_index_entry_count h) @ enc32 (sh_index_size h) @ enc64 (sh_content_id h)"

definition dec_header :: "byte list \<Rightarrow> nat \<Rightarrow> AssemblyStoreHeader option" where
  "dec_header bs off = do {
     m \<leftarrow> rd32 bs off; v \<leftarrow> rd32 bs (off + 4); n \<leftarrow> rd32 bs (off + 8); k \<leftarrow> rd32 bs (off + 12);
     s \<leftarrow> rd32 bs (off + 16); c \<leftarrow> rd64 bs (off + 20);
     Some \<lparr>sh_magic = m, sh_version = v, sh_entry_count = n, sh_index_entry_count = k,
           sh_index_size = s, sh_content_id = c\<rparr> }"

definition enc_index_entry :: "AssemblyStoreIndexEntry \<Rightarrow> byte list" where
  "enc_index_entry e = enc32 (ie_name_hash e) @ enc32 (ie_descriptor_index e) @ enc8 (ie_ignore e)"

definition dec_index_entry :: "byte list \<Rightarrow> nat \<Rightarrow> AssemblyStoreIndexEntry option" where
  "dec_index_entry bs off = do {
     h \<leftarrow> rd32 bs off; d \<leftarrow> rd32 bs (off + 4); i \<leftarrow> rd8 bs (off + 8);
     Some \<lparr>ie_name_hash = h, ie_descriptor_index = d, ie_ignore = i\<rparr> }"

definition enc_descriptor :: "AssemblyStoreEntryDescriptor \<Rightarrow> byte list" where
  "enc_descriptor d = enc32 (ed_mapping_index d) @ enc32 (ed_data_offset d) @ enc32 (ed_data_size d) @
     enc32 (ed_debug_data_offset d) @ enc32 (ed_debug_data_size d) @
     enc32 (ed_config_data_offset d) @ enc32 (ed_config_data_size d)"

definition dec_descriptor :: "byte list \<Rightarrow> nat \<Rightarrow> AssemblyStoreEntryDescriptor option" where
  "dec_descriptor bs off = do {
     m \<leftarrow> rd32 bs off; a \<leftarrow> rd32 bs (off + 4); b \<leftarrow> rd32 bs (off + 8); c \<leftarrow> rd32 bs (off + 12);
     d \<leftarrow> rd32 bs (off + 16); e \<leftarrow> rd32 bs (off + 20); f \<leftarrow> rd32 bs (off + 24);
     Some \<lparr>ed_mapping_index = m, ed_data_offset = a, ed_data_size = b, ed_debug_data_offset = c,
           ed_debug_data_size = d, ed_config_data_offset = e, ed_config_data_size = f\<rparr> }"

definition enc_compressed_header :: "CompressedAssemblyHeader \<Rightarrow> byte list" where
  "enc_compressed_header h =
     enc32 (ch_magic h) @ enc32 (ch_descriptor_index h) @ enc32 (ch_uncompressed_length h)"

definition dec_compressed_header :: "byte list \<Rightarrow> nat \<Rightarrow> CompressedAssemblyHeader option" where
  "dec_compressed_header bs off = do {
     m \<leftarrow> rd32 bs off; d \<leftarrow> rd32 bs (off + 4); n \<leftarrow> rd32 bs (off + 8);
     Some \<lparr>ch_magic = m, ch_descriptor_index = d, ch_uncompressed_length = n\<rparr> }"

interpretation header_codec: record_codec enc_header dec_header sizeof_header
  by unfold_locales
    (simp_all add: enc_header_def dec_header_def codec_simps layout_simps)

interpretation index_codec: record_codec enc_index_entry dec_index_entry sizeof_index_entry
  by unfold_locales
    (simp_all add: enc_index_entry_def dec_index_entry_def codec_simps layout_simps)

interpretation descriptor_codec: record_codec enc_descriptor dec_descriptor sizeof_descriptor
  by unfold_locales
    (simp_all add: enc_descriptor_def dec_descriptor_def codec_simps layout_simps)

interpretation compressed_codec:
  record_codec enc_compressed_header dec_compressed_header sizeof_compressed_header
  by unfold_locales
    (simp_all add: enc_compressed_header_def dec_compressed_header_def codec_simps layout_simps)

end
