(* ===== verification/Store_Reader.thy ===== *)
theory Store_Reader
  imports Store_Format
begin

text \<open>
  The runtime's assembly lookup, \<open>lib/assembly-store.cc\<close>: configuring the store from a mapped
  payload, finding an index entry by hash and name, and serving an assembly's data, copied from the
  payload or decompressed once into the static buffer.

  State: the statics of \<open>AssemblyStore\<close> and the \<open>extern\<close> variables of \<open>xamarin-app.hh\<close> are one
  record.  A pointer into the read-only payload is the payload with an offset (\<open>cptr\<close>), so a pointer
  kept across a second mapping still points into the first.  Code outside the repository is a field
  of \<open>store_env\<close>: \<open>crc32_hash\<close>, \<open>Search::lower_bound\<close>, \<open>ZSTD_decompress\<close> (with \<open>ZSTD_isError\<close>) and
  the allocator.  \<open>Helpers::abort_application\<close> is the error value of the message, and a read or
  write outside its object is the error \<open>OutOfBounds\<close>.  Logging, timing and the mutex have no effect
  on one thread's result; the interleaving of threads is the theory \<open>Decompress_Once\<close>.
\<close>

section \<open>State and environment\<close>

type_synonym cptr = "byte list \<times> nat"

record AssemblyStoreRuntimeData =
  rd_data_start :: cptr
  rd_assembly_count :: u32
  rd_index_entry_count :: u32
  rd_assemblies :: cptr

record AssemblyStoreSingleAssemblyRuntimeData =
  sa_image_data :: "cptr option"
  sa_debug_info_data :: "cptr option"
  sa_config_data :: "cptr option"
  sa_descriptor :: "AssemblyStoreEntryDescriptor option"

record store_state =
  assembly_store :: AssemblyStoreRuntimeData
  assembly_store_hashes :: "cptr option"
  assembly_store_names :: "byte list list"
  bundled_assemblies :: "AssemblyStoreSingleAssemblyRuntimeData list"
  compressed_assembly_count :: u32
  compressed_assembly_descriptors :: "CompressedAssemblyDescriptor list"
  uncompressed_assemblies_data_size :: u32
  uncompressed_assemblies_data_buffer :: "byte list"

datatype abort =
    NoDescriptorDefined
  | InvalidDescriptorIndex u32
  | InvalidBufferOffset u32 u32
  | InvalidBufferSize u32 u32 u32
  | LargerThanBuilt u32 u32
  | DecompressionFailed
  | DifferentSize u32 nat
  | InvalidAssemblyIndex u32 u32
  | NotAStore
  | WrongFormatVersion u32 u32
  | NameTableAllocation
  | OutOfBounds

record store_env =
  env_abi :: abi
  env_release :: bool
  env_debug_build :: bool
  crc32_hash :: "byte list \<Rightarrow> u32"
  lower_bound :: "(AssemblyStoreIndexEntry \<Rightarrow> u32 \<Rightarrow> bool) \<Rightarrow> u32 \<Rightarrow> AssemblyStoreIndexEntry list \<Rightarrow> nat"
  zstd_decompress :: "nat \<Rightarrow> byte list \<Rightarrow> byte list option"
  malloc_ok :: "nat \<Rightarrow> bool"
  calloc_ok :: "nat \<Rightarrow> bool"

text \<open>The memory a successful lookup hands out: a fresh read-write copy, or a place in the buffer.\<close>

datatype asm_data = RwCopy "byte list" | InBuffer nat

section \<open>Names\<close>

text \<open>\<open>std::string_view::find_last_of\<close> of one character; \<open>npos\<close> is \<open>None\<close>.\<close>

fun find_last_of :: "'c \<Rightarrow> 'c list \<Rightarrow> nat option" where
  "find_last_of c [] = None"
| "find_last_of c (x # xs) =
     (case find_last_of c xs of Some i \<Rightarrow> Some (Suc i) | None \<Rightarrow> if x = c then Some 0 else None)"

definition slash :: byte where "slash = 47"
definition dot :: byte where "dot = 46"

definition name_matches :: "byte list \<Rightarrow> byte list \<Rightarrow> bool" where
  "name_matches requested stored =
     (if requested = stored then True
      else
        let name_start = (case find_last_of slash stored of None \<Rightarrow> 0 | Some i \<Rightarrow> i + 1)
        in case find_last_of dot stored of
             None \<Rightarrow> False
           | Some last_dot \<Rightarrow> last_dot > name_start \<and> requested = take last_dot stored)"

section \<open>Finding an index entry\<close>

text \<open>A table of \<open>n\<close> packed elements at a payload pointer.\<close>

fun read_table :: "(byte list \<Rightarrow> nat \<Rightarrow> 'r option) \<Rightarrow> nat \<Rightarrow> cptr \<Rightarrow> nat \<Rightarrow> 'r list option" where
  "read_table dec w p 0 = Some []"
| "read_table dec w (bs, off) (Suc n) = do {
     r \<leftarrow> dec bs off; rs \<leftarrow> read_table dec w (bs, off + w) n; Some (r # rs) }"

fun scan_run ::
  "store_state \<Rightarrow> byte list \<Rightarrow> u32 \<Rightarrow> AssemblyStoreIndexEntry list \<Rightarrow> AssemblyStoreIndexEntry option" where
  "scan_run st name hash [] = None"
| "scan_run st name hash (entry # rest) =
     (if ie_name_hash entry = hash then
        (if ie_descriptor_index entry < rd_assembly_count (assembly_store st) \<and>
            name_matches name (assembly_store_names st ! unat (ie_descriptor_index entry))
         then Some entry else scan_run st name hash rest)
      else None)"

definition less_than :: "AssemblyStoreIndexEntry \<Rightarrow> u32 \<Rightarrow> bool" where
  "less_than entry key \<longleftrightarrow> ie_name_hash entry < key"

definition find_assembly_store_entry ::
  "store_env \<Rightarrow> store_state \<Rightarrow> byte list \<Rightarrow> u32 \<Rightarrow> AssemblyStoreIndexEntry list \<Rightarrow> AssemblyStoreIndexEntry option" where
  "find_assembly_store_entry env st name hash entries =
     (let idx = lower_bound env less_than hash entries
      in scan_run st name hash (drop idx entries))"

section \<open>Serving an assembly\<close>

text \<open>\<open>memcpy\<close> from a payload pointer, and a write into the static buffer.\<close>

definition load_bytes :: "cptr \<Rightarrow> nat \<Rightarrow> abort + byte list" where
  "load_bytes p n = or_abort OutOfBounds (slice (fst p) (snd p) n)"

definition buffer_write :: "byte list \<Rightarrow> nat \<Rightarrow> byte list \<Rightarrow> abort + byte list" where
  "buffer_write buf off bs =
     (if off + length bs \<le> length buf then Inr (take off buf @ bs @ drop (off + length bs) buf)
      else Inl OutOfBounds)"

text \<open>The decompression of one assembly, entered when its \<open>loaded\<close> flag is clear.\<close>

definition decompress_into ::
  "store_env \<Rightarrow> store_state \<Rightarrow> cptr \<Rightarrow> CompressedAssemblyHeader \<Rightarrow> nat \<Rightarrow> u32 \<Rightarrow> abort + store_state" where
  "decompress_into env st img header i compressed_size =
     (let cad = compressed_assembly_descriptors st ! i in
      if ch_uncompressed_length header > cd_uncompressed_file_size cad
      then Inl (LargerThanBuilt (cd_uncompressed_file_size cad) (ch_uncompressed_length header))
      else
        let cad' = cad\<lparr>cd_uncompressed_file_size := ch_uncompressed_length header\<rparr>;
            data_start = (fst img, snd img + sizeof_compressed_header)
        in bind_sum (load_bytes data_start (unat compressed_size)) (\<lambda>src.
           case zstd_decompress env (unat (cd_uncompressed_file_size cad')) src of
             None \<Rightarrow> Inl DecompressionFailed
           | Some out \<Rightarrow>
               if length out \<noteq> unat (cd_uncompressed_file_size cad')
               then Inl (DifferentSize (cd_uncompressed_file_size cad') (length out))
               else bind_sum (buffer_write (uncompressed_assemblies_data_buffer st)
                                (unat (cd_buffer_offset cad')) out) (\<lambda>buf.
                 Inr (st\<lparr>uncompressed_assemblies_data_buffer := buf,
                         compressed_assembly_descriptors :=
                           (compressed_assembly_descriptors st)[i := cad'\<lparr>cd_loaded := True\<rparr>]\<rparr>))))"

definition get_compressed_data ::
  "store_env \<Rightarrow> store_state \<Rightarrow> cptr \<Rightarrow> AssemblyStoreEntryDescriptor \<Rightarrow> CompressedAssemblyHeader \<Rightarrow>
     abort + (asm_data \<times> u32) \<times> store_state" where
  "get_compressed_data env st img desc header =
     (if compressed_assembly_count st = 0 then Inl NoDescriptorDefined
      else if ch_descriptor_index header \<ge> compressed_assembly_count st
      then Inl (InvalidDescriptorIndex (ch_descriptor_index header))
      else
        let i = unat (ch_descriptor_index header) in
        if i \<ge> length (compressed_assembly_descriptors st) then Inl OutOfBounds
        else
          let cad = compressed_assembly_descriptors st ! i;
              assembly_data_size = ed_data_size desc - of_nat sizeof_compressed_header
          in if cd_buffer_offset cad \<ge> uncompressed_assemblies_data_size st
             then Inl (InvalidBufferOffset (cd_buffer_offset cad) (uncompressed_assemblies_data_size st))
             else if cd_uncompressed_file_size cad
                       > uncompressed_assemblies_data_size st - cd_buffer_offset cad
             then Inl (InvalidBufferSize (cd_uncompressed_file_size cad) (cd_buffer_offset cad)
                         (uncompressed_assemblies_data_size st - cd_buffer_offset cad))
             else bind_sum
               (if \<not> cd_loaded cad then decompress_into env st img header i assembly_data_size
                else Inr st) (\<lambda>st'.
               let cad' = compressed_assembly_descriptors st' ! i
               in Inr ((InBuffer (unat (cd_buffer_offset cad')), cd_uncompressed_file_size cad'), st')))"

definition copy_data ::
  "store_env \<Rightarrow> store_state \<Rightarrow> cptr \<Rightarrow> AssemblyStoreEntryDescriptor \<Rightarrow>
     abort + (asm_data \<times> u32) \<times> store_state" where
  "copy_data env st img desc =
     (if \<not> malloc_ok env (unat (ed_data_size desc)) then Inl OutOfBounds
      else bind_sum (load_bytes img (unat (ed_data_size desc))) (\<lambda>bs.
        Inr ((RwCopy bs, ed_data_size desc), st)))"

definition get_assembly_data ::
  "store_env \<Rightarrow> store_state \<Rightarrow> AssemblyStoreSingleAssemblyRuntimeData \<Rightarrow>
     abort + (asm_data \<times> u32) \<times> store_state" where
  "get_assembly_data env st e =
     (case (sa_image_data e, sa_descriptor e) of
        (Some img, Some desc) \<Rightarrow>
          (if env_release env
           then bind_sum (or_abort OutOfBounds (dec_compressed_header (fst img) (snd img))) (\<lambda>header.
             if ch_magic header = COMPRESSED_DATA_MAGIC
             then get_compressed_data env st img desc header
             else copy_data env st img desc)
           else copy_data env st img desc)
      | _ \<Rightarrow> Inl OutOfBounds)"

text \<open>
  \<open>open_assembly\<close> returns the data pointer (\<open>None\<close> for \<open>nullptr\<close>) and the \<open>size\<close> out parameter, whose
  value on entry is \<open>size0\<close>: the unregistered-store path of a debug build leaves it untouched.
\<close>

definition map_assembly ::
  "AssemblyStoreRuntimeData \<Rightarrow> AssemblyStoreEntryDescriptor \<Rightarrow>
     AssemblyStoreSingleAssemblyRuntimeData \<Rightarrow> AssemblyStoreSingleAssemblyRuntimeData" where
  "map_assembly rt desc info =
     (let start = rd_data_start rt;
          at = (\<lambda>off::u32. (fst start, snd start + unat off));
          info' = info\<lparr>sa_image_data := Some (at (ed_data_offset desc)), sa_descriptor := Some desc\<rparr>
      in if ed_debug_data_offset desc \<noteq> 0
         then info'\<lparr>sa_debug_info_data := Some (at (ed_debug_data_offset desc))\<rparr> else info')"

text \<open>The index the \<open>assembly_store_hashes\<close> pointer denotes; a null pointer denotes no element.\<close>

definition index_table :: "store_state \<Rightarrow> AssemblyStoreIndexEntry list option" where
  "index_table st =
     (let n = unat (rd_index_entry_count (assembly_store st)) in
      case assembly_store_hashes st of
        None \<Rightarrow> if n = 0 then Some [] else None
      | Some hashes \<Rightarrow> read_table dec_index_entry sizeof_index_entry hashes n)"

definition open_assembly ::
  "store_env \<Rightarrow> store_state \<Rightarrow> byte list \<Rightarrow> u64 \<Rightarrow> abort + (asm_data option \<times> u64) \<times> store_state" where
  "open_assembly env st name size0 =
     (if env_debug_build env \<and> assembly_store_hashes st = None then Inr ((None, size0), st)
      else
        let rt = assembly_store st in
        bind_sum (or_abort OutOfBounds (index_table st)) (\<lambda>entries.
        case find_assembly_store_entry env st name (crc32_hash env name) entries of
          None \<Rightarrow> Inr ((None, 0), st)
        | Some hash_entry \<Rightarrow>
          if ie_ignore hash_entry \<noteq> 0 then Inr ((None, 0), st)
          else if ie_descriptor_index hash_entry \<ge> rd_assembly_count rt
          then Inl (InvalidAssemblyIndex (ie_descriptor_index hash_entry) (rd_assembly_count rt - 1))
          else
            let table = rd_assemblies rt in
            bind_sum (or_abort OutOfBounds
              (dec_descriptor (fst table)
                 (snd table + sizeof_descriptor * unat (ie_descriptor_index hash_entry)))) (\<lambda>store_entry.
            let m = unat (ed_mapping_index store_entry) in
            if m \<ge> length (bundled_assemblies st) then Inl OutOfBounds
            else
              let info = bundled_assemblies st ! m;
                  info' = (if sa_image_data info = None then map_assembly rt store_entry info else info);
                  st' = st\<lparr>bundled_assemblies := (bundled_assemblies st)[m := info']\<rparr>
              in bind_sum (get_assembly_data env st' info') (\<lambda>(data, st'').
                   Inr ((Some (fst data), ucast (snd data)), st'')))))"

section \<open>Configuring the store\<close>

text \<open>The names section: length-prefixed records, one per descriptor.\<close>

fun read_names :: "byte list \<Rightarrow> nat \<Rightarrow> nat \<Rightarrow> byte list list option" where
  "read_names bs cursor 0 = Some []"
| "read_names bs cursor (Suc n) = do {
     name_length \<leftarrow> rd32 bs cursor;
     name \<leftarrow> slice bs (cursor + 4) (unat name_length);
     names \<leftarrow> read_names bs (cursor + 4 + unat name_length) n;
     Some (name # names) }"

definition configure_from_payload :: "store_env \<Rightarrow> store_state \<Rightarrow> byte list \<Rightarrow> abort + store_state" where
  "configure_from_payload env st payload =
     bind_sum (or_abort OutOfBounds (dec_header payload 0)) (\<lambda>header.
     if sh_magic header \<noteq> ASSEMBLY_STORE_MAGIC then Inl NotAStore
     else if sh_version header \<noteq> ASSEMBLY_STORE_FORMAT_VERSION (env_abi env)
     then Inl (WrongFormatVersion (sh_version header) (ASSEMBLY_STORE_FORMAT_VERSION (env_abi env)))
     else
       let descriptors = sizeof_header + unat (sh_index_size header);
           names_start = descriptors + unat (sh_entry_count header) * sizeof_descriptor
       in if \<not> calloc_ok env (unat (sh_entry_count header)) then Inl NameTableAllocation
          else bind_sum (or_abort OutOfBounds
                 (read_names payload names_start (unat (sh_entry_count header)))) (\<lambda>names.
            Inr (st\<lparr>assembly_store :=
                      \<lparr>rd_data_start = (payload, 0),
                       rd_assembly_count = sh_entry_count header,
                       rd_index_entry_count = sh_index_entry_count header,
                       rd_assemblies = (payload, descriptors)\<rparr>,
                    assembly_store_hashes := Some (payload, sizeof_header),
                    assembly_store_names := names\<rparr>)))"

end
