(* ===== verification/Store_Writer.thy ===== *)
theory Store_Writer
  imports Store_Format Store_Reader "HOL-Library.Product_Lexorder"
begin

text \<open>
  The build's store emitter, \<open>New-AssemblyStoreBytes\<close> of \<open>setup.ps1\<close> with the helpers it calls.  A
  name is its UTF-8 bytes.  A PowerShell conversion to \<open>[uint32]\<close> that does not fit and every
  \<open>throw\<close> is \<open>None\<close>.  \<open>[System.IO.Path]\<close> splits at the separators of the build machine, the
  argument \<open>is_sep\<close>.
\<close>

section \<open>The producer contract\<close>

record xaba_contract =
  xc_magic :: nat
  xc_formatVersion :: nat
  xc_bit64Flag :: nat
  xc_structures :: "(string \<times> (string \<times> string) list) list"

definition producer_contract :: xaba_contract where
  "producer_contract = \<lparr>
     xc_magic = 1094861144,
     xc_formatVersion = 4,
     xc_bit64Flag = 2147483648,
     xc_structures = [
       (''AssemblyStoreHeader'', [
         (''uint32_t'', ''magic''),
         (''uint32_t'', ''version''),
         (''uint32_t'', ''entry_count''),
         (''uint32_t'', ''index_entry_count''),
         (''uint32_t'', ''index_size''),
         (''uint64_t'', ''content_id'')]),
       (''AssemblyStoreIndexEntry'', [
         (''xamarin::android::hash_t'', ''name_hash''),
         (''uint32_t'', ''descriptor_index''),
         (''uint8_t'', ''ignore'')]),
       (''AssemblyStoreEntryDescriptor'', [
         (''uint32_t'', ''mapping_index''),
         (''uint32_t'', ''data_offset''),
         (''uint32_t'', ''data_size''),
         (''uint32_t'', ''debug_data_offset''),
         (''uint32_t'', ''debug_data_size''),
         (''uint32_t'', ''config_data_offset''),
         (''uint32_t'', ''config_data_size'')])]\<rparr>"

definition type_widths :: "string \<rightharpoonup> nat" where
  "type_widths = map_of [(''uint8_t'', 1), (''uint32_t'', 4), (''uint64_t'', 8),
     (''xamarin::android::hash_t'', 4)]"

fun sum_widths :: "(string \<times> string) list \<Rightarrow> nat option" where
  "sum_widths [] = Some 0"
| "sum_widths ((ty, field) # fs) = do { w \<leftarrow> type_widths ty; s \<leftarrow> sum_widths fs; Some (w + s) }"

definition Get_ContractStructureSize :: "xaba_contract \<Rightarrow> string \<Rightarrow> nat option" where
  "Get_ContractStructureSize c name = Option.bind (map_of (xc_structures c) name) sum_widths"

definition Get_Store64BitFlag :: "xaba_contract \<Rightarrow> abi \<Rightarrow> nat" where
  "Get_Store64BitFlag c a = (if abi64 a then xc_bit64Flag c else 0)"

section \<open>Integers and paths\<close>

definition to_uint32 :: "int \<Rightarrow> u32 option" where
  "to_uint32 i = (if 0 \<le> i \<and> i < 2 ^ 32 then Some (of_int i) else None)"

text \<open>\<open>($cursor + $DataAlignment - 1) -band -bnot ($DataAlignment - 1)\<close>\<close>

definition align_cursor :: "u32 \<Rightarrow> nat \<Rightarrow> u32 option" where
  "align_cursor cursor a = to_uint32 ((uint cursor + int a - 1) AND NOT (int a - 1))"

definition file_part :: "(byte \<Rightarrow> bool) \<Rightarrow> byte list \<Rightarrow> byte list" where
  "file_part is_sep path = rev (takeWhile (\<lambda>c. \<not> is_sep c) (rev path))"

definition GetFileNameWithoutExtension :: "(byte \<Rightarrow> bool) \<Rightarrow> byte list \<Rightarrow> byte list" where
  "GetFileNameWithoutExtension is_sep path =
     (let file = file_part is_sep path
      in case find_last_of dot file of None \<Rightarrow> file | Some d \<Rightarrow> take d file)"

section \<open>Descriptors and index\<close>

type_synonym selection = "(byte list \<times> byte list) list"

definition index_entry :: "(byte list \<Rightarrow> u32) \<Rightarrow> byte list \<Rightarrow> u32 \<Rightarrow> AssemblyStoreIndexEntry" where
  "index_entry hash lookup_name i =
     \<lparr>ie_name_hash = hash lookup_name, ie_descriptor_index = i, ie_ignore = 0\<rparr>"

fun build_tables ::
  "(byte \<Rightarrow> bool) \<Rightarrow> (byte list \<Rightarrow> u32) \<Rightarrow> nat \<Rightarrow> u32 \<Rightarrow> u32 \<Rightarrow> selection \<Rightarrow>
     (AssemblyStoreEntryDescriptor list \<times> AssemblyStoreIndexEntry list) option" where
  "build_tables is_sep hash a cursor i [] = Some ([], [])"
| "build_tables is_sep hash a cursor i ((name, bytes) # rest) = do {
     start \<leftarrow> align_cursor cursor a;
     size \<leftarrow> to_uint32 (int (length bytes));
     next \<leftarrow> to_uint32 (uint start + int (length bytes));
     tables \<leftarrow> build_tables is_sep hash a next (i + 1) rest;
     Some (\<lparr>ed_mapping_index = i, ed_data_offset = start, ed_data_size = size,
            ed_debug_data_offset = 0, ed_debug_data_size = 0,
            ed_config_data_offset = 0, ed_config_data_size = 0\<rparr> # fst tables,
           index_entry hash name i # index_entry hash (GetFileNameWithoutExtension is_sep name) i # snd tables) }"

definition sorted_index :: "AssemblyStoreIndexEntry list \<Rightarrow> AssemblyStoreIndexEntry list" where
  "sorted_index = sort_key (\<lambda>e. (ie_name_hash e, ie_descriptor_index e))"

section \<open>The store image\<close>

definition name_record :: "byte list \<Rightarrow> byte list" where
  "name_record name = enc32 (of_nat (length name)) @ name"

text \<open>Each image at its descriptor's offset, the gap before it zero and shorter than the alignment.\<close>

fun emit_data :: "nat \<Rightarrow> nat \<Rightarrow> AssemblyStoreEntryDescriptor list \<Rightarrow> byte list list \<Rightarrow> byte list option" where
  "emit_data a position (d # ds) (payload # payloads) =
     (let offset = unat (ed_data_offset d) in
      if offset < position \<or> offset - position \<ge> a then None
      else do {
        rest \<leftarrow> emit_data a (offset + length payload) ds payloads;
        Some (replicate (offset - position) 0 @ payload @ rest) })"
| "emit_data a position ds payloads = Some []"

definition New_AssemblyStoreBytes ::
  "xaba_contract \<Rightarrow> abi \<Rightarrow> (byte \<Rightarrow> bool) \<Rightarrow> (byte list \<Rightarrow> u32) \<Rightarrow> nat \<Rightarrow> selection \<Rightarrow> byte list option" where
  "New_AssemblyStoreBytes c abi is_sep hash a sel = do {
     headerSize \<leftarrow> Get_ContractStructureSize c ''AssemblyStoreHeader'';
     indexEntrySize \<leftarrow> Get_ContractStructureSize c ''AssemblyStoreIndexEntry'';
     descriptorSize \<leftarrow> Get_ContractStructureSize c ''AssemblyStoreEntryDescriptor'';
     magic \<leftarrow> to_uint32 (int (xc_magic c));
     format \<leftarrow> to_uint32 (int (xc_formatVersion c));
     flag64 \<leftarrow> to_uint32 (int (Get_Store64BitFlag c abi));
     let version = format OR flag64 OR ASSEMBLY_STORE_ABI abi;
     entryCount \<leftarrow> to_uint32 (int (length sel));
     indexEntryCount \<leftarrow> to_uint32 (2 * int (length sel));
     let namesSize = sum_list (map (\<lambda>(name, _). 4 + length name) sel);
     indexSize \<leftarrow> to_uint32 (2 * int (length sel) * int indexEntrySize);
     let dataStart = headerSize + 2 * length sel * indexEntrySize + length sel * descriptorSize + namesSize;
     cursor \<leftarrow> to_uint32 (int dataStart);
     tables \<leftarrow> build_tables is_sep hash a cursor 0 sel;
     let metadata =
       enc_header \<lparr>sh_magic = magic, sh_version = version, sh_entry_count = entryCount,
                   sh_index_entry_count = indexEntryCount, sh_index_size = indexSize, sh_content_id = 0\<rparr> @
       concat (map enc_index_entry (sorted_index (snd tables))) @
       concat (map enc_descriptor (fst tables)) @
       concat (map (name_record \<circ> fst) sel);
     (if length metadata \<noteq> dataStart then None
      else do {
        payload \<leftarrow> emit_data a dataStart (fst tables) (map snd sel);
        Some (metadata @ payload) }) }"

section \<open>Elementary facts\<close>

lemma contract_sizes [layout_simps]:
  "Get_ContractStructureSize producer_contract ''AssemblyStoreHeader'' = Some sizeof_header"
  "Get_ContractStructureSize producer_contract ''AssemblyStoreIndexEntry'' = Some sizeof_index_entry"
  "Get_ContractStructureSize producer_contract ''AssemblyStoreEntryDescriptor'' = Some sizeof_descriptor"
  by (simp_all add: Get_ContractStructureSize_def producer_contract_def type_widths_def sizeof_defs)

lemma to_uint32_Some: "to_uint32 i = Some w \<Longrightarrow> uint w = i"
  by (auto simp: to_uint32_def unsigned_of_int take_bit_int_eq_self_iff split: if_splits)

lemma to_uint32_nat: "to_uint32 (int n) = Some w \<Longrightarrow> unat w = n"
  by (drule to_uint32_Some) (metis nat_int unat_eq_nat_uint)

lemma to_uint32_iff: "to_uint32 i = Some w \<longleftrightarrow> uint w = i"
proof
  assume "uint w = i"
  moreover have "0 \<le> uint w" "uint w < 2 ^ 32"
    using uint_lt2p [of w] by simp_all
  ultimately show "to_uint32 i = Some w" by (auto simp: to_uint32_def)
qed (rule to_uint32_Some)

lemma AND_NOT_mask_int: "(x::int) AND NOT (2 ^ k - 1) = x - x mod 2 ^ k"
  using AND_NOT_mask [of x k] by (simp add: mask_eq_exp_minus_1 take_bit_eq_mod)

end
