(* ===== verification/Store_Lookup.thy ===== *)
theory Store_Lookup
  imports Store_Reader
begin

text \<open>
  Properties of the runtime's lookup: what \<open>name_matches\<close> accepts, that binary search followed by
  the walk over the run of equal hashes is the linear search for the first matching entry, reading
  the tables of a payload, and the effect of a lookup on the runtime state.
\<close>

section \<open>Last occurrence of a character\<close>

lemma find_last_of_None_iff: "find_last_of c xs = None \<longleftrightarrow> c \<notin> set xs"
  by (induction xs) (auto split: option.splits)

lemma find_last_of_append: "c \<notin> set ys \<Longrightarrow> find_last_of c (xs @ c # ys) = Some (length xs)"
proof (induction xs)
  case Nil
  then show ?case using find_last_of_None_iff [of c ys] by simp
next
  case (Cons x xs)
  then show ?case by simp
qed

lemma find_last_of_SomeD:
  "find_last_of c xs = Some i \<Longrightarrow> \<exists>us vs. xs = us @ c # vs \<and> length us = i \<and> c \<notin> set vs"
proof (induction xs arbitrary: i)
  case Nil
  then show ?case by simp
next
  case (Cons x xs)
  show ?case
  proof (cases "find_last_of c xs")
    case None
    with Cons.prems have "x = c" "i = 0" by (auto split: if_splits)
    with None show ?thesis using find_last_of_None_iff [of c xs]
      by (intro exI [of _ "[]"] exI [of _ xs]) auto
  next
    case (Some j)
    with Cons.IH obtain us vs where "xs = us @ c # vs" "length us = j" "c \<notin> set vs" by blast
    moreover from Some Cons.prems have "i = Suc j" by simp
    ultimately show ?thesis by (intro exI [of _ "x # us"] exI [of _ vs]) auto
  qed
qed

section \<open>Which names match\<close>

text \<open>
  The file name of a stored name starts after the last slash; its stem is non-empty and is followed
  by the extension, which starts at the last dot.
\<close>

definition stem_of :: "byte list \<Rightarrow> byte list \<Rightarrow> bool" where
  "stem_of requested stored \<longleftrightarrow>
     (\<exists>dir base ext. stored = dir @ base @ dot # ext \<and> requested = dir @ base \<and> base \<noteq> [] \<and>
        dot \<notin> set ext \<and> slash \<notin> set base \<and> slash \<notin> set ext \<and> (dir = [] \<or> last dir = slash))"

lemma dot_neq_slash [simp]: "dot \<noteq> slash" "slash \<noteq> dot"
  by (simp_all add: dot_def slash_def)

lemma name_matches_self [simp]: "name_matches n n"
  by (simp add: name_matches_def)

lemma stem_ofI:
  assumes "find_last_of dot stored = Some d"
    and "d > (case find_last_of slash stored of None \<Rightarrow> 0 | Some i \<Rightarrow> i + 1)"
  shows "stem_of (take d stored) stored"
proof -
  obtain us vs where s: "stored = us @ dot # vs" "length us = d" "dot \<notin> set vs"
    using find_last_of_SomeD [OF assms(1)] by blast
  show ?thesis
  proof (cases "find_last_of slash stored")
    case None
    then have "slash \<notin> set stored" by (simp add: find_last_of_None_iff)
    with s assms(2) None show ?thesis
      unfolding stem_of_def by (intro exI [of _ "[]"] exI [of _ us] exI [of _ vs]) auto
  next
    case (Some i)
    obtain ps qs where p: "stored = ps @ slash # qs" "length ps = i" "slash \<notin> set qs"
      using find_last_of_SomeD [OF Some] by blast
    from assms(2) Some have "i + 1 < d" by simp
    define base where "base = drop (Suc i) us"
    have "take (Suc i) us = take (Suc i) stored"
      using s \<open>i + 1 < d\<close> by simp
    also have "\<dots> = ps @ [slash]" using p by simp
    finally have us: "us = (ps @ [slash]) @ base"
      unfolding base_def by (metis append_take_drop_id)
    with s p have "qs = base @ dot # vs" by simp
    with p have "slash \<notin> set base" "slash \<notin> set vs" by auto
    moreover have "base \<noteq> []" using \<open>i + 1 < d\<close> s by (simp add: base_def)
    ultimately show ?thesis
      using s us unfolding stem_of_def
      by (intro exI [of _ "ps @ [slash]"] exI [of _ base] exI [of _ vs]) auto
  qed
qed

lemma stem_ofD:
  assumes "stem_of requested stored"
  shows "find_last_of dot stored = Some (length requested)"
    and "take (length requested) stored = requested"
    and "length requested > (case find_last_of slash stored of None \<Rightarrow> 0 | Some i \<Rightarrow> i + 1)"
proof -
  obtain dir base ext where s: "stored = dir @ base @ dot # ext" "requested = dir @ base"
      "base \<noteq> []" "dot \<notin> set ext" "slash \<notin> set base" "slash \<notin> set ext" "dir = [] \<or> last dir = slash"
    using assms unfolding stem_of_def by blast
  show "find_last_of dot stored = Some (length requested)"
    using find_last_of_append [of dot ext "dir @ base"] s by simp
  show "take (length requested) stored = requested" using s by simp
  show "length requested > (case find_last_of slash stored of None \<Rightarrow> 0 | Some i \<Rightarrow> i + 1)"
  proof (cases "dir = []")
    case True
    with s have "slash \<notin> set stored" by simp
    then have "find_last_of slash stored = None" by (simp add: find_last_of_None_iff)
    with s show ?thesis by simp
  next
    case False
    with s obtain d where "dir = d @ [slash]" by (metis append_butlast_last_id)
    with s find_last_of_append [of slash "base @ dot # ext" d]
    have "find_last_of slash stored = Some (length d)" by simp
    with s \<open>dir = d @ [slash]\<close> show ?thesis by simp
  qed
qed

lemma name_matches_iff: "name_matches requested stored \<longleftrightarrow> requested = stored \<or> stem_of requested stored"
proof
  assume m: "name_matches requested stored"
  show "requested = stored \<or> stem_of requested stored"
  proof (cases "requested = stored")
    case False
    with m obtain d where "find_last_of dot stored = Some d" "requested = take d stored"
        "d > (case find_last_of slash stored of None \<Rightarrow> 0 | Some i \<Rightarrow> i + 1)"
      by (auto simp: name_matches_def Let_def split: option.splits)
    then show ?thesis using stem_ofI by blast
  qed simp
next
  assume "requested = stored \<or> stem_of requested stored"
  then show "name_matches requested stored"
    using stem_ofD by (auto simp: name_matches_def)
qed

section \<open>The library search\<close>

text \<open>
  \<open>Search::lower_bound\<close> is not in this repository.  What the lookup relies on is its documented
  result: on a sequence that the predicate splits into a prefix that satisfies it and a rest that
  does not, it returns the length of the prefix.
\<close>

locale lower_bound_contract =
  fixes lb :: "('e \<Rightarrow> 'k \<Rightarrow> bool) \<Rightarrow> 'k \<Rightarrow> 'e list \<Rightarrow> nat"
  assumes split_point:
    "k \<le> length xs \<Longrightarrow> (\<And>i. i < k \<Longrightarrow> lt (xs ! i) key) \<Longrightarrow>
       (\<And>i. k \<le> i \<Longrightarrow> i < length xs \<Longrightarrow> \<not> lt (xs ! i) key) \<Longrightarrow> lb lt key xs = k"
begin

lemma drop_lb:
  assumes "\<And>i j. i < j \<Longrightarrow> j < length xs \<Longrightarrow> lt (xs ! j) key \<Longrightarrow> lt (xs ! i) key"
  shows "drop (lb lt key xs) xs = dropWhile (\<lambda>x. lt x key) xs"
proof -
  let ?k = "length (takeWhile (\<lambda>x. lt x key) xs)"
  have "lb lt key xs = ?k"
  proof (rule split_point)
    show "?k \<le> length xs" by (rule length_takeWhile_le)
    show "lt (xs ! i) key" if "i < ?k" for i
      using that by (metis nth_mem set_takeWhileD takeWhile_nth)
    show "\<not> lt (xs ! i) key" if "?k \<le> i" "i < length xs" for i
    proof
      assume "lt (xs ! i) key"
      then have "lt (xs ! ?k) key"
        using assms [of ?k i] that by (cases "?k = i") auto
      moreover have "?k < length xs" using that by simp
      ultimately show False using nth_length_takeWhile by blast
    qed
  qed
  then show ?thesis by (simp add: dropWhile_eq_drop)
qed

end

text \<open>The partition point itself, the instance the concrete evaluations use.\<close>

definition partition_point :: "('e \<Rightarrow> 'k \<Rightarrow> bool) \<Rightarrow> 'k \<Rightarrow> 'e list \<Rightarrow> nat" where
  "partition_point lt key xs = length (takeWhile (\<lambda>x. lt x key) xs)"

interpretation partition: lower_bound_contract partition_point
proof unfold_locales
  fix k and xs :: "'e list" and lt and key :: 'k
  assume k: "k \<le> length xs" "\<And>i. i < k \<Longrightarrow> lt (xs ! i) key"
    "\<And>i. k \<le> i \<Longrightarrow> i < length xs \<Longrightarrow> \<not> lt (xs ! i) key"
  have prefix: "\<forall>x \<in> set (take k xs). lt x key"
    using k by (auto simp: in_set_conv_nth)
  have "takeWhile (\<lambda>x. lt x key) (drop k xs) = []"
    using k(3) [of k] by (cases "k < length xs") (auto simp: Cons_nth_drop_Suc [symmetric])
  with prefix have "takeWhile (\<lambda>x. lt x key) (take k xs @ drop k xs) = take k xs"
    by (subst takeWhile_append2) auto
  then show "partition_point lt key xs = k"
    using k(1) by (simp add: partition_point_def)
qed

section \<open>Binary search finds what linear search finds\<close>

definition entry_matches :: "store_state \<Rightarrow> byte list \<Rightarrow> u32 \<Rightarrow> AssemblyStoreIndexEntry \<Rightarrow> bool" where
  "entry_matches st name hash e \<longleftrightarrow>
     ie_name_hash e = hash \<and> ie_descriptor_index e < rd_assembly_count (assembly_store st) \<and>
     name_matches name (assembly_store_names st ! unat (ie_descriptor_index e))"

lemma scan_run_sorted:
  assumes "sorted (map ie_name_hash es)" "\<forall>e \<in> set es. hash \<le> ie_name_hash e"
  shows "scan_run st name hash es = List.find (entry_matches st name hash) es"
  using assms
proof (induction es)
  case Nil
  then show ?case by simp
next
  case (Cons e es)
  show ?case
  proof (cases "ie_name_hash e = hash")
    case True
    with Cons show ?thesis by (simp add: entry_matches_def)
  next
    case False
    with Cons.prems have "hash < ie_name_hash e" by auto
    with Cons.prems have "\<forall>x \<in> set (e # es). ie_name_hash x \<noteq> hash" by fastforce
    then have "List.find (entry_matches st name hash) (e # es) = None"
      by (auto simp: find_None_iff entry_matches_def)
    with False show ?thesis by simp
  qed
qed

lemma find_dropWhile:
  "(\<And>x. P x \<Longrightarrow> \<not> Q x) \<Longrightarrow> List.find P (dropWhile Q xs) = List.find P xs"
  by (induction xs) auto

lemma find_entry_linear:
  assumes "lower_bound_contract (lower_bound env)" and "sorted (map ie_name_hash entries)"
  shows "find_assembly_store_entry env st name hash entries
       = List.find (entry_matches st name hash) entries"
proof -
  have mono: "less_than (entries ! i) hash" if "i < j" "j < length entries" "less_than (entries ! j) hash" for i j
  proof -
    have "ie_name_hash (entries ! i) \<le> ie_name_hash (entries ! j)"
      using assms(2) that by (simp add: sorted_iff_nth_mono_less)
    with that show ?thesis by (simp add: less_than_def)
  qed
  let ?rest = "dropWhile (\<lambda>e. less_than e hash) entries"
  have drop: "drop (lower_bound env less_than hash entries) entries = ?rest"
    by (rule lower_bound_contract.drop_lb [OF assms(1)]) (rule mono)
  have sorted: "sorted (map ie_name_hash ?rest)"
    using assms(2) by (metis dropWhile_eq_drop drop_map sorted_wrt_drop)
  have ge: "\<forall>e \<in> set ?rest. hash \<le> ie_name_hash e"
  proof (cases ?rest)
    case (Cons e es)
    then have "\<not> less_than e hash" by (metis dropWhile_eq_Cons_conv)
    with sorted Cons show ?thesis by (auto simp: less_than_def)
  next
    case Nil
    show ?thesis unfolding Nil by simp
  qed
  have "find_assembly_store_entry env st name hash entries = List.find (entry_matches st name hash) ?rest"
    by (simp add: find_assembly_store_entry_def drop scan_run_sorted [OF sorted ge])
  also have "\<dots> = List.find (entry_matches st name hash) entries"
    by (rule find_dropWhile) (auto simp: entry_matches_def less_than_def)
  finally show ?thesis .
qed

end
