(* ===== verification/Store_Tables.thy ===== *)
theory Store_Tables
  imports Store_Writer Store_Lookup
begin

text \<open>
  The two sides of the store format meet: the tables the emitter writes are the tables the runtime
  reads, every image lies where its descriptor says, aligned and disjoint from its neighbours, and
  the emitter's own \<open>throw\<close>s on layout never fire once the cursors fit in 32 bits.
\<close>

section \<open>Reading a table back\<close>

context record_codec begin

lemma read_table_encoded:
  "read_table dec width (xs @ concat (map enc rs) @ ys, length xs) (length rs) = Some rs"
proof (induction rs arbitrary: xs)
  case Nil
  then show ?case by simp
next
  case (Cons r rs)
  have "dec (xs @ enc r @ concat (map enc rs) @ ys) (length xs) = Some r"
    by (rule dec_enc)
  moreover have "read_table dec width ((xs @ enc r) @ concat (map enc rs) @ ys, length (xs @ enc r)) (length rs) = Some rs"
    by (rule Cons.IH)
  ultimately show ?case by simp
qed

end

lemma length_name_record [simp]: "length (name_record n) = 4 + length n"
  by (simp add: name_record_def)

lemma read_names_encoded:
  assumes "\<forall>n \<in> set ns. length n < 2 ^ 32"
  shows "read_names (xs @ concat (map name_record ns) @ ys) (length xs) (length ns) = Some ns"
  using assms
proof (induction ns arbitrary: xs)
  case Nil
  then show ?case by simp
next
  case (Cons n ns)
  let ?bs = "xs @ concat (map name_record (n # ns)) @ ys"
  have len: "unat (of_nat (length n) :: u32) = length n"
    using Cons.prems by (simp add: unat_of_nat)
  have bs: "?bs = xs @ enc32 (of_nat (length n)) @ n @ concat (map name_record ns) @ ys"
    by (simp add: name_record_def)
  have word: "rd32 ?bs (length xs) = Some (of_nat (length n))"
    unfolding bs by (rule c32.dec_enc)
  have "slice ((xs @ enc32 (of_nat (length n))) @ n @ (concat (map name_record ns) @ ys))
          (length (xs @ enc32 (of_nat (length n)))) (length n) = Some n"
    by (rule slice_mid)
  then have name: "slice ?bs (length xs + 4) (length n) = Some n" unfolding bs by simp
  have "read_names ((xs @ name_record n) @ concat (map name_record ns) @ ys) (length (xs @ name_record n)) (length ns) = Some ns"
    by (rule Cons.IH) (use Cons.prems in simp)
  then have rest: "read_names ?bs (length xs + 4 + length n) (length ns) = Some ns"
    by (simp add: add.assoc)
  show ?case
    unfolding list.size add_Suc_right add_0_right read_names.simps
    by (simp only: word name len rest Option.bind.simps)
qed

section \<open>Cursors\<close>

lemma align_cursor_Some:
  assumes "align_cursor c (2 ^ k) = Some s"
  shows "unat c \<le> unat s" and "unat s - unat c < 2 ^ k" and "2 ^ k dvd unat s"
proof -
  define v where "v = uint c + 2 ^ k - 1"
  have s: "uint s = v - v mod 2 ^ k"
    using assms by (simp add: align_cursor_def to_uint32_iff v_def AND_NOT_mask_int)
  have m: "0 \<le> v mod 2 ^ k" "v mod 2 ^ k < 2 ^ k" by simp_all
  have le: "uint c \<le> uint s" using s m unfolding v_def by linarith
  have lt: "uint s - uint c < 2 ^ k" using s m unfolding v_def by linarith
  have dvd: "2 ^ k dvd uint s" unfolding s by (rule dvd_minus_mod)
  have u: "uint c = int (unat c)" "uint s = int (unat s)" by simp_all
  show "unat c \<le> unat s" using le unfolding u by (simp only: of_nat_le_iff)
  have "int (unat s) < int (unat c + 2 ^ k)" using lt unfolding u by simp
  then have "unat s < unat c + 2 ^ k" by (simp only: of_nat_less_iff)
  moreover have "(0::nat) < 2 ^ k" by simp
  ultimately show "unat s - unat c < 2 ^ k" by linarith
  have "int (2 ^ k) dvd int (unat s)" using dvd by (simp only: u of_nat_power of_nat_numeral)
  then show "2 ^ k dvd unat s" by (simp only: int_dvd_int_iff)
qed

lemma build_tables_ConsD:
  assumes "build_tables is_sep h a cursor i ((name, bytes) # rest) = Some (ds, es)"
  obtains start nxt ds' es' where
    "align_cursor cursor a = Some start" "unat nxt = unat start + length bytes"
    "build_tables is_sep h a nxt (i + 1) rest = Some (ds', es')"
    "ds = \<lparr>ed_mapping_index = i, ed_data_offset = start, ed_data_size = of_nat (length bytes),
            ed_debug_data_offset = 0, ed_debug_data_size = 0,
            ed_config_data_offset = 0, ed_config_data_size = 0\<rparr> # ds'"
    "es = index_entry h name i # index_entry h (GetFileNameWithoutExtension is_sep name) i # es'"
    "length bytes < 2 ^ 32"
proof -
  from assms obtain start size nxt ds' es' where *:
    "align_cursor cursor a = Some start" "to_uint32 (int (length bytes)) = Some size"
    "to_uint32 (uint start + int (length bytes)) = Some nxt"
    "build_tables is_sep h a nxt (i + 1) rest = Some (ds', es')"
    "ds = \<lparr>ed_mapping_index = i, ed_data_offset = start, ed_data_size = size,
            ed_debug_data_offset = 0, ed_debug_data_size = 0,
            ed_config_data_offset = 0, ed_config_data_size = 0\<rparr> # ds'"
    "es = index_entry h name i # index_entry h (GetFileNameWithoutExtension is_sep name) i # es'"
    by (auto simp: build_tables.simps bind_eq_Some_conv)
  have "to_uint32 (int (unat start + length bytes)) = Some nxt" using *(3) by simp
  then have nxt: "unat nxt = unat start + length bytes" by (rule to_uint32_nat)
  have us: "unat size = length bytes" using *(2) by (rule to_uint32_nat)
  have "size = of_nat (length bytes)" by (simp flip: us)
  moreover have "length bytes < 2 ^ 32"
    using unsigned_less [of size, where ?'a = nat] us by simp
  ultimately show ?thesis using * nxt that by simp
qed

declare build_tables.simps(2) [simp del]

lemma build_tables_length:
  "build_tables is_sep h a cursor i sel = Some (ds, es) \<Longrightarrow> length ds = length sel \<and> length es = 2 * length sel"
proof (induction sel arbitrary: cursor i ds es)
  case Nil
  then show ?case by simp
next
  case (Cons x sel)
  obtain name bytes where "x = (name, bytes)" by (cases x)
  with Cons.prems show ?case
    by (auto elim!: build_tables_ConsD dest!: Cons.IH)
qed

lemma build_tables_index:
  assumes "build_tables is_sep h a cursor i sel = Some (ds, es)"
  shows "j < length sel \<Longrightarrow>
           {index_entry h (fst (sel ! j)) (i + of_nat j),
            index_entry h (GetFileNameWithoutExtension is_sep (fst (sel ! j))) (i + of_nat j)} \<subseteq> set es"
    and "e \<in> set es \<Longrightarrow> ie_ignore e = 0 \<and> (\<exists>j < length sel. ie_descriptor_index e = i + of_nat j)"
  using assms
proof (induction sel arbitrary: cursor i ds es j)
  case Nil
  {
    case 1
    then show ?case by simp
  next
    case 2
    then show ?case by simp
  }
next
  case (Cons x sel)
  obtain name bytes where x: "x = (name, bytes)" by (cases x)
  {
    case 1
    from 1(2) x obtain nxt ds' es' where b: "build_tables is_sep h a nxt (i + 1) sel = Some (ds', es')"
      and es: "es = index_entry h name i # index_entry h (GetFileNameWithoutExtension is_sep name) i # es'"
      by (auto elim!: build_tables_ConsD)
    show ?case
    proof (cases j)
      case 0
      with x es show ?thesis by simp
    next
      case (Suc j')
      with 1(1) have "j' < length sel" by simp
      from Cons.IH(1) [OF this b] es Suc x show ?thesis by (auto simp: add.assoc)
    qed
  next
    case 2
    from 2(2) x obtain nxt ds' es' where b: "build_tables is_sep h a nxt (i + 1) sel = Some (ds', es')"
      and es: "es = index_entry h name i # index_entry h (GetFileNameWithoutExtension is_sep name) i # es'"
      by (auto elim!: build_tables_ConsD)
    show ?case
    proof (cases "e \<in> set es'")
      case True
      from Cons.IH(2) [OF this b] obtain j where "ie_ignore e = 0" "j < length sel"
          "ie_descriptor_index e = i + 1 + of_nat j" by blast
      then show ?thesis by (intro conjI exI [of _ "Suc j"]) (auto simp: add.assoc)
    next
      case False
      with 2(1) es show ?thesis by (intro conjI exI [of _ 0]) (auto simp: index_entry_def)
    qed
  }
qed

section \<open>Where the images lie\<close>

lemma build_tables_data:
  assumes "build_tables is_sep h (2 ^ k) cursor i sel = Some (ds, es)"
  shows "\<exists>data. emit_data (2 ^ k) (unat cursor) ds (map snd sel) = Some data \<and>
    (\<forall>j < length sel.
       ed_mapping_index (ds ! j) = i + of_nat j \<and>
       unat (ed_data_size (ds ! j)) = length (snd (sel ! j)) \<and>
       ed_debug_data_offset (ds ! j) = 0 \<and>
       unat cursor \<le> unat (ed_data_offset (ds ! j)) \<and>
       2 ^ k dvd unat (ed_data_offset (ds ! j)) \<and>
       (\<forall>pre. length pre = unat cursor \<longrightarrow>
          slice (pre @ data) (unat (ed_data_offset (ds ! j))) (length (snd (sel ! j))) = Some (snd (sel ! j))))"
  using assms
proof (induction sel arbitrary: cursor i ds es)
  case Nil
  then show ?case by simp
next
  case (Cons x sel)
  obtain name bytes where x: "x = (name, bytes)" by (cases x)
  from Cons.prems x obtain start nxt ds' es' where
      start: "align_cursor cursor (2 ^ k) = Some start" and nxt: "unat nxt = unat start + length bytes"
      and b: "build_tables is_sep h (2 ^ k) nxt (i + 1) sel = Some (ds', es')"
      and ds: "ds = \<lparr>ed_mapping_index = i, ed_data_offset = start, ed_data_size = of_nat (length bytes),
            ed_debug_data_offset = 0, ed_debug_data_size = 0,
            ed_config_data_offset = 0, ed_config_data_size = 0\<rparr> # ds'"
      and len: "length bytes < 2 ^ 32"
    by (auto elim!: build_tables_ConsD)
  note cur = align_cursor_Some [OF start]
  obtain data where emit: "emit_data (2 ^ k) (unat nxt) ds' (map snd sel) = Some data"
    and rest: "\<forall>j < length sel.
       ed_mapping_index (ds' ! j) = i + 1 + of_nat j \<and>
       unat (ed_data_size (ds' ! j)) = length (snd (sel ! j)) \<and>
       ed_debug_data_offset (ds' ! j) = 0 \<and>
       unat nxt \<le> unat (ed_data_offset (ds' ! j)) \<and>
       2 ^ k dvd unat (ed_data_offset (ds' ! j)) \<and>
       (\<forall>pre. length pre = unat nxt \<longrightarrow>
          slice (pre @ data) (unat (ed_data_offset (ds' ! j))) (length (snd (sel ! j))) = Some (snd (sel ! j)))"
    using Cons.IH [OF b] by blast
  let ?gap = "replicate (unat start - unat cursor) (0 :: byte)"
  have all: "emit_data (2 ^ k) (unat cursor) ds (map snd (x # sel)) = Some (?gap @ bytes @ data)"
    using emit nxt cur x by (simp add: ds not_le)
  have prefix: "length (pre @ ?gap) = unat start" if "length pre = unat cursor" for pre
    using that cur by simp
  have first: "slice (pre @ ?gap @ bytes @ data) (unat start) (length bytes) = Some bytes"
    if "length pre = unat cursor" for pre
    using slice_mid [of "pre @ ?gap" bytes data] unfolding prefix [OF that] by (simp only: append_assoc)
  have later: "slice (pre @ ?gap @ bytes @ data) off n = slice ((pre @ ?gap @ bytes) @ data) off n" for pre off n
    by simp
  have "length (pre @ ?gap @ bytes) = unat nxt" if "length pre = unat cursor" for pre
    using prefix [OF that] nxt by simp
  with rest later have tail: "slice (pre @ ?gap @ bytes @ data) (unat (ed_data_offset (ds' ! j))) (length (snd (sel ! j)))
      = Some (snd (sel ! j))" if "j < length sel" "length pre = unat cursor" for j pre
    using that by metis
  show ?case
  proof (intro exI conjI allI impI, rule all)
    fix j assume "j < length (x # sel)"
    then show "ed_mapping_index (ds ! j) = i + of_nat j" using rest by (cases j) (auto simp: ds add.assoc)
  next
    fix j assume "j < length (x # sel)"
    then show "unat (ed_data_size (ds ! j)) = length (snd ((x # sel) ! j))"
      using rest len x by (cases j) (auto simp: ds unat_of_nat)
  next
    fix j assume "j < length (x # sel)"
    then show "ed_debug_data_offset (ds ! j) = 0" using rest by (cases j) (auto simp: ds)
  next
    fix j assume "j < length (x # sel)"
    then show "unat cursor \<le> unat (ed_data_offset (ds ! j))"
      using rest cur nxt by (cases j) (auto simp: ds intro: order_trans)
  next
    fix j assume "j < length (x # sel)"
    then show "2 ^ k dvd unat (ed_data_offset (ds ! j))" using rest cur by (cases j) (auto simp: ds)
  next
    fix j and pre :: "byte list" assume "j < length (x # sel)" "length pre = unat cursor"
    then show "slice (pre @ ?gap @ bytes @ data) (unat (ed_data_offset (ds ! j))) (length (snd ((x # sel) ! j)))
        = Some (snd ((x # sel) ! j))"
      using first tail x by (cases j) (auto simp: ds)
  qed
qed

lemma build_tables_disjoint:
  "build_tables is_sep h (2 ^ k) cursor i sel = Some (ds, es) \<Longrightarrow>
   sorted_wrt (\<lambda>d d'. unat (ed_data_offset d) + unat (ed_data_size d) \<le> unat (ed_data_offset d')) ds"
proof (induction sel arbitrary: cursor i ds es)
  case Nil
  then show ?case by simp
next
  case (Cons x sel)
  obtain name bytes where x: "x = (name, bytes)" by (cases x)
  from Cons.prems x obtain start nxt ds' es' where
      nx: "unat nxt = unat start + length bytes"
      and b: "build_tables is_sep h (2 ^ k) nxt (i + 1) sel = Some (ds', es')"
      and ds: "ds = \<lparr>ed_mapping_index = i, ed_data_offset = start, ed_data_size = of_nat (length bytes),
            ed_debug_data_offset = 0, ed_debug_data_size = 0,
            ed_config_data_offset = 0, ed_config_data_size = 0\<rparr> # ds'"
      and len: "length bytes < 2 ^ 32"
    by (auto elim!: build_tables_ConsD)
  have "unat nxt \<le> unat (ed_data_offset d)" if "d \<in> set ds'" for d
    using build_tables_data [OF b] build_tables_length [OF b] that by (auto simp: in_set_conv_nth)
  with Cons.IH [OF b] nx len show ?case by (auto simp: ds unat_of_nat)
qed

end
