(* ===== verification/Store_Roundtrip.thy ===== *)
theory Store_Roundtrip
  imports Store_Tables
begin

text \<open>
  The emitter and the runtime together: a store that \<open>New-AssemblyStoreBytes\<close> writes is accepted by
  \<open>configure_from_payload\<close>, and \<open>open_assembly\<close> returns the image that was put in, for the file name
  and for the name without its extension.
\<close>

section \<open>The parts of an emitted store\<close>

definition store_header :: "abi \<Rightarrow> nat \<Rightarrow> AssemblyStoreHeader" where
  "store_header abi n = \<lparr>sh_magic = ASSEMBLY_STORE_MAGIC, sh_version = ASSEMBLY_STORE_FORMAT_VERSION abi,
     sh_entry_count = of_nat n, sh_index_entry_count = of_nat (2 * n),
     sh_index_size = of_nat (2 * n * sizeof_index_entry), sh_content_id = 0\<rparr>"

text \<open>The metadata and the images of a store, with the tables they were built from.\<close>

definition store_parts ::
  "abi \<Rightarrow> (byte \<Rightarrow> bool) \<Rightarrow> (byte list \<Rightarrow> u32) \<Rightarrow> nat \<Rightarrow> selection \<Rightarrow>
    AssemblyStoreEntryDescriptor list \<Rightarrow> AssemblyStoreIndexEntry list \<Rightarrow> byte list \<Rightarrow> byte list \<Rightarrow> u32 \<Rightarrow> bool" where
  "store_parts abi is_sep h a sel ds es metadata data cursor \<longleftrightarrow>
     build_tables is_sep h a cursor 0 sel = Some (ds, es) \<and>
     emit_data a (unat cursor) ds (map snd sel) = Some data \<and>
     metadata = enc_header (store_header abi (length sel)) @ concat (map enc_index_entry (sorted_index es)) @
       concat (map enc_descriptor ds) @ concat (map (name_record \<circ> fst) sel) \<and>
     length metadata = unat cursor \<and>
     2 * length sel * sizeof_index_entry < 2 ^ 32"

lemma to_uint32_of_nat: "to_uint32 (int n) = Some w \<longleftrightarrow> w = of_nat n \<and> n < 2 ^ 32"
proof
  assume "to_uint32 (int n) = Some w"
  then have u: "unat w = n" by (rule to_uint32_nat)
  then have "w = of_nat n" by (simp flip: u)
  moreover have "n < 2 ^ 32" using unsigned_less [of w, where ?'a = nat] u by simp
  ultimately show "w = of_nat n \<and> n < 2 ^ 32" by simp
qed (auto simp: to_uint32_def)

lemma written_version:
  "to_uint32 (int (xc_formatVersion producer_contract)) = Some f \<Longrightarrow>
   to_uint32 (int (Get_Store64BitFlag producer_contract abi)) = Some b \<Longrightarrow>
   f OR b OR ASSEMBLY_STORE_ABI abi = ASSEMBLY_STORE_FORMAT_VERSION abi"
  by (auto simp: to_uint32_def producer_contract_def Get_Store64BitFlag_def
      ASSEMBLY_STORE_FORMAT_VERSION_def ASSEMBLY_STORE_64BIT_FLAG_def)

lemma emitted_store_parts:
  assumes "New_AssemblyStoreBytes producer_contract abi is_sep h a sel = Some store"
  obtains ds es metadata data cursor where
    "store = metadata @ data" "store_parts abi is_sep h a sel ds es metadata data cursor"
proof -
  let ?n = "length sel"
  from assms obtain m f b ec ic isz cursor tables data where
    m: "to_uint32 (int (xc_magic producer_contract)) = Some m" and
    f: "to_uint32 (int (xc_formatVersion producer_contract)) = Some f" and
    b: "to_uint32 (int (Get_Store64BitFlag producer_contract abi)) = Some b" and
    ec: "to_uint32 (int ?n) = Some ec" and
    ic: "to_uint32 (2 * int ?n) = Some ic" and
    isz: "to_uint32 (2 * int ?n * int sizeof_index_entry) = Some isz" and
    cu: "to_uint32 (int (sizeof_header + 2 * ?n * sizeof_index_entry + ?n * sizeof_descriptor +
            sum_list (map (\<lambda>(name, _). 4 + length name) sel))) = Some cursor" and
    tb: "build_tables is_sep h a cursor 0 sel = Some tables" and
    len: "length (enc_header \<lparr>sh_magic = m, sh_version = f OR b OR ASSEMBLY_STORE_ABI abi, sh_entry_count = ec,
                   sh_index_entry_count = ic, sh_index_size = isz, sh_content_id = 0\<rparr> @
           concat (map enc_index_entry (sorted_index (snd tables))) @
           concat (map enc_descriptor (fst tables)) @ concat (map (name_record \<circ> fst) sel))
         = sizeof_header + 2 * ?n * sizeof_index_entry + ?n * sizeof_descriptor +
            sum_list (map (\<lambda>(name, _). 4 + length name) sel)" and
    em: "emit_data a (sizeof_header + 2 * ?n * sizeof_index_entry + ?n * sizeof_descriptor +
            sum_list (map (\<lambda>(name, _). 4 + length name) sel)) (fst tables) (map snd sel) = Some data" and
    st: "store = (enc_header \<lparr>sh_magic = m, sh_version = f OR b OR ASSEMBLY_STORE_ABI abi, sh_entry_count = ec,
                   sh_index_entry_count = ic, sh_index_size = isz, sh_content_id = 0\<rparr> @
           concat (map enc_index_entry (sorted_index (snd tables))) @
           concat (map enc_descriptor (fst tables)) @ concat (map (name_record \<circ> fst) sel)) @ data"
    unfolding New_AssemblyStoreBytes_def contract_sizes Option.bind.simps Let_def
    by (auto simp del: append_assoc simp: bind_eq_Some_conv split: if_splits)
  have "m = ASSEMBLY_STORE_MAGIC"
    using m by (simp add: to_uint32_def producer_contract_def ASSEMBLY_STORE_MAGIC_def)
  moreover have "ec = of_nat ?n" using ec by (simp add: to_uint32_of_nat)
  moreover have "ic = of_nat (2 * ?n)" using ic to_uint32_of_nat [of "2 * ?n" ic] by simp
  moreover have "isz = of_nat (2 * ?n * sizeof_index_entry)" "2 * ?n * sizeof_index_entry < 2 ^ 32"
    using isz to_uint32_of_nat [of "2 * ?n * sizeof_index_entry" isz] by simp_all
  moreover note written_version [OF f b]
  moreover note cur = to_uint32_nat [OF cu]
  ultimately have parts: "store_parts abi is_sep h a sel (fst tables) (snd tables)
     (enc_header (store_header abi ?n) @ concat (map enc_index_entry (sorted_index (snd tables))) @
       concat (map enc_descriptor (fst tables)) @ concat (map (name_record \<circ> fst) sel)) data cursor"
    using tb em len unfolding store_parts_def store_header_def by simp
  show thesis
    by (rule that [OF _ parts]) (use st \<open>m = _\<close> \<open>ec = _\<close> \<open>ic = _\<close> \<open>isz = _\<close> written_version [OF f b]
        in \<open>simp add: store_header_def\<close>)
qed

section \<open>What the runtime sees\<close>

lemma index_length: "build_tables is_sep h a c i sel = Some (ds, es) \<Longrightarrow> length (sorted_index es) = 2 * length sel"
  using build_tables_length by (simp add: sorted_index_def)

lemma store_parts_bounds:
  assumes "store_parts abi is_sep h a sel ds es metadata data cursor"
  shows "length sel < 2 ^ 28" "unat (of_nat (length sel) :: u32) = length sel"
    "unat (of_nat (2 * length sel) :: u32) = 2 * length sel"
    "unat (of_nat (2 * length sel * sizeof_index_entry) :: u32) = 2 * length sel * sizeof_index_entry"
    "\<forall>n \<in> set (map fst sel). length n < 2 ^ 32"
proof -
  have n: "2 * length sel * 9 < 2 ^ 32" using assms by (simp add: store_parts_def sizeof_defs)
  then show "length sel < 2 ^ 28" by simp
  then show "unat (of_nat (length sel) :: u32) = length sel"
    "unat (of_nat (2 * length sel) :: u32) = 2 * length sel"
    by (simp_all only: unat_of_nat) simp_all
  show "unat (of_nat (2 * length sel * sizeof_index_entry) :: u32) = 2 * length sel * sizeof_index_entry"
    using n by (simp only: unat_of_nat sizeof_defs) simp
  show "\<forall>n \<in> set (map fst sel). length n < 2 ^ 32"
  proof
    fix n assume "n \<in> set (map fst sel)"
    then have "length (name_record n) \<in> set (map (length \<circ> name_record) (map fst sel))"
      by (simp only: list.set_map) (rule rev_image_eqI, assumption, simp)
    then have "length (name_record n) \<le> length (concat (map (name_record \<circ> fst) sel))"
      using member_le_sum_list by (fastforce simp: length_concat comp_def simp del: length_name_record)
    also have "\<dots> \<le> unat cursor" using assms by (auto simp: store_parts_def)
    also have "\<dots> < 2 ^ 32" using unsigned_less [of cursor, where ?'a = nat] by simp
    finally show "length n < 2 ^ 32" by simp
  qed
qed

definition configured :: "store_state \<Rightarrow> byte list \<Rightarrow> selection \<Rightarrow> store_state" where
  "configured st payload sel = st\<lparr>assembly_store :=
       \<lparr>rd_data_start = (payload, 0), rd_assembly_count = of_nat (length sel),
        rd_index_entry_count = of_nat (2 * length sel),
        rd_assemblies = (payload, sizeof_header + 2 * length sel * sizeof_index_entry)\<rparr>,
     assembly_store_hashes := Some (payload, sizeof_header),
     assembly_store_names := map fst sel\<rparr>"

lemma configured_fields [simp]:
  "assembly_store (configured st payload sel) =
     \<lparr>rd_data_start = (payload, 0), rd_assembly_count = of_nat (length sel),
      rd_index_entry_count = of_nat (2 * length sel),
      rd_assemblies = (payload, sizeof_header + 2 * length sel * sizeof_index_entry)\<rparr>"
  "assembly_store_hashes (configured st payload sel) = Some (payload, sizeof_header)"
  "assembly_store_names (configured st payload sel) = map fst sel"
  "bundled_assemblies (configured st payload sel) = bundled_assemblies st"
  by (simp_all add: configured_def)

lemma configure_parts:
  assumes parts: "store_parts (env_abi env) is_sep h a sel ds es metadata data cursor"
    and "calloc_ok env (length sel)"
  shows "configure_from_payload env st (metadata @ rest) = Inr (configured st (metadata @ rest) sel)"
proof -
  let ?h = "store_header (env_abi env) (length sel)"
  let ?index = "concat (map enc_index_entry (sorted_index es))"
  let ?table = "concat (map enc_descriptor ds)"
  let ?names = "concat (map name_record (map fst sel))"
  have bt: "build_tables is_sep h a cursor 0 sel = Some (ds, es)"
    and md: "metadata @ rest = enc_header ?h @ ?index @ ?table @ ?names @ rest"
    using parts by (simp_all add: store_parts_def)
  note bounds = store_parts_bounds [OF parts]
  have header: "dec_header (metadata @ rest) 0 = Some ?h"
    using header_codec.dec_enc [of "[]" ?h] by (simp add: md)
  have il: "length ?index = 2 * length sel * sizeof_index_entry"
    using index_length [OF bt] by (simp add: index_codec.table_length)
  have dl: "length ?table = length sel * sizeof_descriptor"
    using build_tables_length [OF bt] by (simp add: descriptor_codec.table_length)
  have "read_names ((enc_header ?h @ ?index @ ?table) @ ?names @ rest)
          (length (enc_header ?h @ ?index @ ?table)) (length (map fst sel)) = Some (map fst sel)"
    by (rule read_names_encoded) (rule bounds)
  then have names: "read_names (metadata @ rest)
      (sizeof_header + 2 * length sel * sizeof_index_entry + length sel * sizeof_descriptor) (length sel)
      = Some (map fst sel)"
    using il dl md by (simp add: add.assoc)
  show ?thesis
    using assms(2) names bounds
    by (simp add: configure_from_payload_def header Let_def configured_def
        store_header_def del: of_nat_mult of_nat_numeral)
qed

lemma configured_index:
  assumes parts: "store_parts abi is_sep h a sel ds es metadata data cursor"
  shows "index_table (configured st (metadata @ rest) sel) = Some (sorted_index es)"
proof -
  have bt: "build_tables is_sep h a cursor 0 sel = Some (ds, es)"
    and md: "metadata @ rest = enc_header (store_header abi (length sel)) @
        concat (map enc_index_entry (sorted_index es)) @ (concat (map enc_descriptor ds) @
        concat (map (name_record \<circ> fst) sel) @ rest)"
    using parts by (simp_all add: store_parts_def)
  show ?thesis
    using index_codec.read_table_encoded [of "enc_header (store_header abi (length sel))" "sorted_index es"]
      store_parts_bounds(3) [OF parts]
    unfolding index_table_def configured_def
    by (simp add: md index_length [OF bt] del: of_nat_mult of_nat_numeral)
qed

lemma configured_descriptor:
  assumes parts: "store_parts abi is_sep h a sel ds es metadata data cursor" and "j < length sel"
  shows "dec_descriptor (metadata @ rest) (sizeof_header + 2 * length sel * sizeof_index_entry + sizeof_descriptor * j)
       = Some (ds ! j)"
proof -
  let ?pre = "enc_header (store_header abi (length sel)) @ concat (map enc_index_entry (sorted_index es))"
  have bt: "build_tables is_sep h a cursor 0 sel = Some (ds, es)"
    and md: "metadata @ rest = ?pre @ concat (map enc_descriptor ds) @
        (concat (map (name_record \<circ> fst) sel) @ rest)"
    using parts by (simp_all add: store_parts_def)
  have "length ?pre = sizeof_header + 2 * length sel * sizeof_index_entry"
    using index_length [OF bt] by (simp add: index_codec.table_length)
  then show ?thesis
    using descriptor_codec.table_nth [of j ds ?pre] assms(2) build_tables_length [OF bt]
    unfolding md by metis
qed

section \<open>Finding and serving a written image\<close>

lemma sorted_index_sorted: "sorted (map ie_name_hash (sorted_index es))"
proof -
  have "sorted (map (\<lambda>e. (ie_name_hash e, ie_descriptor_index e)) (sorted_index es))"
    by (simp add: sorted_index_def)
  then have "sorted_wrt (\<lambda>x y. (ie_name_hash x, ie_descriptor_index x) \<le> (ie_name_hash y, ie_descriptor_index y)) (sorted_index es)"
    by (simp only: sorted_map)
  then have "sorted_wrt (\<lambda>x y. ie_name_hash x \<le> ie_name_hash y) (sorted_index es)"
    by (rule sorted_wrt_mono_rel [rotated]) (auto simp: less_eq_prod_def)
  then show ?thesis by (simp only: sorted_map)
qed

lemma find_SomeD: "List.find P xs = Some x \<Longrightarrow> x \<in> set xs" "List.find P xs = Some x \<Longrightarrow> P x"
  by (induction xs) (auto split: if_splits)

lemma found_entry:
  assumes lb: "lower_bound_contract (lower_bound env)"
    and parts: "store_parts abi is_sep (crc32_hash env) a sel ds es metadata data cursor"
    and j: "j < length sel" "sel ! j = (name, img)"
    and req: "requested \<in> {name, GetFileNameWithoutExtension is_sep name}" "name_matches requested name"
    and uniq: "\<forall>i < length sel. name_matches requested (fst (sel ! i)) \<longrightarrow> i = j"
  shows "\<exists>e. find_assembly_store_entry env (configured st payload sel) requested (crc32_hash env requested) (sorted_index es) = Some e \<and>
    ie_descriptor_index e = of_nat j \<and> ie_ignore e = 0"
proof -
  let ?st = "configured st payload sel"
  let ?P = "entry_matches ?st requested (crc32_hash env requested)"
  have bt: "build_tables is_sep (crc32_hash env) a cursor 0 sel = Some (ds, es)"
    using parts by (simp add: store_parts_def)
  note n = store_parts_bounds(1) [OF parts]
  have word: "unat (of_nat i :: u32) = i" if "i < length sel" for i
    using that n by (simp add: unat_of_nat)
  have shape: "\<exists>i < length sel. ie_descriptor_index e = of_nat i \<and> ie_ignore e = 0" if "e \<in> set es" for e
    using build_tables_index(2) [OF bt that] by auto
  have iff: "?P e \<longleftrightarrow> ie_name_hash e = crc32_hash env requested \<and> name_matches requested (fst (sel ! i))"
    if "ie_descriptor_index e = of_nat i" "i < length sel" for e i
    using that word n by (auto simp: entry_matches_def configured_def word_less_nat_alt unat_of_nat)
  have "index_entry (crc32_hash env) requested (of_nat j) \<in> set es"
    using build_tables_index(1) [OF bt j(1)] req(1) j(2) by auto
  moreover have "?P (index_entry (crc32_hash env) requested (of_nat j))"
    using iff [OF _ j(1)] j(2) req(2) by (simp add: index_entry_def)
  ultimately have "List.find ?P (sorted_index es) \<noteq> None"
    by (auto simp: find_None_iff sorted_index_def)
  then obtain e where e: "List.find ?P (sorted_index es) = Some e" by blast
  then have "e \<in> set es" "?P e"
    using find_SomeD [OF e] by (simp_all add: sorted_index_def)
  then obtain i where i: "i < length sel" "ie_descriptor_index e = of_nat i" "ie_ignore e = 0"
    using shape by blast
  with iff \<open>?P e\<close> uniq have "i = j" by blast
  with e i show ?thesis
    using find_entry_linear [OF lb sorted_index_sorted] by auto
qed

lemma open_written:
  assumes lb: "lower_bound_contract (lower_bound env)"
    and parts: "store_parts (env_abi env) is_sep (crc32_hash env) (2 ^ k) sel ds es metadata data cursor"
    and j: "j < length sel" "sel ! j = (name, img)"
    and req: "requested \<in> {name, GetFileNameWithoutExtension is_sep name}" "name_matches requested name"
    and uniq: "\<forall>i < length sel. name_matches requested (fst (sel ! i)) \<longrightarrow> i = j"
    and room: "j < length (bundled_assemblies st)" "sa_image_data (bundled_assemblies st ! j) = None"
    and heap: "malloc_ok env (length img)"
    and raw: "env_release env \<longrightarrow> (\<exists>m. rd32 img 0 = Some m \<and> m \<noteq> COMPRESSED_DATA_MAGIC) \<and> 12 \<le> length img"
  shows "\<exists>st'. open_assembly env (configured st (metadata @ data @ rest) sel) requested size0
       = Inr ((Some (RwCopy img), of_nat (length img)), st')"
proof -
  let ?payload = "metadata @ data @ rest"
  let ?st = "configured st ?payload sel"
  let ?d = "ds ! j"
  note n = store_parts_bounds(1) [OF parts]
  have word: "unat (of_nat j :: u32) = j" using j(1) n by (simp add: unat_of_nat)
  have bt: "build_tables is_sep (crc32_hash env) (2 ^ k) cursor 0 sel = Some (ds, es)"
    and em: "emit_data (2 ^ k) (unat cursor) ds (map snd sel) = Some data"
    and ml: "length metadata = unat cursor"
    using parts unfolding store_parts_def by blast+
  have data: "ed_mapping_index ?d = of_nat j" "unat (ed_data_size ?d) = length img"
      "slice (metadata @ data) (unat (ed_data_offset ?d)) (length img) = Some img"
    using build_tables_data [OF bt] em ml j by auto
  then have at_img: "slice ?payload (unat (ed_data_offset ?d)) (length img) = Some img"
    by (metis append_assoc slice_Some_iff slice_append_left)
  obtain e where find: "find_assembly_store_entry env ?st requested (crc32_hash env requested) (sorted_index es) = Some e"
    and e: "ie_descriptor_index e = of_nat j" "ie_ignore e = 0"
    using found_entry [OF lb parts j req uniq] by blast
  have index: "index_table ?st = Some (sorted_index es)"
    using configured_index [OF parts] by simp
  have desc: "dec_descriptor ?payload (sizeof_header + 2 * length sel * sizeof_index_entry + sizeof_descriptor * j) = Some ?d"
    using configured_descriptor [OF parts j(1)] by simp
  let ?info = "map_assembly (assembly_store ?st) ?d (bundled_assemblies st ! j)"
  let ?st' = "?st\<lparr>bundled_assemblies := (bundled_assemblies st)[j := ?info]\<rparr>"
  have serve: "get_assembly_data env ?st' ?info = Inr ((RwCopy img, ed_data_size ?d), ?st')"
  proof -
    have copy: "copy_data env ?st' (?payload, unat (ed_data_offset ?d)) ?d = Inr ((RwCopy img, ed_data_size ?d), ?st')"
      using heap data(2) at_img by (simp add: copy_data_def load_bytes_def)
    have info: "sa_image_data ?info = Some (?payload, unat (ed_data_offset ?d))" "sa_descriptor ?info = Some ?d"
      by (simp_all add: map_assembly_def configured_def Let_def)
    show ?thesis
    proof (cases "env_release env")
      case False
      with copy info show ?thesis by (simp add: get_assembly_data_def)
    next
      case True
      with raw obtain m where m: "rd32 img 0 = Some m" "m \<noteq> COMPRESSED_DATA_MAGIC" and l: "12 \<le> length img" by blast
      have word_at: "rd32 ?payload (unat (ed_data_offset ?d) + q) = rd32 img q" if "q + 4 \<le> length img" for q
        using slice_slice [OF at_img that] by (simp add: rd32_def rd_def)
      have here: "rd32 ?payload (unat (ed_data_offset ?d)) = Some m" using word_at [of 0] m l by simp
      have "rd32 img 4 \<noteq> None" "rd32 img 8 \<noteq> None"
        using l by (simp_all add: rd32_def rd_def slice_def)
      with word_at [of 4] word_at [of 8] l obtain h where
        "dec_compressed_header ?payload (unat (ed_data_offset ?d)) = Some h" "ch_magic h = m"
        by (fastforce simp: dec_compressed_header_def here)
      with True m copy info show ?thesis by (simp add: get_assembly_data_def)
    qed
  qed
  have size: "(ucast (ed_data_size ?d) :: u64) = of_nat (length img)"
    using data(2) by (metis of_nat_unat)
  have "of_nat j < (of_nat (length sel) :: u32)"
    using j(1) n word by (simp add: word_less_nat_alt unat_of_nat)
  then show ?thesis
    using e room serve desc size data(1) word
    by (simp add: open_assembly_def index find Let_def del: of_nat_mult of_nat_numeral)
qed

section \<open>The emitter's own checks\<close>

definition data_start_of :: "selection \<Rightarrow> nat" where
  "data_start_of sel = sizeof_header + 2 * length sel * sizeof_index_entry + length sel * sizeof_descriptor +
     sum_list (map (\<lambda>(name, _). 4 + length name) sel)"

lemma metadata_length:
  assumes "build_tables is_sep h a c 0 sel = Some (ds, es)"
  shows "length (enc_header r @ concat (map enc_index_entry (sorted_index es)) @
      concat (map enc_descriptor ds) @ concat (map (name_record \<circ> fst) sel)) = data_start_of sel"
proof -
  have "length (concat (map (name_record \<circ> fst) sel)) = sum_list (map (\<lambda>(name, _). 4 + length name) sel)"
    by (simp add: length_concat comp_def case_prod_unfold)
  then show ?thesis
    using index_length [OF assms] build_tables_length [OF assms]
    by (simp add: data_start_of_def index_codec.table_length descriptor_codec.table_length)
qed

lemma emitter_layout_ok:
  assumes "data_start_of sel < 2 ^ 32"
    and "build_tables is_sep h (2 ^ k) (of_nat (data_start_of sel)) 0 sel = Some tables"
  shows "New_AssemblyStoreBytes producer_contract abi is_sep h (2 ^ k) sel \<noteq> None"
proof -
  let ?n = "length sel"
  obtain ds es where tables: "tables = (ds, es)" by (cases tables)
  note bt = assms(2) [unfolded tables]
  have small: "2 * ?n * sizeof_index_entry < 2 ^ 32" "2 * ?n < 2 ^ 32" "?n < 2 ^ 32"
    using assms(1) by (simp_all add: data_start_of_def sizeof_defs)
  have conv: "to_uint32 (int (data_start_of sel)) = Some (of_nat (data_start_of sel))"
    "to_uint32 (int ?n) = Some (of_nat ?n)" "to_uint32 (2 * int ?n) = Some (of_nat (2 * ?n))"
    "to_uint32 (2 * int ?n * int sizeof_index_entry) = Some (of_nat (2 * ?n * sizeof_index_entry))"
    using to_uint32_of_nat [of "data_start_of sel"] to_uint32_of_nat [of ?n] to_uint32_of_nat [of "2 * ?n"]
      to_uint32_of_nat [of "2 * ?n * sizeof_index_entry"] assms(1) small by simp_all
  have contract: "\<exists>m. to_uint32 (int (xc_magic producer_contract)) = Some m"
    "\<exists>f. to_uint32 (int (xc_formatVersion producer_contract)) = Some f"
    "\<exists>b. to_uint32 (int (Get_Store64BitFlag producer_contract abi)) = Some b"
    by (simp_all add: producer_contract_def Get_Store64BitFlag_def to_uint32_def)
  have cursor: "unat (of_nat (data_start_of sel) :: u32) = data_start_of sel"
    using assms(1) by (simp add: unat_of_nat)
  obtain data where em: "emit_data (2 ^ k) (data_start_of sel) ds (map snd sel) = Some data"
    using build_tables_data [OF bt] unfolding cursor by blast
  show ?thesis
    using conv contract bt em metadata_length [OF bt]
    unfolding New_AssemblyStoreBytes_def contract_sizes Option.bind.simps Let_def data_start_of_def [symmetric]
    by (auto simp: tables simp del: length_append)
qed


text \<open>
  A store is only opened by the ABI it was built for: configuring a store of another ABI aborts
  with the two version words.
\<close>

theorem wrong_abi_rejected:
  assumes "New_AssemblyStoreBytes producer_contract abi is_sep h a sel = Some store" "abi \<noteq> env_abi env"
  shows "configure_from_payload env st (store @ rest) =
    Inl (WrongFormatVersion (ASSEMBLY_STORE_FORMAT_VERSION abi) (ASSEMBLY_STORE_FORMAT_VERSION (env_abi env)))"
proof -
  obtain ds es metadata data cursor where
    "store = metadata @ data" and parts: "store_parts abi is_sep h a sel ds es metadata data cursor"
    by (rule emitted_store_parts [OF assms(1)])
  then obtain tail where "store @ rest = enc_header (store_header abi (length sel)) @ tail"
    by (auto simp: store_parts_def)
  then have header: "dec_header (store @ rest) 0 = Some (store_header abi (length sel))"
    using header_codec.dec_enc [of "[]"] by simp
  have "ASSEMBLY_STORE_FORMAT_VERSION abi \<noteq> ASSEMBLY_STORE_FORMAT_VERSION (env_abi env)"
    using assms(2) by (cases abi; cases "env_abi env") (simp_all add: format_version_values)
  then show ?thesis by (simp add: configure_from_payload_def header store_header_def)
qed

text \<open>
  C2. Every image the emitter writes starts at a multiple of the alignment, after the metadata, at
  the offset and with the size its descriptor records, and consecutive images do not overlap.
\<close>

theorem images_aligned_and_disjoint:
  assumes "New_AssemblyStoreBytes producer_contract abi is_sep h (2 ^ k) sel = Some store"
  shows "\<exists>ds. length ds = length sel \<and>
    (\<forall>j < length sel.
       dec_descriptor store (sizeof_header + 2 * length sel * sizeof_index_entry + sizeof_descriptor * j) = Some (ds ! j) \<and>
       2 ^ k dvd unat (ed_data_offset (ds ! j)) \<and>
       data_start_of sel \<le> unat (ed_data_offset (ds ! j)) \<and>
       slice store (unat (ed_data_offset (ds ! j))) (unat (ed_data_size (ds ! j))) = Some (snd (sel ! j))) \<and>
    sorted_wrt (\<lambda>d d'. unat (ed_data_offset d) + unat (ed_data_size d) \<le> unat (ed_data_offset d')) ds"
proof -
  obtain ds es metadata data cursor where
    st: "store = metadata @ data" and parts: "store_parts abi is_sep h (2 ^ k) sel ds es metadata data cursor"
    by (rule emitted_store_parts [OF assms])
  then have bt: "build_tables is_sep h (2 ^ k) cursor 0 sel = Some (ds, es)"
    and em: "emit_data (2 ^ k) (unat cursor) ds (map snd sel) = Some data"
    and ml: "length metadata = unat cursor"
    and md: "length metadata = data_start_of sel"
    using metadata_length unfolding store_parts_def by blast+
  have "\<forall>j < length sel.
       dec_descriptor store (sizeof_header + 2 * length sel * sizeof_index_entry + sizeof_descriptor * j) = Some (ds ! j) \<and>
       2 ^ k dvd unat (ed_data_offset (ds ! j)) \<and>
       data_start_of sel \<le> unat (ed_data_offset (ds ! j)) \<and>
       slice store (unat (ed_data_offset (ds ! j))) (unat (ed_data_size (ds ! j))) = Some (snd (sel ! j))"
    using build_tables_data [OF bt] em ml md configured_descriptor [OF parts, of _ data] by (auto simp: st)
  moreover have "length ds = length sel" using build_tables_length [OF bt] by simp
  ultimately show ?thesis using build_tables_disjoint [OF bt] by blast
qed

end
