(* ===== verification/Store_Serve.thy ===== *)
theory Store_Serve
  imports Store_Lookup
begin

text \<open>
  Serving data: what a successful lookup leaves of the runtime state.  Decompression stays inside
  the assembly's slot of the static buffer, marks its descriptor, and is not repeated; a lookup
  changes only the mapping of the assembly it opened, the buffer slot and the descriptor.
\<close>

section \<open>Buffer writes\<close>

lemma buffer_write_Inr:
  "buffer_write buf off bs = Inr buf' \<longleftrightarrow>
     off + length bs \<le> length buf \<and> buf' = take off buf @ bs @ drop (off + length bs) buf"
  by (auto simp: buffer_write_def)

lemma buffer_write_frame:
  assumes "buffer_write buf off bs = Inr buf'"
  shows "length buf' = length buf" and "slice buf' off (length bs) = Some bs"
    and "i < off \<or> off + length bs \<le> i \<Longrightarrow> i < length buf \<Longrightarrow> buf' ! i = buf ! i"
  using assms by (auto simp: buffer_write_Inr slice_def nth_append min_def)

section \<open>Decompression\<close>

definition slot_of :: "store_state \<Rightarrow> nat \<Rightarrow> CompressedAssemblyDescriptor" where
  "slot_of st i = compressed_assembly_descriptors st ! i"

lemma decompress_intoD:
  assumes "decompress_into env st img header i n = Inr st'"
  shows "\<exists>src out buf.
    ch_uncompressed_length header \<le> cd_uncompressed_file_size (slot_of st i) \<and>
    load_bytes (fst img, snd img + sizeof_compressed_header) (unat n) = Inr src \<and>
    zstd_decompress env (unat (ch_uncompressed_length header)) src = Some out \<and>
    length out = unat (ch_uncompressed_length header) \<and>
    buffer_write (uncompressed_assemblies_data_buffer st) (unat (cd_buffer_offset (slot_of st i))) out = Inr buf \<and>
    st' = st\<lparr>uncompressed_assemblies_data_buffer := buf,
       compressed_assembly_descriptors := (compressed_assembly_descriptors st)
         [i := (slot_of st i)\<lparr>cd_uncompressed_file_size := ch_uncompressed_length header, cd_loaded := True\<rparr>]\<rparr>"
  using assms
  by (auto simp: decompress_into_def slot_of_def Let_def bind_sum_Inr_iff not_less
      split: if_splits option.splits)

lemma get_compressed_dataD:
  assumes "get_compressed_data env st img desc header = Inr ((d, n), st')"
  defines "i \<equiv> unat (ch_descriptor_index header)"
  shows "i < length (compressed_assembly_descriptors st)"
    and "compressed_assembly_count st \<noteq> 0" "ch_descriptor_index header < compressed_assembly_count st"
    and "cd_buffer_offset (slot_of st i) < uncompressed_assemblies_data_size st"
    and "cd_uncompressed_file_size (slot_of st i)
           \<le> uncompressed_assemblies_data_size st - cd_buffer_offset (slot_of st i)"
    and "d = InBuffer (unat (cd_buffer_offset (slot_of st' i)))" "n = cd_uncompressed_file_size (slot_of st' i)"
    and "if cd_loaded (slot_of st i) then st' = st
         else decompress_into env st img header i (ed_data_size desc - of_nat sizeof_compressed_header) = Inr st'"
  using assms
  by (auto simp: get_compressed_data_def slot_of_def Let_def bind_sum_Inr_iff not_le not_less
      split: if_splits)

text \<open>The slot after a successful lookup, whichever of the two paths was taken.\<close>

lemma get_compressed_slot:
  assumes "get_compressed_data env st img desc header = Inr ((d, n), st')"
  defines "i \<equiv> unat (ch_descriptor_index header)"
  shows "cd_loaded (slot_of st' i)" and "cd_buffer_offset (slot_of st' i) = cd_buffer_offset (slot_of st i)"
    and "cd_uncompressed_file_size (slot_of st' i) \<le> cd_uncompressed_file_size (slot_of st i)"
    and "j \<noteq> i \<Longrightarrow> slot_of st' j = slot_of st j"
    and "length (compressed_assembly_descriptors st') = length (compressed_assembly_descriptors st)"
    and "\<exists>buf cads. st' = st\<lparr>uncompressed_assemblies_data_buffer := buf, compressed_assembly_descriptors := cads\<rparr>"
proof -
  note D = get_compressed_dataD [OF assms(1), folded i_def]
  have "cd_loaded (slot_of st' i) \<and> cd_buffer_offset (slot_of st' i) = cd_buffer_offset (slot_of st i) \<and>
    cd_uncompressed_file_size (slot_of st' i) \<le> cd_uncompressed_file_size (slot_of st i) \<and>
    (j \<noteq> i \<longrightarrow> slot_of st' j = slot_of st j) \<and>
    length (compressed_assembly_descriptors st') = length (compressed_assembly_descriptors st) \<and>
    (\<exists>buf cads. st' = st\<lparr>uncompressed_assemblies_data_buffer := buf, compressed_assembly_descriptors := cads\<rparr>)"
  proof (cases "cd_loaded (slot_of st i)")
    case True
    with D(8) have "st' = st" by simp
    with True show ?thesis by (auto intro!: exI [of _ "uncompressed_assemblies_data_buffer st"]
        exI [of _ "compressed_assembly_descriptors st"])
  next
    case False
    with D(8) have "decompress_into env st img header i (ed_data_size desc - of_nat sizeof_compressed_header) = Inr st'"
      by simp
    from decompress_intoD [OF this] show ?thesis using D(1) by (auto simp: slot_of_def)
  qed
  then show "cd_loaded (slot_of st' i)" "cd_buffer_offset (slot_of st' i) = cd_buffer_offset (slot_of st i)"
    "cd_uncompressed_file_size (slot_of st' i) \<le> cd_uncompressed_file_size (slot_of st i)"
    "j \<noteq> i \<Longrightarrow> slot_of st' j = slot_of st j"
    "length (compressed_assembly_descriptors st') = length (compressed_assembly_descriptors st)"
    "\<exists>buf cads. st' = st\<lparr>uncompressed_assemblies_data_buffer := buf, compressed_assembly_descriptors := cads\<rparr>"
    by blast+
qed

section \<open>Memory safety of decompression\<close>

definition buffers_ok :: "store_state \<Rightarrow> bool" where
  "buffers_ok st \<longleftrightarrow>
     length (uncompressed_assemblies_data_buffer st) = unat (uncompressed_assemblies_data_size st) \<and>
     length (compressed_assembly_descriptors st) = unat (compressed_assembly_count st)"

lemma slot_room:
  fixes off size total :: u32
  assumes "off < total" "size \<le> total - off" "m \<le> size"
  shows "unat off + unat m \<le> unat total"
proof -
  have "unat (total - off) = unat total - unat off"
    using assms(1) by (simp add: unat_sub less_imp_le)
  with assms show ?thesis by (simp add: word_le_nat_alt word_less_nat_alt)
qed

lemma buffers_ok_preserved:
  assumes "buffers_ok st" "get_compressed_data env st img desc header = Inr ((d, n), st')"
  shows "buffers_ok st'"
proof (cases "cd_loaded (slot_of st (unat (ch_descriptor_index header)))")
  case True
  with get_compressed_dataD(8) [OF assms(2)] assms(1) show ?thesis by simp
next
  case False
  with get_compressed_dataD(8) [OF assms(2)] have "decompress_into env st img header
      (unat (ch_descriptor_index header)) (ed_data_size desc - of_nat sizeof_compressed_header) = Inr st'" by simp
  from decompress_intoD [OF this] assms(1) show ?thesis
    by (auto simp: buffers_ok_def dest: buffer_write_frame(1))
qed

lemma compressed_source_readable:
  assumes "snd img + unat (ed_data_size desc) \<le> length (fst img)" "12 \<le> ed_data_size desc"
  shows "\<exists>src. load_bytes (fst img, snd img + sizeof_compressed_header)
           (unat (ed_data_size desc - of_nat sizeof_compressed_header)) = Inr src"
proof -
  have "unat (ed_data_size desc - 12) = unat (ed_data_size desc) - 12"
    using assms(2) by (simp add: unat_sub)
  moreover have "12 \<le> unat (ed_data_size desc)" using assms(2) by (simp add: word_le_nat_alt)
  ultimately show ?thesis using assms(1) by (auto simp: load_bytes_def sizeof_defs slice_def)
qed

lemma decompress_in_bounds:
  assumes "buffers_ok st" "i < length (compressed_assembly_descriptors st)"
    and "cd_buffer_offset (slot_of st i) < uncompressed_assemblies_data_size st"
    and "cd_uncompressed_file_size (slot_of st i)
           \<le> uncompressed_assemblies_data_size st - cd_buffer_offset (slot_of st i)"
    and "load_bytes (fst img, snd img + sizeof_compressed_header) (unat n) = Inr src"
  shows "decompress_into env st img header i n \<noteq> Inl OutOfBounds"
proof
  assume oob: "decompress_into env st img header i n = Inl OutOfBounds"
  have le: "ch_uncompressed_length header \<le> cd_uncompressed_file_size (slot_of st i)"
    using oob by (auto simp: decompress_into_def slot_of_def Let_def not_less split: if_splits)
  have "unat (cd_buffer_offset (slot_of st i)) + unat (ch_uncompressed_length header)
      \<le> length (uncompressed_assemblies_data_buffer st)"
    using slot_room [OF assms(3,4) le] assms(1) by (simp add: buffers_ok_def)
  with oob assms(5) show False
    by (auto simp: decompress_into_def slot_of_def Let_def buffer_write_def
        split: if_splits option.splits)
qed

text \<open>
  C3. A compressed assembly whose data lies in the payload is served without an access outside
  an object: the lookup either aborts with one of its messages or hands out a range inside the
  static buffer, and a successful one leaves every byte outside the assembly's slot, the other
  descriptors and the buffer sizes as they were and marks the slot loaded.
\<close>

theorem compressed_memory_safe:
  assumes "buffers_ok st" "snd img + unat (ed_data_size desc) \<le> length (fst img)" "12 \<le> ed_data_size desc"
  shows "case get_compressed_data env st img desc header of
      Inl e \<Rightarrow> e \<noteq> OutOfBounds
    | Inr ((d, n), st') \<Rightarrow>
        buffers_ok st' \<and>
        (\<exists>off. d = InBuffer off \<and> off + unat n \<le> length (uncompressed_assemblies_data_buffer st') \<and>
           (\<forall>k < length (uncompressed_assemblies_data_buffer st). k < off \<or> off + unat n \<le> k \<longrightarrow>
              uncompressed_assemblies_data_buffer st' ! k = uncompressed_assemblies_data_buffer st ! k)) \<and>
        (\<forall>j. j \<noteq> unat (ch_descriptor_index header) \<longrightarrow>
              compressed_assembly_descriptors st' ! j = compressed_assembly_descriptors st ! j) \<and>
        cd_loaded (compressed_assembly_descriptors st' ! unat (ch_descriptor_index header))"
proof (cases "get_compressed_data env st img desc header")
  case (Inl e)
  let ?i = "unat (ch_descriptor_index header)"
  obtain src where src: "load_bytes (fst img, snd img + sizeof_compressed_header)
           (unat (ed_data_size desc - of_nat sizeof_compressed_header)) = Inr src"
    using compressed_source_readable [OF assms(2,3)] by blast
  have "e \<noteq> OutOfBounds"
  proof
    assume "e = OutOfBounds"
    with Inl have g: "get_compressed_data env st img desc header = Inl OutOfBounds" by simp
    have i: "ch_descriptor_index header < compressed_assembly_count st"
      using g by (auto simp: get_compressed_data_def split: if_splits)
    then have len: "?i < length (compressed_assembly_descriptors st)"
      using assms(1) by (simp add: buffers_ok_def word_less_nat_alt)
    with g i have slot: "cd_buffer_offset (slot_of st ?i) < uncompressed_assemblies_data_size st"
      "cd_uncompressed_file_size (slot_of st ?i) \<le> uncompressed_assemblies_data_size st - cd_buffer_offset (slot_of st ?i)"
      by (auto simp: get_compressed_data_def slot_of_def Let_def not_le not_less split: if_splits)
    have "decompress_into env st img header ?i (ed_data_size desc - of_nat sizeof_compressed_header) \<noteq> Inl OutOfBounds"
      by (rule decompress_in_bounds [OF assms(1) len slot src])
    with g i len slot show False
      by (auto simp: get_compressed_data_def slot_of_def Let_def bind_sum_def split: if_splits sum.splits)
  qed
  with Inl show ?thesis by simp
next
  case (Inr r)
  then obtain d n st' where r: "get_compressed_data env st img desc header = Inr ((d, n), st')"
    by (cases r) auto
  let ?i = "unat (ch_descriptor_index header)"
  note D = get_compressed_dataD [OF r] and S = get_compressed_slot [OF r]
  note ok = buffers_ok_preserved [OF assms(1) r]
  let ?off = "unat (cd_buffer_offset (slot_of st ?i))"
  have same: "uncompressed_assemblies_data_size st' = uncompressed_assemblies_data_size st"
    using S(6) by auto
  have room: "?off + unat n \<le> length (uncompressed_assemblies_data_buffer st')"
    using slot_room [OF D(4,5) S(3)] ok same by (simp add: buffers_ok_def D(7))
  have frame: "\<forall>k < length (uncompressed_assemblies_data_buffer st). k < ?off \<or> ?off + unat n \<le> k \<longrightarrow>
        uncompressed_assemblies_data_buffer st' ! k = uncompressed_assemblies_data_buffer st ! k"
  proof (cases "cd_loaded (slot_of st ?i)")
    case True
    with D(8) show ?thesis by simp
  next
    case False
    with D(8) have "decompress_into env st img header ?i (ed_data_size desc - of_nat sizeof_compressed_header) = Inr st'" by simp
    from decompress_intoD [OF this] D(1,7) show ?thesis
      by (auto simp: slot_of_def dest: buffer_write_frame(3))
  qed
  have others: "j \<noteq> ?i \<longrightarrow> compressed_assembly_descriptors st' ! j = compressed_assembly_descriptors st ! j" for j
    using get_compressed_slot(4) [OF r, of j] by (simp add: slot_of_def)
  have "d = InBuffer ?off" using D(6) S(2) by simp
  with r ok room frame others S(1) show ?thesis by (auto simp: slot_of_def)
qed

section \<open>A second lookup\<close>

text \<open>The state changes a lookup can make: the mapping, the buffer and the descriptors.\<close>

definition served :: "store_state \<Rightarrow> AssemblyStoreSingleAssemblyRuntimeData list \<Rightarrow> byte list \<Rightarrow>
    CompressedAssemblyDescriptor list \<Rightarrow> store_state" where
  "served st infos buf cads = st\<lparr>bundled_assemblies := infos,
     uncompressed_assemblies_data_buffer := buf, compressed_assembly_descriptors := cads\<rparr>"

lemma served_fields [simp]:
  "assembly_store (served st infos buf cads) = assembly_store st"
  "assembly_store_hashes (served st infos buf cads) = assembly_store_hashes st"
  "assembly_store_names (served st infos buf cads) = assembly_store_names st"
  "bundled_assemblies (served st infos buf cads) = infos"
  by (simp_all add: served_def)

lemma scan_run_served [simp]: "scan_run (served st infos buf cads) name hash es = scan_run st name hash es"
  by (induction es) auto

lemma index_table_served [simp]: "index_table (served st infos buf cads) = index_table st"
  by (simp add: index_table_def)

lemma find_entry_served [simp]:
  "find_assembly_store_entry env (served st infos buf cads) name hash es = find_assembly_store_entry env st name hash es"
  "find_assembly_store_entry (env\<lparr>zstd_decompress := z\<rparr>) st name hash es = find_assembly_store_entry env st name hash es"
  by (simp_all add: find_assembly_store_entry_def)

lemma get_compressed_again:
  assumes "get_compressed_data env st img desc header = Inr ((d, n), st')"
  shows "get_compressed_data (env\<lparr>zstd_decompress := z\<rparr>) st' img desc header = Inr ((d, n), st')"
proof -
  let ?i = "unat (ch_descriptor_index header)"
  note D = get_compressed_dataD [OF assms] and S = get_compressed_slot [OF assms]
  have fields: "compressed_assembly_count st' = compressed_assembly_count st"
      "uncompressed_assemblies_data_size st' = uncompressed_assemblies_data_size st"
    using S(6) by auto
  have "cd_uncompressed_file_size (slot_of st' ?i) \<le> uncompressed_assemblies_data_size st' - cd_buffer_offset (slot_of st' ?i)"
    using order_trans [OF S(3) D(5)] by (simp add: fields S(2))
  with D S(1,2,5) fields show ?thesis
    by (simp add: get_compressed_data_def slot_of_def Let_def not_le not_less)
qed

lemma get_assembly_data_again:
  assumes "get_assembly_data env st e = Inr ((d, n), st')"
  shows "get_assembly_data (env\<lparr>zstd_decompress := z\<rparr>) st' e = Inr ((d, n), st')"
    and "\<exists>buf cads. st' = served st (bundled_assemblies st) buf cads"
    and "sa_image_data e \<noteq> None"
proof -
  from assms obtain img desc where e: "sa_image_data e = Some img" "sa_descriptor e = Some desc"
    by (auto simp: get_assembly_data_def split: option.splits)
  then show "sa_image_data e \<noteq> None" by simp
  have copy: "copy_data (env\<lparr>zstd_decompress := z\<rparr>) st' img desc = Inr ((d, n), st') \<and> st' = st"
    if "copy_data env st img desc = Inr ((d, n), st')"
    using that by (auto simp: copy_data_def bind_sum_Inr_iff split: if_splits)
  have self: "\<exists>buf cads. st = served st (bundled_assemblies st) buf cads"
    by (intro exI [of _ "uncompressed_assemblies_data_buffer st"] exI [of _ "compressed_assembly_descriptors st"])
      (simp add: served_def)
  have "get_assembly_data (env\<lparr>zstd_decompress := z\<rparr>) st' e = Inr ((d, n), st') \<and>
     (\<exists>buf cads. st' = served st (bundled_assemblies st) buf cads)"
  proof (cases "env_release env")
    case False
    with assms e copy self show ?thesis by (auto simp: get_assembly_data_def)
  next
    case True
    with assms e obtain header where h: "dec_compressed_header (fst img) (snd img) = Some header"
      by (auto simp: get_assembly_data_def bind_sum_Inr_iff or_abort_def split: option.splits)
    show ?thesis
    proof (cases "ch_magic header = COMPRESSED_DATA_MAGIC")
      case False
      with assms e h True copy self show ?thesis by (auto simp: get_assembly_data_def)
    next
      case magic: True
      with assms e h True have g: "get_compressed_data env st img desc header = Inr ((d, n), st')"
        by (simp add: get_assembly_data_def)
      have "\<exists>buf cads. st' = served st (bundled_assemblies st) buf cads"
        using get_compressed_slot(6) [OF g] by (auto simp: served_def)
      with get_compressed_again [OF g] e h True magic show ?thesis by (simp add: get_assembly_data_def)
    qed
  qed
  then show "get_assembly_data (env\<lparr>zstd_decompress := z\<rparr>) st' e = Inr ((d, n), st')"
    "\<exists>buf cads. st' = served st (bundled_assemblies st) buf cads" by blast+
qed


end
