(* ===== verification/Crc32.thy ===== *)
theory Crc32
  imports Prelude
begin

text \<open>
  The name hash: \<open>Get-Crc32Table\<close> and \<open>Get-Crc32\<close> of \<open>setup.ps1\<close>, which the emitter uses for the
  store index.  The table-driven code works on 64-bit values with an explicit 32-bit mask; the
  reference is the bit-serial CRC-32 register with the reflected polynomial 0xEDB88320.
\<close>

section \<open>The code\<close>

fun crc_bits :: "nat \<Rightarrow> u64 \<Rightarrow> u64" where
  "crc_bits 0 val = val"
| "crc_bits (Suc n) val =
     crc_bits n (if val AND 1 \<noteq> 0 then (0xEDB88320 XOR drop_bit 1 val) AND 0xFFFFFFFF
                 else drop_bit 1 val AND 0xFFFFFFFF)"

definition Get_Crc32Table :: "u32 list" where
  "Get_Crc32Table = map (\<lambda>i. ucast (crc_bits 8 (of_nat i))) [0..<256]"

definition crc_update :: "u32 list \<Rightarrow> u64 \<Rightarrow> byte \<Rightarrow> u64" where
  "crc_update table val b =
     (ucast (table ! unat ((val XOR ucast b) AND 0xFF)) XOR drop_bit 8 val) AND 0xFFFFFFFF"

definition Get_Crc32 :: "byte list \<Rightarrow> u32" where
  "Get_Crc32 data =
     ucast ((foldl (crc_update Get_Crc32Table) 0xFFFFFFFF data XOR 0xFFFFFFFF) AND 0xFFFFFFFF)"

section \<open>The reference register\<close>

definition crc_shift :: "u32 \<Rightarrow> u32" where
  "crc_shift r = (if bit r 0 then 0xEDB88320 else 0) XOR drop_bit 1 r"

definition crc_byte :: "u32 \<Rightarrow> byte \<Rightarrow> u32" where
  "crc_byte r b = (crc_shift ^^ 8) (r XOR ucast b)"

definition crc_serial :: "byte list \<Rightarrow> u32" where
  "crc_serial data = NOT (foldl crc_byte (NOT 0) data)"

lemma low_mask: "(0xFFFFFFFF :: u64) = mask 32" "(0xFF :: u64) = mask 8" "(0xFF :: u32) = mask 8"
  by (simp_all add: mask_eq_exp_minus_1)

lemma and_one_bit: "(w :: 'a :: len word) AND 1 \<noteq> 0 \<longleftrightarrow> bit w 0"
  by (simp add: and_one_eq bit_0 odd_iff_mod_2_eq_one)

lemma u32_bit: "bit (w :: u32) n \<Longrightarrow> n < 32"
  using bit_imp_le_length [of w n] by simp

lemma byte_bit: "bit (w :: byte) n \<Longrightarrow> n < 8"
  using bit_imp_le_length [of w n] by simp

lemma xor_cancel: "x XOR c = y XOR c \<Longrightarrow> x = (y :: 'a :: len word)"
proof -
  assume "x XOR c = y XOR c"
  then have "(x XOR c) XOR c = (y XOR c) XOR c" by simp
  then show "x = y" by (simp add: xor.assoc)
qed

lemma mask_ucast: "(ucast (w :: u32) :: u64) AND mask 32 = ucast w"
  by (rule bit_eqI) (auto simp: bit_simps intro: u32_bit)

lemma ucast_ucast_u32: "ucast (ucast (w :: u32) :: u64) = w"
  by (rule bit_eqI) (auto simp: bit_simps)

lemma ucast_shift: "(drop_bit n (ucast (w :: u32)) :: u64) = ucast (drop_bit n w)"
  by (rule bit_eqI) (auto simp: bit_simps dest: u32_bit)

lemma crc_bits_ucast: "crc_bits n (ucast (w :: u32)) = ucast ((crc_shift ^^ n) w)"
proof (induction n arbitrary: w)
  case 0
  then show ?case by simp
next
  case (Suc n)
  have xor: "(0xEDB88320 :: u64) XOR ucast v = ucast (0xEDB88320 XOR v :: u32)" for v
    by (simp add: unsigned_xor_eq)
  have low_bit: "bit (ucast w :: u64) 0 = bit w 0" by (simp add: bit_simps)
  have "(if ucast w AND 1 \<noteq> (0::u64) then (0xEDB88320 XOR drop_bit 1 (ucast w)) AND 0xFFFFFFFF
         else drop_bit 1 (ucast w) AND 0xFFFFFFFF) = (ucast (crc_shift w) :: u64)"
    unfolding and_one_bit low_mask ucast_shift xor mask_ucast low_bit crc_shift_def
    by (cases "bit w 0") (simp_all only: if_True if_False xor.left_neutral simp_thms)
  with Suc show ?case by (simp only: crc_bits.simps funpow_Suc_right comp_apply)
qed

section \<open>The register is linear\<close>

lemma crc_shift_xor: "crc_shift (x XOR y) = crc_shift x XOR crc_shift y"
  by (rule bit_eqI) (auto simp: crc_shift_def bit_simps)

lemma crc_shifts_xor: "(crc_shift ^^ n) (x XOR y) = (crc_shift ^^ n) x XOR (crc_shift ^^ n) y"
  by (induction n) (simp_all add: crc_shift_xor)

lemma crc_shifts_high:
  "take_bit n r = 0 \<Longrightarrow> (crc_shift ^^ n) r = drop_bit n r"
proof (induction n arbitrary: r)
  case 0
  then show ?case by simp
next
  case (Suc n)
  have low: "\<not> bit r i" if "i < Suc n" for i
    using Suc.prems that by (metis bit_0_eq bit_take_bit_iff bot_apply bot_bool_def)
  have "crc_shift r = drop_bit 1 r" using low [of 0] by (simp add: crc_shift_def)
  moreover have "take_bit n (drop_bit 1 r) = 0"
    by (rule bit_eqI) (use low in \<open>auto simp: bit_simps\<close>)
  ultimately show ?case using Suc.IH [of "drop_bit 1 r"]
    by (simp add: funpow_Suc_right drop_bit_drop_bit del: funpow.simps)
qed

lemma crc_byte_table: "crc_byte r b = (crc_shift ^^ 8) ((r XOR ucast b) AND 0xFF) XOR drop_bit 8 r"
proof -
  let ?v = "r XOR ucast b"
  have "?v = (?v AND 0xFF) XOR (?v AND NOT (mask 8))"
    unfolding low_mask by (rule bit_eqI) (auto simp: bit_simps)
  then have "crc_byte r b = (crc_shift ^^ 8) (?v AND 0xFF) XOR (crc_shift ^^ 8) (?v AND NOT (mask 8))"
    unfolding crc_byte_def by (metis crc_shifts_xor)
  moreover have "(crc_shift ^^ 8) (?v AND NOT (mask 8)) = drop_bit 8 (?v AND NOT (mask 8))"
    by (rule crc_shifts_high, rule bit_eqI) (auto simp: bit_simps)
  moreover have "drop_bit 8 (?v AND NOT (mask 8)) = drop_bit 8 r"
    by (rule bit_eqI) (auto simp: bit_simps dest: u32_bit byte_bit)
  ultimately show ?thesis by simp
qed

lemma crc_update_serial: "crc_update Get_Crc32Table (ucast r) b = ucast (crc_byte r b)"
proof -
  let ?v = "(r XOR ucast b) AND 0xFF"
  have v: "(ucast r XOR ucast b) AND 0xFF = (ucast ?v :: u64)"
    unfolding low_mask by (rule bit_eqI) (auto simp: bit_simps dest: u32_bit byte_bit)
  have "?v = take_bit 8 (r XOR ucast b)" unfolding low_mask by (simp add: take_bit_eq_mask)
  moreover have "unat (take_bit 8 x) < 256" for x :: u32
    by (simp only: unsigned_take_bit_eq) (simp add: take_bit_eq_mod)
  ultimately have small: "unat ?v < 256" by (simp only:)
  have unat: "unat (ucast ?v :: u64) = unat ?v"
    using small by (simp only: unsigned_ucast_eq) (simp add: take_bit_nat_eq_self_iff)
  have "Get_Crc32Table ! unat ?v = (crc_shift ^^ 8) ?v"
    using small crc_bits_ucast [of 8 ?v] by (simp add: Get_Crc32Table_def ucast_ucast_u32)
  then have "crc_update Get_Crc32Table (ucast r) b
      = (ucast ((crc_shift ^^ 8) ?v) XOR drop_bit 8 (ucast r)) AND 0xFFFFFFFF"
    by (simp only: crc_update_def v unat)
  also have "\<dots> = ucast (crc_byte r b)"
    unfolding low_mask(1) ucast_shift crc_byte_table unsigned_xor_eq [symmetric] mask_ucast ..
  finally show ?thesis .
qed

lemma crc_foldl_serial: "foldl (crc_update Get_Crc32Table) (ucast r) data = ucast (foldl crc_byte r data)"
  by (induction data arbitrary: r) (simp_all add: crc_update_serial)

lemma crc_table_serial: "Get_Crc32 data = crc_serial data"
proof -
  have ones: "(0xFFFFFFFF :: u64) = ucast (0xFFFFFFFF :: u32)" by simp
  have neg: "(0xFFFFFFFF :: u32) = NOT 0" by simp
  show ?thesis
    unfolding Get_Crc32_def crc_serial_def
    unfolding ones crc_foldl_serial neg
    by (rule bit_eqI) (auto simp: bit_simps dest: u32_bit byte_bit)
qed

section \<open>One changed byte changes the hash\<close>

lemma crc_shift_top: "bit (crc_shift r) 31 = bit r 0"
  using u32_bit [of r 32] by (auto simp: crc_shift_def bit_simps)

lemma crc_shift_inj: "crc_shift x = crc_shift y \<Longrightarrow> x = y"
proof -
  assume "crc_shift x = crc_shift y"
  then have zero: "crc_shift (x XOR y) = 0" by (simp add: crc_shift_xor)
  have low: "\<not> bit (x XOR y) 0" using crc_shift_top [of "x XOR y"] by (simp add: zero)
  with zero have "drop_bit 1 (x XOR y) = 0" by (simp add: crc_shift_def)
  then have "\<not> bit (x XOR y) (Suc n)" for n
    by (metis bit_0_eq bit_drop_bit_eq bot_apply bot_bool_def comp_apply plus_1_eq_Suc)
  with low have "x XOR y = 0" by (intro bit_eqI) (metis bit_0_eq bot_apply bot_bool_def not0_implies_Suc)
  then show "x = y" using xor_cancel [of x y y] by simp
qed

lemma crc_shifts_inj: "(crc_shift ^^ n) u = (crc_shift ^^ n) v \<Longrightarrow> u = v"
  by (induction n) (auto dest: crc_shift_inj)

lemma crc_byte_inj: "crc_byte x b = crc_byte y b \<Longrightarrow> x = y"
  unfolding crc_byte_def by (blast dest: crc_shifts_inj xor_cancel)

lemma crc_foldl_inj: "foldl crc_byte x data = foldl crc_byte y data \<Longrightarrow> x = y"
  by (induction data arbitrary: x y) (auto dest: crc_byte_inj)

lemma crc_byte_differs: "crc_byte r a = crc_byte r b \<Longrightarrow> a = b"
proof -
  assume "crc_byte r a = crc_byte r b"
  then have "crc_byte (r XOR ucast a) 0 = crc_byte (r XOR ucast b) 0" by (simp add: crc_byte_def)
  then have "r XOR ucast a = r XOR ucast b" by (rule crc_byte_inj)
  then have "ucast a XOR r = ucast b XOR r" by (simp only: xor.commute)
  then have "(ucast a :: u32) = ucast b" by (rule xor_cancel)
  moreover have "ucast (ucast x :: u32) = x" for x :: byte
    by (rule bit_eqI) (auto simp: bit_simps)
  ultimately show "a = b" by metis
qed

section \<open>Properties\<close>

text \<open>
  C7. The table-driven hash of the emitter is the bit-serial CRC-32 of its input, for every input.
\<close>

theorem table_driven_is_bit_serial: "Get_Crc32 data = crc_serial data"
  by (rule crc_table_serial)

text \<open>
  C8. Two names of the same length that differ in exactly one byte never collide in the index.
\<close>

theorem one_byte_apart_no_collision:
  assumes "a \<noteq> b"
  shows "Get_Crc32 (pre @ a # post) \<noteq> Get_Crc32 (pre @ b # post)"
proof
  assume "Get_Crc32 (pre @ a # post) = Get_Crc32 (pre @ b # post)"
  then have "foldl crc_byte (crc_byte (foldl crc_byte (NOT 0) pre) a) post
      = foldl crc_byte (crc_byte (foldl crc_byte (NOT 0) pre) b) post"
    by (simp add: crc_table_serial crc_serial_def)
  then have "crc_byte (foldl crc_byte (NOT 0) pre) a = crc_byte (foldl crc_byte (NOT 0) pre) b"
    by (rule crc_foldl_inj)
  then have "a = b" by (rule crc_byte_differs)
  with assms show False by simp
qed

theorem one_byte_apart_no_collision_witness:
  "Get_Crc32 [65, 66, 67] \<noteq> Get_Crc32 [65, 68, 67]"
  using one_byte_apart_no_collision [of 66 68 "[65]" "[67]"] by simp

text \<open>The check value of the CRC-32 catalogue: the hash of the digits 1 to 9.\<close>

lemma crc_shift_numeral:
  "crc_shift (numeral n) = (if bit (numeral n :: u32) 0 then 0xEDB88320 else 0) XOR drop_bit 1 (numeral n)"
  "crc_shift 0 = 0" "crc_shift 1 = 0xEDB88320"
  by (simp_all add: crc_shift_def)

lemma crc_byte_unrolled: "crc_byte r b = crc_shift (crc_shift (crc_shift (crc_shift
    (crc_shift (crc_shift (crc_shift (crc_shift (r XOR ucast b))))))))"
  by (simp add: crc_byte_def eval_nat_numeral)

lemma crc_serial_ones: "crc_serial data = 0xFFFFFFFF XOR foldl crc_byte 0xFFFFFFFF data"
proof -
  have "(0xFFFFFFFF :: u32) = NOT 0" by simp
  then show ?thesis unfolding crc_serial_def
    by (metis bit.compl_zero bit.xor_one_left)
qed

lemmas crc_eval = crc_table_serial crc_serial_ones crc_byte_unrolled crc_shift_numeral

lemma crc_check_value: "Get_Crc32 [49, 50, 51, 52, 53, 54, 55, 56, 57] = 0xCBF43926"
  by (simp add: crc_eval)

end
