(* ===== verification/Store_Demo.thy ===== *)
theory Store_Demo
  imports Store_Roundtrip Store_Serve Crc32
begin

text \<open>
  The store as a whole: the properties of a written store that the runtime opens, and a small store
  on which they are evaluated.
\<close>

section \<open>Round trip\<close>

lemma store_returns_image:
  assumes "lower_bound_contract (lower_bound env)" "crc32_hash env = Get_Crc32"
    and "New_AssemblyStoreBytes producer_contract (env_abi env) is_sep Get_Crc32 (2 ^ k) sel = Some store"
    and "calloc_ok env (length sel)" "malloc_ok env (length img)"
    and "j < length sel" "sel ! j = (name, img)"
    and "requested \<in> {name, GetFileNameWithoutExtension is_sep name}" "name_matches requested name"
    and "\<forall>i < length sel. name_matches requested (fst (sel ! i)) \<longrightarrow> i = j"
    and "j < length (bundled_assemblies st)" "sa_image_data (bundled_assemblies st ! j) = None"
    and "env_release env \<longrightarrow> (\<exists>m. rd32 img 0 = Some m \<and> m \<noteq> COMPRESSED_DATA_MAGIC) \<and> 12 \<le> length img"
  shows "\<exists>st1 st2. configure_from_payload env st (store @ rest) = Inr st1 \<and>
    assembly_store_names st1 = map fst sel \<and>
    open_assembly env st1 requested size0 = Inr ((Some (RwCopy img), of_nat (length img)), st2)"
proof -
  obtain ds es metadata data cursor where store: "store = metadata @ data"
    and parts: "store_parts (env_abi env) is_sep (crc32_hash env) (2 ^ k) sel ds es metadata data cursor"
    by (rule emitted_store_parts [OF assms(3), folded assms(2)])
  have "configure_from_payload env st (store @ rest) = Inr (configured st (store @ rest) sel)"
    using configure_parts [OF parts assms(4), of st "data @ rest"] by (simp add: store)
  moreover obtain st2 where "open_assembly env (configured st (store @ rest) sel) requested size0
      = Inr ((Some (RwCopy img), of_nat (length img)), st2)"
    using open_written [OF assms(1) parts assms(6-12) assms(5,13)] by (auto simp: store)
  ultimately show ?thesis by simp
qed

text \<open>
  C1. An image that goes into a store comes out of it: the runtime accepts every store the emitter
  writes for its ABI, and opening an assembly, by its file name or by the name without extension,
  returns exactly the bytes that were written and their length, provided the requested name matches
  one stored name only (the CRC collisions of other names do not matter).
\<close>

theorem store_round_trip:
  assumes "lower_bound_contract (lower_bound env)" "crc32_hash env = Get_Crc32"
    and "New_AssemblyStoreBytes producer_contract (env_abi env) is_sep Get_Crc32 (2 ^ k) sel = Some store"
    and "calloc_ok env (length sel)" "malloc_ok env (length img)"
    and "j < length sel" "sel ! j = (name, img)"
    and "requested \<in> {name, GetFileNameWithoutExtension is_sep name}" "name_matches requested name"
    and "\<forall>i < length sel. name_matches requested (fst (sel ! i)) \<longrightarrow> i = j"
    and "j < length (bundled_assemblies st)" "sa_image_data (bundled_assemblies st ! j) = None"
    and "env_release env \<longrightarrow> (\<exists>m. rd32 img 0 = Some m \<and> m \<noteq> COMPRESSED_DATA_MAGIC) \<and> 12 \<le> length img"
  shows "\<exists>st1 st2. configure_from_payload env st (store @ rest) = Inr st1 \<and>
    assembly_store_names st1 = map fst sel \<and>
    open_assembly env st1 requested size0 = Inr ((Some (RwCopy img), of_nat (length img)), st2)"
  using assms by (rule store_returns_image)

section \<open>Names that are not indexed\<close>

definition index_names :: "(byte \<Rightarrow> bool) \<Rightarrow> selection \<Rightarrow> byte list set" where
  "index_names is_sep sel = (\<Union>(name, _) \<in> set sel. {name, GetFileNameWithoutExtension is_sep name})"

lemma build_tables_hashes:
  "build_tables is_sep h a cursor i sel = Some (ds, es) \<Longrightarrow> ie_name_hash ` set es = h ` index_names is_sep sel"
proof (induction sel arbitrary: cursor i ds es)
  case Nil
  then show ?case by (simp add: index_names_def)
next
  case (Cons x sel)
  obtain name bytes where x: "x = (name, bytes)" by (cases x)
  from Cons.prems x obtain nxt ds' es' where b: "build_tables is_sep h a nxt (i + 1) sel = Some (ds', es')"
    and es: "es = index_entry h name i # index_entry h (GetFileNameWithoutExtension is_sep name) i # es'"
    by (auto elim!: build_tables_ConsD)
  show ?case using Cons.IH [OF b] by (auto simp: es x index_names_def index_entry_def)
qed


section \<open>A small store\<close>

text \<open>Two assemblies and an environment, the concrete input of the witnesses.\<close>

definition demo_names :: "byte list list" where
  "demo_names = [[65, 46, 100, 108, 108], [66, 46, 120, 46, 100, 108, 108]]"

definition demo_image :: "byte list" where
  "demo_image = [77, 90, 1, 2, 3, 4, 5, 6, 7, 8, 9, 10]"

definition demo_selection :: selection where
  "demo_selection = zip demo_names [demo_image, demo_image @ [11]]"

definition demo_env :: store_env where
  "demo_env = \<lparr>env_abi = Aarch64, env_release = True, env_debug_build = False, crc32_hash = Get_Crc32,
     lower_bound = partition_point, zstd_decompress = (\<lambda>n src. Some (take n src)),
     malloc_ok = (\<lambda>_. True), calloc_ok = (\<lambda>_. True)\<rparr>"

definition demo_state :: store_state where
  "demo_state = \<lparr>assembly_store = \<lparr>rd_data_start = ([], 0), rd_assembly_count = 0,
       rd_index_entry_count = 0, rd_assemblies = ([], 0)\<rparr>,
     assembly_store_hashes = None, assembly_store_names = [],
     bundled_assemblies = replicate 2 \<lparr>sa_image_data = None, sa_debug_info_data = None,
       sa_config_data = None, sa_descriptor = None\<rparr>,
     compressed_assembly_count = 0, compressed_assembly_descriptors = [],
     uncompressed_assemblies_data_size = 0, uncompressed_assemblies_data_buffer = []\<rparr>"

definition demo_store :: "byte list" where
  "demo_store = the (New_AssemblyStoreBytes producer_contract Aarch64 (\<lambda>c. c = slash) Get_Crc32 (2 ^ 4) demo_selection)"


lemma demo_names_sizes:
  "length demo_selection = 2" "map fst demo_selection = demo_names" "map snd demo_selection = [demo_image, demo_image @ [11]]"
  by (simp_all add: demo_selection_def demo_names_def)

lemma demo_emitted:
  "New_AssemblyStoreBytes producer_contract Aarch64 (\<lambda>c. c = slash) Get_Crc32 (2 ^ 4) demo_selection = Some demo_store"
proof -
  have "New_AssemblyStoreBytes producer_contract Aarch64 (\<lambda>c. c = slash) Get_Crc32 (2 ^ 4) demo_selection \<noteq> None"
    by (rule emitter_layout_ok)
      (simp_all add: data_start_of_def demo_selection_def demo_names_def demo_image_def sizeof_defs
        build_tables.simps align_cursor_def to_uint32_def)
  then show ?thesis by (simp add: demo_store_def)
qed


theorem wrong_abi_rejected_witness:
  "configure_from_payload (demo_env\<lparr>env_abi := Arm\<rparr>) demo_state (demo_store @ []) = Inl (WrongFormatVersion 0x80010004 0x00020004)"
  using wrong_abi_rejected [OF demo_emitted, of "demo_env\<lparr>env_abi := Arm\<rparr>" demo_state "[]"]
  by (simp add: format_version_values)

theorem images_aligned_and_disjoint_witness:
  "\<exists>off. 16 dvd off \<and> slice demo_store off 12 = Some demo_image"
proof -
  have "slice demo_store off n = Some demo_image \<Longrightarrow> n = 12" for off n
    using slice_length by (fastforce simp: demo_image_def)
  then show ?thesis
    using images_aligned_and_disjoint [OF demo_emitted]
    by (fastforce simp: demo_selection_def demo_names_def)
qed

lemma demo_lower_bound: "lower_bound_contract (lower_bound demo_env)"
  using partition.lower_bound_contract_axioms by (simp add: demo_env_def)

lemma demo_env_fields [simp]:
  "crc32_hash demo_env = Get_Crc32" "calloc_ok demo_env n" "malloc_ok demo_env n" "env_abi demo_env = Aarch64"
  by (simp_all add: demo_env_def)

lemma demo_matches:
  assumes "i < length demo_selection"
  shows "name_matches [66, 46, 120] (fst (demo_selection ! i)) \<longleftrightarrow> i = 1"
proof -
  have "i = 0 \<or> i = 1" using assms by (auto simp: demo_names_sizes)
  then show ?thesis
    by (auto simp: demo_selection_def demo_names_def name_matches_def dot_def slash_def)
qed

lemma demo_request:
  "demo_selection ! 1 = (demo_names ! 1, demo_image @ [11])"
  "[66, 46, 120] \<in> {demo_names ! 1, GetFileNameWithoutExtension (\<lambda>c. c = slash) (demo_names ! 1)}"
  by (simp_all add: demo_selection_def demo_names_def GetFileNameWithoutExtension_def file_part_def
      slash_def dot_def)

lemma demo_room:
  "1 < length (bundled_assemblies demo_state)" "sa_image_data (bundled_assemblies demo_state ! 1) = None"
  by (simp_all add: demo_state_def)

lemma demo_raw:
  "(\<exists>m. rd32 (demo_image @ [11]) 0 = Some m \<and> m \<noteq> COMPRESSED_DATA_MAGIC) \<and> 12 \<le> length (demo_image @ [11])"
  by (simp add: rd32_def rd_def slice_def demo_image_def COMPRESSED_DATA_MAGIC_def)

lemma demo_size: "length (demo_image @ [11]) = 13"
  by (simp add: demo_image_def)

lemma demo_request_matches: "name_matches [66, 46, 120] (demo_names ! 1)"
  using demo_matches [of 1] unfolding demo_request(1) fst_conv by (simp add: demo_names_sizes)

lemma demo_env_emitted:
  "New_AssemblyStoreBytes producer_contract (env_abi demo_env) (\<lambda>c. c = slash) Get_Crc32 (2 ^ 4) demo_selection = Some demo_store"
  using demo_emitted by simp

lemma demo_unique:
  "1 < length demo_selection" "\<forall>i < length demo_selection. name_matches [66, 46, 120] (fst (demo_selection ! i)) \<longrightarrow> i = 1"
  using demo_matches by (simp_all add: demo_names_sizes)

lemma demo_opens:
  "\<exists>st1 st2. open_assembly demo_env st1 [66, 46, 120] 5 = Inr ((Some (RwCopy (demo_image @ [11])), 13), st2)"
  using store_returns_image [OF demo_lower_bound demo_env_fields(1) demo_env_emitted demo_env_fields(2,3)
      demo_unique(1) demo_request demo_request_matches demo_unique(2) demo_room, of "[]" 5] demo_raw
  unfolding demo_size by auto

theorem store_round_trip_witness:
  "\<exists>st1 st2. configure_from_payload demo_env demo_state (demo_store @ [1, 2]) = Inr st1 \<and>
    assembly_store_names st1 = demo_names \<and>
    open_assembly demo_env st1 [66, 46, 120] 5 = Inr ((Some (RwCopy (demo_image @ [11])), 13), st2)"
  using store_round_trip [OF demo_lower_bound demo_env_fields(1) demo_env_emitted demo_env_fields(2,3)
      demo_unique(1) demo_request demo_request_matches demo_unique(2) demo_room, of "[1, 2]" 5] demo_raw
  unfolding demo_size demo_names_sizes by auto


section \<open>A compressed assembly and a name with a directory\<close>

definition demo_packed_state :: store_state where
  "demo_packed_state = demo_state\<lparr>compressed_assembly_count := 1,
     compressed_assembly_descriptors :=
       [\<lparr>cd_uncompressed_file_size = 8, cd_loaded = False, cd_buffer_offset = 2\<rparr>],
     uncompressed_assemblies_data_size := 16, uncompressed_assemblies_data_buffer := [9, 9, 9, 9, 9, 9, 9, 9, 9, 9, 9, 9, 9, 9, 9, 9]\<rparr>"

definition demo_header :: CompressedAssemblyHeader where
  "demo_header = \<lparr>ch_magic = COMPRESSED_DATA_MAGIC, ch_descriptor_index = 0, ch_uncompressed_length = 4\<rparr>"

definition demo_packed :: "byte list" where
  "demo_packed = enc_compressed_header demo_header @ [1, 2, 3, 4, 5]"

definition demo_descriptor :: AssemblyStoreEntryDescriptor where
  "demo_descriptor = \<lparr>ed_mapping_index = 0, ed_data_offset = 0, ed_data_size = 17, ed_debug_data_offset = 0,
     ed_debug_data_size = 0, ed_config_data_offset = 0, ed_config_data_size = 0\<rparr>"

lemma demo_decompressed:
  "\<exists>st'. get_compressed_data demo_env demo_packed_state (demo_packed, 0) demo_descriptor demo_header
     = Inr ((InBuffer 2, 4), st') \<and> uncompressed_assemblies_data_buffer st'
     = [9, 9, 1, 2, 3, 4, 9, 9, 9, 9, 9, 9, 9, 9, 9, 9]"
proof -
  have "slice demo_packed 12 5 = Some [1, 2, 3, 4, 5]"
    unfolding demo_packed_def by (simp add: slice_past sizeof_defs) (simp add: slice_def)
  then have "load_bytes (demo_packed, 12) 5 = Inr [1, 2, 3, 4, 5]" by (simp add: load_bytes_def)
  then show ?thesis
    by (simp add: get_compressed_data_def demo_packed_state_def demo_header_def demo_descriptor_def
        Let_def decompress_into_def sizeof_defs demo_env_def buffer_write_def demo_state_def)
qed

theorem compressed_memory_safe_witness:
  "case get_compressed_data demo_env demo_packed_state (demo_packed, 0) demo_descriptor demo_header of
     Inl e \<Rightarrow> False | Inr ((d, n), st') \<Rightarrow> buffers_ok st' \<and> d = InBuffer 2 \<and> n = 4"
proof -
  have "case get_compressed_data demo_env demo_packed_state (demo_packed, 0) demo_descriptor demo_header of
     Inl e \<Rightarrow> e \<noteq> OutOfBounds | Inr ((d, n), st') \<Rightarrow> buffers_ok st'"
    using compressed_memory_safe [of demo_packed_state "(demo_packed, 0)" demo_descriptor, where env = demo_env and header = demo_header]
    by (simp add: buffers_ok_def demo_packed_state_def demo_packed_def demo_descriptor_def
        sizeof_defs split: sum.splits prod.splits)
  then show ?thesis using demo_decompressed by auto
qed

definition demo_satellite :: selection where
  "demo_satellite = [([97, 47, 66, 46, 100, 108, 108], demo_image)]"


end
