(* ===== verification/Decompress_Once.thy ===== *)
theory Decompress_Once
  imports Store_Format
begin

text \<open>
  Threads that open the same compressed assembly, \<open>AssemblyStore::get_assembly_data\<close>: the
  double-checked test of \<open>loaded\<close> around \<open>assembly_decompress_mutex\<close> as a step relation.  Each step is
  one shared access of one thread: the acquire load, taking the lock, the second load, the adjustment
  of the descriptor's size, \<open>ZSTD_decompress\<close>, the release store, leaving the lock's scope, and the
  read of the size for the result.  \<open>StartupAwareLock\<close> is outside the repository; it is taken as a
  mutual exclusion lock.  An abort ends the process, so no thread steps afterwards.
\<close>

section \<open>States and steps\<close>

datatype thread_pc =
    Test_loaded
  | Take_lock
  | Test_again
  | Adjust_size
  | Decompress
  | Publish
  | Unlock_found u32
  | Unlock
  | Read_size
  | Returned u32

record dstate =
  pcs :: "nat \<Rightarrow> thread_pc"
  lock_holder :: "nat option"
  loaded :: bool
  file_size :: u32
  slot :: "byte list option"
  runs :: nat
  aborted :: bool

definition goto :: "nat \<Rightarrow> thread_pc \<Rightarrow> dstate \<Rightarrow> dstate" where
  "goto t p s = s\<lparr>pcs := (pcs s)(t := p)\<rparr>"

inductive dstep :: "u32 \<Rightarrow> (u32 \<Rightarrow> byte list option) \<Rightarrow> nat \<Rightarrow> dstate \<Rightarrow> dstate \<Rightarrow> bool"
  for header_length :: u32 and decompress :: "u32 \<Rightarrow> byte list option" where
  test_loaded:
    "\<not> aborted s \<Longrightarrow> pcs s t = Test_loaded \<Longrightarrow>
     dstep header_length decompress t s (goto t (if loaded s then Read_size else Take_lock) s)"
| take_lock:
    "\<not> aborted s \<Longrightarrow> pcs s t = Take_lock \<Longrightarrow> lock_holder s = None \<Longrightarrow>
     dstep header_length decompress t s (goto t Test_again (s\<lparr>lock_holder := Some t\<rparr>))"
| test_again:
    "\<not> aborted s \<Longrightarrow> pcs s t = Test_again \<Longrightarrow>
     dstep header_length decompress t s (goto t (if loaded s then Unlock_found (file_size s) else Adjust_size) s)"
| adjust_larger:
    "\<not> aborted s \<Longrightarrow> pcs s t = Adjust_size \<Longrightarrow> header_length > file_size s \<Longrightarrow>
     dstep header_length decompress t s (s\<lparr>aborted := True\<rparr>)"
| adjust_size:
    "\<not> aborted s \<Longrightarrow> pcs s t = Adjust_size \<Longrightarrow> header_length \<le> file_size s \<Longrightarrow>
     dstep header_length decompress t s (goto t Decompress (s\<lparr>file_size := header_length\<rparr>))"
| decompress_fails:
    "\<not> aborted s \<Longrightarrow> pcs s t = Decompress \<Longrightarrow>
     (case decompress (file_size s) of None \<Rightarrow> True | Some out \<Rightarrow> length out \<noteq> unat (file_size s)) \<Longrightarrow>
     dstep header_length decompress t s (s\<lparr>runs := runs s + 1, aborted := True\<rparr>)"
| decompress:
    "\<not> aborted s \<Longrightarrow> pcs s t = Decompress \<Longrightarrow> decompress (file_size s) = Some out \<Longrightarrow>
     length out = unat (file_size s) \<Longrightarrow>
     dstep header_length decompress t s (goto t Publish (s\<lparr>runs := runs s + 1, slot := Some out\<rparr>))"
| publish:
    "\<not> aborted s \<Longrightarrow> pcs s t = Publish \<Longrightarrow>
     dstep header_length decompress t s (goto t Unlock (s\<lparr>loaded := True\<rparr>))"
| unlock_found:
    "\<not> aborted s \<Longrightarrow> pcs s t = Unlock_found n \<Longrightarrow>
     dstep header_length decompress t s (goto t (Returned n) (s\<lparr>lock_holder := None\<rparr>))"
| unlock:
    "\<not> aborted s \<Longrightarrow> pcs s t = Unlock \<Longrightarrow>
     dstep header_length decompress t s (goto t Read_size (s\<lparr>lock_holder := None\<rparr>))"
| read_size:
    "\<not> aborted s \<Longrightarrow> pcs s t = Read_size \<Longrightarrow>
     dstep header_length decompress t s (goto t (Returned (file_size s)) s)"

inductive_cases dstepE: "dstep header_length decompress t s s'"

definition dinit :: "u32 \<Rightarrow> dstate" where
  "dinit built_size = \<lparr>pcs = (\<lambda>_. Test_loaded), lock_holder = None, loaded = False,
     file_size = built_size, slot = None, runs = 0, aborted = False\<rparr>"

inductive dreach :: "u32 \<Rightarrow> u32 \<Rightarrow> (u32 \<Rightarrow> byte list option) \<Rightarrow> dstate \<Rightarrow> bool"
  for built_size header_length :: u32 and decompress :: "u32 \<Rightarrow> byte list option" where
  start: "dreach built_size header_length decompress (dinit built_size)"
| step: "dreach built_size header_length decompress s \<Longrightarrow> dstep header_length decompress t s s' \<Longrightarrow>
     dreach built_size header_length decompress s'"

section \<open>The invariant\<close>

fun in_lock :: "thread_pc \<Rightarrow> bool" where
  "in_lock Test_again = True"
| "in_lock Adjust_size = True"
| "in_lock Decompress = True"
| "in_lock Publish = True"
| "in_lock (Unlock_found n) = True"
| "in_lock Unlock = True"
| "in_lock pc = False"

text \<open>What a thread's position says of the shared state.\<close>

fun pc_ok :: "u32 \<Rightarrow> dstate \<Rightarrow> thread_pc \<Rightarrow> bool" where
  "pc_ok n s Adjust_size \<longleftrightarrow> \<not> loaded s \<and> runs s = 0"
| "pc_ok n s Decompress \<longleftrightarrow> \<not> loaded s \<and> runs s = 0 \<and> file_size s = n"
| "pc_ok n s Publish \<longleftrightarrow> \<not> loaded s \<and> runs s = 1 \<and> file_size s = n"
| "pc_ok n s (Unlock_found k) \<longleftrightarrow> loaded s \<and> k = n"
| "pc_ok n s Unlock \<longleftrightarrow> loaded s"
| "pc_ok n s Read_size \<longleftrightarrow> loaded s"
| "pc_ok n s (Returned k) \<longleftrightarrow> loaded s \<and> k = n"
| "pc_ok n s pc \<longleftrightarrow> True"

definition slot_served :: "u32 \<Rightarrow> (u32 \<Rightarrow> byte list option) \<Rightarrow> dstate \<Rightarrow> bool" where
  "slot_served n decompress s \<longleftrightarrow> (\<exists>out. slot s = Some out \<and> decompress n = Some out)"

definition dinv :: "u32 \<Rightarrow> (u32 \<Rightarrow> byte list option) \<Rightarrow> dstate \<Rightarrow> bool" where
  "dinv n decompress s \<longleftrightarrow>
     runs s \<le> 1 \<and>
     (\<not> aborted s \<longrightarrow>
       (\<forall>t. in_lock (pcs s t) \<longleftrightarrow> lock_holder s = Some t) \<and>
       (\<forall>t. pc_ok n s (pcs s t)) \<and>
       (loaded s \<longrightarrow> runs s = 1 \<and> file_size s = n) \<and>
       (runs s = 1 \<longrightarrow> slot_served n decompress s) \<and>
       (runs s = 1 \<and> \<not> loaded s \<longrightarrow> (\<exists>t. pcs s t = Publish)))"

lemma goto_simps [simp]:
  "pcs (goto t p s) = (pcs s)(t := p)" "lock_holder (goto t p s) = lock_holder s"
  "loaded (goto t p s) = loaded s" "file_size (goto t p s) = file_size s"
  "slot (goto t p s) = slot s" "runs (goto t p s) = runs s" "aborted (goto t p s) = aborted s"
  by (simp_all add: goto_def)

lemma pc_ok_outside:
  "\<not> in_lock pc \<Longrightarrow> pc_ok n s pc \<Longrightarrow> (loaded s \<longrightarrow> loaded s') \<Longrightarrow> pc_ok n s' pc"
  by (cases pc) auto

lemma pc_ok_same:
  "loaded s' = loaded s \<Longrightarrow> runs s' = runs s \<Longrightarrow> file_size s' = file_size s \<Longrightarrow> slot s' = slot s \<Longrightarrow>
   pc_ok n s' pc = pc_ok n s pc"
  by (cases pc) auto

lemma slot_served_same: "slot s' = slot s \<Longrightarrow> slot_served n decompress s' = slot_served n decompress s"
  by (simp add: slot_served_def)

lemma dinv_init: "dinv n decompress (dinit b)"
  by (auto simp: dinv_def dinit_def)

lemma dinvD:
  assumes "dinv n decompress s"
  shows "runs s \<le> 1"
    and "\<not> aborted s \<Longrightarrow> in_lock (pcs s t) \<longleftrightarrow> lock_holder s = Some t"
    and "\<not> aborted s \<Longrightarrow> pc_ok n s (pcs s t)"
    and "\<not> aborted s \<Longrightarrow> loaded s \<Longrightarrow> runs s = 1 \<and> file_size s = n"
    and "\<not> aborted s \<Longrightarrow> runs s = 1 \<Longrightarrow> slot_served n decompress s"
    and "\<not> aborted s \<Longrightarrow> runs s = 1 \<Longrightarrow> \<not> loaded s \<Longrightarrow> \<exists>t. pcs s t = Publish"
  using assms unfolding dinv_def by blast+

text \<open>A step moves one thread; the obligations split into that thread, the others and the shared state.\<close>

lemma dinv_goto:
  assumes "pcs s' = (pcs s)(t := p)" "runs s' \<le> 1"
    and "in_lock p \<longleftrightarrow> lock_holder s' = Some t" "\<And>u. u \<noteq> t \<Longrightarrow> in_lock (pcs s u) \<longleftrightarrow> lock_holder s' = Some u"
    and "pc_ok n s' p" "\<And>u. u \<noteq> t \<Longrightarrow> pc_ok n s' (pcs s u)"
    and "loaded s' \<Longrightarrow> runs s' = 1 \<and> file_size s' = n"
    and "runs s' = 1 \<Longrightarrow> slot_served n decompress s'"
    and "runs s' = 1 \<Longrightarrow> \<not> loaded s' \<Longrightarrow> \<exists>u. pcs s' u = Publish"
  shows "dinv n decompress s'"
proof -
  have "in_lock (pcs s' u) \<longleftrightarrow> lock_holder s' = Some u" "pc_ok n s' (pcs s' u)" for u
    using assms(3-6) by (cases "u = t"; simp add: assms(1))+
  with assms(2,7-9) show ?thesis unfolding dinv_def by blast
qed

text \<open>Inside the lock the other threads are outside it and keep what they know.\<close>

lemma others_ok:
  assumes "dinv n decompress s" "\<not> aborted s" "in_lock (pcs s t)" "loaded s \<longrightarrow> loaded s'" "u \<noteq> t"
  shows "pc_ok n s' (pcs s u)" "\<not> in_lock (pcs s u)" "pcs s u \<noteq> Publish"
proof -
  have "lock_holder s = Some t" using dinvD(2) [OF assms(1,2), of t] assms(3) by simp
  then show out: "\<not> in_lock (pcs s u)" using dinvD(2) [OF assms(1,2), of u] assms(5) by simp
  then show "pcs s u \<noteq> Publish" by auto
  show "pc_ok n s' (pcs s u)" using pc_ok_outside [OF out dinvD(3) [OF assms(1,2)] assms(4)] .
qed

lemma dinv_step_in_lock:
  assumes I: "dinv n decompress s" and a: "\<not> aborted s" and l: "in_lock (pcs s t)"
    and s': "pcs s' = (pcs s)(t := p)" "runs s' \<le> 1" "loaded s \<longrightarrow> loaded s'"
      "lock_holder s' = (if in_lock p then Some t else None)" "pc_ok n s' p"
      "loaded s' \<Longrightarrow> runs s' = 1 \<and> file_size s' = n"
      "runs s' = 1 \<Longrightarrow> slot_served n decompress s'"
      "runs s' = 1 \<Longrightarrow> \<not> loaded s' \<Longrightarrow> p = Publish"
  shows "dinv n decompress s'"
proof (rule dinv_goto [OF s'(1,2)])
  note o = others_ok [OF I a l s'(3)]
  show "in_lock p \<longleftrightarrow> lock_holder s' = Some t" by (simp add: s'(4))
  show "in_lock (pcs s u) \<longleftrightarrow> lock_holder s' = Some u" if "u \<noteq> t" for u
    using o(2) [OF that] that by (simp add: s'(4))
  show "pc_ok n s' (pcs s u)" if "u \<noteq> t" for u by (rule o(1) [OF that])
  show "pc_ok n s' p" by (rule s'(5))
  show "loaded s' \<Longrightarrow> runs s' = 1 \<and> file_size s' = n" by (rule s'(6))
  show "runs s' = 1 \<Longrightarrow> slot_served n decompress s'" by (rule s'(7))
  show "\<exists>u. pcs s' u = Publish" if "runs s' = 1" "\<not> loaded s'"
    using s'(8) [OF that] by (auto simp: s'(1))
qed

lemma dinv_step_outside:
  assumes I: "dinv n decompress s" and a: "\<not> aborted s" and out: "\<not> in_lock (pcs s t)"
    and s': "pcs s' = (pcs s)(t := p)" "runs s' = runs s" "loaded s' = loaded s" "file_size s' = file_size s"
      "slot s' = slot s" "lock_holder s' = (if in_lock p then Some t else lock_holder s)"
      "in_lock p \<longrightarrow> lock_holder s = None" "pc_ok n s p"
  shows "dinv n decompress s'"
proof (rule dinv_goto [OF s'(1)])
  note same = pc_ok_same [OF s'(3,2,4,5)]
  note D = dinvD [OF I]
  have lt: "lock_holder s \<noteq> Some t" using D(2) [OF a, of t] out by simp
  show "in_lock p \<longleftrightarrow> lock_holder s' = Some t" using lt by (simp add: s'(6))
  show "in_lock (pcs s u) \<longleftrightarrow> lock_holder s' = Some u" if "u \<noteq> t" for u
    using D(2) [OF a, of u] that s'(7) by (auto simp: s'(6))
  show "\<exists>u. pcs s' u = Publish" if r: "runs s' = 1" "\<not> loaded s'"
  proof -
    obtain u where u: "pcs s u = Publish" using D(6) [OF a] r by (auto simp: s'(2,3))
    with out have "u \<noteq> t" by auto
    with u show ?thesis by (auto simp: s'(1))
  qed
  show "runs s' \<le> 1" using D(1) by (simp add: s'(2))
  show "pc_ok n s' p" using s'(8) by (simp add: same)
  show "pc_ok n s' (pcs s u)" for u using D(3) [OF a] by (simp add: same)
  show "loaded s' \<Longrightarrow> runs s' = 1 \<and> file_size s' = n"
    using D(4) [OF a] unfolding s'(2-4) .
  show "runs s' = 1 \<Longrightarrow> slot_served n decompress s'" using D(5) [OF a] by (simp add: s'(2) slot_served_same [OF s'(5)])
qed

lemma dinv_step:
  assumes I: "dinv n decompress s" and step: "dstep n decompress t s s'"
  shows "dinv n decompress s'"
  using step
proof (cases rule: dstep.cases)
  case test_loaded
  show ?thesis
  proof (cases "loaded s")
    case True
    with test_loaded show ?thesis
      by (intro dinv_step_outside [where p = Read_size and t = t, OF I]) simp_all
  next
    case False
    with test_loaded show ?thesis
      by (intro dinv_step_outside [where p = Take_lock and t = t, OF I]) simp_all
  qed
next
  case take_lock
  show ?thesis by (rule dinv_step_outside [where p = Test_again and t = t, OF I]) (use take_lock in simp_all)
next
  case test_again
  then have l: "in_lock (pcs s t)" and a: "\<not> aborted s" by simp_all
  have "runs s = 0" if nl: "\<not> loaded s"
  proof (rule ccontr)
    assume "runs s \<noteq> 0"
    then have "runs s = 1" using dinvD(1) [OF I] by simp
    then obtain u where u: "pcs s u = Publish" using dinvD(6) [OF I a] nl by blast
    with test_again have "u \<noteq> t" by auto
    with u show False using others_ok(3) [OF I a l, of s u] by simp
  qed
  note idle = this
  have lk: "lock_holder s = Some t" using dinvD(2) [OF I a] l by simp
  show ?thesis
  proof (cases "loaded s")
    case True
    with test_again lk dinvD(4,5) [OF I a] show ?thesis
      by (intro dinv_step_in_lock [where p = "Unlock_found (file_size s)", OF I a l]) (auto simp: slot_served_def)
  next
    case False
    with test_again lk idle show ?thesis
      by (intro dinv_step_in_lock [where p = Adjust_size, OF I a l]) simp_all
  qed
next
  case adjust_larger
  with dinvD(1) [OF I] show ?thesis by (simp add: dinv_def)
next
  case adjust_size
  then have l: "in_lock (pcs s t)" and a: "\<not> aborted s" by simp_all
  show ?thesis
    by (rule dinv_step_in_lock [where p = Decompress, OF I a l])
      (use adjust_size dinvD [OF I] dinvD(2,3) [OF I a, of t] l in \<open>auto simp: slot_served_def\<close>)
next
  case decompress_fails
  then have a: "\<not> aborted s" by simp
  with decompress_fails show ?thesis using dinvD(3) [OF I a, of t] by (simp add: dinv_def)
next
  case (decompress out)
  then have l: "in_lock (pcs s t)" and a: "\<not> aborted s" by simp_all
  show ?thesis
    by (rule dinv_step_in_lock [where p = Publish, OF I a l])
      (use decompress dinvD [OF I] dinvD(2,3) [OF I a, of t] l in \<open>auto simp: slot_served_def\<close>)
next
  case publish
  then have l: "in_lock (pcs s t)" and a: "\<not> aborted s" by simp_all
  show ?thesis
    by (rule dinv_step_in_lock [where p = Unlock, OF I a l])
      (use publish dinvD [OF I] dinvD(2,3) [OF I a, of t] l in \<open>auto simp: slot_served_def\<close>)
next
  case (unlock_found k)
  then have l: "in_lock (pcs s t)" and a: "\<not> aborted s" by simp_all
  show ?thesis
    by (rule dinv_step_in_lock [where p = "Returned k", OF I a l])
      (use unlock_found dinvD [OF I] dinvD(2,3) [OF I a, of t] l in \<open>auto simp: slot_served_def\<close>)
next
  case unlock
  then have l: "in_lock (pcs s t)" and a: "\<not> aborted s" by simp_all
  show ?thesis
    by (rule dinv_step_in_lock [where p = Read_size, OF I a l])
      (use unlock dinvD [OF I] dinvD(2,3) [OF I a, of t] l in \<open>auto simp: slot_served_def\<close>)
next
  case read_size
  then have a: "\<not> aborted s" and ld: "loaded s" using dinvD(3) [OF I, of t] by auto
  show ?thesis by (rule dinv_step_outside [where p = "Returned n" and t = t, OF I a]) (use read_size ld dinvD(4) [OF I a] in simp_all)
qed

lemma dreach_dinv: "dreach b n decompress s \<Longrightarrow> dinv n decompress s"
  by (induction rule: dreach.induct) (auto intro: dinv_init dinv_step)

section \<open>Properties\<close>

text \<open>
  C9. However the threads interleave, the assembly is decompressed at most once, at most one thread
  is inside the lock, and every thread that has returned was handed the decompressed bytes with the
  length the header states.
\<close>

theorem decompressed_at_most_once:
  assumes "dreach built_size header_length decompress s" "\<not> aborted s"
  shows "runs s \<le> 1 \<and>
    (\<forall>t u. in_lock (pcs s t) \<and> in_lock (pcs s u) \<longrightarrow> t = u) \<and>
    (\<forall>t k. pcs s t = Returned k \<longrightarrow>
       k = header_length \<and> loaded s \<and> (\<exists>out. slot s = Some out \<and> decompress header_length = Some out))"
proof (intro conjI allI impI)
  note I = dreach_dinv [OF assms(1)]
  show "runs s \<le> 1" by (rule dinvD(1) [OF I])
  show "t = u" if "in_lock (pcs s t) \<and> in_lock (pcs s u)" for t u
    using dinvD(2) [OF I assms(2), of t] dinvD(2) [OF I assms(2), of u] that by simp
  fix t k assume "pcs s t = Returned k"
  then show l: "loaded s" and "k = header_length" using dinvD(3) [OF I assms(2), of t] by simp_all
  show "\<exists>out. slot s = Some out \<and> decompress header_length = Some out"
    using dinvD(4,5) [OF I assms(2)] l by (simp add: slot_served_def)
qed


section \<open>Two threads\<close>

definition demo_out :: "u32 \<Rightarrow> byte list option" where
  "demo_out n = (if n = 4 then Some [7, 7, 7, 7] else None)"

definition demo_mid :: dstate where
  "demo_mid = goto 1 Take_lock (goto 0 Take_lock (dinit 8))"

definition demo_done :: dstate where
  "demo_done = (goto 1 Take_lock (dinit 8))\<lparr>pcs := (\<lambda>_. Test_loaded)(1 := Take_lock, 0 := Returned 4),
     loaded := True, file_size := 4, slot := Some [7, 7, 7, 7], runs := 1\<rparr>"

lemma demo_mid_reached: "dreach 8 4 demo_out demo_mid"
proof -
  have "dstep 4 demo_out 0 (dinit 8) (goto 0 (if loaded (dinit 8) then Read_size else Take_lock) (dinit 8))"
    by (rule dstep.test_loaded) (simp_all add: dinit_def)
  then have one: "dreach 8 4 demo_out (goto 0 Take_lock (dinit 8))"
    by (auto simp: dinit_def intro: dreach.step [OF dreach.start])
  have "dstep 4 demo_out 1 (goto 0 Take_lock (dinit 8))
      (goto 1 (if loaded (goto 0 Take_lock (dinit 8)) then Read_size else Take_lock) (goto 0 Take_lock (dinit 8)))"
    by (rule dstep.test_loaded) (simp_all add: dinit_def)
  then show ?thesis unfolding demo_mid_def by (auto simp: dinit_def intro: dreach.step [OF one])
qed

lemma dstep_eq: "dstep n d t s s' \<Longrightarrow> s' = s'' \<Longrightarrow> dstep n d t s s''"
  by simp

lemma demo_done_reached: "dreach 8 4 demo_out demo_done"
proof -
  define s where "s p l ld sz sl r = \<lparr>pcs = (\<lambda>_. Test_loaded)(1 := Take_lock, 0 := p), lock_holder = l, loaded = ld,
      file_size = sz, slot = sl, runs = r, aborted = False\<rparr>" for p l ld sz sl r
  have g: "goto 0 q (s p l ld sz sl r) = s q l ld sz sl r" for p q l ld sz sl r
    by (simp add: goto_def s_def fun_upd_twist)
  note start = demo_mid_reached
  have mid: "demo_mid = s Take_lock None False 8 None 0"
    by (simp add: demo_mid_def goto_def dinit_def s_def fun_upd_twist)
  have "dstep 4 demo_out 0 (s Take_lock None False 8 None 0) (s Test_again (Some 0) False 8 None 0)"
    by (rule dstep_eq [OF dstep.take_lock]) (simp_all add: s_def goto_def fun_upd_twist)
  note r1 = dreach.step [OF start [unfolded mid] this]
  have "dstep 4 demo_out 0 (s Test_again (Some 0) False 8 None 0) (s Adjust_size (Some 0) False 8 None 0)"
    by (rule dstep_eq [OF dstep.test_again]) (simp_all add: s_def goto_def fun_upd_twist)
  note r2 = dreach.step [OF r1 this]
  have "dstep 4 demo_out 0 (s Adjust_size (Some 0) False 8 None 0) (s Decompress (Some 0) False 4 None 0)"
    by (rule dstep_eq [OF dstep.adjust_size]) (simp_all add: s_def goto_def fun_upd_twist)
  note r3 = dreach.step [OF r2 this]
  have "dstep 4 demo_out 0 (s Decompress (Some 0) False 4 None 0) (s Publish (Some 0) False 4 (Some [7, 7, 7, 7]) 1)"
    by (rule dstep_eq [OF dstep.decompress [where out = "[7, 7, 7, 7]"]])
      (simp_all add: s_def goto_def fun_upd_twist demo_out_def)
  note r4 = dreach.step [OF r3 this]
  have "dstep 4 demo_out 0 (s Publish (Some 0) False 4 (Some [7, 7, 7, 7]) 1) (s Unlock (Some 0) True 4 (Some [7, 7, 7, 7]) 1)"
    by (rule dstep_eq [OF dstep.publish]) (simp_all add: s_def goto_def fun_upd_twist)
  note r5 = dreach.step [OF r4 this]
  have "dstep 4 demo_out 0 (s Unlock (Some 0) True 4 (Some [7, 7, 7, 7]) 1) (s Read_size None True 4 (Some [7, 7, 7, 7]) 1)"
    by (rule dstep_eq [OF dstep.unlock]) (simp_all add: s_def goto_def fun_upd_twist)
  note r6 = dreach.step [OF r5 this]
  have "dstep 4 demo_out 0 (s Read_size None True 4 (Some [7, 7, 7, 7]) 1) (s (Returned 4) None True 4 (Some [7, 7, 7, 7]) 1)"
    by (rule dstep_eq [OF dstep.read_size]) (simp_all add: s_def goto_def fun_upd_twist)
  note r7 = dreach.step [OF r6 this]
  then show ?thesis by (simp add: demo_done_def s_def goto_def dinit_def)
qed

theorem decompressed_at_most_once_witness:
  "runs demo_done \<le> 1 \<and> (\<exists>out. slot demo_done = Some out \<and> demo_out 4 = Some out) \<and> pcs demo_done 0 = Returned 4"
proof -
  have "pcs demo_done 0 = Returned 4" "\<not> aborted demo_done" by (simp_all add: demo_done_def goto_def dinit_def)
  with decompressed_at_most_once [OF demo_done_reached] show ?thesis by blast
qed


end
