(* ===== verification/Elf_Enums.thy ===== *)
theory Elf_Enums
  imports Main "HOL-Library.Word"
begin

text \<open>
  The enumerations of \<open>lib/ELF.h\<close>, one table per \<open>enum\<close> in the order of the header: each enumerator
  with its initializer expression.  The relocation enumerations, which are included from \<open>.def\<close> files
  outside the header, are not part of these tables.  \<open>enum_values\<close> is the value of each enumerator as
  C++ defines it, an initializer may refer to the enumerators before it.
\<close>

section \<open>Enumerations\<close>

datatype cexpr = Lit nat | Enumerator string | Shl cexpr cexpr | Bor cexpr cexpr | Plus cexpr cexpr

fun ceval :: "(string \<times> nat) list \<Rightarrow> cexpr \<Rightarrow> nat option" where
  "ceval env (Lit n) = Some n"
| "ceval env (Enumerator x) = map_of env x"
| "ceval env (Shl a b) = (case (ceval env a, ceval env b) of (Some m, Some k) \<Rightarrow> Some (push_bit k m) | _ \<Rightarrow> None)"
| "ceval env (Bor a b) = (case (ceval env a, ceval env b) of (Some m, Some k) \<Rightarrow> Some (or m k) | _ \<Rightarrow> None)"
| "ceval env (Plus a b) = (case (ceval env a, ceval env b) of (Some m, Some k) \<Rightarrow> Some (m + k) | _ \<Rightarrow> None)"

fun enum_from :: "(string \<times> nat) list \<Rightarrow> (string \<times> cexpr) list \<Rightarrow> (string \<times> nat) list option" where
  "enum_from env [] = Some env"
| "enum_from env ((x, e) # es) = (case ceval env e of None \<Rightarrow> None | Some v \<Rightarrow> enum_from ((x, v) # env) es)"

definition enum_values :: "(string \<times> cexpr) list \<Rightarrow> (string \<times> nat) list option" where
  "enum_values es = map_option rev (enum_from [] es)"

section \<open>The tables\<close>

definition AMDGPU_MACH_LIST :: "(string \<times> cexpr) list" where
  "AMDGPU_MACH_LIST = [
    (''EF_AMDGPU_MACH_R600_R600'', Lit 0x01), (''EF_AMDGPU_MACH_R600_R630'', Lit 0x02),
    (''EF_AMDGPU_MACH_R600_RS880'', Lit 0x03), (''EF_AMDGPU_MACH_R600_RV670'', Lit 0x04),
    (''EF_AMDGPU_MACH_R600_RV710'', Lit 0x05), (''EF_AMDGPU_MACH_R600_RV730'', Lit 0x06),
    (''EF_AMDGPU_MACH_R600_RV770'', Lit 0x07), (''EF_AMDGPU_MACH_R600_CEDAR'', Lit 0x08),
    (''EF_AMDGPU_MACH_R600_CYPRESS'', Lit 0x09), (''EF_AMDGPU_MACH_R600_JUNIPER'', Lit 0x0a),
    (''EF_AMDGPU_MACH_R600_REDWOOD'', Lit 0x0b), (''EF_AMDGPU_MACH_R600_SUMO'', Lit 0x0c),
    (''EF_AMDGPU_MACH_R600_BARTS'', Lit 0x0d), (''EF_AMDGPU_MACH_R600_CAICOS'', Lit 0x0e),
    (''EF_AMDGPU_MACH_R600_CAYMAN'', Lit 0x0f), (''EF_AMDGPU_MACH_R600_TURKS'', Lit 0x10),
    (''EF_AMDGPU_MACH_AMDGCN_GFX600'', Lit 0x20), (''EF_AMDGPU_MACH_AMDGCN_GFX601'', Lit 0x21),
    (''EF_AMDGPU_MACH_AMDGCN_GFX700'', Lit 0x22), (''EF_AMDGPU_MACH_AMDGCN_GFX701'', Lit 0x23),
    (''EF_AMDGPU_MACH_AMDGCN_GFX702'', Lit 0x24), (''EF_AMDGPU_MACH_AMDGCN_GFX703'', Lit 0x25),
    (''EF_AMDGPU_MACH_AMDGCN_GFX704'', Lit 0x26), (''EF_AMDGPU_MACH_AMDGCN_GFX801'', Lit 0x28),
    (''EF_AMDGPU_MACH_AMDGCN_GFX802'', Lit 0x29), (''EF_AMDGPU_MACH_AMDGCN_GFX803'', Lit 0x2a),
    (''EF_AMDGPU_MACH_AMDGCN_GFX810'', Lit 0x2b), (''EF_AMDGPU_MACH_AMDGCN_GFX900'', Lit 0x2c),
    (''EF_AMDGPU_MACH_AMDGCN_GFX902'', Lit 0x2d), (''EF_AMDGPU_MACH_AMDGCN_GFX904'', Lit 0x2e),
    (''EF_AMDGPU_MACH_AMDGCN_GFX906'', Lit 0x2f), (''EF_AMDGPU_MACH_AMDGCN_GFX908'', Lit 0x30),
    (''EF_AMDGPU_MACH_AMDGCN_GFX909'', Lit 0x31), (''EF_AMDGPU_MACH_AMDGCN_GFX90C'', Lit 0x32),
    (''EF_AMDGPU_MACH_AMDGCN_GFX1010'', Lit 0x33), (''EF_AMDGPU_MACH_AMDGCN_GFX1011'', Lit 0x34),
    (''EF_AMDGPU_MACH_AMDGCN_GFX1012'', Lit 0x35), (''EF_AMDGPU_MACH_AMDGCN_GFX1030'', Lit 0x36),
    (''EF_AMDGPU_MACH_AMDGCN_GFX1031'', Lit 0x37), (''EF_AMDGPU_MACH_AMDGCN_GFX1032'', Lit 0x38),
    (''EF_AMDGPU_MACH_AMDGCN_GFX1033'', Lit 0x39), (''EF_AMDGPU_MACH_AMDGCN_GFX602'', Lit 0x3a),
    (''EF_AMDGPU_MACH_AMDGCN_GFX705'', Lit 0x3b), (''EF_AMDGPU_MACH_AMDGCN_GFX805'', Lit 0x3c),
    (''EF_AMDGPU_MACH_AMDGCN_GFX1035'', Lit 0x3d), (''EF_AMDGPU_MACH_AMDGCN_GFX1034'', Lit 0x3e),
    (''EF_AMDGPU_MACH_AMDGCN_GFX90A'', Lit 0x3f), (''EF_AMDGPU_MACH_AMDGCN_GFX1100'', Lit 0x41),
    (''EF_AMDGPU_MACH_AMDGCN_GFX1013'', Lit 0x42), (''EF_AMDGPU_MACH_AMDGCN_GFX1150'', Lit 0x43),
    (''EF_AMDGPU_MACH_AMDGCN_GFX1103'', Lit 0x44), (''EF_AMDGPU_MACH_AMDGCN_GFX1036'', Lit 0x45),
    (''EF_AMDGPU_MACH_AMDGCN_GFX1101'', Lit 0x46), (''EF_AMDGPU_MACH_AMDGCN_GFX1102'', Lit 0x47),
    (''EF_AMDGPU_MACH_AMDGCN_GFX1200'', Lit 0x48), (''EF_AMDGPU_MACH_AMDGCN_GFX1250'', Lit 0x49),
    (''EF_AMDGPU_MACH_AMDGCN_GFX1151'', Lit 0x4a), (''EF_AMDGPU_MACH_AMDGCN_GFX942'', Lit 0x4c),
    (''EF_AMDGPU_MACH_AMDGCN_GFX1201'', Lit 0x4e), (''EF_AMDGPU_MACH_AMDGCN_GFX950'', Lit 0x4f),
    (''EF_AMDGPU_MACH_AMDGCN_GFX1310'', Lit 0x50), (''EF_AMDGPU_MACH_AMDGCN_GFX9_GENERIC'', Lit 0x51),
    (''EF_AMDGPU_MACH_AMDGCN_GFX10_1_GENERIC'', Lit 0x52),
    (''EF_AMDGPU_MACH_AMDGCN_GFX10_3_GENERIC'', Lit 0x53),
    (''EF_AMDGPU_MACH_AMDGCN_GFX11_GENERIC'', Lit 0x54), (''EF_AMDGPU_MACH_AMDGCN_GFX1152'', Lit 0x55),
    (''EF_AMDGPU_MACH_AMDGCN_GFX1154'', Lit 0x57), (''EF_AMDGPU_MACH_AMDGCN_GFX1153'', Lit 0x58),
    (''EF_AMDGPU_MACH_AMDGCN_GFX12_GENERIC'', Lit 0x59), (''EF_AMDGPU_MACH_AMDGCN_GFX1251'', Lit 0x5a),
    (''EF_AMDGPU_MACH_AMDGCN_GFX12_5_GENERIC'', Lit 0x5b),
    (''EF_AMDGPU_MACH_AMDGCN_GFX1172'', Lit 0x5c), (''EF_AMDGPU_MACH_AMDGCN_GFX1170'', Lit 0x5d),
    (''EF_AMDGPU_MACH_AMDGCN_GFX1171'', Lit 0x5e),
    (''EF_AMDGPU_MACH_AMDGCN_GFX9_4_GENERIC'', Lit 0x5f),
    (''EF_AMDGPU_MACH_AMDGCN_GFX11_7_GENERIC'', Lit 0x62),
    (''EF_AMDGPU_MACH_AMDGCN_GFX13_GENERIC'', Lit 0x63),
    (''EF_AMDGPU_MACH_AMDGCN_GFX1250_STRICT'', Lit 0xeb)]"

definition EI_enum :: "(string \<times> cexpr) list" where
  "EI_enum = [
    (''EI_MAG0'', Lit 0), (''EI_MAG1'', Lit 1), (''EI_MAG2'', Lit 2), (''EI_MAG3'', Lit 3),
    (''EI_CLASS'', Lit 4), (''EI_DATA'', Lit 5), (''EI_VERSION'', Lit 6), (''EI_OSABI'', Lit 7),
    (''EI_ABIVERSION'', Lit 8), (''EI_PAD'', Lit 9), (''EI_NIDENT'', Lit 16)]"

definition ET_enum :: "(string \<times> cexpr) list" where
  "ET_enum = [
    (''ET_NONE'', Lit 0), (''ET_REL'', Lit 1), (''ET_EXEC'', Lit 2), (''ET_DYN'', Lit 3),
    (''ET_CORE'', Lit 4), (''ET_LOOS'', Lit 0xfe00), (''ET_HIOS'', Lit 0xfeff),
    (''ET_LOPROC'', Lit 0xff00), (''ET_HIPROC'', Lit 0xffff)]"

definition EV_enum :: "(string \<times> cexpr) list" where
  "EV_enum = [
    (''EV_NONE'', Lit 0), (''EV_CURRENT'', Lit 1)]"

definition EM_enum :: "(string \<times> cexpr) list" where
  "EM_enum = [
    (''EM_NONE'', Lit 0), (''EM_M32'', Lit 1), (''EM_SPARC'', Lit 2), (''EM_386'', Lit 3),
    (''EM_68K'', Lit 4), (''EM_88K'', Lit 5), (''EM_IAMCU'', Lit 6), (''EM_860'', Lit 7),
    (''EM_MIPS'', Lit 8), (''EM_S370'', Lit 9), (''EM_MIPS_RS3_LE'', Lit 10), (''EM_PARISC'', Lit 15),
    (''EM_VPP500'', Lit 17), (''EM_SPARC32PLUS'', Lit 18), (''EM_960'', Lit 19), (''EM_PPC'', Lit 20),
    (''EM_PPC64'', Lit 21), (''EM_S390'', Lit 22), (''EM_SPU'', Lit 23), (''EM_V800'', Lit 36),
    (''EM_FR20'', Lit 37), (''EM_RH32'', Lit 38), (''EM_RCE'', Lit 39), (''EM_ARM'', Lit 40),
    (''EM_ALPHA'', Lit 41), (''EM_SH'', Lit 42), (''EM_SPARCV9'', Lit 43), (''EM_TRICORE'', Lit 44),
    (''EM_ARC'', Lit 45), (''EM_H8_300'', Lit 46), (''EM_H8_300H'', Lit 47), (''EM_H8S'', Lit 48),
    (''EM_H8_500'', Lit 49), (''EM_IA_64'', Lit 50), (''EM_MIPS_X'', Lit 51),
    (''EM_COLDFIRE'', Lit 52), (''EM_68HC12'', Lit 53), (''EM_MMA'', Lit 54), (''EM_PCP'', Lit 55),
    (''EM_NCPU'', Lit 56), (''EM_NDR1'', Lit 57), (''EM_STARCORE'', Lit 58), (''EM_ME16'', Lit 59),
    (''EM_ST100'', Lit 60), (''EM_TINYJ'', Lit 61), (''EM_X86_64'', Lit 62), (''EM_PDSP'', Lit 63),
    (''EM_PDP10'', Lit 64), (''EM_PDP11'', Lit 65), (''EM_FX66'', Lit 66), (''EM_ST9PLUS'', Lit 67),
    (''EM_ST7'', Lit 68), (''EM_68HC16'', Lit 69), (''EM_68HC11'', Lit 70), (''EM_68HC08'', Lit 71),
    (''EM_68HC05'', Lit 72), (''EM_SVX'', Lit 73), (''EM_ST19'', Lit 74), (''EM_VAX'', Lit 75),
    (''EM_CRIS'', Lit 76), (''EM_JAVELIN'', Lit 77), (''EM_FIREPATH'', Lit 78), (''EM_ZSP'', Lit 79),
    (''EM_MMIX'', Lit 80), (''EM_HUANY'', Lit 81), (''EM_PRISM'', Lit 82), (''EM_AVR'', Lit 83),
    (''EM_FR30'', Lit 84), (''EM_D10V'', Lit 85), (''EM_D30V'', Lit 86), (''EM_V850'', Lit 87),
    (''EM_M32R'', Lit 88), (''EM_MN10300'', Lit 89), (''EM_MN10200'', Lit 90), (''EM_PJ'', Lit 91),
    (''EM_OPENRISC'', Lit 92), (''EM_ARC_COMPACT'', Lit 93), (''EM_XTENSA'', Lit 94),
    (''EM_VIDEOCORE'', Lit 95), (''EM_TMM_GPP'', Lit 96), (''EM_NS32K'', Lit 97), (''EM_TPC'', Lit 98),
    (''EM_SNP1K'', Lit 99), (''EM_ST200'', Lit 100), (''EM_IP2K'', Lit 101), (''EM_MAX'', Lit 102),
    (''EM_CR'', Lit 103), (''EM_F2MC16'', Lit 104), (''EM_MSP430'', Lit 105),
    (''EM_BLACKFIN'', Lit 106), (''EM_SE_C33'', Lit 107), (''EM_SEP'', Lit 108),
    (''EM_ARCA'', Lit 109), (''EM_UNICORE'', Lit 110), (''EM_EXCESS'', Lit 111), (''EM_DXP'', Lit 112),
    (''EM_ALTERA_NIOS2'', Lit 113), (''EM_CRX'', Lit 114), (''EM_XGATE'', Lit 115),
    (''EM_C166'', Lit 116), (''EM_M16C'', Lit 117), (''EM_DSPIC30F'', Lit 118), (''EM_CE'', Lit 119),
    (''EM_M32C'', Lit 120), (''EM_TSK3000'', Lit 131), (''EM_RS08'', Lit 132), (''EM_SHARC'', Lit 133),
    (''EM_ECOG2'', Lit 134), (''EM_SCORE7'', Lit 135), (''EM_DSP24'', Lit 136),
    (''EM_VIDEOCORE3'', Lit 137), (''EM_LATTICEMICO32'', Lit 138), (''EM_SE_C17'', Lit 139),
    (''EM_TI_C6000'', Lit 140), (''EM_TI_C2000'', Lit 141), (''EM_TI_C5500'', Lit 142),
    (''EM_MMDSP_PLUS'', Lit 160), (''EM_CYPRESS_M8C'', Lit 161), (''EM_R32C'', Lit 162),
    (''EM_TRIMEDIA'', Lit 163), (''EM_HEXAGON'', Lit 164), (''EM_8051'', Lit 165),
    (''EM_STXP7X'', Lit 166), (''EM_NDS32'', Lit 167), (''EM_ECOG1'', Lit 168),
    (''EM_ECOG1X'', Lit 168), (''EM_MAXQ30'', Lit 169), (''EM_XIMO16'', Lit 170),
    (''EM_MANIK'', Lit 171), (''EM_CRAYNV2'', Lit 172), (''EM_RX'', Lit 173), (''EM_METAG'', Lit 174),
    (''EM_MCST_ELBRUS'', Lit 175), (''EM_ECOG16'', Lit 176), (''EM_CR16'', Lit 177),
    (''EM_ETPU'', Lit 178), (''EM_SLE9X'', Lit 179), (''EM_L10M'', Lit 180), (''EM_K10M'', Lit 181),
    (''EM_AARCH64'', Lit 183), (''EM_AVR32'', Lit 185), (''EM_STM8'', Lit 186),
    (''EM_TILE64'', Lit 187), (''EM_TILEPRO'', Lit 188), (''EM_MICROBLAZE'', Lit 189),
    (''EM_CUDA'', Lit 190), (''EM_TILEGX'', Lit 191), (''EM_CLOUDSHIELD'', Lit 192),
    (''EM_COREA_1ST'', Lit 193), (''EM_COREA_2ND'', Lit 194), (''EM_ARC_COMPACT2'', Lit 195),
    (''EM_OPEN8'', Lit 196), (''EM_RL78'', Lit 197), (''EM_VIDEOCORE5'', Lit 198),
    (''EM_78KOR'', Lit 199), (''EM_56800EX'', Lit 200), (''EM_BA1'', Lit 201), (''EM_BA2'', Lit 202),
    (''EM_XCORE'', Lit 203), (''EM_MCHP_PIC'', Lit 204), (''EM_INTELGT'', Lit 205),
    (''EM_INTEL206'', Lit 206), (''EM_INTEL207'', Lit 207), (''EM_INTEL208'', Lit 208),
    (''EM_INTEL209'', Lit 209), (''EM_KM32'', Lit 210), (''EM_KMX32'', Lit 211),
    (''EM_KMX16'', Lit 212), (''EM_KMX8'', Lit 213), (''EM_KVARC'', Lit 214), (''EM_CDP'', Lit 215),
    (''EM_COGE'', Lit 216), (''EM_COOL'', Lit 217), (''EM_NORC'', Lit 218),
    (''EM_CSR_KALIMBA'', Lit 219), (''EM_AMDGPU'', Lit 224), (''EM_RISCV'', Lit 243),
    (''EM_LANAI'', Lit 244), (''EM_BPF'', Lit 247), (''EM_VE'', Lit 251), (''EM_CSKY'', Lit 252),
    (''EM_LOONGARCH'', Lit 258)]"

definition ELFCLASS_enum :: "(string \<times> cexpr) list" where
  "ELFCLASS_enum = [
    (''ELFCLASSNONE'', Lit 0), (''ELFCLASS32'', Lit 1), (''ELFCLASS64'', Lit 2)]"

definition ELFDATA_enum :: "(string \<times> cexpr) list" where
  "ELFDATA_enum = [
    (''ELFDATANONE'', Lit 0), (''ELFDATA2LSB'', Lit 1), (''ELFDATA2MSB'', Lit 2)]"

definition ELFOSABI_enum :: "(string \<times> cexpr) list" where
  "ELFOSABI_enum = [
    (''ELFOSABI_NONE'', Lit 0), (''ELFOSABI_HPUX'', Lit 1), (''ELFOSABI_NETBSD'', Lit 2),
    (''ELFOSABI_GNU'', Lit 3), (''ELFOSABI_LINUX'', Lit 3), (''ELFOSABI_HURD'', Lit 4),
    (''ELFOSABI_SOLARIS'', Lit 6), (''ELFOSABI_AIX'', Lit 7), (''ELFOSABI_IRIX'', Lit 8),
    (''ELFOSABI_FREEBSD'', Lit 9), (''ELFOSABI_TRU64'', Lit 10), (''ELFOSABI_MODESTO'', Lit 11),
    (''ELFOSABI_OPENBSD'', Lit 12), (''ELFOSABI_OPENVMS'', Lit 13), (''ELFOSABI_NSK'', Lit 14),
    (''ELFOSABI_AROS'', Lit 15), (''ELFOSABI_FENIXOS'', Lit 16), (''ELFOSABI_CLOUDABI'', Lit 17),
    (''ELFOSABI_CUDA'', Lit 51), (''ELFOSABI_CUDA_V2'', Lit 41), (''ELFOSABI_FIRST_ARCH'', Lit 64),
    (''ELFOSABI_AMDGPU_HSA'', Lit 64), (''ELFOSABI_AMDGPU_PAL'', Lit 65),
    (''ELFOSABI_AMDGPU_MESA3D'', Lit 66), (''ELFOSABI_ARM'', Lit 97), (''ELFOSABI_ARM_FDPIC'', Lit 65),
    (''ELFOSABI_C6000_ELFABI'', Lit 64), (''ELFOSABI_C6000_LINUX'', Lit 65),
    (''ELFOSABI_STANDALONE'', Lit 255), (''ELFOSABI_LAST_ARCH'', Lit 255)]"

definition ELFABIVERSION_AMDGPU_enum :: "(string \<times> cexpr) list" where
  "ELFABIVERSION_AMDGPU_enum = [
    (''ELFABIVERSION_AMDGPU_HSA_V2'', Lit 0), (''ELFABIVERSION_AMDGPU_HSA_V3'', Lit 1),
    (''ELFABIVERSION_AMDGPU_HSA_V4'', Lit 2), (''ELFABIVERSION_AMDGPU_HSA_V5'', Lit 3),
    (''ELFABIVERSION_AMDGPU_HSA_V6'', Lit 4)]"

definition ELFABIVERSION_CUDA_enum :: "(string \<times> cexpr) list" where
  "ELFABIVERSION_CUDA_enum = [
    (''ELFABIVERSION_CUDA_V1'', Lit 7), (''ELFABIVERSION_CUDA_V2'', Lit 8)]"

definition EF_PPC64_enum :: "(string \<times> cexpr) list" where
  "EF_PPC64_enum = [
    (''EF_PPC64_ABI'', Lit 3)]"

definition STO_PPC64_enum :: "(string \<times> cexpr) list" where
  "STO_PPC64_enum = [
    (''STO_PPC64_LOCAL_BIT'', Lit 5),
    (''STO_PPC64_LOCAL_MASK'', Shl (Lit 7) (Enumerator ''STO_PPC64_LOCAL_BIT''))]"

definition STO_AARCH64_enum :: "(string \<times> cexpr) list" where
  "STO_AARCH64_enum = [
    (''STO_AARCH64_VARIANT_PCS'', Lit 0x80)]"

definition EF_ARM_enum :: "(string \<times> cexpr) list" where
  "EF_ARM_enum = [
    (''EF_ARM_SOFT_FLOAT'', Lit 0x00000200), (''EF_ARM_ABI_FLOAT_SOFT'', Lit 0x00000200),
    (''EF_ARM_VFP_FLOAT'', Lit 0x00000400), (''EF_ARM_ABI_FLOAT_HARD'', Lit 0x00000400),
    (''EF_ARM_BE8'', Lit 0x00800000), (''EF_ARM_EABI_UNKNOWN'', Lit 0x00000000),
    (''EF_ARM_EABI_VER1'', Lit 0x01000000), (''EF_ARM_EABI_VER2'', Lit 0x02000000),
    (''EF_ARM_EABI_VER3'', Lit 0x03000000), (''EF_ARM_EABI_VER4'', Lit 0x04000000),
    (''EF_ARM_EABI_VER5'', Lit 0x05000000), (''EF_ARM_EABIMASK'', Lit 0xff000000)]"

definition EF_ARC_enum :: "(string \<times> cexpr) list" where
  "EF_ARC_enum = [
    (''EF_ARC_MACH_MSK'', Lit 0x000000ff), (''EF_ARC_OSABI_MSK'', Lit 0x00000f00),
    (''E_ARC_MACH_ARC600'', Lit 0x00000002), (''E_ARC_MACH_ARC601'', Lit 0x00000004),
    (''E_ARC_MACH_ARC700'', Lit 0x00000003), (''EF_ARC_CPU_ARCV2EM'', Lit 0x00000005),
    (''EF_ARC_CPU_ARCV2HS'', Lit 0x00000006), (''E_ARC_OSABI_ORIG'', Lit 0x00000000),
    (''E_ARC_OSABI_V2'', Lit 0x00000200), (''E_ARC_OSABI_V3'', Lit 0x00000300),
    (''E_ARC_OSABI_V4'', Lit 0x00000400), (''EF_ARC_PIC'', Lit 0x00000100)]"

definition EF_AVR_enum :: "(string \<times> cexpr) list" where
  "EF_AVR_enum = [
    (''EF_AVR_ARCH_AVR1'', Lit 1), (''EF_AVR_ARCH_AVR2'', Lit 2), (''EF_AVR_ARCH_AVR25'', Lit 25),
    (''EF_AVR_ARCH_AVR3'', Lit 3), (''EF_AVR_ARCH_AVR31'', Lit 31), (''EF_AVR_ARCH_AVR35'', Lit 35),
    (''EF_AVR_ARCH_AVR4'', Lit 4), (''EF_AVR_ARCH_AVR5'', Lit 5), (''EF_AVR_ARCH_AVR51'', Lit 51),
    (''EF_AVR_ARCH_AVR6'', Lit 6), (''EF_AVR_ARCH_AVRTINY'', Lit 100),
    (''EF_AVR_ARCH_XMEGA1'', Lit 101), (''EF_AVR_ARCH_XMEGA2'', Lit 102),
    (''EF_AVR_ARCH_XMEGA3'', Lit 103), (''EF_AVR_ARCH_XMEGA4'', Lit 104),
    (''EF_AVR_ARCH_XMEGA5'', Lit 105), (''EF_AVR_ARCH_XMEGA6'', Lit 106),
    (''EF_AVR_ARCH_XMEGA7'', Lit 107), (''EF_AVR_ARCH_MASK'', Lit 0x7f),
    (''EF_AVR_LINKRELAX_PREPARED'', Lit 0x80)]"

definition EF_MIPS_enum :: "(string \<times> cexpr) list" where
  "EF_MIPS_enum = [
    (''EF_MIPS_NOREORDER'', Lit 0x00000001), (''EF_MIPS_PIC'', Lit 0x00000002),
    (''EF_MIPS_CPIC'', Lit 0x00000004), (''EF_MIPS_ABI2'', Lit 0x00000020),
    (''EF_MIPS_32BITMODE'', Lit 0x00000100), (''EF_MIPS_FP64'', Lit 0x00000200),
    (''EF_MIPS_NAN2008'', Lit 0x00000400), (''EF_MIPS_ABI_O32'', Lit 0x00001000),
    (''EF_MIPS_ABI_O64'', Lit 0x00002000), (''EF_MIPS_ABI_EABI32'', Lit 0x00003000),
    (''EF_MIPS_ABI_EABI64'', Lit 0x00004000), (''EF_MIPS_ABI'', Lit 0x0000f000),
    (''EF_MIPS_MACH_NONE'', Lit 0x00000000), (''EF_MIPS_MACH_3900'', Lit 0x00810000),
    (''EF_MIPS_MACH_4010'', Lit 0x00820000), (''EF_MIPS_MACH_4100'', Lit 0x00830000),
    (''EF_MIPS_MACH_4650'', Lit 0x00850000), (''EF_MIPS_MACH_4120'', Lit 0x00870000),
    (''EF_MIPS_MACH_4111'', Lit 0x00880000), (''EF_MIPS_MACH_SB1'', Lit 0x008a0000),
    (''EF_MIPS_MACH_OCTEON'', Lit 0x008b0000), (''EF_MIPS_MACH_XLR'', Lit 0x008c0000),
    (''EF_MIPS_MACH_OCTEON2'', Lit 0x008d0000), (''EF_MIPS_MACH_OCTEON3'', Lit 0x008e0000),
    (''EF_MIPS_MACH_5400'', Lit 0x00910000), (''EF_MIPS_MACH_5900'', Lit 0x00920000),
    (''EF_MIPS_MACH_5500'', Lit 0x00980000), (''EF_MIPS_MACH_9000'', Lit 0x00990000),
    (''EF_MIPS_MACH_LS2E'', Lit 0x00a00000), (''EF_MIPS_MACH_LS2F'', Lit 0x00a10000),
    (''EF_MIPS_MACH_LS3A'', Lit 0x00a20000), (''EF_MIPS_MACH'', Lit 0x00ff0000),
    (''EF_MIPS_MICROMIPS'', Lit 0x02000000), (''EF_MIPS_ARCH_ASE_M16'', Lit 0x04000000),
    (''EF_MIPS_ARCH_ASE_MDMX'', Lit 0x08000000), (''EF_MIPS_ARCH_ASE'', Lit 0x0f000000),
    (''EF_MIPS_ARCH_1'', Lit 0x00000000), (''EF_MIPS_ARCH_2'', Lit 0x10000000),
    (''EF_MIPS_ARCH_3'', Lit 0x20000000), (''EF_MIPS_ARCH_4'', Lit 0x30000000),
    (''EF_MIPS_ARCH_5'', Lit 0x40000000), (''EF_MIPS_ARCH_32'', Lit 0x50000000),
    (''EF_MIPS_ARCH_64'', Lit 0x60000000), (''EF_MIPS_ARCH_32R2'', Lit 0x70000000),
    (''EF_MIPS_ARCH_64R2'', Lit 0x80000000), (''EF_MIPS_ARCH_32R6'', Lit 0x90000000),
    (''EF_MIPS_ARCH_64R6'', Lit 0xa0000000), (''EF_MIPS_ARCH'', Lit 0xf0000000)]"

definition SHN_MIPS_enum :: "(string \<times> cexpr) list" where
  "SHN_MIPS_enum = [
    (''SHN_MIPS_ACOMMON'', Lit 0xff00), (''SHN_MIPS_TEXT'', Lit 0xff01),
    (''SHN_MIPS_DATA'', Lit 0xff02), (''SHN_MIPS_SCOMMON'', Lit 0xff03),
    (''SHN_MIPS_SUNDEFINED'', Lit 0xff04)]"

definition STO_MIPS_enum :: "(string \<times> cexpr) list" where
  "STO_MIPS_enum = [
    (''STO_MIPS_OPTIONAL'', Lit 0x04), (''STO_MIPS_PLT'', Lit 0x08), (''STO_MIPS_PIC'', Lit 0x20),
    (''STO_MIPS_MICROMIPS'', Lit 0x80), (''STO_MIPS_MIPS16'', Lit 0xf0)]"

definition ODK_enum :: "(string \<times> cexpr) list" where
  "ODK_enum = [
    (''ODK_NULL'', Lit 0), (''ODK_REGINFO'', Lit 1), (''ODK_EXCEPTIONS'', Lit 2), (''ODK_PAD'', Lit 3),
    (''ODK_HWPATCH'', Lit 4), (''ODK_FILL'', Lit 5), (''ODK_TAGS'', Lit 6), (''ODK_HWAND'', Lit 7),
    (''ODK_HWOR'', Lit 8), (''ODK_GP_GROUP'', Lit 9), (''ODK_IDENT'', Lit 10),
    (''ODK_PAGESIZE'', Lit 11)]"

definition EF_HEXAGON_enum :: "(string \<times> cexpr) list" where
  "EF_HEXAGON_enum = [
    (''EF_HEXAGON_ISA_MACH'', Lit 0x00000000), (''EF_HEXAGON_ISA_V2'', Lit 0x00000010),
    (''EF_HEXAGON_ISA_V3'', Lit 0x00000020), (''EF_HEXAGON_ISA_V4'', Lit 0x00000030),
    (''EF_HEXAGON_ISA_V5'', Lit 0x00000040), (''EF_HEXAGON_ISA_V55'', Lit 0x00000050),
    (''EF_HEXAGON_ISA_V60'', Lit 0x00000060), (''EF_HEXAGON_ISA_V61'', Lit 0x00000061),
    (''EF_HEXAGON_ISA_V62'', Lit 0x00000062), (''EF_HEXAGON_ISA_V65'', Lit 0x00000065),
    (''EF_HEXAGON_ISA_V66'', Lit 0x00000066), (''EF_HEXAGON_ISA_V67'', Lit 0x00000067),
    (''EF_HEXAGON_ISA_V68'', Lit 0x00000068), (''EF_HEXAGON_ISA_V69'', Lit 0x00000069),
    (''EF_HEXAGON_ISA_V71'', Lit 0x00000071), (''EF_HEXAGON_ISA_V73'', Lit 0x00000073),
    (''EF_HEXAGON_ISA_V75'', Lit 0x00000075), (''EF_HEXAGON_ISA_V77'', Lit 0x00000077),
    (''EF_HEXAGON_ISA_V79'', Lit 0x00000079), (''EF_HEXAGON_ISA_V81'', Lit 0x00000081),
    (''EF_HEXAGON_ISA_V83'', Lit 0x00000083), (''EF_HEXAGON_ISA_V85'', Lit 0x00000085),
    (''EF_HEXAGON_ISA_V87'', Lit 0x00000087), (''EF_HEXAGON_ISA_V89'', Lit 0x00000089),
    (''EF_HEXAGON_ISA_V91'', Lit 0x00000091), (''EF_HEXAGON_ISA_V93'', Lit 0x00000093),
    (''EF_HEXAGON_ISA'', Lit 0x000003ff), (''EF_HEXAGON_TINY_CORE'', Lit 0x00008000),
    (''EF_HEXAGON_MACH_V2'', Lit 0x00000001), (''EF_HEXAGON_MACH_V3'', Lit 0x00000002),
    (''EF_HEXAGON_MACH_V4'', Lit 0x00000003), (''EF_HEXAGON_MACH_V5'', Lit 0x00000004),
    (''EF_HEXAGON_MACH_V55'', Lit 0x00000005),
    (''EF_HEXAGON_MACH_V60'', Enumerator ''EF_HEXAGON_ISA_V60''),
    (''EF_HEXAGON_MACH_V61'', Enumerator ''EF_HEXAGON_ISA_V61''),
    (''EF_HEXAGON_MACH_V62'', Enumerator ''EF_HEXAGON_ISA_V62''),
    (''EF_HEXAGON_MACH_V65'', Enumerator ''EF_HEXAGON_ISA_V65''),
    (''EF_HEXAGON_MACH_V66'', Enumerator ''EF_HEXAGON_ISA_V66''),
    (''EF_HEXAGON_MACH_V67'', Enumerator ''EF_HEXAGON_ISA_V67''),
    (''EF_HEXAGON_MACH_V67T'', Bor (Enumerator ''EF_HEXAGON_ISA_V67'') (Enumerator ''EF_HEXAGON_TINY_CORE'')),
    (''EF_HEXAGON_MACH_V68'', Enumerator ''EF_HEXAGON_ISA_V68''),
    (''EF_HEXAGON_MACH_V69'', Enumerator ''EF_HEXAGON_ISA_V69''),
    (''EF_HEXAGON_MACH_V71'', Enumerator ''EF_HEXAGON_ISA_V71''),
    (''EF_HEXAGON_MACH_V71T'', Bor (Enumerator ''EF_HEXAGON_ISA_V71'') (Enumerator ''EF_HEXAGON_TINY_CORE'')),
    (''EF_HEXAGON_MACH_V73'', Enumerator ''EF_HEXAGON_ISA_V73''),
    (''EF_HEXAGON_MACH_V75'', Enumerator ''EF_HEXAGON_ISA_V75''),
    (''EF_HEXAGON_MACH_V77'', Enumerator ''EF_HEXAGON_ISA_V77''),
    (''EF_HEXAGON_MACH_V79'', Enumerator ''EF_HEXAGON_ISA_V79''),
    (''EF_HEXAGON_MACH_V81'', Enumerator ''EF_HEXAGON_ISA_V81''),
    (''EF_HEXAGON_MACH_V83'', Enumerator ''EF_HEXAGON_ISA_V83''),
    (''EF_HEXAGON_MACH_V85'', Enumerator ''EF_HEXAGON_ISA_V85''),
    (''EF_HEXAGON_MACH_V87'', Enumerator ''EF_HEXAGON_ISA_V87''),
    (''EF_HEXAGON_MACH_V89'', Enumerator ''EF_HEXAGON_ISA_V89''),
    (''EF_HEXAGON_MACH_V91'', Enumerator ''EF_HEXAGON_ISA_V91''),
    (''EF_HEXAGON_MACH_V93'', Enumerator ''EF_HEXAGON_ISA_V93''), (''EF_HEXAGON_MACH'', Lit 0x0000ffff)]"

definition SHN_HEXAGON_enum :: "(string \<times> cexpr) list" where
  "SHN_HEXAGON_enum = [
    (''SHN_HEXAGON_SCOMMON'', Lit 0xff00), (''SHN_HEXAGON_SCOMMON_1'', Lit 0xff01),
    (''SHN_HEXAGON_SCOMMON_2'', Lit 0xff02), (''SHN_HEXAGON_SCOMMON_4'', Lit 0xff03),
    (''SHN_HEXAGON_SCOMMON_8'', Lit 0xff04)]"

definition EF_RISCV_enum :: "(string \<times> cexpr) list" where
  "EF_RISCV_enum = [
    (''EF_RISCV_RVC'', Lit 0x0001), (''EF_RISCV_FLOAT_ABI'', Lit 0x0006),
    (''EF_RISCV_FLOAT_ABI_SOFT'', Lit 0x0000), (''EF_RISCV_FLOAT_ABI_SINGLE'', Lit 0x0002),
    (''EF_RISCV_FLOAT_ABI_DOUBLE'', Lit 0x0004), (''EF_RISCV_FLOAT_ABI_QUAD'', Lit 0x0006),
    (''EF_RISCV_RVE'', Lit 0x0008), (''EF_RISCV_TSO'', Lit 0x0010)]"

definition STO_RISCV_enum :: "(string \<times> cexpr) list" where
  "STO_RISCV_enum = [
    (''STO_RISCV_VARIANT_CC'', Lit 0x80)]"

definition EF_SPARC_enum :: "(string \<times> cexpr) list" where
  "EF_SPARC_enum = [
    (''EF_SPARC_EXT_MASK'', Lit 0xffff00), (''EF_SPARC_32PLUS'', Lit 0x000100),
    (''EF_SPARC_SUN_US1'', Lit 0x000200), (''EF_SPARC_HAL_R1'', Lit 0x000400),
    (''EF_SPARC_SUN_US3'', Lit 0x000800), (''EF_SPARCV9_MM'', Lit 0x3), (''EF_SPARCV9_TSO'', Lit 0x0),
    (''EF_SPARCV9_PSO'', Lit 0x1), (''EF_SPARCV9_RMO'', Lit 0x2)]"

definition EF_AMDGPU_enum :: "(string \<times> cexpr) list" where
  "EF_AMDGPU_enum = [
    (''EF_AMDGPU_MACH'', Lit 0x0ff), (''EF_AMDGPU_MACH_NONE'', Lit 0x000)] @ AMDGPU_MACH_LIST @ [
    (''EF_AMDGPU_MACH_R600_RESERVED_FIRST'', Lit 0x011),
    (''EF_AMDGPU_MACH_R600_RESERVED_LAST'', Lit 0x01f),
    (''EF_AMDGPU_MACH_R600_FIRST'', Enumerator ''EF_AMDGPU_MACH_R600_R600''),
    (''EF_AMDGPU_MACH_R600_LAST'', Enumerator ''EF_AMDGPU_MACH_R600_TURKS''),
    (''EF_AMDGPU_MACH_AMDGCN_RESERVED_0X27'', Lit 0x027),
    (''EF_AMDGPU_MACH_AMDGCN_RESERVED_0X40'', Lit 0x040),
    (''EF_AMDGPU_MACH_AMDGCN_RESERVED_0X4B'', Lit 0x04b),
    (''EF_AMDGPU_MACH_AMDGCN_RESERVED_0X4D'', Lit 0x04d),
    (''EF_AMDGPU_MACH_AMDGCN_RESERVED_0X56'', Lit 0x056),
    (''EF_AMDGPU_MACH_AMDGCN_RESERVED_0X57'', Lit 0x057),
    (''EF_AMDGPU_MACH_AMDGCN_RESERVED_0X60'', Lit 0x060),
    (''EF_AMDGPU_MACH_AMDGCN_RESERVED_0X61'', Lit 0x061),
    (''EF_AMDGPU_MACH_AMDGCN_FIRST'', Enumerator ''EF_AMDGPU_MACH_AMDGCN_GFX600''),
    (''EF_AMDGPU_MACH_AMDGCN_LAST'', Enumerator ''EF_AMDGPU_MACH_AMDGCN_GFX1250_STRICT''),
    (''EF_AMDGPU_FEATURE_XNACK_V2'', Lit 0x01), (''EF_AMDGPU_FEATURE_TRAP_HANDLER_V2'', Lit 0x02),
    (''EF_AMDGPU_FEATURE_XNACK_V3'', Lit 0x100), (''EF_AMDGPU_FEATURE_SRAMECC_V3'', Lit 0x200),
    (''EF_AMDGPU_FEATURE_XNACK_V4'', Lit 0x300),
    (''EF_AMDGPU_FEATURE_XNACK_UNSUPPORTED_V4'', Lit 0x000),
    (''EF_AMDGPU_FEATURE_XNACK_ANY_V4'', Lit 0x100), (''EF_AMDGPU_FEATURE_XNACK_OFF_V4'', Lit 0x200),
    (''EF_AMDGPU_FEATURE_XNACK_ON_V4'', Lit 0x300), (''EF_AMDGPU_FEATURE_SRAMECC_V4'', Lit 0xc00),
    (''EF_AMDGPU_FEATURE_SRAMECC_UNSUPPORTED_V4'', Lit 0x000),
    (''EF_AMDGPU_FEATURE_SRAMECC_ANY_V4'', Lit 0x400),
    (''EF_AMDGPU_FEATURE_SRAMECC_OFF_V4'', Lit 0x800),
    (''EF_AMDGPU_FEATURE_SRAMECC_ON_V4'', Lit 0xc00), (''EF_AMDGPU_GENERIC_VERSION'', Lit 0xff000000),
    (''EF_AMDGPU_GENERIC_VERSION_OFFSET'', Lit 24), (''EF_AMDGPU_GENERIC_VERSION_MIN'', Lit 1),
    (''EF_AMDGPU_GENERIC_VERSION_MAX'', Lit 0xff)]"

definition EF_CUDA_enum :: "(string \<times> cexpr) list" where
  "EF_CUDA_enum = [
    (''EF_CUDA_SM'', Lit 0xff), (''EF_CUDA_SM_MASK'', Lit 0xff00), (''EF_CUDA_SM_OFFSET'', Lit 8),
    (''EF_CUDA_SM20'', Lit 0x14), (''EF_CUDA_SM21'', Lit 0x15), (''EF_CUDA_SM30'', Lit 0x1e),
    (''EF_CUDA_SM32'', Lit 0x20), (''EF_CUDA_SM35'', Lit 0x23), (''EF_CUDA_SM37'', Lit 0x25),
    (''EF_CUDA_SM50'', Lit 0x32), (''EF_CUDA_SM52'', Lit 0x34), (''EF_CUDA_SM53'', Lit 0x35),
    (''EF_CUDA_SM60'', Lit 0x3c), (''EF_CUDA_SM61'', Lit 0x3d), (''EF_CUDA_SM62'', Lit 0x3e),
    (''EF_CUDA_SM70'', Lit 0x46), (''EF_CUDA_SM72'', Lit 0x48), (''EF_CUDA_SM75'', Lit 0x4b),
    (''EF_CUDA_SM80'', Lit 0x50), (''EF_CUDA_SM86'', Lit 0x56), (''EF_CUDA_SM87'', Lit 0x57),
    (''EF_CUDA_SM88'', Lit 0x58), (''EF_CUDA_SM89'', Lit 0x59), (''EF_CUDA_SM90'', Lit 0x5a),
    (''EF_CUDA_SM100'', Lit 0x64), (''EF_CUDA_SM101'', Lit 0x65), (''EF_CUDA_SM103'', Lit 0x67),
    (''EF_CUDA_SM107'', Lit 0x6b), (''EF_CUDA_SM110'', Lit 0x6e), (''EF_CUDA_SM120'', Lit 0x78),
    (''EF_CUDA_SM121'', Lit 0x79), (''EF_CUDA_TEXMODE_UNIFIED'', Lit 0x100),
    (''EF_CUDA_TEXMODE_INDEPENDANT'', Lit 0x200), (''EF_CUDA_64BIT_ADDRESS'', Lit 0x400),
    (''EF_CUDA_ACCELERATORS_V1'', Lit 0x800), (''EF_CUDA_SW_FLAG_V2'', Lit 0x1000),
    (''EF_CUDA_VIRTUAL_SM'', Lit 0xff0000), (''EF_CUDA_ACCELERATORS'', Lit 0x8)]"

definition EF_MSP430_enum :: "(string \<times> cexpr) list" where
  "EF_MSP430_enum = [
    (''EF_MSP430_MACH_MSP430x11'', Lit 11), (''EF_MSP430_MACH_MSP430x11x1'', Lit 110),
    (''EF_MSP430_MACH_MSP430x12'', Lit 12), (''EF_MSP430_MACH_MSP430x13'', Lit 13),
    (''EF_MSP430_MACH_MSP430x14'', Lit 14), (''EF_MSP430_MACH_MSP430x15'', Lit 15),
    (''EF_MSP430_MACH_MSP430x16'', Lit 16), (''EF_MSP430_MACH_MSP430x20'', Lit 20),
    (''EF_MSP430_MACH_MSP430x22'', Lit 22), (''EF_MSP430_MACH_MSP430x23'', Lit 23),
    (''EF_MSP430_MACH_MSP430x24'', Lit 24), (''EF_MSP430_MACH_MSP430x26'', Lit 26),
    (''EF_MSP430_MACH_MSP430x31'', Lit 31), (''EF_MSP430_MACH_MSP430x32'', Lit 32),
    (''EF_MSP430_MACH_MSP430x33'', Lit 33), (''EF_MSP430_MACH_MSP430x41'', Lit 41),
    (''EF_MSP430_MACH_MSP430x42'', Lit 42), (''EF_MSP430_MACH_MSP430x43'', Lit 43),
    (''EF_MSP430_MACH_MSP430x44'', Lit 44), (''EF_MSP430_MACH_MSP430X'', Lit 45),
    (''EF_MSP430_MACH_MSP430x46'', Lit 46), (''EF_MSP430_MACH_MSP430x47'', Lit 47),
    (''EF_MSP430_MACH_MSP430x54'', Lit 54)]"

definition EF_CSKY_enum :: "(string \<times> cexpr) list" where
  "EF_CSKY_enum = [
    (''EF_CSKY_801'', Lit 0xa), (''EF_CSKY_802'', Lit 0x10), (''EF_CSKY_803'', Lit 0x9),
    (''EF_CSKY_805'', Lit 0x11), (''EF_CSKY_807'', Lit 0x6), (''EF_CSKY_810'', Lit 0x8),
    (''EF_CSKY_860'', Lit 0xb), (''EF_CSKY_800'', Lit 0x1f), (''EF_CSKY_FLOAT'', Lit 0x2000),
    (''EF_CSKY_DSP'', Lit 0x4000), (''EF_CSKY_ABIV2'', Lit 0x20000000),
    (''EF_CSKY_EFV1'', Lit 0x1000000), (''EF_CSKY_EFV2'', Lit 0x2000000),
    (''EF_CSKY_EFV3'', Lit 0x3000000)]"

definition EF_LOONGARCH_enum :: "(string \<times> cexpr) list" where
  "EF_LOONGARCH_enum = [
    (''EF_LOONGARCH_ABI_SOFT_FLOAT'', Lit 0x1), (''EF_LOONGARCH_ABI_SINGLE_FLOAT'', Lit 0x2),
    (''EF_LOONGARCH_ABI_DOUBLE_FLOAT'', Lit 0x3), (''EF_LOONGARCH_ABI_MODIFIER_MASK'', Lit 0x7),
    (''EF_LOONGARCH_OBJABI_V0'', Lit 0x0), (''EF_LOONGARCH_OBJABI_V1'', Lit 0x40),
    (''EF_LOONGARCH_OBJABI_MASK'', Lit 0xc0)]"

definition EF_XTENSA_enum :: "(string \<times> cexpr) list" where
  "EF_XTENSA_enum = [
    (''EF_XTENSA_MACH'', Lit 0x0000000f), (''EF_XTENSA_MACH_NONE'', Lit 0x00000000),
    (''EF_XTENSA_XT_INSN'', Lit 0x00000100), (''EF_XTENSA_XT_LIT'', Lit 0x00000200)]"

definition PN_enum :: "(string \<times> cexpr) list" where
  "PN_enum = [
    (''PN_XNUM'', Lit 0xffff)]"

definition SHN_enum :: "(string \<times> cexpr) list" where
  "SHN_enum = [
    (''SHN_UNDEF'', Lit 0), (''SHN_LORESERVE'', Lit 0xff00), (''SHN_LOPROC'', Lit 0xff00),
    (''SHN_HIPROC'', Lit 0xff1f), (''SHN_LOOS'', Lit 0xff20), (''SHN_HIOS'', Lit 0xff3f),
    (''SHN_ABS'', Lit 0xfff1), (''SHN_COMMON'', Lit 0xfff2), (''SHN_XINDEX'', Lit 0xffff),
    (''SHN_HIRESERVE'', Lit 0xffff)]"

definition SHT_enum :: "(string \<times> cexpr) list" where
  "SHT_enum = [
    (''SHT_NULL'', Lit 0), (''SHT_PROGBITS'', Lit 1), (''SHT_SYMTAB'', Lit 2), (''SHT_STRTAB'', Lit 3),
    (''SHT_RELA'', Lit 4), (''SHT_HASH'', Lit 5), (''SHT_DYNAMIC'', Lit 6), (''SHT_NOTE'', Lit 7),
    (''SHT_NOBITS'', Lit 8), (''SHT_REL'', Lit 9), (''SHT_SHLIB'', Lit 10), (''SHT_DYNSYM'', Lit 11),
    (''SHT_INIT_ARRAY'', Lit 14), (''SHT_FINI_ARRAY'', Lit 15), (''SHT_PREINIT_ARRAY'', Lit 16),
    (''SHT_GROUP'', Lit 17), (''SHT_SYMTAB_SHNDX'', Lit 18), (''SHT_RELR'', Lit 19),
    (''SHT_CREL'', Lit 0x40000014), (''SHT_LOOS'', Lit 0x60000000),
    (''SHT_ANDROID_REL'', Lit 0x60000001), (''SHT_ANDROID_RELA'', Lit 0x60000002),
    (''SHT_LLVM_ODRTAB'', Lit 0x6fff4c00), (''SHT_LLVM_LINKER_OPTIONS'', Lit 0x6fff4c01),
    (''SHT_LLVM_ADDRSIG'', Lit 0x6fff4c03), (''SHT_LLVM_DEPENDENT_LIBRARIES'', Lit 0x6fff4c04),
    (''SHT_LLVM_SYMPART'', Lit 0x6fff4c05), (''SHT_LLVM_PART_EHDR'', Lit 0x6fff4c06),
    (''SHT_LLVM_PART_PHDR'', Lit 0x6fff4c07), (''SHT_LLVM_CALL_GRAPH_PROFILE'', Lit 0x6fff4c09),
    (''SHT_LLVM_BB_ADDR_MAP'', Lit 0x6fff4c0a), (''SHT_LLVM_OFFLOADING'', Lit 0x6fff4c0b),
    (''SHT_LLVM_LTO'', Lit 0x6fff4c0c), (''SHT_LLVM_JT_SIZES'', Lit 0x6fff4c0d),
    (''SHT_LLVM_CFI_JUMP_TABLE'', Lit 0x6fff4c0e), (''SHT_LLVM_CALL_GRAPH'', Lit 0x6fff4c0f),
    (''SHT_LLVM_DYNDBG_ELF'', Lit 0x6fff4c10), (''SHT_ANDROID_RELR'', Lit 0x6fffff00),
    (''SHT_GNU_SFRAME'', Lit 0x6ffffff4), (''SHT_GNU_ATTRIBUTES'', Lit 0x6ffffff5),
    (''SHT_GNU_HASH'', Lit 0x6ffffff6), (''SHT_GNU_verdef'', Lit 0x6ffffffd),
    (''SHT_GNU_verneed'', Lit 0x6ffffffe), (''SHT_GNU_versym'', Lit 0x6fffffff),
    (''SHT_HIOS'', Lit 0x6fffffff), (''SHT_LOPROC'', Lit 0x70000000),
    (''SHT_ARM_EXIDX'', Lit 0x70000001), (''SHT_ARM_PREEMPTMAP'', Lit 0x70000002),
    (''SHT_ARM_ATTRIBUTES'', Lit 0x70000003), (''SHT_ARM_DEBUGOVERLAY'', Lit 0x70000004),
    (''SHT_ARM_OVERLAYSECTION'', Lit 0x70000005), (''SHT_AARCH64_ATTRIBUTES'', Lit 0x70000003),
    (''SHT_AARCH64_AUTH_RELR'', Lit 0x70000004),
    (''SHT_AARCH64_MEMTAG_GLOBALS_STATIC'', Lit 0x70000007),
    (''SHT_AARCH64_MEMTAG_GLOBALS_DYNAMIC'', Lit 0x70000008), (''SHT_HEX_ORDERED'', Lit 0x70000000),
    (''SHT_X86_64_UNWIND'', Lit 0x70000001), (''SHT_MIPS_REGINFO'', Lit 0x70000006),
    (''SHT_MIPS_OPTIONS'', Lit 0x7000000d), (''SHT_MIPS_DWARF'', Lit 0x7000001e),
    (''SHT_MIPS_ABIFLAGS'', Lit 0x7000002a), (''SHT_MSP430_ATTRIBUTES'', Lit 0x70000003),
    (''SHT_RISCV_ATTRIBUTES'', Lit 0x70000003), (''SHT_CSKY_ATTRIBUTES'', Lit 0x70000001),
    (''SHT_HEXAGON_ATTRIBUTES'', Lit 0x70000003), (''SHT_HIPROC'', Lit 0x7fffffff),
    (''SHT_LOUSER'', Lit 0x80000000), (''SHT_HIUSER'', Lit 0xffffffff)]"

definition SHF_enum :: "(string \<times> cexpr) list" where
  "SHF_enum = [
    (''SHF_WRITE'', Lit 0x1), (''SHF_ALLOC'', Lit 0x2), (''SHF_EXECINSTR'', Lit 0x4),
    (''SHF_MERGE'', Lit 0x10), (''SHF_STRINGS'', Lit 0x20), (''SHF_INFO_LINK'', Lit 0x40),
    (''SHF_LINK_ORDER'', Lit 0x80), (''SHF_OS_NONCONFORMING'', Lit 0x100), (''SHF_GROUP'', Lit 0x200),
    (''SHF_TLS'', Lit 0x400), (''SHF_COMPRESSED'', Lit 0x800), (''SHF_GNU_RETAIN'', Lit 0x200000),
    (''SHF_EXCLUDE'', Lit 0x80000000), (''SHF_MASKOS'', Lit 0x0ff00000),
    (''SHF_SUNW_NODISCARD'', Lit 0x00100000), (''SHF_MASKPROC'', Lit 0xf0000000),
    (''XCORE_SHF_DP_SECTION'', Lit 0x10000000), (''XCORE_SHF_CP_SECTION'', Lit 0x20000000),
    (''SHF_X86_64_LARGE'', Lit 0x10000000), (''SHF_HEX_GPREL'', Lit 0x10000000),
    (''SHF_MIPS_NODUPES'', Lit 0x01000000), (''SHF_MIPS_NAMES'', Lit 0x02000000),
    (''SHF_MIPS_LOCAL'', Lit 0x04000000), (''SHF_MIPS_NOSTRIP'', Lit 0x08000000),
    (''SHF_MIPS_GPREL'', Lit 0x10000000), (''SHF_MIPS_MERGE'', Lit 0x20000000),
    (''SHF_MIPS_ADDR'', Lit 0x40000000), (''SHF_MIPS_STRING'', Lit 0x80000000),
    (''SHF_ARM_PURECODE'', Lit 0x20000000), (''SHF_AARCH64_PURECODE'', Lit 0x20000000)]"

definition GRP_enum :: "(string \<times> cexpr) list" where
  "GRP_enum = [
    (''GRP_COMDAT'', Lit 0x1), (''GRP_MASKOS'', Lit 0x0ff00000), (''GRP_MASKPROC'', Lit 0xf0000000)]"

definition SYMENTRY_enum :: "(string \<times> cexpr) list" where
  "SYMENTRY_enum = [
    (''SYMENTRY_SIZE32'', Lit 16), (''SYMENTRY_SIZE64'', Lit 24)]"

definition STB_enum :: "(string \<times> cexpr) list" where
  "STB_enum = [
    (''STB_LOCAL'', Lit 0), (''STB_GLOBAL'', Lit 1), (''STB_WEAK'', Lit 2),
    (''STB_GNU_UNIQUE'', Lit 10), (''STB_LOOS'', Lit 10), (''STB_HIOS'', Lit 12),
    (''STB_LOPROC'', Lit 13), (''STB_HIPROC'', Lit 15)]"

definition STT_enum :: "(string \<times> cexpr) list" where
  "STT_enum = [
    (''STT_NOTYPE'', Lit 0), (''STT_OBJECT'', Lit 1), (''STT_FUNC'', Lit 2), (''STT_SECTION'', Lit 3),
    (''STT_FILE'', Lit 4), (''STT_COMMON'', Lit 5), (''STT_TLS'', Lit 6), (''STT_GNU_IFUNC'', Lit 10),
    (''STT_LOOS'', Lit 10), (''STT_HIOS'', Lit 12), (''STT_LOPROC'', Lit 13), (''STT_HIPROC'', Lit 15),
    (''STT_AMDGPU_HSA_KERNEL'', Lit 10)]"

definition STV_enum :: "(string \<times> cexpr) list" where
  "STV_enum = [
    (''STV_DEFAULT'', Lit 0), (''STV_INTERNAL'', Lit 1), (''STV_HIDDEN'', Lit 2),
    (''STV_PROTECTED'', Lit 3)]"

definition STN_enum :: "(string \<times> cexpr) list" where
  "STN_enum = [
    (''STN_UNDEF'', Lit 0)]"

definition RSS_enum :: "(string \<times> cexpr) list" where
  "RSS_enum = [
    (''RSS_UNDEF'', Lit 0), (''RSS_GP'', Lit 1), (''RSS_GP0'', Lit 2), (''RSS_LOC'', Lit 3)]"

definition PT_enum :: "(string \<times> cexpr) list" where
  "PT_enum = [
    (''PT_NULL'', Lit 0), (''PT_LOAD'', Lit 1), (''PT_DYNAMIC'', Lit 2), (''PT_INTERP'', Lit 3),
    (''PT_NOTE'', Lit 4), (''PT_SHLIB'', Lit 5), (''PT_PHDR'', Lit 6), (''PT_TLS'', Lit 7),
    (''PT_LOOS'', Lit 0x60000000), (''PT_HIOS'', Lit 0x6fffffff), (''PT_LOPROC'', Lit 0x70000000),
    (''PT_HIPROC'', Lit 0x7fffffff), (''PT_GNU_EH_FRAME'', Lit 0x6474e550),
    (''PT_SUNW_EH_FRAME'', Lit 0x6474e550), (''PT_SUNW_UNWIND'', Lit 0x6464e550),
    (''PT_GNU_STACK'', Lit 0x6474e551), (''PT_GNU_RELRO'', Lit 0x6474e552),
    (''PT_GNU_PROPERTY'', Lit 0x6474e553), (''PT_GNU_SFRAME'', Lit 0x6474e554),
    (''PT_OPENBSD_MUTABLE'', Lit 0x65a3dbe5), (''PT_OPENBSD_RANDOMIZE'', Lit 0x65a3dbe6),
    (''PT_OPENBSD_WXNEEDED'', Lit 0x65a3dbe7), (''PT_OPENBSD_NOBTCFI'', Lit 0x65a3dbe8),
    (''PT_OPENBSD_SYSCALLS'', Lit 0x65a3dbe9), (''PT_OPENBSD_BOOTDATA'', Lit 0x65a41be6),
    (''PT_ARM_ARCHEXT'', Lit 0x70000000), (''PT_ARM_EXIDX'', Lit 0x70000001),
    (''PT_ARM_UNWIND'', Lit 0x70000001), (''PT_AARCH64_MEMTAG_MTE'', Lit 0x70000002),
    (''PT_MIPS_REGINFO'', Lit 0x70000000), (''PT_MIPS_RTPROC'', Lit 0x70000001),
    (''PT_MIPS_OPTIONS'', Lit 0x70000002), (''PT_MIPS_ABIFLAGS'', Lit 0x70000003),
    (''PT_RISCV_ATTRIBUTES'', Lit 0x70000003)]"

definition PF_enum :: "(string \<times> cexpr) list" where
  "PF_enum = [
    (''PF_X'', Lit 1), (''PF_W'', Lit 2), (''PF_R'', Lit 4), (''PF_MASKOS'', Lit 0x0ff00000),
    (''PF_MASKPROC'', Lit 0xf0000000)]"

definition DF_enum :: "(string \<times> cexpr) list" where
  "DF_enum = [
    (''DF_ORIGIN'', Lit 0x01), (''DF_SYMBOLIC'', Lit 0x02), (''DF_TEXTREL'', Lit 0x04),
    (''DF_BIND_NOW'', Lit 0x08), (''DF_STATIC_TLS'', Lit 0x10)]"

definition DF_1_enum :: "(string \<times> cexpr) list" where
  "DF_1_enum = [
    (''DF_1_NOW'', Lit 0x00000001), (''DF_1_GLOBAL'', Lit 0x00000002),
    (''DF_1_GROUP'', Lit 0x00000004), (''DF_1_NODELETE'', Lit 0x00000008),
    (''DF_1_LOADFLTR'', Lit 0x00000010), (''DF_1_INITFIRST'', Lit 0x00000020),
    (''DF_1_NOOPEN'', Lit 0x00000040), (''DF_1_ORIGIN'', Lit 0x00000080),
    (''DF_1_DIRECT'', Lit 0x00000100), (''DF_1_TRANS'', Lit 0x00000200),
    (''DF_1_INTERPOSE'', Lit 0x00000400), (''DF_1_NODEFLIB'', Lit 0x00000800),
    (''DF_1_NODUMP'', Lit 0x00001000), (''DF_1_CONFALT'', Lit 0x00002000),
    (''DF_1_ENDFILTEE'', Lit 0x00004000), (''DF_1_DISPRELDNE'', Lit 0x00008000),
    (''DF_1_DISPRELPND'', Lit 0x00010000), (''DF_1_NODIRECT'', Lit 0x00020000),
    (''DF_1_IGNMULDEF'', Lit 0x00040000), (''DF_1_NOKSYMS'', Lit 0x00080000),
    (''DF_1_NOHDR'', Lit 0x00100000), (''DF_1_EDITED'', Lit 0x00200000),
    (''DF_1_NORELOC'', Lit 0x00400000), (''DF_1_SYMINTPOSE'', Lit 0x00800000),
    (''DF_1_GLOBAUDIT'', Lit 0x01000000), (''DF_1_SINGLETON'', Lit 0x02000000),
    (''DF_1_PIE'', Lit 0x08000000)]"

definition RHF_enum :: "(string \<times> cexpr) list" where
  "RHF_enum = [
    (''RHF_NONE'', Lit 0x00000000), (''RHF_QUICKSTART'', Lit 0x00000001),
    (''RHF_NOTPOT'', Lit 0x00000002), (''RHS_NO_LIBRARY_REPLACEMENT'', Lit 0x00000004),
    (''RHF_NO_MOVE'', Lit 0x00000008), (''RHF_SGI_ONLY'', Lit 0x00000010),
    (''RHF_GUARANTEE_INIT'', Lit 0x00000020), (''RHF_DELTA_C_PLUS_PLUS'', Lit 0x00000040),
    (''RHF_GUARANTEE_START_INIT'', Lit 0x00000080), (''RHF_PIXIE'', Lit 0x00000100),
    (''RHF_DEFAULT_DELAY_LOAD'', Lit 0x00000200), (''RHF_REQUICKSTART'', Lit 0x00000400),
    (''RHF_REQUICKSTARTED'', Lit 0x00000800), (''RHF_CORD'', Lit 0x00001000),
    (''RHF_NO_UNRES_UNDEF'', Lit 0x00002000), (''RHF_RLD_ORDER_SAFE'', Lit 0x00004000)]"

definition VER_DEF_enum :: "(string \<times> cexpr) list" where
  "VER_DEF_enum = [
    (''VER_DEF_NONE'', Lit 0), (''VER_DEF_CURRENT'', Lit 1)]"

definition VER_FLG_enum :: "(string \<times> cexpr) list" where
  "VER_FLG_enum = [
    (''VER_FLG_BASE'', Lit 0x1), (''VER_FLG_WEAK'', Lit 0x2), (''VER_FLG_INFO'', Lit 0x4)]"

definition VER_NDX_enum :: "(string \<times> cexpr) list" where
  "VER_NDX_enum = [
    (''VER_NDX_LOCAL'', Lit 0), (''VER_NDX_GLOBAL'', Lit 1), (''VERSYM_VERSION'', Lit 0x7fff),
    (''VERSYM_HIDDEN'', Lit 0x8000)]"

definition VER_NEED_enum :: "(string \<times> cexpr) list" where
  "VER_NEED_enum = [
    (''VER_NEED_NONE'', Lit 0), (''VER_NEED_CURRENT'', Lit 1)]"

definition NT_generic_enum :: "(string \<times> cexpr) list" where
  "NT_generic_enum = [
    (''NT_VERSION'', Lit 1), (''NT_ARCH'', Lit 2), (''NT_GNU_BUILD_ATTRIBUTE_OPEN'', Lit 0x100),
    (''NT_GNU_BUILD_ATTRIBUTE_FUNC'', Lit 0x101)]"

definition NT_core_enum :: "(string \<times> cexpr) list" where
  "NT_core_enum = [
    (''NT_PRSTATUS'', Lit 1), (''NT_FPREGSET'', Lit 2), (''NT_PRPSINFO'', Lit 3),
    (''NT_TASKSTRUCT'', Lit 4), (''NT_AUXV'', Lit 6), (''NT_PSTATUS'', Lit 10),
    (''NT_FPREGS'', Lit 12), (''NT_PSINFO'', Lit 13), (''NT_LWPSTATUS'', Lit 16),
    (''NT_LWPSINFO'', Lit 17), (''NT_WIN32PSTATUS'', Lit 18), (''NT_PPC_VMX'', Lit 0x100),
    (''NT_PPC_VSX'', Lit 0x102), (''NT_PPC_TAR'', Lit 0x103), (''NT_PPC_PPR'', Lit 0x104),
    (''NT_PPC_DSCR'', Lit 0x105), (''NT_PPC_EBB'', Lit 0x106), (''NT_PPC_PMU'', Lit 0x107),
    (''NT_PPC_TM_CGPR'', Lit 0x108), (''NT_PPC_TM_CFPR'', Lit 0x109), (''NT_PPC_TM_CVMX'', Lit 0x10a),
    (''NT_PPC_TM_CVSX'', Lit 0x10b), (''NT_PPC_TM_SPR'', Lit 0x10c), (''NT_PPC_TM_CTAR'', Lit 0x10d),
    (''NT_PPC_TM_CPPR'', Lit 0x10e), (''NT_PPC_TM_CDSCR'', Lit 0x10f), (''NT_386_TLS'', Lit 0x200),
    (''NT_386_IOPERM'', Lit 0x201), (''NT_X86_XSTATE'', Lit 0x202), (''NT_S390_HIGH_GPRS'', Lit 0x300),
    (''NT_S390_TIMER'', Lit 0x301), (''NT_S390_TODCMP'', Lit 0x302), (''NT_S390_TODPREG'', Lit 0x303),
    (''NT_S390_CTRS'', Lit 0x304), (''NT_S390_PREFIX'', Lit 0x305),
    (''NT_S390_LAST_BREAK'', Lit 0x306), (''NT_S390_SYSTEM_CALL'', Lit 0x307),
    (''NT_S390_TDB'', Lit 0x308), (''NT_S390_VXRS_LOW'', Lit 0x309),
    (''NT_S390_VXRS_HIGH'', Lit 0x30a), (''NT_S390_GS_CB'', Lit 0x30b), (''NT_S390_GS_BC'', Lit 0x30c),
    (''NT_ARM_VFP'', Lit 0x400), (''NT_ARM_TLS'', Lit 0x401), (''NT_ARM_HW_BREAK'', Lit 0x402),
    (''NT_ARM_HW_WATCH'', Lit 0x403), (''NT_ARM_SVE'', Lit 0x405), (''NT_ARM_PAC_MASK'', Lit 0x406),
    (''NT_ARM_TAGGED_ADDR_CTRL'', Lit 0x409), (''NT_ARM_SSVE'', Lit 0x40b), (''NT_ARM_ZA'', Lit 0x40c),
    (''NT_ARM_ZT'', Lit 0x40d), (''NT_ARM_FPMR'', Lit 0x40e), (''NT_ARM_POE'', Lit 0x40f),
    (''NT_ARM_GCS'', Lit 0x410), (''NT_FILE'', Lit 0x46494c45), (''NT_PRXFPREG'', Lit 0x46e62b7f),
    (''NT_SIGINFO'', Lit 0x53494749)]"

definition NT_LLVM_enum :: "(string \<times> cexpr) list" where
  "NT_LLVM_enum = [
    (''NT_LLVM_HWASAN_GLOBALS'', Lit 3), (''NT_LLVM_DYNAMIC_DEBUGGING'', Lit 4)]"

definition NT_GNU_enum :: "(string \<times> cexpr) list" where
  "NT_GNU_enum = [
    (''NT_GNU_ABI_TAG'', Lit 1), (''NT_GNU_HWCAP'', Lit 2), (''NT_GNU_BUILD_ID'', Lit 3),
    (''NT_GNU_GOLD_VERSION'', Lit 4), (''NT_GNU_PROPERTY_TYPE_0'', Lit 5),
    (''FDO_PACKAGING_METADATA'', Lit 0xcafe1a7e)]"

definition NT_ANDROID_enum :: "(string \<times> cexpr) list" where
  "NT_ANDROID_enum = [
    (''NT_ANDROID_TYPE_IDENT'', Lit 1), (''NT_ANDROID_TYPE_KUSER'', Lit 3),
    (''NT_ANDROID_TYPE_MEMTAG'', Lit 4)]"

definition NT_MEMTAG_enum :: "(string \<times> cexpr) list" where
  "NT_MEMTAG_enum = [
    (''NT_MEMTAG_LEVEL_NONE'', Lit 0), (''NT_MEMTAG_LEVEL_ASYNC'', Lit 1),
    (''NT_MEMTAG_LEVEL_SYNC'', Lit 2), (''NT_MEMTAG_LEVEL_MASK'', Lit 3), (''NT_MEMTAG_HEAP'', Lit 4),
    (''NT_MEMTAG_STACK'', Lit 8)]"

definition GNU_PROPERTY_enum :: "(string \<times> cexpr) list" where
  "GNU_PROPERTY_enum = [
    (''GNU_PROPERTY_STACK_SIZE'', Lit 1), (''GNU_PROPERTY_NO_COPY_ON_PROTECTED'', Lit 2),
    (''GNU_PROPERTY_AARCH64_FEATURE_1_AND'', Lit 0xc0000000),
    (''GNU_PROPERTY_AARCH64_FEATURE_PAUTH'', Lit 0xc0000001),
    (''GNU_PROPERTY_X86_FEATURE_1_AND'', Lit 0xc0000002),
    (''GNU_PROPERTY_RISCV_FEATURE_1_AND'', Lit 0xc0000000),
    (''GNU_PROPERTY_X86_UINT32_OR_LO'', Lit 0xc0008000),
    (''GNU_PROPERTY_X86_FEATURE_2_NEEDED'', Plus (Enumerator ''GNU_PROPERTY_X86_UINT32_OR_LO'') (Lit 1)),
    (''GNU_PROPERTY_X86_ISA_1_NEEDED'', Plus (Enumerator ''GNU_PROPERTY_X86_UINT32_OR_LO'') (Lit 2)),
    (''GNU_PROPERTY_X86_UINT32_OR_AND_LO'', Lit 0xc0010000),
    (''GNU_PROPERTY_X86_FEATURE_2_USED'', Plus (Enumerator ''GNU_PROPERTY_X86_UINT32_OR_AND_LO'') (Lit 1)),
    (''GNU_PROPERTY_X86_ISA_1_USED'', Plus (Enumerator ''GNU_PROPERTY_X86_UINT32_OR_AND_LO'') (Lit 2))]"

definition AARCH64_FEATURE_enum :: "(string \<times> cexpr) list" where
  "AARCH64_FEATURE_enum = [
    (''GNU_PROPERTY_AARCH64_FEATURE_1_BTI'', Shl (Lit 1) (Lit 0)),
    (''GNU_PROPERTY_AARCH64_FEATURE_1_PAC'', Shl (Lit 1) (Lit 1)),
    (''GNU_PROPERTY_AARCH64_FEATURE_1_GCS'', Shl (Lit 1) (Lit 2))]"

definition AARCH64_PAUTH_enum :: "(string \<times> cexpr) list" where
  "AARCH64_PAUTH_enum = [
    (''AARCH64_PAUTH_PLATFORM_INVALID'', Lit 0x0), (''AARCH64_PAUTH_PLATFORM_BAREMETAL'', Lit 0x1),
    (''AARCH64_PAUTH_PLATFORM_LLVM_LINUX'', Lit 0x10000002)]"

definition AARCH64_PAUTH_LINUX_enum :: "(string \<times> cexpr) list" where
  "AARCH64_PAUTH_LINUX_enum = [
    (''AARCH64_PAUTH_PLATFORM_LLVM_LINUX_VERSION_INTRINSICS'', Lit 0),
    (''AARCH64_PAUTH_PLATFORM_LLVM_LINUX_VERSION_CALLS'', Lit 1),
    (''AARCH64_PAUTH_PLATFORM_LLVM_LINUX_VERSION_RETURNS'', Lit 2),
    (''AARCH64_PAUTH_PLATFORM_LLVM_LINUX_VERSION_AUTHTRAPS'', Lit 3),
    (''AARCH64_PAUTH_PLATFORM_LLVM_LINUX_VERSION_VPTRADDRDISCR'', Lit 4),
    (''AARCH64_PAUTH_PLATFORM_LLVM_LINUX_VERSION_VPTRTYPEDISCR'', Lit 5),
    (''AARCH64_PAUTH_PLATFORM_LLVM_LINUX_VERSION_INITFINI'', Lit 6),
    (''AARCH64_PAUTH_PLATFORM_LLVM_LINUX_VERSION_INITFINIADDRDISC'', Lit 7),
    (''AARCH64_PAUTH_PLATFORM_LLVM_LINUX_VERSION_GOT'', Lit 8),
    (''AARCH64_PAUTH_PLATFORM_LLVM_LINUX_VERSION_GOTOS'', Lit 9),
    (''AARCH64_PAUTH_PLATFORM_LLVM_LINUX_VERSION_TYPEINFOVPTRDISCR'', Lit 10),
    (''AARCH64_PAUTH_PLATFORM_LLVM_LINUX_VERSION_FPTRTYPEDISCR'', Lit 11),
    (''AARCH64_PAUTH_PLATFORM_LLVM_LINUX_VERSION_LAST'', Enumerator ''AARCH64_PAUTH_PLATFORM_LLVM_LINUX_VERSION_FPTRTYPEDISCR'')]"

definition X86_FEATURE_enum :: "(string \<times> cexpr) list" where
  "X86_FEATURE_enum = [
    (''GNU_PROPERTY_X86_FEATURE_1_IBT'', Shl (Lit 1) (Lit 0)),
    (''GNU_PROPERTY_X86_FEATURE_1_SHSTK'', Shl (Lit 1) (Lit 1)),
    (''GNU_PROPERTY_X86_FEATURE_2_X86'', Shl (Lit 1) (Lit 0)),
    (''GNU_PROPERTY_X86_FEATURE_2_X87'', Shl (Lit 1) (Lit 1)),
    (''GNU_PROPERTY_X86_FEATURE_2_MMX'', Shl (Lit 1) (Lit 2)),
    (''GNU_PROPERTY_X86_FEATURE_2_XMM'', Shl (Lit 1) (Lit 3)),
    (''GNU_PROPERTY_X86_FEATURE_2_YMM'', Shl (Lit 1) (Lit 4)),
    (''GNU_PROPERTY_X86_FEATURE_2_ZMM'', Shl (Lit 1) (Lit 5)),
    (''GNU_PROPERTY_X86_FEATURE_2_FXSR'', Shl (Lit 1) (Lit 6)),
    (''GNU_PROPERTY_X86_FEATURE_2_XSAVE'', Shl (Lit 1) (Lit 7)),
    (''GNU_PROPERTY_X86_FEATURE_2_XSAVEOPT'', Shl (Lit 1) (Lit 8)),
    (''GNU_PROPERTY_X86_FEATURE_2_XSAVEC'', Shl (Lit 1) (Lit 9)),
    (''GNU_PROPERTY_X86_ISA_1_BASELINE'', Shl (Lit 1) (Lit 0)),
    (''GNU_PROPERTY_X86_ISA_1_V2'', Shl (Lit 1) (Lit 1)),
    (''GNU_PROPERTY_X86_ISA_1_V3'', Shl (Lit 1) (Lit 2)),
    (''GNU_PROPERTY_X86_ISA_1_V4'', Shl (Lit 1) (Lit 3))]"

definition RISCV_FEATURE_enum :: "(string \<times> cexpr) list" where
  "RISCV_FEATURE_enum = [
    (''GNU_PROPERTY_RISCV_FEATURE_1_CFI_LP_UNLABELED'', Shl (Lit 1) (Lit 0)),
    (''GNU_PROPERTY_RISCV_FEATURE_1_CFI_SS'', Shl (Lit 1) (Lit 1)),
    (''GNU_PROPERTY_RISCV_FEATURE_1_CFI_LP_FUNC_SIG'', Shl (Lit 1) (Lit 2))]"

definition NT_FREEBSD_enum :: "(string \<times> cexpr) list" where
  "NT_FREEBSD_enum = [
    (''NT_FREEBSD_ABI_TAG'', Lit 1), (''NT_FREEBSD_NOINIT_TAG'', Lit 2),
    (''NT_FREEBSD_ARCH_TAG'', Lit 3), (''NT_FREEBSD_FEATURE_CTL'', Lit 4)]"

definition NT_FREEBSD_FCTL_enum :: "(string \<times> cexpr) list" where
  "NT_FREEBSD_FCTL_enum = [
    (''NT_FREEBSD_FCTL_ASLR_DISABLE'', Lit 0x00000001),
    (''NT_FREEBSD_FCTL_PROTMAX_DISABLE'', Lit 0x00000002),
    (''NT_FREEBSD_FCTL_STKGAP_DISABLE'', Lit 0x00000004),
    (''NT_FREEBSD_FCTL_WXNEEDED'', Lit 0x00000008), (''NT_FREEBSD_FCTL_LA48'', Lit 0x00000010),
    (''NT_FREEBSD_FCTL_ASG_DISABLE'', Lit 0x00000020)]"

definition NT_FREEBSD_core_enum :: "(string \<times> cexpr) list" where
  "NT_FREEBSD_core_enum = [
    (''NT_FREEBSD_THRMISC'', Lit 7), (''NT_FREEBSD_PROCSTAT_PROC'', Lit 8),
    (''NT_FREEBSD_PROCSTAT_FILES'', Lit 9), (''NT_FREEBSD_PROCSTAT_VMMAP'', Lit 10),
    (''NT_FREEBSD_PROCSTAT_GROUPS'', Lit 11), (''NT_FREEBSD_PROCSTAT_UMASK'', Lit 12),
    (''NT_FREEBSD_PROCSTAT_RLIMIT'', Lit 13), (''NT_FREEBSD_PROCSTAT_OSREL'', Lit 14),
    (''NT_FREEBSD_PROCSTAT_PSSTRINGS'', Lit 15), (''NT_FREEBSD_PROCSTAT_AUXV'', Lit 16)]"

definition NT_NETBSDCORE_enum :: "(string \<times> cexpr) list" where
  "NT_NETBSDCORE_enum = [
    (''NT_NETBSDCORE_PROCINFO'', Lit 1), (''NT_NETBSDCORE_AUXV'', Lit 2),
    (''NT_NETBSDCORE_LWPSTATUS'', Lit 24)]"

definition NT_OPENBSD_enum :: "(string \<times> cexpr) list" where
  "NT_OPENBSD_enum = [
    (''NT_OPENBSD_PROCINFO'', Lit 10), (''NT_OPENBSD_AUXV'', Lit 11), (''NT_OPENBSD_REGS'', Lit 20),
    (''NT_OPENBSD_FPREGS'', Lit 21), (''NT_OPENBSD_XFPREGS'', Lit 22),
    (''NT_OPENBSD_WCOOKIE'', Lit 23), (''NT_OPENBSD_PACMASK'', Lit 24)]"

definition SHN_AMDGPU_enum :: "(string \<times> cexpr) list" where
  "SHN_AMDGPU_enum = [
    (''SHN_AMDGPU_LDS'', Lit 0xff00)]"

definition NT_AMD_enum :: "(string \<times> cexpr) list" where
  "NT_AMD_enum = [
    (''NT_AMD_HSA_CODE_OBJECT_VERSION'', Lit 1), (''NT_AMD_HSA_HSAIL'', Lit 2),
    (''NT_AMD_HSA_ISA_VERSION'', Lit 3), (''NT_AMD_HSA_METADATA'', Lit 10),
    (''NT_AMD_HSA_ISA_NAME'', Lit 11), (''NT_AMD_PAL_METADATA'', Lit 12)]"

definition NT_AMDGPU_enum :: "(string \<times> cexpr) list" where
  "NT_AMDGPU_enum = [
    (''NT_AMDGPU_METADATA'', Lit 32)]"

definition NT_LLVM_OPENMP_enum :: "(string \<times> cexpr) list" where
  "NT_LLVM_OPENMP_enum = [
    (''NT_LLVM_OPENMP_OFFLOAD_VERSION'', Lit 1), (''NT_LLVM_OPENMP_OFFLOAD_PRODUCER'', Lit 2),
    (''NT_LLVM_OPENMP_OFFLOAD_PRODUCER_VERSION'', Lit 3)]"

definition GNU_ABI_TAG_enum :: "(string \<times> cexpr) list" where
  "GNU_ABI_TAG_enum = [
    (''GNU_ABI_TAG_LINUX'', Lit 0), (''GNU_ABI_TAG_HURD'', Lit 1), (''GNU_ABI_TAG_SOLARIS'', Lit 2),
    (''GNU_ABI_TAG_FREEBSD'', Lit 3), (''GNU_ABI_TAG_NETBSD'', Lit 4),
    (''GNU_ABI_TAG_SYLLABLE'', Lit 5)]"

definition RELOCATION_GROUP_enum :: "(string \<times> cexpr) list" where
  "RELOCATION_GROUP_enum = [
    (''RELOCATION_GROUPED_BY_INFO_FLAG'', Lit 1), (''RELOCATION_GROUPED_BY_OFFSET_DELTA_FLAG'', Lit 2),
    (''RELOCATION_GROUPED_BY_ADDEND_FLAG'', Lit 4), (''RELOCATION_GROUP_HAS_ADDEND_FLAG'', Lit 8)]"

definition ELFCOMPRESS_enum :: "(string \<times> cexpr) list" where
  "ELFCOMPRESS_enum = [
    (''ELFCOMPRESS_ZLIB'', Lit 1), (''ELFCOMPRESS_ZSTD'', Lit 2),
    (''ELFCOMPRESS_LOOS'', Lit 0x60000000), (''ELFCOMPRESS_HIOS'', Lit 0x6fffffff),
    (''ELFCOMPRESS_LOPROC'', Lit 0x70000000), (''ELFCOMPRESS_HIPROC'', Lit 0x7fffffff)]"

section \<open>Dynamic tags and relocation types\<close>

text \<open>The tables of \<open>lib/DynamicTags.def\<close>, \<open>lib/AArch64.def\<close>, \<open>lib/x86_64.def\<close> and \<open>lib/ARM.def\<close>.\<close>

definition DynamicTags_1 :: "(string \<times> cexpr) list" where
  "DynamicTags_1 = [
    (''NULL'', Lit 0), (''NEEDED'', Lit 1), (''PLTRELSZ'', Lit 2), (''PLTGOT'', Lit 3),
    (''HASH'', Lit 4), (''STRTAB'', Lit 5), (''SYMTAB'', Lit 6), (''RELA'', Lit 7),
    (''RELASZ'', Lit 8), (''RELAENT'', Lit 9), (''STRSZ'', Lit 10), (''SYMENT'', Lit 11),
    (''INIT'', Lit 12), (''FINI'', Lit 13), (''SONAME'', Lit 14), (''RPATH'', Lit 15),
    (''SYMBOLIC'', Lit 16), (''REL'', Lit 17), (''RELSZ'', Lit 18), (''RELENT'', Lit 19),
    (''PLTREL'', Lit 20), (''DEBUG'', Lit 21), (''TEXTREL'', Lit 22), (''JMPREL'', Lit 23),
    (''BIND_NOW'', Lit 24), (''INIT_ARRAY'', Lit 25), (''FINI_ARRAY'', Lit 26),
    (''INIT_ARRAYSZ'', Lit 27), (''FINI_ARRAYSZ'', Lit 28), (''RUNPATH'', Lit 29)]"

definition DynamicTags_2 :: "(string \<times> cexpr) list" where
  "DynamicTags_2 = [
    (''FLAGS'', Lit 30), (''ENCODING'', Lit 32), (''PREINIT_ARRAY'', Lit 32),
    (''PREINIT_ARRAYSZ'', Lit 33), (''SYMTAB_SHNDX'', Lit 34), (''RELRSZ'', Lit 35),
    (''RELR'', Lit 36), (''RELRENT'', Lit 37), (''CREL'', Lit 0x40000026), (''LOOS'', Lit 0x60000000),
    (''HIOS'', Lit 0x6fffffff), (''LOPROC'', Lit 0x70000000), (''HIPROC'', Lit 0x7fffffff),
    (''ANDROID_REL'', Lit 0x6000000f), (''ANDROID_RELSZ'', Lit 0x60000010),
    (''ANDROID_RELA'', Lit 0x60000011), (''ANDROID_RELASZ'', Lit 0x60000012),
    (''ANDROID_RELR'', Lit 0x6fffe000), (''ANDROID_RELRSZ'', Lit 0x6fffe001),
    (''ANDROID_RELRENT'', Lit 0x6fffe003), (''GNU_HASH'', Lit 0x6ffffef5),
    (''TLSDESC_PLT'', Lit 0x6ffffef6), (''TLSDESC_GOT'', Lit 0x6ffffef7),
    (''RELACOUNT'', Lit 0x6ffffff9), (''RELCOUNT'', Lit 0x6ffffffa), (''VERSYM'', Lit 0x6ffffff0),
    (''AARCH64_BTI_PLT'', Lit 0x70000001), (''AARCH64_PAC_PLT'', Lit 0x70000003),
    (''AARCH64_VARIANT_PCS'', Lit 0x70000005), (''AARCH64_MEMTAG_MODE'', Lit 0x70000009)]"

definition DynamicTags_3 :: "(string \<times> cexpr) list" where
  "DynamicTags_3 = [
    (''AARCH64_MEMTAG_HEAP'', Lit 0x7000000b), (''AARCH64_MEMTAG_STACK'', Lit 0x7000000c),
    (''AARCH64_MEMTAG_GLOBALS'', Lit 0x7000000d), (''AARCH64_MEMTAG_GLOBALSSZ'', Lit 0x7000000f),
    (''AARCH64_AUTH_RELRSZ'', Lit 0x70000011), (''AARCH64_AUTH_RELR'', Lit 0x70000012),
    (''AARCH64_AUTH_RELRENT'', Lit 0x70000013), (''HEXAGON_SYMSZ'', Lit 0x70000000),
    (''HEXAGON_VER'', Lit 0x70000001), (''HEXAGON_PLT'', Lit 0x70000002),
    (''MIPS_RLD_VERSION'', Lit 0x70000001), (''MIPS_TIME_STAMP'', Lit 0x70000002),
    (''MIPS_ICHECKSUM'', Lit 0x70000003), (''MIPS_IVERSION'', Lit 0x70000004),
    (''MIPS_FLAGS'', Lit 0x70000005), (''MIPS_BASE_ADDRESS'', Lit 0x70000006),
    (''MIPS_MSYM'', Lit 0x70000007), (''MIPS_CONFLICT'', Lit 0x70000008),
    (''MIPS_LIBLIST'', Lit 0x70000009), (''MIPS_LOCAL_GOTNO'', Lit 0x7000000a),
    (''MIPS_CONFLICTNO'', Lit 0x7000000b), (''MIPS_LIBLISTNO'', Lit 0x70000010),
    (''MIPS_SYMTABNO'', Lit 0x70000011), (''MIPS_UNREFEXTNO'', Lit 0x70000012),
    (''MIPS_GOTSYM'', Lit 0x70000013), (''MIPS_HIPAGENO'', Lit 0x70000014),
    (''MIPS_RLD_MAP'', Lit 0x70000016), (''MIPS_DELTA_CLASS'', Lit 0x70000017),
    (''MIPS_DELTA_CLASS_NO'', Lit 0x70000018), (''MIPS_DELTA_INSTANCE'', Lit 0x70000019)]"

definition DynamicTags_4 :: "(string \<times> cexpr) list" where
  "DynamicTags_4 = [
    (''MIPS_DELTA_INSTANCE_NO'', Lit 0x7000001a), (''MIPS_DELTA_RELOC'', Lit 0x7000001b),
    (''MIPS_DELTA_RELOC_NO'', Lit 0x7000001c), (''MIPS_DELTA_SYM'', Lit 0x7000001d),
    (''MIPS_DELTA_SYM_NO'', Lit 0x7000001e), (''MIPS_DELTA_CLASSSYM'', Lit 0x70000020),
    (''MIPS_DELTA_CLASSSYM_NO'', Lit 0x70000021), (''MIPS_CXX_FLAGS'', Lit 0x70000022),
    (''MIPS_PIXIE_INIT'', Lit 0x70000023), (''MIPS_SYMBOL_LIB'', Lit 0x70000024),
    (''MIPS_LOCALPAGE_GOTIDX'', Lit 0x70000025), (''MIPS_LOCAL_GOTIDX'', Lit 0x70000026),
    (''MIPS_HIDDEN_GOTIDX'', Lit 0x70000027), (''MIPS_PROTECTED_GOTIDX'', Lit 0x70000028),
    (''MIPS_OPTIONS'', Lit 0x70000029), (''MIPS_INTERFACE'', Lit 0x7000002a),
    (''MIPS_DYNSTR_ALIGN'', Lit 0x7000002b), (''MIPS_INTERFACE_SIZE'', Lit 0x7000002c),
    (''MIPS_RLD_TEXT_RESOLVE_ADDR'', Lit 0x7000002d), (''MIPS_PERF_SUFFIX'', Lit 0x7000002e),
    (''MIPS_COMPACT_SIZE'', Lit 0x7000002f), (''MIPS_GP_VALUE'', Lit 0x70000030),
    (''MIPS_AUX_DYNAMIC'', Lit 0x70000031), (''MIPS_PLTGOT'', Lit 0x70000032),
    (''MIPS_RWPLT'', Lit 0x70000034), (''MIPS_RLD_MAP_REL'', Lit 0x70000035),
    (''MIPS_XHASH'', Lit 0x70000036), (''PPC_GOT'', Lit 0x70000000), (''PPC_OPT'', Lit 0x70000001),
    (''PPC64_GLINK'', Lit 0x70000000)]"

definition DynamicTags_5 :: "(string \<times> cexpr) list" where
  "DynamicTags_5 = [
    (''PPC64_OPT'', Lit 0x70000003), (''RISCV_VARIANT_CC'', Lit 0x70000001),
    (''SPARC_REGISTER'', Lit 0x70000001), (''X86_64_PLT'', Lit 0x70000000),
    (''X86_64_PLTSZ'', Lit 0x70000001), (''X86_64_PLTENT'', Lit 0x70000003),
    (''AUXILIARY'', Lit 0x7ffffffd), (''USED'', Lit 0x7ffffffe), (''FILTER'', Lit 0x7fffffff)]"

definition DynamicTags :: "(string \<times> cexpr) list" where
  "DynamicTags = DynamicTags_1 @ DynamicTags_2 @ DynamicTags_3 @ DynamicTags_4 @ DynamicTags_5"

definition AArch64_relocs_1 :: "(string \<times> cexpr) list" where
  "AArch64_relocs_1 = [
    (''R_AARCH64_NONE'', Lit 0), (''R_AARCH64_ABS64'', Lit 0x101), (''R_AARCH64_ABS32'', Lit 0x102),
    (''R_AARCH64_ABS16'', Lit 0x103), (''R_AARCH64_PREL64'', Lit 0x104),
    (''R_AARCH64_PREL32'', Lit 0x105), (''R_AARCH64_PREL16'', Lit 0x106),
    (''R_AARCH64_MOVW_UABS_G0'', Lit 0x107), (''R_AARCH64_MOVW_UABS_G0_NC'', Lit 0x108),
    (''R_AARCH64_MOVW_UABS_G1'', Lit 0x109), (''R_AARCH64_MOVW_UABS_G1_NC'', Lit 0x10a),
    (''R_AARCH64_MOVW_UABS_G2'', Lit 0x10b), (''R_AARCH64_MOVW_UABS_G2_NC'', Lit 0x10c),
    (''R_AARCH64_MOVW_UABS_G3'', Lit 0x10d), (''R_AARCH64_MOVW_SABS_G0'', Lit 0x10e),
    (''R_AARCH64_MOVW_SABS_G1'', Lit 0x10f), (''R_AARCH64_MOVW_SABS_G2'', Lit 0x110),
    (''R_AARCH64_LD_PREL_LO19'', Lit 0x111), (''R_AARCH64_ADR_PREL_LO21'', Lit 0x112),
    (''R_AARCH64_ADR_PREL_PG_HI21'', Lit 0x113), (''R_AARCH64_ADR_PREL_PG_HI21_NC'', Lit 0x114),
    (''R_AARCH64_ADD_ABS_LO12_NC'', Lit 0x115), (''R_AARCH64_LDST8_ABS_LO12_NC'', Lit 0x116),
    (''R_AARCH64_TSTBR14'', Lit 0x117), (''R_AARCH64_CONDBR19'', Lit 0x118),
    (''R_AARCH64_JUMP26'', Lit 0x11a), (''R_AARCH64_CALL26'', Lit 0x11b),
    (''R_AARCH64_LDST16_ABS_LO12_NC'', Lit 0x11c), (''R_AARCH64_LDST32_ABS_LO12_NC'', Lit 0x11d),
    (''R_AARCH64_LDST64_ABS_LO12_NC'', Lit 0x11e)]"

definition AArch64_relocs_2 :: "(string \<times> cexpr) list" where
  "AArch64_relocs_2 = [
    (''R_AARCH64_MOVW_PREL_G0'', Lit 0x11f), (''R_AARCH64_MOVW_PREL_G0_NC'', Lit 0x120),
    (''R_AARCH64_MOVW_PREL_G1'', Lit 0x121), (''R_AARCH64_MOVW_PREL_G1_NC'', Lit 0x122),
    (''R_AARCH64_MOVW_PREL_G2'', Lit 0x123), (''R_AARCH64_MOVW_PREL_G2_NC'', Lit 0x124),
    (''R_AARCH64_MOVW_PREL_G3'', Lit 0x125), (''R_AARCH64_LDST128_ABS_LO12_NC'', Lit 0x12b),
    (''R_AARCH64_MOVW_GOTOFF_G0'', Lit 0x12c), (''R_AARCH64_MOVW_GOTOFF_G0_NC'', Lit 0x12d),
    (''R_AARCH64_MOVW_GOTOFF_G1'', Lit 0x12e), (''R_AARCH64_MOVW_GOTOFF_G1_NC'', Lit 0x12f),
    (''R_AARCH64_MOVW_GOTOFF_G2'', Lit 0x130), (''R_AARCH64_MOVW_GOTOFF_G2_NC'', Lit 0x131),
    (''R_AARCH64_MOVW_GOTOFF_G3'', Lit 0x132), (''R_AARCH64_GOTREL64'', Lit 0x133),
    (''R_AARCH64_GOTREL32'', Lit 0x134), (''R_AARCH64_GOT_LD_PREL19'', Lit 0x135),
    (''R_AARCH64_LD64_GOTOFF_LO15'', Lit 0x136), (''R_AARCH64_ADR_GOT_PAGE'', Lit 0x137),
    (''R_AARCH64_LD64_GOT_LO12_NC'', Lit 0x138), (''R_AARCH64_LD64_GOTPAGE_LO15'', Lit 0x139),
    (''R_AARCH64_PLT32'', Lit 0x13a), (''R_AARCH64_GOTPCREL32'', Lit 0x13b),
    (''R_AARCH64_PATCHINST'', Lit 0x13c), (''R_AARCH64_FUNCINIT64'', Lit 0x13d),
    (''R_AARCH64_TLSGD_ADR_PREL21'', Lit 0x200), (''R_AARCH64_TLSGD_ADR_PAGE21'', Lit 0x201),
    (''R_AARCH64_TLSGD_ADD_LO12_NC'', Lit 0x202), (''R_AARCH64_TLSGD_MOVW_G1'', Lit 0x203)]"

definition AArch64_relocs_3 :: "(string \<times> cexpr) list" where
  "AArch64_relocs_3 = [
    (''R_AARCH64_TLSGD_MOVW_G0_NC'', Lit 0x204), (''R_AARCH64_TLSLD_ADR_PREL21'', Lit 0x205),
    (''R_AARCH64_TLSLD_ADR_PAGE21'', Lit 0x206), (''R_AARCH64_TLSLD_ADD_LO12_NC'', Lit 0x207),
    (''R_AARCH64_TLSLD_MOVW_G1'', Lit 0x208), (''R_AARCH64_TLSLD_MOVW_G0_NC'', Lit 0x209),
    (''R_AARCH64_TLSLD_LD_PREL19'', Lit 0x20a), (''R_AARCH64_TLSLD_MOVW_DTPREL_G2'', Lit 0x20b),
    (''R_AARCH64_TLSLD_MOVW_DTPREL_G1'', Lit 0x20c),
    (''R_AARCH64_TLSLD_MOVW_DTPREL_G1_NC'', Lit 0x20d),
    (''R_AARCH64_TLSLD_MOVW_DTPREL_G0'', Lit 0x20e),
    (''R_AARCH64_TLSLD_MOVW_DTPREL_G0_NC'', Lit 0x20f),
    (''R_AARCH64_TLSLD_ADD_DTPREL_HI12'', Lit 0x210), (''R_AARCH64_TLSLD_ADD_DTPREL_LO12'', Lit 0x211),
    (''R_AARCH64_TLSLD_ADD_DTPREL_LO12_NC'', Lit 0x212),
    (''R_AARCH64_TLSLD_LDST8_DTPREL_LO12'', Lit 0x213),
    (''R_AARCH64_TLSLD_LDST8_DTPREL_LO12_NC'', Lit 0x214),
    (''R_AARCH64_TLSLD_LDST16_DTPREL_LO12'', Lit 0x215),
    (''R_AARCH64_TLSLD_LDST16_DTPREL_LO12_NC'', Lit 0x216),
    (''R_AARCH64_TLSLD_LDST32_DTPREL_LO12'', Lit 0x217),
    (''R_AARCH64_TLSLD_LDST32_DTPREL_LO12_NC'', Lit 0x218),
    (''R_AARCH64_TLSLD_LDST64_DTPREL_LO12'', Lit 0x219),
    (''R_AARCH64_TLSLD_LDST64_DTPREL_LO12_NC'', Lit 0x21a),
    (''R_AARCH64_TLSIE_MOVW_GOTTPREL_G1'', Lit 0x21b),
    (''R_AARCH64_TLSIE_MOVW_GOTTPREL_G0_NC'', Lit 0x21c),
    (''R_AARCH64_TLSIE_ADR_GOTTPREL_PAGE21'', Lit 0x21d),
    (''R_AARCH64_TLSIE_LD64_GOTTPREL_LO12_NC'', Lit 0x21e),
    (''R_AARCH64_TLSIE_LD_GOTTPREL_PREL19'', Lit 0x21f),
    (''R_AARCH64_TLSLE_MOVW_TPREL_G2'', Lit 0x220), (''R_AARCH64_TLSLE_MOVW_TPREL_G1'', Lit 0x221)]"

definition AArch64_relocs_4 :: "(string \<times> cexpr) list" where
  "AArch64_relocs_4 = [
    (''R_AARCH64_TLSLE_MOVW_TPREL_G1_NC'', Lit 0x222), (''R_AARCH64_TLSLE_MOVW_TPREL_G0'', Lit 0x223),
    (''R_AARCH64_TLSLE_MOVW_TPREL_G0_NC'', Lit 0x224), (''R_AARCH64_TLSLE_ADD_TPREL_HI12'', Lit 0x225),
    (''R_AARCH64_TLSLE_ADD_TPREL_LO12'', Lit 0x226),
    (''R_AARCH64_TLSLE_ADD_TPREL_LO12_NC'', Lit 0x227),
    (''R_AARCH64_TLSLE_LDST8_TPREL_LO12'', Lit 0x228),
    (''R_AARCH64_TLSLE_LDST8_TPREL_LO12_NC'', Lit 0x229),
    (''R_AARCH64_TLSLE_LDST16_TPREL_LO12'', Lit 0x22a),
    (''R_AARCH64_TLSLE_LDST16_TPREL_LO12_NC'', Lit 0x22b),
    (''R_AARCH64_TLSLE_LDST32_TPREL_LO12'', Lit 0x22c),
    (''R_AARCH64_TLSLE_LDST32_TPREL_LO12_NC'', Lit 0x22d),
    (''R_AARCH64_TLSLE_LDST64_TPREL_LO12'', Lit 0x22e),
    (''R_AARCH64_TLSLE_LDST64_TPREL_LO12_NC'', Lit 0x22f),
    (''R_AARCH64_TLSDESC_LD_PREL19'', Lit 0x230), (''R_AARCH64_TLSDESC_ADR_PREL21'', Lit 0x231),
    (''R_AARCH64_TLSDESC_ADR_PAGE21'', Lit 0x232), (''R_AARCH64_TLSDESC_LD64_LO12'', Lit 0x233),
    (''R_AARCH64_TLSDESC_ADD_LO12'', Lit 0x234), (''R_AARCH64_TLSDESC_OFF_G1'', Lit 0x235),
    (''R_AARCH64_TLSDESC_OFF_G0_NC'', Lit 0x236), (''R_AARCH64_TLSDESC_LDR'', Lit 0x237),
    (''R_AARCH64_TLSDESC_ADD'', Lit 0x238), (''R_AARCH64_TLSDESC_CALL'', Lit 0x239),
    (''R_AARCH64_TLSLE_LDST128_TPREL_LO12'', Lit 0x23a),
    (''R_AARCH64_TLSLE_LDST128_TPREL_LO12_NC'', Lit 0x23b),
    (''R_AARCH64_TLSLD_LDST128_DTPREL_LO12'', Lit 0x23c),
    (''R_AARCH64_TLSLD_LDST128_DTPREL_LO12_NC'', Lit 0x23d), (''R_AARCH64_COPY'', Lit 0x400),
    (''R_AARCH64_GLOB_DAT'', Lit 0x401)]"

definition AArch64_relocs_5 :: "(string \<times> cexpr) list" where
  "AArch64_relocs_5 = [
    (''R_AARCH64_JUMP_SLOT'', Lit 0x402), (''R_AARCH64_RELATIVE'', Lit 0x403),
    (''R_AARCH64_TLS_DTPMOD64'', Lit 0x404), (''R_AARCH64_TLS_DTPREL64'', Lit 0x405),
    (''R_AARCH64_TLS_TPREL64'', Lit 0x406), (''R_AARCH64_TLSDESC'', Lit 0x407),
    (''R_AARCH64_IRELATIVE'', Lit 0x408), (''R_AARCH64_AUTH_ABS64'', Lit 0x244),
    (''R_AARCH64_AUTH_MOVW_GOTOFF_G0'', Lit 0x245), (''R_AARCH64_AUTH_MOVW_GOTOFF_G0_NC'', Lit 0x246),
    (''R_AARCH64_AUTH_MOVW_GOTOFF_G1'', Lit 0x247), (''R_AARCH64_AUTH_MOVW_GOTOFF_G1_NC'', Lit 0x248),
    (''R_AARCH64_AUTH_MOVW_GOTOFF_G2'', Lit 0x249), (''R_AARCH64_AUTH_MOVW_GOTOFF_G2_NC'', Lit 0x24a),
    (''R_AARCH64_AUTH_MOVW_GOTOFF_G3'', Lit 0x24b), (''R_AARCH64_AUTH_GOT_LD_PREL19'', Lit 0x24c),
    (''R_AARCH64_AUTH_LD64_GOTOFF_LO15'', Lit 0x24d), (''R_AARCH64_AUTH_ADR_GOT_PAGE'', Lit 0x24e),
    (''R_AARCH64_AUTH_LD64_GOT_LO12_NC'', Lit 0x24f),
    (''R_AARCH64_AUTH_LD64_GOTPAGE_LO15'', Lit 0x250), (''R_AARCH64_AUTH_GOT_ADD_LO12_NC'', Lit 0x251),
    (''R_AARCH64_AUTH_GOT_ADR_PREL_LO21'', Lit 0x252),
    (''R_AARCH64_AUTH_TLSDESC_ADR_PAGE21'', Lit 0x253),
    (''R_AARCH64_AUTH_TLSDESC_LD64_LO12'', Lit 0x254),
    (''R_AARCH64_AUTH_TLSDESC_ADD_LO12'', Lit 0x255), (''R_AARCH64_AUTH_TLSDESC_CALL'', Lit 0x256),
    (''R_AARCH64_AUTH_RELATIVE'', Lit 0x411), (''R_AARCH64_AUTH_GLOB_DAT'', Lit 0x412),
    (''R_AARCH64_AUTH_TLSDESC'', Lit 0x413), (''R_AARCH64_AUTH_IRELATIVE'', Lit 0x414)]"

definition AArch64_relocs_6 :: "(string \<times> cexpr) list" where
  "AArch64_relocs_6 = [
    (''R_AARCH64_P32_ABS32'', Lit 0x001), (''R_AARCH64_P32_ABS16'', Lit 0x002),
    (''R_AARCH64_P32_PREL32'', Lit 0x003), (''R_AARCH64_P32_PREL16'', Lit 0x004),
    (''R_AARCH64_P32_MOVW_UABS_G0'', Lit 0x005), (''R_AARCH64_P32_MOVW_UABS_G0_NC'', Lit 0x006),
    (''R_AARCH64_P32_MOVW_UABS_G1'', Lit 0x007), (''R_AARCH64_P32_MOVW_SABS_G0'', Lit 0x008),
    (''R_AARCH64_P32_LD_PREL_LO19'', Lit 0x009), (''R_AARCH64_P32_ADR_PREL_LO21'', Lit 0x00a),
    (''R_AARCH64_P32_ADR_PREL_PG_HI21'', Lit 0x00b), (''R_AARCH64_P32_ADD_ABS_LO12_NC'', Lit 0x00c),
    (''R_AARCH64_P32_LDST8_ABS_LO12_NC'', Lit 0x00d),
    (''R_AARCH64_P32_LDST16_ABS_LO12_NC'', Lit 0x00e),
    (''R_AARCH64_P32_LDST32_ABS_LO12_NC'', Lit 0x00f),
    (''R_AARCH64_P32_LDST64_ABS_LO12_NC'', Lit 0x010),
    (''R_AARCH64_P32_LDST128_ABS_LO12_NC'', Lit 0x011), (''R_AARCH64_P32_TSTBR14'', Lit 0x012),
    (''R_AARCH64_P32_CONDBR19'', Lit 0x013), (''R_AARCH64_P32_JUMP26'', Lit 0x014),
    (''R_AARCH64_P32_CALL26'', Lit 0x015), (''R_AARCH64_P32_MOVW_PREL_G0'', Lit 0x016),
    (''R_AARCH64_P32_MOVW_PREL_G0_NC'', Lit 0x017), (''R_AARCH64_P32_MOVW_PREL_G1'', Lit 0x018),
    (''R_AARCH64_P32_GOT_LD_PREL19'', Lit 0x019), (''R_AARCH64_P32_ADR_GOT_PAGE'', Lit 0x01a),
    (''R_AARCH64_P32_LD32_GOT_LO12_NC'', Lit 0x01b), (''R_AARCH64_P32_LD32_GOTPAGE_LO14'', Lit 0x01c),
    (''R_AARCH64_P32_PLT32'', Lit 0x01d), (''R_AARCH64_P32_TLSGD_ADR_PREL21'', Lit 0x050)]"

definition AArch64_relocs_7 :: "(string \<times> cexpr) list" where
  "AArch64_relocs_7 = [
    (''R_AARCH64_P32_TLSGD_ADR_PAGE21'', Lit 0x051), (''R_AARCH64_P32_TLSGD_ADD_LO12_NC'', Lit 0x052),
    (''R_AARCH64_P32_TLSLD_ADR_PREL21'', Lit 0x053), (''R_AARCH64_P32_TLSLD_ADR_PAGE21'', Lit 0x054),
    (''R_AARCH64_P32_TLSLD_ADD_LO12_NC'', Lit 0x055), (''R_AARCH64_P32_TLSLD_LD_PREL19'', Lit 0x056),
    (''R_AARCH64_P32_TLSLD_MOVW_DTPREL_G1'', Lit 0x057),
    (''R_AARCH64_P32_TLSLD_MOVW_DTPREL_G0'', Lit 0x058),
    (''R_AARCH64_P32_TLSLD_MOVW_DTPREL_G0_NC'', Lit 0x059),
    (''R_AARCH64_P32_TLSLD_ADD_DTPREL_HI12'', Lit 0x05a),
    (''R_AARCH64_P32_TLSLD_ADD_DTPREL_LO12'', Lit 0x05b),
    (''R_AARCH64_P32_TLSLD_ADD_DTPREL_LO12_NC'', Lit 0x05c),
    (''R_AARCH64_P32_TLSLD_LDST8_DTPREL_LO12'', Lit 0x05d),
    (''R_AARCH64_P32_TLSLD_LDST8_DTPREL_LO12_NC'', Lit 0x05e),
    (''R_AARCH64_P32_TLSLD_LDST16_DTPREL_LO12'', Lit 0x05f),
    (''R_AARCH64_P32_TLSLD_LDST16_DTPREL_LO12_NC'', Lit 0x060),
    (''R_AARCH64_P32_TLSLD_LDST32_DTPREL_LO12'', Lit 0x061),
    (''R_AARCH64_P32_TLSLD_LDST32_DTPREL_LO12_NC'', Lit 0x062),
    (''R_AARCH64_P32_TLSLD_LDST64_DTPREL_LO12'', Lit 0x063),
    (''R_AARCH64_P32_TLSLD_LDST64_DTPREL_LO12_NC'', Lit 0x064),
    (''R_AARCH64_P32_TLSLD_LDST128_DTPREL_LO12'', Lit 0x065),
    (''R_AARCH64_P32_TLSLD_LDST128_DTPREL_LO12_NC'', Lit 0x066),
    (''R_AARCH64_P32_TLSIE_ADR_GOTTPREL_PAGE21'', Lit 0x067),
    (''R_AARCH64_P32_TLSIE_LD32_GOTTPREL_LO12_NC'', Lit 0x068),
    (''R_AARCH64_P32_TLSIE_LD_GOTTPREL_PREL19'', Lit 0x069),
    (''R_AARCH64_P32_TLSLE_MOVW_TPREL_G1'', Lit 0x06a),
    (''R_AARCH64_P32_TLSLE_MOVW_TPREL_G0'', Lit 0x06b),
    (''R_AARCH64_P32_TLSLE_MOVW_TPREL_G0_NC'', Lit 0x06c),
    (''R_AARCH64_P32_TLSLE_ADD_TPREL_HI12'', Lit 0x06d),
    (''R_AARCH64_P32_TLSLE_ADD_TPREL_LO12'', Lit 0x06e)]"

definition AArch64_relocs_8 :: "(string \<times> cexpr) list" where
  "AArch64_relocs_8 = [
    (''R_AARCH64_P32_TLSLE_ADD_TPREL_LO12_NC'', Lit 0x06f),
    (''R_AARCH64_P32_TLSLE_LDST8_TPREL_LO12'', Lit 0x070),
    (''R_AARCH64_P32_TLSLE_LDST8_TPREL_LO12_NC'', Lit 0x071),
    (''R_AARCH64_P32_TLSLE_LDST16_TPREL_LO12'', Lit 0x072),
    (''R_AARCH64_P32_TLSLE_LDST16_TPREL_LO12_NC'', Lit 0x073),
    (''R_AARCH64_P32_TLSLE_LDST32_TPREL_LO12'', Lit 0x074),
    (''R_AARCH64_P32_TLSLE_LDST32_TPREL_LO12_NC'', Lit 0x075),
    (''R_AARCH64_P32_TLSLE_LDST64_TPREL_LO12'', Lit 0x076),
    (''R_AARCH64_P32_TLSLE_LDST64_TPREL_LO12_NC'', Lit 0x077),
    (''R_AARCH64_P32_TLSLE_LDST128_TPREL_LO12'', Lit 0x078),
    (''R_AARCH64_P32_TLSLE_LDST128_TPREL_LO12_NC'', Lit 0x079),
    (''R_AARCH64_P32_TLSDESC_LD_PREL19'', Lit 0x07a),
    (''R_AARCH64_P32_TLSDESC_ADR_PREL21'', Lit 0x07b),
    (''R_AARCH64_P32_TLSDESC_ADR_PAGE21'', Lit 0x07c),
    (''R_AARCH64_P32_TLSDESC_LD32_LO12'', Lit 0x07d), (''R_AARCH64_P32_TLSDESC_ADD_LO12'', Lit 0x07e),
    (''R_AARCH64_P32_TLSDESC_CALL'', Lit 0x07f), (''R_AARCH64_P32_COPY'', Lit 0x0b4),
    (''R_AARCH64_P32_GLOB_DAT'', Lit 0x0b5), (''R_AARCH64_P32_JUMP_SLOT'', Lit 0x0b6),
    (''R_AARCH64_P32_RELATIVE'', Lit 0x0b7), (''R_AARCH64_P32_TLS_DTPREL'', Lit 0x0b8),
    (''R_AARCH64_P32_TLS_DTPMOD'', Lit 0x0b9), (''R_AARCH64_P32_TLS_TPREL'', Lit 0x0ba),
    (''R_AARCH64_P32_TLSDESC'', Lit 0x0bb), (''R_AARCH64_P32_IRELATIVE'', Lit 0x0bc)]"

definition AArch64_relocs :: "(string \<times> cexpr) list" where
  "AArch64_relocs = AArch64_relocs_1 @ AArch64_relocs_2 @ AArch64_relocs_3 @ AArch64_relocs_4 @ AArch64_relocs_5 @ AArch64_relocs_6 @ AArch64_relocs_7 @ AArch64_relocs_8"

definition x86_64_relocs :: "(string \<times> cexpr) list" where
  "x86_64_relocs = [
    (''R_X86_64_NONE'', Lit 0), (''R_X86_64_64'', Lit 1), (''R_X86_64_PC32'', Lit 2),
    (''R_X86_64_GOT32'', Lit 3), (''R_X86_64_PLT32'', Lit 4), (''R_X86_64_COPY'', Lit 5),
    (''R_X86_64_GLOB_DAT'', Lit 6), (''R_X86_64_JUMP_SLOT'', Lit 7), (''R_X86_64_RELATIVE'', Lit 8),
    (''R_X86_64_GOTPCREL'', Lit 9), (''R_X86_64_32'', Lit 10), (''R_X86_64_32S'', Lit 11),
    (''R_X86_64_16'', Lit 12), (''R_X86_64_PC16'', Lit 13), (''R_X86_64_8'', Lit 14),
    (''R_X86_64_PC8'', Lit 15), (''R_X86_64_DTPMOD64'', Lit 16), (''R_X86_64_DTPOFF64'', Lit 17),
    (''R_X86_64_TPOFF64'', Lit 18), (''R_X86_64_TLSGD'', Lit 19), (''R_X86_64_TLSLD'', Lit 20),
    (''R_X86_64_DTPOFF32'', Lit 21), (''R_X86_64_GOTTPOFF'', Lit 22), (''R_X86_64_TPOFF32'', Lit 23),
    (''R_X86_64_PC64'', Lit 24), (''R_X86_64_GOTOFF64'', Lit 25), (''R_X86_64_GOTPC32'', Lit 26),
    (''R_X86_64_GOT64'', Lit 27), (''R_X86_64_GOTPCREL64'', Lit 28), (''R_X86_64_GOTPC64'', Lit 29),
    (''R_X86_64_GOTPLT64'', Lit 30), (''R_X86_64_PLTOFF64'', Lit 31), (''R_X86_64_SIZE32'', Lit 32),
    (''R_X86_64_SIZE64'', Lit 33), (''R_X86_64_GOTPC32_TLSDESC'', Lit 34),
    (''R_X86_64_TLSDESC_CALL'', Lit 35), (''R_X86_64_TLSDESC'', Lit 36),
    (''R_X86_64_IRELATIVE'', Lit 37), (''R_X86_64_GOTPCRELX'', Lit 41),
    (''R_X86_64_REX_GOTPCRELX'', Lit 42), (''R_X86_64_CODE_4_GOTPCRELX'', Lit 43),
    (''R_X86_64_CODE_4_GOTTPOFF'', Lit 44), (''R_X86_64_CODE_4_GOTPC32_TLSDESC'', Lit 45),
    (''R_X86_64_CODE_6_GOTTPOFF'', Lit 50)]"

definition ARM_relocs_1 :: "(string \<times> cexpr) list" where
  "ARM_relocs_1 = [
    (''R_ARM_NONE'', Lit 0x00), (''R_ARM_PC24'', Lit 0x01), (''R_ARM_ABS32'', Lit 0x02),
    (''R_ARM_REL32'', Lit 0x03), (''R_ARM_LDR_PC_G0'', Lit 0x04), (''R_ARM_ABS16'', Lit 0x05),
    (''R_ARM_ABS12'', Lit 0x06), (''R_ARM_THM_ABS5'', Lit 0x07), (''R_ARM_ABS8'', Lit 0x08),
    (''R_ARM_SBREL32'', Lit 0x09), (''R_ARM_THM_CALL'', Lit 0x0a), (''R_ARM_THM_PC8'', Lit 0x0b),
    (''R_ARM_BREL_ADJ'', Lit 0x0c), (''R_ARM_TLS_DESC'', Lit 0x0d), (''R_ARM_THM_SWI8'', Lit 0x0e),
    (''R_ARM_XPC25'', Lit 0x0f), (''R_ARM_THM_XPC22'', Lit 0x10), (''R_ARM_TLS_DTPMOD32'', Lit 0x11),
    (''R_ARM_TLS_DTPOFF32'', Lit 0x12), (''R_ARM_TLS_TPOFF32'', Lit 0x13), (''R_ARM_COPY'', Lit 0x14),
    (''R_ARM_GLOB_DAT'', Lit 0x15), (''R_ARM_JUMP_SLOT'', Lit 0x16), (''R_ARM_RELATIVE'', Lit 0x17),
    (''R_ARM_GOTOFF32'', Lit 0x18), (''R_ARM_BASE_PREL'', Lit 0x19), (''R_ARM_GOT_BREL'', Lit 0x1a),
    (''R_ARM_PLT32'', Lit 0x1b), (''R_ARM_CALL'', Lit 0x1c), (''R_ARM_JUMP24'', Lit 0x1d)]"

definition ARM_relocs_2 :: "(string \<times> cexpr) list" where
  "ARM_relocs_2 = [
    (''R_ARM_THM_JUMP24'', Lit 0x1e), (''R_ARM_BASE_ABS'', Lit 0x1f),
    (''R_ARM_ALU_PCREL_7_0'', Lit 0x20), (''R_ARM_ALU_PCREL_15_8'', Lit 0x21),
    (''R_ARM_ALU_PCREL_23_15'', Lit 0x22), (''R_ARM_LDR_SBREL_11_0_NC'', Lit 0x23),
    (''R_ARM_ALU_SBREL_19_12_NC'', Lit 0x24), (''R_ARM_ALU_SBREL_27_20_CK'', Lit 0x25),
    (''R_ARM_TARGET1'', Lit 0x26), (''R_ARM_SBREL31'', Lit 0x27), (''R_ARM_V4BX'', Lit 0x28),
    (''R_ARM_TARGET2'', Lit 0x29), (''R_ARM_PREL31'', Lit 0x2a), (''R_ARM_MOVW_ABS_NC'', Lit 0x2b),
    (''R_ARM_MOVT_ABS'', Lit 0x2c), (''R_ARM_MOVW_PREL_NC'', Lit 0x2d),
    (''R_ARM_MOVT_PREL'', Lit 0x2e), (''R_ARM_THM_MOVW_ABS_NC'', Lit 0x2f),
    (''R_ARM_THM_MOVT_ABS'', Lit 0x30), (''R_ARM_THM_MOVW_PREL_NC'', Lit 0x31),
    (''R_ARM_THM_MOVT_PREL'', Lit 0x32), (''R_ARM_THM_JUMP19'', Lit 0x33),
    (''R_ARM_THM_JUMP6'', Lit 0x34), (''R_ARM_THM_ALU_PREL_11_0'', Lit 0x35),
    (''R_ARM_THM_PC12'', Lit 0x36), (''R_ARM_ABS32_NOI'', Lit 0x37), (''R_ARM_REL32_NOI'', Lit 0x38),
    (''R_ARM_ALU_PC_G0_NC'', Lit 0x39), (''R_ARM_ALU_PC_G0'', Lit 0x3a),
    (''R_ARM_ALU_PC_G1_NC'', Lit 0x3b)]"

definition ARM_relocs_3 :: "(string \<times> cexpr) list" where
  "ARM_relocs_3 = [
    (''R_ARM_ALU_PC_G1'', Lit 0x3c), (''R_ARM_ALU_PC_G2'', Lit 0x3d), (''R_ARM_LDR_PC_G1'', Lit 0x3e),
    (''R_ARM_LDR_PC_G2'', Lit 0x3f), (''R_ARM_LDRS_PC_G0'', Lit 0x40),
    (''R_ARM_LDRS_PC_G1'', Lit 0x41), (''R_ARM_LDRS_PC_G2'', Lit 0x42),
    (''R_ARM_LDC_PC_G0'', Lit 0x43), (''R_ARM_LDC_PC_G1'', Lit 0x44), (''R_ARM_LDC_PC_G2'', Lit 0x45),
    (''R_ARM_ALU_SB_G0_NC'', Lit 0x46), (''R_ARM_ALU_SB_G0'', Lit 0x47),
    (''R_ARM_ALU_SB_G1_NC'', Lit 0x48), (''R_ARM_ALU_SB_G1'', Lit 0x49),
    (''R_ARM_ALU_SB_G2'', Lit 0x4a), (''R_ARM_LDR_SB_G0'', Lit 0x4b), (''R_ARM_LDR_SB_G1'', Lit 0x4c),
    (''R_ARM_LDR_SB_G2'', Lit 0x4d), (''R_ARM_LDRS_SB_G0'', Lit 0x4e),
    (''R_ARM_LDRS_SB_G1'', Lit 0x4f), (''R_ARM_LDRS_SB_G2'', Lit 0x50),
    (''R_ARM_LDC_SB_G0'', Lit 0x51), (''R_ARM_LDC_SB_G1'', Lit 0x52), (''R_ARM_LDC_SB_G2'', Lit 0x53),
    (''R_ARM_MOVW_BREL_NC'', Lit 0x54), (''R_ARM_MOVT_BREL'', Lit 0x55),
    (''R_ARM_MOVW_BREL'', Lit 0x56), (''R_ARM_THM_MOVW_BREL_NC'', Lit 0x57),
    (''R_ARM_THM_MOVT_BREL'', Lit 0x58), (''R_ARM_THM_MOVW_BREL'', Lit 0x59)]"

definition ARM_relocs_4 :: "(string \<times> cexpr) list" where
  "ARM_relocs_4 = [
    (''R_ARM_TLS_GOTDESC'', Lit 0x5a), (''R_ARM_TLS_CALL'', Lit 0x5b),
    (''R_ARM_TLS_DESCSEQ'', Lit 0x5c), (''R_ARM_THM_TLS_CALL'', Lit 0x5d),
    (''R_ARM_PLT32_ABS'', Lit 0x5e), (''R_ARM_GOT_ABS'', Lit 0x5f), (''R_ARM_GOT_PREL'', Lit 0x60),
    (''R_ARM_GOT_BREL12'', Lit 0x61), (''R_ARM_GOTOFF12'', Lit 0x62), (''R_ARM_GOTRELAX'', Lit 0x63),
    (''R_ARM_GNU_VTENTRY'', Lit 0x64), (''R_ARM_GNU_VTINHERIT'', Lit 0x65),
    (''R_ARM_THM_JUMP11'', Lit 0x66), (''R_ARM_THM_JUMP8'', Lit 0x67), (''R_ARM_TLS_GD32'', Lit 0x68),
    (''R_ARM_TLS_LDM32'', Lit 0x69), (''R_ARM_TLS_LDO32'', Lit 0x6a), (''R_ARM_TLS_IE32'', Lit 0x6b),
    (''R_ARM_TLS_LE32'', Lit 0x6c), (''R_ARM_TLS_LDO12'', Lit 0x6d), (''R_ARM_TLS_LE12'', Lit 0x6e),
    (''R_ARM_TLS_IE12GP'', Lit 0x6f), (''R_ARM_PRIVATE_0'', Lit 0x70), (''R_ARM_PRIVATE_1'', Lit 0x71),
    (''R_ARM_PRIVATE_2'', Lit 0x72), (''R_ARM_PRIVATE_3'', Lit 0x73), (''R_ARM_PRIVATE_4'', Lit 0x74),
    (''R_ARM_PRIVATE_5'', Lit 0x75), (''R_ARM_PRIVATE_6'', Lit 0x76), (''R_ARM_PRIVATE_7'', Lit 0x77)]"

definition ARM_relocs_5 :: "(string \<times> cexpr) list" where
  "ARM_relocs_5 = [
    (''R_ARM_PRIVATE_8'', Lit 0x78), (''R_ARM_PRIVATE_9'', Lit 0x79), (''R_ARM_PRIVATE_10'', Lit 0x7a),
    (''R_ARM_PRIVATE_11'', Lit 0x7b), (''R_ARM_PRIVATE_12'', Lit 0x7c),
    (''R_ARM_PRIVATE_13'', Lit 0x7d), (''R_ARM_PRIVATE_14'', Lit 0x7e),
    (''R_ARM_PRIVATE_15'', Lit 0x7f), (''R_ARM_ME_TOO'', Lit 0x80),
    (''R_ARM_THM_TLS_DESCSEQ16'', Lit 0x81), (''R_ARM_THM_TLS_DESCSEQ32'', Lit 0x82),
    (''R_ARM_THM_ALU_ABS_G0_NC'', Lit 0x84), (''R_ARM_THM_ALU_ABS_G1_NC'', Lit 0x85),
    (''R_ARM_THM_ALU_ABS_G2_NC'', Lit 0x86), (''R_ARM_THM_ALU_ABS_G3'', Lit 0x87),
    (''R_ARM_THM_BF16'', Lit 0x88), (''R_ARM_THM_BF12'', Lit 0x89), (''R_ARM_THM_BF18'', Lit 0x8a),
    (''R_ARM_IRELATIVE'', Lit 0xa0), (''R_ARM_GOTFUNCDESC'', Lit 0xa1),
    (''R_ARM_GOTOFFFUNCDESC'', Lit 0xa2), (''R_ARM_FUNCDESC'', Lit 0xa3),
    (''R_ARM_FUNCDESC_VALUE'', Lit 0xa4), (''R_ARM_TLS_GD32_FDPIC'', Lit 0xa5),
    (''R_ARM_TLS_LDM32_FDPIC'', Lit 0xa6), (''R_ARM_TLS_IE32_FDPIC'', Lit 0xa7)]"

definition ARM_relocs :: "(string \<times> cexpr) list" where
  "ARM_relocs = ARM_relocs_1 @ ARM_relocs_2 @ ARM_relocs_3 @ ARM_relocs_4 @ ARM_relocs_5"

section \<open>The whole header\<close>

text \<open>Each table with the prefix its enumerators share.\<close>

definition elf_blocks :: "(string \<times> (string \<times> cexpr) list) list" where
  "elf_blocks = [
    (''EI_'', EI_enum), (''ET_'', ET_enum), (''EV_'', EV_enum), (''EM_'', EM_enum),
    (''ELFCLASS'', ELFCLASS_enum), (''ELFDATA'', ELFDATA_enum), (''ELFOSABI_'', ELFOSABI_enum),
    (''ELFABIVERSION_AMDGPU_HSA_V'', ELFABIVERSION_AMDGPU_enum),
    (''ELFABIVERSION_CUDA_V'', ELFABIVERSION_CUDA_enum), (''EF_PPC64_ABI'', EF_PPC64_enum),
    (''STO_PPC64_LOCAL_'', STO_PPC64_enum), (''STO_AARCH64_VARIANT_PCS'', STO_AARCH64_enum),
    (''EF_ARM_'', EF_ARM_enum), (''E'', EF_ARC_enum), (''EF_AVR_'', EF_AVR_enum),
    (''EF_MIPS_'', EF_MIPS_enum), (''SHN_MIPS_'', SHN_MIPS_enum), (''STO_MIPS_'', STO_MIPS_enum),
    (''ODK_'', ODK_enum), (''EF_HEXAGON_'', EF_HEXAGON_enum),
    (''SHN_HEXAGON_SCOMMON'', SHN_HEXAGON_enum), (''EF_RISCV_'', EF_RISCV_enum),
    (''STO_RISCV_VARIANT_CC'', STO_RISCV_enum), (''EF_SPARC'', EF_SPARC_enum),
    (''EF_AMDGPU_'', EF_AMDGPU_enum), (''EF_CUDA_'', EF_CUDA_enum),
    (''EF_MSP430_MACH_MSP430'', EF_MSP430_enum), (''EF_CSKY_'', EF_CSKY_enum),
    (''EF_LOONGARCH_'', EF_LOONGARCH_enum), (''EF_XTENSA_'', EF_XTENSA_enum), (''PN_XNUM'', PN_enum),
    (''SHN_'', SHN_enum), (''SHT_'', SHT_enum), ('''', SHF_enum), (''GRP_'', GRP_enum),
    (''SYMENTRY_SIZE'', SYMENTRY_enum), (''STB_'', STB_enum), (''STT_'', STT_enum),
    (''STV_'', STV_enum), (''STN_UNDEF'', STN_enum), (''RSS_'', RSS_enum), (''PT_'', PT_enum),
    (''PF_'', PF_enum), (''DF_'', DF_enum), (''DF_1_'', DF_1_enum), (''RH'', RHF_enum),
    (''VER_DEF_'', VER_DEF_enum), (''VER_FLG_'', VER_FLG_enum), (''VER'', VER_NDX_enum),
    (''VER_NEED_'', VER_NEED_enum), (''NT_'', NT_generic_enum), (''NT_'', NT_core_enum),
    (''NT_LLVM_'', NT_LLVM_enum), ('''', NT_GNU_enum), (''NT_ANDROID_TYPE_'', NT_ANDROID_enum),
    (''NT_MEMTAG_'', NT_MEMTAG_enum), (''GNU_PROPERTY_'', GNU_PROPERTY_enum),
    (''GNU_PROPERTY_AARCH64_FEATURE_1_'', AARCH64_FEATURE_enum),
    (''AARCH64_PAUTH_PLATFORM_'', AARCH64_PAUTH_enum),
    (''AARCH64_PAUTH_PLATFORM_LLVM_LINUX_VERSION_'', AARCH64_PAUTH_LINUX_enum),
    (''GNU_PROPERTY_X86_'', X86_FEATURE_enum),
    (''GNU_PROPERTY_RISCV_FEATURE_1_CFI_'', RISCV_FEATURE_enum), (''NT_FREEBSD_'', NT_FREEBSD_enum),
    (''NT_FREEBSD_FCTL_'', NT_FREEBSD_FCTL_enum), (''NT_FREEBSD_'', NT_FREEBSD_core_enum),
    (''NT_NETBSDCORE_'', NT_NETBSDCORE_enum), (''NT_OPENBSD_'', NT_OPENBSD_enum),
    (''SHN_AMDGPU_LDS'', SHN_AMDGPU_enum), (''NT_AMD_'', NT_AMD_enum),
    (''NT_AMDGPU_METADATA'', NT_AMDGPU_enum), (''NT_LLVM_OPENMP_OFFLOAD_'', NT_LLVM_OPENMP_enum),
    (''GNU_ABI_TAG_'', GNU_ABI_TAG_enum), (''RELOCATION_GROUP'', RELOCATION_GROUP_enum),
    (''ELFCOMPRESS_'', ELFCOMPRESS_enum)]"

definition elf_enumerators :: "(string \<times> cexpr) list" where
  "elf_enumerators = concat (map snd elf_blocks)"

end
