(* ===== verification/Elf_Constants.thy ===== *)
theory Elf_Constants
  imports Elf_Enums
begin

text \<open>
  What the build reads out of the header: \<open>Get-ElfConstants\<close> of \<open>setup.ps1\<close> takes the first literal
  initializer of each name it wants from the text of \<open>ELF.h\<close>, \<open>DynamicTags.def\<close> and the relocation
  tables.  The text is modelled by its declarations in order.
\<close>

section \<open>Reading a constant from a table\<close>

text \<open>The first declaration of the name with a literal initializer; other initializers do not match.\<close>

fun first_literal :: "string \<Rightarrow> (string \<times> cexpr) list \<Rightarrow> nat option" where
  "first_literal x [] = None"
| "first_literal x ((y, e) # rest) =
     (case e of Lit n \<Rightarrow> if x = y then Some n else first_literal x rest | _ \<Rightarrow> first_literal x rest)"

fun read_names_from :: "string list \<Rightarrow> string \<Rightarrow> (string \<times> cexpr) list \<Rightarrow> (string \<times> nat) list option" where
  "read_names_from [] prefix decls = Some []"
| "read_names_from (x # xs) prefix decls =
     (case (first_literal x decls, read_names_from xs prefix decls) of
        (Some n, Some rest) \<Rightarrow> Some ((prefix @ x, n) # rest)
      | _ \<Rightarrow> None)"

definition wanted_elf :: "string list" where
  "wanted_elf = [''ET_DYN'', ''EM_AARCH64'', ''EM_X86_64'', ''EM_ARM'', ''ELFCLASS64'', ''ELFCLASS32'',
     ''ELFDATA2LSB'', ''EV_CURRENT'', ''PT_LOAD'', ''PT_DYNAMIC'', ''PT_PHDR'', ''PT_GNU_STACK'',
     ''PF_R'', ''PF_W'', ''PF_X'', ''STB_GLOBAL'', ''STT_OBJECT'', ''STT_FUNC'',
     ''DF_BIND_NOW'', ''EF_ARM_EABI_VER5'', ''EF_ARM_ABI_FLOAT_SOFT'',
     ''SHT_STRTAB'', ''SHT_DYNAMIC'', ''SHF_ALLOC'', ''SHF_WRITE'']"

definition wanted_tags :: "string list" where
  "wanted_tags = [''NULL'', ''NEEDED'', ''HASH'', ''STRTAB'', ''SYMTAB'', ''RELA'', ''RELASZ'', ''RELAENT'',
     ''RELACOUNT'', ''REL'', ''RELSZ'', ''RELENT'', ''STRSZ'', ''SYMENT'', ''SONAME'', ''FLAGS'']"

definition Get_ElfConstants :: "(string \<times> nat) list option" where
  "Get_ElfConstants =
     (case (read_names_from wanted_elf [] elf_enumerators,
            read_names_from wanted_tags ''DT_'' DynamicTags,
            read_names_from [''R_AARCH64_GLOB_DAT'', ''R_AARCH64_RELATIVE''] [] AArch64_relocs,
            read_names_from [''R_X86_64_GLOB_DAT'', ''R_X86_64_RELATIVE''] [] x86_64_relocs,
            read_names_from [''R_ARM_GLOB_DAT'', ''R_ARM_RELATIVE''] [] ARM_relocs) of
        (Some a, Some b, Some c, Some d, Some e) \<Rightarrow> Some (a @ b @ c @ d @ e)
      | _ \<Rightarrow> None)"

lemma first_literal_append:
  "first_literal x (as @ bs) = (case first_literal x as of None \<Rightarrow> first_literal x bs | Some n \<Rightarrow> Some n)"
  by (induction as) (auto split: cexpr.splits)

section \<open>Skipping the blocks of other names\<close>

fun starts :: "string \<Rightarrow> string \<Rightarrow> bool" where
  "starts [] x = True"
| "starts (p # ps) [] = False"
| "starts (p # ps) (c # cs) = (p = c \<and> starts ps cs)"

definition block_prefix :: "string \<times> (string \<times> cexpr) list \<Rightarrow> bool" where
  "block_prefix b \<longleftrightarrow> list_all (\<lambda>(y, _). starts (fst b) y) (snd b)"

lemma first_literal_prefix:
  "list_all (\<lambda>(y, _). starts p y) as \<Longrightarrow> \<not> starts p x \<Longrightarrow> first_literal x as = None"
  by (induction as) (auto split: cexpr.splits)

lemma first_literal_blocks:
  assumes "list_all block_prefix bs"
  shows "first_literal x (concat (map snd bs))
    = first_literal x (concat (map snd (filter (\<lambda>b. starts (fst b) x) bs)))"
  using assms
proof (induction bs)
  case Nil
  then show ?case by simp
next
  case (Cons b bs)
  have skip: "first_literal x (snd b) = None" if "\<not> starts (fst b) x"
    using Cons.prems that by (auto simp: block_prefix_def intro: first_literal_prefix)
  have IH: "first_literal x (concat (map snd bs))
    = first_literal x (concat (map snd (filter (\<lambda>b. starts (fst b) x) bs)))"
    using Cons by simp
  show ?case by (auto simp: first_literal_append skip IH split: option.splits)
qed

lemmas elf_enum_defs =
  EI_enum_def ET_enum_def EV_enum_def EM_enum_def ELFCLASS_enum_def ELFDATA_enum_def
  ELFOSABI_enum_def ELFABIVERSION_AMDGPU_enum_def ELFABIVERSION_CUDA_enum_def EF_PPC64_enum_def
  STO_PPC64_enum_def STO_AARCH64_enum_def EF_ARM_enum_def EF_ARC_enum_def EF_AVR_enum_def
  EF_MIPS_enum_def SHN_MIPS_enum_def STO_MIPS_enum_def ODK_enum_def EF_HEXAGON_enum_def
  SHN_HEXAGON_enum_def EF_RISCV_enum_def STO_RISCV_enum_def EF_SPARC_enum_def EF_AMDGPU_enum_def
  EF_CUDA_enum_def EF_MSP430_enum_def EF_CSKY_enum_def EF_LOONGARCH_enum_def EF_XTENSA_enum_def
  PN_enum_def SHN_enum_def SHT_enum_def SHF_enum_def GRP_enum_def SYMENTRY_enum_def STB_enum_def
  STT_enum_def STV_enum_def STN_enum_def RSS_enum_def PT_enum_def PF_enum_def DF_enum_def
  DF_1_enum_def RHF_enum_def VER_DEF_enum_def VER_FLG_enum_def VER_NDX_enum_def VER_NEED_enum_def
  NT_generic_enum_def NT_core_enum_def NT_LLVM_enum_def NT_GNU_enum_def NT_ANDROID_enum_def
  NT_MEMTAG_enum_def GNU_PROPERTY_enum_def AARCH64_FEATURE_enum_def AARCH64_PAUTH_enum_def
  AARCH64_PAUTH_LINUX_enum_def X86_FEATURE_enum_def RISCV_FEATURE_enum_def NT_FREEBSD_enum_def
  NT_FREEBSD_FCTL_enum_def NT_FREEBSD_core_enum_def NT_NETBSDCORE_enum_def NT_OPENBSD_enum_def
  SHN_AMDGPU_enum_def NT_AMD_enum_def NT_AMDGPU_enum_def NT_LLVM_OPENMP_enum_def
  GNU_ABI_TAG_enum_def RELOCATION_GROUP_enum_def ELFCOMPRESS_enum_def

lemma elf_block_prefixes: "list_all block_prefix elf_blocks"
  by (simp add: elf_blocks_def block_prefix_def elf_enum_defs AMDGPU_MACH_LIST_def)

text \<open>Looking a wanted name up needs the blocks of its prefix only.\<close>

lemmas lookup_block = elf_enumerators_def first_literal_blocks [OF elf_block_prefixes]

lemma find_ET_DYN: "first_literal ''ET_DYN'' elf_enumerators = Some 3"
  unfolding lookup_block by (simp add: elf_blocks_def first_literal_append) (simp add: ET_enum_def SHF_enum_def)

lemma find_EM_AARCH64: "first_literal ''EM_AARCH64'' elf_enumerators = Some 183"
  unfolding lookup_block by (simp add: elf_blocks_def first_literal_append) (simp add: EM_enum_def SHF_enum_def)

lemma find_EM_X86_64: "first_literal ''EM_X86_64'' elf_enumerators = Some 62"
  unfolding lookup_block by (simp add: elf_blocks_def first_literal_append) (simp add: EM_enum_def SHF_enum_def)

lemma find_EM_ARM: "first_literal ''EM_ARM'' elf_enumerators = Some 40"
  unfolding lookup_block by (simp add: elf_blocks_def first_literal_append) (simp add: EM_enum_def SHF_enum_def)

lemma find_ELFCLASS64: "first_literal ''ELFCLASS64'' elf_enumerators = Some 2"
  unfolding lookup_block by (simp add: elf_blocks_def first_literal_append) (simp add: ELFCLASS_enum_def SHF_enum_def)

lemma find_ELFCLASS32: "first_literal ''ELFCLASS32'' elf_enumerators = Some 1"
  unfolding lookup_block by (simp add: elf_blocks_def first_literal_append) (simp add: ELFCLASS_enum_def SHF_enum_def)

lemma find_ELFDATA2LSB: "first_literal ''ELFDATA2LSB'' elf_enumerators = Some 1"
  unfolding lookup_block by (simp add: elf_blocks_def first_literal_append) (simp add: ELFDATA_enum_def SHF_enum_def)

lemma find_EV_CURRENT: "first_literal ''EV_CURRENT'' elf_enumerators = Some 1"
  unfolding lookup_block by (simp add: elf_blocks_def first_literal_append) (simp add: EV_enum_def SHF_enum_def)

lemma find_PT_LOAD: "first_literal ''PT_LOAD'' elf_enumerators = Some 1"
  unfolding lookup_block by (simp add: elf_blocks_def first_literal_append) (simp add: PT_enum_def SHF_enum_def)

lemma find_PT_DYNAMIC: "first_literal ''PT_DYNAMIC'' elf_enumerators = Some 2"
  unfolding lookup_block by (simp add: elf_blocks_def first_literal_append) (simp add: PT_enum_def SHF_enum_def)

lemma find_PT_PHDR: "first_literal ''PT_PHDR'' elf_enumerators = Some 6"
  unfolding lookup_block by (simp add: elf_blocks_def first_literal_append) (simp add: PT_enum_def SHF_enum_def)

lemma find_PT_GNU_STACK: "first_literal ''PT_GNU_STACK'' elf_enumerators = Some 1685382481"
  unfolding lookup_block by (simp add: elf_blocks_def first_literal_append) (simp add: PT_enum_def SHF_enum_def)

lemma find_PF_R: "first_literal ''PF_R'' elf_enumerators = Some 4"
  unfolding lookup_block by (simp add: elf_blocks_def first_literal_append) (simp add: PF_enum_def SHF_enum_def)

lemma find_PF_W: "first_literal ''PF_W'' elf_enumerators = Some 2"
  unfolding lookup_block by (simp add: elf_blocks_def first_literal_append) (simp add: PF_enum_def SHF_enum_def)

lemma find_PF_X: "first_literal ''PF_X'' elf_enumerators = Some 1"
  unfolding lookup_block by (simp add: elf_blocks_def first_literal_append) (simp add: PF_enum_def SHF_enum_def)

lemma find_STB_GLOBAL: "first_literal ''STB_GLOBAL'' elf_enumerators = Some 1"
  unfolding lookup_block by (simp add: elf_blocks_def first_literal_append) (simp add: STB_enum_def SHF_enum_def)

lemma find_STT_OBJECT: "first_literal ''STT_OBJECT'' elf_enumerators = Some 1"
  unfolding lookup_block by (simp add: elf_blocks_def first_literal_append) (simp add: STT_enum_def SHF_enum_def)

lemma find_STT_FUNC: "first_literal ''STT_FUNC'' elf_enumerators = Some 2"
  unfolding lookup_block by (simp add: elf_blocks_def first_literal_append) (simp add: STT_enum_def SHF_enum_def)

lemma find_DF_BIND_NOW: "first_literal ''DF_BIND_NOW'' elf_enumerators = Some 8"
  unfolding lookup_block by (simp add: elf_blocks_def first_literal_append) (simp add: DF_enum_def SHF_enum_def)

lemma find_EF_ARM_EABI_VER5: "first_literal ''EF_ARM_EABI_VER5'' elf_enumerators = Some 83886080"
  unfolding lookup_block by (simp add: elf_blocks_def first_literal_append) (simp add: EF_ARM_enum_def SHF_enum_def EF_ARC_enum_def)

lemma find_EF_ARM_ABI_FLOAT_SOFT: "first_literal ''EF_ARM_ABI_FLOAT_SOFT'' elf_enumerators = Some 512"
  unfolding lookup_block by (simp add: elf_blocks_def first_literal_append) (simp add: EF_ARM_enum_def SHF_enum_def EF_ARC_enum_def)

lemma find_SHT_STRTAB: "first_literal ''SHT_STRTAB'' elf_enumerators = Some 3"
  unfolding lookup_block by (simp add: elf_blocks_def first_literal_append) (simp add: SHT_enum_def SHF_enum_def)

lemma find_SHT_DYNAMIC: "first_literal ''SHT_DYNAMIC'' elf_enumerators = Some 6"
  unfolding lookup_block by (simp add: elf_blocks_def first_literal_append) (simp add: SHT_enum_def SHF_enum_def)

lemma find_SHF_ALLOC: "first_literal ''SHF_ALLOC'' elf_enumerators = Some 2"
  unfolding lookup_block by (simp add: elf_blocks_def first_literal_append) (simp add: SHF_enum_def SHF_enum_def)

lemma find_SHF_WRITE: "first_literal ''SHF_WRITE'' elf_enumerators = Some 1"
  unfolding lookup_block by (simp add: elf_blocks_def first_literal_append) (simp add: SHF_enum_def SHF_enum_def)

lemmas find_elf =
  find_ET_DYN find_EM_AARCH64 find_EM_X86_64 find_EM_ARM find_ELFCLASS64 find_ELFCLASS32 find_ELFDATA2LSB find_EV_CURRENT find_PT_LOAD find_PT_DYNAMIC find_PT_PHDR find_PT_GNU_STACK find_PF_R find_PF_W find_PF_X find_STB_GLOBAL find_STT_OBJECT find_STT_FUNC find_DF_BIND_NOW find_EF_ARM_EABI_VER5 find_EF_ARM_ABI_FLOAT_SOFT find_SHT_STRTAB find_SHT_DYNAMIC find_SHF_ALLOC find_SHF_WRITE

lemma find_tags: "read_names_from wanted_tags ''DT_'' DynamicTags = Some [
     (''DT_NULL'', 0), (''DT_NEEDED'', 1), (''DT_HASH'', 4), (''DT_STRTAB'', 5), (''DT_SYMTAB'', 6),
     (''DT_RELA'', 7), (''DT_RELASZ'', 8), (''DT_RELAENT'', 9), (''DT_RELACOUNT'', 1879048185),
     (''DT_REL'', 17), (''DT_RELSZ'', 18), (''DT_RELENT'', 19), (''DT_STRSZ'', 10),
     (''DT_SYMENT'', 11), (''DT_SONAME'', 14), (''DT_FLAGS'', 30)]"
  by (simp add: wanted_tags_def DynamicTags_def first_literal_append)
    (simp add: DynamicTags_1_def DynamicTags_2_def DynamicTags_3_def DynamicTags_4_def DynamicTags_5_def)

lemma find_wanted: "read_names_from wanted_elf [] elf_enumerators = Some [
     (''ET_DYN'', 3), (''EM_AARCH64'', 183), (''EM_X86_64'', 62), (''EM_ARM'', 40),
     (''ELFCLASS64'', 2), (''ELFCLASS32'', 1), (''ELFDATA2LSB'', 1), (''EV_CURRENT'', 1),
     (''PT_LOAD'', 1), (''PT_DYNAMIC'', 2), (''PT_PHDR'', 6), (''PT_GNU_STACK'', 1685382481),
     (''PF_R'', 4), (''PF_W'', 2), (''PF_X'', 1), (''STB_GLOBAL'', 1), (''STT_OBJECT'', 1),
     (''STT_FUNC'', 2), (''DF_BIND_NOW'', 8), (''EF_ARM_EABI_VER5'', 83886080),
     (''EF_ARM_ABI_FLOAT_SOFT'', 512), (''SHT_STRTAB'', 3), (''SHT_DYNAMIC'', 6),
     (''SHF_ALLOC'', 2), (''SHF_WRITE'', 1)]"
  by (simp only: wanted_elf_def read_names_from.simps find_elf option.case prod.case append_Nil)

lemma find_aarch64_got: "first_literal ''R_AARCH64_GLOB_DAT'' AArch64_relocs = Some 1025"
  unfolding AArch64_relocs_def first_literal_append by (simp add: AArch64_relocs_1_def AArch64_relocs_2_def AArch64_relocs_3_def AArch64_relocs_4_def AArch64_relocs_5_def AArch64_relocs_6_def AArch64_relocs_7_def AArch64_relocs_8_def)

lemma find_aarch64_relative: "first_literal ''R_AARCH64_RELATIVE'' AArch64_relocs = Some 1027"
  unfolding AArch64_relocs_def first_literal_append by (simp add: AArch64_relocs_1_def AArch64_relocs_2_def AArch64_relocs_3_def AArch64_relocs_4_def AArch64_relocs_5_def AArch64_relocs_6_def AArch64_relocs_7_def AArch64_relocs_8_def)

lemma find_x86_got: "first_literal ''R_X86_64_GLOB_DAT'' x86_64_relocs = Some 6"
  unfolding x86_64_relocs_def by simp

lemma find_x86_relative: "first_literal ''R_X86_64_RELATIVE'' x86_64_relocs = Some 8"
  unfolding x86_64_relocs_def by simp

lemma find_arm_got: "first_literal ''R_ARM_GLOB_DAT'' ARM_relocs = Some 21"
  unfolding ARM_relocs_def first_literal_append by (simp add: ARM_relocs_1_def ARM_relocs_2_def ARM_relocs_3_def ARM_relocs_4_def ARM_relocs_5_def)

lemma find_arm_relative: "first_literal ''R_ARM_RELATIVE'' ARM_relocs = Some 23"
  unfolding ARM_relocs_def first_literal_append by (simp add: ARM_relocs_1_def ARM_relocs_2_def ARM_relocs_3_def ARM_relocs_4_def ARM_relocs_5_def)

lemmas find_relocs = find_aarch64_got find_aarch64_relative find_x86_got find_x86_relative find_arm_got find_arm_relative


end
