(* ===== verification/Elf_Types.thy ===== *)
theory Elf_Types
  imports Prelude "HOL-Library.Monad_Syntax"
begin

text \<open>
  The structures of \<open>lib/ELF.h\<close>.  A structure that differs between the two classes only in the width
  of its addresses is one record over the width, \<open>Elf32_\<close> and \<open>Elf64_\<close> its two instances; each class
  has its own byte image, since the order of the fields differs too.  Signed fields hold the word
  whose \<open>sint\<close> is the value.  The accessors of symbols and relocations are the ones of the header.
\<close>

section \<open>The file header\<close>

definition ElfMagic :: "u8 list" where
  "ElfMagic = [0x7F, 0x45, 0x4C, 0x46]"

definition EI_CLASS :: nat where "EI_CLASS = 4"
definition EI_DATA :: nat where "EI_DATA = 5"
definition EI_VERSION :: nat where "EI_VERSION = 6"
definition EI_NIDENT :: nat where "EI_NIDENT = 16"

record 'w Ehdr =
  e_ident :: "u8 list"
  e_type :: u16
  e_machine :: u16
  e_version :: u32
  e_entry :: "'w"
  e_phoff :: "'w"
  e_shoff :: "'w"
  e_flags :: u32
  e_ehsize :: u16
  e_phentsize :: u16
  e_phnum :: u16
  e_shentsize :: u16
  e_shnum :: u16
  e_shstrndx :: u16

type_synonym Elf32_Ehdr = "u32 Ehdr"
type_synonym Elf64_Ehdr = "u64 Ehdr"

definition checkMagic :: "'w Ehdr \<Rightarrow> bool" where
  "checkMagic h \<longleftrightarrow> take (length ElfMagic) (e_ident h) = ElfMagic"

definition getFileClass :: "'w Ehdr \<Rightarrow> u8" where
  "getFileClass h = e_ident h ! EI_CLASS"

definition getDataEncoding :: "'w Ehdr \<Rightarrow> u8" where
  "getDataEncoding h = e_ident h ! EI_DATA"

definition sizeof_ehdr32 :: nat where "sizeof_ehdr32 = 52"
definition sizeof_ehdr64 :: nat where "sizeof_ehdr64 = 64"

definition enc_ehdr32 :: "Elf32_Ehdr \<Rightarrow> byte list" where
  "enc_ehdr32 h = e_ident h @ enc16 (e_type h) @ enc16 (e_machine h) @ enc32 (e_version h) @
     enc32 (e_entry h) @ enc32 (e_phoff h) @ enc32 (e_shoff h) @ enc32 (e_flags h) @
     enc16 (e_ehsize h) @ enc16 (e_phentsize h) @ enc16 (e_phnum h) @ enc16 (e_shentsize h) @
     enc16 (e_shnum h) @ enc16 (e_shstrndx h)"

definition enc_ehdr64 :: "Elf64_Ehdr \<Rightarrow> byte list" where
  "enc_ehdr64 h = e_ident h @ enc16 (e_type h) @ enc16 (e_machine h) @ enc32 (e_version h) @
     enc64 (e_entry h) @ enc64 (e_phoff h) @ enc64 (e_shoff h) @ enc32 (e_flags h) @
     enc16 (e_ehsize h) @ enc16 (e_phentsize h) @ enc16 (e_phnum h) @ enc16 (e_shentsize h) @
     enc16 (e_shnum h) @ enc16 (e_shstrndx h)"

definition dec_ehdr32 :: "byte list \<Rightarrow> nat \<Rightarrow> Elf32_Ehdr option" where
  "dec_ehdr32 bs off = do {
     ident \<leftarrow> slice bs off EI_NIDENT;
     ty \<leftarrow> rd16 bs (off + 16); mc \<leftarrow> rd16 bs (off + 18); ver \<leftarrow> rd32 bs (off + 20);
     en \<leftarrow> rd32 bs (off + 24); ph \<leftarrow> rd32 bs (off + 28); sh \<leftarrow> rd32 bs (off + 32); fl \<leftarrow> rd32 bs (off + 36);
     eh \<leftarrow> rd16 bs (off + 40); pe \<leftarrow> rd16 bs (off + 42); pn \<leftarrow> rd16 bs (off + 44);
     se \<leftarrow> rd16 bs (off + 46); sn \<leftarrow> rd16 bs (off + 48); sx \<leftarrow> rd16 bs (off + 50);
     Some \<lparr>e_ident = ident, e_type = ty, e_machine = mc, e_version = ver, e_entry = en, e_phoff = ph,
           e_shoff = sh, e_flags = fl, e_ehsize = eh, e_phentsize = pe, e_phnum = pn,
           e_shentsize = se, e_shnum = sn, e_shstrndx = sx\<rparr> }"

definition dec_ehdr64 :: "byte list \<Rightarrow> nat \<Rightarrow> Elf64_Ehdr option" where
  "dec_ehdr64 bs off = do {
     ident \<leftarrow> slice bs off EI_NIDENT;
     ty \<leftarrow> rd16 bs (off + 16); mc \<leftarrow> rd16 bs (off + 18); ver \<leftarrow> rd32 bs (off + 20);
     en \<leftarrow> rd64 bs (off + 24); ph \<leftarrow> rd64 bs (off + 32); sh \<leftarrow> rd64 bs (off + 40); fl \<leftarrow> rd32 bs (off + 48);
     eh \<leftarrow> rd16 bs (off + 52); pe \<leftarrow> rd16 bs (off + 54); pn \<leftarrow> rd16 bs (off + 56);
     se \<leftarrow> rd16 bs (off + 58); sn \<leftarrow> rd16 bs (off + 60); sx \<leftarrow> rd16 bs (off + 62);
     Some \<lparr>e_ident = ident, e_type = ty, e_machine = mc, e_version = ver, e_entry = en, e_phoff = ph,
           e_shoff = sh, e_flags = fl, e_ehsize = eh, e_phentsize = pe, e_phnum = pn,
           e_shentsize = se, e_shnum = sn, e_shstrndx = sx\<rparr> }"

lemma dec_enc_ehdr:
  assumes "length (e_ident h32) = EI_NIDENT" "length (e_ident h64) = EI_NIDENT"
  shows "dec_ehdr32 (xs @ enc_ehdr32 h32 @ ys) (length xs) = Some h32"
    and "dec_ehdr64 (xs @ enc_ehdr64 h64 @ ys) (length xs) = Some h64"
    and "length (enc_ehdr32 h32) = sizeof_ehdr32" "length (enc_ehdr64 h64) = sizeof_ehdr64"
proof -
  have id: "slice (xs @ e_ident h @ zs) (length xs) 16 = Some (e_ident h)" if "length (e_ident h) = EI_NIDENT" for h :: "'a Ehdr" and zs
    using slice_mid [of xs "e_ident h" zs] that by (simp add: EI_NIDENT_def)
  show "dec_ehdr32 (xs @ enc_ehdr32 h32 @ ys) (length xs) = Some h32"
    using assms(1) id [OF assms(1)] by (simp add: enc_ehdr32_def dec_ehdr32_def codec_simps EI_NIDENT_def)
  show "dec_ehdr64 (xs @ enc_ehdr64 h64 @ ys) (length xs) = Some h64"
    using assms(2) id [OF assms(2)] by (simp add: enc_ehdr64_def dec_ehdr64_def codec_simps EI_NIDENT_def)
  show "length (enc_ehdr32 h32) = sizeof_ehdr32" "length (enc_ehdr64 h64) = sizeof_ehdr64"
    using assms by (simp_all add: enc_ehdr32_def enc_ehdr64_def sizeof_ehdr32_def sizeof_ehdr64_def EI_NIDENT_def)
qed

section \<open>Tables\<close>

record 'w Shdr =
  sh_name :: u32
  sh_type :: u32
  sh_flags :: "'w"
  sh_addr :: "'w"
  sh_offset :: "'w"
  sh_size :: "'w"
  sh_link :: u32
  sh_info :: u32
  sh_addralign :: "'w"
  sh_entsize :: "'w"

type_synonym Elf32_Shdr = "u32 Shdr"
type_synonym Elf64_Shdr = "u64 Shdr"

definition sizeof_shdr32 :: nat where "sizeof_shdr32 = 40"

definition enc_shdr32 :: "Elf32_Shdr \<Rightarrow> byte list" where
  "enc_shdr32 r = enc32 (sh_name r) @
     enc32 (sh_type r) @
     enc32 (sh_flags r) @
     enc32 (sh_addr r) @
     enc32 (sh_offset r) @
     enc32 (sh_size r) @
     enc32 (sh_link r) @
     enc32 (sh_info r) @
     enc32 (sh_addralign r) @
     enc32 (sh_entsize r)"

definition dec_shdr32 :: "byte list \<Rightarrow> nat \<Rightarrow> Elf32_Shdr option" where
  "dec_shdr32 bs off = do {
     v0 \<leftarrow> rd32 bs off;
     v1 \<leftarrow> rd32 bs (off + 4);
     v2 \<leftarrow> rd32 bs (off + 8);
     v3 \<leftarrow> rd32 bs (off + 12);
     v4 \<leftarrow> rd32 bs (off + 16);
     v5 \<leftarrow> rd32 bs (off + 20);
     v6 \<leftarrow> rd32 bs (off + 24);
     v7 \<leftarrow> rd32 bs (off + 28);
     v8 \<leftarrow> rd32 bs (off + 32);
     v9 \<leftarrow> rd32 bs (off + 36);
     Some \<lparr>sh_name = v0, sh_type = v1, sh_flags = v2, sh_addr = v3, sh_offset = v4, sh_size = v5, sh_link = v6, sh_info = v7, sh_addralign = v8, sh_entsize = v9\<rparr> }"


definition sizeof_shdr64 :: nat where "sizeof_shdr64 = 64"

definition enc_shdr64 :: "Elf64_Shdr \<Rightarrow> byte list" where
  "enc_shdr64 r = enc32 (sh_name r) @
     enc32 (sh_type r) @
     enc64 (sh_flags r) @
     enc64 (sh_addr r) @
     enc64 (sh_offset r) @
     enc64 (sh_size r) @
     enc32 (sh_link r) @
     enc32 (sh_info r) @
     enc64 (sh_addralign r) @
     enc64 (sh_entsize r)"

definition dec_shdr64 :: "byte list \<Rightarrow> nat \<Rightarrow> Elf64_Shdr option" where
  "dec_shdr64 bs off = do {
     v0 \<leftarrow> rd32 bs off;
     v1 \<leftarrow> rd32 bs (off + 4);
     v2 \<leftarrow> rd64 bs (off + 8);
     v3 \<leftarrow> rd64 bs (off + 16);
     v4 \<leftarrow> rd64 bs (off + 24);
     v5 \<leftarrow> rd64 bs (off + 32);
     v6 \<leftarrow> rd32 bs (off + 40);
     v7 \<leftarrow> rd32 bs (off + 44);
     v8 \<leftarrow> rd64 bs (off + 48);
     v9 \<leftarrow> rd64 bs (off + 56);
     Some \<lparr>sh_name = v0, sh_type = v1, sh_flags = v2, sh_addr = v3, sh_offset = v4, sh_size = v5, sh_link = v6, sh_info = v7, sh_addralign = v8, sh_entsize = v9\<rparr> }"


record 'w Sym =
  st_name :: u32
  st_value :: "'w"
  st_size :: "'w"
  st_info :: u8
  st_other :: u8
  st_shndx :: u16

type_synonym Elf32_Sym = "u32 Sym"
type_synonym Elf64_Sym = "u64 Sym"

definition sizeof_sym32 :: nat where "sizeof_sym32 = 16"

definition enc_sym32 :: "Elf32_Sym \<Rightarrow> byte list" where
  "enc_sym32 r = enc32 (st_name r) @
     enc32 (st_value r) @
     enc32 (st_size r) @
     enc8 (st_info r) @
     enc8 (st_other r) @
     enc16 (st_shndx r)"

definition dec_sym32 :: "byte list \<Rightarrow> nat \<Rightarrow> Elf32_Sym option" where
  "dec_sym32 bs off = do {
     v0 \<leftarrow> rd32 bs off;
     v1 \<leftarrow> rd32 bs (off + 4);
     v2 \<leftarrow> rd32 bs (off + 8);
     v3 \<leftarrow> rd8 bs (off + 12);
     v4 \<leftarrow> rd8 bs (off + 13);
     v5 \<leftarrow> rd16 bs (off + 14);
     Some \<lparr>st_name = v0, st_value = v1, st_size = v2, st_info = v3, st_other = v4, st_shndx = v5\<rparr> }"


definition sizeof_sym64 :: nat where "sizeof_sym64 = 24"

definition enc_sym64 :: "Elf64_Sym \<Rightarrow> byte list" where
  "enc_sym64 r = enc32 (st_name r) @
     enc8 (st_info r) @
     enc8 (st_other r) @
     enc16 (st_shndx r) @
     enc64 (st_value r) @
     enc64 (st_size r)"

definition dec_sym64 :: "byte list \<Rightarrow> nat \<Rightarrow> Elf64_Sym option" where
  "dec_sym64 bs off = do {
     v0 \<leftarrow> rd32 bs off;
     v1 \<leftarrow> rd8 bs (off + 4);
     v2 \<leftarrow> rd8 bs (off + 5);
     v3 \<leftarrow> rd16 bs (off + 6);
     v4 \<leftarrow> rd64 bs (off + 8);
     v5 \<leftarrow> rd64 bs (off + 16);
     Some \<lparr>st_name = v0, st_value = v4, st_size = v5, st_info = v1, st_other = v2, st_shndx = v3\<rparr> }"


record 'w Rel =
  r_offset :: "'w"
  r_info :: "'w"

type_synonym Elf32_Rel = "u32 Rel"
type_synonym Elf64_Rel = "u64 Rel"

definition sizeof_rel32 :: nat where "sizeof_rel32 = 8"

definition enc_rel32 :: "Elf32_Rel \<Rightarrow> byte list" where
  "enc_rel32 r = enc32 (r_offset r) @
     enc32 (r_info r)"

definition dec_rel32 :: "byte list \<Rightarrow> nat \<Rightarrow> Elf32_Rel option" where
  "dec_rel32 bs off = do {
     v0 \<leftarrow> rd32 bs off;
     v1 \<leftarrow> rd32 bs (off + 4);
     Some \<lparr>r_offset = v0, r_info = v1\<rparr> }"


definition sizeof_rel64 :: nat where "sizeof_rel64 = 16"

definition enc_rel64 :: "Elf64_Rel \<Rightarrow> byte list" where
  "enc_rel64 r = enc64 (r_offset r) @
     enc64 (r_info r)"

definition dec_rel64 :: "byte list \<Rightarrow> nat \<Rightarrow> Elf64_Rel option" where
  "dec_rel64 bs off = do {
     v0 \<leftarrow> rd64 bs off;
     v1 \<leftarrow> rd64 bs (off + 8);
     Some \<lparr>r_offset = v0, r_info = v1\<rparr> }"


record 'w Rela =
  ra_offset :: "'w"
  ra_info :: "'w"
  ra_addend :: "'w"

type_synonym Elf32_Rela = "u32 Rela"
type_synonym Elf64_Rela = "u64 Rela"

definition sizeof_rela32 :: nat where "sizeof_rela32 = 12"

definition enc_rela32 :: "Elf32_Rela \<Rightarrow> byte list" where
  "enc_rela32 r = enc32 (ra_offset r) @
     enc32 (ra_info r) @
     enc32 (ra_addend r)"

definition dec_rela32 :: "byte list \<Rightarrow> nat \<Rightarrow> Elf32_Rela option" where
  "dec_rela32 bs off = do {
     v0 \<leftarrow> rd32 bs off;
     v1 \<leftarrow> rd32 bs (off + 4);
     v2 \<leftarrow> rd32 bs (off + 8);
     Some \<lparr>ra_offset = v0, ra_info = v1, ra_addend = v2\<rparr> }"


definition sizeof_rela64 :: nat where "sizeof_rela64 = 24"

definition enc_rela64 :: "Elf64_Rela \<Rightarrow> byte list" where
  "enc_rela64 r = enc64 (ra_offset r) @
     enc64 (ra_info r) @
     enc64 (ra_addend r)"

definition dec_rela64 :: "byte list \<Rightarrow> nat \<Rightarrow> Elf64_Rela option" where
  "dec_rela64 bs off = do {
     v0 \<leftarrow> rd64 bs off;
     v1 \<leftarrow> rd64 bs (off + 8);
     v2 \<leftarrow> rd64 bs (off + 16);
     Some \<lparr>ra_offset = v0, ra_info = v1, ra_addend = v2\<rparr> }"


record 'w Phdr =
  p_type :: u32
  p_offset :: "'w"
  p_vaddr :: "'w"
  p_paddr :: "'w"
  p_filesz :: "'w"
  p_memsz :: "'w"
  p_flags :: u32
  p_align :: "'w"

type_synonym Elf32_Phdr = "u32 Phdr"
type_synonym Elf64_Phdr = "u64 Phdr"

definition sizeof_phdr32 :: nat where "sizeof_phdr32 = 32"

definition enc_phdr32 :: "Elf32_Phdr \<Rightarrow> byte list" where
  "enc_phdr32 r = enc32 (p_type r) @
     enc32 (p_offset r) @
     enc32 (p_vaddr r) @
     enc32 (p_paddr r) @
     enc32 (p_filesz r) @
     enc32 (p_memsz r) @
     enc32 (p_flags r) @
     enc32 (p_align r)"

definition dec_phdr32 :: "byte list \<Rightarrow> nat \<Rightarrow> Elf32_Phdr option" where
  "dec_phdr32 bs off = do {
     v0 \<leftarrow> rd32 bs off;
     v1 \<leftarrow> rd32 bs (off + 4);
     v2 \<leftarrow> rd32 bs (off + 8);
     v3 \<leftarrow> rd32 bs (off + 12);
     v4 \<leftarrow> rd32 bs (off + 16);
     v5 \<leftarrow> rd32 bs (off + 20);
     v6 \<leftarrow> rd32 bs (off + 24);
     v7 \<leftarrow> rd32 bs (off + 28);
     Some \<lparr>p_type = v0, p_offset = v1, p_vaddr = v2, p_paddr = v3, p_filesz = v4, p_memsz = v5, p_flags = v6, p_align = v7\<rparr> }"


definition sizeof_phdr64 :: nat where "sizeof_phdr64 = 56"

definition enc_phdr64 :: "Elf64_Phdr \<Rightarrow> byte list" where
  "enc_phdr64 r = enc32 (p_type r) @
     enc32 (p_flags r) @
     enc64 (p_offset r) @
     enc64 (p_vaddr r) @
     enc64 (p_paddr r) @
     enc64 (p_filesz r) @
     enc64 (p_memsz r) @
     enc64 (p_align r)"

definition dec_phdr64 :: "byte list \<Rightarrow> nat \<Rightarrow> Elf64_Phdr option" where
  "dec_phdr64 bs off = do {
     v0 \<leftarrow> rd32 bs off;
     v1 \<leftarrow> rd32 bs (off + 4);
     v2 \<leftarrow> rd64 bs (off + 8);
     v3 \<leftarrow> rd64 bs (off + 16);
     v4 \<leftarrow> rd64 bs (off + 24);
     v5 \<leftarrow> rd64 bs (off + 32);
     v6 \<leftarrow> rd64 bs (off + 40);
     v7 \<leftarrow> rd64 bs (off + 48);
     Some \<lparr>p_type = v0, p_offset = v2, p_vaddr = v3, p_paddr = v4, p_filesz = v5, p_memsz = v6, p_flags = v1, p_align = v7\<rparr> }"


record 'w Dyn =
  d_tag :: "'w"
  d_un :: "'w"

type_synonym Elf32_Dyn = "u32 Dyn"
type_synonym Elf64_Dyn = "u64 Dyn"

definition sizeof_dyn32 :: nat where "sizeof_dyn32 = 8"

definition enc_dyn32 :: "Elf32_Dyn \<Rightarrow> byte list" where
  "enc_dyn32 r = enc32 (d_tag r) @
     enc32 (d_un r)"

definition dec_dyn32 :: "byte list \<Rightarrow> nat \<Rightarrow> Elf32_Dyn option" where
  "dec_dyn32 bs off = do {
     v0 \<leftarrow> rd32 bs off;
     v1 \<leftarrow> rd32 bs (off + 4);
     Some \<lparr>d_tag = v0, d_un = v1\<rparr> }"


definition sizeof_dyn64 :: nat where "sizeof_dyn64 = 16"

definition enc_dyn64 :: "Elf64_Dyn \<Rightarrow> byte list" where
  "enc_dyn64 r = enc64 (d_tag r) @
     enc64 (d_un r)"

definition dec_dyn64 :: "byte list \<Rightarrow> nat \<Rightarrow> Elf64_Dyn option" where
  "dec_dyn64 bs off = do {
     v0 \<leftarrow> rd64 bs off;
     v1 \<leftarrow> rd64 bs (off + 8);
     Some \<lparr>d_tag = v0, d_un = v1\<rparr> }"


record Elf32_Chdr =
  ch32_type :: u32
  ch32_size :: u32
  ch32_addralign :: u32

definition sizeof_chdr32 :: nat where "sizeof_chdr32 = 12"

definition enc_chdr32 :: "Elf32_Chdr \<Rightarrow> byte list" where
  "enc_chdr32 r = enc32 (ch32_type r) @
     enc32 (ch32_size r) @
     enc32 (ch32_addralign r)"

definition dec_chdr32 :: "byte list \<Rightarrow> nat \<Rightarrow> Elf32_Chdr option" where
  "dec_chdr32 bs off = do {
     v0 \<leftarrow> rd32 bs off;
     v1 \<leftarrow> rd32 bs (off + 4);
     v2 \<leftarrow> rd32 bs (off + 8);
     Some \<lparr>ch32_type = v0, ch32_size = v1, ch32_addralign = v2\<rparr> }"


record Elf64_Chdr =
  ch64_type :: u32
  ch64_reserved :: u32
  ch64_size :: u64
  ch64_addralign :: u64

definition sizeof_chdr64 :: nat where "sizeof_chdr64 = 24"

definition enc_chdr64 :: "Elf64_Chdr \<Rightarrow> byte list" where
  "enc_chdr64 r = enc32 (ch64_type r) @
     enc32 (ch64_reserved r) @
     enc64 (ch64_size r) @
     enc64 (ch64_addralign r)"

definition dec_chdr64 :: "byte list \<Rightarrow> nat \<Rightarrow> Elf64_Chdr option" where
  "dec_chdr64 bs off = do {
     v0 \<leftarrow> rd32 bs off;
     v1 \<leftarrow> rd32 bs (off + 4);
     v2 \<leftarrow> rd64 bs (off + 8);
     v3 \<leftarrow> rd64 bs (off + 16);
     Some \<lparr>ch64_type = v0, ch64_reserved = v1, ch64_size = v2, ch64_addralign = v3\<rparr> }"


record Elf32_Nhdr =
  n32_namesz :: u32
  n32_descsz :: u32
  n32_type :: u32

definition sizeof_nhdr32 :: nat where "sizeof_nhdr32 = 12"

definition enc_nhdr32 :: "Elf32_Nhdr \<Rightarrow> byte list" where
  "enc_nhdr32 r = enc32 (n32_namesz r) @
     enc32 (n32_descsz r) @
     enc32 (n32_type r)"

definition dec_nhdr32 :: "byte list \<Rightarrow> nat \<Rightarrow> Elf32_Nhdr option" where
  "dec_nhdr32 bs off = do {
     v0 \<leftarrow> rd32 bs off;
     v1 \<leftarrow> rd32 bs (off + 4);
     v2 \<leftarrow> rd32 bs (off + 8);
     Some \<lparr>n32_namesz = v0, n32_descsz = v1, n32_type = v2\<rparr> }"


record Elf64_Nhdr =
  n64_namesz :: u32
  n64_descsz :: u32
  n64_type :: u32

definition sizeof_nhdr64 :: nat where "sizeof_nhdr64 = 12"

definition enc_nhdr64 :: "Elf64_Nhdr \<Rightarrow> byte list" where
  "enc_nhdr64 r = enc32 (n64_namesz r) @
     enc32 (n64_descsz r) @
     enc32 (n64_type r)"

definition dec_nhdr64 :: "byte list \<Rightarrow> nat \<Rightarrow> Elf64_Nhdr option" where
  "dec_nhdr64 bs off = do {
     v0 \<leftarrow> rd32 bs off;
     v1 \<leftarrow> rd32 bs (off + 4);
     v2 \<leftarrow> rd32 bs (off + 8);
     Some \<lparr>n64_namesz = v0, n64_descsz = v1, n64_type = v2\<rparr> }"


lemmas elf_sizes [layout_simps] =
  sizeof_shdr32_def sizeof_shdr64_def sizeof_sym32_def sizeof_sym64_def sizeof_rel32_def sizeof_rel64_def sizeof_rela32_def sizeof_rela64_def sizeof_phdr32_def sizeof_phdr64_def sizeof_dyn32_def sizeof_dyn64_def sizeof_chdr32_def sizeof_chdr64_def sizeof_nhdr32_def sizeof_nhdr64_def

interpretation shdr32: record_codec enc_shdr32 dec_shdr32 sizeof_shdr32
  by unfold_locales (simp_all add: enc_shdr32_def dec_shdr32_def sizeof_shdr32_def codec_simps)

interpretation shdr64: record_codec enc_shdr64 dec_shdr64 sizeof_shdr64
  by unfold_locales (simp_all add: enc_shdr64_def dec_shdr64_def sizeof_shdr64_def codec_simps)

interpretation sym32: record_codec enc_sym32 dec_sym32 sizeof_sym32
  by unfold_locales (simp_all add: enc_sym32_def dec_sym32_def sizeof_sym32_def codec_simps)

interpretation sym64: record_codec enc_sym64 dec_sym64 sizeof_sym64
  by unfold_locales (simp_all add: enc_sym64_def dec_sym64_def sizeof_sym64_def codec_simps)

interpretation rel32: record_codec enc_rel32 dec_rel32 sizeof_rel32
  by unfold_locales (simp_all add: enc_rel32_def dec_rel32_def sizeof_rel32_def codec_simps)

interpretation rel64: record_codec enc_rel64 dec_rel64 sizeof_rel64
  by unfold_locales (simp_all add: enc_rel64_def dec_rel64_def sizeof_rel64_def codec_simps)

interpretation rela32: record_codec enc_rela32 dec_rela32 sizeof_rela32
  by unfold_locales (simp_all add: enc_rela32_def dec_rela32_def sizeof_rela32_def codec_simps)

interpretation rela64: record_codec enc_rela64 dec_rela64 sizeof_rela64
  by unfold_locales (simp_all add: enc_rela64_def dec_rela64_def sizeof_rela64_def codec_simps)

interpretation phdr32: record_codec enc_phdr32 dec_phdr32 sizeof_phdr32
  by unfold_locales (simp_all add: enc_phdr32_def dec_phdr32_def sizeof_phdr32_def codec_simps)

interpretation phdr64: record_codec enc_phdr64 dec_phdr64 sizeof_phdr64
  by unfold_locales (simp_all add: enc_phdr64_def dec_phdr64_def sizeof_phdr64_def codec_simps)

interpretation dyn32: record_codec enc_dyn32 dec_dyn32 sizeof_dyn32
  by unfold_locales (simp_all add: enc_dyn32_def dec_dyn32_def sizeof_dyn32_def codec_simps)

interpretation dyn64: record_codec enc_dyn64 dec_dyn64 sizeof_dyn64
  by unfold_locales (simp_all add: enc_dyn64_def dec_dyn64_def sizeof_dyn64_def codec_simps)

interpretation chdr32: record_codec enc_chdr32 dec_chdr32 sizeof_chdr32
  by unfold_locales (simp_all add: enc_chdr32_def dec_chdr32_def sizeof_chdr32_def codec_simps)

interpretation chdr64: record_codec enc_chdr64 dec_chdr64 sizeof_chdr64
  by unfold_locales (simp_all add: enc_chdr64_def dec_chdr64_def sizeof_chdr64_def codec_simps)

interpretation nhdr32: record_codec enc_nhdr32 dec_nhdr32 sizeof_nhdr32
  by unfold_locales (simp_all add: enc_nhdr32_def dec_nhdr32_def sizeof_nhdr32_def codec_simps)

interpretation nhdr64: record_codec enc_nhdr64 dec_nhdr64 sizeof_nhdr64
  by unfold_locales (simp_all add: enc_nhdr64_def dec_nhdr64_def sizeof_nhdr64_def codec_simps)


section \<open>Accessors\<close>

definition getBinding :: "'w Sym \<Rightarrow> u8" where
  "getBinding s = drop_bit 4 (st_info s)"

definition getType :: "'w Sym \<Rightarrow> u8" where
  "getType s = st_info s AND 0x0F"

definition setBindingAndType :: "'w Sym \<Rightarrow> u8 \<Rightarrow> u8 \<Rightarrow> 'w Sym" where
  "setBindingAndType s b t = s\<lparr>st_info := push_bit 4 b + (t AND 0x0F)\<rparr>"

definition setBinding :: "'w Sym \<Rightarrow> u8 \<Rightarrow> 'w Sym" where
  "setBinding s b = setBindingAndType s b (getType s)"

definition setType :: "'w Sym \<Rightarrow> u8 \<Rightarrow> 'w Sym" where
  "setType s t = setBindingAndType s (getBinding s) t"

text \<open>The 32-bit packing of a relocation's info: 24 bits of symbol, 8 bits of type.\<close>

definition info32_symbol :: "u32 \<Rightarrow> u32" where
  "info32_symbol i = drop_bit 8 i"

definition info32_type :: "u32 \<Rightarrow> u8" where
  "info32_type i = ucast (i AND 0x0FF)"

definition info32_pack :: "u32 \<Rightarrow> u8 \<Rightarrow> u32" where
  "info32_pack s t = push_bit 8 s + ucast t"

text \<open>The 64-bit packing: 32 bits each.\<close>

definition info64_symbol :: "u64 \<Rightarrow> u32" where
  "info64_symbol i = ucast (drop_bit 32 i)"

definition info64_type :: "u64 \<Rightarrow> u32" where
  "info64_type i = ucast (i AND 0xFFFFFFFF)"

definition info64_pack :: "u32 \<Rightarrow> u32 \<Rightarrow> u64" where
  "info64_pack s t = push_bit 32 (ucast s) + (ucast t AND 0xFFFFFFFF)"

definition rel32_setSymbolAndType :: "Elf32_Rel \<Rightarrow> u32 \<Rightarrow> u8 \<Rightarrow> Elf32_Rel" where
  "rel32_setSymbolAndType r s t = r\<lparr>r_info := info32_pack s t\<rparr>"

definition rel32_setSymbol :: "Elf32_Rel \<Rightarrow> u32 \<Rightarrow> Elf32_Rel" where
  "rel32_setSymbol r s = rel32_setSymbolAndType r s (info32_type (r_info r))"

definition rel32_setType :: "Elf32_Rel \<Rightarrow> u8 \<Rightarrow> Elf32_Rel" where
  "rel32_setType r t = rel32_setSymbolAndType r (info32_symbol (r_info r)) t"

definition rela32_setSymbolAndType :: "Elf32_Rela \<Rightarrow> u32 \<Rightarrow> u8 \<Rightarrow> Elf32_Rela" where
  "rela32_setSymbolAndType r s t = r\<lparr>ra_info := info32_pack s t\<rparr>"

definition rel64_setSymbolAndType :: "Elf64_Rel \<Rightarrow> u32 \<Rightarrow> u32 \<Rightarrow> Elf64_Rel" where
  "rel64_setSymbolAndType r s t = r\<lparr>r_info := info64_pack s t\<rparr>"

definition rel64_setSymbol :: "Elf64_Rel \<Rightarrow> u32 \<Rightarrow> Elf64_Rel" where
  "rel64_setSymbol r s = rel64_setSymbolAndType r s (info64_type (r_info r))"

definition rel64_setType :: "Elf64_Rel \<Rightarrow> u32 \<Rightarrow> Elf64_Rel" where
  "rel64_setType r t = rel64_setSymbolAndType r (info64_symbol (r_info r)) t"

definition rela64_setSymbolAndType :: "Elf64_Rela \<Rightarrow> u32 \<Rightarrow> u32 \<Rightarrow> Elf64_Rela" where
  "rela64_setSymbolAndType r s t = r\<lparr>ra_info := info64_pack s t\<rparr>"

definition rela32_setSymbol :: "Elf32_Rela \<Rightarrow> u32 \<Rightarrow> Elf32_Rela" where
  "rela32_setSymbol r s = rela32_setSymbolAndType r s (info32_type (ra_info r))"

definition rela32_setType :: "Elf32_Rela \<Rightarrow> u8 \<Rightarrow> Elf32_Rela" where
  "rela32_setType r t = rela32_setSymbolAndType r (info32_symbol (ra_info r)) t"

definition rela64_setSymbol :: "Elf64_Rela \<Rightarrow> u32 \<Rightarrow> Elf64_Rela" where
  "rela64_setSymbol r s = rela64_setSymbolAndType r s (info64_type (ra_info r))"

definition rela64_setType :: "Elf64_Rela \<Rightarrow> u32 \<Rightarrow> Elf64_Rela" where
  "rela64_setType r t = rela64_setSymbolAndType r (info64_symbol (ra_info r)) t"

definition decodePPC64LocalEntryOffset :: "u32 \<Rightarrow> int" where
  "decodePPC64LocalEntryOffset oth =
     (let v = drop_bit 5 (oth AND push_bit 5 7) in push_bit 2 (drop_bit 2 (push_bit (unat v) 1)))"

lemma add_disjoint:
  "(\<And>n. bit a n \<Longrightarrow> \<not> bit b n) \<Longrightarrow> a + b = a OR (b :: 'a :: len word)"
  by (rule disjunctive_add) blast

lemma info32_pack_or: "info32_pack s t = push_bit 8 s OR ucast t"
  unfolding info32_pack_def by (rule add_disjoint) (auto simp: bit_simps dest: bit_imp_le_length)

lemma info64_pack_or: "info64_pack s t = push_bit 32 (ucast s) OR ucast t"
proof -
  have m: "(0xFFFFFFFF :: u64) = mask 32" by (simp add: mask_eq_exp_minus_1)
  have t: "(ucast t AND 0xFFFFFFFF :: u64) = ucast t"
    unfolding m by (rule bit_eqI) (auto simp: bit_simps dest: bit_imp_le_length)
  show ?thesis
    unfolding info64_pack_def t by (rule add_disjoint) (auto simp: bit_simps dest: bit_imp_le_length)
qed

lemma info32_unpack:
  "info32_type (info32_pack s t) = t" "info32_symbol (info32_pack s t) = take_bit 24 s"
proof -
  have m: "(0x0FF :: u32) = mask 8" by (simp add: mask_eq_exp_minus_1)
  show "info32_type (info32_pack s t) = t"
    unfolding info32_pack_or info32_type_def m by (rule bit_eqI) (auto simp: bit_simps)
  show "info32_symbol (info32_pack s t) = take_bit 24 s"
    unfolding info32_pack_or info32_symbol_def by (rule bit_eqI) (auto simp: bit_simps dest: bit_imp_le_length)
qed

lemma info64_unpack:
  "info64_type (info64_pack s t) = t" "info64_symbol (info64_pack s t) = s"
proof -
  have m: "(0xFFFFFFFF :: u64) = mask 32" by (simp add: mask_eq_exp_minus_1)
  show "info64_type (info64_pack s t) = t"
    unfolding info64_pack_or info64_type_def m by (rule bit_eqI) (auto simp: bit_simps)
  show "info64_symbol (info64_pack s t) = s"
    unfolding info64_pack_or info64_symbol_def by (rule bit_eqI) (auto simp: bit_simps dest: bit_imp_le_length)
qed

lemma sym_unpack:
  "getType (setBindingAndType s b t) = t AND 0x0F" "getBinding (setBindingAndType s b t) = b AND 0x0F"
proof -
  have m: "(0x0F :: u8) = mask 4" by (simp add: mask_eq_exp_minus_1)
  have o: "push_bit 4 b + (t AND mask 4) = push_bit 4 b OR (t AND mask 4)"
    by (rule add_disjoint) (auto simp: bit_simps)
  show "getType (setBindingAndType s b t) = t AND 0x0F"
    unfolding getType_def setBindingAndType_def m by (simp add: o) (rule bit_eqI, auto simp: bit_simps)
  show "getBinding (setBindingAndType s b t) = b AND 0x0F"
    unfolding getBinding_def setBindingAndType_def m by (simp add: o) (rule bit_eqI, auto simp: bit_simps dest: bit_imp_le_length)
qed

lemma take_bit_24_symbol: "take_bit 24 (info32_symbol i) = info32_symbol i"
  unfolding info32_symbol_def by (rule bit_eqI) (auto simp: bit_simps dest: bit_imp_le_length)

lemma nibble_fields: "getBinding s AND 0x0F = getBinding s" "getType s AND 0x0F = getType s"
proof -
  have m: "(0x0F :: u8) = mask 4" by (simp add: mask_eq_exp_minus_1)
  show "getBinding s AND 0x0F = getBinding s" "getType s AND 0x0F = getType s"
    unfolding getBinding_def getType_def m by (rule bit_eqI, auto simp: bit_simps dest: bit_imp_le_length)+
qed

text \<open>
  Setting one half of a packed field leaves the other: in a symbol's info (four bits each, a
  larger binding or type is truncated), in a 32-bit relocation's info (eight bits of type, 24 bits of
  symbol, a larger symbol index is truncated) and in a 64-bit one (32 bits each, nothing is lost).
\<close>

theorem packed_fields_independent:
  "getBinding (setBinding y b) = b AND 0x0F \<and> getType (setBinding y b) = getType y \<and>
   getType (setType y c) = c AND 0x0F \<and> getBinding (setType y c) = getBinding y \<and>
   info32_symbol (r_info (rel32_setSymbol r s)) = take_bit 24 s \<and> info32_type (r_info (rel32_setSymbol r s)) = info32_type (r_info r) \<and>
   info32_type (r_info (rel32_setType r t)) = t \<and> info32_symbol (r_info (rel32_setType r t)) = info32_symbol (r_info r) \<and>
   info32_symbol (ra_info (rela32_setSymbol a s)) = take_bit 24 s \<and> info32_type (ra_info (rela32_setType a t)) = t \<and>
   info64_symbol (r_info (rel64_setSymbol q s)) = s \<and> info64_type (r_info (rel64_setSymbol q s)) = info64_type (r_info q) \<and>
   info64_type (r_info (rel64_setType q u)) = u \<and> info64_symbol (r_info (rel64_setType q u)) = info64_symbol (r_info q) \<and>
   info64_symbol (ra_info (rela64_setSymbol d s)) = s \<and> info64_type (ra_info (rela64_setType d u)) = u"
  by (simp add: setBinding_def setType_def sym_unpack nibble_fields rel32_setSymbol_def rel32_setType_def rel32_setSymbolAndType_def
      rela32_setSymbol_def rela32_setType_def rela32_setSymbolAndType_def rel64_setSymbol_def rel64_setType_def
      rel64_setSymbolAndType_def rela64_setSymbol_def rela64_setType_def rela64_setSymbolAndType_def
      info32_unpack info64_unpack take_bit_24_symbol)

end
