(* ===== verification/Elf_Loader.thy ===== *)
theory Elf_Loader
  imports Elf_Types Store_Reader
begin

text \<open>
  The dynamic linker's \<open>ElfReader\<close>, \<open>lib/linker_phdr.cpp\<close>: reading and checking a library.  The class
  \<open>ElfW\<close> is a record of the structures' sizes and decoders, one value per class; the build's
  architecture, the target SDK and the code outside the repository (\<open>safe_add\<close>, the file mapping
  \<open>MappedFileFragment\<close>, the page macros) are fields of the environment.  A failed check is an error
  value named after its message; the warnings of old SDK levels are collected in order.
\<close>

section \<open>Class, target and environment\<close>

record 'w elf_class =
  lp64 :: bool
  class_dec_ehdr :: "byte list \<Rightarrow> nat \<Rightarrow> 'w Ehdr option"
  class_dec_phdr :: "byte list \<Rightarrow> nat \<Rightarrow> 'w Phdr option"
  class_dec_shdr :: "byte list \<Rightarrow> nat \<Rightarrow> 'w Shdr option"
  class_sizeof_ehdr :: nat
  class_sizeof_phdr :: nat
  class_sizeof_shdr :: nat
  class_align :: nat

definition class32 :: "u32 elf_class" where
  "class32 = \<lparr>lp64 = False, class_dec_ehdr = dec_ehdr32, class_dec_phdr = dec_phdr32, class_dec_shdr = dec_shdr32,
     class_sizeof_ehdr = sizeof_ehdr32, class_sizeof_phdr = sizeof_phdr32, class_sizeof_shdr = sizeof_shdr32,
     class_align = 4\<rparr>"

definition class64 :: "u64 elf_class" where
  "class64 = \<lparr>lp64 = True, class_dec_ehdr = dec_ehdr64, class_dec_phdr = dec_phdr64, class_dec_shdr = dec_shdr64,
     class_sizeof_ehdr = sizeof_ehdr64, class_sizeof_phdr = sizeof_phdr64, class_sizeof_shdr = sizeof_shdr64,
     class_align = 8\<rparr>"

datatype elf_target = Target_arm | Target_aarch64 | Target_i386 | Target_riscv | Target_x86_64

definition EM_386 :: u16 where "EM_386 = 3"
definition EM_ARM :: u16 where "EM_ARM = 40"
definition EM_X86_64 :: u16 where "EM_X86_64 = 62"
definition EM_AARCH64 :: u16 where "EM_AARCH64 = 183"
definition EM_RISCV :: u16 where "EM_RISCV = 243"

fun GetTargetElfMachine :: "elf_target \<Rightarrow> u16" where
  "GetTargetElfMachine Target_arm = EM_ARM"
| "GetTargetElfMachine Target_aarch64 = EM_AARCH64"
| "GetTargetElfMachine Target_i386 = EM_386"
| "GetTargetElfMachine Target_riscv = EM_RISCV"
| "GetTargetElfMachine Target_x86_64 = EM_X86_64"

definition EM_to_string :: "u16 \<Rightarrow> string" where
  "EM_to_string em =
     (if em = EM_386 then ''EM_386''
      else if em = EM_AARCH64 then ''EM_AARCH64''
      else if em = EM_ARM then ''EM_ARM''
      else if em = EM_RISCV then ''EM_RISCV''
      else if em = EM_X86_64 then ''EM_X86_64''
      else ''EM_???'')"

definition ELFCLASS32 :: u8 where "ELFCLASS32 = 1"
definition ELFCLASS64 :: u8 where "ELFCLASS64 = 2"
definition ELFDATA2LSB :: u8 where "ELFDATA2LSB = 1"
definition ET_DYN :: u16 where "ET_DYN = 3"
definition EV_CURRENT :: u32 where "EV_CURRENT = 1"
definition PT_LOAD :: u32 where "PT_LOAD = 1"
definition PT_DYNAMIC :: u32 where "PT_DYNAMIC = 2"
definition PT_INTERP :: u32 where "PT_INTERP = 3"
definition PT_PHDR :: u32 where "PT_PHDR = 6"
definition PT_GNU_RELRO :: u32 where "PT_GNU_RELRO = 0x6474E552"
definition PT_ARM_EXIDX :: u32 where "PT_ARM_EXIDX = 0x70000001"
definition SHT_STRTAB :: u32 where "SHT_STRTAB = 3"
definition SHT_DYNAMIC :: u32 where "SHT_DYNAMIC = 6"
definition PF_X :: u32 where "PF_X = 1"
definition PF_W :: u32 where "PF_W = 2"
definition PF_R :: u32 where "PF_R = 4"

lemmas pt_defs = PT_LOAD_def PT_DYNAMIC_def PT_INTERP_def PT_PHDR_def PT_GNU_RELRO_def PT_ARM_EXIDX_def

record 'w loader_env =
  elf_class :: "'w elf_class"
  target :: elf_target
  target_sdk :: int
  safe_add :: "int \<Rightarrow> nat \<Rightarrow> int option"
  map_fragment :: "byte list \<Rightarrow> int \<Rightarrow> nat \<Rightarrow> nat \<Rightarrow> byte list option"
  PAGE_SIZE :: "'w"
  PAGE_START :: "'w \<Rightarrow> 'w"
  PAGE_END :: "'w \<Rightarrow> 'w"
  PAGE_OFFSET :: "'w \<Rightarrow> 'w"

datatype elf_error =
    ReadFailed
  | TooSmall nat
  | BadMagic "u8 list"
  | Is64BitInsteadOf32
  | Is32BitInsteadOf64
  | UnknownClass u8
  | NotLittleEndian u8
  | UnexpectedType u16
  | UnexpectedVersion u32
  | WrongMachine string u16 string u16
  | UnsupportedShentsize u16
  | InvalidShstrndx
  | InvalidPhnum nat
  | InvalidPhdrRange
  | PhdrMapFailed
  | NoSectionHeaders
  | InvalidShdrRange
  | ShdrMapFailed
  | NoDynamicSection
  | DynamicOffsetMismatch
  | DynamicSizeMismatch
  | InvalidShLink u32
  | LinkNotStrtab u32
  | InvalidDynamicRange
  | DynamicMapFailed
  | InvalidStrtabRange
  | StrtabMapFailed

datatype dl_warning = WarnInvalidHeader | WarnInvalidDynamic | WarnWritableExecutable

record 'w elf_reader =
  did_read :: bool
  did_load :: bool
  file_bytes :: "byte list"
  file_offset :: int
  file_size :: int
  header :: "'w Ehdr"
  phdr_num :: nat
  phdr_table :: "'w Phdr list"
  shdr_num :: nat
  shdr_table :: "'w Shdr list"
  dynamic :: "byte list option"
  strtab :: "byte list option"
  strtab_size :: nat
  load_start :: "'w"
  load_size :: "'w"
  load_bias :: "'w"
  loaded_phdr :: "'w option"
  mapped_by_caller :: bool
  gap_start :: "'w"
  gap_size :: "'w"
  warnings :: "dl_warning list"

definition warn :: "dl_warning \<Rightarrow> 'w elf_reader \<Rightarrow> 'w elf_reader" where
  "warn w r = r\<lparr>warnings := warnings r @ [w]\<rparr>"

section \<open>The header\<close>

definition ReadElfHeader :: "'w loader_env \<Rightarrow> 'w elf_reader \<Rightarrow> elf_error + 'w elf_reader" where
  "ReadElfHeader env r =
     (if file_offset r < 0 then Inl ReadFailed
      else case class_dec_ehdr (elf_class env) (file_bytes r) (nat (file_offset r)) of
        None \<Rightarrow> Inl (TooSmall (length (file_bytes r) - nat (file_offset r)))
      | Some h \<Rightarrow> Inr (r\<lparr>header := h\<rparr>))"

definition check_class :: "'w loader_env \<Rightarrow> u8 \<Rightarrow> elf_error option" where
  "check_class env elf_class_byte =
     (if lp64 (elf_class env) then
        (if elf_class_byte \<noteq> ELFCLASS64 then
           Some (if elf_class_byte = ELFCLASS32 then Is32BitInsteadOf64 else UnknownClass elf_class_byte)
         else None)
      else
        (if elf_class_byte \<noteq> ELFCLASS32 then
           Some (if elf_class_byte = ELFCLASS64 then Is64BitInsteadOf32 else UnknownClass elf_class_byte)
         else None))"

text \<open>A malformed field that only API level 26 rejects: an error there, a warning below.\<close>

definition enforced_at_26 ::
  "'w loader_env \<Rightarrow> bool \<Rightarrow> elf_error \<Rightarrow> dl_warning \<Rightarrow> 'w elf_reader \<Rightarrow> elf_error + 'w elf_reader" where
  "enforced_at_26 env bad e w r =
     (if bad then (if target_sdk env \<ge> 26 then Inl e else Inr (warn w r)) else Inr r)"

definition VerifyElfHeader :: "'w loader_env \<Rightarrow> 'w elf_reader \<Rightarrow> elf_error + 'w elf_reader" where
  "VerifyElfHeader env r =
     (let h = header r in
      if \<not> checkMagic h then Inl (BadMagic (take 4 (e_ident h)))
      else case check_class env (getFileClass h) of
        Some e \<Rightarrow> Inl e
      | None \<Rightarrow>
        if getDataEncoding h \<noteq> ELFDATA2LSB then Inl (NotLittleEndian (getDataEncoding h))
        else if e_type h \<noteq> ET_DYN then Inl (UnexpectedType (e_type h))
        else if e_version h \<noteq> EV_CURRENT then Inl (UnexpectedVersion (e_version h))
        else if e_machine h \<noteq> GetTargetElfMachine (target env)
        then Inl (WrongMachine (EM_to_string (e_machine h)) (e_machine h)
               (EM_to_string (GetTargetElfMachine (target env))) (GetTargetElfMachine (target env)))
        else
          bind_sum (enforced_at_26 env (unat (e_shentsize h) \<noteq> class_sizeof_shdr (elf_class env))
                      (UnsupportedShentsize (e_shentsize h)) WarnInvalidHeader r) (\<lambda>r.
          enforced_at_26 env (e_shstrndx h = 0) InvalidShstrndx WarnInvalidHeader r))"

section \<open>Ranges of the file\<close>

definition CheckFileRange ::
  "('w::len) word loader_env \<Rightarrow> 'w word elf_reader \<Rightarrow> 'w word \<Rightarrow> nat \<Rightarrow> nat \<Rightarrow> bool" where
  "CheckFileRange env r offset len alignment =
     (offset > 0 \<and>
      (case safe_add env (file_offset r) (unat offset) of
         None \<Rightarrow> False
       | Some range_start \<Rightarrow>
         (case safe_add env range_start len of
            None \<Rightarrow> False
          | Some range_end \<Rightarrow> range_start < file_size r \<and> range_end \<le> file_size r)) \<and>
      unat offset mod alignment = 0)"

definition ReadProgramHeaders ::
  "('w::len) word loader_env \<Rightarrow> 'w word elf_reader \<Rightarrow> elf_error + 'w word elf_reader" where
  "ReadProgramHeaders env r =
     (let n = unat (e_phnum (header r)); cls = elf_class env; len = n * class_sizeof_phdr cls in
      if n < 1 \<or> n > 65536 div class_sizeof_phdr cls then Inl (InvalidPhnum n)
      else if \<not> CheckFileRange env r (e_phoff (header r)) len (class_align cls) then Inl InvalidPhdrRange
      else case map_fragment env (file_bytes r) (file_offset r) (unat (e_phoff (header r))) len of
        None \<Rightarrow> Inl PhdrMapFailed
      | Some data \<Rightarrow>
        (case read_table (class_dec_phdr cls) (class_sizeof_phdr cls) (data, 0) n of
           None \<Rightarrow> Inl PhdrMapFailed
         | Some table \<Rightarrow> Inr (r\<lparr>phdr_num := n, phdr_table := table\<rparr>)))"

definition ReadSectionHeaders ::
  "('w::len) word loader_env \<Rightarrow> 'w word elf_reader \<Rightarrow> elf_error + 'w word elf_reader" where
  "ReadSectionHeaders env r =
     (let n = unat (e_shnum (header r)); cls = elf_class env; len = n * class_sizeof_shdr cls in
      if n = 0 then Inl NoSectionHeaders
      else if \<not> CheckFileRange env r (e_shoff (header r)) len (class_align cls) then Inl InvalidShdrRange
      else case map_fragment env (file_bytes r) (file_offset r) (unat (e_shoff (header r))) len of
        None \<Rightarrow> Inl ShdrMapFailed
      | Some data \<Rightarrow>
        (case read_table (class_dec_shdr cls) (class_sizeof_shdr cls) (data, 0) n of
           None \<Rightarrow> Inl ShdrMapFailed
         | Some table \<Rightarrow> Inr (r\<lparr>shdr_num := n, shdr_table := table\<rparr>)))"

section \<open>The dynamic section\<close>

text \<open>The last \<open>PT_DYNAMIC\<close> segment wins: the loop over the program headers has no break.\<close>

definition pt_dynamic_range :: "('w::len) word Phdr list \<Rightarrow> 'w word \<times> 'w word" where
  "pt_dynamic_range phdrs =
     foldl (\<lambda>acc ph. if p_type ph = PT_DYNAMIC then (p_offset ph, p_filesz ph) else acc) (0, 0) phdrs"

text \<open>From the section found on: its link, its range and the string table it links to.\<close>

definition MapDynamic ::
  "('w::len) word loader_env \<Rightarrow> 'w word Shdr \<Rightarrow> 'w word elf_reader \<Rightarrow> elf_error + 'w word elf_reader" where
  "MapDynamic env dyn r =
     (if unat (sh_link dyn) \<ge> shdr_num r then Inl (InvalidShLink (sh_link dyn))
      else
        let str = shdr_table r ! unat (sh_link dyn) in
        if sh_type str \<noteq> SHT_STRTAB then Inl (LinkNotStrtab (sh_type str))
        else if \<not> CheckFileRange env r (sh_offset dyn) (unat (sh_size dyn)) (class_align (elf_class env))
        then Inl InvalidDynamicRange
        else case map_fragment env (file_bytes r) (file_offset r) (unat (sh_offset dyn)) (unat (sh_size dyn)) of
          None \<Rightarrow> Inl DynamicMapFailed
        | Some dyn_data \<Rightarrow>
          if \<not> CheckFileRange env r (sh_offset str) (unat (sh_size str)) 1 then Inl InvalidStrtabRange
          else case map_fragment env (file_bytes r) (file_offset r) (unat (sh_offset str)) (unat (sh_size str)) of
            None \<Rightarrow> Inl StrtabMapFailed
          | Some str_data \<Rightarrow>
              Inr (r\<lparr>dynamic := Some dyn_data, strtab := Some str_data, strtab_size := length str_data\<rparr>))"

definition ReadDynamicSection ::
  "('w::len) word loader_env \<Rightarrow> 'w word elf_reader \<Rightarrow> elf_error + 'w word elf_reader" where
  "ReadDynamicSection env r =
     (case List.find (\<lambda>s. sh_type s = SHT_DYNAMIC) (shdr_table r) of
        None \<Rightarrow> Inl NoDynamicSection
      | Some dyn \<Rightarrow>
        bind_sum (enforced_at_26 env (fst (pt_dynamic_range (phdr_table r)) \<noteq> sh_offset dyn)
                    DynamicOffsetMismatch WarnInvalidDynamic r) (\<lambda>r.
        bind_sum (enforced_at_26 env (snd (pt_dynamic_range (phdr_table r)) \<noteq> sh_size dyn)
                    DynamicSizeMismatch WarnInvalidDynamic r)
          (MapDynamic env dyn)))"

section \<open>Reading\<close>

definition Read ::
  "('w::len) word loader_env \<Rightarrow> 'w word elf_reader \<Rightarrow> byte list \<Rightarrow> int \<Rightarrow> int \<Rightarrow> elf_error + 'w word elf_reader" where
  "Read env r bytes offset fsize =
     (if did_read r then Inr r
      else
        bind_sum (ReadElfHeader env (r\<lparr>file_bytes := bytes, file_offset := offset, file_size := fsize\<rparr>)) (\<lambda>r.
        bind_sum (VerifyElfHeader env r) (\<lambda>r.
        bind_sum (ReadProgramHeaders env r) (\<lambda>r.
        bind_sum (ReadSectionHeaders env r) (\<lambda>r.
        bind_sum (ReadDynamicSection env r) (\<lambda>r.
        Inr (r\<lparr>did_read := True\<rparr>)))))))"

text \<open>The string at an index, the failed \<open>CHECK\<close>s \<open>None\<close>; a C string may still run past the table.\<close>

definition get_string :: "'w elf_reader \<Rightarrow> u32 \<Rightarrow> byte list option" where
  "get_string r index =
     (case strtab r of
        None \<Rightarrow> None
      | Some str \<Rightarrow> if unat index < strtab_size r then Some (drop (unat index) str) else None)"

end
