(* ===== verification/Elf_Memory.thy ===== *)
theory Elf_Memory
  imports Elf_Loader
begin

text \<open>
  The second half of \<open>ElfReader\<close>, \<open>lib/linker_phdr.cpp\<close>: reserving the address range, mapping the
  segments, changing their protection, and finding the program headers in memory.  A function that
  talks to the kernel returns the calls it made, in order; whether a call succeeds is an oracle.
\<close>

section \<open>Kernel calls\<close>

record prot =
  prot_read :: bool
  prot_write :: bool
  prot_exec :: bool
  prot_bti :: bool

definition prot_none :: prot where
  "prot_none = \<lparr>prot_read = False, prot_write = False, prot_exec = False, prot_bti = False\<rparr>"

definition PFLAGS_TO_PROT :: "u32 \<Rightarrow> prot" where
  "PFLAGS_TO_PROT x = \<lparr>prot_read = (x AND PF_R \<noteq> 0), prot_write = (x AND PF_W \<noteq> 0),
     prot_exec = (x AND PF_X \<noteq> 0), prot_bti = False\<rparr>"

definition kPmdSize :: "('w::len) word" where
  "kPmdSize = push_bit 21 1"

datatype 'w call =
    MapFile 'w 'w prot int
  | MapZero 'w 'w prot
  | Memset 'w 'w
  | Warned dl_warning
  | AdviseHuge 'w 'w
  | NameVma 'w 'w
  | Mprotect 'w 'w prot
  | Reserve 'w
  | Munmap 'w 'w

section \<open>Extent and alignment of the loadable segments\<close>

definition extend_load ::
  "'w word \<times> 'w word \<times> bool \<Rightarrow> ('w::len) word Phdr \<Rightarrow> 'w word \<times> 'w word \<times> bool" where
  "extend_load acc ph =
     (if p_type ph \<noteq> PT_LOAD then acc
      else case acc of (lo, hi, found) \<Rightarrow>
        (if p_vaddr ph < lo then p_vaddr ph else lo,
         if p_vaddr ph + p_memsz ph > hi then p_vaddr ph + p_memsz ph else hi, True))"

definition phdr_table_get_load_size ::
  "('w::len) word loader_env \<Rightarrow> 'w word Phdr list \<Rightarrow> 'w word \<times> 'w word \<times> 'w word" where
  "phdr_table_get_load_size env phdrs =
     (case foldl extend_load (- 1, 0, False) phdrs of (lo, hi, found) \<Rightarrow>
        let min_vaddr = PAGE_START env (if found then lo else 0);
            max_vaddr = PAGE_END env hi
        in (max_vaddr - min_vaddr, min_vaddr, max_vaddr))"

definition phdr_table_get_maximum_alignment ::
  "('w::len) word loader_env \<Rightarrow> 'w word Phdr list \<Rightarrow> 'w word" where
  "phdr_table_get_maximum_alignment env phdrs =
     (let m = foldl (\<lambda>m ph. if p_type ph \<noteq> PT_LOAD \<or> p_align ph AND (p_align ph - 1) \<noteq> 0 then m
                       else if p_align ph > m then p_align ph else m) (PAGE_SIZE env) phdrs
      in if lp64 (elf_class env) then m else PAGE_SIZE env)"

section \<open>Reserving address space\<close>

text \<open>
  A reservation's gap is \<open>None\<close> where the code leaves its out parameters untouched.  The system a load
  runs in: the address an anonymous mapping of a size gets, the random numbers,
  the alignment helpers and the switches, with what the loader was asked for.  \<open>mmap_any k\<close> is the
  \<open>k\<close>-th mapping, \<open>arc4random 0\<close> draws the gap and \<open>arc4random 1\<close> the place.
\<close>

record 'w system =
  mmap_any :: "nat \<Rightarrow> 'w \<Rightarrow> 'w option"
  arc4random :: "nat \<Rightarrow> 'w \<Rightarrow> 'w"
  align_up :: "'w \<Rightarrow> 'w \<Rightarrow> 'w"
  align_down :: "'w \<Rightarrow> 'w \<Rightarrow> 'w"
  is_first_stage_init :: bool
  transparent_hugepages :: bool
  kLibraryAlignment :: 'w
  call_ok :: "nat \<Rightarrow> 'w call \<Rightarrow> bool"

record 'w address_space_params =
  start_addr :: 'w
  reserved_size :: 'w
  must_use_address :: bool

record 'w reservation =
  res_start :: 'w
  res_mapping :: "'w \<times> 'w"
  res_gap :: "('w \<times> 'w) option"
  res_calls :: "'w call list"

definition kGapAlignment :: "('w::len) word loader_env \<Rightarrow> 'w word" where
  "kGapAlignment env = (if lp64 (elf_class env) then push_bit 21 1 else 0)"

definition place_in_mapping ::
  "('w::len) word loader_env \<Rightarrow> 'w word system \<Rightarrow> 'w word \<Rightarrow> 'w word \<Rightarrow> 'w word \<Rightarrow>
     'w word \<Rightarrow> 'w word \<Rightarrow> 'w word \<Rightarrow> 'w word call list \<Rightarrow> 'w word reservation" where
  "place_in_mapping env sys len mapping_align start_align mmap_ptr mmap_size gap calls =
     (let gap_end = (if gap \<noteq> 0 then align_down sys (mmap_ptr + mmap_size) (kGapAlignment env)
                     else mmap_ptr + mmap_size);
          gap_begin = gap_end - gap;
          first = align_up sys mmap_ptr mapping_align;
          last = align_down sys gap_begin mapping_align - len;
          n = (if is_first_stage_init sys then 0 else arc4random sys 1 ((last - first) div start_align + 1));
          start = first + n * start_align
      in \<lparr>res_start = start, res_mapping = (mmap_ptr, mmap_size), res_gap = Some (gap_begin, gap),
          res_calls = calls @ [Munmap mmap_ptr (start - mmap_ptr), Munmap (start + len) (gap_begin - (start + len))] @
            (if gap_end \<noteq> mmap_ptr + mmap_size then [Munmap gap_end (mmap_ptr + mmap_size - gap_end)] else [])\<rparr>)"

definition ReserveWithAlignmentPadding ::
  "('w::len) word loader_env \<Rightarrow> 'w word system \<Rightarrow> 'w word \<Rightarrow> 'w word \<Rightarrow> 'w word \<Rightarrow> 'w word reservation option" where
  "ReserveWithAlignmentPadding env sys len mapping_align0 start_align =
     (let mapping_align = max mapping_align0 start_align in
      if mapping_align = PAGE_SIZE env then
        map_option (\<lambda>p. \<lparr>res_start = p, res_mapping = (p, len), res_gap = None,
          res_calls = [Reserve len]\<rparr>) (mmap_any sys 0 len)
      else
        let kGap = kGapAlignment env;
            mmap_size = align_up sys len mapping_align + mapping_align - PAGE_SIZE env
        in case mmap_any sys 0 mmap_size of
             None \<Rightarrow> None
           | Some mmap_ptr \<Rightarrow>
             let first_byte = align_up sys mmap_ptr mapping_align;
                 last_byte = align_down sys (mmap_ptr + mmap_size) mapping_align - 1
             in if kGap \<noteq> 0 \<and> first_byte div kGap \<noteq> last_byte div kGap then
                  let mapping_align' = max mapping_align kGap;
                      gap = kGap * (if is_first_stage_init sys then 1 else arc4random sys 0 31 + 1);
                      mmap_size' = align_up sys (len + gap) mapping_align' + mapping_align' - PAGE_SIZE env
                  in case mmap_any sys 1 mmap_size' of
                       None \<Rightarrow> None
                     | Some mmap_ptr' \<Rightarrow>
                       Some (place_in_mapping env sys len mapping_align' start_align mmap_ptr' mmap_size' gap
                         [Reserve mmap_size, Munmap mmap_ptr mmap_size, Reserve mmap_size'])
                else Some (place_in_mapping env sys len mapping_align start_align mmap_ptr mmap_size 0
                       [Reserve mmap_size]))"

datatype load_error =
    NoLoadableSegments
  | ReservedTooSmall
  | CouldNotReserve
  | InvalidFileSize
  | PastEndOfFile nat
  | WritableAndExecutable
  | CouldNotMap nat
  | CouldNotZeroFill nat
  | LoadedPhdrNotFound
  | LoadedPhdrOutside

definition ReserveAddressSpace ::
  "('w::len) word loader_env \<Rightarrow> 'w word system \<Rightarrow> 'w word address_space_params \<Rightarrow> 'w word elf_reader \<Rightarrow>
     load_error + ('w word elf_reader \<times> 'w word address_space_params)" where
  "ReserveAddressSpace env sys space r =
     (case phdr_table_get_load_size env (phdr_table r) of (len, min_vaddr, _) \<Rightarrow>
        if len = 0 then Inl NoLoadableSegments
        else if len > reserved_size space then
          if must_use_address space then Inl ReservedTooSmall
          else
            let start_alignment =
                  (if transparent_hugepages sys \<and> target_sdk env \<ge> 31 then
                     (if phdr_table_get_maximum_alignment env (phdr_table r) = kPmdSize then kPmdSize else PAGE_SIZE env)
                   else PAGE_SIZE env)
            in case ReserveWithAlignmentPadding env sys len (kLibraryAlignment sys) start_alignment of
                 None \<Rightarrow> Inl CouldNotReserve
               | Some res \<Rightarrow>
                   Inr ((case res_gap res of None \<Rightarrow> r | Some (gs, gl) \<Rightarrow> r\<lparr>gap_start := gs, gap_size := gl\<rparr>)
                          \<lparr>load_size := len, load_start := res_start res, load_bias := res_start res - min_vaddr\<rparr>, space)
        else
          Inr (r\<lparr>load_size := len, load_start := start_addr space, load_bias := start_addr space - min_vaddr,
                 gap_start := 0, gap_size := 0, mapped_by_caller := True\<rparr>,
               space\<lparr>start_addr := start_addr space + len, reserved_size := reserved_size space - len\<rparr>))"

section \<open>Mapping the segments\<close>

text \<open>
  The calls one segment makes, each with the error its failure is reported as (\<open>None\<close>: the result is
  ignored).  Every check of the segment comes before its first call; the warning below API level 26 is
  listed as a call.
\<close>

definition segment_calls ::
  "('w::len) word loader_env \<Rightarrow> 'w word system \<Rightarrow> 'w word elf_reader \<Rightarrow> nat \<Rightarrow> 'w word Phdr \<Rightarrow>
     load_error + ('w word call \<times> load_error option) list" where
  "segment_calls env sys r i ph =
     (let seg_start = p_vaddr ph + load_bias r;
          seg_end = seg_start + p_memsz ph;
          seg_page_start = PAGE_START env seg_start;
          seg_page_end = PAGE_END env seg_end;
          seg_file_end = seg_start + p_filesz ph;
          file_start = p_offset ph;
          file_end = file_start + p_filesz ph;
          file_page_start = PAGE_START env file_start;
          file_length = file_end - file_page_start;
          prot = PFLAGS_TO_PROT (p_flags ph)
      in if file_size r \<le> 0 then Inl InvalidFileSize
         else if file_end > of_int (file_size r) then Inl (PastEndOfFile i)
         else if file_length \<noteq> 0 \<and> prot_exec prot \<and> prot_write prot \<and> target_sdk env \<ge> 26
         then Inl WritableAndExecutable
         else Inr (
           (if file_length \<noteq> 0 \<and> prot_exec prot \<and> prot_write prot then [(Warned WarnWritableExecutable, None)] else []) @
           (if file_length \<noteq> 0 then
              (MapFile seg_page_start file_length prot (file_offset r + int (unat file_page_start)), Some (CouldNotMap i)) #
              (if p_flags ph AND PF_X \<noteq> 0 \<and> p_align ph = kPmdSize \<and> transparent_hugepages sys
               then [(AdviseHuge seg_page_start file_length, None)] else [])
            else []) @
           (if p_flags ph AND PF_W \<noteq> 0 \<and> PAGE_OFFSET env seg_file_end > 0
            then [(Memset seg_file_end (PAGE_SIZE env - PAGE_OFFSET env seg_file_end), None)] else []) @
           (if seg_page_end > PAGE_END env seg_file_end then
              [(MapZero (PAGE_END env seg_file_end) (seg_page_end - PAGE_END env seg_file_end) prot, Some (CouldNotZeroFill i)),
               (NameVma (PAGE_END env seg_file_end) (seg_page_end - PAGE_END env seg_file_end), None)]
            else [])))"

text \<open>Making the calls until one fails that must not.\<close>

fun run_calls ::
  "(nat \<Rightarrow> 'w call \<Rightarrow> bool) \<Rightarrow> nat \<Rightarrow> ('w call \<times> load_error option) list \<Rightarrow> 'w call list \<times> load_error option" where
  "run_calls ok k [] = ([], None)"
| "run_calls ok k ((c, e) # cs) =
     (case e of
        Some err \<Rightarrow> if ok k c then (case run_calls ok (Suc k) cs of (done, res) \<Rightarrow> (c # done, res)) else ([c], Some err)
      | None \<Rightarrow> (case run_calls ok (Suc k) cs of (done, res) \<Rightarrow> (c # done, res)))"

fun load_segments_from ::
  "('w::len) word loader_env \<Rightarrow> 'w word system \<Rightarrow> 'w word elf_reader \<Rightarrow> nat \<Rightarrow> nat \<Rightarrow> 'w word Phdr list \<Rightarrow>
     'w word call list \<times> load_error option" where
  "load_segments_from env sys r i k [] = ([], None)"
| "load_segments_from env sys r i k (ph # phs) =
     (if p_type ph \<noteq> PT_LOAD then load_segments_from env sys r (Suc i) k phs
      else case segment_calls env sys r i ph of
        Inl e \<Rightarrow> ([], Some e)
      | Inr cs \<Rightarrow>
        (case run_calls (call_ok sys) k cs of
           (done, Some e) \<Rightarrow> (done, Some e)
         | (done, None) \<Rightarrow>
           (case load_segments_from env sys r (Suc i) (k + length done) phs of
              (done', res) \<Rightarrow> (done @ done', res))))"

definition LoadSegments ::
  "('w::len) word loader_env \<Rightarrow> 'w word system \<Rightarrow> 'w word elf_reader \<Rightarrow> 'w word call list \<times> load_error option" where
  "LoadSegments env sys r = load_segments_from env sys r 0 0 (phdr_table r)"

section \<open>Protection of the loaded segments\<close>

text \<open>
  The protections of the loops over the read-only segments and over the relro segments.  \<open>-1\<close> on the
  first failing call is \<open>False\<close>; on AArch64 a segment that is not executable loses \<open>PROT_BTI\<close>.
\<close>

definition or_prot :: "prot \<Rightarrow> prot \<Rightarrow> prot" where
  "or_prot p q = \<lparr>prot_read = (prot_read p \<or> prot_read q), prot_write = (prot_write p \<or> prot_write q),
     prot_exec = (prot_exec p \<or> prot_exec q), prot_bti = (prot_bti p \<or> prot_bti q)\<rparr>"

definition load_prot :: "('w::len) word loader_env \<Rightarrow> 'w word Phdr \<Rightarrow> prot \<Rightarrow> prot" where
  "load_prot env ph extra =
     (let p = or_prot (PFLAGS_TO_PROT (p_flags ph)) extra;
          p = (if prot_write p then p\<lparr>prot_exec := False\<rparr> else p)
      in if target env = Target_aarch64 \<and> \<not> prot_exec p then p\<lparr>prot_bti := False\<rparr> else p)"

definition page_range :: "('w::len) word loader_env \<Rightarrow> 'w word \<Rightarrow> 'w word Phdr \<Rightarrow> 'w word \<times> 'w word" where
  "page_range env bias ph =
     (let a = PAGE_START env (p_vaddr ph) + bias; e = PAGE_END env (p_vaddr ph + p_memsz ph) + bias
      in (a, e - a))"

fun mprotect_all ::
  "(nat \<Rightarrow> 'w call \<Rightarrow> bool) \<Rightarrow> nat \<Rightarrow> 'w call list \<Rightarrow> 'w call list \<times> bool" where
  "mprotect_all ok k [] = ([], True)"
| "mprotect_all ok k (c # cs) =
     (if ok k c then (case mprotect_all ok (Suc k) cs of (done, res) \<Rightarrow> (c # done, res)) else ([c], False))"

definition phdr_table_set_load_prot ::
  "('w::len) word loader_env \<Rightarrow> 'w word system \<Rightarrow> 'w word Phdr list \<Rightarrow> 'w word \<Rightarrow> prot \<Rightarrow> 'w word call list \<times> bool" where
  "phdr_table_set_load_prot env sys phdrs bias extra =
     mprotect_all (call_ok sys) 0
       (map (\<lambda>ph. case page_range env bias ph of (a, n) \<Rightarrow> Mprotect a n (load_prot env ph extra))
         (filter (\<lambda>ph. p_type ph = PT_LOAD \<and> p_flags ph AND PF_W = 0) phdrs))"

definition phdr_table_protect_segments ::
  "('w::len) word loader_env \<Rightarrow> 'w word system \<Rightarrow> 'w word Phdr list \<Rightarrow> 'w word \<Rightarrow> bool option \<Rightarrow> 'w word call list \<times> bool" where
  "phdr_table_protect_segments env sys phdrs bias bti_property =
     phdr_table_set_load_prot env sys phdrs bias
       (prot_none\<lparr>prot_bti := (target env = Target_aarch64 \<and> bti_property = Some True)\<rparr>)"

definition phdr_table_unprotect_segments ::
  "('w::len) word loader_env \<Rightarrow> 'w word system \<Rightarrow> 'w word Phdr list \<Rightarrow> 'w word \<Rightarrow> 'w word call list \<times> bool" where
  "phdr_table_unprotect_segments env sys phdrs bias =
     phdr_table_set_load_prot env sys phdrs bias (prot_none\<lparr>prot_write := True\<rparr>)"

definition phdr_table_set_gnu_relro_prot ::
  "('w::len) word loader_env \<Rightarrow> 'w word system \<Rightarrow> 'w word Phdr list \<Rightarrow> 'w word \<Rightarrow> prot \<Rightarrow> 'w word call list \<times> bool" where
  "phdr_table_set_gnu_relro_prot env sys phdrs bias p =
     mprotect_all (call_ok sys) 0
       (map (\<lambda>ph. case page_range env bias ph of (a, n) \<Rightarrow> Mprotect a n p)
         (filter (\<lambda>ph. p_type ph = PT_GNU_RELRO) phdrs))"

definition phdr_table_protect_gnu_relro ::
  "('w::len) word loader_env \<Rightarrow> 'w word system \<Rightarrow> 'w word Phdr list \<Rightarrow> 'w word \<Rightarrow> 'w word call list \<times> bool" where
  "phdr_table_protect_gnu_relro env sys phdrs bias =
     phdr_table_set_gnu_relro_prot env sys phdrs bias (prot_none\<lparr>prot_read := True\<rparr>)"

section \<open>Looking segments up\<close>

definition phdr_table_get_arm_exidx ::
  "('w::len) word Phdr list \<Rightarrow> 'w word \<Rightarrow> ('w word \<times> 'w word) option" where
  "phdr_table_get_arm_exidx phdrs bias =
     map_option (\<lambda>ph. (bias + p_vaddr ph, p_memsz ph div 8)) (List.find (\<lambda>ph. p_type ph = PT_ARM_EXIDX) phdrs)"

definition phdr_table_get_dynamic_section ::
  "('w::len) word Phdr list \<Rightarrow> 'w word \<Rightarrow> ('w word \<times> u32) option" where
  "phdr_table_get_dynamic_section phdrs bias =
     map_option (\<lambda>ph. (bias + p_vaddr ph, p_flags ph)) (List.find (\<lambda>ph. p_type ph = PT_DYNAMIC) phdrs)"

definition phdr_table_get_interpreter_name :: "('w::len) word Phdr list \<Rightarrow> 'w word \<Rightarrow> 'w word option" where
  "phdr_table_get_interpreter_name phdrs bias =
     map_option (\<lambda>ph. bias + p_vaddr ph) (List.find (\<lambda>ph. p_type ph = PT_INTERP) phdrs)"

definition CheckPhdr ::
  "('w::len) word loader_env \<Rightarrow> 'w word elf_reader \<Rightarrow> 'w word \<Rightarrow> load_error + 'w word elf_reader" where
  "CheckPhdr env r loaded =
     (let loaded_end = loaded + of_nat (phdr_num r * class_sizeof_phdr (elf_class env)) in
      if \<exists>ph \<in> set (phdr_table r). p_type ph = PT_LOAD \<and> p_vaddr ph + load_bias r \<le> loaded \<and>
           loaded_end \<le> p_filesz ph + (p_vaddr ph + load_bias r)
      then Inr (r\<lparr>loaded_phdr := Some loaded\<rparr>) else Inl LoadedPhdrOutside)"

text \<open>
  \<open>FindPhdr\<close> prefers \<open>PT_PHDR\<close>; otherwise the first loadable segment must start the file, and the
  header's \<open>e_phoff\<close> is read from memory at its address, \<open>read_phoff\<close>.
\<close>

definition FindPhdr ::
  "('w::len) word loader_env \<Rightarrow> ('w word \<Rightarrow> 'w word) \<Rightarrow> 'w word elf_reader \<Rightarrow> load_error + 'w word elf_reader" where
  "FindPhdr env read_phoff r =
     (case List.find (\<lambda>ph. p_type ph = PT_PHDR) (phdr_table r) of
        Some ph \<Rightarrow> CheckPhdr env r (load_bias r + p_vaddr ph)
      | None \<Rightarrow>
        (case List.find (\<lambda>ph. p_type ph = PT_LOAD) (phdr_table r) of
           Some ph \<Rightarrow>
             if p_offset ph = 0 then
               let elf_addr = load_bias r + p_vaddr ph in CheckPhdr env r (elf_addr + read_phoff elf_addr)
             else Inl LoadedPhdrNotFound
         | None \<Rightarrow> Inl LoadedPhdrNotFound))"

section \<open>Loading\<close>

text \<open>
  \<open>Load\<close> without its \<open>CHECK\<close> of \<open>did_read_\<close> (\<open>None\<close>): the reader and address space afterwards, the
  calls made after reserving, and the result.  A failure after the reservation unmaps it again unless
  the caller provided the addresses; after a failed reservation the size it computed stays in
  \<open>load_size\<close>.  \<open>bti\<close> says whether the library's note asks for \<open>PROT_BTI\<close>.
\<close>

definition Load ::
  "('w::len) word loader_env \<Rightarrow> 'w word system \<Rightarrow> ('w word \<Rightarrow> 'w word) \<Rightarrow> bool \<Rightarrow> 'w word address_space_params \<Rightarrow>
     'w word elf_reader \<Rightarrow> ('w word elf_reader \<times> 'w word address_space_params \<times> 'w word call list \<times> bool) option" where
  "Load env sys read_phoff bti space r =
     (if \<not> did_read r then None
      else if did_load r then Some (r, space, [], True)
      else case ReserveAddressSpace env sys space r of
        Inl e \<Rightarrow> Some (r\<lparr>load_size := fst (phdr_table_get_load_size env (phdr_table r))\<rparr>, space, [], False)
      | Inr (r1, space1) \<Rightarrow>
        (case LoadSegments env sys r1 of (calls, res) \<Rightarrow>
          let found = (if res = None then FindPhdr env read_phoff r1 else Inl LoadedPhdrNotFound);
              (r2, protect_calls, loaded) =
                (case found of
                   Inl e \<Rightarrow> (r1, [], False)
                 | Inr r2 \<Rightarrow>
                   if target env = Target_aarch64 \<and> bti then
                     (case phdr_table_protect_segments env sys (phdr_table r2) (load_bias r2) (Some True) of
                        (pc, ok) \<Rightarrow> (r2, pc, ok))
                   else (r2, [], True));
              undo = (if \<not> loaded \<and> load_start r2 \<noteq> 0 \<and> load_size r2 \<noteq> 0 \<and> \<not> mapped_by_caller r2
                      then [Munmap (load_start r2) (load_size r2)] else [])
          in Some (r2\<lparr>did_load := loaded\<rparr>, space1, calls @ protect_calls @ undo, loaded)))"

end
