(* ===== verification/Elf_Read.thy ===== *)
theory Elf_Read
  imports Elf_Loader
begin

text \<open>
  What a successful \<open>ElfReader::Read\<close> establishes: the checks of the header, that every table it kept
  lies inside the file, and that the tables are the file's bytes.  The code outside the repository
  enters by two interface locales, each interpreted for the environments the witnesses use.
\<close>

section \<open>Interfaces\<close>

text \<open>
  \<open>safe_add\<close> adds a size to a non-negative file offset unless the sum leaves \<open>off64_t\<close>; a mapping of
  a range inside the file shows the file's bytes.
\<close>

locale file_access =
  fixes add :: "int \<Rightarrow> nat \<Rightarrow> int option"
    and map_file :: "byte list \<Rightarrow> int \<Rightarrow> nat \<Rightarrow> nat \<Rightarrow> byte list option"
  assumes add_spec: "0 \<le> a \<Longrightarrow> add a n = (if a + int n < 2 ^ 63 then Some (a + int n) else None)"
    and map_spec: "map_file f base off n = Some bs \<Longrightarrow> 0 \<le> base \<Longrightarrow>
       nat base + off + n \<le> length f \<Longrightarrow> slice f (nat base + off) n = Some bs"

text \<open>The decoders of a class look at their own structure only.\<close>

locale class_layout =
  fixes cls :: "('w::len) word elf_class"
  assumes phdr_local: "slice f a n = Some d \<Longrightarrow> k + class_sizeof_phdr cls \<le> n \<Longrightarrow>
       class_dec_phdr cls d k = class_dec_phdr cls f (a + k)"
    and shdr_local: "slice f a n = Some d \<Longrightarrow> k + class_sizeof_shdr cls \<le> n \<Longrightarrow>
       class_dec_shdr cls d k = class_dec_shdr cls f (a + k)"
    and phdr_size: "0 < class_sizeof_phdr cls"
    and shdr_size: "0 < class_sizeof_shdr cls"

lemma rd_slice:
  assumes "slice f a n = Some d"
  shows "k + 1 \<le> n \<Longrightarrow> rd8 d k = rd8 f (a + k)" "k + 2 \<le> n \<Longrightarrow> rd16 d k = rd16 f (a + k)"
    "k + 4 \<le> n \<Longrightarrow> rd32 d k = rd32 f (a + k)" "k + 8 \<le> n \<Longrightarrow> rd64 d k = rd64 f (a + k)"
  using slice_slice [OF assms] by (simp_all add: rd8_def rd16_def rd32_def rd64_def rd_def)

interpretation layout32: class_layout class32
  by unfold_locales
    (simp_all add: class32_def dec_phdr32_def dec_shdr32_def layout_simps rd_slice add.assoc)

interpretation layout64: class_layout class64
  by unfold_locales
    (simp_all add: class64_def dec_phdr64_def dec_shdr64_def layout_simps rd_slice add.assoc)

section \<open>Tables read through a mapping\<close>

lemma read_table_local:
  assumes "\<And>k. k + w \<le> n \<Longrightarrow> dec d k = dec f (a + k)" "off + w * m \<le> n"
  shows "read_table dec w (d, off) m = read_table dec w (f, a + off) m"
  using assms(2)
proof (induction m arbitrary: off)
  case 0
  then show ?case by simp
next
  case (Suc m)
  have "dec d off = dec f (a + off)" using assms(1) Suc.prems by simp
  moreover have "read_table dec w (d, off + w) m = read_table dec w (f, a + (off + w)) m"
    by (rule Suc.IH) (use Suc.prems in simp)
  ultimately show ?case by (simp add: add.assoc)
qed

lemma read_table_nth:
  "read_table dec w (f, off) m = Some rs \<Longrightarrow> length rs = m \<and> (\<forall>i < m. dec f (off + w * i) = Some (rs ! i))"
proof (induction m arbitrary: off rs)
  case 0
  then show ?case by simp
next
  case (Suc m)
  then obtain r rs' where r: "dec f off = Some r" "read_table dec w (f, off + w) m = Some rs'" "rs = r # rs'"
    by (auto simp: bind_eq_Some_conv)
  from Suc.IH [OF r(2)] r show ?case
    by (auto simp: nth_Cons' less_Suc_eq_0_disj add.assoc)
qed

section \<open>The header check\<close>

lemma enforced_Inr_iff:
  "enforced_at_26 env bad e w r = Inr r' \<longleftrightarrow>
     (\<not> bad \<and> r' = r) \<or> (bad \<and> target_sdk env < 26 \<and> r' = warn w r)"
  by (auto simp: enforced_at_26_def)

lemma enforced_frame:
  assumes "enforced_at_26 env bad e w r = Inr r'"
  shows "\<exists>ws. r' = r\<lparr>warnings := ws\<rparr>"
proof -
  have "r = r\<lparr>warnings := warnings r\<rparr>" by simp
  moreover have "r' = r \<or> r' = warn w r" using assms by (auto simp: enforced_at_26_def split: if_splits)
  ultimately show ?thesis unfolding warn_def by blast
qed

lemma enforced_ex: "(\<exists>r'. enforced_at_26 env bad e w r = Inr r') \<longleftrightarrow> (bad \<longrightarrow> target_sdk env < 26)"
  by (auto simp: enforced_at_26_def)

lemma bind_sum_ex: "(\<exists>r. bind_sum x f = Inr r) \<longleftrightarrow> (\<exists>v. x = Inr v \<and> (\<exists>r. f v = Inr r))"
  by (cases x) auto

definition class_byte :: "'w loader_env \<Rightarrow> u8" where
  "class_byte env = (if lp64 (elf_class env) then ELFCLASS64 else ELFCLASS32)"

lemma check_class_None: "check_class env b = None \<longleftrightarrow> b = class_byte env"
  by (simp add: check_class_def class_byte_def)

lemma check_class_self [simp]: "check_class env (class_byte env) = None"
  by (simp only: check_class_None)

lemma verify_Inr:
  assumes "VerifyElfHeader env r = Inr r'"
  shows "\<exists>ws. r' = r\<lparr>warnings := ws\<rparr>"
proof -
  from assms obtain r1 where
    "enforced_at_26 env (unat (e_shentsize (header r)) \<noteq> class_sizeof_shdr (elf_class env))
        (UnsupportedShentsize (e_shentsize (header r))) WarnInvalidHeader r = Inr r1"
    "enforced_at_26 env (e_shstrndx (header r) = 0) InvalidShstrndx WarnInvalidHeader r1 = Inr r'"
    by (auto simp: VerifyElfHeader_def Let_def bind_sum_Inr_iff split: if_splits option.splits)
  then obtain ws1 ws where "r1 = r\<lparr>warnings := ws1\<rparr>" "r' = r1\<lparr>warnings := ws\<rparr>"
    using enforced_frame by blast
  then show ?thesis by auto
qed

text \<open>
  The header check accepts a header exactly when its magic, class, byte order, type, version and
  machine are the target's and, from API level 26 on, its section header size and string table index
  are valid too.
\<close>

theorem header_accepted_iff:
  "(\<exists>r'. VerifyElfHeader env r = Inr r') \<longleftrightarrow>
     checkMagic (header r) \<and> getFileClass (header r) = class_byte env \<and>
     getDataEncoding (header r) = ELFDATA2LSB \<and> e_type (header r) = ET_DYN \<and>
     e_version (header r) = EV_CURRENT \<and> e_machine (header r) = GetTargetElfMachine (target env) \<and>
     (target_sdk env \<ge> 26 \<longrightarrow>
        unat (e_shentsize (header r)) = class_sizeof_shdr (elf_class env) \<and> e_shstrndx (header r) \<noteq> 0)"
proof (cases "check_class env (getFileClass (header r))")
  case None
  then have "getFileClass (header r) = class_byte env" by (simp only: check_class_None)
  then show ?thesis
    by (simp add: VerifyElfHeader_def Let_def bind_sum_ex enforced_ex) (auto simp: enforced_Inr_iff)
next
  case (Some e)
  then have "getFileClass (header r) \<noteq> class_byte env" by (auto simp flip: check_class_None)
  then show ?thesis by (auto simp: VerifyElfHeader_def Let_def Some)
qed

section \<open>Ranges\<close>

context file_access begin

lemma checked_range:
  assumes "safe_add env = add" "0 \<le> file_offset r" "file_size r < 2 ^ 63"
  shows "CheckFileRange env r off n al \<longleftrightarrow>
    0 < off \<and> file_offset r + int (unat off) < file_size r \<and>
    file_offset r + int (unat off) + int n \<le> file_size r \<and> al dvd unat off"
proof -
  have "CheckFileRange env r off n al \<longleftrightarrow>
    0 < off \<and> (case add (file_offset r) (unat off) of None \<Rightarrow> False
       | Some s \<Rightarrow> (case add s n of None \<Rightarrow> False | Some e \<Rightarrow> s < file_size r \<and> e \<le> file_size r)) \<and> al dvd unat off"
    unfolding CheckFileRange_def assms(1) dvd_eq_mod_eq_0 ..
  moreover have "(case add (file_offset r) (unat off) of None \<Rightarrow> False
       | Some s \<Rightarrow> (case add s n of None \<Rightarrow> False | Some e \<Rightarrow> s < file_size r \<and> e \<le> file_size r)) \<longleftrightarrow>
     file_offset r + int (unat off) < file_size r \<and> file_offset r + int (unat off) + int n \<le> file_size r"
    using assms(2,3) by (auto simp: add_spec)
  ultimately show ?thesis by simp
qed

lemma mapped_range:
  assumes "safe_add env = add" "map_fragment env = map_file"
    and "0 \<le> file_offset r" "file_size r < 2 ^ 63" "file_size r \<le> int (length (file_bytes r))"
    and "CheckFileRange env r off n al" "map_fragment env (file_bytes r) (file_offset r) (unat off) n = Some d"
  shows "slice (file_bytes r) (nat (file_offset r) + unat off) n = Some d"
proof -
  have "file_offset r + int (unat off) + int n \<le> int (length (file_bytes r))"
    using checked_range [OF assms(1,3,4)] assms(5,6) by auto
  then have "nat (file_offset r) + unat off + n \<le> length (file_bytes r)" using assms(3) by linarith
  then show ?thesis using map_spec assms(2,3,7) by simp
qed

end

text \<open>The documented behaviour of the two, for the evaluations.\<close>

definition safe_add64 :: "int \<Rightarrow> nat \<Rightarrow> int option" where
  "safe_add64 a n = (if 0 \<le> a \<and> a + int n < 2 ^ 63 then Some (a + int n) else None)"

definition map_slice :: "byte list \<Rightarrow> int \<Rightarrow> nat \<Rightarrow> nat \<Rightarrow> byte list option" where
  "map_slice f base off n = (if 0 \<le> base then slice f (nat base + off) n else None)"

interpretation plain_file: file_access safe_add64 map_slice
  by unfold_locales (simp_all add: safe_add64_def map_slice_def)

section \<open>What Read establishes\<close>

text \<open>The tables the reader keeps are the file's, and lie inside it.\<close>

definition tables_in_file :: "('w::len) word loader_env \<Rightarrow> 'w word elf_reader \<Rightarrow> bool" where
  "tables_in_file env r \<longleftrightarrow>
     (let cls = elf_class env; base = nat (file_offset r); h = header r in
      length (phdr_table r) = phdr_num r \<and> 0 < phdr_num r \<and>
      base + unat (e_phoff h) + class_sizeof_phdr cls * phdr_num r \<le> nat (file_size r) \<and>
      (\<forall>i < phdr_num r. class_dec_phdr cls (file_bytes r) (base + unat (e_phoff h) + class_sizeof_phdr cls * i)
         = Some (phdr_table r ! i)) \<and>
      length (shdr_table r) = shdr_num r \<and> 0 < shdr_num r \<and>
      base + unat (e_shoff h) + class_sizeof_shdr cls * shdr_num r \<le> nat (file_size r) \<and>
      (\<forall>i < shdr_num r. class_dec_shdr cls (file_bytes r) (base + unat (e_shoff h) + class_sizeof_shdr cls * i)
         = Some (shdr_table r ! i)))"

text \<open>The string table is the section the dynamic section links to.\<close>

definition strings_in_file :: "('w::len) word loader_env \<Rightarrow> 'w word elf_reader \<Rightarrow> bool" where
  "strings_in_file env r \<longleftrightarrow>
     (\<exists>dyn str k. dyn \<in> set (shdr_table r) \<and> sh_type dyn = SHT_DYNAMIC \<and> k = unat (sh_link dyn) \<and>
        k < shdr_num r \<and> str = shdr_table r ! k \<and> sh_type str = SHT_STRTAB \<and>
        slice (file_bytes r) (nat (file_offset r) + unat (sh_offset dyn)) (unat (sh_size dyn)) = dynamic r \<and>
        slice (file_bytes r) (nat (file_offset r) + unat (sh_offset str)) (unat (sh_size str)) = strtab r \<and>
        dynamic r \<noteq> None \<and> strtab r \<noteq> None \<and> strtab_size r = unat (sh_size str) \<and>
        (target_sdk env \<ge> 26 \<longrightarrow> pt_dynamic_range (phdr_table r) = (sh_offset dyn, sh_size dyn)))"

locale elf_reading = file_access + class_layout
begin

lemma mapped_table:
  assumes env: "safe_add env = add" "map_fragment env = map_file"
    and fl: "0 \<le> file_offset r" "file_size r < 2 ^ 63" "file_size r \<le> int (length (file_bytes r))"
    and range: "CheckFileRange env r off (m * w) al"
    and map: "map_fragment env (file_bytes r) (file_offset r) (unat off) (m * w) = Some d"
    and dec: "\<forall>f a n d k. slice f a n = Some d \<longrightarrow> k + w \<le> n \<longrightarrow> dec d k = dec f (a + k)"
    and tab: "read_table dec w (d, 0) m = Some t"
  shows "length t = m" "nat (file_offset r) + unat off + w * m \<le> nat (file_size r)"
    "\<forall>i < m. dec (file_bytes r) (nat (file_offset r) + unat off + w * i) = Some (t ! i)"
proof -
  have sl: "slice (file_bytes r) (nat (file_offset r) + unat off) (m * w) = Some d"
    by (rule mapped_range [OF env fl range map])
  have "read_table dec w (d, 0) m = read_table dec w (file_bytes r, nat (file_offset r) + unat off + 0) m"
    by (rule read_table_local [where n = "m * w"]) (use dec sl in \<open>simp_all add: mult.commute\<close>)
  with tab have "read_table dec w (file_bytes r, nat (file_offset r) + unat off) m = Some t" by simp
  from read_table_nth [OF this]
  show "length t = m" "\<forall>i < m. dec (file_bytes r) (nat (file_offset r) + unat off + w * i) = Some (t ! i)" by blast+
  have "file_offset r + int (unat off) + int (m * w) \<le> file_size r"
    using range unfolding checked_range [OF env(1) fl(1,2)] by blast
  then have "int (nat (file_offset r) + unat off + w * m) \<le> file_size r"
    using fl(1) by (simp add: mult.commute)
  then show "nat (file_offset r) + unat off + w * m \<le> nat (file_size r)" by linarith
qed

lemma program_headers_read:
  assumes env: "safe_add env = add" "map_fragment env = map_file" "elf_class env = cls"
    and fl: "0 \<le> file_offset r" "file_size r < 2 ^ 63" "file_size r \<le> int (length (file_bytes r))"
    and run: "ReadProgramHeaders env r = Inr r'"
  shows "\<exists>n t. r' = r\<lparr>phdr_num := n, phdr_table := t\<rparr> \<and> 0 < n \<and> length t = n \<and>
    nat (file_offset r) + unat (e_phoff (header r)) + class_sizeof_phdr cls * n \<le> nat (file_size r) \<and>
    (\<forall>i < n. class_dec_phdr cls (file_bytes r) (nat (file_offset r) + unat (e_phoff (header r)) + class_sizeof_phdr cls * i)
       = Some (t ! i))"
proof -
  let ?n = "unat (e_phnum (header r))"
  from run obtain d t where
    "0 < ?n" and range: "CheckFileRange env r (e_phoff (header r)) (?n * class_sizeof_phdr cls) (class_align cls)"
    and map: "map_fragment env (file_bytes r) (file_offset r) (unat (e_phoff (header r))) (?n * class_sizeof_phdr cls) = Some d"
    and tab: "read_table (class_dec_phdr cls) (class_sizeof_phdr cls) (d, 0) ?n = Some t"
    and r': "r' = r\<lparr>phdr_num := ?n, phdr_table := t\<rparr>"
    by (auto simp: ReadProgramHeaders_def Let_def env(3) split: if_splits option.splits)
  have "\<forall>f a n d k. slice f a n = Some d \<longrightarrow> k + class_sizeof_phdr cls \<le> n \<longrightarrow>
      class_dec_phdr cls d k = class_dec_phdr cls f (a + k)"
    using phdr_local by blast
  from mapped_table [OF env(1,2) fl range map this tab] \<open>0 < ?n\<close> r' show ?thesis by blast
qed

lemma section_headers_read:
  assumes env: "safe_add env = add" "map_fragment env = map_file" "elf_class env = cls"
    and fl: "0 \<le> file_offset r" "file_size r < 2 ^ 63" "file_size r \<le> int (length (file_bytes r))"
    and run: "ReadSectionHeaders env r = Inr r'"
  shows "\<exists>n t. r' = r\<lparr>shdr_num := n, shdr_table := t\<rparr> \<and> 0 < n \<and> length t = n \<and>
    nat (file_offset r) + unat (e_shoff (header r)) + class_sizeof_shdr cls * n \<le> nat (file_size r) \<and>
    (\<forall>i < n. class_dec_shdr cls (file_bytes r) (nat (file_offset r) + unat (e_shoff (header r)) + class_sizeof_shdr cls * i)
       = Some (t ! i))"
proof -
  let ?n = "unat (e_shnum (header r))"
  from run obtain d t where
    "0 < ?n" and range: "CheckFileRange env r (e_shoff (header r)) (?n * class_sizeof_shdr cls) (class_align cls)"
    and map: "map_fragment env (file_bytes r) (file_offset r) (unat (e_shoff (header r))) (?n * class_sizeof_shdr cls) = Some d"
    and tab: "read_table (class_dec_shdr cls) (class_sizeof_shdr cls) (d, 0) ?n = Some t"
    and r': "r' = r\<lparr>shdr_num := ?n, shdr_table := t\<rparr>"
    by (auto simp: ReadSectionHeaders_def Let_def env(3) split: if_splits option.splits)
  have "\<forall>f a n d k. slice f a n = Some d \<longrightarrow> k + class_sizeof_shdr cls \<le> n \<longrightarrow>
      class_dec_shdr cls d k = class_dec_shdr cls f (a + k)"
    using shdr_local by blast
  from mapped_table [OF env(1,2) fl range map this tab] \<open>0 < ?n\<close> r' show ?thesis by blast
qed

lemma dynamic_section_read:
  assumes env: "safe_add env = add" "map_fragment env = map_file"
    and fl: "0 \<le> file_offset r" "file_size r < 2 ^ 63" "file_size r \<le> int (length (file_bytes r))"
    and run: "ReadDynamicSection env r = Inr r'"
  shows "(\<exists>ws dd sd n. r' = r\<lparr>warnings := ws, dynamic := dd, strtab := sd, strtab_size := n\<rparr>) \<and> strings_in_file env r'"
proof -
  from run obtain dyn where find: "List.find (\<lambda>s. sh_type s = SHT_DYNAMIC) (shdr_table r) = Some dyn"
    by (auto simp: ReadDynamicSection_def split: option.splits)
  obtain po ps where pt: "pt_dynamic_range (phdr_table r) = (po, ps)" by (cases "pt_dynamic_range (phdr_table r)")
  let ?str = "shdr_table r ! unat (sh_link dyn)"
  from run obtain r1 r2 where
    one: "enforced_at_26 env (po \<noteq> sh_offset dyn) DynamicOffsetMismatch WarnInvalidDynamic r = Inr r1"
    and two: "enforced_at_26 env (snd (pt_dynamic_range (phdr_table r1)) \<noteq> sh_size dyn)
        DynamicSizeMismatch WarnInvalidDynamic r1 = Inr r2"
    and body: "MapDynamic env dyn r2 = Inr r'"
    by (simp add: ReadDynamicSection_def find pt bind_sum_Inr_iff) blast
  have "phdr_table r1 = phdr_table r" using one by (auto simp: enforced_Inr_iff warn_def)
  note two = two [unfolded this pt snd_conv]
  from body obtain dd sd where
    link: "unat (sh_link dyn) < shdr_num r2" "sh_type (shdr_table r2 ! unat (sh_link dyn)) = SHT_STRTAB"
    and dr: "CheckFileRange env r2 (sh_offset dyn) (unat (sh_size dyn)) (class_align (elf_class env))"
    and dm: "map_fragment env (file_bytes r2) (file_offset r2) (unat (sh_offset dyn)) (unat (sh_size dyn)) = Some dd"
    and sr: "CheckFileRange env r2 (sh_offset (shdr_table r2 ! unat (sh_link dyn)))
          (unat (sh_size (shdr_table r2 ! unat (sh_link dyn)))) 1"
    and sm: "map_fragment env (file_bytes r2) (file_offset r2) (unat (sh_offset (shdr_table r2 ! unat (sh_link dyn))))
          (unat (sh_size (shdr_table r2 ! unat (sh_link dyn)))) = Some sd"
    and r': "r' = r2\<lparr>dynamic := Some dd, strtab := Some sd, strtab_size := length sd\<rparr>"
    by (auto simp: MapDynamic_def Let_def not_le split: if_splits option.splits)
  obtain ws1 ws where "r1 = r\<lparr>warnings := ws1\<rparr>" "r2 = r1\<lparr>warnings := ws\<rparr>"
    using enforced_frame [OF one] enforced_frame [OF two] by blast
  then have r2: "r2 = r\<lparr>warnings := ws\<rparr>" by simp
  have fl2: "0 \<le> file_offset r2" "file_size r2 < 2 ^ 63" "file_size r2 \<le> int (length (file_bytes r2))"
    using fl by (simp_all add: r2)
  have ds: "slice (file_bytes r) (nat (file_offset r) + unat (sh_offset dyn)) (unat (sh_size dyn)) = Some dd"
    using mapped_range [OF env fl2 dr dm] by (simp add: r2)
  have ss: "slice (file_bytes r) (nat (file_offset r) + unat (sh_offset ?str)) (unat (sh_size ?str)) = Some sd"
    using mapped_range [OF env fl2 sr sm] by (simp add: r2)
  have "target_sdk env \<ge> 26 \<longrightarrow> (po, ps) = (sh_offset dyn, sh_size dyn)"
    using one two by (auto simp: enforced_Inr_iff)
  moreover have "dyn \<in> set (shdr_table r)" "sh_type dyn = SHT_DYNAMIC"
    using find by (auto simp: find_Some_iff)
  ultimately have facts: "dyn \<in> set (shdr_table r')" "sh_type dyn = SHT_DYNAMIC"
      "unat (sh_link dyn) < shdr_num r'" "?str = shdr_table r' ! unat (sh_link dyn)" "sh_type ?str = SHT_STRTAB"
      "slice (file_bytes r') (nat (file_offset r') + unat (sh_offset dyn)) (unat (sh_size dyn)) = dynamic r'"
      "slice (file_bytes r') (nat (file_offset r') + unat (sh_offset ?str)) (unat (sh_size ?str)) = strtab r'"
      "dynamic r' \<noteq> None" "strtab r' \<noteq> None" "strtab_size r' = unat (sh_size ?str)"
      "target_sdk env \<ge> 26 \<longrightarrow> pt_dynamic_range (phdr_table r') = (sh_offset dyn, sh_size dyn)"
    using ds ss slice_length [OF ss] link pt by (simp_all add: r' r2)
  then have "strings_in_file env r'" unfolding strings_in_file_def by blast
  then show ?thesis by (auto simp: r' r2)
qed

lemma read_establishes:
  assumes env: "safe_add env = add" "map_fragment env = map_file" "elf_class env = cls"
    and arg: "\<not> did_read r" "0 \<le> off" "fs < 2 ^ 63" "fs \<le> int (length bytes)"
    and run: "Read env r bytes off fs = Inr r'"
  shows "did_read r' \<and> file_bytes r' = bytes \<and> tables_in_file env r' \<and> strings_in_file env r'"
proof -
  let ?r = "r\<lparr>file_bytes := bytes, file_offset := off, file_size := fs\<rparr>"
  from run arg(1) obtain r1 r2 r3 r4 r5 where
    h: "ReadElfHeader env ?r = Inr r1" and v: "VerifyElfHeader env r1 = Inr r2"
    and p: "ReadProgramHeaders env r2 = Inr r3" and sc: "ReadSectionHeaders env r3 = Inr r4"
    and dy: "ReadDynamicSection env r4 = Inr r5" and r': "r' = r5\<lparr>did_read := True\<rparr>"
    by (auto simp: Read_def bind_sum_Inr_iff)
  obtain hd where r1: "r1 = ?r\<lparr>header := hd\<rparr>"
    using h by (auto simp: ReadElfHeader_def split: if_splits option.splits)
  obtain ws where r2: "r2 = ?r\<lparr>header := hd, warnings := ws\<rparr>"
    using verify_Inr [OF v] by (auto simp: r1)
  have "0 \<le> file_offset r2" "file_size r2 < 2 ^ 63" "file_size r2 \<le> int (length (file_bytes r2))"
    using arg by (simp_all add: r2)
  from program_headers_read [OF env this p] obtain n t where
    r3: "r3 = r2\<lparr>phdr_num := n, phdr_table := t\<rparr>" and ph: "0 < n" "length t = n"
      "nat (file_offset r2) + unat (e_phoff (header r2)) + class_sizeof_phdr cls * n \<le> nat (file_size r2)"
      "\<forall>i < n. class_dec_phdr cls (file_bytes r2) (nat (file_offset r2) + unat (e_phoff (header r2)) + class_sizeof_phdr cls * i)
         = Some (t ! i)" by blast
  have "0 \<le> file_offset r3" "file_size r3 < 2 ^ 63" "file_size r3 \<le> int (length (file_bytes r3))"
    using arg by (simp_all add: r3 r2)
  from section_headers_read [OF env this sc] obtain m u where
    r4: "r4 = r3\<lparr>shdr_num := m, shdr_table := u\<rparr>" and sh: "0 < m" "length u = m"
      "nat (file_offset r3) + unat (e_shoff (header r3)) + class_sizeof_shdr cls * m \<le> nat (file_size r3)"
      "\<forall>i < m. class_dec_shdr cls (file_bytes r3) (nat (file_offset r3) + unat (e_shoff (header r3)) + class_sizeof_shdr cls * i)
         = Some (u ! i)" by blast
  have "0 \<le> file_offset r4" "file_size r4 < 2 ^ 63" "file_size r4 \<le> int (length (file_bytes r4))"
    using arg by (simp_all add: r4 r3 r2)
  from dynamic_section_read [OF env(1,2) this dy] obtain ws' dd sd k where
    r5: "r5 = r4\<lparr>warnings := ws', dynamic := dd, strtab := sd, strtab_size := k\<rparr>" and st: "strings_in_file env r5"
    by blast
  have "strings_in_file env r'" using st by (simp add: r' strings_in_file_def)
  moreover have "tables_in_file env r'"
    using ph sh by (simp add: tables_in_file_def Let_def r' r5 r4 r3 r2 env(3))
  ultimately show ?thesis by (simp add: r' r5 r4 r3 r2)
qed

end

interpretation plain32: elf_reading safe_add64 map_slice class32 ..

interpretation plain64: elf_reading safe_add64 map_slice class64 ..

text \<open>
  C32. When the reader accepts a library, every program and section header it keeps is the structure
  at its place in the file, the two tables lie inside the file, the dynamic section and its string
  table are the bytes of the sections that describe them, and from API level 26 on \<open>PT_DYNAMIC\<close>
  describes the same bytes.
\<close>

theorem read_keeps_file_tables:
  assumes "file_access (safe_add env) (map_fragment env)" "class_layout (elf_class env)"
    and "\<not> did_read r" "0 \<le> off" "fs < 2 ^ 63" "fs \<le> int (length bytes)"
    and "Read env r bytes off fs = Inr r'"
  shows "did_read r' \<and> file_bytes r' = bytes \<and> tables_in_file env r' \<and> strings_in_file env r'"
proof -
  have "elf_reading (safe_add env) (map_fragment env) (elf_class env)"
    using assms(1,2) by (rule elf_reading.intro)
  from elf_reading.read_establishes [OF this refl refl refl assms(3-7)] show ?thesis .
qed

text \<open>
  A range that passes \<open>CheckFileRange\<close> is not empty space at the start, lies inside the file and
  is aligned, and the check rejects nothing else: no addition wraps.
\<close>

theorem checked_range_iff:
  assumes "file_access (safe_add env) (map_fragment env)" "0 \<le> file_offset r" "file_size r < 2 ^ 63"
  shows "CheckFileRange env r off n al \<longleftrightarrow>
    0 < off \<and> file_offset r + int (unat off) < file_size r \<and>
    file_offset r + int (unat off) + int n \<le> file_size r \<and> al dvd unat off"
  by (rule file_access.checked_range [OF assms(1) refl assms(2,3)])

end
