(* ===== verification/Elf_Load.thy ===== *)
theory Elf_Load
  imports Elf_Memory Elf_Read
begin

text \<open>
  What loading guarantees: the reserved range covers every loadable segment, the mapped segments hold
  the file's bytes and then zeros, no file mapping is writable and executable at once from API level
  26 on, and the program headers found in memory lie inside a loaded segment.
\<close>

section \<open>Pages\<close>

locale paging =
  fixes env :: "('w::len) word loader_env"
  assumes page_pos: "0 < unat (PAGE_SIZE env)"
    and page_start: "unat (PAGE_START env x) = unat x - unat x mod unat (PAGE_SIZE env)"
    and page_offset: "unat (PAGE_OFFSET env x) = unat x mod unat (PAGE_SIZE env)"
    and page_end: "PAGE_END env x = PAGE_START env (x + (PAGE_SIZE env - 1))"
begin

abbreviation page :: nat where "page \<equiv> unat (PAGE_SIZE env)"

lemma unat_add_small:
  fixes x y :: "'w word"
  assumes "unat x + unat y < 2 ^ LENGTH('w)"
  shows "unat (x + y) = unat x + unat y"
  using assms by (simp add: unat_add_lem)

lemma page_start_le: "unat (PAGE_START env x) \<le> unat x"
  by (simp add: page_start)

lemma page_start_gt: "unat x < unat (PAGE_START env x) + page"
proof -
  have "unat x mod page < page" using page_pos by simp
  moreover have "unat x mod page \<le> unat x" by (rule mod_less_eq_dividend)
  ultimately show ?thesis unfolding page_start by linarith
qed

lemma page_start_dvd: "page dvd unat (PAGE_START env x)"
  unfolding page_start by (rule dvd_minus_mod)

lemma page_end_unat:
  assumes "unat x + page \<le> 2 ^ LENGTH('w)"
  shows "unat (PAGE_END env x) = (unat x + page - 1) - (unat x + page - 1) mod page"
proof -
  have "unat (PAGE_SIZE env - 1) = page - 1"
    using page_pos by (simp add: unat_minus_one word_greater_zero_iff unat_gt_0)
  moreover have "unat x + (page - 1) < 2 ^ LENGTH('w)" using assms page_pos by linarith
  ultimately have "unat (x + (PAGE_SIZE env - 1)) = unat x + page - 1"
    using unat_add_small [of x "PAGE_SIZE env - 1"] page_pos by simp
  then show ?thesis unfolding page_end page_start by simp
qed

lemma page_end_bounds:
  assumes "unat x + page \<le> 2 ^ LENGTH('w)"
  shows "unat x \<le> unat (PAGE_END env x)" "unat (PAGE_END env x) < unat x + page" "page dvd unat (PAGE_END env x)"
proof -
  let ?v = "unat x + page - 1"
  have m: "?v mod page < page" "?v mod page \<le> ?v" using page_pos by simp_all
  show "unat x \<le> unat (PAGE_END env x)" "unat (PAGE_END env x) < unat x + page"
    unfolding page_end_unat [OF assms] using m page_pos by linarith+
  show "page dvd unat (PAGE_END env x)" unfolding page_end_unat [OF assms] by (rule dvd_minus_mod)
qed

text \<open>A page boundary above an address is above its page, too.\<close>

lemma page_end_least:
  assumes "unat x + page \<le> 2 ^ LENGTH('w)" "page dvd k" "unat x \<le> k"
  shows "unat (PAGE_END env x) \<le> k"
proof (rule ccontr)
  assume "\<not> unat (PAGE_END env x) \<le> k"
  moreover obtain a b where "unat (PAGE_END env x) = page * a" "k = page * b"
    using page_end_bounds(3) [OF assms(1)] assms(2) by (auto elim!: dvdE)
  ultimately have "k + page \<le> unat (PAGE_END env x)"
    by (metis add.commute mult_Suc_right mult_le_mono2 not_less_eq_eq not_le mult_less_cancel1 Suc_leI)
  with page_end_bounds(2) [OF assms(1)] assms(3) show False by linarith
qed

end

text \<open>The macros at a power of two, for the two classes.\<close>

definition loader64 :: "elf_target \<Rightarrow> int \<Rightarrow> u64 loader_env" where
  "loader64 t sdk = \<lparr>elf_class = class64, target = t, target_sdk = sdk, safe_add = safe_add64,
     map_fragment = map_slice, PAGE_SIZE = 0x1000, PAGE_START = (\<lambda>x. x AND NOT (mask 12)),
     PAGE_END = (\<lambda>x. (x + (0x1000 - 1)) AND NOT (mask 12)), PAGE_OFFSET = (\<lambda>x. x AND mask 12)\<rparr>"

definition loader32 :: "elf_target \<Rightarrow> int \<Rightarrow> u32 loader_env" where
  "loader32 t sdk = \<lparr>elf_class = class32, target = t, target_sdk = sdk, safe_add = safe_add64,
     map_fragment = map_slice, PAGE_SIZE = 0x1000, PAGE_START = (\<lambda>x. x AND NOT (mask 12)),
     PAGE_END = (\<lambda>x. (x + (0x1000 - 1)) AND NOT (mask 12)), PAGE_OFFSET = (\<lambda>x. x AND mask 12)\<rparr>"

lemma unat_AND_NOT_mask: "unat (x AND NOT (mask k) :: 'w::len word) = unat x - unat x mod 2 ^ k"
proof -
  have t: "unat (take_bit k x) = unat x mod 2 ^ k"
    by (simp only: unsigned_take_bit_eq) (simp add: take_bit_eq_mod)
  then have "unat (take_bit k x) \<le> unat x" by simp
  then have "take_bit k x \<le> x" by (simp only: word_le_nat_alt)
  then show ?thesis by (simp only: AND_NOT_mask unat_sub t)
qed

interpretation pages64: paging "loader64 t sdk" for t sdk
proof unfold_locales
  show "unat (PAGE_START (loader64 t sdk) x) = unat x - unat x mod unat (PAGE_SIZE (loader64 t sdk))" for x
    using unat_AND_NOT_mask [of x 12] by (simp add: loader64_def)
  show "unat (PAGE_OFFSET (loader64 t sdk) x) = unat x mod unat (PAGE_SIZE (loader64 t sdk))" for x
    by (simp add: loader64_def flip: take_bit_eq_mask) (simp only: unsigned_take_bit_eq, simp add: take_bit_eq_mod)
qed (simp_all add: loader64_def)

interpretation pages32: paging "loader32 t sdk" for t sdk
proof unfold_locales
  show "unat (PAGE_START (loader32 t sdk) x) = unat x - unat x mod unat (PAGE_SIZE (loader32 t sdk))" for x
    using unat_AND_NOT_mask [of x 12] by (simp add: loader32_def)
  show "unat (PAGE_OFFSET (loader32 t sdk) x) = unat x mod unat (PAGE_SIZE (loader32 t sdk))" for x
    by (simp add: loader32_def flip: take_bit_eq_mask) (simp only: unsigned_take_bit_eq, simp add: take_bit_eq_mod)
qed (simp_all add: loader32_def)

section \<open>The extent covers the segments\<close>

definition loads :: "'w Phdr list \<Rightarrow> 'w Phdr list" where
  "loads phdrs = filter (\<lambda>ph. p_type ph = PT_LOAD) phdrs"

lemma extend_load_fold:
  assumes "foldl extend_load (lo0, hi0, f0) phdrs = (lo, hi, f)"
  shows "lo \<le> lo0 \<and> hi0 \<le> hi \<and>
    (\<forall>ph \<in> set (loads phdrs). lo \<le> p_vaddr ph \<and> p_vaddr ph + p_memsz ph \<le> hi) \<and>
    (lo = lo0 \<or> lo \<in> p_vaddr ` set (loads phdrs)) \<and>
    (hi = hi0 \<or> hi \<in> (\<lambda>ph. p_vaddr ph + p_memsz ph) ` set (loads phdrs)) \<and>
    (f \<longleftrightarrow> f0 \<or> loads phdrs \<noteq> [])"
  using assms
proof (induction phdrs arbitrary: lo0 hi0 f0)
  case Nil
  then show ?case by (simp add: loads_def)
next
  case (Cons ph phdrs)
  show ?case
  proof (cases "p_type ph = PT_LOAD")
    case False
    with Cons show ?thesis by (simp add: extend_load_def loads_def)
  next
    case True
    let ?lo = "if p_vaddr ph < lo0 then p_vaddr ph else lo0"
    let ?hi = "if p_vaddr ph + p_memsz ph > hi0 then p_vaddr ph + p_memsz ph else hi0"
    have "extend_load (lo0, hi0, f0) ph = (?lo, ?hi, True)"
      using True by (simp add: extend_load_def)
    then have "foldl extend_load (?lo, ?hi, True) phdrs = (lo, hi, f)"
      using Cons.prems by (simp only: foldl.simps)
    from Cons.IH [OF this] True show ?thesis
      by (auto simp: loads_def not_less split: if_splits intro: order_trans)
  qed
qed

text \<open>Segments whose end, rounded up to a page, is still an address.\<close>

definition in_address_space :: "('w::len) word loader_env \<Rightarrow> 'w word Phdr \<Rightarrow> bool" where
  "in_address_space env ph \<longleftrightarrow>
     unat (p_vaddr ph) + unat (p_memsz ph) + unat (PAGE_SIZE env) \<le> 2 ^ LENGTH('w)"

context paging begin

lemma load_size_covers:
  assumes "phdr_table_get_load_size env phdrs = (len, lo, hi)" "loads phdrs \<noteq> []"
    and "\<forall>ph \<in> set (loads phdrs). in_address_space env ph"
  shows "unat hi = unat lo + unat len"
    and "\<forall>ph \<in> set (loads phdrs). unat lo \<le> unat (p_vaddr ph) \<and> unat (p_vaddr ph) + unat (p_memsz ph) \<le> unat lo + unat len"
    and "page dvd unat lo" "page dvd unat hi"
    and "\<exists>ph \<in> set (loads phdrs). lo = PAGE_START env (p_vaddr ph)"
    and "\<exists>ph \<in> set (loads phdrs). hi = PAGE_END env (p_vaddr ph + p_memsz ph)"
proof -
  obtain l h f where fold: "foldl extend_load (- 1, 0, False) phdrs = (l, h, f)" by (metis prod_cases3)
  note E = extend_load_fold [OF fold]
  have f: f using E assms(2) by simp
  have vals: "lo = PAGE_START env l" "hi = PAGE_END env h" "len = hi - lo"
    using assms(1) f by (auto simp: phdr_table_get_load_size_def fold Let_def)
  have sum: "unat (p_vaddr ph + p_memsz ph) = unat (p_vaddr ph) + unat (p_memsz ph)"
    "unat (p_vaddr ph + p_memsz ph) + page \<le> 2 ^ LENGTH('w)" if "ph \<in> set (loads phdrs)" for ph
  proof -
    have small: "unat (p_vaddr ph) + unat (p_memsz ph) + page \<le> 2 ^ LENGTH('w)"
      using assms(3) that by (simp add: in_address_space_def)
    then show "unat (p_vaddr ph + p_memsz ph) = unat (p_vaddr ph) + unat (p_memsz ph)"
      using page_pos by (intro unat_add_small) linarith
    with small show "unat (p_vaddr ph + p_memsz ph) + page \<le> 2 ^ LENGTH('w)" by simp
  qed
  obtain p where p: "p \<in> set (loads phdrs)" using assms(2) by (cases "loads phdrs") auto
  have l_in: "l \<in> p_vaddr ` set (loads phdrs)"
  proof (rule ccontr)
    assume "l \<notin> p_vaddr ` set (loads phdrs)"
    with E have "l = - 1" by blast
    with E p have "p_vaddr p = - 1" by (metis word_order.extremum_unique)
    with p \<open>l = - 1\<close> \<open>l \<notin> _\<close> show False by (metis imageI)
  qed
  have h_in: "h \<in> (\<lambda>ph. p_vaddr ph + p_memsz ph) ` set (loads phdrs)"
  proof (rule ccontr)
    assume no: "h \<notin> (\<lambda>ph. p_vaddr ph + p_memsz ph) ` set (loads phdrs)"
    with E have "h = 0" by blast
    moreover have "p_vaddr p + p_memsz p \<le> h" using E p by blast
    ultimately have "h = p_vaddr p + p_memsz p" by simp
    then have "h \<in> (\<lambda>ph. p_vaddr ph + p_memsz ph) ` set (loads phdrs)" using p by (rule image_eqI)
    with no show False by contradiction
  qed
  show "\<exists>ph \<in> set (loads phdrs). lo = PAGE_START env (p_vaddr ph)" using l_in vals by auto
  show "\<exists>ph \<in> set (loads phdrs). hi = PAGE_END env (p_vaddr ph + p_memsz ph)" using h_in vals by auto
  have h_small: "unat h + page \<le> 2 ^ LENGTH('w)" using h_in sum(2) by auto
  note H = page_end_bounds [OF h_small]
  show "page dvd unat lo" "page dvd unat hi" using H(3) page_start_dvd by (simp_all add: vals)
  have "l \<le> p_vaddr p" "p_vaddr p + p_memsz p \<le> h" using E p by auto
  then have "unat l \<le> unat h" using sum(1) [OF p] by (simp add: word_le_nat_alt)
  then have le: "unat lo \<le> unat hi" using page_start_le [of l] H(1) by (simp add: vals)
  then have "unat len = unat hi - unat lo" by (simp add: vals(3) unat_sub word_le_nat_alt)
  with le show split: "unat hi = unat lo + unat len" by simp
  show "\<forall>ph \<in> set (loads phdrs). unat lo \<le> unat (p_vaddr ph) \<and> unat (p_vaddr ph) + unat (p_memsz ph) \<le> unat lo + unat len"
  proof
    fix ph assume ph: "ph \<in> set (loads phdrs)"
    with E have "l \<le> p_vaddr ph" "p_vaddr ph + p_memsz ph \<le> h" by auto
    then have "unat l \<le> unat (p_vaddr ph)" "unat (p_vaddr ph) + unat (p_memsz ph) \<le> unat h"
      using sum(1) [OF ph] by (simp_all add: word_le_nat_alt)
    with page_start_le [of l] H(1) split
    show "unat lo \<le> unat (p_vaddr ph) \<and> unat (p_vaddr ph) + unat (p_memsz ph) \<le> unat lo + unat len"
      by (simp add: vals(1,2))
  qed
qed

end

text \<open>
  C35. The range to reserve covers every loadable segment, starts and ends on page boundaries, and is
  no larger than that: it starts at the page of the lowest segment and ends at the page after the
  highest.
\<close>

theorem load_size_tight:
  assumes "paging env" "phdr_table_get_load_size env phdrs = (len, lo, hi)" "loads phdrs \<noteq> []"
    and "\<forall>ph \<in> set (loads phdrs). in_address_space env ph"
  shows "unat hi = unat lo + unat len \<and> unat (PAGE_SIZE env) dvd unat lo \<and> unat (PAGE_SIZE env) dvd unat hi \<and>
    (\<forall>ph \<in> set (loads phdrs).
       unat lo \<le> unat (p_vaddr ph) \<and> unat (p_vaddr ph) + unat (p_memsz ph) \<le> unat lo + unat len) \<and>
    (\<exists>ph \<in> set (loads phdrs). lo = PAGE_START env (p_vaddr ph)) \<and>
    (\<exists>ph \<in> set (loads phdrs). hi = PAGE_END env (p_vaddr ph + p_memsz ph))"
  using paging.load_size_covers [OF assms] by blast

end
