(* ===== verification/Elf_Image.thy ===== *)
theory Elf_Image
  imports Elf_Load
begin

text \<open>
  The memory image: what the calls of \<open>LoadSegments\<close> do to memory, and that afterwards each loadable
  segment holds its file bytes, followed by zeros, with the protection its flags ask for.
\<close>

section \<open>Memory\<close>

type_synonym cells = "nat \<Rightarrow> (byte \<times> prot) option"

text \<open>A file mapping shows the file up to the end of its last page, zeros past the end of the file.\<close>

definition byte_at :: "byte list \<Rightarrow> nat \<Rightarrow> byte" where
  "byte_at f n = (if n < length f then f ! n else 0)"

fun apply_call :: "nat \<Rightarrow> byte list \<Rightarrow> ('w::len) word call \<Rightarrow> cells \<Rightarrow> cells" where
  "apply_call p f (MapFile a n pr off) m = (\<lambda>x. if unat a \<le> x \<and> x < round_up p (unat a + unat n)
      then Some (byte_at f (nat off + (x - unat a)), pr) else m x)"
| "apply_call p f (MapZero a n pr) m = (\<lambda>x. if unat a \<le> x \<and> x < round_up p (unat a + unat n) then Some (0, pr) else m x)"
| "apply_call p f (Memset a n) m = (\<lambda>x. if unat a \<le> x \<and> x < unat a + unat n then map_option (\<lambda>(b, pr). (0, pr)) (m x) else m x)"
| "apply_call p f (Warned w) m = m"
| "apply_call p f (AdviseHuge a n) m = m"
| "apply_call p f (NameVma a n) m = m"
| "apply_call p f (Mprotect a n pr) m = (\<lambda>x. if unat a \<le> x \<and> x < round_up p (unat a + unat n)
      then map_option (\<lambda>(b, _). (b, pr)) (m x) else m x)"
| "apply_call p f (Reserve n) m = m"
| "apply_call p f (Munmap a n) m = (\<lambda>x. if unat a \<le> x \<and> x < round_up p (unat a + unat n) then None else m x)"

definition apply_calls :: "nat \<Rightarrow> byte list \<Rightarrow> ('w::len) word call list \<Rightarrow> cells \<Rightarrow> cells" where
  "apply_calls p f cs m = fold (apply_call p f) cs m"

lemma apply_calls_append: "apply_calls p f (cs @ ds) m = apply_calls p f ds (apply_calls p f cs m)"
  by (simp add: apply_calls_def)

section \<open>One segment\<close>

text \<open>What the format asks of a loadable segment, and the room its addresses need.\<close>

definition segment_ok :: "('w::len) word loader_env \<Rightarrow> 'w word elf_reader \<Rightarrow> 'w word Phdr \<Rightarrow> bool" where
  "segment_ok env r ph \<longleftrightarrow>
     unat (p_filesz ph) \<le> unat (p_memsz ph) \<and>
     unat (p_vaddr ph + load_bias r) + unat (p_memsz ph) + unat (PAGE_SIZE env) \<le> 2 ^ LENGTH('w) \<and>
     unat (p_offset ph) + unat (p_filesz ph) < 2 ^ LENGTH('w) \<and>
     unat (p_vaddr ph + load_bias r) mod unat (PAGE_SIZE env) = unat (p_offset ph) mod unat (PAGE_SIZE env)"

definition seg_at :: "('w::len) word elf_reader \<Rightarrow> 'w word Phdr \<Rightarrow> nat" where
  "seg_at r ph = unat (p_vaddr ph + load_bias r)"

text \<open>The image of a segment in memory.\<close>

definition segment_in_memory :: "('w::len) word loader_env \<Rightarrow> 'w word elf_reader \<Rightarrow> 'w word Phdr \<Rightarrow> cells \<Rightarrow> bool" where
  "segment_in_memory env r ph m \<longleftrightarrow>
     (\<forall>k < unat (p_filesz ph). m (seg_at r ph + k)
        = Some (byte_at (file_bytes r) (nat (file_offset r) + unat (p_offset ph) + k), PFLAGS_TO_PROT (p_flags ph))) \<and>
     (\<forall>k. unat (p_filesz ph) \<le> k \<and> k < unat (p_memsz ph) \<and>
          (p_flags ph AND PF_W \<noteq> 0 \<or> round_up (unat (PAGE_SIZE env)) (seg_at r ph + unat (p_filesz ph)) \<le> seg_at r ph + k) \<longrightarrow>
        m (seg_at r ph + k) = Some (0, PFLAGS_TO_PROT (p_flags ph)))"

definition segment_pages :: "('w::len) word loader_env \<Rightarrow> 'w word elf_reader \<Rightarrow> 'w word Phdr \<Rightarrow> nat set" where
  "segment_pages env r ph =
     {seg_at r ph - seg_at r ph mod unat (PAGE_SIZE env) ..<
      round_up (unat (PAGE_SIZE env)) (seg_at r ph + unat (p_memsz ph))}"

lemma round_up_gap:
  assumes "0 < p" "n mod p \<noteq> 0"
  shows "round_up p n = n + (p - n mod p)"
proof -
  have le: "n mod p < p" using assms(1) by simp
  have split: "p * (n div p) = n - n mod p" "n mod p \<le> n" by (simp_all add: minus_mod_eq_mult_div)
  then have next_page: "n + (p - n mod p) = p * (n div p + 1)"
    using le unfolding add_mult_distrib2 nat_mult_1_right by linarith
  then have "p dvd n + (p - n mod p)" by (simp only: dvd_triv_left)
  then have "round_up p n \<le> n + (p - n mod p)" by (rule round_up_least [OF assms(1) _ le_add1])
  moreover have "n + (p - n mod p) \<le> round_up p n"
  proof (rule ccontr)
    assume c: "\<not> n + (p - n mod p) \<le> round_up p n"
    obtain q where q: "round_up p n = p * q" using round_up_bounds(3) [OF assms(1)] by (auto elim: dvdE)
    have "p * q < p * (n div p + 1)" using c unfolding q next_page by simp
    then have "q < n div p + 1" by (simp only: mult_less_cancel1)
    then have "q \<le> n div p" by simp
    then have "p * q \<le> p * (n div p)" by simp
    also have "\<dots> < n" using assms(2) split by linarith
    finally show False using round_up_bounds(1) [OF assms(1), of n] q by simp
  qed
  ultimately show ?thesis by simp
qed

section \<open>The calls of one segment\<close>

context paging begin

lemma page_end_round_up:
  "unat x + page \<le> 2 ^ LENGTH('w) \<Longrightarrow> unat (PAGE_END env x) = round_up page (unat x)"
  by (simp add: page_end_unat round_up_def)

text \<open>The addresses of a segment as numbers.\<close>

lemma segment_addresses:
  fixes r :: "'w word elf_reader"
  assumes ok: "segment_ok env r ph"
  defines "S \<equiv> seg_at r ph" and "F \<equiv> unat (p_filesz ph)" and "M \<equiv> unat (p_memsz ph)"
    and "start \<equiv> p_vaddr ph + load_bias r" and "first \<equiv> PAGE_START env (p_offset ph)"
  shows "unat (start + p_filesz ph) = S + F"
    and "unat (PAGE_END env (start + p_filesz ph)) = round_up page (S + F)"
    and "unat (PAGE_END env (start + p_memsz ph)) = round_up page (S + M)"
    and "unat (PAGE_START env start) = S - S mod page"
    and "unat first = unat (p_offset ph) - S mod page" "S mod page \<le> unat (p_offset ph)"
    and "unat (p_offset ph + p_filesz ph - first) = S mod page + F"
    and "unat (PAGE_OFFSET env (start + p_filesz ph)) = (S + F) mod page"
    and "unat (PAGE_SIZE env - PAGE_OFFSET env (start + p_filesz ph)) = page - (S + F) mod page"
proof -
  have FM: "F \<le> M" and room: "S + M + page \<le> 2 ^ LENGTH('w)"
    and froom: "unat (p_offset ph) + F < 2 ^ LENGTH('w)" and cong: "S mod page = unat (p_offset ph) mod page"
    using ok by (simp_all add: segment_ok_def S_def F_def M_def seg_at_def)
  show fe: "unat (start + p_filesz ph) = S + F"
    using FM room page_pos unat_add_small [of start "p_filesz ph"] by (simp add: S_def F_def seg_at_def start_def)
  have se: "unat (start + p_memsz ph) = S + M"
    using room page_pos unat_add_small [of start "p_memsz ph"] by (simp add: S_def M_def seg_at_def start_def)
  show "unat (PAGE_END env (start + p_filesz ph)) = round_up page (S + F)"
    and "unat (PAGE_END env (start + p_memsz ph)) = round_up page (S + M)"
    using page_end_round_up [of "start + p_filesz ph"] page_end_round_up [of "start + p_memsz ph"] FM room
    by (simp_all add: fe se)
  show "unat (PAGE_START env start) = S - S mod page" by (simp add: page_start S_def seg_at_def start_def)
  show fps: "unat first = unat (p_offset ph) - S mod page" by (simp add: page_start cong first_def)
  show om: "S mod page \<le> unat (p_offset ph)" by (simp add: cong)
  have "unat (p_offset ph + p_filesz ph) = unat (p_offset ph) + F" using froom by (simp add: unat_add_small F_def)
  then show "unat (p_offset ph + p_filesz ph - first) = S mod page + F"
    using om by (simp add: unat_sub word_le_nat_alt fps)
  show po: "unat (PAGE_OFFSET env (start + p_filesz ph)) = (S + F) mod page" by (simp add: page_offset fe)
  have "(S + F) mod page < page" using page_pos by simp
  then have "PAGE_OFFSET env (start + p_filesz ph) \<le> PAGE_SIZE env" by (simp add: word_le_nat_alt po less_imp_le)
  then show "unat (PAGE_SIZE env - PAGE_OFFSET env (start + p_filesz ph)) = page - (S + F) mod page"
    by (simp add: unat_sub po)
qed

end

text \<open>The three groups of calls of a segment.\<close>

definition file_calls ::
  "('w::len) word loader_env \<Rightarrow> 'w word system \<Rightarrow> 'w word elf_reader \<Rightarrow> nat \<Rightarrow> 'w word Phdr \<Rightarrow> ('w word call \<times> load_error option) list" where
  "file_calls env sys r i ph =
     (let a = PAGE_START env (p_vaddr ph + load_bias r); off = PAGE_START env (p_offset ph);
          n = p_offset ph + p_filesz ph - off
      in (if n \<noteq> 0 \<and> p_flags ph AND PF_X \<noteq> 0 \<and> p_flags ph AND PF_W \<noteq> 0 then [(Warned WarnWritableExecutable, None)] else []) @
         (if n \<noteq> 0 then
           (MapFile a n (PFLAGS_TO_PROT (p_flags ph)) (file_offset r + int (unat off)), Some (CouldNotMap i)) #
           (if p_flags ph AND PF_X \<noteq> 0 \<and> p_align ph = kPmdSize \<and> transparent_hugepages sys
            then [(AdviseHuge a n, None)] else [])
         else []))"

definition tail_calls ::
  "('w::len) word loader_env \<Rightarrow> 'w word elf_reader \<Rightarrow> 'w word Phdr \<Rightarrow> ('w word call \<times> load_error option) list" where
  "tail_calls env r ph =
     (let e = p_vaddr ph + load_bias r + p_filesz ph
      in if p_flags ph AND PF_W \<noteq> 0 \<and> PAGE_OFFSET env e > 0
         then [(Memset e (PAGE_SIZE env - PAGE_OFFSET env e), None)] else [])"

definition bss_calls ::
  "('w::len) word loader_env \<Rightarrow> 'w word elf_reader \<Rightarrow> nat \<Rightarrow> 'w word Phdr \<Rightarrow> ('w word call \<times> load_error option) list" where
  "bss_calls env r i ph =
     (let e = PAGE_END env (p_vaddr ph + load_bias r + p_filesz ph); n = PAGE_END env (p_vaddr ph + load_bias r + p_memsz ph) - e
      in if PAGE_END env (p_vaddr ph + load_bias r + p_memsz ph) > e then
           [(MapZero e n (PFLAGS_TO_PROT (p_flags ph)), Some (CouldNotZeroFill i)), (NameVma e n, None)]
         else [])"

lemma segment_calls_split:
  "segment_calls env sys r i ph = Inr cs \<Longrightarrow> cs = file_calls env sys r i ph @ tail_calls env r ph @ bss_calls env r i ph"
  unfolding segment_calls_def file_calls_def tail_calls_def bss_calls_def Let_def
  by (auto simp: PFLAGS_TO_PROT_def split: if_splits)

context paging begin

text \<open>Each group as one update of memory.\<close>

lemma file_calls_image:
  fixes r :: "'w word elf_reader"
  assumes ok: "segment_ok env r ph" and off: "0 \<le> file_offset r"
  defines "S \<equiv> seg_at r ph" and "F \<equiv> unat (p_filesz ph)"
  shows "apply_calls page f (map fst (file_calls env sys r i ph)) m =
    (\<lambda>x. if S - S mod page \<le> x \<and> x < round_up page (S + F)
     then Some (byte_at f (nat (file_offset r) + unat (p_offset ph) - S mod page + (x - (S - S mod page))),
                PFLAGS_TO_PROT (p_flags ph)) else m x)"
proof -
  note A = segment_addresses [OF ok, folded S_def F_def]
  let ?n = "p_offset ph + p_filesz ph - PAGE_START env (p_offset ph)"
  show ?thesis
  proof (cases "?n = 0")
    case True
    then have "S mod page = 0" "F = 0" using A(7) by simp_all
    then have "round_up page (S + F) = S" using page_pos by (simp add: round_up_dvd mod_eq_0_iff_dvd)
    with True \<open>S mod page = 0\<close> show ?thesis by (auto simp: file_calls_def apply_calls_def fun_eq_iff)
  next
    case False
    have "S - S mod page + (S mod page + F) = S + F" by simp
    moreover have "nat (file_offset r + int k) = nat (file_offset r) + k" for k
      using off by (simp add: nat_add_distrib)
    then have "nat (file_offset r + int (unat (PAGE_START env (p_offset ph))))
        = nat (file_offset r) + unat (p_offset ph) - S mod page"
      using A(6) by (simp only: A(5) diff_add_assoc)
    ultimately show ?thesis using False by (auto simp: file_calls_def Let_def apply_calls_def A(4,7))
  qed
qed

lemma tail_calls_image:
  fixes r :: "'w word elf_reader"
  assumes ok: "segment_ok env r ph"
  defines "e \<equiv> seg_at r ph + unat (p_filesz ph)"
  shows "apply_calls page f (map fst (tail_calls env r ph)) m =
    (\<lambda>x. if p_flags ph AND PF_W \<noteq> 0 \<and> e \<le> x \<and> x < round_up page e then map_option (\<lambda>(b, p). (0, p)) (m x) else m x)"
proof -
  note A = segment_addresses [OF ok, folded e_def]
  show ?thesis
  proof (cases "e mod page = 0")
    case True
    then have "PAGE_OFFSET env (p_vaddr ph + load_bias r + p_filesz ph) = 0" "round_up page e = e"
      using A(8) page_pos by (simp_all add: round_up_dvd mod_eq_0_iff_dvd unat_eq_0)
    then show ?thesis by (auto simp: tail_calls_def apply_calls_def fun_eq_iff)
  next
    case False
    then have "PAGE_OFFSET env (p_vaddr ph + load_bias r + p_filesz ph) > 0"
      using A(8) by (simp add: word_gt_0 flip: unat_eq_0)
    with round_up_gap [OF page_pos False] show ?thesis
      by (auto simp: tail_calls_def Let_def apply_calls_def A(1,9))
  qed
qed

lemma bss_calls_image:
  fixes r :: "'w word elf_reader"
  assumes ok: "segment_ok env r ph"
  defines "lo \<equiv> round_up page (seg_at r ph + unat (p_filesz ph))" and "hi \<equiv> round_up page (seg_at r ph + unat (p_memsz ph))"
  shows "apply_calls page f (map fst (bss_calls env r i ph)) m =
    (\<lambda>x. if lo \<le> x \<and> x < hi then Some (0, PFLAGS_TO_PROT (p_flags ph)) else m x)"
proof -
  note A = segment_addresses [OF ok, folded lo_def hi_def]
  let ?lo = "PAGE_END env (p_vaddr ph + load_bias r + p_filesz ph)"
  let ?hi = "PAGE_END env (p_vaddr ph + load_bias r + p_memsz ph)"
  show ?thesis
  proof (cases "?hi > ?lo")
    case True
    then have "unat (?hi - ?lo) = hi - lo" "lo \<le> hi"
      by (simp_all add: unat_sub word_less_nat_alt word_le_nat_alt A(2,3))
    moreover have "round_up page hi = hi"
      unfolding hi_def by (rule round_up_dvd [OF page_pos round_up_bounds(3) [OF page_pos]])
    ultimately show ?thesis using True by (simp add: bss_calls_def Let_def apply_calls_def A(2))
  next
    case False
    then have "hi \<le> lo" by (simp add: not_less word_le_nat_alt A(2,3))
    with False show ?thesis by (auto simp: bss_calls_def apply_calls_def fun_eq_iff)
  qed
qed

text \<open>All of them: the segment is in memory, and nothing outside its pages has changed.\<close>

lemma segment_image:
  fixes r :: "'w word elf_reader"
  assumes cs: "segment_calls env sys r i ph = Inr cs" and ok: "segment_ok env r ph" and off: "0 \<le> file_offset r"
  shows "segment_in_memory env r ph (apply_calls page (file_bytes r) (map fst cs) m)"
    and "x \<notin> segment_pages env r ph \<Longrightarrow> apply_calls page (file_bytes r) (map fst cs) m x = m x"
proof -
  define S F M where "S = seg_at r ph" and "F = unat (p_filesz ph)" and "M = unat (p_memsz ph)"
  have FM: "F \<le> M" using ok by (simp add: segment_ok_def F_def M_def)
  have om: "S mod page \<le> unat (p_offset ph)" using segment_addresses(6) [OF ok] by (simp add: S_def)
  have Sm: "S mod page \<le> S" by simp
  have RU: "S + F \<le> round_up page (S + F)" "S + M \<le> round_up page (S + M)" "round_up page (S + F) \<le> round_up page (S + M)"
    using round_up_bounds(1) [OF page_pos] round_up_mono [OF page_pos] FM by simp_all
  note image = segment_calls_split [OF cs] map_append apply_calls_append file_calls_image [OF ok off]
    tail_calls_image [OF ok] bss_calls_image [OF ok] S_def [symmetric] F_def [symmetric] M_def [symmetric]
  show "segment_in_memory env r ph (apply_calls page (file_bytes r) (map fst cs) m)"
    unfolding segment_in_memory_def image using RU FM om Sm by (auto simp: add.assoc)
  show "apply_calls page (file_bytes r) (map fst cs) m x = m x" if "x \<notin> segment_pages env r ph"
    using that RU(1,3) Sm unfolding segment_pages_def image by auto
qed

text \<open>A segment's image depends on its own pages only.\<close>

lemma segment_in_memory_cong:
  assumes "segment_ok env r ph" "segment_in_memory env r ph m" "\<And>x. x \<in> segment_pages env r ph \<Longrightarrow> m' x = m x"
  shows "segment_in_memory env r ph m'"
proof -
  have "seg_at r ph + k \<in> segment_pages env r ph" if "k < unat (p_memsz ph)" for k
    using that round_up_bounds(1) [OF page_pos, of "seg_at r ph + unat (p_memsz ph)"] by (auto simp: segment_pages_def)
  moreover have "k < unat (p_filesz ph) \<Longrightarrow> k < unat (p_memsz ph)" for k
    using assms(1) by (simp add: segment_ok_def)
  ultimately show ?thesis using assms(2,3) unfolding segment_in_memory_def by simp
qed

end

section \<open>All segments\<close>

lemma run_calls_done: "run_calls ok k cs = (cs', None) \<Longrightarrow> cs' = map fst cs"
  by (induction ok k cs arbitrary: cs' rule: run_calls.induct) (auto split: option.splits if_splits prod.splits)

lemma load_segments_step:
  assumes "load_segments_from env sys r i k (ph # phs) = (cs, None)" "p_type ph = PT_LOAD"
  obtains hd_calls rest where "segment_calls env sys r i ph = Inr hd_calls"
    and "load_segments_from env sys r (Suc i) (k + length hd_calls) phs = (rest, None)"
    and "cs = map fst hd_calls @ rest"
  using assms by (auto split: sum.splits prod.splits option.splits dest!: run_calls_done)

definition pages_apart :: "('w::len) word loader_env \<Rightarrow> 'w word elf_reader \<Rightarrow> 'w word Phdr list \<Rightarrow> bool" where
  "pages_apart env r phs \<longleftrightarrow> sorted_wrt (\<lambda>a b. segment_pages env r a \<inter> segment_pages env r b = {}) (loads phs)"

context paging begin

lemma load_segments_image:
  fixes r :: "'w word elf_reader"
  assumes "load_segments_from env sys r i k phs = (cs, None)"
    and "\<forall>ph \<in> set (loads phs). segment_ok env r ph" "pages_apart env r phs" "0 \<le> file_offset r"
  shows "(\<forall>ph \<in> set (loads phs). segment_in_memory env r ph (apply_calls page (file_bytes r) cs m)) \<and>
    (\<forall>x. (\<forall>ph \<in> set (loads phs). x \<notin> segment_pages env r ph) \<longrightarrow> apply_calls page (file_bytes r) cs m x = m x)"
  using assms
proof (induction phs arbitrary: i k cs m)
  case Nil
  then show ?case by (simp add: loads_def apply_calls_def)
next
  case (Cons ph phs)
  show ?case
  proof (cases "p_type ph = PT_LOAD")
    case False
    then show ?thesis using Cons by (simp add: loads_def pages_apart_def)
  next
    case True
    then have split: "loads (ph # phs) = ph # loads phs" by (simp add: loads_def)
    obtain hc rest where step: "segment_calls env sys r i ph = Inr hc"
        "load_segments_from env sys r (Suc i) (k + length hc) phs = (rest, None)" "cs = map fst hc @ rest"
      by (rule load_segments_step [OF Cons.prems(1) True])
    have ok: "segment_ok env r ph" and apart: "\<forall>b \<in> set (loads phs). segment_pages env r ph \<inter> segment_pages env r b = {}"
      and tl: "\<forall>ph \<in> set (loads phs). segment_ok env r ph" "pages_apart env r phs"
      using Cons.prems by (simp_all add: split pages_apart_def)
    let ?m = "apply_calls page (file_bytes r) (map fst hc) m"
    note head = segment_image [OF step(1) ok Cons.prems(4), where m = m] and rest = Cons.IH [OF step(2) tl Cons.prems(4), of ?m]
    have "apply_calls page (file_bytes r) rest ?m x = ?m x" if "x \<in> segment_pages env r ph" for x
      using apart that rest by blast
    then have "segment_in_memory env r ph (apply_calls page (file_bytes r) rest ?m)"
      by (rule segment_in_memory_cong [OF ok head(1)])
    then show ?thesis using rest head(2) by (simp add: split step(3) apply_calls_append)
  qed
qed

end

text \<open>
  C31. When \<open>LoadSegments\<close> succeeds and no two loadable segments share a page, every loadable segment
  is in memory with the protection its flags ask for: its file bytes, then zeros up to its memory size
  (in a segment that is not writable, only from the page after the last file byte on).  Nothing outside
  the segments' pages changes.
\<close>

theorem segments_loaded:
  fixes r :: "('w::len) word elf_reader"
  assumes "paging env" "LoadSegments env sys r = (cs, None)" "0 \<le> file_offset r"
    and "\<forall>ph \<in> set (loads (phdr_table r)). segment_ok env r ph" "pages_apart env r (phdr_table r)"
  shows "(\<forall>ph \<in> set (loads (phdr_table r)).
      segment_in_memory env r ph (apply_calls (unat (PAGE_SIZE env)) (file_bytes r) cs m)) \<and>
    (\<forall>x. (\<forall>ph \<in> set (loads (phdr_table r)). x \<notin> segment_pages env r ph) \<longrightarrow>
      apply_calls (unat (PAGE_SIZE env)) (file_bytes r) cs m x = m x)"
  using paging.load_segments_image [OF assms(1) assms(2) [unfolded LoadSegments_def] assms(4,5,3)] .

section \<open>Writable or executable\<close>

text \<open>The mappings a list of calls makes of the file.\<close>

definition file_mapping_prots :: "'w call list \<Rightarrow> prot set" where
  "file_mapping_prots cs = {pr. \<exists>a n off. MapFile a n pr off \<in> set cs}"

lemma run_calls_subset: "set (fst (run_calls ok k cs)) \<subseteq> fst ` set cs"
  by (induction ok k cs rule: run_calls.induct) (auto split: option.splits prod.splits)

lemma segment_calls_wx:
  assumes "segment_calls env sys r i ph = Inr cs" "MapFile a n pr off \<in> fst ` set cs" "26 \<le> target_sdk env"
  shows "\<not> (prot_write pr \<and> prot_exec pr)"
  using assms unfolding segment_calls_def Let_def by (auto split: if_splits)

lemma load_segments_wx:
  assumes "26 \<le> target_sdk env" "MapFile a n pr off \<in> set (fst (load_segments_from env sys r i k phs))"
  shows "\<not> (prot_write pr \<and> prot_exec pr)"
  using assms(2)
proof (induction phs arbitrary: i k)
  case (Cons ph phs)
  show ?case
  proof (cases "p_type ph \<noteq> PT_LOAD \<or> (\<exists>e. segment_calls env sys r i ph = Inl e)")
    case True
    then show ?thesis using Cons by (cases "p_type ph = PT_LOAD") auto
  next
    case False
    then obtain cs where cs: "p_type ph = PT_LOAD" "segment_calls env sys r i ph = Inr cs"
      by (meson sum.exhaust)
    then have "MapFile a n pr off \<in> set (fst (run_calls (call_ok sys) k cs)) \<or>
        (\<exists>i k. MapFile a n pr off \<in> set (fst (load_segments_from env sys r i k phs)))"
      using Cons.prems by (auto split: prod.splits option.splits) (metis fst_conv)+
    then show ?thesis
      using segment_calls_wx [OF cs(2) _ assms(1)] run_calls_subset [of "call_ok sys" k cs] Cons.IH by blast
  qed
qed simp

lemma load_prot_wx: "\<not> (prot_write (load_prot env ph e) \<and> prot_exec (load_prot env ph e))"
  by (auto simp: load_prot_def Let_def)

lemma load_prot_bti: "target env = Target_aarch64 \<Longrightarrow> prot_bti (load_prot env ph e) \<Longrightarrow> prot_exec (load_prot env ph e)"
  by (auto simp: load_prot_def Let_def split: if_splits)

lemma mprotect_all_subset: "set (fst (mprotect_all ok k cs)) \<subseteq> set cs"
  by (induction cs arbitrary: k) (auto split: prod.splits, (metis fst_conv subsetD)+)

lemma set_load_prot_calls:
  assumes "c \<in> set (fst (phdr_table_set_load_prot env sys phdrs bias extra))"
  shows "\<exists>a n pr. c = Mprotect a n pr \<and> \<not> (prot_write pr \<and> prot_exec pr) \<and>
    (target env = Target_aarch64 \<and> prot_bti pr \<longrightarrow> prot_exec pr)"
proof -
  have "\<exists>a n ph. c = Mprotect a n (load_prot env ph extra)"
    using assms mprotect_all_subset unfolding phdr_table_set_load_prot_def by (fastforce split: prod.splits)
  then show ?thesis using load_prot_wx load_prot_bti by blast
qed


text \<open>A segment of zeros only is not checked: it may be mapped writable and executable.\<close>

lemma zero_segment_unchecked:
  "segment_calls (loader64 t 33) sys (r\<lparr>load_bias := 0, file_offset := 0, file_size := 1\<rparr>) i
     \<lparr>p_type = PT_LOAD, p_offset = 0, p_vaddr = 0x1000, p_paddr = 0, p_filesz = 0, p_memsz = 0x1000,
       p_flags = PF_R OR PF_W OR PF_X, p_align = 0x1000\<rparr> =
   Inr [(MapZero 0x1000 0x1000 \<lparr>prot_read = True, prot_write = True, prot_exec = True, prot_bti = False\<rparr>, Some (CouldNotZeroFill i)),
        (NameVma 0x1000 0x1000, None)]"
  by (simp add: segment_calls_def loader64_def PFLAGS_TO_PROT_def PF_R_def PF_W_def PF_X_def pt_defs mask_eq_exp_minus_1)

end
