(* ===== verification/Elf_Reserve.thy ===== *)
theory Elf_Reserve
  imports Elf_Image
begin

text \<open>
  Reserving address space, \<open>ReserveWithAlignmentPadding\<close>: the library's place is aligned, lies inside the
  mapping, and still does when its limits are extended to the alignment; the random gap behind it does
  not overlap it.  The alignment helpers, the random numbers and \<open>mmap\<close> are not in this repository:
  what the code relies on is the locale \<open>padding\<close>.
\<close>

definition round_down :: "nat \<Rightarrow> nat \<Rightarrow> nat" where
  "round_down p n = n - n mod p"

lemma round_down_bounds: "round_down p n \<le> n" "p dvd round_down p n"
  unfolding round_down_def by (simp, rule dvd_minus_mod)

lemma round_down_greatest:
  assumes "0 < p" "p dvd k" "k \<le> n"
  shows "k \<le> round_down p n"
proof -
  obtain q where k: "k = p * q" using assms(2) by (rule dvdE)
  with assms have "q \<le> n div p" by (metis div_le_mono nonzero_mult_div_cancel_left not_gr_zero)
  then have "k \<le> p * (n div p)" by (simp add: k)
  then show ?thesis by (simp add: round_down_def minus_mod_eq_mult_div)
qed

lemma dvd_room:
  fixes p m x y :: nat
  assumes "p dvd x" "p dvd y" "x < y"
  shows "x + p \<le> y"
proof -
  have "p dvd y - x" using assms by (simp add: dvd_diff_nat)
  then have "p \<le> y - x" using assms(3) by (simp add: dvd_imp_le)
  with assms(3) show ?thesis by linarith
qed

lemma round_up_room:
  assumes "0 < a" "l dvd a" "l dvd n"
  shows "round_up a n + l \<le> n + a"
  by (rule dvd_room) (use assms round_up_bounds [OF assms(1), of n] in \<open>auto intro: dvd_trans\<close>)

text \<open>
  A place for \<open>len\<close> bytes in a mapping: aligned, and inside the mapping in front of its gap even when
  its limits are extended to the mapping's alignment.
\<close>

definition placed :: "nat \<Rightarrow> nat \<Rightarrow> nat \<Rightarrow> ('w::len) word reservation \<Rightarrow> bool" where
  "placed len a s res \<longleftrightarrow>
     (case res_mapping res of (mp, mn) \<Rightarrow> case res_gap res of
        None \<Rightarrow> False
      | Some (gs, gl) \<Rightarrow>
        s dvd unat (res_start res) \<and> unat mp \<le> round_down a (unat (res_start res)) \<and>
        round_up a (unat (res_start res) + len) \<le> unat gs \<and> unat gs + unat gl \<le> unat mp + unat mn)"

section \<open>The environment\<close>

text \<open>
  A mapping is page aligned and does not reach the last 4 MiB of the address space; the helpers round to
  a power of two, at most 2 MiB here; a random number is below its bound.
\<close>

locale padding = paging env for env :: "('w::len) word loader_env" +
  fixes sys :: "'w word system"
  assumes up: "unat a = 2 ^ k \<Longrightarrow> unat x + unat a \<le> 2 ^ LENGTH('w) \<Longrightarrow> unat (align_up sys x a) = round_up (unat a) (unat x)"
    and down: "unat a = 2 ^ k \<Longrightarrow> unat (align_down sys x a) = round_down (unat a) (unat x)"
    and random: "0 < n \<Longrightarrow> arc4random sys d n < n"
    and mapping: "mmap_any sys d n = Some p \<Longrightarrow> unat (PAGE_SIZE env) dvd unat p \<and> unat p + unat n + 2 ^ 22 \<le> 2 ^ LENGTH('w)"
begin

lemma unat_max: "unat (max a b) = max (unat a) (unat b)"
  for a b :: "'w word"
  by (simp add: max_def word_le_nat_alt)

text \<open>Sizes and addresses as numbers.  The size of a mapping of \<open>n\<close> bytes with room to align by \<open>a\<close>:\<close>

lemma padded_size:
  fixes n a :: "'w word"
  assumes a: "unat a = 2 ^ k" "unat (PAGE_SIZE env) \<le> unat a" and n: "unat n + 2 * unat a < 2 ^ LENGTH('w)"
  shows "unat (align_up sys n a + a - PAGE_SIZE env) = round_up (unat a) (unat n) + unat a - page"
proof -
  have u: "unat (align_up sys n a) = round_up (unat a) (unat n)" using n by (intro up [OF a(1)]) linarith
  have "round_up (unat a) (unat n) < unat n + unat a" using a(1) by (intro round_up_bounds) simp
  then have "unat (align_up sys n a + a) = round_up (unat a) (unat n) + unat a"
    using n unat_add_small [of "align_up sys n a" a] by (simp add: u)
  then show ?thesis using a(2) by (simp add: unat_sub word_le_nat_alt)
qed

text \<open>Choosing a start between two bounds at random.\<close>

lemma random_start:
  fixes first last len s :: "'w word"
  assumes s: "0 < unat s" and fits: "unat first + unat len \<le> L" "L + 2 < 2 ^ LENGTH('w)" and last: "unat last = L - unat len"
  defines "start \<equiv> first + (if is_first_stage_init sys then 0 else arc4random sys 1 ((last - first) div s + 1)) * s"
  shows "unat first \<le> unat start" "unat start + unat len \<le> L" "unat s dvd unat first \<Longrightarrow> unat s dvd unat start"
proof -
  define n where "n = (if is_first_stage_init sys then 0 else arc4random sys 1 ((last - first) div s + 1))"
  have diff: "unat (last - first) = L - unat len - unat first"
    using fits by (simp add: unat_sub word_le_nat_alt last)
  let ?q = "(L - unat len - unat first) div unat s"
  have q: "?q \<le> L" using div_le_dividend [of "L - unat len - unat first" "unat s"] by linarith
  have "unat ((last - first) div s) = ?q" by (simp add: unat_div diff)
  then have bound: "unat ((last - first) div s + 1) = ?q + 1"
    using unat_add_small [of "(last - first) div s" 1] q fits by simp
  then have "(last - first) div s + 1 > 0" by (simp add: word_less_nat_alt)
  then have "unat n \<le> ?q"
    using random [of "(last - first) div s + 1" 1] bound by (simp add: n_def word_less_nat_alt)
  then have "unat n * unat s \<le> ?q * unat s" by simp
  also have "\<dots> \<le> L - unat len - unat first" by simp
  finally have step: "unat n * unat s \<le> L - unat len - unat first" .
  then have ns: "unat (n * s) = unat n * unat s"
    using fits by (intro unat_mult_lem [THEN iffD1]) linarith
  have eq: "unat start = unat first + unat n * unat s"
    using step fits unat_add_small [of first "n * s"] unfolding start_def n_def [symmetric] by (simp add: ns)
  show "unat first \<le> unat start" "unat start + unat len \<le> L" using eq step fits by linarith+
  show "unat s dvd unat start" if "unat s dvd unat first" using that by (simp add: eq)
qed

lemma place:
  assumes a: "unat a = 2 ^ m" "m \<le> 21" "page dvd unat a" and s: "unat s = 2 ^ j" "j \<le> m"
    and mp: "page dvd unat mp" "unat mp + unat mn + 2 ^ 22 \<le> 2 ^ LENGTH('w)"
    and mn: "unat mn = round_up (unat a) (unat len + unat gap) + unat a - page"
    and gap: "gap \<noteq> 0 \<Longrightarrow> kGapAlignment env = a \<and> unat a dvd unat gap"
  shows "placed (unat len) (unat a) (unat s) (place_in_mapping env sys len a s mp mn gap calls)"
proof -
  define A e where "A = unat a" and "e = unat mp + unat mn"
  have A: "0 < A" "A \<le> 2 ^ 21" "page dvd A" "page \<le> A"
    using a power_increasing [OF a(2), of "2::nat"] dvd_imp_le [OF a(3)] by (simp_all add: A_def)
  have sum: "unat (mp + mn) = e" using mp(2) unat_add_small [of mp mn] by (simp add: e_def)
  have first: "unat (align_up sys mp a) = round_up A (unat mp)"
    using mp(2) A(2) unfolding A_def by (intro up [OF a(1)]) simp
  have first_le: "round_up A (unat mp) + page \<le> unat mp + A" by (rule round_up_room [OF A(1,3) mp(1)])
  define R where "R = round_up A (unat len + unat gap)"
  have R: "unat len + unat gap \<le> R" "A dvd R" unfolding R_def by (rule round_up_bounds [OF A(1)])+
  have H: "round_up A (unat mp) + R \<le> e" using first_le mn A(4) by (simp add: e_def R_def A_def)
  define gap_end where "gap_end = (if gap \<noteq> 0 then align_down sys (mp + mn) (kGapAlignment env) else mp + mn)"
  have ge: "round_up A (unat mp) + R \<le> unat gap_end" "unat gap_end \<le> e"
    using H R(2) gap round_down_greatest [OF A(1), of "round_up A (unat mp) + R" e] round_down_bounds(1) [of A e]
      round_up_bounds(3) [OF A(1), of "unat mp"] by (auto simp: gap_end_def sum down [OF a(1)] A_def [symmetric])
  have gs: "unat (gap_end - gap) = unat gap_end - unat gap" using ge R(1) by (simp add: unat_sub word_le_nat_alt)
  define L where "L = round_down A (unat gap_end - unat gap)"
  have "A dvd unat gap" using gap by (cases "gap = 0") (auto simp: A_def)
  then have "A dvd round_up A (unat mp) + (R - unat gap)"
    using R(2) round_up_bounds(3) [OF A(1), of "unat mp"] by (simp add: dvd_diff_nat)
  then have "round_up A (unat mp) + (R - unat gap) \<le> L"
    unfolding L_def by (rule round_down_greatest [OF A(1)]) (use ge R(1) in linarith)
  then have fits: "unat (align_up sys mp a) + unat len \<le> L" using R(1) by (simp add: first)
  have Lgs: "L \<le> unat gap_end - unat gap" "A dvd L" unfolding L_def by (rule round_down_bounds)+
  then have small: "L + 2 < 2 ^ LENGTH('w)" using ge(2) mp(2) by (simp add: e_def)
  have last: "unat (align_down sys (gap_end - gap) a - len) = L - unat len"
    using fits by (simp add: unat_sub word_le_nat_alt down [OF a(1)] gs L_def A_def)
  let ?start = "res_start (place_in_mapping env sys len a s mp mn gap calls)"
  have chosen: "?start = align_up sys mp a + (if is_first_stage_init sys then 0
      else arc4random sys 1 ((align_down sys (gap_end - gap) a - len - align_up sys mp a) div s + 1)) * s"
    by (simp add: place_in_mapping_def Let_def gap_end_def)
  have s_pos: "0 < unat s" using s(1) by simp
  have "unat s dvd A" using a s by (simp add: A_def le_imp_power_dvd)
  then have s_dvd: "unat s dvd unat (align_up sys mp a)"
    unfolding first using round_up_bounds(3) [OF A(1)] by (rule dvd_trans)
  note st = random_start [OF s_pos fits small last, folded chosen]
  have "unat mp \<le> round_down A (unat ?start)"
    using round_down_greatest [OF A(1) round_up_bounds(3) [OF A(1)], of "unat mp" "unat ?start"] st(1)
      round_up_bounds(1) [OF A(1), of "unat mp"] by (simp add: first)
  moreover have "round_up A (unat ?start + unat len) \<le> unat (gap_end - gap)"
    using round_up_least [OF A(1) Lgs(2) st(2)] Lgs(1) by (simp add: gs)
  moreover have "unat (gap_end - gap) + unat gap \<le> e" using ge R(1) by (simp add: gs)
  ultimately show ?thesis using st(3) [OF s_dvd]
    by (simp add: placed_def place_in_mapping_def Let_def gap_end_def [symmetric] A_def e_def)
qed

text \<open>A place that is aligned to the gap's alignment serves a smaller one.\<close>

lemma placed_smaller:
  assumes "placed n b s res" "a dvd b" "0 < b"
  shows "placed n a s res"
proof -
  have a: "0 < a" using assms(2,3) by (metis dvd_0_left_iff not_gr_zero)
  have "round_down b x \<le> round_down a x" for x
    by (rule round_down_greatest [OF a]) (use assms(2) round_down_bounds [of b x] in \<open>auto intro: dvd_trans\<close>)
  moreover have "round_up a x \<le> round_up b x" for x
    by (rule round_up_least [OF a]) (use assms(2) round_up_bounds [OF assms(3), of x] in \<open>auto intro: dvd_trans\<close>)
  ultimately show ?thesis using assms(1) unfolding placed_def
    by (auto split: prod.splits option.splits intro: order_trans)
qed

lemma gap_alignment:
  assumes "27 \<le> LENGTH('w)"
  shows "kGapAlignment env = 0 \<or> unat (kGapAlignment env) = 2 ^ 21"
proof -
  have "(2::nat) ^ 27 \<le> 2 ^ LENGTH('w)" using assms by (rule power_increasing) simp
  then have "unat (2097152 :: 'w word) = 2097152"
    by (simp add: unsigned_numeral take_bit_nat_eq_self_iff)
  then show ?thesis by (simp add: kGapAlignment_def push_bit_eq_mult)
qed

text \<open>The two mappings the code may place the library in.\<close>

lemma place_without_gap:
  assumes a: "unat a = 2 ^ m" "m \<le> 21" "page dvd unat a" and s: "unat s = 2 ^ j" "j \<le> m"
    and len: "unat len + 2 ^ 27 \<le> 2 ^ LENGTH('w)"
    and mmap: "mmap_any sys d (align_up sys len a + a - PAGE_SIZE env) = Some mp"
  shows "placed (unat len) (unat a) (unat s)
    (place_in_mapping env sys len a s mp (align_up sys len a + a - PAGE_SIZE env) 0 calls)"
proof -
  have A: "unat a \<le> 2 ^ 21" unfolding a(1) using a(2) by (rule power_increasing) simp
  have "page \<le> unat a" using a(1,3) by (simp add: dvd_imp_le)
  from padded_size [OF a(1) this, of len] len A mapping [OF mmap] show ?thesis
    by (intro place [OF a s]) simp_all
qed

lemma place_with_gap:
  assumes a: "unat a = 2 ^ 21" "page dvd unat a" "kGapAlignment env = a" and s: "unat s = 2 ^ j" "j \<le> 21"
    and len: "unat len + 2 ^ 27 \<le> 2 ^ LENGTH('w)" and k: "1 \<le> unat k" "unat k \<le> 31"
    and mmap: "mmap_any sys d (align_up sys (len + a * k) a + a - PAGE_SIZE env) = Some mp"
  shows "placed (unat len) (unat a) (unat s)
    (place_in_mapping env sys len a s mp (align_up sys (len + a * k) a + a - PAGE_SIZE env) (a * k) calls)"
proof -
  have ak: "unat a * unat k \<le> 2 ^ 21 * 31" using k by (simp add: a(1))
  then have gap: "unat (a * k) = unat a * unat k"
    using len by (intro unat_mult_lem [THEN iffD1]) simp
  then have n: "unat (len + a * k) = unat len + unat (a * k)"
    using len ak by (intro unat_add_small) simp
  have "page \<le> unat a" using a(1,2) by (simp add: dvd_imp_le)
  from padded_size [OF a(1) this, of "len + a * k"] len ak mapping [OF mmap] show ?thesis
    by (intro place [OF a(1) _ a(2) s]) (simp_all add: n gap a(3) a(1))
qed

lemma reserve_sound:
  assumes res: "ReserveWithAlignmentPadding env sys len ma sa = Some res"
    and powers: "page = 2 ^ l" "unat ma = 2 ^ i" "unat sa = 2 ^ j" "l \<le> i" "l \<le> j" "i \<le> 21" "j \<le> 21"
    and len: "unat len + 2 ^ 27 \<le> 2 ^ LENGTH('w)"
  shows "(ma = PAGE_SIZE env \<and> sa = PAGE_SIZE env \<and> res_gap res = None \<and> res_mapping res = (res_start res, len) \<and> page dvd unat (res_start res)) \<or>
    placed (unat len) (unat (max ma sa)) (unat sa) res"
proof -
  let ?a = "max ma sa"
  have a: "unat ?a = 2 ^ max i j" unfolding unat_max powers(2,3) by (simp add: max_def)
  have aj: "max i j \<le> 21" "j \<le> max i j" using powers by simp_all
  have pd: "page dvd unat ?a" unfolding a powers(1) using powers(4) by (intro le_imp_power_dvd) simp
  have "(2::nat) ^ 27 \<le> 2 ^ LENGTH('w)" using len by linarith
  then have L: "27 \<le> LENGTH('w)" by (rule power_le_imp_le_exp [rotated]) simp
  show ?thesis
  proof (cases "?a = PAGE_SIZE env")
    case True
    then have "2 ^ max i j = (2::nat) ^ l" using a powers(1) by simp
    then have "i = l" "j = l" using powers(4,5) by auto
    then have "ma = PAGE_SIZE env" "sa = PAGE_SIZE env"
      using powers by (simp_all add: word_unat_eq_iff)
    then show ?thesis using res mapping by (auto simp: ReserveWithAlignmentPadding_def Let_def)
  next
    case False
    let ?n = "align_up sys len ?a + ?a - PAGE_SIZE env" and ?g = "kGapAlignment env"
    let ?k = "if is_first_stage_init sys then 1 else arc4random sys 0 31 + 1"
    obtain mp where mp: "mmap_any sys 0 ?n = Some mp"
      using res False by (auto simp: ReserveWithAlignmentPadding_def Let_def split: option.splits)
    consider "res = place_in_mapping env sys len ?a sa mp ?n 0 [Reserve ?n]"
      | mp' where "?g \<noteq> 0" "mmap_any sys 1 (align_up sys (len + ?g * ?k) (max ?a ?g) + max ?a ?g - PAGE_SIZE env) = Some mp'"
        "res = place_in_mapping env sys len (max ?a ?g) sa mp' (align_up sys (len + ?g * ?k) (max ?a ?g) + max ?a ?g - PAGE_SIZE env)
           (?g * ?k) [Reserve ?n, Munmap mp ?n, Reserve (align_up sys (len + ?g * ?k) (max ?a ?g) + max ?a ?g - PAGE_SIZE env)]"
      using res False mp by (auto simp: ReserveWithAlignmentPadding_def Let_def split: option.splits if_splits)
    then show ?thesis
    proof cases
      case 1
      with place_without_gap [OF a aj(1) pd powers(3) aj(2) len mp] show ?thesis by simp
    next
      case 2
      have g: "unat ?g = 2 ^ 21" using gap_alignment [OF L] 2(1) by simp
      have "unat ?a \<le> 2 ^ 21" unfolding a using aj(1) by (rule power_increasing) simp
      then have m: "max ?a ?g = ?g" by (simp add: max_def word_le_nat_alt g)
      have ag: "unat ?a dvd unat ?g" unfolding a g by (rule le_imp_power_dvd [OF aj(1)])
      have thirty_one: "unat (31 :: 'w word) = 31"
        using power_increasing [OF L, of "2::nat"] by (simp add: unat_numeral take_bit_eq_mod)
      then have "unat (arc4random sys 0 31) < 31" using random [of 31 0] by (simp add: word_less_nat_alt)
      then have k: "1 \<le> unat ?k" "unat ?k \<le> 31"
        using unat_add_small [of "arc4random sys 0 31" 1] power_increasing [OF L, of "2::nat"] by auto
      have "placed (unat len) (unat ?g) (unat sa) res"
        using place_with_gap [OF g dvd_trans [OF pd ag] refl powers(3,7) len k] 2(2,3) by (simp only: m)
      then have "placed (unat len) (unat ?a) (unat sa) res" by (rule placed_smaller [OF _ ag]) (simp add: g)
      then show ?thesis ..
    qed
  qed
qed

end

section \<open>A Linux system\<close>

text \<open>
  Pages of 4 KiB, the helpers by masks, any placement by \<open>mmap\<close> that fits, any source of random words
  reduced to its bound.
\<close>

definition mask_system ::
  "(nat \<Rightarrow> ('w::len) word \<Rightarrow> 'w word option) \<Rightarrow> (nat \<Rightarrow> 'w word) \<Rightarrow> 'w word system" where
  "mask_system place noise = \<lparr>
     mmap_any = (\<lambda>d n. case place d n of
       Some p \<Rightarrow> if 4096 dvd unat p \<and> unat p + unat n + 2 ^ 22 \<le> 2 ^ LENGTH('w) then Some p else None
     | None \<Rightarrow> None),
     arc4random = (\<lambda>d n. noise d mod n),
     align_up = (\<lambda>x a. (x + (a - 1)) AND NOT (a - 1)), align_down = (\<lambda>x a. x AND NOT (a - 1)),
     is_first_stage_init = False, transparent_hugepages = True, kLibraryAlignment = push_bit 18 1,
     call_ok = (\<lambda>k c. True)\<rparr>"

lemma unat_clear_low:
  fixes x a :: "('w::len) word"
  assumes "unat a = 2 ^ k"
  shows "unat (x AND NOT (a - 1)) = round_down (unat a) (unat x)"
proof -
  have "a = of_nat (2 ^ k)" using arg_cong [OF assms, of "of_nat :: nat \<Rightarrow> 'w word"] by simp
  then have "a = 2 ^ k" by simp
  then have "a - 1 = mask k" by (simp add: mask_eq_exp_minus_1)
  then show ?thesis using unat_AND_NOT_mask [of x k] by (simp add: round_down_def assms)
qed

lemma mask_up:
  fixes x a :: "('w::len) word"
  assumes "unat a = 2 ^ k" "unat x + unat a \<le> 2 ^ LENGTH('w)"
  shows "unat ((x + (a - 1)) AND NOT (a - 1)) = round_up (unat a) (unat x)"
proof -
  have "0 < unat a" using assms(1) by simp
  then have "unat (a - 1) = unat a - 1" by (simp add: unat_minus_one word_greater_zero_iff unat_gt_0)
  then have "unat (x + (a - 1)) = unat x + unat a - 1"
    using assms(2) \<open>0 < unat a\<close> by (simp add: unat_add_lem [THEN iffD1])
  then show ?thesis by (simp add: unat_clear_low [OF assms(1)] round_down_def round_up_def)
qed

lemma mask_system_laws:
  fixes a x n :: "('w::len) word"
  shows "unat a = 2 ^ k \<Longrightarrow> unat x + unat a \<le> 2 ^ LENGTH('w) \<Longrightarrow> unat (align_up (mask_system place noise) x a) = round_up (unat a) (unat x)"
    and "unat a = 2 ^ k \<Longrightarrow> unat (align_down (mask_system place noise) x a) = round_down (unat a) (unat x)"
    and "0 < n \<Longrightarrow> arc4random (mask_system place noise) d n < n"
    and "mmap_any (mask_system place noise) d n = Some p \<Longrightarrow> 4096 dvd unat p \<and> unat p + unat n + 2 ^ 22 \<le> 2 ^ LENGTH('w)"
proof -
  show "unat (align_up (mask_system place noise) x a) = round_up (unat a) (unat x)"
    if "unat a = 2 ^ k" "unat x + unat a \<le> 2 ^ LENGTH('w)" using mask_up [OF that] by (simp add: mask_system_def)
  show "unat (align_down (mask_system place noise) x a) = round_down (unat a) (unat x)"
    if "unat a = 2 ^ k" using unat_clear_low [OF that] by (simp add: mask_system_def)
  show "arc4random (mask_system place noise) d n < n" if "0 < n"
    using that by (simp add: mask_system_def word_less_nat_alt unat_mod)
  show "4096 dvd unat p \<and> unat p + unat n + 2 ^ 22 \<le> 2 ^ LENGTH('w)"
    if "mmap_any (mask_system place noise) d n = Some p"
    using that by (simp add: mask_system_def split: option.splits if_splits)
qed

interpretation padding64: padding "loader64 t sdk" "mask_system place noise" for t sdk place noise
  by unfold_locales (auto simp: mask_system_laws loader64_def dest: mask_system_laws(4))

interpretation padding32: padding "loader32 t sdk" "mask_system place noise" for t sdk place noise
  by unfold_locales (auto simp: mask_system_laws loader32_def dest: mask_system_laws(4))

text \<open>
  C34. The address a library is given by \<open>ReserveWithAlignmentPadding\<close> is aligned as asked.  Extending
  the library's limits outward to the mapping alignment stays inside the new mapping, in front of the
  random gap, and the gap lies inside the mapping, too: no other mapping can share those pages.
\<close>

theorem library_place_padded:
  assumes "padding env sys" "ReserveWithAlignmentPadding env sys len ma sa = Some res"
    and "unat (PAGE_SIZE env) = 2 ^ l" "unat ma = 2 ^ i" "unat sa = 2 ^ j" "l \<le> i" "l \<le> j" "i \<le> 21" "j \<le> 21"
    and "unat len + 2 ^ 27 \<le> 2 ^ LENGTH('w)"
  shows "(ma = PAGE_SIZE env \<and> sa = PAGE_SIZE env \<and> res_gap res = None \<and>
      res_mapping res = (res_start res, len :: ('w::len) word) \<and> unat (PAGE_SIZE env) dvd unat (res_start res)) \<or>
    placed (unat len) (unat (max ma sa)) (unat sa) res"
  by (rule padding.reserve_sound [OF assms])

definition quiet_system :: "u64 system" where
  "quiet_system = mask_system (\<lambda>d n. Some 0x7F0000003000) (\<lambda>d. 5)"

lemma library_place_padded_witness:
  "\<exists>res. ReserveWithAlignmentPadding (loader64 Target_x86_64 33) quiet_system 0x5000 0x40000 0x1000 = Some res \<and>
     res_start res = 0x7F0000045000 \<and> placed 0x5000 0x40000 0x1000 res"
proof -
  let ?env = "loader64 Target_x86_64 33" and ?a = "0x40000 :: u64" and ?s = "0x1000 :: u64"
  obtain res where res: "ReserveWithAlignmentPadding ?env quiet_system 0x5000 ?a ?s = Some res"
      "res_start res = 0x7F0000045000" "res_gap res \<noteq> None"
    by (simp add: ReserveWithAlignmentPadding_def quiet_system_def mask_system_def loader64_def place_in_mapping_def
        kGapAlignment_def class64_def Let_def)
  have "placed (unat (0x5000 :: u64)) (unat (max ?a ?s)) (unat ?s) res"
    using library_place_padded [OF padding64.padding_axioms [folded quiet_system_def], where ma = ?a and sa = ?s and len = "0x5000" and res = res and l = 12 and i = 18 and j = 12] res
    by (auto simp: loader64_def quiet_system_def)
  with res show ?thesis by auto
qed

end
