(* ===== verification/Elf_Loading.thy ===== *)
theory Elf_Loading
  imports Elf_Reserve
begin

text \<open>
  The whole of \<open>Load\<close>: what a success establishes, what a failure undoes, and where the program headers
  it reports lie.
\<close>

section \<open>The program headers in memory\<close>

text \<open>The headers at an address lie in the file part of a loaded segment.\<close>

definition phdrs_inside :: "('w::len) word loader_env \<Rightarrow> 'w word elf_reader \<Rightarrow> 'w word \<Rightarrow> bool" where
  "phdrs_inside env r p \<longleftrightarrow>
     (\<exists>ph \<in> set (loads (phdr_table r)).
        seg_at r ph \<le> unat p \<and> unat p + phdr_num r * class_sizeof_phdr (elf_class env) \<le> seg_at r ph + unat (p_filesz ph))"

lemma CheckPhdr_Inr:
  "CheckPhdr env r p = Inr r' \<Longrightarrow> r' = r\<lparr>loaded_phdr := Some p\<rparr> \<and>
     (\<exists>ph \<in> set (loads (phdr_table r)). p_vaddr ph + load_bias r \<le> p \<and>
        p + of_nat (phdr_num r * class_sizeof_phdr (elf_class env)) \<le> p_filesz ph + (p_vaddr ph + load_bias r))"
  by (auto simp: CheckPhdr_def Let_def loads_def split: if_splits)

text \<open>With a table that does not wrap around the address space, the check is the containment.\<close>

lemma CheckPhdr_inside:
  fixes r :: "('w::len) word elf_reader"
  assumes "CheckPhdr env r p = Inr r'" "\<forall>ph \<in> set (loads (phdr_table r)). segment_ok env r ph" "paging env"
    and "unat p + phdr_num r * class_sizeof_phdr (elf_class env) < 2 ^ LENGTH('w)"
  shows "phdrs_inside env r p"
proof -
  let ?n = "phdr_num r * class_sizeof_phdr (elf_class env)"
  obtain ph where ph: "ph \<in> set (loads (phdr_table r))" "p_vaddr ph + load_bias r \<le> p"
      "p + of_nat ?n \<le> p_filesz ph + (p_vaddr ph + load_bias r)" using CheckPhdr_Inr [OF assms(1)] by blast
  have conv: "unat (of_nat x :: 'w word) = x" if "x < 2 ^ LENGTH('w)" for x using that by (simp add: unat_of_nat)
  have n: "unat (of_nat ?n :: 'w word) = ?n" by (rule conv) (use assms(4) in linarith)
  have end_p: "unat (p + of_nat ?n) = unat p + ?n" using assms(4) unat_add_lem [of p "of_nat ?n"] by (simp only: n)
  have "seg_at r ph + unat (p_filesz ph) < 2 ^ LENGTH('w)"
    using assms(2,3) ph(1) by (fastforce simp: segment_ok_def seg_at_def paging_def)
  then have "unat (p_filesz ph + (p_vaddr ph + load_bias r)) = seg_at r ph + unat (p_filesz ph)"
    using unat_add_lem [of "p_filesz ph" "p_vaddr ph + load_bias r"] by (simp add: seg_at_def add.commute)
  then show ?thesis using ph end_p unfolding phdrs_inside_def by (auto simp: word_le_nat_alt seg_at_def intro!: bexI [of _ ph])
qed

text \<open>A table that does wrap around passes the check far outside every segment.\<close>

lemma CheckPhdr_wraps:
  "CheckPhdr (loader64 t sdk) (r\<lparr>phdr_num := 1, load_bias := 0x10000, phdr_table :=
       [\<lparr>p_type = PT_LOAD, p_offset = 0, p_vaddr = 0, p_paddr = 0, p_filesz = 0x1000, p_memsz = 0x1000, p_flags = PF_R, p_align = 0x1000\<rparr>]\<rparr>)
     0xFFFFFFFFFFFFFFF8 = Inr (r\<lparr>phdr_num := 1, load_bias := 0x10000, phdr_table :=
       [\<lparr>p_type = PT_LOAD, p_offset = 0, p_vaddr = 0, p_paddr = 0, p_filesz = 0x1000, p_memsz = 0x1000, p_flags = PF_R, p_align = 0x1000\<rparr>],
       loaded_phdr := Some 0xFFFFFFFFFFFFFFF8\<rparr>)"
  by (simp add: CheckPhdr_def loader64_def class64_def sizeof_phdr64_def)

lemma FindPhdr_check: "FindPhdr env read_phoff r = Inr r' \<Longrightarrow> \<exists>p. CheckPhdr env r p = Inr r'"
  by (auto simp: FindPhdr_def Let_def split: option.splits if_splits)

section \<open>Success and failure\<close>

lemma FindPhdr_keeps:
  "FindPhdr env read_phoff r = Inr r' \<Longrightarrow> load_start r' = load_start r \<and> load_size r' = load_size r \<and>
     mapped_by_caller r' = mapped_by_caller r \<and> load_bias r' = load_bias r \<and> phdr_table r' = phdr_table r \<and>
     phdr_num r' = phdr_num r \<and> (\<exists>p. loaded_phdr r' = Some p)"
  by (auto dest!: FindPhdr_check CheckPhdr_Inr)

lemma Load_success:
  assumes "Load env sys read_phoff bti space r = Some (r', space', calls, True)" "\<not> did_load r"
  obtains r1 segs r2 where "ReserveAddressSpace env sys space r = Inr (r1, space')" "LoadSegments env sys r1 = (segs, None)"
    "FindPhdr env read_phoff r1 = Inr r2" "r' = r2\<lparr>did_load := True\<rparr>" "\<exists>pc. calls = segs @ pc"
  using assms by (auto simp: Load_def Let_def split: if_splits sum.splits prod.splits)

lemma Load_failure:
  assumes "Load env sys read_phoff bti space r = Some (r', space', calls, False)"
  shows "\<not> did_load r' \<and>
    (calls = [] \<and> r' = r\<lparr>load_size := fst (phdr_table_get_load_size env (phdr_table r))\<rparr> \<and> (\<exists>e. ReserveAddressSpace env sys space r = Inl e) \<or>
     (\<exists>r1 cs. ReserveAddressSpace env sys space r = Inr (r1, space') \<and>
        calls = cs @ (if load_start r1 \<noteq> 0 \<and> load_size r1 \<noteq> 0 \<and> \<not> mapped_by_caller r1
          then [Munmap (load_start r1) (load_size r1)] else [])))"
proof (cases "did_read r \<and> \<not> did_load r")
  case True
  show ?thesis
  proof (cases "ReserveAddressSpace env sys space r")
    case (Inl e)
    with assms True show ?thesis by (auto simp: Load_def)
  next
    case (Inr rs)
    obtain r1 sp segs e where split: "rs = (r1, sp)" "LoadSegments env sys r1 = (segs, e)" by fastforce
    note load = assms [unfolded Load_def] True Inr split
    show ?thesis
    proof (cases "e = None \<and> (\<exists>r2. FindPhdr env read_phoff r1 = Inr r2)")
      case False
      then have "(if e = None then FindPhdr env read_phoff r1 else Inl LoadedPhdrNotFound) \<in> range Inl"
        by (cases "FindPhdr env read_phoff r1") auto
      with load show ?thesis by (auto simp: Let_def)
    next
      case found: True
      then obtain r2 where r2: "e = None" "FindPhdr env read_phoff r1 = Inr r2" by blast
      show ?thesis using load r2 FindPhdr_keeps [OF r2(2)] by (auto simp: Let_def split: if_splits prod.splits)
    qed
  qed
qed (use assms in \<open>auto simp: Load_def split: if_splits\<close>)


text \<open>The memory after a successful \<open>Load\<close>, and what it keeps of the reader.\<close>

lemma Load_keeps:
  assumes "Load env sys read_phoff bti space r = Some (r', space', calls, True)" "\<not> did_load r"
  shows "did_load r' \<and> file_bytes r' = file_bytes r \<and> file_offset r' = file_offset r \<and> phdr_table r' = phdr_table r"
proof -
  obtain r1 segs r2 where L: "ReserveAddressSpace env sys space r = Inr (r1, space')"
      "FindPhdr env read_phoff r1 = Inr r2" "r' = r2\<lparr>did_load := True\<rparr>"
    by (rule Load_success [OF assms])
  obtain p where "r2 = r1\<lparr>loaded_phdr := Some p\<rparr>" using FindPhdr_check [OF L(2)] CheckPhdr_Inr by blast
  moreover have "file_bytes r1 = file_bytes r \<and> file_offset r1 = file_offset r \<and> phdr_table r1 = phdr_table r"
    using L(1) by (auto simp: ReserveAddressSpace_def Let_def split: prod.splits if_splits option.splits)
  ultimately show ?thesis by (simp add: L(3))
qed

lemma Load_maps:
  fixes r :: "('w::len) word elf_reader"
  assumes "paging env" "Load env sys read_phoff bti space r = Some (r', space', calls, True)" "\<not> did_load r" "0 \<le> file_offset r"
    and "\<forall>ph \<in> set (loads (phdr_table r')). segment_ok env r' ph" "pages_apart env r' (phdr_table r')"
  shows "\<exists>segs rest. calls = segs @ rest \<and>
      (\<forall>ph \<in> set (loads (phdr_table r')). segment_in_memory env r' ph (apply_calls (unat (PAGE_SIZE env)) (file_bytes r') segs m))"
    and "\<exists>p. loaded_phdr r' = Some p \<and>
      (unat p + phdr_num r' * class_sizeof_phdr (elf_class env) < 2 ^ LENGTH('w) \<longrightarrow> phdrs_inside env r' p)"
proof -
  obtain r1 segs r2 where L: "ReserveAddressSpace env sys space r = Inr (r1, space')" "LoadSegments env sys r1 = (segs, None)"
      "FindPhdr env read_phoff r1 = Inr r2" "r' = r2\<lparr>did_load := True\<rparr>" "\<exists>pc. calls = segs @ pc"
    by (rule Load_success [OF assms(2,3)])
  obtain p where p: "CheckPhdr env r1 p = Inr r2" using FindPhdr_check [OF L(3)] by blast
  then have r': "r' = r1\<lparr>loaded_phdr := Some p, did_load := True\<rparr>" using CheckPhdr_Inr [OF p] L(4) by simp
  have off: "0 \<le> file_offset r1"
    using L(1) assms(4) by (auto simp: ReserveAddressSpace_def Let_def split: prod.splits if_splits option.splits)
  have same: "segment_ok env r' = segment_ok env r1" "segment_in_memory env r' = segment_in_memory env r1"
    "segment_pages env r' = segment_pages env r1" "seg_at r' = seg_at r1"
    by (simp_all add: fun_eq_iff r' segment_ok_def segment_in_memory_def segment_pages_def seg_at_def)
  have ok: "\<forall>ph \<in> set (loads (phdr_table r1)). segment_ok env r1 ph" "pages_apart env r1 (phdr_table r1)"
    using assms(5,6) by (simp_all add: same pages_apart_def) (simp_all add: r')
  have "\<forall>ph \<in> set (loads (phdr_table r1)). segment_in_memory env r1 ph (apply_calls (unat (PAGE_SIZE env)) (file_bytes r1) segs m)"
    using paging.load_segments_image [OF assms(1) L(2) [unfolded LoadSegments_def] ok off] by blast
  then have mem: "\<forall>ph \<in> set (loads (phdr_table r')). segment_in_memory env r' ph (apply_calls (unat (PAGE_SIZE env)) (file_bytes r') segs m)"
    by (simp add: same) (simp add: r')
  have "phdrs_inside env r' p" if "unat p + phdr_num r' * class_sizeof_phdr (elf_class env) < 2 ^ LENGTH('w)"
    using CheckPhdr_inside [OF p ok(1) assms(1)] that by (simp add: phdrs_inside_def same) (simp add: r')
  then show "\<exists>segs rest. calls = segs @ rest \<and>
      (\<forall>ph \<in> set (loads (phdr_table r')). segment_in_memory env r' ph (apply_calls (unat (PAGE_SIZE env)) (file_bytes r') segs m))"
    and "\<exists>p. loaded_phdr r' = Some p \<and>
      (unat p + phdr_num r' * class_sizeof_phdr (elf_class env) < 2 ^ LENGTH('w) \<longrightarrow> phdrs_inside env r' p)"
    using mem L(5) by (auto simp: r')
qed



end
