(* ===== verification/Elf_Demo.thy ===== *)
theory Elf_Demo
  imports Elf_Loading
begin

text \<open>
  A small 64-bit library, read and loaded: the properties of the loader at concrete inputs.
\<close>

definition demo_header :: "u64 Ehdr" where
  "demo_header = \<lparr>e_ident = [0x7F, 0x45, 0x4C, 0x46, 2, 1, 1, 0, 0, 0, 0, 0, 0, 0, 0, 0], e_type = 3, e_machine = 62,
     e_version = 1, e_entry = 0, e_phoff = 64, e_shoff = 120, e_flags = 0, e_ehsize = 64, e_phentsize = 56, e_phnum = 1,
     e_shentsize = 64, e_shnum = 2, e_shstrndx = 1\<rparr>"

definition demo_dynamic :: "u64 Phdr" where
  "demo_dynamic = \<lparr>p_type = PT_DYNAMIC, p_offset = 248, p_vaddr = 248, p_paddr = 248, p_filesz = 16, p_memsz = 16,
     p_flags = PF_R, p_align = 8\<rparr>"

definition demo_sections :: "u64 Shdr list" where
  "demo_sections = [
     \<lparr>sh_name = 0, sh_type = SHT_DYNAMIC, sh_flags = 0, sh_addr = 248, sh_offset = 248, sh_size = 16, sh_link = 1, sh_info = 0,
       sh_addralign = 8, sh_entsize = 16\<rparr>,
     \<lparr>sh_name = 0, sh_type = SHT_STRTAB, sh_flags = 0, sh_addr = 0, sh_offset = 264, sh_size = 3, sh_link = 0, sh_info = 0,
       sh_addralign = 1, sh_entsize = 0\<rparr>]"

definition demo_file :: "byte list" where
  "demo_file = enc_ehdr64 demo_header @ enc_phdr64 demo_dynamic @ concat (map enc_shdr64 demo_sections) @
     replicate 16 0 @ [0, 0x61, 0]"

definition new_reader :: "u64 elf_reader" where
  "new_reader = \<lparr>did_read = False, did_load = False, file_bytes = [], file_offset = 0, file_size = 0, header = demo_header,
     phdr_num = 0, phdr_table = [], shdr_num = 0, shdr_table = [], dynamic = None, strtab = None, strtab_size = 0,
     load_start = 0, load_size = 0, load_bias = 0, loaded_phdr = None, mapped_by_caller = False, gap_start = 0, gap_size = 0,
     warnings = []\<rparr>"

lemma slice_here: "length xs = n \<Longrightarrow> slice (xs @ ys) 0 n = Some xs"
  by (simp add: slice_def)

lemma demo_lengths:
  "length (enc_ehdr64 demo_header) = 64" "length (enc_phdr64 demo_dynamic) = 56" "length (concat (map enc_shdr64 demo_sections)) = 128"
  "length demo_file = 267"
proof -
  show l: "length (enc_ehdr64 demo_header) = 64" "length (enc_phdr64 demo_dynamic) = 56"
    "length (concat (map enc_shdr64 demo_sections)) = 128"
    by (simp_all add: enc_ehdr64_def demo_header_def enc_phdr64_def demo_sections_def enc_shdr64_def)
  show "length demo_file = 267" unfolding demo_file_def by (simp only: length_append l) simp
qed

lemma demo_slices:
  "slice demo_file 64 56 = Some (enc_phdr64 demo_dynamic)"
  "slice demo_file 120 128 = Some (concat (map enc_shdr64 demo_sections))"
  "slice demo_file 248 16 = Some (replicate 16 0)"
  "slice demo_file 264 3 = Some [0, 0x61, 0]"
proof -
  have skip: "slice demo_file (64 + k) n = slice (enc_phdr64 demo_dynamic @ concat (map enc_shdr64 demo_sections) @ replicate 16 0 @ [0, 0x61, 0]) k n"
    "slice demo_file (120 + k) n = slice (concat (map enc_shdr64 demo_sections) @ replicate 16 0 @ [0, 0x61, 0]) k n"
    "slice demo_file (248 + k) n = slice (replicate 16 0 @ [0, 0x61, 0]) k n" for k n
    unfolding demo_file_def by (simp_all only: slice_past demo_lengths) (simp_all add: slice_past demo_lengths)
  show "slice demo_file 64 56 = Some (enc_phdr64 demo_dynamic)"
    using skip(1) [of 0] by (simp only: slice_here [OF demo_lengths(2)] add_0_right)
  show "slice demo_file 120 128 = Some (concat (map enc_shdr64 demo_sections))"
    using skip(2) [of 0] by (simp only: slice_here [OF demo_lengths(3)] add_0_right)
  show "slice demo_file 248 16 = Some (replicate 16 0)" "slice demo_file 264 3 = Some [0, 0x61, 0]"
    using skip(3) [of 0 16] skip(3) [of 16 3] by (simp_all add: slice_def)
qed

lemma demo_tables:
  "dec_ehdr64 demo_file 0 = Some demo_header"
  "read_table dec_phdr64 56 (enc_phdr64 demo_dynamic, 0) 1 = Some [demo_dynamic]"
  "read_table dec_shdr64 64 (concat (map enc_shdr64 demo_sections), 0) 2 = Some demo_sections"
proof -
  show "dec_ehdr64 demo_file 0 = Some demo_header"
    using dec_enc_ehdr(2) [of "Ehdr.make (replicate 16 0) 0 0 0 0 0 0 0 0 0 0 0 0 0" demo_header "[]"]
    by (simp add: demo_file_def Ehdr.defs EI_NIDENT_def) (simp add: demo_header_def)
  show "read_table dec_phdr64 56 (enc_phdr64 demo_dynamic, 0) 1 = Some [demo_dynamic]"
    using phdr64.dec_enc [of "[]" demo_dynamic "[]"] by (simp add: numeral_eq_Suc)
  show "read_table dec_shdr64 64 (concat (map enc_shdr64 demo_sections), 0) 2 = Some demo_sections"
    using shdr64.table_nth [of 0 demo_sections "[]" "[]"] shdr64.table_nth [of 1 demo_sections "[]" "[]"]
    by (simp add: demo_sections_def numeral_2_eq_2 sizeof_shdr64_def)
qed

abbreviation demo_env :: "u64 loader_env" where "demo_env \<equiv> loader64 Target_x86_64 33"

definition demo_reader :: "u64 elf_reader" where
  "demo_reader = new_reader\<lparr>did_read := True, file_bytes := demo_file, file_size := 267, phdr_num := 1, phdr_table := [demo_dynamic],
     shdr_num := 2, shdr_table := demo_sections, dynamic := Some (replicate 16 0), strtab := Some [0, 0x61, 0], strtab_size := 3\<rparr>"

lemma demo_env_simps [simp]:
  "elf_class demo_env = class64" "target demo_env = Target_x86_64" "target_sdk demo_env = 33"
  "safe_add demo_env = safe_add64" "map_fragment demo_env = map_slice"
  by (simp_all add: loader64_def)

lemma class64_simps [simp]:
  "lp64 class64" "class_dec_ehdr class64 = dec_ehdr64" "class_dec_phdr class64 = dec_phdr64" "class_dec_shdr class64 = dec_shdr64"
  "class_sizeof_ehdr class64 = 64" "class_sizeof_phdr class64 = 56" "class_sizeof_shdr class64 = 64" "class_align class64 = 8"
  by (simp_all add: class64_def sizeof_ehdr64_def sizeof_phdr64_def sizeof_shdr64_def)

lemma demo_read: "Read demo_env new_reader demo_file 0 267 = Inr demo_reader"
proof -
  let ?r = "new_reader\<lparr>file_bytes := demo_file, file_size := 267\<rparr>"
  have h: "ReadElfHeader demo_env ?r = Inr ?r"
    by (simp add: ReadElfHeader_def demo_tables new_reader_def)
  have v: "VerifyElfHeader demo_env ?r = Inr ?r"
    by (simp add: VerifyElfHeader_def Let_def new_reader_def demo_header_def checkMagic_def ElfMagic_def getFileClass_def
        getDataEncoding_def EI_CLASS_def EI_DATA_def check_class_def ELFCLASS64_def ELFDATA2LSB_def ET_DYN_def EV_CURRENT_def
        EM_X86_64_def enforced_at_26_def)
  let ?p = "?r\<lparr>phdr_num := 1, phdr_table := [demo_dynamic]\<rparr>"
  have p: "ReadProgramHeaders demo_env ?r = Inr ?p"
    using demo_slices(1) demo_tables(2)
    by (simp add: ReadProgramHeaders_def Let_def CheckFileRange_def safe_add64_def map_slice_def new_reader_def)
      (simp add: demo_header_def)
  let ?s = "?p\<lparr>shdr_num := 2, shdr_table := demo_sections\<rparr>"
  have s: "ReadSectionHeaders demo_env ?p = Inr ?s"
    using demo_slices(2) demo_tables(3)
    by (simp add: ReadSectionHeaders_def Let_def CheckFileRange_def safe_add64_def map_slice_def new_reader_def)
      (simp add: demo_header_def)
  have d: "ReadDynamicSection demo_env ?s = Inr (?s\<lparr>dynamic := Some (replicate 16 0), strtab := Some [0, 0x61, 0], strtab_size := 3\<rparr>)"
    using demo_slices(3,4)
    by (simp add: ReadDynamicSection_def MapDynamic_def demo_sections_def SHT_DYNAMIC_def SHT_STRTAB_def pt_dynamic_range_def
        demo_dynamic_def enforced_at_26_def Let_def CheckFileRange_def safe_add64_def map_slice_def new_reader_def)
  show ?thesis
    using h v p s d by (simp add: Read_def demo_reader_def new_reader_def)
qed

section \<open>The properties of reading\<close>

lemma header_accepted_iff_witness: "\<exists>r'. VerifyElfHeader demo_env new_reader = Inr r'"
  unfolding header_accepted_iff
  by (simp add: new_reader_def demo_header_def checkMagic_def ElfMagic_def getFileClass_def getDataEncoding_def EI_CLASS_def
      EI_DATA_def class_byte_def ELFCLASS64_def ELFDATA2LSB_def ET_DYN_def EV_CURRENT_def EM_X86_64_def)

lemma read_keeps_file_tables_witness: "tables_in_file demo_env demo_reader \<and> strings_in_file demo_env demo_reader"
  using read_keeps_file_tables [OF _ _ _ _ _ _ demo_read] plain_file.file_access_axioms layout64.class_layout_axioms
  by (simp add: demo_lengths new_reader_def)

lemma checked_range_iff_witness:
  "CheckFileRange demo_env demo_reader 248 16 8 \<and> \<not> CheckFileRange demo_env demo_reader 248 20 8"
  using checked_range_iff [of demo_env demo_reader 248 16 8] checked_range_iff [of demo_env demo_reader 248 20 8]
    plain_file.file_access_axioms by (simp add: demo_reader_def new_reader_def)

section \<open>A library to load\<close>

definition demo_text :: "u64 Phdr" where
  "demo_text = \<lparr>p_type = PT_LOAD, p_offset = 0, p_vaddr = 0, p_paddr = 0, p_filesz = 267, p_memsz = 267, p_flags = PF_R OR PF_X,
     p_align = 0x1000\<rparr>"

definition demo_data :: "u64 Phdr" where
  "demo_data = \<lparr>p_type = PT_LOAD, p_offset = 264, p_vaddr = 0x1108, p_paddr = 0, p_filesz = 3, p_memsz = 0x1000,
     p_flags = PF_R OR PF_W, p_align = 0x1000\<rparr>"

definition demo_phdr :: "u64 Phdr" where
  "demo_phdr = \<lparr>p_type = PT_PHDR, p_offset = 64, p_vaddr = 64, p_paddr = 0, p_filesz = 168, p_memsz = 168, p_flags = PF_R, p_align = 8\<rparr>"

definition load_reader :: "u64 elf_reader" where
  "load_reader = demo_reader\<lparr>phdr_num := 3, phdr_table := [demo_phdr, demo_text, demo_data]\<rparr>"

definition demo_space :: "u64 address_space_params" where
  "demo_space = \<lparr>start_addr = 0x70000000, reserved_size = 0x10000, must_use_address = True\<rparr>"

definition loaded_reader :: "u64 elf_reader" where
  "loaded_reader = load_reader\<lparr>load_size := 0x3000, load_start := 0x70000000, load_bias := 0x70000000, gap_start := 0, gap_size := 0,
     mapped_by_caller := True, loaded_phdr := Some 0x70000040, did_load := True\<rparr>"

lemmas demo_phdrs = demo_text_def demo_data_def demo_phdr_def
lemmas p_flag_defs = PF_R_def PF_W_def PF_X_def

lemma demo_pages [simp]:
  "PAGE_SIZE demo_env = 0x1000" "PAGE_START demo_env x = x AND NOT (mask 12)"
  "PAGE_END demo_env x = (x + 0xFFF) AND NOT (mask 12)" "PAGE_OFFSET demo_env x = x AND mask 12"
  by (simp_all add: loader64_def)

lemma demo_load_size: "phdr_table_get_load_size demo_env [demo_phdr, demo_text, demo_data] = (0x3000, 0, 0x3000)"
  by (simp add: phdr_table_get_load_size_def demo_phdrs pt_defs extend_load_def Let_def mask_numeral word_gt_0)

lemma demo_reserve:
  "ReserveAddressSpace demo_env quiet_system demo_space load_reader =
     Inr (loaded_reader\<lparr>loaded_phdr := None, did_load := False\<rparr>, \<lparr>start_addr = 0x70003000, reserved_size = 0xD000, must_use_address = True\<rparr>)"
  by (simp add: ReserveAddressSpace_def load_reader_def demo_reader_def demo_load_size demo_space_def loaded_reader_def new_reader_def)

lemma demo_segments:
  "LoadSegments demo_env quiet_system (loaded_reader\<lparr>loaded_phdr := None, did_load := False\<rparr>) =
     ([MapFile 0x70000000 0x10B (PFLAGS_TO_PROT (PF_R OR PF_X)) 0,
       MapFile 0x70001000 0x10B (PFLAGS_TO_PROT (PF_R OR PF_W)) 0, Memset 0x7000110B 0xEF5,
       MapZero 0x70002000 0x1000 (PFLAGS_TO_PROT (PF_R OR PF_W)), NameVma 0x70002000 0x1000], None)"
  by (simp add: LoadSegments_def loaded_reader_def load_reader_def demo_reader_def new_reader_def demo_phdrs pt_defs p_flag_defs
      segment_calls_def Let_def mask_numeral kPmdSize_def PFLAGS_TO_PROT_def quiet_system_def mask_system_def)

lemma demo_load:
  "\<exists>space calls. Load demo_env quiet_system (\<lambda>a. 64) False demo_space load_reader = Some (loaded_reader, space, calls, True)"
proof -
  have "FindPhdr demo_env (\<lambda>a. 64) (loaded_reader\<lparr>loaded_phdr := None, did_load := False\<rparr>) = Inr (loaded_reader\<lparr>did_load := False\<rparr>)"
    by (simp add: FindPhdr_def CheckPhdr_def loaded_reader_def load_reader_def demo_reader_def new_reader_def demo_phdrs pt_defs Let_def)
  moreover have "did_read load_reader" "\<not> did_load load_reader"
    by (simp_all add: load_reader_def demo_reader_def new_reader_def)
  ultimately show ?thesis
    by (simp add: Load_def demo_reserve demo_segments Let_def) (simp add: loaded_reader_def)
qed

section \<open>The properties of loading\<close>

lemma demo_loads: "loads (phdr_table loaded_reader) = [demo_text, demo_data]" "loads [demo_phdr, demo_text, demo_data] = [demo_text, demo_data]"
  by (simp_all add: loads_def loaded_reader_def load_reader_def demo_phdrs pt_defs)

lemma demo_base: "file_offset loaded_reader = 0" "load_bias loaded_reader = 0x70000000"
  by (simp_all add: loaded_reader_def load_reader_def demo_reader_def new_reader_def)

lemma demo_segment_ok: "segment_ok demo_env loaded_reader demo_text" "segment_ok demo_env loaded_reader demo_data"
  by (simp_all add: segment_ok_def demo_base demo_phdrs)

lemma demo_pages_apart: "pages_apart demo_env loaded_reader (phdr_table loaded_reader)"
  by (simp add: pages_apart_def demo_loads segment_pages_def seg_at_def demo_base round_up_def demo_phdrs)

lemma load_size_tight_witness:
  "phdr_table_get_load_size demo_env [demo_phdr, demo_text, demo_data] = (0x3000, 0, 0x3000) \<and>
     unat (p_vaddr demo_data) + unat (p_memsz demo_data) \<le> unat (0 :: u64) + unat (0x3000 :: u64)"
proof -
  have "\<forall>ph \<in> set (loads [demo_phdr, demo_text, demo_data]). in_address_space demo_env ph"
    by (simp add: demo_loads) (simp add: in_address_space_def demo_phdrs)
  then show ?thesis using load_size_tight [OF pages64.paging_axioms demo_load_size] demo_load_size by (simp add: demo_loads)
qed

lemma segments_loaded_witness:
  "\<exists>cs. LoadSegments demo_env quiet_system (loaded_reader\<lparr>loaded_phdr := None, did_load := False\<rparr>) = (cs, None) \<and>
     apply_calls 0x1000 demo_file cs (\<lambda>x. None) 0x70000001 = Some (0x45, PFLAGS_TO_PROT (PF_R OR PF_X))"
proof -
  let ?r = "loaded_reader\<lparr>loaded_phdr := None, did_load := False\<rparr>"
  obtain cs where cs: "LoadSegments demo_env quiet_system ?r = (cs, None)" using demo_segments by blast
  have "\<forall>ph \<in> set (loads (phdr_table ?r)). segment_ok demo_env ?r ph" "pages_apart demo_env ?r (phdr_table ?r)"
    using demo_segment_ok demo_pages_apart by (simp_all add: demo_loads segment_ok_def pages_apart_def segment_pages_def seg_at_def)
  then have mem: "segment_in_memory demo_env ?r demo_text (apply_calls 0x1000 (file_bytes ?r) cs (\<lambda>x. None))"
    using segments_loaded [OF pages64.paging_axioms cs, of "\<lambda>x. None"] by (simp add: demo_base demo_loads)
  have "byte_at demo_file 1 = 0x45" "file_bytes ?r = demo_file"
    by (simp_all add: byte_at_def demo_lengths demo_file_def enc_ehdr64_def demo_header_def
        loaded_reader_def load_reader_def demo_reader_def)
  moreover have "\<forall>k < 267. apply_calls 0x1000 (file_bytes ?r) cs (\<lambda>x. None) (0x70000000 + k) = Some (byte_at (file_bytes ?r) k, PFLAGS_TO_PROT (PF_R OR PF_X))"
    using mem unfolding segment_in_memory_def by (simp add: seg_at_def demo_base demo_text_def)
  then have "apply_calls 0x1000 (file_bytes ?r) cs (\<lambda>x. None) (0x70000000 + 1) = Some (byte_at (file_bytes ?r) 1, PFLAGS_TO_PROT (PF_R OR PF_X))"
    by (rule allE [of _ 1]) simp
  ultimately have "apply_calls 0x1000 demo_file cs (\<lambda>x. None) 0x70000001 = Some (0x45, PFLAGS_TO_PROT (PF_R OR PF_X))"
    by simp
  with cs show ?thesis by auto
qed




end
