(* ===== verification/Elf_Relro.thy ===== *)
theory Elf_Relro
  imports Elf_Image
begin

text \<open>
  Sharing relocated pages, \<open>lib/linker_phdr.cpp\<close>: \<open>phdr_table_serialize_gnu_relro\<close> writes the relro
  segments to a file and maps the file over them, \<open>phdr_table_map_gnu_relro\<close> maps another process's file
  over the pages that are the same.  Neither changes a byte of memory.
\<close>

section \<open>The operations\<close>

definition prot_read_only :: prot where
  "prot_read_only = prot_none\<lparr>prot_read := True\<rparr>"

text \<open>The bytes of a range of memory; \<open>None\<close> where some address is not mapped.\<close>

definition mem_read :: "cells \<Rightarrow> nat \<Rightarrow> nat \<Rightarrow> byte list option" where
  "mem_read m a n = those (map (\<lambda>i. map_option fst (m (a + i))) [0..<n])"

definition map_over :: "cells \<Rightarrow> nat \<Rightarrow> nat \<Rightarrow> byte list \<Rightarrow> nat \<Rightarrow> cells" where
  "map_over m a n f off = (\<lambda>x. if a \<le> x \<and> x < a + n then Some (byte_at f (off + (x - a)), prot_read_only) else m x)"

text \<open>
  Writing: \<open>write_ok k\<close> and \<open>map_ok k\<close> say whether the calls for the \<open>k\<close>-th relro segment succeed; the
  bytes of a mapped segment are appended at \<open>file_offset\<close>, where the file ends.  \<open>False\<close> is the result
  \<open>-1\<close>.
\<close>

fun serialize_from ::
  "('w::len) word loader_env \<Rightarrow> (nat \<Rightarrow> bool) \<Rightarrow> (nat \<Rightarrow> bool) \<Rightarrow> 'w word \<Rightarrow> nat \<Rightarrow> cells \<times> byte list \<Rightarrow> 'w word Phdr list \<Rightarrow>
     (cells \<times> byte list) \<times> bool" where
  "serialize_from env write_ok map_ok bias k (m, f) [] = ((m, f), True)"
| "serialize_from env write_ok map_ok bias k (m, f) (ph # phs) =
     (if p_type ph \<noteq> PT_GNU_RELRO then serialize_from env write_ok map_ok bias k (m, f) phs
      else case page_range env bias ph of (a, n) \<Rightarrow>
        (case mem_read m (unat a) (unat n) of
           None \<Rightarrow> ((m, f), False)
         | Some bs \<Rightarrow>
           if \<not> write_ok k then ((m, f), False)
           else if \<not> map_ok k then ((m, f @ bs), False)
           else serialize_from env write_ok map_ok bias (Suc k)
                  (map_over m (unat a) (unat n) (f @ bs) (length f), f @ bs) phs))"

definition phdr_table_serialize_gnu_relro ::
  "('w::len) word loader_env \<Rightarrow> (nat \<Rightarrow> bool) \<Rightarrow> (nat \<Rightarrow> bool) \<Rightarrow> 'w word \<Rightarrow> 'w word Phdr list \<Rightarrow> cells \<Rightarrow> byte list \<Rightarrow>
     (cells \<times> byte list) \<times> bool" where
  "phdr_table_serialize_gnu_relro env write_ok map_ok bias phdrs m f = serialize_from env write_ok map_ok bias 0 (m, f) phdrs"

text \<open>
  Mapping.  \<open>same_page\<close> is \<open>memcmp\<close> of a page (a page that is not mapped would fault; here it differs).
  Both inner loops advance page by page while a test holds; pages have a positive size.
\<close>

definition same_page :: "nat \<Rightarrow> cells \<Rightarrow> nat \<Rightarrow> byte list \<Rightarrow> nat \<Rightarrow> nat \<Rightarrow> bool" where
  "same_page page m base f file_off off \<longleftrightarrow>
     mem_read m (base + off) page = Some (map (\<lambda>i. byte_at f (file_off + off + i)) [0..<page])"

function pages_while :: "nat \<Rightarrow> nat \<Rightarrow> (nat \<Rightarrow> bool) \<Rightarrow> nat \<Rightarrow> nat" where
  "pages_while page sz p off = (if 0 < page \<and> off < sz \<and> p off then pages_while page sz p (off + page) else off)"
  by pat_completeness auto
termination by (relation "measure (\<lambda>(page, sz, p, off). sz - off)") auto

declare pages_while.simps [simp del]

lemma pages_while_ge: "off \<le> pages_while page sz p off"
proof (induction page sz p off rule: pages_while.induct)
  case (1 page sz p off)
  then show ?case using pages_while.simps [of page sz p off] by (cases "0 < page \<and> off < sz \<and> p off") auto
qed

lemma pages_while_stop: "0 < page \<Longrightarrow> sz \<le> pages_while page sz p off \<or> \<not> p (pages_while page sz p off)"
proof (induction page sz p off rule: pages_while.induct)
  case (1 page sz p off)
  then show ?case using pages_while.simps [of page sz p off] by (cases "off < sz \<and> p off") auto
qed

lemma pages_while_progress:
  assumes "0 < page" "off < sz"
  shows "off < pages_while page sz p (pages_while page sz (\<lambda>x. \<not> p x) off)"
proof (cases "pages_while page sz (\<lambda>x. \<not> p x) off = off")
  case True
  then have "p off" using pages_while_stop [OF assms(1), of sz "\<lambda>x. \<not> p x" off] assms(2) by auto
  then show ?thesis
    using pages_while_ge [of "off + page" page sz p] pages_while.simps [of page sz p off] assms True by auto
next
  case False
  then show ?thesis
    using pages_while_ge [of off page sz "\<lambda>x. \<not> p x"] pages_while_ge [of "pages_while page sz (\<lambda>x. \<not> p x) off" page sz p]
    by linarith
qed

function map_similar ::
  "nat \<Rightarrow> nat \<Rightarrow> nat \<Rightarrow> byte list \<Rightarrow> nat \<Rightarrow> (nat \<Rightarrow> bool) \<Rightarrow> nat \<Rightarrow> cells \<Rightarrow> nat \<Rightarrow> cells \<times> nat \<times> bool" where
  "map_similar page sz base f file_off map_ok k m off =
     (if 0 < page \<and> off < sz then
        let match = pages_while page sz (\<lambda>x. \<not> same_page page m base f file_off x) off;
            mismatch = pages_while page sz (same_page page m base f file_off) match
        in if mismatch > match then
             if map_ok k
             then map_similar page sz base f file_off map_ok (Suc k)
                    (map_over m (base + match) (mismatch - match) f (file_off + match)) mismatch
             else (m, Suc k, False)
           else map_similar page sz base f file_off map_ok k m mismatch
      else (m, k, True))"
  by pat_completeness auto
termination
  by (relation "measure (\<lambda>(page, sz, base, f, file_off, map_ok, k, m, off). sz - off)")
    (auto intro!: diff_less_mono2 pages_while_progress)

declare map_similar.simps [simp del]

fun map_relro_from ::
  "('w::len) word loader_env \<Rightarrow> (nat \<Rightarrow> bool) \<Rightarrow> 'w word \<Rightarrow> byte list \<Rightarrow> nat \<Rightarrow> cells \<times> 'w word \<Rightarrow> 'w word Phdr list \<Rightarrow>
     (cells \<times> 'w word) \<times> bool" where
  "map_relro_from env map_ok bias f k (m, file_off) [] = ((m, file_off), True)"
| "map_relro_from env map_ok bias f k (m, file_off) (ph # phs) =
     (if p_type ph \<noteq> PT_GNU_RELRO then map_relro_from env map_ok bias f k (m, file_off) phs
      else case page_range env bias ph of (a, n) \<Rightarrow>
        if of_nat (length f) - file_off < n then ((m, file_off), True)
        else (case map_similar (unat (PAGE_SIZE env)) (unat n) (unat a) f (unat file_off) map_ok k m 0 of
                (m', k', False) \<Rightarrow> ((m', file_off), False)
              | (m', k', True) \<Rightarrow> map_relro_from env map_ok bias f k' (m', file_off + n) phs))"

text \<open>With the temporary mapping of the file: \<open>fstat\<close> or \<open>mmap\<close> may fail.\<close>

definition phdr_table_map_gnu_relro ::
  "('w::len) word loader_env \<Rightarrow> bool \<Rightarrow> bool \<Rightarrow> (nat \<Rightarrow> bool) \<Rightarrow> 'w word \<Rightarrow> 'w word Phdr list \<Rightarrow> byte list \<Rightarrow> cells \<Rightarrow> 'w word \<Rightarrow>
     (cells \<times> 'w word) \<times> bool" where
  "phdr_table_map_gnu_relro env fstat_ok temp_ok map_ok bias phdrs f m file_off =
     (if \<not> fstat_ok \<or> (f \<noteq> [] \<and> \<not> temp_ok) then ((m, file_off), False)
      else map_relro_from env map_ok bias f 0 (m, file_off) phdrs)"

section \<open>No byte changes\<close>

definition bytes_of :: "cells \<Rightarrow> nat \<Rightarrow> byte option" where
  "bytes_of m x = map_option fst (m x)"

text \<open>The same bytes, and every cell that differs is now read-only.\<close>

definition only_protected :: "cells \<Rightarrow> cells \<Rightarrow> bool" where
  "only_protected m m' \<longleftrightarrow> (\<forall>x. bytes_of m' x = bytes_of m x \<and> (m' x = m x \<or> (\<exists>b. m' x = Some (b, prot_read_only))))"

lemma only_protected_refl [simp]: "only_protected m m"
  by (simp add: only_protected_def)

lemma only_protected_trans: "only_protected m m' \<Longrightarrow> only_protected m' m'' \<Longrightarrow> only_protected m m''"
  unfolding only_protected_def by metis

lemma those_eq_Some: "those xs = Some ys \<longleftrightarrow> xs = map Some ys"
  by (induction xs arbitrary: ys) (auto split: option.splits)

lemma mem_read_Some:
  "mem_read m a n = Some bs \<longleftrightarrow> length bs = n \<and> (\<forall>i < n. bytes_of m (a + i) = Some (bs ! i))"
  unfolding mem_read_def those_eq_Some bytes_of_def by (auto simp: list_eq_iff_nth_eq)

lemma map_over_protects:
  assumes "\<And>i. i < n \<Longrightarrow> bytes_of m (a + i) = Some (byte_at f (off + i))"
  shows "only_protected m (map_over m a n f off)"
  unfolding only_protected_def
proof
  fix x
  show "bytes_of (map_over m a n f off) x = bytes_of m x \<and>
      (map_over m a n f off x = m x \<or> (\<exists>b. map_over m a n f off x = Some (b, prot_read_only)))"
  proof (cases "a \<le> x \<and> x < a + n")
    case True
    then have "x - a < n" "a + (x - a) = x" by linarith+
    then have "bytes_of m x = Some (byte_at f (off + (x - a)))" using assms [of "x - a"] by (simp only:)
    with True show ?thesis by (auto simp: map_over_def bytes_of_def)
  qed (auto simp: map_over_def bytes_of_def)
qed

lemma pages_while_all:
  "off + j * page < pages_while page sz p off \<Longrightarrow> p (off + j * page)"
proof (induction page sz p off arbitrary: j rule: pages_while.induct)
  case (1 page sz p off)
  show ?case
  proof (cases "0 < page \<and> off < sz \<and> p off")
    case False
    with 1 show ?thesis using pages_while.simps [of page sz p off] by auto
  next
    case True
    then have eq: "pages_while page sz p off = pages_while page sz p (off + page)"
      using pages_while.simps [of page sz p off] by simp
    show ?thesis
    proof (cases j)
      case 0
      with True show ?thesis by simp
    next
      case (Suc i)
      with 1 True eq show ?thesis by (simp add: add.assoc)
    qed
  qed
qed

text \<open>The pages between two stops of the loops hold the file's bytes.\<close>

lemma matching_range:
  assumes "0 < page" "off + i < pages_while page sz (same_page page m base f file_off) off"
  shows "bytes_of m (base + off + i) = Some (byte_at f (file_off + off + i))"
proof -
  define j where "j = i div page"
  have i: "i = j * page + i mod page" by (simp add: j_def)
  then have "off + j * page < pages_while page sz (same_page page m base f file_off) off" using assms(2) by linarith
  then have "same_page page m base f file_off (off + j * page)" by (rule pages_while_all)
  moreover have "i mod page < page" using assms(1) by simp
  ultimately have "bytes_of m (base + (off + j * page) + i mod page) = Some (byte_at f (file_off + (off + j * page) + i mod page))"
    unfolding same_page_def mem_read_Some by simp
  then show ?thesis by (subst (1 2) i) (simp add: add.assoc)
qed

lemma map_similar_protects:
  "map_similar page sz base f file_off map_ok k m off = (m', k', res) \<Longrightarrow> only_protected m m'"
proof (induction page sz base f file_off map_ok k m off arbitrary: m' k' res rule: map_similar.induct)
  case (1 page sz base f file_off map_ok k m off)
  define match mismatch where
    "match = pages_while page sz (\<lambda>x. \<not> same_page page m base f file_off x) off" and
    "mismatch = pages_while page sz (same_page page m base f file_off) match"
  note step = map_similar.simps [of page sz base f file_off map_ok k m off, folded match_def, folded mismatch_def]
  show ?case
  proof (cases "0 < page \<and> off < sz")
    case False
    with 1 step show ?thesis by auto
  next
    case True
    define m1 where "m1 = map_over m (base + match) (mismatch - match) f (file_off + match)"
    have m1: "only_protected m m1" unfolding m1_def
    proof (rule map_over_protects)
      fix i assume "i < mismatch - match"
      then show "bytes_of m (base + match + i) = Some (byte_at f (file_off + match + i))"
        using matching_range [of page match i sz m base f file_off] True unfolding mismatch_def by simp
    qed
    note IH = 1(1,2) [OF True match_def mismatch_def]
    from 1(3) True have res:
      "(if mismatch > match then if map_ok k then map_similar page sz base f file_off map_ok (Suc k) m1 mismatch
          else (m, Suc k, False) else map_similar page sz base f file_off map_ok k m mismatch) = (m', k', res)"
      unfolding step by (simp only: Let_def m1_def if_True simp_thms match_def [symmetric] mismatch_def [symmetric])
    show ?thesis
    proof (cases "mismatch > match \<and> map_ok k")
      case mapped: True
      then have "only_protected m1 m'" using res IH(1) by (simp add: m1_def)
      with m1 show ?thesis by (rule only_protected_trans)
    next
      case False
      then show ?thesis using res IH(2) by (auto split: if_splits)
    qed
  qed
qed

lemma map_relro_protects:
  "map_relro_from env map_ok bias f k (m, off) phs = ((m', off'), res) \<Longrightarrow> only_protected m m'"
proof (induction phs arbitrary: k m off)
  case (Cons ph phs)
  show ?case
  proof (cases "p_type ph = PT_GNU_RELRO")
    case True
    then show ?thesis
      using Cons.prems by (auto split: prod.splits if_splits bool.splits dest!: map_similar_protects
        intro: only_protected_trans Cons.IH)
  qed (use Cons in simp)
qed simp

section \<open>Sharing\<close>

text \<open>Where all pages agree, the whole range is mapped in one go.\<close>

lemma pages_while_whole:
  assumes "\<And>x. x < sz \<Longrightarrow> page dvd x \<Longrightarrow> p x" "0 < page" "page dvd sz" "page dvd off" "off \<le> sz"
  shows "pages_while page sz p off = sz"
  using assms
proof (induction page sz p off rule: pages_while.induct)
  case (1 page sz p off)
  show ?case
  proof (cases "off < sz")
    case True
    then have "page \<le> sz - off" using 1(4,5) by (simp add: dvd_imp_le dvd_diff_nat)
    then have "pages_while page sz p (off + page) = sz" using 1 True by simp
    then show ?thesis using pages_while.simps [of page sz p off] 1(2,3,5) True by simp
  next
    case False
    then show ?thesis using pages_while.simps [of page sz p off] 1(6) by simp
  qed
qed

lemma map_similar_all:
  assumes page: "0 < page" "page dvd n" and same: "\<And>i. i < n \<Longrightarrow> bytes_of m (base + i) = Some (byte_at f (file_off + i))"
  shows "\<exists>k'. map_similar page n base f file_off (\<lambda>k. True) k m 0 = (map_over m base n f file_off, k', True)"
proof (cases "n = 0")
  case True
  then show ?thesis by (auto simp: map_similar.simps [of page 0] map_over_def fun_eq_iff)
next
  case False
  have sp: "same_page page m base f file_off x" if "x < n" "page dvd x" for x
  proof -
    have "page \<le> n - x" using page(2) that by (simp add: dvd_diff_nat dvd_imp_le)
    then have "x + page \<le> n" using that(1) by linarith
    then show ?thesis using same by (auto simp: same_page_def mem_read_Some add.assoc)
  qed
  then have "pages_while page n (\<lambda>x. \<not> same_page page m base f file_off x) 0 = 0"
    using False by (simp add: pages_while.simps)
  moreover have "pages_while page n (same_page page m base f file_off) 0 = n"
    by (rule pages_while_whole) (use sp page in auto)
  ultimately show ?thesis
    using False page(1) map_similar.simps [of page n base f file_off "\<lambda>k. True" k m 0]
      map_similar.simps [of page n base f file_off "\<lambda>k. True" "Suc k" _ n] by simp
qed

lemma serialize_protects:
  "serialize_from env write_ok map_ok bias k (m, f) phs = ((m', f'), res) \<Longrightarrow> only_protected m m' \<and> (\<exists>g. f' = f @ g)"
proof (induction phs arbitrary: k m f)
  case (Cons ph phs)
  show ?case
  proof (cases "p_type ph = PT_GNU_RELRO")
    case True
    obtain a n where a: "page_range env bias ph = (a, n)" by fastforce
    show ?thesis
    proof (cases "mem_read m (unat a) (unat n)")
      case None
      then show ?thesis using Cons.prems True a by simp
    next
      case (Some bs)
      have "only_protected m (map_over m (unat a) (unat n) (f @ bs) (length f))"
        by (rule map_over_protects) (use Some in \<open>simp add: mem_read_Some byte_at_def nth_append\<close>)
      then show ?thesis
        using Cons.prems True a Some by (auto split: if_splits dest!: Cons.IH intro: only_protected_trans)
    qed
  qed (use Cons in simp)
qed simp

definition relros :: "'w Phdr list \<Rightarrow> 'w Phdr list" where
  "relros phdrs = filter (\<lambda>ph. p_type ph = PT_GNU_RELRO) phdrs"

definition read_only_range :: "cells \<Rightarrow> ('w::len) word \<times> 'w word \<Rightarrow> bool" where
  "read_only_range m r \<longleftrightarrow> (case r of (a, n) \<Rightarrow> \<forall>i < unat n. \<exists>b. m (unat a + i) = Some (b, prot_read_only))"

lemma read_only_kept: "read_only_range m r \<Longrightarrow> only_protected m m' \<Longrightarrow> read_only_range m' r"
  unfolding read_only_range_def only_protected_def by (auto split: prod.splits) metis

context paging begin

lemma page_range_dvd:
  assumes "in_address_space env ph" "page_range env bias ph = (a, n)"
  shows "page dvd unat n"
proof -
  let ?s = "PAGE_START env (p_vaddr ph)" and ?e = "PAGE_END env (p_vaddr ph + p_memsz ph)"
  have sum: "unat (p_vaddr ph + p_memsz ph) = unat (p_vaddr ph) + unat (p_memsz ph)"
    and small: "unat (p_vaddr ph + p_memsz ph) + page \<le> 2 ^ LENGTH('w)"
    using assms(1) page_pos unat_add_small [of "p_vaddr ph" "p_memsz ph"] by (simp_all add: in_address_space_def)
  have "unat ?s \<le> unat ?e" using page_start_le [of "p_vaddr ph"] page_end_bounds(1) [OF small] sum by simp
  then have "unat (?e - ?s) = unat ?e - unat ?s" by (simp add: unat_sub word_le_nat_alt)
  moreover have "n = ?e - ?s" using assms(2) by (auto simp: page_range_def Let_def)
  ultimately show ?thesis using page_start_dvd page_end_bounds(3) [OF small] by (simp add: dvd_diff_nat)
qed

lemma serialized_is_shared:
  assumes "serialize_from env write_ok map_ok bias k (m, f) phs = ((m1, g), True)"
    and "length g < 2 ^ LENGTH('w)" "\<forall>ph \<in> set (relros phs). in_address_space env ph" "bytes_of m2 = bytes_of m"
  shows "\<exists>m3. map_relro_from env (\<lambda>k. True) bias g j (m2, of_nat (length f)) phs = ((m3, of_nat (length g)), True) \<and>
    (\<forall>ph \<in> set (relros phs). read_only_range m3 (page_range env bias ph))"
  using assms
proof (induction phs arbitrary: k m f m2 j)
  case Nil
  then show ?case by (simp add: relros_def)
next
  case (Cons ph phs)
  show ?case
  proof (cases "p_type ph = PT_GNU_RELRO")
    case False
    then show ?thesis using Cons by (simp add: relros_def)
  next
    case True
    then have split: "relros (ph # phs) = ph # relros phs" by (simp add: relros_def)
    obtain a n where a: "page_range env bias ph = (a, n)" by fastforce
    obtain bs where bs: "mem_read m (unat a) (unat n) = Some bs"
      and rest: "serialize_from env write_ok map_ok bias (Suc k)
          (map_over m (unat a) (unat n) (f @ bs) (length f), f @ bs) phs = ((m1, g), True)"
      using Cons.prems(1) True a by (auto split: option.splits if_splits)
    obtain h where g: "g = (f @ bs) @ h" using serialize_protects [OF rest] by blast
    have len: "length bs = unat n" and at: "\<And>i. i < unat n \<Longrightarrow> bytes_of m2 (unat a + i) = Some (bs ! i)"
      using bs Cons.prems(4) by (simp_all add: mem_read_Some)
    let ?m2 = "map_over m2 (unat a) (unat n) g (length f)"
    have conv: "unat (of_nat x :: 'w word) = x" if "x \<le> length g" for x
      using that Cons.prems(2) by (simp add: unat_of_nat)
    have fg: "length f + unat n \<le> length g" by (simp add: g len)
    then have off: "unat (of_nat (length f) :: 'w word) = length f" by (intro conv) simp
    have "(of_nat (length f) :: 'w word) \<le> of_nat (length g)"
      unfolding word_le_nat_alt conv [OF order_refl] off using fg by simp
    then have "unat (of_nat (length g) - of_nat (length f) :: 'w word) = length g - length f"
      by (simp only: unat_sub conv [OF order_refl] off)
    then have room: "\<not> of_nat (length g) - of_nat (length f) < n" using fg by (simp add: word_less_nat_alt)
    have same: "bytes_of m2 (unat a + i) = Some (byte_at g (length f + i))" if "i < unat n" for i
      using that at len by (simp add: g byte_at_def nth_append)
    obtain j' where head: "map_similar page (unat n) (unat a) g (length f) (\<lambda>k. True) j m2 0 = (?m2, j', True)"
      using map_similar_all [of page "unat n", OF page_pos page_range_dvd [OF _ a] same] Cons.prems(3) split by auto
    have next_off: "of_nat (length f) + n = (of_nat (length (f @ bs)) :: 'w word)" by (simp add: len)
    have "only_protected m2 ?m2" by (rule map_over_protects [OF same])
    moreover have "only_protected m (map_over m (unat a) (unat n) (f @ bs) (length f))"
      by (rule map_over_protects) (use bs in \<open>simp add: mem_read_Some byte_at_def nth_append\<close>)
    ultimately have "bytes_of ?m2 = bytes_of (map_over m (unat a) (unat n) (f @ bs) (length f))"
      using Cons.prems(4) by (auto simp: only_protected_def)
    then obtain m3 where m3: "map_relro_from env (\<lambda>k. True) bias g j' (?m2, of_nat (length (f @ bs))) phs = ((m3, of_nat (length g)), True)"
        "\<forall>ph \<in> set (relros phs). read_only_range m3 (page_range env bias ph)"
      using Cons.IH [OF rest Cons.prems(2)] Cons.prems(3) split by (metis list.set_intros(2))
    have "read_only_range ?m2 (a, n)" by (simp add: read_only_range_def map_over_def)
    then have "read_only_range m3 (a, n)" using map_relro_protects [OF m3(1)] by (rule read_only_kept)
    then show ?thesis using True a m3 head room off next_off by (auto simp: split)
  qed
qed

end

text \<open>
  Whatever the shared file holds and whichever calls fail, \<open>phdr_table_map_gnu_relro\<close> changes no
  byte of memory, and every page it replaces becomes read-only.
\<close>

theorem map_relro_keeps_memory:
  "phdr_table_map_gnu_relro env fstat_ok temp_ok map_ok bias phdrs f m off = ((m', off'), res) \<Longrightarrow> only_protected m m'"
  by (auto simp: phdr_table_map_gnu_relro_def dest: map_relro_protects split: if_splits)

text \<open>One relro page, in memory that is all zeros.\<close>

definition relro_page :: "u64 Phdr" where
  "relro_page = \<lparr>p_type = PT_GNU_RELRO, p_offset = 0x1000, p_vaddr = 0x1010, p_paddr = 0, p_filesz = 0xFF0, p_memsz = 0xFF0,
     p_flags = PF_R, p_align = 1\<rparr>"

definition zero_memory :: cells where
  "zero_memory = (\<lambda>x. Some (0, prot_none\<lparr>prot_read := True, prot_write := True\<rparr>))"

lemma map_relro_keeps_memory_witness:
  "\<exists>m' off' res. phdr_table_map_gnu_relro (loader64 Target_x86_64 33) True True (\<lambda>k. k = 0) 0x70000000 [relro_page]
       (replicate 4096 0) zero_memory 0 = ((m', off'), res) \<and> only_protected zero_memory m'"
  using map_relro_keeps_memory [of "loader64 Target_x86_64 33" True True "\<lambda>k. k = 0" "0x70000000" "[relro_page]"
      "replicate 4096 0" zero_memory 0] by (metis prod.exhaust)


text \<open>
  C33. Writing the relro segments to an empty file succeeds only with bytes that another process can
  share: where its memory holds the same bytes, \<open>phdr_table_map_gnu_relro\<close> on that file maps every relro
  page read-only from it, uses the whole file, and changes no byte; nor has the writer's memory changed.
\<close>

theorem relro_shared_by_reader:
  fixes phdrs :: "('w::len) word Phdr list"
  assumes "paging env" "phdr_table_serialize_gnu_relro env write_ok map_ok bias phdrs m [] = ((m1, f), True)"
    and "length f < 2 ^ LENGTH('w)" "\<forall>ph \<in> set (relros phdrs). in_address_space env ph" "bytes_of m2 = bytes_of m"
  shows "\<exists>m3. phdr_table_map_gnu_relro env True True (\<lambda>k. True) bias phdrs f m2 0 = ((m3, of_nat (length f)), True) \<and>
    (\<forall>ph \<in> set (relros phdrs). read_only_range m3 (page_range env bias ph)) \<and> bytes_of m3 = bytes_of m \<and> bytes_of m1 = bytes_of m"
proof -
  note ser = assms(2) [unfolded phdr_table_serialize_gnu_relro_def]
  obtain m3 where m3: "map_relro_from env (\<lambda>k. True) bias f 0 (m2, 0) phdrs = ((m3, of_nat (length f)), True)"
      "\<forall>ph \<in> set (relros phdrs). read_only_range m3 (page_range env bias ph)"
    using paging.serialized_is_shared [OF assms(1) ser assms(3-5), of 0] by auto
  have "bytes_of m3 = bytes_of m2" "bytes_of m1 = bytes_of m"
    using map_relro_protects [OF m3(1)] serialize_protects [OF ser] by (auto simp: only_protected_def)
  with m3 assms(5) show ?thesis by (auto simp: phdr_table_map_gnu_relro_def)
qed

lemma relro_page_range: "page_range (loader64 Target_x86_64 33) 0x70000000 relro_page = (0x70001000, 0x1000)"
  by (simp add: page_range_def loader64_def relro_page_def mask_numeral)

lemma relro_page_serialized:
  "\<exists>m1. phdr_table_serialize_gnu_relro (loader64 Target_x86_64 33) (\<lambda>k. True) (\<lambda>k. True) 0x70000000 [relro_page] zero_memory []
     = ((m1, replicate 4096 0), True)"
proof -
  have "mem_read zero_memory 0x70001000 4096 = Some (replicate 4096 0)"
    by (simp add: mem_read_Some zero_memory_def bytes_of_def)
  then show ?thesis
    by (simp add: phdr_table_serialize_gnu_relro_def relro_page_range) (simp add: relro_page_def)
qed

lemma relro_shared_by_reader_witness:
  "\<exists>m3. phdr_table_map_gnu_relro (loader64 Target_x86_64 33) True True (\<lambda>k. True) 0x70000000 [relro_page] (replicate 4096 0)
       zero_memory 0 = ((m3, 0x1000), True) \<and> read_only_range m3 (0x70001000 :: u64, 0x1000)"
proof -
  obtain m1 where "phdr_table_serialize_gnu_relro (loader64 Target_x86_64 33) (\<lambda>k. True) (\<lambda>k. True) 0x70000000 [relro_page]
      zero_memory [] = ((m1, replicate 4096 0), True)" using relro_page_serialized by blast
  moreover have "length (replicate 4096 (0::byte)) < 2 ^ LENGTH(64)" by simp
  moreover have relros: "relros [relro_page] = [relro_page]" by (simp add: relros_def relro_page_def)
  moreover have "in_address_space (loader64 Target_x86_64 33) relro_page"
    by (simp add: in_address_space_def relro_page_def loader64_def)
  ultimately obtain m3 where "phdr_table_map_gnu_relro (loader64 Target_x86_64 33) True True (\<lambda>k. True) 0x70000000 [relro_page]
      (replicate 4096 0) zero_memory 0 = ((m3, of_nat (length (replicate 4096 (0::byte)))), True)"
      "read_only_range m3 (page_range (loader64 Target_x86_64 33) 0x70000000 relro_page)"
    using relro_shared_by_reader [OF pages64.paging_axioms, of Target_x86_64 33 _ _ _ "[relro_page]" zero_memory m1 "replicate 4096 0" zero_memory]
    by (metis list.set_intros(1) singletonD list.simps(15) empty_set)
  then show ?thesis by (auto simp: relro_page_range)
qed

end
