(* ===== verification/Elf_Writer.thy ===== *)
theory Elf_Writer
  imports Elf_Constants Elf_Types
begin

text \<open>
  The build's ELF writer, the container section of \<open>setup.ps1\<close>: \<open>New-ElfPayloadLibrary\<close> and the
  functions it calls.  An image is a byte list, a write into it fails outside it as \<open>Array.Copy\<close> does;
  every exception is \<open>None\<close>.  Names are ASCII strings, as the names of the build are.
\<close>

section \<open>Writing into an image\<close>

definition array_copy :: "byte list \<Rightarrow> nat \<Rightarrow> byte list \<Rightarrow> byte list option" where
  "array_copy bs at img =
     (if at + length bs \<le> length img then Some (take at img @ bs @ drop (at + length bs) img) else None)"

definition Set_ElfField :: "nat \<Rightarrow> nat \<Rightarrow> nat \<Rightarrow> byte list \<Rightarrow> byte list option" where
  "Set_ElfField at width v img = array_copy (le_bytes width v) at img"

text \<open>Field after field: offset, width and value.\<close>

fun set_fields :: "(nat \<times> nat \<times> nat) list \<Rightarrow> byte list \<Rightarrow> byte list option" where
  "set_fields [] img = Some img"
| "set_fields ((at, width, v) # fs) img = do { img' \<leftarrow> Set_ElfField at width v img; set_fields fs img' }"

text \<open>The longest byte array of the runtime.\<close>

definition max_array :: nat where
  "max_array = 0x7FFFFFC7"

definition new_array :: "nat \<Rightarrow> byte list option" where
  "new_array n = (if n \<le> max_array then Some (replicate n 0) else None)"

definition Get_AlignedOffset :: "nat \<Rightarrow> nat \<Rightarrow> nat" where
  "Get_AlignedOffset v a = nat ((int v + int a - 1) AND NOT (int a - 1))"

section \<open>Target and layout\<close>

text \<open>The columns of the target table that the container needs.\<close>

record build_target =
  Machine :: string
  ElfClass :: nat
  ElfFlags :: "string list"

definition target_arm64 :: build_target where
  "target_arm64 = \<lparr>Machine = ''EM_AARCH64'', ElfClass = 64, ElfFlags = []\<rparr>"

definition target_x64 :: build_target where
  "target_x64 = \<lparr>Machine = ''EM_X86_64'', ElfClass = 64, ElfFlags = []\<rparr>"

definition target_arm32 :: build_target where
  "target_arm32 = \<lparr>Machine = ''EM_ARM'', ElfClass = 32, ElfFlags = [''EF_ARM_EABI_VER5'', ''EF_ARM_ABI_FLOAT_SOFT'']\<rparr>"

record elf_layout =
  Class :: nat
  Word :: nat
  Header :: nat
  ProgramHeader :: nat
  SectionHeader :: nat
  Symbol :: nat
  Dynamic :: nat
  Rel :: nat
  Rela :: nat

definition Get_ElfLayout :: "nat \<Rightarrow> elf_layout" where
  "Get_ElfLayout c =
     (if c = 64 then
        \<lparr>Class = 64, Word = 8, Header = 64, ProgramHeader = 56, SectionHeader = 64, Symbol = 24, Dynamic = 16, Rel = 16, Rela = 24\<rparr>
      else
        \<lparr>Class = 32, Word = 4, Header = 52, ProgramHeader = 32, SectionHeader = 40, Symbol = 16, Dynamic = 8, Rel = 8, Rela = 12\<rparr>)"

text \<open>A missing key of the constants reads as null, which converts to 0.\<close>

definition elf :: "string \<Rightarrow> nat" where
  "elf name = (case Get_ElfConstants of None \<Rightarrow> 0 | Some t \<Rightarrow> (case map_of t name of None \<Rightarrow> 0 | Some v \<Rightarrow> v))"

definition Get_ElfHeaderFlags :: "build_target \<Rightarrow> nat" where
  "Get_ElfHeaderFlags tgt = foldl (\<lambda>flags name. flags OR elf name) 0 (ElfFlags tgt)"

section \<open>Strings and hash table\<close>

definition ascii :: "string \<Rightarrow> byte list" where
  "ascii s = map (\<lambda>c. if (of_char c :: nat) < 128 then of_char c else 0x3F) s"

fun add_strings :: "byte list \<Rightarrow> (string \<times> nat) list \<Rightarrow> string list \<Rightarrow> byte list \<times> (string \<times> nat) list" where
  "add_strings out offsets [] = (out, offsets)"
| "add_strings out offsets (s # ss) =
     (if offset_of offsets s \<noteq> None then add_strings out offsets ss
      else add_strings (out @ ascii s @ [0]) ((s, length out) # offsets) ss)"

text \<open>Mandatory parameters reject empty lists and empty strings.\<close>

definition New_ElfStringTable :: "string list \<Rightarrow> (byte list \<times> (string \<times> nat) list) option" where
  "New_ElfStringTable strings =
     (if strings = [] \<or> [] \<in> set strings then None else Some (add_strings [0] [] strings))"

definition string_offset :: "(string \<times> nat) list \<Rightarrow> string \<Rightarrow> nat" where
  "string_offset offsets s = (case offset_of offsets s of None \<Rightarrow> 0 | Some n \<Rightarrow> n)"

definition Get_ElfHashTableBytes :: "string list \<Rightarrow> byte list option" where
  "Get_ElfHashTableBytes symbols =
     (if symbols = [] \<or> [] \<in> set symbols then None
      else
        let n = length symbols + 1 in
        Some (le_bytes 4 1 @ le_bytes 4 n @ le_bytes 4 1 @
              concat (map (\<lambda>i. le_bytes 4 (if i = 0 \<or> i = n - 1 then 0 else i + 1)) [0..<n])))"

section \<open>The structures\<close>

definition Write_ElfHeader :: "build_target \<Rightarrow> elf_layout \<Rightarrow> nat \<Rightarrow> byte list \<Rightarrow> byte list option" where
  "Write_ElfHeader tgt L n img = do {
     img' \<leftarrow> array_copy [0x7F, 0x45, 0x4C, 0x46, of_nat (elf (if Class L = 64 then ''ELFCLASS64'' else ''ELFCLASS32'')),
               of_nat (elf ''ELFDATA2LSB''), of_nat (elf ''EV_CURRENT'')] 0 img;
     let w = Word L;
     let at = 24 + 3 * w;
     set_fields [
       (16, 2, elf ''ET_DYN''),
       (18, 2, elf (Machine tgt)),
       (20, 4, elf ''EV_CURRENT''),
       (24 + w, w, Header L),
       (at, 4, Get_ElfHeaderFlags tgt),
       (at + 4, 2, Header L),
       (at + 6, 2, ProgramHeader L),
       (at + 8, 2, n),
       (at + 10, 2, SectionHeader L)] img' }"

definition Write_ElfProgramHeader ::
  "elf_layout \<Rightarrow> nat \<Rightarrow> nat \<Rightarrow> nat \<Rightarrow> nat \<Rightarrow> nat \<Rightarrow> nat \<Rightarrow> nat \<Rightarrow> byte list \<Rightarrow> byte list option" where
  "Write_ElfProgramHeader L at ty flags off fsize msize align img =
     (let w = Word L;
          fields = (if Class L = 64 then at + 8 else at + 4);
          last_field = (if Class L = 32 then fields + 4 else fields)
      in set_fields (
        [(at, 4, ty)] @
        (if Class L = 64 then [(at + 4, 4, flags)] else []) @
        map (\<lambda>i. (fields + i * w, w, off)) [0, 1, 2] @
        [(fields + 3 * w, w, fsize), (fields + 4 * w, w, msize)] @
        (if Class L = 32 then [(fields + 5 * w, 4, flags)] else []) @
        [(last_field + 5 * w, w, align)]) img)"

definition Write_ElfSymbol ::
  "elf_layout \<Rightarrow> nat \<Rightarrow> nat \<Rightarrow> nat \<Rightarrow> nat \<Rightarrow> nat \<Rightarrow> nat \<Rightarrow> byte list \<Rightarrow> byte list option" where
  "Write_ElfSymbol L at name v sz info section_index img =
     set_fields ((at, 4, name) #
       (if Class L = 64 then [(at + 4, 1, info), (at + 6, 2, section_index), (at + 8, 8, v), (at + 16, 8, sz)]
        else [(at + 4, 4, v), (at + 8, 4, sz), (at + 12, 1, info), (at + 14, 2, section_index)])) img"

fun Write_ElfDynamicTable :: "elf_layout \<Rightarrow> nat \<Rightarrow> (nat \<times> nat) list \<Rightarrow> byte list \<Rightarrow> byte list option" where
  "Write_ElfDynamicTable L at [] img = Some img"
| "Write_ElfDynamicTable L at ((tag, v) # es) img = do {
     img' \<leftarrow> set_fields [(at, Word L, tag), (at + Word L, Word L, v)] img;
     Write_ElfDynamicTable L (at + Dynamic L) es img' }"

section \<open>The section table\<close>

definition write_section ::
  "elf_layout \<Rightarrow> nat \<Rightarrow> nat \<Rightarrow> nat \<Rightarrow> nat \<Rightarrow> nat \<Rightarrow> nat \<Rightarrow> nat \<Rightarrow> nat \<Rightarrow> nat \<Rightarrow> nat \<Rightarrow> byte list \<Rightarrow> byte list option" where
  "write_section L at name ty flags addr off sz link align entsize img =
     (let w = Word L in
      set_fields [
        (at, 4, name), (at + 4, 4, ty), (at + 8, w, flags), (at + 8 + w, w, addr), (at + 8 + 2 * w, w, off),
        (at + 8 + 3 * w, w, sz), (at + 8 + 4 * w, 4, link), (at + 16 + 4 * w, w, align),
        (at + 16 + 5 * w, w, entsize)] img)"

definition Add_ElfSectionTable ::
  "elf_layout \<Rightarrow> nat \<Rightarrow> nat \<Rightarrow> nat \<Rightarrow> nat \<Rightarrow> byte list \<Rightarrow> byte list option" where
  "Add_ElfSectionTable L dynstr_off dynstr_size dynamic_off dynamic_size img = do {
     names \<leftarrow> New_ElfStringTable [''.dynstr'', ''.dynamic'', ''.shstrtab''];
     let w = Word L;
     let strings_off = Get_AlignedOffset (length img) w;
     let table_off = Get_AlignedOffset (strings_off + length (fst names)) w;
     let at = 24 + 3 * w;
     res \<leftarrow> new_array (table_off + SectionHeader L * 4);
     res \<leftarrow> array_copy img 0 res;
     res \<leftarrow> array_copy (fst names) strings_off res;
     res \<leftarrow> write_section L (table_off + SectionHeader L) (string_offset (snd names) ''.dynstr'') (elf ''SHT_STRTAB'')
              (elf ''SHF_ALLOC'') dynstr_off dynstr_off dynstr_size 0 1 0 res;
     res \<leftarrow> write_section L (table_off + 2 * SectionHeader L) (string_offset (snd names) ''.dynamic'') (elf ''SHT_DYNAMIC'')
              (elf ''SHF_ALLOC'' OR elf ''SHF_WRITE'') dynamic_off dynamic_off dynamic_size 1 w (Dynamic L) res;
     res \<leftarrow> write_section L (table_off + 3 * SectionHeader L) (string_offset (snd names) ''.shstrtab'') (elf ''SHT_STRTAB'')
              0 0 strings_off (length (fst names)) 0 1 0 res;
     set_fields [(24 + 2 * w, w, table_off), (at + 10, 2, SectionHeader L), (at + 12, 2, 4), (at + 14, 2, 3)] res }"

section \<open>The payload library\<close>

record payload_library =
  Bytes :: "byte list"
  PayloadOffset :: nat
  SymbolName :: string
  Soname :: string

definition New_ElfPayloadLibrary ::
  "build_target \<Rightarrow> string \<Rightarrow> string \<Rightarrow> byte list \<Rightarrow> nat \<Rightarrow> payload_library option" where
  "New_ElfPayloadLibrary tgt soname symbol payload page =
     (if soname = [] \<or> symbol = [] \<or> payload = [] then None
      else do {
        let L = Get_ElfLayout (ElfClass tgt);
        let w = Word L;
        strings \<leftarrow> New_ElfStringTable [soname, symbol];
        hash_bytes \<leftarrow> Get_ElfHashTableBytes [symbol];
        let dynstr_off = Header L + ProgramHeader L * 3;
        let dynsym_off = Get_AlignedOffset (dynstr_off + length (fst strings)) w;
        let hash_off = dynsym_off + 2 * Symbol L;
        let dynamic_off = Get_AlignedOffset (hash_off + length hash_bytes) w;
        let dynamic_size = Dynamic L * (if Class L = 64 then 8 else 7);
        payload_off \<leftarrow> (if page = 0 then None else Some ((dynamic_off + dynamic_size + page - 1) div page * page));
        let image_size = payload_off + length payload;
        img \<leftarrow> (if Class L = 32 \<and> image_size > 0xFFFFFFFF then None else new_array image_size);
        img \<leftarrow> Write_ElfHeader tgt L 3 img;
        img \<leftarrow> Write_ElfProgramHeader L (Header L) (elf ''PT_PHDR'') (elf ''PF_R'') (Header L)
                 (ProgramHeader L * 3) (ProgramHeader L * 3) w img;
        img \<leftarrow> Write_ElfProgramHeader L (Header L + ProgramHeader L) (elf ''PT_LOAD'') (elf ''PF_R'') 0
                 image_size image_size page img;
        img \<leftarrow> Write_ElfProgramHeader L (Header L + 2 * ProgramHeader L) (elf ''PT_DYNAMIC'') (elf ''PF_R'') dynamic_off
                 dynamic_size dynamic_size w img;
        img \<leftarrow> array_copy (fst strings) dynstr_off img;
        img \<leftarrow> Write_ElfSymbol L (dynsym_off + Symbol L) (string_offset (snd strings) symbol) payload_off (length payload)
                 (push_bit 4 (elf ''STB_GLOBAL'') OR elf ''STT_OBJECT'') 1 img;
        img \<leftarrow> array_copy hash_bytes hash_off img;
        img \<leftarrow> Write_ElfDynamicTable L dynamic_off [
                 (elf ''DT_SONAME'', string_offset (snd strings) soname),
                 (elf ''DT_HASH'', hash_off),
                 (elf ''DT_STRTAB'', dynstr_off),
                 (elf ''DT_SYMTAB'', dynsym_off),
                 (elf ''DT_STRSZ'', length (fst strings)),
                 (elf ''DT_SYMENT'', Symbol L),
                 (elf ''DT_NULL'', 0)] img;
        img \<leftarrow> array_copy payload payload_off img;
        img \<leftarrow> Add_ElfSectionTable L dynstr_off (length (fst strings)) dynamic_off dynamic_size img;
        Some \<lparr>Bytes = img, PayloadOffset = payload_off, SymbolName = symbol, Soname = soname\<rparr> })"

section \<open>The constants\<close>

lemma elf_values:
  "elf ''ET_DYN'' = 3" "elf ''EM_AARCH64'' = 183" "elf ''EM_X86_64'' = 62" "elf ''EM_ARM'' = 40"
  "elf ''ELFCLASS64'' = 2" "elf ''ELFCLASS32'' = 1" "elf ''ELFDATA2LSB'' = 1" "elf ''EV_CURRENT'' = 1"
  "elf ''PT_LOAD'' = 1" "elf ''PT_DYNAMIC'' = 2" "elf ''PT_PHDR'' = 6" "elf ''PF_R'' = 4"
  "elf ''STB_GLOBAL'' = 1" "elf ''STT_OBJECT'' = 1" "elf ''EF_ARM_EABI_VER5'' = 83886080" "elf ''EF_ARM_ABI_FLOAT_SOFT'' = 512"
  "elf ''SHT_STRTAB'' = 3" "elf ''SHT_DYNAMIC'' = 6" "elf ''SHF_ALLOC'' = 2" "elf ''SHF_WRITE'' = 1"
  "elf ''DT_NULL'' = 0" "elf ''DT_HASH'' = 4" "elf ''DT_STRTAB'' = 5" "elf ''DT_SYMTAB'' = 6" "elf ''DT_STRSZ'' = 10"
  "elf ''DT_SYMENT'' = 11" "elf ''DT_SONAME'' = 14"
proof -
  have t: "Get_ElfConstants = Some (
     [(''ET_DYN'', 3), (''EM_AARCH64'', 183), (''EM_X86_64'', 62), (''EM_ARM'', 40),
     (''ELFCLASS64'', 2), (''ELFCLASS32'', 1), (''ELFDATA2LSB'', 1), (''EV_CURRENT'', 1),
     (''PT_LOAD'', 1), (''PT_DYNAMIC'', 2), (''PT_PHDR'', 6), (''PT_GNU_STACK'', 1685382481),
     (''PF_R'', 4), (''PF_W'', 2), (''PF_X'', 1), (''STB_GLOBAL'', 1), (''STT_OBJECT'', 1),
     (''STT_FUNC'', 2), (''DF_BIND_NOW'', 8), (''EF_ARM_EABI_VER5'', 83886080),
     (''EF_ARM_ABI_FLOAT_SOFT'', 512), (''SHT_STRTAB'', 3), (''SHT_DYNAMIC'', 6),
     (''SHF_ALLOC'', 2), (''SHF_WRITE'', 1)] @ [
     (''DT_NULL'', 0), (''DT_NEEDED'', 1), (''DT_HASH'', 4), (''DT_STRTAB'', 5), (''DT_SYMTAB'', 6),
     (''DT_RELA'', 7), (''DT_RELASZ'', 8), (''DT_RELAENT'', 9), (''DT_RELACOUNT'', 1879048185),
     (''DT_REL'', 17), (''DT_RELSZ'', 18), (''DT_RELENT'', 19), (''DT_STRSZ'', 10),
     (''DT_SYMENT'', 11), (''DT_SONAME'', 14), (''DT_FLAGS'', 30)] @
     [(''R_AARCH64_GLOB_DAT'', 1025), (''R_AARCH64_RELATIVE'', 1027)] @
     [(''R_X86_64_GLOB_DAT'', 6), (''R_X86_64_RELATIVE'', 8)] @ [(''R_ARM_GLOB_DAT'', 21), (''R_ARM_RELATIVE'', 23)])"
    by (simp only: Get_ElfConstants_def find_tags find_wanted find_relocs read_names_from.simps option.case prod.case append_Nil)
  show "elf ''ET_DYN'' = 3" "elf ''EM_AARCH64'' = 183" "elf ''EM_X86_64'' = 62" "elf ''EM_ARM'' = 40"
    "elf ''ELFCLASS64'' = 2" "elf ''ELFCLASS32'' = 1" "elf ''ELFDATA2LSB'' = 1" "elf ''EV_CURRENT'' = 1"
    "elf ''PT_LOAD'' = 1" "elf ''PT_DYNAMIC'' = 2" "elf ''PT_PHDR'' = 6" "elf ''PF_R'' = 4"
    "elf ''STB_GLOBAL'' = 1" "elf ''STT_OBJECT'' = 1" "elf ''EF_ARM_EABI_VER5'' = 83886080" "elf ''EF_ARM_ABI_FLOAT_SOFT'' = 512"
    "elf ''SHT_STRTAB'' = 3" "elf ''SHT_DYNAMIC'' = 6" "elf ''SHF_ALLOC'' = 2" "elf ''SHF_WRITE'' = 1"
    "elf ''DT_NULL'' = 0" "elf ''DT_HASH'' = 4" "elf ''DT_STRTAB'' = 5" "elf ''DT_SYMTAB'' = 6" "elf ''DT_STRSZ'' = 10"
    "elf ''DT_SYMENT'' = 11" "elf ''DT_SONAME'' = 14"
    by (simp_all add: elf_def t)
qed

end
