(* ===== verification/Elf_Written.thy ===== *)
theory Elf_Written
  imports Elf_Writer
begin

text \<open>
  The image that \<open>New-ElfPayloadLibrary\<close> writes, piece by piece: header, program headers, string table,
  symbols, hash table, dynamic table, payload and section table, each where the writer's offsets say,
  with zeros between them.
\<close>

section \<open>Writing at a boundary\<close>

definition zeros :: "nat \<Rightarrow> byte list" where
  "zeros n = replicate n 0"

lemma length_zeros [simp]: "length (zeros n) = n"
  by (simp add: zeros_def)

lemma zeros_add: "zeros (m + n) = zeros m @ zeros n"
  by (simp add: zeros_def replicate_add)

lemma zeros_0 [simp]: "zeros 0 = []"
  by (simp add: zeros_def)

lemma le_bytes_zero: "le_bytes n 0 = zeros n"
  by (induction n) (simp_all add: zeros_def)

lemma array_copy_here: "length z = length bs \<Longrightarrow> array_copy bs 0 (z @ y) = Some (bs @ y)"
  by (simp add: array_copy_def)

lemma array_copy_skip:
  "length x \<le> at \<Longrightarrow> array_copy bs at (x @ y) = map_option ((@) x) (array_copy bs (at - length x) y)"
  by (auto simp: array_copy_def)

lemma array_copy_skip_Cons: "0 < at \<Longrightarrow> array_copy bs at (b # y) = map_option ((#) b) (array_copy bs (at - 1) y)"
  using array_copy_skip [of "[b]" at bs y] by (cases "array_copy bs (at - 1) y") (simp_all add: Suc_leI)

lemma array_copy_at:
  "at = length x \<Longrightarrow> length z = length bs \<Longrightarrow> array_copy bs at (x @ z @ y) = Some (x @ bs @ y)"
  by (simp add: array_copy_def)

lemmas writing = Set_ElfField_def array_copy_here array_copy_skip array_copy_skip_Cons

lemma new_array_zeros: "n \<le> max_array \<Longrightarrow> new_array n = Some (zeros n)"
  by (simp add: new_array_def zeros_def)

section \<open>The pieces\<close>

abbreviation a_class :: "elf_layout \<Rightarrow> bool" where
  "a_class L \<equiv> L \<in> {Get_ElfLayout 32, Get_ElfLayout 64}"

definition ehdr_bytes :: "elf_layout \<Rightarrow> nat \<Rightarrow> nat \<Rightarrow> nat \<Rightarrow> nat \<Rightarrow> nat \<Rightarrow> nat \<Rightarrow> byte list" where
  "ehdr_bytes L machine flags phnum shoff shnum shstrndx =
     [0x7F, 0x45, 0x4C, 0x46, if Class L = 64 then 2 else 1, 1, 1] @ zeros 9 @ le_bytes 2 3 @ le_bytes 2 machine @
     le_bytes 4 1 @ zeros (Word L) @ le_bytes (Word L) (Header L) @ le_bytes (Word L) shoff @ le_bytes 4 flags @
     le_bytes 2 (Header L) @ le_bytes 2 (ProgramHeader L) @ le_bytes 2 phnum @ le_bytes 2 (SectionHeader L) @
     le_bytes 2 shnum @ le_bytes 2 shstrndx"

definition phdr_bytes :: "elf_layout \<Rightarrow> nat \<Rightarrow> nat \<Rightarrow> nat \<Rightarrow> nat \<Rightarrow> nat \<Rightarrow> nat \<Rightarrow> byte list" where
  "phdr_bytes L ty flags off fsize msize align =
     (let w = Word L in
      le_bytes 4 ty @ (if Class L = 64 then le_bytes 4 flags else []) @ le_bytes w off @ le_bytes w off @ le_bytes w off @
      le_bytes w fsize @ le_bytes w msize @ (if Class L = 32 then le_bytes 4 flags else []) @ le_bytes w align)"

definition sym_bytes :: "elf_layout \<Rightarrow> nat \<Rightarrow> nat \<Rightarrow> nat \<Rightarrow> nat \<Rightarrow> nat \<Rightarrow> byte list" where
  "sym_bytes L name v sz info shndx =
     (if Class L = 64
      then le_bytes 4 name @ le_bytes 1 info @ zeros 1 @ le_bytes 2 shndx @ le_bytes 8 v @ le_bytes 8 sz
      else le_bytes 4 name @ le_bytes 4 v @ le_bytes 4 sz @ le_bytes 1 info @ zeros 1 @ le_bytes 2 shndx)"

definition dyn_bytes :: "elf_layout \<Rightarrow> (nat \<times> nat) list \<Rightarrow> byte list" where
  "dyn_bytes L es = concat (map (\<lambda>(tag, v). le_bytes (Word L) tag @ le_bytes (Word L) v) es)"

definition shdr_bytes ::
  "elf_layout \<Rightarrow> nat \<Rightarrow> nat \<Rightarrow> nat \<Rightarrow> nat \<Rightarrow> nat \<Rightarrow> nat \<Rightarrow> nat \<Rightarrow> nat \<Rightarrow> nat \<Rightarrow> byte list" where
  "shdr_bytes L name ty flags addr off sz link align entsize =
     (let w = Word L in
      le_bytes 4 name @ le_bytes 4 ty @ le_bytes w flags @ le_bytes w addr @ le_bytes w off @ le_bytes w sz @
      le_bytes 4 link @ zeros 4 @ le_bytes w align @ le_bytes w entsize)"

lemma layout_values:
  "Get_ElfLayout 64 = \<lparr>Class = 64, Word = 8, Header = 64, ProgramHeader = 56, SectionHeader = 64, Symbol = 24, Dynamic = 16,
     Rel = 16, Rela = 24\<rparr>"
  "Get_ElfLayout 32 = \<lparr>Class = 32, Word = 4, Header = 52, ProgramHeader = 32, SectionHeader = 40, Symbol = 16, Dynamic = 8,
     Rel = 8, Rela = 12\<rparr>"
  by (simp_all add: Get_ElfLayout_def)

lemma piece_lengths:
  assumes "a_class L"
  shows "length (ehdr_bytes L a b c d e f) = Header L" "length (phdr_bytes L p q r s t u) = ProgramHeader L"
    "length (sym_bytes L g h i j k) = Symbol L" "length (dyn_bytes L es) = Dynamic L * length es"
    "length (shdr_bytes L a1 a2 a3 a4 a5 a6 a7 a8 a9) = SectionHeader L"
proof -
  have two: "2 * Word L = Dynamic L" using assms by (auto simp: layout_values)
  show "length (dyn_bytes L es) = Dynamic L * length es"
    by (induction es) (auto simp: dyn_bytes_def two [symmetric])
qed (use assms in \<open>auto simp: layout_values ehdr_bytes_def phdr_bytes_def sym_bytes_def shdr_bytes_def Let_def\<close>)

section \<open>Each write fills its piece\<close>

lemma zeros_split:
  "zeros 52 = zeros 7 @ zeros 9 @ zeros 2 @ zeros 2 @ zeros 4 @ zeros 4 @ zeros 4 @ zeros 4 @ zeros 4 @ zeros 2 @ zeros 2 @
     zeros 2 @ zeros 2 @ zeros 2 @ zeros 2"
  "zeros 64 = zeros 7 @ zeros 9 @ zeros 2 @ zeros 2 @ zeros 4 @ zeros 8 @ zeros 8 @ zeros 8 @ zeros 4 @ zeros 2 @ zeros 2 @
     zeros 2 @ zeros 2 @ zeros 2 @ zeros 2"
  by (simp_all flip: zeros_add)

lemma header_written:
  assumes "a_class L"
  shows "Write_ElfHeader tgt L n (zeros (Header L) @ rest) =
    Some (ehdr_bytes L (elf (Machine tgt)) (Get_ElfHeaderFlags tgt) n 0 0 0 @ rest)"
  using assms
  by (elim insertE emptyE)
     (simp_all add: Write_ElfHeader_def ehdr_bytes_def layout_values elf_values zeros_split writing le_bytes_zero)

lemma phdr_split:
  "zeros 32 = zeros 4 @ zeros 4 @ zeros 4 @ zeros 4 @ zeros 4 @ zeros 4 @ zeros 4 @ zeros 4"
  "zeros 56 = zeros 4 @ zeros 4 @ zeros 8 @ zeros 8 @ zeros 8 @ zeros 8 @ zeros 8 @ zeros 8"
  by (simp_all flip: zeros_add)

lemma program_header_written:
  assumes "a_class L" "at = length a"
  shows "Write_ElfProgramHeader L at ty flags off fsize msize align (a @ zeros (ProgramHeader L) @ rest) =
    Some (a @ phdr_bytes L ty flags off fsize msize align @ rest)"
  using assms
  by (elim insertE emptyE)
     (simp_all add: Write_ElfProgramHeader_def phdr_bytes_def layout_values phdr_split writing Let_def)

lemma sym_split:
  "zeros 16 = zeros 4 @ zeros 4 @ zeros 4 @ zeros 1 @ zeros 1 @ zeros 2"
  "zeros 24 = zeros 4 @ zeros 1 @ zeros 1 @ zeros 2 @ zeros 8 @ zeros 8"
  by (simp_all flip: zeros_add)

lemma symbol_written:
  assumes "a_class L" "at = length a"
  shows "Write_ElfSymbol L at name v sz info shndx (a @ zeros (Symbol L) @ rest) =
    Some (a @ sym_bytes L name v sz info shndx @ rest)"
  using assms
  by (elim insertE emptyE)
     (simp_all add: Write_ElfSymbol_def sym_bytes_def layout_values sym_split writing)

lemma dynamic_written:
  assumes "a_class L" "at = length a"
  shows "Write_ElfDynamicTable L at es (a @ zeros (Dynamic L * length es) @ rest) = Some (a @ dyn_bytes L es @ rest)"
  using assms(2)
proof (induction es arbitrary: at a)
  case Nil
  then show ?case by (simp add: dyn_bytes_def)
next
  case (Cons e es)
  obtain tag v where e: "e = (tag, v)" by (cases e)
  let ?w = "Word L"
  have two: "Dynamic L = ?w + ?w" using assms(1) by (auto simp: layout_values)
  have "set_fields [(at, ?w, tag), (at + ?w, ?w, v)] (a @ zeros ?w @ zeros ?w @ zeros (Dynamic L * length es) @ rest) =
      Some (a @ le_bytes ?w tag @ le_bytes ?w v @ zeros (Dynamic L * length es) @ rest)"
    by (simp add: Cons.prems writing)
  moreover have "Write_ElfDynamicTable L (at + Dynamic L) es
      ((a @ le_bytes ?w tag @ le_bytes ?w v) @ zeros (Dynamic L * length es) @ rest) =
      Some ((a @ le_bytes ?w tag @ le_bytes ?w v) @ dyn_bytes L es @ rest)"
    by (rule Cons.IH) (simp add: Cons.prems two)
  ultimately show ?case
    by (simp add: e dyn_bytes_def zeros_add two)
qed

lemma shdr_split:
  "zeros 40 = zeros 4 @ zeros 4 @ zeros 4 @ zeros 4 @ zeros 4 @ zeros 4 @ zeros 4 @ zeros 4 @ zeros 4 @ zeros 4"
  "zeros 64 = zeros 4 @ zeros 4 @ zeros 8 @ zeros 8 @ zeros 8 @ zeros 8 @ zeros 4 @ zeros 4 @ zeros 8 @ zeros 8"
  by (simp_all flip: zeros_add)

lemma section_written:
  assumes "a_class L" "at = length a"
  shows "write_section L at name ty flags addr off sz link align entsize (a @ zeros (SectionHeader L) @ rest) =
    Some (a @ shdr_bytes L name ty flags addr off sz link align entsize @ rest)"
  using assms
  by (elim insertE emptyE)
     (simp_all add: write_section_def shdr_bytes_def layout_values shdr_split writing Let_def)

text \<open>The last fields of the header, once the section table is placed.\<close>

lemma header_completed:
  assumes "a_class L"
  shows "set_fields [(24 + 2 * Word L, Word L, shoff), (24 + 3 * Word L + 10, 2, SectionHeader L),
      (24 + 3 * Word L + 12, 2, n), (24 + 3 * Word L + 14, 2, i)] (ehdr_bytes L machine flags phnum x y z @ rest) =
    Some (ehdr_bytes L machine flags phnum shoff n i @ rest)"
  using assms
  by (elim insertE emptyE)
     (simp_all add: ehdr_bytes_def layout_values writing)

section \<open>Aligned offsets\<close>

lemma aligned_offset:
  assumes "a = 2 ^ k"
  shows "v \<le> Get_AlignedOffset v a" "Get_AlignedOffset v a < v + a" "a dvd Get_AlignedOffset v a"
proof -
  have "0 < a" using assms by simp
  then show "v \<le> Get_AlignedOffset v a" "Get_AlignedOffset v a < v + a" "a dvd Get_AlignedOffset v a"
    unfolding Get_AlignedOffset_def and_not_round_up [OF assms] by (rule round_up_bounds)+
qed

lemma word_aligned:
  assumes "a_class L"
  shows "v \<le> Get_AlignedOffset v (Word L)" "Get_AlignedOffset v (Word L) < v + Word L" "Word L dvd Get_AlignedOffset v (Word L)"
proof -
  have "Word L = 2 ^ 2 \<or> Word L = 2 ^ 3" using assms by (auto simp: layout_values)
  then obtain k where "Word L = 2 ^ k" by blast
  then show "v \<le> Get_AlignedOffset v (Word L)" "Get_AlignedOffset v (Word L) < v + Word L"
    "Word L dvd Get_AlignedOffset v (Word L)" by (rule aligned_offset)+
qed

lemma zeros_cut: "k \<le> n \<Longrightarrow> zeros n = zeros k @ zeros (n - k)"
  by (simp flip: zeros_add)

section \<open>The section table\<close>

definition section_names :: "byte list" where
  "section_names = [0] @ ascii ''.dynstr'' @ [0] @ ascii ''.dynamic'' @ [0] @ ascii ''.shstrtab'' @ [0]"

lemma section_names:
  "New_ElfStringTable [''.dynstr'', ''.dynamic'', ''.shstrtab''] =
     Some (section_names, [(''.shstrtab'', 18), (''.dynamic'', 9), (''.dynstr'', 1)])"
  "length section_names = 28"
  by code_simp+

definition names_at :: "elf_layout \<Rightarrow> nat \<Rightarrow> nat" where
  "names_at L n = Get_AlignedOffset n (Word L)"

definition table_at :: "elf_layout \<Rightarrow> nat \<Rightarrow> nat" where
  "table_at L n = Get_AlignedOffset (names_at L n + 28) (Word L)"

definition section_bytes :: "elf_layout \<Rightarrow> nat \<Rightarrow> nat \<Rightarrow> nat \<Rightarrow> nat \<Rightarrow> nat \<Rightarrow> byte list" where
  "section_bytes L n dynstr_off dynstr_size dynamic_off dynamic_size =
     zeros (names_at L n - n) @ section_names @ zeros (table_at L n - (names_at L n + 28)) @ zeros (SectionHeader L) @
     shdr_bytes L 1 3 2 dynstr_off dynstr_off dynstr_size 0 1 0 @
     shdr_bytes L 9 6 3 dynamic_off dynamic_off dynamic_size 1 (Word L) (Dynamic L) @
     shdr_bytes L 18 3 0 0 (names_at L n) 28 0 1 0"

lemma section_table_written:
  assumes L: "a_class L" and n: "n = length (ehdr_bytes L machine flags phnum 0 0 0 @ body)"
    and fits: "table_at L n + SectionHeader L * 4 \<le> max_array"
  shows "Add_ElfSectionTable L dynstr_off dynstr_size dynamic_off dynamic_size (ehdr_bytes L machine flags phnum 0 0 0 @ body) =
    Some (ehdr_bytes L machine flags phnum (table_at L n) 4 3 @ body @
          section_bytes L n dynstr_off dynstr_size dynamic_off dynamic_size)"
proof -
  let ?S = "SectionHeader L" and ?e = "ehdr_bytes L machine flags phnum 0 0 0"
  define pre where "pre = ?e @ body @ zeros (names_at L n - n) @ section_names @ zeros (table_at L n - (names_at L n + 28)) @ zeros ?S"
  let ?s1 = "shdr_bytes L 1 3 2 dynstr_off dynstr_off dynstr_size 0 1 0"
  let ?s2 = "shdr_bytes L 9 6 3 dynamic_off dynamic_off dynamic_size 1 (Word L) (Dynamic L)"
  let ?s3 = "shdr_bytes L 18 3 0 0 (names_at L n) 28 0 1 0"
  have le: "n \<le> names_at L n" "names_at L n + 28 \<le> table_at L n"
    unfolding names_at_def table_at_def by (rule word_aligned [OF L])+
  have pre: "length pre = table_at L n + ?S" using le n by (simp add: pre_def section_names(2))
  have "zeros (table_at L n + ?S * 4) =
      zeros n @ zeros (names_at L n - n) @ zeros 28 @ zeros (table_at L n - (names_at L n + 28)) @ zeros ?S @ zeros ?S @ zeros ?S @ zeros ?S"
    using le by (simp add: mult.commute add.commute flip: zeros_add)
  then have new: "new_array (table_at L n + ?S * 4) =
      Some (zeros n @ zeros (names_at L n - n) @ zeros 28 @ zeros (table_at L n - (names_at L n + 28)) @ zeros ?S @ zeros ?S @ zeros ?S @ zeros ?S)"
    using fits by (simp add: new_array_zeros)
  have c1: "array_copy (?e @ body) 0 (zeros n @ rest) = Some (?e @ body @ rest)" for rest
    using array_copy_here [of "zeros n" "?e @ body"] n by simp
  have c2: "array_copy section_names (names_at L n) (?e @ body @ zeros (names_at L n - n) @ zeros 28 @ rest) =
      Some (?e @ body @ zeros (names_at L n - n) @ section_names @ rest)" for rest
    using array_copy_at [of "names_at L n" "?e @ body @ zeros (names_at L n - n)" "zeros 28" section_names rest] n le
    by (simp add: section_names(2))
  have w1: "write_section L (table_at L n + ?S) 1 3 2 dynstr_off dynstr_off dynstr_size 0 1 0 (pre @ zeros ?S @ rest) =
      Some (pre @ ?s1 @ rest)" for rest
    by (rule section_written [OF L]) (simp add: pre)
  have w2: "write_section L (table_at L n + 2 * ?S) 9 6 3 dynamic_off dynamic_off dynamic_size 1 (Word L) (Dynamic L)
      ((pre @ ?s1) @ zeros ?S @ rest) = Some ((pre @ ?s1) @ ?s2 @ rest)" for rest
    by (rule section_written [OF L]) (simp add: pre piece_lengths [OF L])
  have w3: "write_section L (table_at L n + 3 * ?S) 18 3 0 0 (names_at L n) 28 0 1 0
      ((pre @ ?s1 @ ?s2) @ zeros ?S @ []) = Some ((pre @ ?s1 @ ?s2) @ ?s3 @ [])"
    by (rule section_written [OF L]) (simp add: pre piece_lengths [OF L])
  have off: "string_offset [(''.shstrtab'', 18), (''.dynamic'', 9), (''.dynstr'', 1)] ''.dynstr'' = 1"
      "string_offset [(''.shstrtab'', 18), (''.dynamic'', 9), (''.dynstr'', 1)] ''.dynamic'' = 9"
      "string_offset [(''.shstrtab'', 18), (''.dynamic'', 9), (''.dynstr'', 1)] ''.shstrtab'' = 18"
    by code_simp+
  have two: "(2::nat) OR 1 = 3" by simp
  have at: "Get_AlignedOffset n (Word L) = names_at L n" "Get_AlignedOffset (names_at L n + 28) (Word L) = table_at L n"
    by (simp_all only: names_at_def table_at_def)
  show ?thesis
    unfolding Add_ElfSectionTable_def section_names Option.bind.simps Let_def fst_conv snd_conv off elf_values two
      n [symmetric] at section_names(2) new c1 c2
    using w1 [of "zeros ?S @ zeros ?S"] w2 [of "zeros ?S"] w3 header_completed [OF L, of "table_at L n" 4 3 machine flags phnum 0 0 0]
    by (simp add: section_bytes_def pre_def)
qed

lemma section_table_too_long:
  "max_array < table_at L (length img) + SectionHeader L * 4 \<Longrightarrow>
   Add_ElfSectionTable L dynstr_off dynstr_size dynamic_off dynamic_size img = None"
  by (simp add: Add_ElfSectionTable_def section_names names_at_def table_at_def new_array_def Let_def)

section \<open>The whole library\<close>

definition lib_strings :: "string \<Rightarrow> string \<Rightarrow> byte list" where
  "lib_strings soname symbol = fst (add_strings [0] [] [soname, symbol])"

definition lib_offset :: "string \<Rightarrow> string \<Rightarrow> string \<Rightarrow> nat" where
  "lib_offset soname symbol = string_offset (snd (add_strings [0] [] [soname, symbol]))"

definition hash_bytes :: "byte list" where
  "hash_bytes = le_bytes 4 1 @ le_bytes 4 2 @ le_bytes 4 1 @ zeros 8"

text \<open>Offsets, for a string table of \<open>n\<close> bytes.\<close>

definition dynstr_at :: "elf_layout \<Rightarrow> nat" where
  "dynstr_at L = Header L + ProgramHeader L * 3"

definition dynsym_at :: "elf_layout \<Rightarrow> nat \<Rightarrow> nat" where
  "dynsym_at L n = Get_AlignedOffset (dynstr_at L + n) (Word L)"

definition hash_at :: "elf_layout \<Rightarrow> nat \<Rightarrow> nat" where
  "hash_at L n = dynsym_at L n + 2 * Symbol L"

definition dynamic_at :: "elf_layout \<Rightarrow> nat \<Rightarrow> nat" where
  "dynamic_at L n = Get_AlignedOffset (hash_at L n + 20) (Word L)"

definition dynamic_size :: "elf_layout \<Rightarrow> nat" where
  "dynamic_size L = Dynamic L * (if Class L = 64 then 8 else 7)"

definition payload_at :: "elf_layout \<Rightarrow> nat \<Rightarrow> nat \<Rightarrow> nat" where
  "payload_at L n page = (dynamic_at L n + dynamic_size L + page - 1) div page * page"

lemma round_up_page: "0 < p \<Longrightarrow> (v::nat) \<le> (v + p - 1) div p * p"
proof -
  assume "0 < p"
  moreover have "(v + p - 1) div p * p + (v + p - 1) mod p = v + p - 1" by (rule div_mult_mod_eq)
  moreover have "(v + p - 1) mod p < p" using \<open>0 < p\<close> by simp
  ultimately show ?thesis by linarith
qed

lemma library_order:
  assumes "a_class L" "0 < page"
  shows "dynstr_at L + n \<le> dynsym_at L n" "hash_at L n + 20 \<le> dynamic_at L n" "dynamic_at L n + dynamic_size L \<le> payload_at L n page"
  using word_aligned [OF assms(1)] round_up_page [OF assms(2)]
  by (simp_all add: dynsym_at_def dynamic_at_def payload_at_def)

lemma dynamic_room: "Dynamic L * 7 \<le> dynamic_size L"
  by (simp add: dynamic_size_def)

definition lib_dynamic :: "elf_layout \<Rightarrow> string \<Rightarrow> string \<Rightarrow> (nat \<times> nat) list" where
  "lib_dynamic L soname symbol =
     (let n = length (lib_strings soname symbol) in
      [(14, lib_offset soname symbol soname), (4, hash_at L n), (5, dynstr_at L), (6, dynsym_at L n), (10, n),
       (11, Symbol L), (0, 0)])"

definition lib_body :: "elf_layout \<Rightarrow> string \<Rightarrow> string \<Rightarrow> byte list \<Rightarrow> nat \<Rightarrow> byte list" where
  "lib_body L soname symbol payload page =
     (let n = length (lib_strings soname symbol); po = payload_at L n page; size = po + length payload in
      phdr_bytes L 6 4 (Header L) (ProgramHeader L * 3) (ProgramHeader L * 3) (Word L) @
      phdr_bytes L 1 4 0 size size page @
      phdr_bytes L 2 4 (dynamic_at L n) (dynamic_size L) (dynamic_size L) (Word L) @
      lib_strings soname symbol @ zeros (dynsym_at L n - (dynstr_at L + n)) @ zeros (Symbol L) @
      sym_bytes L (lib_offset soname symbol symbol) po (length payload) 17 1 @
      hash_bytes @ zeros (dynamic_at L n - (hash_at L n + 20)) @
      dyn_bytes L (lib_dynamic L soname symbol) @ zeros (po - (dynamic_at L n + Dynamic L * 7)) @
      payload)"

definition lib_size :: "elf_layout \<Rightarrow> string \<Rightarrow> string \<Rightarrow> byte list \<Rightarrow> nat \<Rightarrow> nat" where
  "lib_size L soname symbol payload page = payload_at L (length (lib_strings soname symbol)) page + length payload"

definition lib_bytes :: "build_target \<Rightarrow> string \<Rightarrow> string \<Rightarrow> byte list \<Rightarrow> nat \<Rightarrow> byte list" where
  "lib_bytes tgt soname symbol payload page =
     (let L = Get_ElfLayout (ElfClass tgt); n = length (lib_strings soname symbol);
          size = lib_size L soname symbol payload page
      in ehdr_bytes L (elf (Machine tgt)) (Get_ElfHeaderFlags tgt) 3 (table_at L size) 4 3 @
         lib_body L soname symbol payload page @
         section_bytes L size (dynstr_at L) n (dynamic_at L n) (dynamic_size L))"

lemma length_hash_bytes [simp]: "length hash_bytes = 20"
  by (simp add: hash_bytes_def)

lemma hash_table: "symbol \<noteq> [] \<Longrightarrow> Get_ElfHashTableBytes [symbol] = Some hash_bytes"
proof -
  have "zeros 8 = zeros 4 @ zeros 4" by (simp flip: zeros_add)
  then show "symbol \<noteq> [] \<Longrightarrow> Get_ElfHashTableBytes [symbol] = Some hash_bytes"
    by (simp add: Get_ElfHashTableBytes_def hash_bytes_def le_bytes_zero numeral_2_eq_2)
qed

lemma lib_body_length:
  assumes "a_class L" "0 < page"
  shows "length (ehdr_bytes L m f k x y z @ lib_body L soname symbol payload page) = lib_size L soname symbol payload page"
proof -
  let ?n = "length (lib_strings soname symbol)"
  have "length (lib_dynamic L soname symbol) = 7" by (simp add: lib_dynamic_def Let_def)
  then show ?thesis
    using library_order [OF assms, of ?n] dynamic_room [of L] assms(1)
    by (simp add: lib_body_def lib_size_def Let_def piece_lengths hash_at_def dynstr_at_def)
qed

text \<open>The writes between the header and the section table, one after the other.\<close>

definition fill_body ::
  "build_target \<Rightarrow> elf_layout \<Rightarrow> string \<Rightarrow> string \<Rightarrow> byte list \<Rightarrow> nat \<Rightarrow> byte list \<Rightarrow> byte list option" where
  "fill_body tgt L soname symbol payload page img0 =
     (let n = length (lib_strings soname symbol); po = payload_at L n page; size = po + length payload in do {
       img \<leftarrow> Write_ElfHeader tgt L 3 img0;
       img \<leftarrow> Write_ElfProgramHeader L (Header L) 6 4 (Header L) (ProgramHeader L * 3) (ProgramHeader L * 3) (Word L) img;
       img \<leftarrow> Write_ElfProgramHeader L (Header L + ProgramHeader L) 1 4 0 size size page img;
       img \<leftarrow> Write_ElfProgramHeader L (Header L + 2 * ProgramHeader L) 2 4 (dynamic_at L n) (dynamic_size L) (dynamic_size L)
                (Word L) img;
       img \<leftarrow> array_copy (lib_strings soname symbol) (dynstr_at L) img;
       img \<leftarrow> Write_ElfSymbol L (dynsym_at L n + Symbol L) (lib_offset soname symbol symbol) po (length payload) 17 1 img;
       img \<leftarrow> array_copy hash_bytes (hash_at L n) img;
       img \<leftarrow> Write_ElfDynamicTable L (dynamic_at L n) (lib_dynamic L soname symbol) img;
       array_copy payload po img })"

lemma body_filled:
  assumes L: "a_class L" and page: "0 < page"
  shows "fill_body tgt L soname symbol payload page (zeros (lib_size L soname symbol payload page)) =
    Some (ehdr_bytes L (elf (Machine tgt)) (Get_ElfHeaderFlags tgt) 3 0 0 0 @ lib_body L soname symbol payload page)"
proof -
  define n where "n = length (lib_strings soname symbol)"
  define po where "po = payload_at L n page"
  define size where "size = po + length payload"
  define e where "e = ehdr_bytes L (elf (Machine tgt)) (Get_ElfHeaderFlags tgt) 3 0 0 0"
  define p1 where "p1 = phdr_bytes L 6 4 (Header L) (ProgramHeader L * 3) (ProgramHeader L * 3) (Word L)"
  define p2 where "p2 = phdr_bytes L 1 4 0 size size page"
  define p3 where "p3 = phdr_bytes L 2 4 (dynamic_at L n) (dynamic_size L) (dynamic_size L) (Word L)"
  define str where "str = lib_strings soname symbol"
  define g1 where "g1 = zeros (dynsym_at L n - (dynstr_at L + n)) @ zeros (Symbol L)"
  define sy where "sy = sym_bytes L (lib_offset soname symbol symbol) po (length payload) 17 1"
  define g2 where "g2 = zeros (dynamic_at L n - (hash_at L n + 20))"
  define dy where "dy = dyn_bytes L (lib_dynamic L soname symbol)"
  define g3 where "g3 = zeros (po - (dynamic_at L n + Dynamic L * 7))"
  note ord = library_order [OF L page, of n, folded po_def] dynamic_room [of L]
  have len: "length e = Header L" "length p1 = ProgramHeader L" "length p2 = ProgramHeader L" "length p3 = ProgramHeader L"
      "length str = n" "length sy = Symbol L" "length dy = Dynamic L * 7"
    by (simp_all add: e_def p1_def p2_def p3_def str_def n_def sy_def dy_def piece_lengths [OF L] lib_dynamic_def Let_def)
  have seven: "length (lib_dynamic L soname symbol) = 7" by (simp add: lib_dynamic_def Let_def)
  define a1 where "a1 = e @ p1 @ p2 @ p3"
  define a2 where "a2 = a1 @ str @ g1"
  define a3 where "a3 = a2 @ sy @ hash_bytes @ g2"
  have a1: "length a1 = dynstr_at L" by (simp add: a1_def len dynstr_at_def)
  have a2: "length a2 = dynsym_at L n + Symbol L" using ord by (simp add: a2_def a1 len g1_def)
  have a3: "length a3 = dynamic_at L n" using ord by (simp add: a3_def a2 len g2_def hash_at_def)
  let ?P = "ProgramHeader L" and ?S = "Symbol L"
  have split: "zeros (lib_size L soname symbol payload page) =
      zeros (Header L) @ zeros ?P @ zeros ?P @ zeros ?P @ zeros n @ g1 @ zeros ?S @ zeros 20 @ g2 @ zeros (Dynamic L * 7) @ g3 @
      zeros (length payload)"
    using ord
    by (simp add: lib_size_def n_def [symmetric] po_def [symmetric] g1_def g2_def g3_def hash_at_def dynstr_at_def flip: zeros_add)
  have w: "Write_ElfHeader tgt L 3 (zeros (Header L) @ rest) = Some (e @ rest)"
      "Write_ElfProgramHeader L (Header L) 6 4 (Header L) (?P * 3) (?P * 3) (Word L) (e @ zeros ?P @ rest) = Some (e @ p1 @ rest)"
      "Write_ElfProgramHeader L (Header L + ?P) 1 4 0 size size page ((e @ p1) @ zeros ?P @ rest) = Some ((e @ p1) @ p2 @ rest)"
      "Write_ElfProgramHeader L (Header L + 2 * ?P) 2 4 (dynamic_at L n) (dynamic_size L) (dynamic_size L) (Word L)
         ((e @ p1 @ p2) @ zeros ?P @ rest) = Some ((e @ p1 @ p2) @ p3 @ rest)"
      "array_copy str (dynstr_at L) (a1 @ zeros n @ rest) = Some (a1 @ str @ rest)"
      "Write_ElfSymbol L (dynsym_at L n + ?S) (lib_offset soname symbol symbol) po (length payload) 17 1 (a2 @ zeros ?S @ rest) =
         Some (a2 @ sy @ rest)"
      "array_copy hash_bytes (hash_at L n) ((a2 @ sy) @ zeros 20 @ rest) = Some ((a2 @ sy) @ hash_bytes @ rest)"
      "Write_ElfDynamicTable L (dynamic_at L n) (lib_dynamic L soname symbol) (a3 @ zeros (Dynamic L * 7) @ rest) =
         Some (a3 @ dy @ rest)"
      "array_copy payload po ((a3 @ dy @ g3) @ zeros (length payload) @ []) = Some ((a3 @ dy @ g3) @ payload @ [])" for rest
    unfolding e_def p1_def p2_def p3_def sy_def dy_def seven [symmetric]
    by (rule header_written program_header_written symbol_written array_copy_at dynamic_written;
        use L ord in \<open>simp add: a1 a2 a3 len hash_at_def g3_def seven piece_lengths [OF L]\<close>)+
  show ?thesis
    unfolding fill_body_def Let_def n_def [symmetric] po_def [symmetric] size_def [symmetric] str_def [symmetric] split
    using w by (simp add: lib_body_def Let_def a1_def a2_def a3_def n_def po_def size_def e_def p1_def p2_def p3_def str_def
        g1_def sy_def g2_def dy_def g3_def)
qed

definition library_fits :: "build_target \<Rightarrow> string \<Rightarrow> string \<Rightarrow> byte list \<Rightarrow> nat \<Rightarrow> bool" where
  "library_fits tgt soname symbol payload page \<longleftrightarrow>
     (let L = Get_ElfLayout (ElfClass tgt)
      in table_at L (lib_size L soname symbol payload page) + SectionHeader L * 4 \<le> max_array)"

lemma size_before_table: "a_class L \<Longrightarrow> n + 28 \<le> table_at L n"
  using word_aligned(1) [of L n] word_aligned(1) [of L "names_at L n + 28"]
  by (simp add: names_at_def table_at_def)

lemma library_written:
  "New_ElfPayloadLibrary tgt soname symbol payload page =
     (if soname = [] \<or> symbol = [] \<or> payload = [] \<or> page = 0 \<or> \<not> library_fits tgt soname symbol payload page then None
      else Some \<lparr>Bytes = lib_bytes tgt soname symbol payload page,
             PayloadOffset = payload_at (Get_ElfLayout (ElfClass tgt)) (length (lib_strings soname symbol)) page,
             SymbolName = symbol, Soname = soname\<rparr>)"
proof (cases "soname = [] \<or> symbol = [] \<or> payload = [] \<or> page = 0")
  case False
  let ?L = "Get_ElfLayout (ElfClass tgt)" and ?n = "length (lib_strings soname symbol)"
  let ?size = "lib_size ?L soname symbol payload page"
  have L: "a_class ?L" by (simp add: Get_ElfLayout_def)
  have page: "0 < page" using False by simp
  have strings: "New_ElfStringTable [soname, symbol] = Some (lib_strings soname symbol, snd (add_strings [0] [] [soname, symbol]))"
    using False by (auto simp: New_ElfStringTable_def lib_strings_def simp del: add_strings.simps)
  have off: "string_offset (snd (add_strings [0] [] [soname, symbol])) s = lib_offset soname symbol s" for s
    by (simp only: lib_offset_def)
  have info: "push_bit 4 (1::nat) OR 1 = 17" by simp
  have dyn: "lib_dynamic ?L soname symbol = [(14, lib_offset soname symbol soname), (4, hash_at ?L ?n), (5, dynstr_at ?L),
      (6, dynsym_at ?L ?n), (10, ?n), (11, Symbol ?L), (0, 0)]" by (simp add: lib_dynamic_def Let_def)
  have names: "Get_AlignedOffset (dynstr_at ?L + ?n) (Word ?L) = dynsym_at ?L ?n"
      "dynsym_at ?L ?n + 2 * Symbol ?L = hash_at ?L ?n" "Get_AlignedOffset (hash_at ?L ?n + 20) (Word ?L) = dynamic_at ?L ?n"
      "Header ?L + ProgramHeader ?L * 3 = dynstr_at ?L"
    by (simp_all add: dynsym_at_def hash_at_def dynamic_at_def dynstr_at_def)
  let ?done = "\<lambda>img. Some \<lparr>Bytes = img, PayloadOffset = payload_at ?L ?n page, SymbolName = symbol, Soname = soname\<rparr>"
  have run: "New_ElfPayloadLibrary tgt soname symbol payload page =
      (if Class ?L = 32 \<and> ?size > 0xFFFFFFFF then None else new_array ?size) \<bind> fill_body tgt ?L soname symbol payload page \<bind>
      Add_ElfSectionTable ?L (dynstr_at ?L) ?n (dynamic_at ?L ?n) (dynamic_size ?L) \<bind> ?done"
    using False
    by (cases "Class ?L = 32 \<and> ?size > 0xFFFFFFFF")
      (simp_all add: New_ElfPayloadLibrary_def strings hash_table off elf_values info names fill_body_def Let_def dyn
        dynamic_size_def payload_at_def lib_size_def
        del: add_strings.simps Write_ElfDynamicTable.simps, blast)
  have small: "max_array < 0xFFFFFFFF" by (simp add: max_array_def)
  show ?thesis
  proof (cases "?size \<le> max_array")
    case True
    let ?img = "ehdr_bytes ?L (elf (Machine tgt)) (Get_ElfHeaderFlags tgt) 3 0 0 0 @ lib_body ?L soname symbol payload page"
    have img: "?size = length ?img" using lib_body_length [OF L page] by simp
    have "New_ElfPayloadLibrary tgt soname symbol payload page =
        Add_ElfSectionTable ?L (dynstr_at ?L) ?n (dynamic_at ?L ?n) (dynamic_size ?L) ?img \<bind> ?done"
      using True small by (simp add: run new_array_zeros body_filled [OF L page])
    also have "\<dots> = (if library_fits tgt soname symbol payload page then ?done (lib_bytes tgt soname symbol payload page) else None)"
      using section_table_written [OF L img] section_table_too_long [of ?L ?img] img
      by (simp add: library_fits_def lib_bytes_def Let_def not_le)
    finally show ?thesis using False by simp
  next
    case False
    then have "\<not> library_fits tgt soname symbol payload page"
      using size_before_table [OF L, of ?size] by (simp add: library_fits_def Let_def)
    with False show ?thesis by (simp add: run new_array_def)
  qed
qed (auto simp: New_ElfPayloadLibrary_def Let_def)

end
