(* ===== verification/Elf_Accepted.thy ===== *)
theory Elf_Accepted
  imports Elf_Written Elf_Loading Store_Tables "HOL-Library.Sublist"
begin

text \<open>
  The writer of \<open>setup.ps1\<close> and the reader of \<open>lib/linker_phdr.cpp\<close> together: a written library is
  accepted on every API level, and once it is loaded its payload lies in memory at the load bias plus
  the symbol's value.
\<close>

section \<open>A written structure is the structure of its class\<close>

definition w_ehdr :: "elf_layout \<Rightarrow> nat \<Rightarrow> nat \<Rightarrow> nat \<Rightarrow> nat \<Rightarrow> nat \<Rightarrow> nat \<Rightarrow> ('w::len) word Ehdr" where
  "w_ehdr L machine flags phnum shoff shnum shstrndx =
     \<lparr>e_ident = [0x7F, 0x45, 0x4C, 0x46, if Class L = 64 then 2 else 1, 1, 1] @ zeros 9, e_type = 3, e_machine = of_nat machine,
      e_version = 1, e_entry = 0, e_phoff = of_nat (Header L), e_shoff = of_nat shoff, e_flags = of_nat flags,
      e_ehsize = of_nat (Header L), e_phentsize = of_nat (ProgramHeader L), e_phnum = of_nat phnum,
      e_shentsize = of_nat (SectionHeader L), e_shnum = of_nat shnum, e_shstrndx = of_nat shstrndx\<rparr>"

definition w_phdr :: "nat \<Rightarrow> nat \<Rightarrow> nat \<Rightarrow> nat \<Rightarrow> nat \<Rightarrow> nat \<Rightarrow> ('w::len) word Phdr" where
  "w_phdr ty flags off fsize msize align =
     \<lparr>p_type = of_nat ty, p_offset = of_nat off, p_vaddr = of_nat off, p_paddr = of_nat off, p_filesz = of_nat fsize,
      p_memsz = of_nat msize, p_flags = of_nat flags, p_align = of_nat align\<rparr>"

definition w_shdr ::
  "nat \<Rightarrow> nat \<Rightarrow> nat \<Rightarrow> nat \<Rightarrow> nat \<Rightarrow> nat \<Rightarrow> nat \<Rightarrow> nat \<Rightarrow> nat \<Rightarrow> ('w::len) word Shdr" where
  "w_shdr name ty flags addr off sz link align entsize =
     \<lparr>sh_name = of_nat name, sh_type = of_nat ty, sh_flags = of_nat flags, sh_addr = of_nat addr, sh_offset = of_nat off,
      sh_size = of_nat sz, sh_link = of_nat link, sh_info = 0, sh_addralign = of_nat align, sh_entsize = of_nat entsize\<rparr>"

lemma le_bytes_mod: "le_bytes n (v mod 256 ^ n) = le_bytes n v"
proof (induction n arbitrary: v)
  case (Suc n)
  have "v mod (256 * 256 ^ n) mod 256 = v mod 256" "v mod (256 * 256 ^ n) div 256 = v div 256 mod 256 ^ n"
    by (simp_all add: mod_mult2_eq)
  with Suc show ?case by simp
qed simp

lemma le_bytes_enc:
  "le_bytes 1 v = enc8 (of_nat v)" "le_bytes 2 v = enc16 (of_nat v)" "le_bytes 4 v = enc32 (of_nat v)" "le_bytes 8 v = enc64 (of_nat v)"
  using le_bytes_mod [of 1 v] le_bytes_mod [of 2 v] le_bytes_mod [of 4 v] le_bytes_mod [of 8 v]
  by (simp_all add: enc8_def enc16_def enc32_def enc64_def unat_of_nat)

lemma zeros_enc: "zeros 4 = enc32 0" "zeros 8 = enc64 0"
  using le_bytes_enc(3,4) [of 0] by (simp_all add: le_bytes_zero)

locale class_image =
  phdrs: record_codec enc_p "class_dec_phdr cls" "class_sizeof_phdr cls" +
  shdrs: record_codec enc_s "class_dec_shdr cls" "class_sizeof_shdr cls"
  for cls :: "('w::len) word elf_class" and enc_p enc_s +
  fixes L :: elf_layout
  assumes layout: "a_class L"
    and lp64: "lp64 cls \<longleftrightarrow> Class L = 64"
    and width: "32 \<le> LENGTH('w)"
    and sizes: "class_sizeof_phdr cls = ProgramHeader L" "class_sizeof_shdr cls = SectionHeader L" "class_align cls = Word L"
    and ehdr: "class_dec_ehdr cls (ehdr_bytes L m f k so sn sx @ ys) 0 = Some (w_ehdr L m f k so sn sx)"
    and phdr: "phdr_bytes L ty fl off fs ms al = enc_p (w_phdr ty fl off fs ms al)"
    and shdr: "shdr_bytes L a1 a2 a3 a4 a5 a6 a7 a8 a9 = enc_s (w_shdr a1 a2 a3 a4 a5 a6 a7 a8 a9)"
    and null_shdr: "zeros (SectionHeader L) = enc_s (w_shdr 0 0 0 0 0 0 0 0 0)"

lemma ehdr_bytes_enc:
  "ehdr_bytes (Get_ElfLayout 64) m f k so sn sx = enc_ehdr64 (w_ehdr (Get_ElfLayout 64) m f k so sn sx)"
  "ehdr_bytes (Get_ElfLayout 32) m f k so sn sx = enc_ehdr32 (w_ehdr (Get_ElfLayout 32) m f k so sn sx)"
  by (simp_all add: ehdr_bytes_def layout_values enc_ehdr64_def enc_ehdr32_def w_ehdr_def le_bytes_enc zeros_enc)

lemma table_bytes_enc:
  "phdr_bytes (Get_ElfLayout 64) ty fl off fs ms al = enc_phdr64 (w_phdr ty fl off fs ms al)"
  "phdr_bytes (Get_ElfLayout 32) ty fl off fs ms al = enc_phdr32 (w_phdr ty fl off fs ms al)"
  "shdr_bytes (Get_ElfLayout 64) a1 a2 a3 a4 a5 a6 a7 a8 a9 = enc_shdr64 (w_shdr a1 a2 a3 a4 a5 a6 a7 a8 a9)"
  "shdr_bytes (Get_ElfLayout 32) a1 a2 a3 a4 a5 a6 a7 a8 a9 = enc_shdr32 (w_shdr a1 a2 a3 a4 a5 a6 a7 a8 a9)"
  by (simp_all add: phdr_bytes_def shdr_bytes_def layout_values enc_phdr64_def enc_phdr32_def enc_shdr64_def enc_shdr32_def
      w_phdr_def w_shdr_def le_bytes_enc zeros_enc Let_def)

interpretation image64: class_image class64 enc_phdr64 enc_shdr64 "Get_ElfLayout 64"
proof unfold_locales
  fix m f k so sn sx and ys :: "byte list"
  have "length (e_ident (w_ehdr (Get_ElfLayout 64) m f k so sn sx :: u64 Ehdr)) = EI_NIDENT"
    by (simp add: w_ehdr_def EI_NIDENT_def)
  then show "class_dec_ehdr class64 (ehdr_bytes (Get_ElfLayout 64) m f k so sn sx @ ys) 0
      = Some (w_ehdr (Get_ElfLayout 64) m f k so sn sx)"
    using dec_enc_ehdr(2) [of "w_ehdr (Get_ElfLayout 32) m f k so sn sx" _ "[]" ys]
    by (simp add: ehdr_bytes_enc class64_def) (simp add: w_ehdr_def EI_NIDENT_def)
next
  have "zeros 64 = zeros 4 @ zeros 4 @ zeros 8 @ zeros 8 @ zeros 8 @ zeros 8 @ zeros 4 @ zeros 4 @ zeros 8 @ zeros 8"
    by (simp flip: zeros_add)
  then show "zeros (SectionHeader (Get_ElfLayout 64)) = enc_shdr64 (w_shdr 0 0 0 0 0 0 0 0 0)"
    by (simp add: layout_values enc_shdr64_def w_shdr_def zeros_enc)
qed (simp_all add: class64_def layout_values phdr64.dec_enc shdr64.dec_enc sizeof_phdr64_def sizeof_shdr64_def table_bytes_enc [unfolded layout_values])

interpretation image32: class_image class32 enc_phdr32 enc_shdr32 "Get_ElfLayout 32"
proof unfold_locales
  fix m f k so sn sx and ys :: "byte list"
  have "length (e_ident (w_ehdr (Get_ElfLayout 32) m f k so sn sx :: u32 Ehdr)) = EI_NIDENT"
    by (simp add: w_ehdr_def EI_NIDENT_def)
  then show "class_dec_ehdr class32 (ehdr_bytes (Get_ElfLayout 32) m f k so sn sx @ ys) 0
      = Some (w_ehdr (Get_ElfLayout 32) m f k so sn sx)"
    using dec_enc_ehdr(1) [of _ "w_ehdr (Get_ElfLayout 64) m f k so sn sx" "[]" ys]
    by (simp add: ehdr_bytes_enc class32_def) (simp add: w_ehdr_def EI_NIDENT_def)
next
  have "zeros 40 = zeros 4 @ zeros 4 @ zeros 4 @ zeros 4 @ zeros 4 @ zeros 4 @ zeros 4 @ zeros 4 @ zeros 4 @ zeros 4"
    by (simp flip: zeros_add)
  then show "zeros (SectionHeader (Get_ElfLayout 32)) = enc_shdr32 (w_shdr 0 0 0 0 0 0 0 0 0)"
    by (simp add: layout_values enc_shdr32_def w_shdr_def zeros_enc)
qed (simp_all add: class32_def layout_values phdr32.dec_enc shdr32.dec_enc sizeof_phdr32_def sizeof_shdr32_def table_bytes_enc [unfolded layout_values])

section \<open>The reader accepts a written library\<close>

text \<open>A file system whose mappings inside the file succeed.\<close>

locale file_system = file_access +
  assumes map_total: "0 \<le> base \<Longrightarrow> nat base + off + n \<le> length f \<Longrightarrow> map_file f base off n \<noteq> None"

interpretation plain_files: file_system safe_add64 map_slice
  by unfold_locales (simp add: map_slice_def slice_def)

text \<open>The reader after reading a library, and its tables.\<close>

definition written_phdrs :: "elf_layout \<Rightarrow> string \<Rightarrow> string \<Rightarrow> byte list \<Rightarrow> nat \<Rightarrow> ('w::len) word Phdr list" where
  "written_phdrs L soname symbol payload page =
     (let n = length (lib_strings soname symbol); size = lib_size L soname symbol payload page in
      [w_phdr 6 4 (Header L) (ProgramHeader L * 3) (ProgramHeader L * 3) (Word L),
       w_phdr 1 4 0 size size page,
       w_phdr 2 4 (dynamic_at L n) (dynamic_size L) (dynamic_size L) (Word L)])"

definition written_shdrs :: "elf_layout \<Rightarrow> string \<Rightarrow> string \<Rightarrow> byte list \<Rightarrow> nat \<Rightarrow> ('w::len) word Shdr list" where
  "written_shdrs L soname symbol payload page =
     (let n = length (lib_strings soname symbol); size = lib_size L soname symbol payload page in
      [w_shdr 0 0 0 0 0 0 0 0 0,
       w_shdr 1 3 2 (dynstr_at L) (dynstr_at L) n 0 1 0,
       w_shdr 9 6 3 (dynamic_at L n) (dynamic_at L n) (dynamic_size L) 1 (Word L) (Dynamic L),
       w_shdr 18 3 0 0 (names_at L size) 28 0 1 0])"

definition read_library ::
  "elf_layout \<Rightarrow> build_target \<Rightarrow> string \<Rightarrow> string \<Rightarrow> byte list \<Rightarrow> nat \<Rightarrow> ('w::len) word elf_reader \<Rightarrow> 'w word elf_reader" where
  "read_library L tgt soname symbol payload page r =
     (let B = lib_bytes tgt soname symbol payload page; n = length (lib_strings soname symbol);
          size = lib_size L soname symbol payload page in
      r\<lparr>file_bytes := B, file_offset := 0, file_size := int (length B),
        header := w_ehdr L (elf (Machine tgt)) (Get_ElfHeaderFlags tgt) 3 (table_at L size) 4 3,
        phdr_num := 3, phdr_table := written_phdrs L soname symbol payload page,
        shdr_num := 4, shdr_table := written_shdrs L soname symbol payload page,
        dynamic := slice B (dynamic_at L n) (dynamic_size L), strtab := Some (lib_strings soname symbol), strtab_size := n,
        did_read := True\<rparr>)"

lemma lib_bytes_length:
  assumes "a_class (Get_ElfLayout (ElfClass tgt))" "0 < page"
  defines "L \<equiv> Get_ElfLayout (ElfClass tgt)"
  shows "length (lib_bytes tgt soname symbol payload page) =
    table_at L (lib_size L soname symbol payload page) + SectionHeader L * 4"
proof -
  let ?size = "lib_size L soname symbol payload page"
  note L = assms(1) [folded L_def]
  have "length (section_bytes L ?size a b c d) = table_at L ?size + SectionHeader L * 4 - ?size" for a b c d
    using size_before_table [OF L, of ?size] word_aligned [OF L, of ?size]
      word_aligned(1) [OF L, of "names_at L ?size + 28"]
    by (simp add: section_bytes_def section_names(2) piece_lengths [OF L] names_at_def table_at_def)
  then show ?thesis
    using lib_body_length [OF L assms(2), of "elf (Machine tgt)" "Get_ElfHeaderFlags tgt" 3 "table_at L ?size" 4 3 soname symbol payload]
      size_before_table [OF L, of ?size]
    by (simp add: lib_bytes_def L_def [symmetric] Let_def)
qed

locale written_library = file_system add map_file + class_image cls enc_p enc_s L
  for add map_file and cls :: "('w::len) word elf_class" and enc_p enc_s L +
  fixes env :: "'w word loader_env" and tgt :: build_target and soname symbol :: string and payload :: "byte list" and page :: nat
  assumes env: "safe_add env = add" "map_fragment env = map_file" "elf_class env = cls"
    and tgt_layout: "L = Get_ElfLayout (ElfClass tgt)"
    and machine: "GetTargetElfMachine (target env) = of_nat (elf (Machine tgt))"
    and fits: "library_fits tgt soname symbol payload page" "0 < page"
begin

abbreviation n where "n \<equiv> length (lib_strings soname symbol)"
abbreviation sz where "sz \<equiv> lib_size L soname symbol payload page"
abbreviation B where "B \<equiv> lib_bytes tgt soname symbol payload page"

lemma file_length: "length B = table_at L sz + SectionHeader L * 4" "length B \<le> max_array"
  using lib_bytes_length [of tgt page soname symbol payload] layout fits
  by (simp_all add: tgt_layout library_fits_def Let_def)

lemma small: "v \<le> max_array \<Longrightarrow> unat (of_nat v :: 'w word) = v"
proof -
  assume "v \<le> max_array"
  then have "v < 2 ^ 32" by (simp add: max_array_def)
  also have "(2::nat) ^ 32 \<le> 2 ^ LENGTH('w)" by (rule power_increasing [OF width]) simp
  finally show ?thesis by (simp add: unat_of_nat)
qed

text \<open>Where the pieces lie.\<close>

lemma order:
  "dynstr_at L + n \<le> dynsym_at L n" "hash_at L n + 20 \<le> dynamic_at L n" "dynamic_at L n + dynamic_size L \<le> payload_at L n page"
  "payload_at L n page + length payload = sz" "sz + 28 \<le> table_at L sz" "sz \<le> names_at L sz"
  "0 < Word L" "Word L dvd Header L" "Word L dvd dynamic_at L n" "Word L dvd table_at L sz" "0 < Header L" "0 < dynstr_at L"
proof -
  show "dynstr_at L + n \<le> dynsym_at L n" "hash_at L n + 20 \<le> dynamic_at L n" "dynamic_at L n + dynamic_size L \<le> payload_at L n page"
    by (rule library_order [OF layout fits(2)])+
  show "sz + 28 \<le> table_at L sz" by (rule size_before_table [OF layout])
  show "sz \<le> names_at L sz" unfolding names_at_def by (rule word_aligned [OF layout])
  show "Word L dvd dynamic_at L n" "Word L dvd table_at L sz"
    unfolding dynamic_at_def table_at_def by (rule word_aligned [OF layout])+
qed (use layout in \<open>auto simp: layout_values lib_size_def dynstr_at_def\<close>)

lemma range_ok:
  assumes "0 < off" "off + len \<le> length B" "off < length B" "al dvd off" "file_offset r = 0" "file_size r = int (length B)"
  shows "CheckFileRange env r (of_nat off) len al"
proof -
  have "unat (of_nat off :: 'w word) = off" using assms(3) file_length(2) by (intro small) linarith
  moreover have "int (length B) < 2 ^ 63" using file_length(2) by (simp add: max_array_def)
  ultimately show ?thesis
    using assms checked_range [OF env(1), of r "of_nat off" len al] by (simp add: word_gt_0 flip: unat_eq_0)
qed

lemma mapped:
  assumes "off + len \<le> length B" "slice B off len = Some d"
  shows "map_fragment env B 0 off len = Some d"
proof -
  obtain d' where d': "map_file B 0 off len = Some d'" using map_total [of 0 off len B] assms(1) by auto
  then have "slice B off len = Some d'" using map_spec [OF d'] assms(1) by simp
  then show ?thesis using d' assms(2) env(2) by simp
qed

text \<open>The slices the reader asks for.\<close>

lemma slice_at: "length a = off \<Longrightarrow> length b = len \<Longrightarrow> slice (a @ b @ c) off len = Some b"
  using slice_mid [of a b c] by simp

lemma split_file:
  "B = ehdr_bytes L (elf (Machine tgt)) (Get_ElfHeaderFlags tgt) 3 (table_at L sz) 4 3 @
     lib_body L soname symbol payload page @ section_bytes L sz (dynstr_at L) n (dynamic_at L n) (dynamic_size L)"
  by (simp add: lib_bytes_def tgt_layout Let_def)

lemma phdrs_slice: "slice B (Header L) (3 * ProgramHeader L) = Some (concat (map enc_p (written_phdrs L soname symbol payload page)))"
proof -
  have "length (enc_p ph) = ProgramHeader L" for ph using phdrs.enc_length by (simp add: sizes)
  then show ?thesis
    unfolding split_file lib_body_def Let_def
    using slice_at [of "ehdr_bytes L (elf (Machine tgt)) (Get_ElfHeaderFlags tgt) 3 (table_at L sz) 4 3" "Header L"
        "concat (map enc_p (written_phdrs L soname symbol payload page))" "3 * ProgramHeader L"]
    by (simp add: piece_lengths [OF layout] written_phdrs_def phdr Let_def lib_size_def)
qed

lemma shdrs_slice: "slice B (table_at L sz) (4 * SectionHeader L) = Some (concat (map enc_s (written_shdrs L soname symbol payload page)))"
proof -
  let ?pre = "ehdr_bytes L (elf (Machine tgt)) (Get_ElfHeaderFlags tgt) 3 (table_at L sz) 4 3 @ lib_body L soname symbol payload page @
    zeros (names_at L sz - sz) @ section_names @ zeros (table_at L sz - (names_at L sz + 28))"
  have "length (enc_s sh) = SectionHeader L" for sh using shdrs.enc_length by (simp add: sizes)
  moreover have "length ?pre = table_at L sz"
    using lib_body_length [OF layout fits(2), of "elf (Machine tgt)" "Get_ElfHeaderFlags tgt" 3 "table_at L sz" 4 3 soname symbol payload]
      order(6) word_aligned(1) [OF layout, of "names_at L sz + 28"]
    by (simp add: section_names(2) table_at_def)
  ultimately show ?thesis
    using slice_at [of ?pre "table_at L sz" "concat (map enc_s (written_shdrs L soname symbol payload page))" "4 * SectionHeader L" "[]"]
    by (simp add: split_file section_bytes_def written_shdrs_def shdr null_shdr Let_def)
qed

lemma strings_slice: "slice B (dynstr_at L) n = Some (lib_strings soname symbol)"
  unfolding split_file lib_body_def Let_def
  using slice_at [of "ehdr_bytes L (elf (Machine tgt)) (Get_ElfHeaderFlags tgt) 3 (table_at L sz) 4 3 @
      phdr_bytes L 6 4 (Header L) (ProgramHeader L * 3) (ProgramHeader L * 3) (Word L) @
      phdr_bytes L 1 4 0 (payload_at L n page + length payload) (payload_at L n page + length payload) page @
      phdr_bytes L 2 4 (dynamic_at L n) (dynamic_size L) (dynamic_size L) (Word L)" "dynstr_at L" "lib_strings soname symbol" n]
  by (simp add: piece_lengths [OF layout] dynstr_at_def)

lemma payload_slice: "slice B (payload_at L n page) (length payload) = Some payload"
proof -
  let ?e = "ehdr_bytes L (elf (Machine tgt)) (Get_ElfHeaderFlags tgt) 3 (table_at L sz) 4 3"
  have "suffix payload (lib_body L soname symbol payload page)"
    by (simp add: lib_body_def Let_def suffix_append del: append_assoc add: append_assoc [symmetric])
  then obtain front where front: "lib_body L soname symbol payload page = front @ payload" by (auto simp: suffix_def)
  have "length (?e @ front) = payload_at L n page"
    using lib_body_length [OF layout fits(2), of "elf (Machine tgt)" "Get_ElfHeaderFlags tgt" 3 "table_at L sz" 4 3 soname symbol payload]
      order(4) by (simp add: front)
  then show ?thesis using slice_at [of "?e @ front" _ payload "length payload"] by (simp add: split_file front)
qed

text \<open>The steps of \<open>Read\<close>.\<close>

abbreviation hd where "hd \<equiv> w_ehdr L (elf (Machine tgt)) (Get_ElfHeaderFlags tgt) 3 (table_at L sz) 4 3"

lemma header_verified: "VerifyElfHeader env (r\<lparr>header := hd\<rparr>) = Inr (r\<lparr>header := hd\<rparr>)"
proof -
  have "SectionHeader L < 2 ^ 16" using layout by (auto simp: layout_values)
  then have "unat (of_nat (SectionHeader L) :: u16) = SectionHeader L" by (simp add: unat_of_nat)
  then show ?thesis
    by (simp add: VerifyElfHeader_def w_ehdr_def checkMagic_def ElfMagic_def getFileClass_def getDataEncoding_def EI_CLASS_def
        EI_DATA_def check_class_def env(3) lp64 ELFCLASS64_def ELFCLASS32_def ELFDATA2LSB_def ET_DYN_def EV_CURRENT_def machine
        enforced_at_26_def sizes Let_def)
qed

lemma phdrs_read:
  assumes "header r = hd" "file_bytes r = B" "file_offset r = 0" "file_size r = int (length B)"
  shows "ReadProgramHeaders env r = Inr (r\<lparr>phdr_num := 3, phdr_table := written_phdrs L soname symbol payload page\<rparr>)"
proof -
  have "Header L + 3 * ProgramHeader L \<le> length B" "Header L < length B" using phdrs_slice by (auto simp: slice_def layout split: if_splits)
    (use layout in \<open>auto simp: layout_values slice_def split: if_splits\<close>)
  then have range: "CheckFileRange env r (of_nat (Header L)) (3 * ProgramHeader L) (Word L)"
    by (intro range_ok) (use order assms in auto)
  have off: "unat (of_nat (Header L) :: 'w word) = Header L"
    using \<open>Header L < length B\<close> file_length(2) by (intro small) linarith
  have count: "length (written_phdrs L soname symbol payload page :: 'w word Phdr list) = 3"
    by (simp add: written_phdrs_def Let_def)
  have table: "read_table (class_dec_phdr cls) (ProgramHeader L) (concat (map enc_p (written_phdrs L soname symbol payload page)), 0) 3 =
      Some (written_phdrs L soname symbol payload page)"
    using phdrs.read_table_encoded [of "[]" "written_phdrs L soname symbol payload page" "[]"]
    by (simp add: sizes count)
  have "ProgramHeader L \<in> {56, 32}" using layout by (auto simp: layout_values)
  then have num: "\<not> 65536 div ProgramHeader L < 3" by auto
  show ?thesis
    using range mapped [OF \<open>Header L + 3 * ProgramHeader L \<le> length B\<close> phdrs_slice] table num
    by (simp add: ReadProgramHeaders_def env(3) sizes assms w_ehdr_def off Let_def)
qed

lemma shdrs_read:
  assumes "header r = hd" "file_bytes r = B" "file_offset r = 0" "file_size r = int (length B)"
  shows "ReadSectionHeaders env r = Inr (r\<lparr>shdr_num := 4, shdr_table := written_shdrs L soname symbol payload page\<rparr>)"
proof -
  have len: "table_at L sz + 4 * SectionHeader L \<le> length B" "table_at L sz < length B"
    using file_length(1) layout by (auto simp: layout_values)
  then have range: "CheckFileRange env r (of_nat (table_at L sz)) (4 * SectionHeader L) (Word L)"
    by (intro range_ok) (use order assms in auto)
  have off: "unat (of_nat (table_at L sz) :: 'w word) = table_at L sz"
    using len file_length(2) by (intro small) linarith
  have count: "length (written_shdrs L soname symbol payload page :: 'w word Shdr list) = 4"
    by (simp add: written_shdrs_def Let_def)
  have table: "read_table (class_dec_shdr cls) (SectionHeader L) (concat (map enc_s (written_shdrs L soname symbol payload page)), 0) 4 =
      Some (written_shdrs L soname symbol payload page)"
    using shdrs.read_table_encoded [of "[]" "written_shdrs L soname symbol payload page" "[]"]
    by (simp add: sizes count)
  show ?thesis
    using range mapped [OF len(1) shdrs_slice] table
    by (simp add: ReadSectionHeaders_def env(3) sizes assms w_ehdr_def off Let_def)
qed

lemma dynamic_read:
  assumes "phdr_table r = written_phdrs L soname symbol payload page" "shdr_table r = written_shdrs L soname symbol payload page"
    "shdr_num r = 4" "file_bytes r = B" "file_offset r = 0" "file_size r = int (length B)"
  shows "ReadDynamicSection env r =
    Inr (r\<lparr>dynamic := slice B (dynamic_at L n) (dynamic_size L), strtab := Some (lib_strings soname symbol), strtab_size := n\<rparr>)"
proof -
  let ?dyn = "w_shdr 9 6 3 (dynamic_at L n) (dynamic_at L n) (dynamic_size L) 1 (Word L) (Dynamic L) :: 'w word Shdr"
  let ?str = "w_shdr 1 3 2 (dynstr_at L) (dynstr_at L) n 0 1 0 :: 'w word Shdr"
  have len: "dynamic_at L n + dynamic_size L \<le> length B" "dynamic_at L n < length B" "dynstr_at L + n \<le> length B"
      "dynstr_at L < length B" "0 < dynamic_at L n"
    using order file_length(1) by (auto simp: hash_at_def)
  have nat: "unat (of_nat (dynamic_at L n) :: 'w word) = dynamic_at L n" "unat (of_nat (dynamic_size L) :: 'w word) = dynamic_size L"
      "unat (of_nat (dynstr_at L) :: 'w word) = dynstr_at L" "unat (of_nat n :: 'w word) = n"
    by (rule small, use len file_length(2) in linarith)+
  obtain d where d: "slice B (dynamic_at L n) (dynamic_size L) = Some d" using len(1) by (simp add: slice_def)
  have find: "List.find (\<lambda>s. sh_type s = SHT_DYNAMIC) (shdr_table r) = Some ?dyn"
    by (simp add: assms written_shdrs_def Let_def w_shdr_def SHT_DYNAMIC_def)
  have pt: "pt_dynamic_range (phdr_table r) = (of_nat (dynamic_at L n), of_nat (dynamic_size L))"
    by (simp add: assms written_phdrs_def pt_dynamic_range_def Let_def w_phdr_def PT_DYNAMIC_def)
  have ranges: "CheckFileRange env r (of_nat (dynamic_at L n)) (dynamic_size L) (Word L)" "CheckFileRange env r (of_nat (dynstr_at L)) n 1"
    by (rule range_ok; use len order assms in auto)+
  have "shdr_table r ! 1 = ?str" by (simp add: assms written_shdrs_def Let_def)
  then have "MapDynamic env ?dyn r = Inr (r\<lparr>dynamic := Some d, strtab := Some (lib_strings soname symbol), strtab_size := n\<rparr>)"
    using ranges mapped [OF len(1) d] mapped [OF len(3) strings_slice]
    by (simp add: MapDynamic_def w_shdr_def assms nat SHT_STRTAB_def env(3) sizes Let_def)
  then show ?thesis
    by (simp add: ReadDynamicSection_def find pt enforced_at_26_def d) (simp add: w_shdr_def)
qed

lemma library_read: "\<not> did_read r \<Longrightarrow> Read env r B 0 (int (length B)) = Inr (read_library L tgt soname symbol payload page r)"
proof -
  assume fresh: "\<not> did_read r"
  let ?r = "r\<lparr>file_bytes := B, file_offset := 0, file_size := int (length B), header := hd\<rparr>"
  have "class_dec_ehdr cls B 0 = Some hd" unfolding split_file by (rule ehdr)
  then have h: "ReadElfHeader env (r\<lparr>file_bytes := B, file_offset := 0, file_size := int (length B)\<rparr>) = Inr ?r"
    by (simp add: ReadElfHeader_def env(3))
  have v: "VerifyElfHeader env ?r = Inr ?r"
    using header_verified [of "r\<lparr>file_bytes := B, file_offset := 0, file_size := int (length B)\<rparr>"] by simp
  show ?thesis
    using fresh phdrs_read [of ?r] shdrs_read [of "?r\<lparr>phdr_num := 3, phdr_table := written_phdrs L soname symbol payload page\<rparr>"]
      dynamic_read [of "?r\<lparr>phdr_num := 3, phdr_table := written_phdrs L soname symbol payload page, shdr_num := 4,
        shdr_table := written_shdrs L soname symbol payload page\<rparr>"]
    by (simp add: Read_def h v read_library_def Let_def)
qed

text \<open>After loading, the payload is where the symbol's value says.\<close>

lemma payload_mapped:
  assumes "paging env" "Load env sys read_phoff bti space (read_library L tgt soname symbol payload page r) = Some (r', space', calls, True)"
    and "\<not> did_load r" "unat (PAGE_SIZE env) dvd unat (load_bias r')"
    and "unat (load_bias r') + sz + unat (PAGE_SIZE env) \<le> 2 ^ LENGTH('w)"
  shows "\<exists>segs rest. calls = segs @ rest \<and> (\<forall>k < length payload.
    apply_calls (unat (PAGE_SIZE env)) B segs m (unat (load_bias r') + payload_at L n page + k) = Some (payload ! k, PFLAGS_TO_PROT PF_R))"
proof -
  let ?r = "read_library L tgt soname symbol payload page r :: 'w word elf_reader"
  let ?ph = "w_phdr 1 4 0 sz sz page :: 'w word Phdr"
  have r: "\<not> did_load ?r" "file_offset ?r = 0" "file_bytes ?r = B" "phdr_table ?r = written_phdrs L soname symbol payload page"
    using assms(3) by (simp_all add: read_library_def Let_def)
  note keeps = Load_keeps [OF assms(2) r(1)]
  have loads: "loads (phdr_table r') = [?ph]"
    using keeps r by (simp add: written_phdrs_def loads_def w_phdr_def PT_LOAD_def Let_def)
  have sz: "unat (of_nat sz :: 'w word) = sz" using order file_length by (intro small) linarith
  have at: "seg_at r' ?ph = unat (load_bias r')" "p_filesz ?ph = of_nat sz" "p_memsz ?ph = of_nat sz" "p_offset ?ph = 0"
      "p_flags ?ph = PF_R" "p_vaddr ?ph = 0"
    by (simp_all add: seg_at_def w_phdr_def PF_R_def)
  have "0 < unat (PAGE_SIZE env)" using assms(1) by (simp add: paging_def)
  moreover have "sz < 2 ^ LENGTH('w)" using unsigned_less [of "of_nat sz :: 'w word", where ?'a = nat] sz by simp
  ultimately have "segment_ok env r' ?ph"
    using assms(4,5) unfolding segment_ok_def at sz by (simp add: sz dvd_eq_mod_eq_0)
  then obtain segs rest where segs: "calls = segs @ rest"
      "segment_in_memory env r' ?ph (apply_calls (unat (PAGE_SIZE env)) (file_bytes r') segs m)"
    using Load_maps(1) [OF assms(1,2) r(1), of m] r(2) by (auto simp: loads pages_apart_def)
  have "apply_calls (unat (PAGE_SIZE env)) B segs m (unat (load_bias r') + payload_at L n page + k) = Some (payload ! k, PFLAGS_TO_PROT PF_R)"
    if k: "k < length payload" for k
  proof -
    let ?k = "payload_at L n page + k"
    have in_file: "?k < sz" "?k < length B" using k order file_length(1) by linarith+
    have "payload = take (length payload) (drop (payload_at L n page) B)"
      using payload_slice by (simp add: slice_def split: if_splits)
    then have "payload ! k = B ! ?k" using k by (metis in_file(2) less_imp_le nth_drop nth_take add_leD1)
    then show ?thesis
      using segs(2) in_file r keeps by (simp add: segment_in_memory_def at [unfolded One_nat_def] sz byte_at_def add.assoc)
  qed
  with segs(1) show ?thesis by blast
qed

end

section \<open>The properties\<close>

lemma written_library_intro:
  assumes "class_image cls enc_p enc_s (Get_ElfLayout (ElfClass tgt))" "file_system (safe_add env) (map_fragment env)"
    and "elf_class env = cls" "GetTargetElfMachine (target env) = of_nat (elf (Machine tgt))"
    and "New_ElfPayloadLibrary tgt soname symbol payload page = Some lib"
  shows "written_library (safe_add env) (map_fragment env) cls enc_p enc_s (Get_ElfLayout (ElfClass tgt)) env tgt soname symbol payload page"
    and "Bytes lib = lib_bytes tgt soname symbol payload page"
    and "PayloadOffset lib = payload_at (Get_ElfLayout (ElfClass tgt)) (length (lib_strings soname symbol)) page"
proof -
  from assms(5) have "library_fits tgt soname symbol payload page" "0 < page" by (auto simp: library_written split: if_splits)
  then show "written_library (safe_add env) (map_fragment env) cls enc_p enc_s (Get_ElfLayout (ElfClass tgt)) env tgt soname symbol payload page"
    using assms(1-4) by (auto intro!: written_library.intro written_library_axioms.intro)
qed (use assms(5) in \<open>auto simp: library_written split: if_splits\<close>)

text \<open>
  C12. A library that the build writes for a target is accepted by the linker of that target at every API
  level and without a warning; what it maps of the file is one read-only segment from the start of the
  file to the end of the payload, and the payload lies at a multiple of the page size the build asked
  for.
\<close>

theorem written_library_accepted:
  fixes r :: "('w::len) word elf_reader"
  assumes "class_image (elf_class env) enc_p enc_s (Get_ElfLayout (ElfClass tgt))" "file_system (safe_add env) (map_fragment env)"
    and "GetTargetElfMachine (target env) = of_nat (elf (Machine tgt))"
    and "New_ElfPayloadLibrary tgt soname symbol payload page = Some lib" "\<not> did_read r"
  shows "\<exists>r' ph. Read env r (Bytes lib) 0 (int (length (Bytes lib))) = Inr r' \<and> did_read r' \<and> warnings r' = warnings r \<and>
    loads (phdr_table r') = [ph] \<and> p_flags ph = PF_R \<and> p_vaddr ph = 0 \<and> p_offset ph = 0 \<and> p_memsz ph = p_filesz ph \<and>
    unat (p_filesz ph) = PayloadOffset lib + length payload \<and>
    slice (Bytes lib) (PayloadOffset lib) (length payload) = Some payload \<and> page dvd PayloadOffset lib"
proof -
  let ?L = "Get_ElfLayout (ElfClass tgt)" and ?n = "length (lib_strings soname symbol)"
  let ?r = "read_library ?L tgt soname symbol payload page r" and ?sz = "lib_size ?L soname symbol payload page"
  note W = written_library_intro [OF assms(1,2) refl assms(3,4)]
  have "unat (of_nat ?sz :: 'w word) = ?sz"
    using written_library.small [OF W(1)] written_library.file_length [OF W(1)] written_library.order(5) [OF W(1)] by fastforce
  moreover have "loads (phdr_table ?r) = [w_phdr 1 4 0 ?sz ?sz page]" "did_read ?r" "warnings ?r = warnings r"
    by (simp_all add: read_library_def written_phdrs_def loads_def w_phdr_def PT_LOAD_def Let_def)
  moreover have "Read env r (Bytes lib) 0 (int (length (Bytes lib))) = Inr ?r"
    unfolding W(2) by (rule written_library.library_read [OF W(1) assms(5)])
  moreover have "slice (Bytes lib) (PayloadOffset lib) (length payload) = Some payload"
    unfolding W(2,3) by (rule written_library.payload_slice [OF W(1)])
  moreover have "page dvd PayloadOffset lib" unfolding W(3) payload_at_def by simp
  ultimately show ?thesis using written_library.order(4) [OF W(1)] by (auto simp: w_phdr_def PF_R_def W(3))
qed


end
