(* ===== verification/Elf_Library_Demo.thy ===== *)
theory Elf_Library_Demo
  imports Elf_Accepted Elf_Demo
begin

text \<open>
  When the writer produces a library, and a small library written, read and loaded.
\<close>

section \<open>When a library is written\<close>

text \<open>
  C13. The writer produces a library exactly when no argument is empty, the page size is not zero and the
  file with its section table fits the longest array of the runtime: none of its writes ever leaves the
  image, and the 32-bit limit of the source is never the reason.
\<close>

theorem library_written_iff:
  "New_ElfPayloadLibrary tgt soname symbol payload page \<noteq> None \<longleftrightarrow>
     soname \<noteq> [] \<and> symbol \<noteq> [] \<and> payload \<noteq> [] \<and> page \<noteq> 0 \<and>
     length (lib_bytes tgt soname symbol payload page) \<le> max_array"
proof -
  have "a_class (Get_ElfLayout (ElfClass tgt))" by (simp add: Get_ElfLayout_def)
  then show ?thesis
    using lib_bytes_length [of tgt page soname symbol payload] by (auto simp: library_written library_fits_def Let_def)
qed

section \<open>A small library\<close>

definition demo_store :: "byte list" where
  "demo_store = [0x58, 0x41, 0x42, 0x41]"

abbreviation demo_lib :: payload_library where
  "demo_lib \<equiv> \<lparr>Bytes = lib_bytes target_x64 ''libstore.so'' ''payload'' demo_store 16384, PayloadOffset = 16384,
     SymbolName = ''payload'', Soname = ''libstore.so''\<rparr>"

lemma demo_layout:
  "length (lib_strings ''libstore.so'' ''payload'') = 21" "payload_at (Get_ElfLayout 64) 21 16384 = 16384"
  "lib_size (Get_ElfLayout 64) ''libstore.so'' ''payload'' demo_store 16384 = 16388"
  "table_at (Get_ElfLayout 64) 16388 = 16424"
proof -
  show n: "length (lib_strings ''libstore.so'' ''payload'') = 21"
    by (simp add: lib_strings_def offset_of_def fold_case_def ascii_def Let_def)
  show p: "payload_at (Get_ElfLayout 64) 21 16384 = 16384"
    by (simp add: payload_at_def dynamic_at_def hash_at_def dynsym_at_def dynstr_at_def dynamic_size_def layout_values Get_AlignedOffset_def)
  show "lib_size (Get_ElfLayout 64) ''libstore.so'' ''payload'' demo_store 16384 = 16388"
    by (simp add: lib_size_def n p demo_store_def)
  show "table_at (Get_ElfLayout 64) 16388 = 16424"
    by (simp add: table_at_def names_at_def layout_values Get_AlignedOffset_def)
qed

lemma demo_written: "New_ElfPayloadLibrary target_x64 ''libstore.so'' ''payload'' demo_store 16384 = Some demo_lib"
proof -
  have "demo_store \<noteq> []" by (simp add: demo_store_def)
  then show ?thesis
    by (simp add: library_written library_fits_def target_x64_def demo_layout) (simp add: layout_values max_array_def)
qed

section \<open>Read and loaded\<close>

lemma demo_image:
  "class_image (elf_class demo_env) enc_phdr64 enc_shdr64 (Get_ElfLayout (ElfClass target_x64))"
  "file_system (safe_add demo_env) (map_fragment demo_env)"
  "GetTargetElfMachine (target demo_env) = of_nat (elf (Machine target_x64))"
  using image64.class_image_axioms plain_files.file_system_axioms
  by (simp_all add: loader64_def target_x64_def elf_values EM_X86_64_def)

text \<open>The interface of a written library, on the demonstration library and the 64-bit loader.\<close>

interpretation demo_library: written_library "safe_add demo_env" "map_fragment demo_env" "elf_class demo_env" enc_phdr64 enc_shdr64
    "Get_ElfLayout (ElfClass target_x64)" demo_env target_x64 "''libstore.so''" "''payload''" demo_store 16384
  by (rule written_library_intro(1) [OF demo_image(1,2) refl demo_image(3) demo_written])

lemma demo_store_simps: "length demo_store = 4" "demo_store ! 0 = 0x58" "demo_store \<noteq> []"
  by (simp_all add: demo_store_def)

lemma written_library_accepted_witness:
  "\<exists>r' ph. Read demo_env new_reader (Bytes demo_lib) 0 (int (length (Bytes demo_lib))) = Inr r' \<and>
     loads (phdr_table r') = [ph] \<and> unat (p_filesz ph) = 16388 \<and> slice (Bytes demo_lib) 16384 4 = Some demo_store"
proof -
  have "\<not> did_read new_reader" by (simp add: new_reader_def)
  from written_library_accepted [OF demo_image demo_written this] show ?thesis
    by (auto simp: demo_store_simps)
qed

definition library_reader :: "u64 elf_reader" where
  "library_reader = read_library (Get_ElfLayout 64) target_x64 ''libstore.so'' ''payload'' demo_store 16384 new_reader"

definition library_space :: "u64 address_space_params" where
  "library_space = \<lparr>start_addr = 0x70000000, reserved_size = 0x10000, must_use_address = True\<rparr>"

definition library_loaded :: "u64 elf_reader" where
  "library_loaded = library_reader\<lparr>load_size := 0x5000, load_start := 0x70000000, load_bias := 0x70000000, gap_start := 0,
     gap_size := 0, mapped_by_caller := True, loaded_phdr := Some 0x70000040, did_load := True\<rparr>"

lemma library_phdrs: "phdr_table library_reader =
    [w_phdr 6 4 64 168 168 8, w_phdr 1 4 0 16388 16388 16384, w_phdr 2 4 (dynamic_at (Get_ElfLayout 64) 21) 128 128 8]"
  by (simp add: library_reader_def read_library_def written_phdrs_def demo_layout Let_def)
     (simp add: layout_values dynamic_size_def)

lemma library_reserve:
  "ReserveAddressSpace demo_env quiet_system library_space library_reader =
     Inr (library_loaded\<lparr>loaded_phdr := loaded_phdr new_reader, did_load := False\<rparr>,
       \<lparr>start_addr = 0x70005000, reserved_size = 0xB000, must_use_address = True\<rparr>)"
proof -
  have "phdr_table_get_load_size demo_env (phdr_table library_reader) = (0x5000, 0, 0x5000)"
    by (simp add: library_phdrs phdr_table_get_load_size_def w_phdr_def PT_LOAD_def extend_load_def Let_def mask_numeral word_gt_0)
  then show ?thesis
    by (simp add: ReserveAddressSpace_def library_space_def library_loaded_def)
       (simp add: library_reader_def read_library_def new_reader_def Let_def)
qed

lemma library_segments:
  "LoadSegments demo_env quiet_system (library_loaded\<lparr>loaded_phdr := loaded_phdr new_reader, did_load := False\<rparr>) =
     ([MapFile 0x70000000 0x4004 (PFLAGS_TO_PROT PF_R) 0], None)"
proof -
  have "length (lib_bytes target_x64 ''libstore.so'' ''payload'' demo_store 16384) = 16680"
    using lib_bytes_length [of target_x64 16384 "''libstore.so''" "''payload''" demo_store]
    by (simp add: target_x64_def demo_layout) (simp add: layout_values)
  then have size: "file_size library_reader = 16680" "file_offset library_reader = 0"
    by (simp_all add: library_reader_def read_library_def Let_def)
  show ?thesis
    by (simp add: LoadSegments_def library_loaded_def library_phdrs w_phdr_def pt_defs p_flag_defs size segment_calls_def Let_def
        mask_numeral kPmdSize_def PFLAGS_TO_PROT_def quiet_system_def mask_system_def)
qed

lemma library_load:
  "\<exists>space calls. Load demo_env quiet_system (\<lambda>a. 64) False library_space library_reader = Some (library_loaded, space, calls, True)"
proof -
  let ?r = "library_loaded\<lparr>loaded_phdr := loaded_phdr new_reader, did_load := False\<rparr>"
  have "phdr_num library_reader = 3" by (simp add: library_reader_def read_library_def Let_def)
  then have "FindPhdr demo_env (\<lambda>a. 64) ?r = Inr (library_loaded\<lparr>did_load := False\<rparr>)"
    by (simp add: FindPhdr_def CheckPhdr_def library_loaded_def library_phdrs w_phdr_def pt_defs Let_def)
  moreover have "did_read library_reader" "\<not> did_load library_reader"
    by (simp_all add: library_reader_def read_library_def new_reader_def Let_def)
  ultimately show ?thesis
    by (simp add: Load_def library_reserve library_segments Let_def) (simp add: library_loaded_def)
qed


end
