(* ===== verification/Arm_Driver.thy ===== *)
theory Arm_Driver
  imports Prelude
begin

text \<open>
  The ARM helpers of the compiler driver, \<open>lib/ARM.cpp\<close>: the architecture, the thread pointer mode and
  the floating-point ABI that a command line and a triple select.  LLVM's target parser and its triple
  class are not in this repository: the parser is the record \<open>target_parser\<close>, a triple the record of
  the answers the file asks it for.  A diagnostic is a value, and a function that may report one returns
  the list of those it reported.
\<close>

section \<open>Triples, the target parser and the command line\<close>

datatype arch_type = Arch_arm | Arch_armeb | Arch_thumb | Arch_thumbeb | Arch_other

datatype sub_arch = ARMSubArch_v8_4a | ARMSubArch_v7em | ARMSubArch_v6m | ARMSubArch_v8m_baseline | SubArch_other

datatype vendor = UnknownVendor | Apple | Vendor_other

datatype os_type = UnknownOS | Darwin | MacOSX | IOS | TvOS | DriverKit | XROS | WatchOS | Win32 | NetBSD | FreeBSD |
  Haiku | OpenBSD | Fuchsia | OS_other

datatype environment = GNUEABI | GNUEABIHF | GNUEABIT64 | GNUEABIHFT64 | EABI | EABIHF | MuslEABI | MuslEABIHF | OpenHOS |
  Android | Env_other

record triple =
  getArchName :: string
  getArch :: arch_type
  getSubArch :: sub_arch
  getVendor :: vendor
  getOS :: os_type
  getEnvironment :: environment
  isOSBinFormatMachO :: bool
  isOSWindows :: bool
  isOSFuchsia :: bool
  isOSLiteOS :: bool
  isOSFirmware :: bool
  isOSDarwin :: bool
  isOSNetBSD :: bool
  isWatchABI :: bool
  isOHOSFamily :: bool
  isAndroid :: bool
  isiOS :: bool
  isWatchOS :: bool
  isXROS :: bool
  isOSVersionLT6 :: bool

datatype profile = Profile_A | Profile_R | Profile_M | Profile_INVALID

datatype arch_kind = AK_INVALID | ARMV6K | ARMV6KZ | ARMV6T2 | ARMV6M | ARMV7K | ARMV8MBaseline | AK_other string

datatype fpu_kind = FK_INVALID | FK_NONE | FK_FPV5_D16 | FK_FPV5_SP_D16 | FK_other string

datatype neon_support = Neon_None | Neon | Neon_Crypto

text \<open>
  The functions that append to a feature vector return what they append with their success.
\<close>

record target_parser =
  parseArchVersion :: "string \<Rightarrow> nat"
  parseArchProfile :: "string \<Rightarrow> profile"
  parseArch :: "string \<Rightarrow> arch_kind"
  parseCPUArch :: "string \<Rightarrow> arch_kind"
  getARMCPUForArch :: "triple \<Rightarrow> string \<Rightarrow> string"
  archSubArch :: "arch_kind \<Rightarrow> string"
  archName :: "arch_kind \<Rightarrow> string"
  getDefaultFPU :: "string \<Rightarrow> arch_kind \<Rightarrow> fpu_kind"
  parseFPU :: "string \<Rightarrow> fpu_kind"
  getFPUFeatures :: "fpu_kind \<Rightarrow> bool \<times> string list"
  NeonSupport :: "fpu_kind \<Rightarrow> neon_support"
  parseHWDiv :: "string \<Rightarrow> u64"
  getHWDivFeatures :: "u64 \<Rightarrow> bool \<times> string list"
  appendArchExtFeatures :: "string \<Rightarrow> arch_kind \<Rightarrow> string \<Rightarrow> bool \<times> string list \<times> fpu_kind option"
  getDefaultExtensions :: "string \<Rightarrow> arch_kind \<Rightarrow> u64"
  getExtensionFeatures :: "u64 \<Rightarrow> string list"
  getHostCPUName :: string
  getHostCPUFeatures :: "(string \<times> bool) list"
  setArchName :: "string \<Rightarrow> triple \<Rightarrow> triple"

datatype opt = OPT_mcpu_EQ | OPT_march_EQ | OPT_Wa_COMMA | OPT_Xassembler | OPT_mlittle_endian | OPT_mbig_endian |
  OPT_msoft_float | OPT_mhard_float | OPT_mfloat_abi_EQ | OPT_mtp_mode_EQ | OPT_mthumb | OPT_mno_thumb | OPT_mfpu_EQ |
  OPT_mhwdiv_EQ | OPT_mkernel | OPT_fapple_kext | OPT_mcrc | OPT_mnocrc | OPT_fno_integrated_as | OPT_mframe_chain |
  OPT_mcmse | OPT_mfix_cmse_cve_2021_35465 | OPT_mno_fix_cmse_cve_2021_35465 | OPT_mfix_cortex_a57_aes_1742098 |
  OPT_mno_fix_cortex_a57_aes_1742098 | OPT_mlong_calls | OPT_mno_long_calls | OPT_mexecute_only | OPT_mno_execute_only |
  OPT_fropi | OPT_frwpi | OPT_fpic | OPT_fpie | OPT_fPIC | OPT_fPIE | OPT_mno_movt | OPT_mno_unaligned_access |
  OPT_munaligned_access | OPT_mstrict_align | OPT_mno_strict_align | OPT_ffixed_r9 | OPT_mno_neg_immediates |
  OPT_mharden_sls_EQ | OPT_mno_bti_at_return_twice | OPT_r

record arg =
  getOption :: opt
  getValues :: "string list"

type_synonym arg_list = "arg list"

definition getValue :: "arg \<Rightarrow> string" where
  "getValue a = (case getValues a of [] \<Rightarrow> [] | v # vs \<Rightarrow> v)"

definition getLastArg :: "arg_list \<Rightarrow> opt list \<Rightarrow> arg option" where
  "getLastArg args opts = List.find (\<lambda>a. getOption a \<in> set opts) (rev args)"

definition hasArg :: "arg_list \<Rightarrow> opt list \<Rightarrow> bool" where
  "hasArg args opts \<longleftrightarrow> getLastArg args opts \<noteq> None"

definition hasFlag :: "arg_list \<Rightarrow> opt \<Rightarrow> opt \<Rightarrow> bool \<Rightarrow> bool" where
  "hasFlag args pos neg dflt = (case getLastArg args [pos, neg] of Some a \<Rightarrow> getOption a = pos | None \<Rightarrow> dflt)"

text \<open>The values of all arguments handed to the assembler, with their argument.\<close>

definition assembler_values :: "arg_list \<Rightarrow> (arg \<times> string) list" where
  "assembler_values args =
     concat (map (\<lambda>a. map (Pair a) (getValues a)) (filter (\<lambda>a. getOption a \<in> {OPT_Wa_COMMA, OPT_Xassembler}) args))"

datatype diag =
    err_drv_clang_unsupported arg
  | err_drv_clang_unsupported_fpu string
  | err_drv_unsupported_option_argument arg string
  | warn_drv_no_floating_point_registers arg
  | err_target_unsupported_tp_hard string
  | err_drv_missing_arg_mtp arg
  | err_drv_invalid_mtp arg
  | err_cpu_unsupported_isa string
  | err_arch_unsupported_isa string
  | err_drv_unsupported_opt_for_target arg
  | err_drv_invalid_mfloat_abi arg
  | warn_drv_assuming_mfloat_abi_is_soft
  | warn_drv_unused_argument arg
  | warn_target_unsupported_extension string string
  | err_opt_not_valid_without_mcmse arg
  | err_target_unsupported_execute_only string
  | err_opt_not_valid_with_opt_on_target arg arg string
  | err_opt_not_valid_with_opt arg arg
  | err_target_unsupported_unaligned string
  | err_sls_hardening_arm_not_supported string arg

section \<open>Strings\<close>

definition starts_with :: "string \<Rightarrow> string \<Rightarrow> bool" where
  "starts_with s p \<longleftrightarrow> take (length p) s = p"

definition substr :: "string \<Rightarrow> nat \<Rightarrow> string" where
  "substr s n = drop n s"

text \<open>\<open>split(c)\<close>: the part before the first separator, and the part after it.\<close>

definition split_at :: "char \<Rightarrow> string \<Rightarrow> string \<times> string" where
  "split_at c s = (takeWhile (\<lambda>x. x \<noteq> c) s, drop 1 (dropWhile (\<lambda>x. x \<noteq> c) s))"

fun split_all :: "char \<Rightarrow> string \<Rightarrow> string \<Rightarrow> string list" where
  "split_all c acc [] = [rev acc]"
| "split_all c acc (x # xs) = (if x = c then rev acc # split_all c [] xs else split_all c (x # acc) xs)"

definition to_lower :: "char \<Rightarrow> char" where
  "to_lower c = (let n = of_char c :: nat in if 65 \<le> n \<and> n \<le> 90 then char_of (n + 32) else c)"

definition lower :: "string \<Rightarrow> string" where
  "lower s = map to_lower s"

definition is_space :: "char \<Rightarrow> bool" where
  "is_space c \<longleftrightarrow> (let n = of_char c :: nat in n = 32 \<or> (9 \<le> n \<and> n \<le> 13))"

definition trim :: "string \<Rightarrow> string" where
  "trim s = rev (dropWhile is_space (rev (dropWhile is_space s)))"

definition contains :: "string \<Rightarrow> string \<Rightarrow> bool" where
  "contains s p \<longleftrightarrow> (\<exists>k \<in> set [0..<Suc (length s)]. starts_with (drop k s) p)"

section \<open>The triple\<close>

definition getARMSubArchVersionNumber :: "target_parser \<Rightarrow> triple \<Rightarrow> nat" where
  "getARMSubArchVersionNumber tp t = parseArchVersion tp (getArchName t)"

definition isARMMProfile :: "target_parser \<Rightarrow> triple \<Rightarrow> bool" where
  "isARMMProfile tp t \<longleftrightarrow> parseArchProfile tp (getArchName t) = Profile_M"

definition isARMAProfile :: "target_parser \<Rightarrow> triple \<Rightarrow> bool" where
  "isARMAProfile tp t \<longleftrightarrow> parseArchProfile tp (getArchName t) = Profile_A"

definition isARMBigEndian :: "triple \<Rightarrow> arg_list \<Rightarrow> bool" where
  "isARMBigEndian t args =
     (case getLastArg args [OPT_mlittle_endian, OPT_mbig_endian] of
        Some a \<Rightarrow> getOption a \<noteq> OPT_mlittle_endian
      | None \<Rightarrow> getArch t = Arch_armeb \<or> getArch t = Arch_thumbeb)"

definition isARMEABIBareMetal :: "triple \<Rightarrow> bool" where
  "isARMEABIBareMetal t =
     (if getArch t \<notin> {Arch_arm, Arch_thumb, Arch_armeb, Arch_thumbeb} then False
      else if getVendor t \<noteq> UnknownVendor then False
      else if getOS t \<noteq> UnknownOS then False
      else if getEnvironment t \<noteq> EABI \<and> getEnvironment t \<noteq> EABIHF then False
      else True)"

definition useAAPCSForMachO :: "target_parser \<Rightarrow> triple \<Rightarrow> bool" where
  "useAAPCSForMachO tp t \<longleftrightarrow>
     getEnvironment t = EABI \<or> getEnvironment t = EABIHF \<or> getOS t = UnknownOS \<or> isARMMProfile tp t"

definition isHardTPSupported :: "target_parser \<Rightarrow> triple \<Rightarrow> bool" where
  "isHardTPSupported tp t \<longleftrightarrow>
     (let ver = getARMSubArchVersionNumber tp t; ak = parseArch tp (getArchName t)
      in ak = ARMV6K \<or> ak = ARMV6KZ \<or> (ver \<ge> 7 \<and> \<not> isARMMProfile tp t))"

definition supportsThumb2Encoding :: "target_parser \<Rightarrow> triple \<Rightarrow> bool" where
  "supportsThumb2Encoding tp t \<longleftrightarrow>
     (let ver = getARMSubArchVersionNumber tp t; ak = parseArch tp (getArchName t)
      in ak = ARMV6T2 \<or> (ver \<ge> 7 \<and> ak \<noteq> ARMV8MBaseline))"

definition assembler_arch_cpu :: "arg_list \<Rightarrow> string \<times> string \<Rightarrow> string \<times> string" where
  "assembler_arch_cpu args start =
     foldl (\<lambda>(march, cpu) (a, v).
         (if starts_with v ''-march='' then substr v 7 else march, if starts_with v ''-mcpu='' then substr v 6 else cpu))
       start (assembler_values args)"

definition getARMArchCPUFromArgs :: "arg_list \<Rightarrow> string \<times> string \<Rightarrow> bool \<Rightarrow> string \<times> string" where
  "getARMArchCPUFromArgs args start from_as =
     (let cpu = (case getLastArg args [OPT_mcpu_EQ] of Some a \<Rightarrow> getValue a | None \<Rightarrow> snd start);
          march = (case getLastArg args [OPT_march_EQ] of Some a \<Rightarrow> getValue a | None \<Rightarrow> fst start)
      in if \<not> from_as then (march, cpu) else assembler_arch_cpu args (march, cpu))"

section \<open>Architecture and CPU\<close>

text \<open>
  \<open>getARMArch\<close> asks \<open>getLLVMArchSuffixForARM\<close> for the suffix of the native CPU, which asks back only
  for an empty or generic name: the host's name is never empty, and generic is tested first, so the
  call is unfolded here.
\<close>

definition getARMArch :: "target_parser \<Rightarrow> string \<Rightarrow> triple \<Rightarrow> string" where
  "getARMArch tp march t =
     (let m = lower (fst (split_at CHR ''+'' (if march \<noteq> [] then march else getArchName t))) in
      if m = ''native'' then
        let cpu = getHostCPUName tp in
        if cpu \<noteq> ''generic'' then
          let ak = parseCPUArch tp cpu; suffix = (if ak = AK_INVALID then [] else archSubArch tp ak)
          in if suffix = [] then [] else ''arm'' @ suffix
        else m
      else m)"

definition getLLVMArchKindForARM :: "target_parser \<Rightarrow> string \<Rightarrow> string \<Rightarrow> triple \<Rightarrow> arch_kind" where
  "getLLVMArchKindForARM tp cpu march t =
     (if cpu = ''generic'' \<or> cpu = [] then
        let a = getARMArch tp march t; ak = parseArch tp a
        in if ak = AK_INVALID then parseCPUArch tp (getARMCPUForArch tp t a) else ak
      else if march = ''armv7k'' \<or> march = ''thumbv7k'' then ARMV7K else parseCPUArch tp cpu)"

definition getLLVMArchSuffixForARM :: "target_parser \<Rightarrow> string \<Rightarrow> string \<Rightarrow> triple \<Rightarrow> string" where
  "getLLVMArchSuffixForARM tp cpu march t =
     (let ak = getLLVMArchKindForARM tp cpu march t in if ak = AK_INVALID then [] else archSubArch tp ak)"

definition getARMCPUForMArch :: "target_parser \<Rightarrow> string \<Rightarrow> triple \<Rightarrow> string" where
  "getARMCPUForMArch tp march t =
     (let m = getARMArch tp march t in if m = [] then [] else getARMCPUForArch tp t m)"

definition getARMTargetCPU :: "target_parser \<Rightarrow> string \<Rightarrow> string \<Rightarrow> triple \<Rightarrow> string" where
  "getARMTargetCPU tp cpu march t =
     (if cpu \<noteq> [] then
        let m = lower (fst (split_at CHR ''+'' cpu)) in if m = ''native'' then getHostCPUName tp else m
      else getARMCPUForMArch tp march t)"

section \<open>Features named on the command line\<close>

text \<open>Each returns what it appends to the features, the FPU kind it leaves, and its success.\<close>

fun decode_features ::
  "target_parser \<Rightarrow> string \<Rightarrow> arch_kind \<Rightarrow> fpu_kind \<Rightarrow> string list \<Rightarrow> string list \<times> fpu_kind \<times> bool" where
  "decode_features tp cpu ak fpu [] = ([], fpu, True)"
| "decode_features tp cpu ak fpu (f # fs) =
     (case appendArchExtFeatures tp cpu ak f of
        (ok, added, kind) \<Rightarrow>
          let fpu' = (case kind of None \<Rightarrow> fpu | Some k \<Rightarrow> k) in
          if \<not> ok then (added, fpu', False)
          else (case decode_features tp cpu ak fpu' fs of (rest, res) \<Rightarrow> (added @ rest, res)))"

definition DecodeARMFeatures ::
  "target_parser \<Rightarrow> string \<Rightarrow> string \<Rightarrow> arch_kind \<Rightarrow> fpu_kind \<Rightarrow> string list \<times> fpu_kind \<times> bool" where
  "DecodeARMFeatures tp txt cpu ak fpu =
     decode_features tp cpu ak fpu (filter (\<lambda>f. f \<noteq> []) (split_all CHR ''+'' [] txt))"

definition DecodeARMFeaturesFromCPU :: "target_parser \<Rightarrow> string \<Rightarrow> string list" where
  "DecodeARMFeaturesFromCPU tp cpu0 =
     (let cpu = fst (split_at CHR ''+'' cpu0) in
      if cpu \<noteq> ''generic'' then getExtensionFeatures tp (getDefaultExtensions tp cpu (parseCPUArch tp cpu)) else [])"

definition checked_extensions ::
  "target_parser \<Rightarrow> arg \<Rightarrow> arch_kind \<Rightarrow> string \<Rightarrow> string \<Rightarrow> fpu_kind \<Rightarrow> string list \<times> fpu_kind \<times> diag list" where
  "checked_extensions tp a ak ext cpu fpu =
     (let err = [err_drv_unsupported_option_argument a (getValue a)] in
      if ak = AK_INVALID then ([], fpu, err)
      else if ext \<noteq> [] then
        (case DecodeARMFeatures tp ext cpu ak fpu of (added, fpu', ok) \<Rightarrow> (added, fpu', if ok then [] else err))
      else ([], fpu, []))"

definition checkARMArchName ::
  "target_parser \<Rightarrow> arg \<Rightarrow> string \<Rightarrow> string \<Rightarrow> triple \<Rightarrow> fpu_kind \<Rightarrow> string list \<times> fpu_kind \<times> diag list" where
  "checkARMArchName tp a march cpu t fpu =
     checked_extensions tp a (parseArch tp (getARMArch tp march t)) (snd (split_at CHR ''+'' march)) cpu fpu"

definition checkARMCPUName ::
  "target_parser \<Rightarrow> arg \<Rightarrow> string \<Rightarrow> string \<Rightarrow> triple \<Rightarrow> fpu_kind \<Rightarrow> string list \<times> fpu_kind \<times> diag list" where
  "checkARMCPUName tp a cpu0 march t fpu =
     (let cpu = getARMTargetCPU tp cpu0 march t in
      checked_extensions tp a (getLLVMArchKindForARM tp cpu march t) (snd (split_at CHR ''+'' cpu0)) cpu fpu)"

definition getARMHWDivFeatures :: "target_parser \<Rightarrow> arg \<Rightarrow> string \<Rightarrow> string list \<times> diag list" where
  "getARMHWDivFeatures tp a hwdiv =
     (case getHWDivFeatures tp (parseHWDiv tp hwdiv) of
        (ok, added) \<Rightarrow> (added, if ok then [] else [err_drv_clang_unsupported a]))"

definition getARMFPUFeatures :: "target_parser \<Rightarrow> arg \<Rightarrow> string \<Rightarrow> fpu_kind \<times> string list \<times> diag list" where
  "getARMFPUFeatures tp a fpu =
     (let kind = parseFPU tp fpu in
      case getFPUFeatures tp kind of (ok, added) \<Rightarrow> (kind, added, if ok then [] else [err_drv_clang_unsupported a]))"

section \<open>The thread pointer\<close>

datatype ReadTPMode = TP_Invalid | TP_Soft | TPIDRURW | TPIDRURO | TPIDRPRW

definition tp_mode_of :: "string \<Rightarrow> ReadTPMode" where
  "tp_mode_of v =
     (if v = ''cp15'' then TPIDRURO
      else if v = ''tpidrurw'' then TPIDRURW
      else if v = ''tpidruro'' then TPIDRURO
      else if v = ''tpidrprw'' then TPIDRPRW
      else if v = ''soft'' then TP_Soft
      else TP_Invalid)"

definition getReadTPMode :: "target_parser \<Rightarrow> arg_list \<Rightarrow> triple \<Rightarrow> bool \<Rightarrow> ReadTPMode \<times> diag list" where
  "getReadTPMode tp args t for_as =
     (let auto = (if isHardTPSupported tp t \<and> supportsThumb2Encoding tp t then TPIDRURO else TP_Soft) in
      case getLastArg args [OPT_mtp_mode_EQ] of
        None \<Rightarrow> (auto, [])
      | Some a \<Rightarrow>
        if getValue a = ''auto'' then (auto, [])
        else
          let mode = tp_mode_of (getValue a) in
          if mode \<in> {TPIDRURW, TPIDRURO, TPIDRPRW} \<and> \<not> isHardTPSupported tp t \<and> \<not> for_as
          then (TP_Invalid, [err_target_unsupported_tp_hard (getArchName t)])
          else if mode \<noteq> TP_Invalid then (mode, [])
          else if getValue a = [] then (TP_Invalid, [err_drv_missing_arg_mtp a])
          else (TP_Invalid, [err_drv_invalid_mtp a]))"

section \<open>The floating-point ABI\<close>

datatype FloatABI = ABI_Invalid | Soft | SoftFP | Hard

abbreviation float_abi_opts :: "opt list" where
  "float_abi_opts \<equiv> [OPT_msoft_float, OPT_mhard_float, OPT_mfloat_abi_EQ]"

definition getDefaultFloatABI :: "target_parser \<Rightarrow> triple \<Rightarrow> FloatABI" where
  "getDefaultFloatABI tp t =
     (let sub = getARMSubArchVersionNumber tp t; os = getOS t; env = getEnvironment t in
      if os \<in> {Darwin, MacOSX, IOS, TvOS, DriverKit, XROS} then
        (if isWatchABI t then Hard else if sub = 6 \<or> sub = 7 then SoftFP else Soft)
      else if os = WatchOS then Hard
      else if os = Win32 then
        (if isOSBinFormatMachO t \<and> \<not> useAAPCSForMachO tp t then Soft else Hard)
      else if os = NetBSD then (if env \<in> {EABIHF, GNUEABIHF} then Hard else Soft)
      else if os = FreeBSD then (if env = GNUEABIHF then Hard else Soft)
      else if os \<in> {Haiku, OpenBSD} then SoftFP
      else if os = Fuchsia then Hard
      else if isOHOSFamily t then Soft
      else if env \<in> {GNUEABIHF, GNUEABIHFT64, MuslEABIHF, EABIHF} then Hard
      else if env \<in> {Android, GNUEABI, GNUEABIT64, MuslEABI, EABI} then SoftFP
      else ABI_Invalid)"

definition abi_of :: "string \<Rightarrow> FloatABI" where
  "abi_of v = (if v = ''soft'' then Soft else if v = ''softfp'' then SoftFP else if v = ''hard'' then Hard else ABI_Invalid)"

text \<open>What the command line asks for, \<open>ABI_Invalid\<close> when it leaves the choice open.\<close>

definition requested_abi :: "arg_list \<Rightarrow> FloatABI \<times> diag list" where
  "requested_abi args =
     (case getLastArg args float_abi_opts of
        None \<Rightarrow> (ABI_Invalid, [])
      | Some a \<Rightarrow>
        if getOption a = OPT_msoft_float then (Soft, [])
        else if getOption a = OPT_mhard_float then (Hard, [])
        else if abi_of (getValue a) = ABI_Invalid \<and> getValue a \<noteq> [] then (Soft, [err_drv_invalid_mfloat_abi a])
        else (abi_of (getValue a), []))"

definition getARMFloatABI :: "target_parser \<Rightarrow> triple \<Rightarrow> arg_list \<Rightarrow> FloatABI \<times> diag list" where
  "getARMFloatABI tp t args =
     (case requested_abi args of
        (req, ds) \<Rightarrow>
          let abi = (if req = ABI_Invalid then getDefaultFloatABI tp t else req) in
          if abi = ABI_Invalid then
            (if isOSBinFormatMachO t \<and> getSubArch t = ARMSubArch_v7em then Hard else Soft,
             ds @ (if (getOS t \<noteq> UnknownOS \<and> \<not> isOSFirmware t) \<or> \<not> isOSBinFormatMachO t
                   then [warn_drv_assuming_mfloat_abi_is_soft] else []))
          else (abi, ds))"

text \<open>\<open>None\<close> is the failed assertion that a non-default ABI comes from an argument.\<close>

definition setFloatABIInTriple :: "target_parser \<Rightarrow> arg_list \<Rightarrow> triple \<Rightarrow> (triple \<times> diag list) option" where
  "setFloatABIInTriple tp args t =
     (if isOSLiteOS t then Some (t\<lparr>getEnvironment := OpenHOS\<rparr>, [])
      else case getARMFloatABI tp t args of
        (abi, ds) \<Rightarrow>
          let hard = (abi = Hard); env = getEnvironment t in
          if env \<in> {GNUEABI, GNUEABIHF} then Some (t\<lparr>getEnvironment := (if hard then GNUEABIHF else GNUEABI)\<rparr>, ds)
          else if env \<in> {GNUEABIT64, GNUEABIHFT64} then
            Some (t\<lparr>getEnvironment := (if hard then GNUEABIHFT64 else GNUEABIT64)\<rparr>, ds)
          else if env \<in> {EABI, EABIHF} then Some (t\<lparr>getEnvironment := (if hard then EABIHF else EABI)\<rparr>, ds)
          else if env \<in> {MuslEABI, MuslEABIHF} then
            Some (t\<lparr>getEnvironment := (if hard then MuslEABIHF else MuslEABI)\<rparr>, ds)
          else if env = OpenHOS then Some (t, ds)
          else
            let dflt = getDefaultFloatABI tp t in
            if dflt \<noteq> ABI_Invalid \<and> hard \<noteq> (dflt = Hard) then
              (case getLastArg args float_abi_opts of
                 None \<Rightarrow> None
               | Some a \<Rightarrow> Some (t, ds @ [err_drv_unsupported_opt_for_target a]))
            else Some (t, ds))"

definition checkARMFloatABI :: "arg_list \<Rightarrow> bool \<Rightarrow> diag list" where
  "checkARMFloatABI args has_fp_regs =
     (if has_fp_regs then []
      else case getLastArg args float_abi_opts of
        None \<Rightarrow> []
      | Some a \<Rightarrow>
        if getOption a = OPT_mhard_float \<or> (getOption a = OPT_mfloat_abi_EQ \<and> getValue a = ''hard'')
        then [warn_drv_no_floating_point_registers a] else [])"

section \<open>The architecture name of the triple\<close>

record wa_arch_state =
  wa_thumb :: bool
  wa_march :: string
  wa_mcpu :: string

definition assembler_thumb :: "arg_list \<Rightarrow> wa_arch_state" where
  "assembler_thumb args =
     foldl (\<lambda>s (a, v).
         if v = ''-mthumb'' then s\<lparr>wa_thumb := True\<rparr>
         else if starts_with v ''-march='' then s\<lparr>wa_march := substr v 7\<rparr>
         else if starts_with v ''-mcpu='' then s\<lparr>wa_mcpu := substr v 6\<rparr>
         else s)
       \<lparr>wa_thumb = False, wa_march = [], wa_mcpu = []\<rparr> (assembler_values args)"

text \<open>The CPU and the architecture suffix that the options of the compiler name.\<close>

definition compiler_cpu :: "target_parser \<Rightarrow> arg_list \<Rightarrow> triple \<Rightarrow> string" where
  "compiler_cpu tp args t =
     (let mcpu = (case getLastArg args [OPT_mcpu_EQ] of Some a \<Rightarrow> getValue a | None \<Rightarrow> []);
          march = (case getLastArg args [OPT_march_EQ] of Some a \<Rightarrow> getValue a | None \<Rightarrow> [])
      in if isOSBinFormatMachO t then getARMCPUForMArch tp march t else getARMTargetCPU tp mcpu march t)"

definition compiler_suffix :: "target_parser \<Rightarrow> arg_list \<Rightarrow> triple \<Rightarrow> string" where
  "compiler_suffix tp args t =
     getLLVMArchSuffixForARM tp (compiler_cpu tp args t)
       (case getLastArg args [OPT_march_EQ] of Some a \<Rightarrow> getValue a | None \<Rightarrow> []) t"

definition setArchNameInTriple ::
  "target_parser \<Rightarrow> arg_list \<Rightarrow> bool \<Rightarrow> triple \<Rightarrow> triple \<times> diag list" where
  "setArchNameInTriple tp args is_pp_asm t =
     (let mcpu = (case getLastArg args [OPT_mcpu_EQ] of Some a \<Rightarrow> getValue a | None \<Rightarrow> []);
          march = (case getLastArg args [OPT_march_EQ] of Some a \<Rightarrow> getValue a | None \<Rightarrow> []);
          cpu = compiler_cpu tp args t;
          suffix = compiler_suffix tp args t;
          big = isARMBigEndian t args;
          m_profile = (parseArchProfile tp suffix = Profile_M);
          thumb_default = (m_profile \<or> (parseArchVersion tp suffix = 7 \<and> isOSBinFormatMachO t) \<or> isOSFuchsia t \<or> isOSWindows t);
          arm_mode = \<not> hasFlag args OPT_mthumb OPT_mno_thumb thumb_default;
          ds = (if m_profile \<and> arm_mode then
                  [if mcpu \<noteq> [] then err_cpu_unsupported_isa cpu else err_arch_unsupported_isa (getARMArch tp march t)]
                else []);
          wa = assembler_thumb args;
          thumb = (if \<not> is_pp_asm then hasFlag args OPT_mthumb OPT_mno_thumb thumb_default else wa_thumb wa);
          suffix' = (if is_pp_asm \<and> (wa_mcpu wa \<noteq> [] \<or> wa_march wa \<noteq> [])
                     then getLLVMArchSuffixForARM tp (wa_mcpu wa) (wa_march wa) t else suffix);
          name = (if thumb \<or> m_profile \<or> isOSWindows t then (if big then ''thumbeb'' else ''thumb'')
                  else if big then ''armeb'' else ''arm'')
      in (setArchName tp (name @ suffix') t, ds))"

definition appendBE8LinkFlag :: "target_parser \<Rightarrow> arg_list \<Rightarrow> string list \<Rightarrow> triple \<Rightarrow> string list" where
  "appendBE8LinkFlag tp args cmd t =
     (if hasArg args [OPT_r] then cmd
      else if getARMSubArchVersionNumber tp t \<ge> 7 \<or> isARMMProfile tp t then cmd @ [''--be8''] else cmd)"

end
