(* ===== verification/Arm_Features.thy ===== *)
theory Arm_Features
  imports Arm_Driver
begin

text \<open>
  \<open>arm::getARMTargetFeatures\<close> of \<open>lib/ARM.cpp\<close>, one definition per stage, composed in the order of the
  source.  A stage gets the features so far and returns what it appends (or the new vector), with the
  diagnostics it reports.
\<close>

section \<open>Searching the feature vector from its end\<close>

text \<open>The distance of the last occurrence from the end; the length of the vector when there is none.\<close>

definition rpos :: "string \<Rightarrow> string list \<Rightarrow> nat" where
  "rpos f F = length (takeWhile (\<lambda>x. x \<noteq> f) (rev F))"

definition hasIntegerMVE :: "string list \<Rightarrow> bool" where
  "hasIntegerMVE F \<longleftrightarrow>
     rpos ''+mve'' F \<noteq> length F \<and> (rpos ''-mve'' F = length F \<or> rpos ''+mve'' F < rpos ''-mve'' F)"

definition last_about :: "string list \<Rightarrow> string list \<Rightarrow> string option" where
  "last_about names F = List.find (\<lambda>f. \<exists>n \<in> set names. contains f n) (rev F)"

definition switched_on :: "string list \<Rightarrow> string list \<Rightarrow> bool" where
  "switched_on names F = (case last_about names F of None \<Rightarrow> False | Some f \<Rightarrow> starts_with f ''+'')"

section \<open>Options for the assembler\<close>

record wa_options =
  WaCPU :: "(arg \<times> string) option"
  WaFPU :: "(arg \<times> string) option"
  WaHDiv :: "(arg \<times> string) option"
  WaArch :: "(arg \<times> string) option"

definition no_wa :: wa_options where
  "no_wa = \<lparr>WaCPU = None, WaFPU = None, WaHDiv = None, WaArch = None\<rparr>"

definition wa_options_of :: "arg_list \<Rightarrow> wa_options" where
  "wa_options_of args =
     foldl (\<lambda>w (a, v).
         if starts_with v ''-mfpu='' then w\<lparr>WaFPU := Some (a, substr v 6)\<rparr>
         else if starts_with v ''-mcpu='' then w\<lparr>WaCPU := Some (a, substr v 6)\<rparr>
         else if starts_with v ''-mhwdiv='' then w\<lparr>WaHDiv := Some (a, substr v 8)\<rparr>
         else if starts_with v ''-march='' then w\<lparr>WaArch := Some (a, substr v 7)\<rparr>
         else w) no_wa (assembler_values args)"

definition abi_features :: "FloatABI \<Rightarrow> string list" where
  "abi_features abi = (if abi = Soft then [''+soft-float''] else []) @ (if abi \<noteq> Hard then [''+soft-float-abi''] else [])"

definition tp_features :: "ReadTPMode \<Rightarrow> string list" where
  "tp_features mode =
     (if mode = TPIDRURW then [''+read-tp-tpidrurw'']
      else if mode = TPIDRPRW then [''+read-tp-tpidrprw'']
      else if mode = TPIDRURO then [''+read-tp-tpidruro'']
      else [])"

definition unused :: "arg option \<Rightarrow> diag list" where
  "unused a = (case a of None \<Rightarrow> [] | Some a \<Rightarrow> [warn_drv_unused_argument a])"

section \<open>Architecture, CPU and their extensions\<close>

record cpu_choice =
  CPUName :: string
  ArchName :: string
  cpu_features :: "string list"
  ExtensionFeatures :: "string list"
  ArchArgFPUKind :: fpu_kind
  CPUArgFPUKind :: fpu_kind

definition choose_cpu :: "arg_list \<Rightarrow> wa_options \<Rightarrow> arg option \<times> string \<times> diag list" where
  "choose_cpu args wa =
     (let given = getLastArg args [OPT_mcpu_EQ] in
      case WaCPU wa of
        Some (a, v) \<Rightarrow> (Some a, v, unused given)
      | None \<Rightarrow> (given, case given of None \<Rightarrow> [] | Some a \<Rightarrow> getValue a, []))"

definition choose_arch ::
  "target_parser \<Rightarrow> triple \<Rightarrow> arg_list \<Rightarrow> wa_options \<Rightarrow> string \<Rightarrow> string \<times> string list \<times> fpu_kind \<times> diag list" where
  "choose_arch tp t args wa cpu =
     (let given = getLastArg args [OPT_march_EQ] in
      case WaArch wa of
        Some (a, v) \<Rightarrow>
          (case checkARMArchName tp a v cpu t FK_INVALID of (ext, fpu, ds) \<Rightarrow> (v, ext, fpu, unused given @ ds))
      | None \<Rightarrow>
        (case given of
           None \<Rightarrow> ([], [], FK_INVALID, [])
         | Some a \<Rightarrow>
             (case checkARMArchName tp a (getValue a) cpu t FK_INVALID of (ext, fpu, ds) \<Rightarrow> (getValue a, ext, fpu, ds))))"

definition cpu_defaults :: "target_parser \<Rightarrow> string \<Rightarrow> string list" where
  "cpu_defaults tp cpu =
     (if cpu = ''native'' then map (\<lambda>(f, on). (if on then ''+'' else ''-'') @ f) (getHostCPUFeatures tp)
      else if cpu \<noteq> [] then DecodeARMFeaturesFromCPU tp cpu
      else [])"

definition choose_names ::
  "target_parser \<Rightarrow> triple \<Rightarrow> arg_list \<Rightarrow> wa_options \<Rightarrow> cpu_choice \<times> diag list" where
  "choose_names tp t args wa =
     (let (cpu_arg, cpu, ds1) = choose_cpu args wa;
          (march, ext1, fpu1, ds2) = choose_arch tp t args wa cpu;
          (ext2, fpu2, ds3) = (case cpu_arg of None \<Rightarrow> ([], FK_INVALID, []) | Some a \<Rightarrow> checkARMCPUName tp a cpu march t FK_INVALID)
      in (\<lparr>CPUName = cpu, ArchName = march, cpu_features = cpu_defaults tp cpu, ExtensionFeatures = ext1 @ ext2,
             ArchArgFPUKind = fpu1, CPUArgFPUKind = fpu2\<rparr>, ds1 @ ds2 @ ds3))"

section \<open>The FPU\<close>

definition fpu_stage ::
  "target_parser \<Rightarrow> triple \<Rightarrow> arg_list \<Rightarrow> wa_options \<Rightarrow> cpu_choice \<Rightarrow> fpu_kind \<times> string list \<times> diag list" where
  "fpu_stage tp t args wa c =
     (let given = getLastArg args [OPT_mfpu_EQ] in
      case WaFPU wa of
        Some (a, v) \<Rightarrow> (case getARMFPUFeatures tp a v of (_, fs, ds) \<Rightarrow> (FK_INVALID, fs, unused given @ ds))
      | None \<Rightarrow>
        (case given of
           Some a \<Rightarrow> getARMFPUFeatures tp a (getValue a)
         | None \<Rightarrow>
           if isAndroid t \<and> getARMSubArchVersionNumber tp t = 7 then
             (case getFPUFeatures tp (parseFPU tp ''neon'') of
                (ok, fs) \<Rightarrow> (parseFPU tp ''neon'', fs, if ok then [] else [err_drv_clang_unsupported_fpu ''-mfpu=neon'']))
           else if ArchArgFPUKind c \<noteq> FK_INVALID \<or> CPUArgFPUKind c \<noteq> FK_INVALID then
             let k = (if CPUArgFPUKind c \<noteq> FK_INVALID then CPUArgFPUKind c else ArchArgFPUKind c)
             in (k, snd (getFPUFeatures tp k), [])
           else
             let cpu = getARMTargetCPU tp (CPUName c) (ArchName c) t;
                 k = (if cpu = ''generic'' \<and> (isOSWindows t \<or> isOSDarwin t) \<and> getARMSubArchVersionNumber tp t \<ge> 7
                      then parseFPU tp ''neon''
                      else getDefaultFPU tp cpu (getLLVMArchKindForARM tp cpu (ArchName c) t))
             in (k, snd (getFPUFeatures tp k), [])))"

definition hwdiv_stage :: "target_parser \<Rightarrow> arg_list \<Rightarrow> wa_options \<Rightarrow> string list \<times> diag list" where
  "hwdiv_stage tp args wa =
     (let given = getLastArg args [OPT_mhwdiv_EQ] in
      case WaHDiv wa of
        Some (a, v) \<Rightarrow> (case getARMHWDivFeatures tp a v of (fs, ds) \<Rightarrow> (fs, unused given @ ds))
      | None \<Rightarrow> (case given of None \<Rightarrow> ([], []) | Some a \<Rightarrow> getARMHWDivFeatures tp a (getValue a)))"

text \<open>Half precision: what is appended.\<close>

definition fp16_fallthrough :: "string list \<Rightarrow> string list" where
  "fp16_fallthrough F =
     (if rpos ''-fullfp16'' F < rpos ''+fp16fml'' F then [''-fp16fml'']
      else if rpos ''-fullfp16'' F > rpos ''+fp16fml'' F then [''+fullfp16''] else [])"

definition fp16_stage :: "triple \<Rightarrow> string list \<Rightarrow> string list" where
  "fp16_stage t F =
     (if getSubArch t = ARMSubArch_v8_4a then
        (if rpos ''+fullfp16'' F < rpos ''-fullfp16'' F \<and> rpos ''+fullfp16'' F < rpos ''+fp16fml'' F then
           (if ''-fp16fml'' \<notin> set (take (rpos ''+fullfp16'' F) (rev F)) then [''+fp16fml''] else [])
         else fp16_fallthrough F)
      else fp16_fallthrough F)"

text \<open>No FPU: what is appended, the FPU kind, and whether the FPU's registers remain.\<close>

definition no_fpu_stage ::
  "target_parser \<Rightarrow> FloatABI \<Rightarrow> cpu_choice \<Rightarrow> fpu_kind \<Rightarrow> string list \<Rightarrow> string list \<times> fpu_kind \<times> bool" where
  "no_fpu_stage tp abi c fpu F =
     (if abi = Soft then
        (snd (getFPUFeatures tp FK_NONE) @ [''-dotprod'', ''-fp16fml'', ''-bf16'', ''-mve'', ''-mve.fp'', ''-fpregs''],
         FK_NONE, False)
      else if fpu = FK_NONE \<or> ArchArgFPUKind c = FK_NONE \<or> CPUArgFPUKind c = FK_NONE then
        let added = [''-dotprod'', ''-fp16fml'', ''-bf16'', ''-mve.fp''];
            has = hasIntegerMVE (F @ added)
        in (added @ (if has then [] else [''-fpregs'']), FK_NONE, has)
      else ([], fpu, True))"

definition crc_stage :: "arg_list \<Rightarrow> string list" where
  "crc_stage args =
     (case getLastArg args [OPT_mcrc, OPT_mnocrc] of
        None \<Rightarrow> []
      | Some a \<Rightarrow> if getOption a = OPT_mcrc then [''+crc''] else [''-crc''])"

definition fpv5_stage :: "fpu_kind \<Rightarrow> string list" where
  "fpv5_stage fpu = (if fpu = FK_FPV5_D16 \<or> fpu = FK_FPV5_SP_D16 then [''-mve.fp''] else [])"

definition simd_stage :: "target_parser \<Rightarrow> fpu_kind \<Rightarrow> string list \<Rightarrow> string list" where
  "simd_stage tp fpu F =
     (if \<not> switched_on [''neon''] F \<and> NeonSupport tp fpu \<in> {Neon, Neon_Crypto}
      then [''-sha2'', ''-aes'', ''-crypto'', ''-dotprod'', ''-bf16'', ''-i8mm''] else [])"

section \<open>Cryptography\<close>

definition crypto_stage :: "string list \<Rightarrow> string list" where
  "crypto_stage F =
     (let sha2 = switched_on [''crypto'', ''sha2''] F;
          aes = switched_on [''crypto'', ''aes''] F
      in (if last_about [''crypto''] F = None then []
          else [if sha2 \<and> aes then ''+crypto'' else ''-crypto'',
                if sha2 then ''+sha2'' else ''-sha2'',
                if aes then ''+aes'' else ''-aes'']) @
         (if aes \<or> sha2 \<or> switched_on [''bf16''] F \<or> switched_on [''dotprod''] F \<or> switched_on [''i8mm''] F
          then [''+neon''] else []))"

definition crypto_arch_stage ::
  "target_parser \<Rightarrow> triple \<Rightarrow> arg_list \<Rightarrow> cpu_choice \<Rightarrow> string list \<Rightarrow> string list \<times> diag list" where
  "crypto_arch_stage tp t args c F =
     (let sha2 = switched_on [''crypto'', ''sha2''] F;
          aes = switched_on [''crypto'', ''aes''] F;
          suffix = getLLVMArchSuffixForARM tp (getARMTargetCPU tp (CPUName c) (ArchName c) t) (ArchName c) t;
          prof = parseArchProfile tp suffix
      in if (sha2 \<or> aes) \<and> \<not> (parseArchVersion tp suffix \<ge> 8 \<and> (prof = Profile_A \<or> prof = Profile_R)) then
           (if \<not> hasArg args [OPT_fno_integrated_as] then [''-sha2'', ''-aes''] else [],
            (if sha2 then [warn_target_unsupported_extension ''sha2'' (archName tp (parseArch tp suffix))] else []) @
            (if aes then [warn_target_unsupported_extension ''aes'' (archName tp (parseArch tp suffix))] else []))
         else ([], []))"

section \<open>The remaining options\<close>

definition frame_chain_stage :: "arg_list \<Rightarrow> string list" where
  "frame_chain_stage args =
     (case getLastArg args [OPT_mframe_chain] of
        None \<Rightarrow> [] | Some a \<Rightarrow> if starts_with (getValue a) ''aapcs'' then [''+aapcs-frame-chain''] else [])"

definition cmse_stage :: "arg_list \<Rightarrow> string list \<times> diag list" where
  "cmse_stage args =
     (let cmse = getLastArg args [OPT_mcmse];
          first = (if cmse \<noteq> None then [''+8msecext''] else [])
      in case getLastArg args [OPT_mfix_cmse_cve_2021_35465, OPT_mno_fix_cmse_cve_2021_35465] of
           None \<Rightarrow> (first, [])
         | Some a \<Rightarrow>
             (first @ [if getOption a = OPT_mfix_cmse_cve_2021_35465
                       then ''+fix-cmse-cve-2021-35465'' else ''-fix-cmse-cve-2021-35465''],
              if cmse = None then [err_opt_not_valid_without_mcmse a] else []))"

definition cortex_a57_stage :: "arg_list \<Rightarrow> string list" where
  "cortex_a57_stage args =
     (case getLastArg args [OPT_mfix_cortex_a57_aes_1742098, OPT_mno_fix_cortex_a57_aes_1742098] of
        None \<Rightarrow> []
      | Some a \<Rightarrow> if getOption a = OPT_mfix_cortex_a57_aes_1742098
                  then [''+fix-cortex-a57-aes-1742098''] else [''-fix-cortex-a57-aes-1742098''])"

definition kernel_or_kext :: "arg_list \<Rightarrow> bool" where
  "kernel_or_kext args = hasArg args [OPT_mkernel, OPT_fapple_kext]"

definition long_calls_stage :: "triple \<Rightarrow> arg_list \<Rightarrow> string list" where
  "long_calls_stage t args =
     (case getLastArg args [OPT_mlong_calls, OPT_mno_long_calls] of
        Some a \<Rightarrow> if getOption a = OPT_mlong_calls then [''+long-calls''] else []
      | None \<Rightarrow>
        if kernel_or_kext args \<and> (\<not> isiOS t \<or> isOSVersionLT6 t) \<and> \<not> isWatchOS t \<and> \<not> isXROS t
        then [''+long-calls''] else [])"

definition execute_only_stage ::
  "target_parser \<Rightarrow> triple \<Rightarrow> arg_list \<Rightarrow> bool \<Rightarrow> bool \<Rightarrow> string list \<times> diag list" where
  "execute_only_stage tp t args for_as for_multilib =
     (if for_as \<or> for_multilib then ([], [])
      else case getLastArg args [OPT_mexecute_only, OPT_mno_execute_only] of
        None \<Rightarrow> ([], [])
      | Some a \<Rightarrow>
        if getOption a \<noteq> OPT_mexecute_only then ([], [])
        else
          let ak = parseArch tp (getArchName t) in
          ([''+execute-only''],
           if getARMSubArchVersionNumber tp t < 7 \<and> ak \<noteq> ARMV6T2 \<and> ak \<noteq> ARMV6M
           then [err_target_unsupported_execute_only (getArchName t)]
           else if ak = ARMV6M then
             (case getLastArg args [OPT_fropi, OPT_frwpi, OPT_fpic, OPT_fpie, OPT_fPIC, OPT_fPIE] of
                None \<Rightarrow> [] | Some p \<Rightarrow> [err_opt_not_valid_with_opt_on_target a p (getArchName t)])
           else (case getLastArg args [OPT_mno_movt] of None \<Rightarrow> [] | Some b \<Rightarrow> [err_opt_not_valid_with_opt a b])))"

definition alignment_stage :: "target_parser \<Rightarrow> triple \<Rightarrow> arg_list \<Rightarrow> string list \<times> diag list" where
  "alignment_stage tp t args =
     (case getLastArg args [OPT_mno_unaligned_access, OPT_munaligned_access, OPT_mstrict_align, OPT_mno_strict_align] of
        Some a \<Rightarrow>
          if kernel_or_kext args \<or> getOption a = OPT_mno_unaligned_access \<or> getOption a = OPT_mstrict_align
          then ([''+strict-align''], [])
          else ([], if getSubArch t = ARMSubArch_v6m then [err_target_unsupported_unaligned ''v6m'']
                    else if getSubArch t = ARMSubArch_v8m_baseline then [err_target_unsupported_unaligned ''v8m.base'']
                    else [])
      | None \<Rightarrow>
          let ver = getARMSubArchVersionNumber tp t; strict = ([''+strict-align''], []) in
          if isOSDarwin t \<or> isOSNetBSD t then (if ver < 6 \<or> getSubArch t = ARMSubArch_v6m then strict else ([], []))
          else if getVendor t = Apple \<and> isOSBinFormatMachO t then strict
          else if ver < 7 \<or> getSubArch t = ARMSubArch_v6m \<or> getSubArch t = ARMSubArch_v8m_baseline then strict
          else ([], []))"

definition reserve_stage :: "arg_list \<Rightarrow> string list" where
  "reserve_stage args =
     (if hasArg args [OPT_ffixed_r9] then [''+reserve-r9''] else []) @
     (if kernel_or_kext args \<or> hasArg args [OPT_mno_movt] then [''+no-movt''] else []) @
     (if hasArg args [OPT_mno_neg_immediates] then [''+no-neg-immediates''] else [])"

text \<open>The scope list of \<open>-mharden-sls=\<close>: an unknown word ends the loop, what came before it counts.\<close>

record sls_scope =
  EnableRetBr :: bool
  EnableBlr :: bool
  DisableComdat :: bool

fun sls_words :: "sls_scope \<Rightarrow> string list \<Rightarrow> sls_scope \<times> bool" where
  "sls_words s [] = (s, True)"
| "sls_words s (w # ws) =
     (let o' = trim w in
      if o' = ''all'' then sls_words (s\<lparr>EnableBlr := True, EnableRetBr := True\<rparr>) ws
      else if o' = ''retbr'' then sls_words (s\<lparr>EnableRetBr := True\<rparr>) ws
      else if o' = ''blr'' then sls_words (s\<lparr>EnableBlr := True\<rparr>) ws
      else if o' = ''comdat'' then sls_words (s\<lparr>DisableComdat := False\<rparr>) ws
      else if o' = ''nocomdat'' then sls_words (s\<lparr>DisableComdat := True\<rparr>) ws
      else (s, False))"

definition sls_stage :: "target_parser \<Rightarrow> triple \<Rightarrow> arg_list \<Rightarrow> string list \<times> diag list" where
  "sls_stage tp t args =
     (case getLastArg args [OPT_mharden_sls_EQ] of
        None \<Rightarrow> ([], [])
      | Some a \<Rightarrow>
        let scope = getValue a; none = \<lparr>EnableRetBr = False, EnableBlr = False, DisableComdat = False\<rparr>;
            (s, ok) = (if scope \<noteq> ''none'' then sls_words none (split_all CHR '','' [] scope) else (none, True))
        in ((if EnableRetBr s then [''+harden-sls-retbr''] else []) @
            (if EnableBlr s then [''+harden-sls-blr''] else []) @
            (if DisableComdat s then [''+harden-sls-nocomdat''] else []),
            (if ok then [] else [err_drv_unsupported_option_argument a scope]) @
            (if (EnableRetBr s \<or> EnableBlr s) \<and> \<not> (isARMAProfile tp t \<and> getARMSubArchVersionNumber tp t \<ge> 7)
             then [err_sls_hardening_arm_not_supported scope a] else [])))"

definition bti_stage :: "arg_list \<Rightarrow> string list" where
  "bti_stage args = (if hasArg args [OPT_mno_bti_at_return_twice] then [''+no-bti-at-return-twice''] else [])"

section \<open>All stages\<close>

text \<open>Up to the half-precision relationship: the features, the choices, the FPU kind, the diagnostics.\<close>

definition base_features ::
  "target_parser \<Rightarrow> triple \<Rightarrow> arg_list \<Rightarrow> string list \<Rightarrow> bool \<Rightarrow> string list \<times> cpu_choice \<times> fpu_kind \<times> diag list" where
  "base_features tp t args F0 for_as =
     (let (abi, ds0) = getARMFloatABI tp t args;
          wa = (if for_as then wa_options_of args else no_wa);
          F1 = F0 @ (if for_as then [] else abi_features abi);
          (mode, ds1) = getReadTPMode tp args t for_as;
          F2 = F1 @ tp_features mode;
          (c, ds2) = choose_names tp t args wa;
          F3 = F2 @ cpu_features c;
          (fpu, fs, ds3) = fpu_stage tp t args wa c;
          F4 = F3 @ fs @ ExtensionFeatures c;
          (hs, ds4) = hwdiv_stage tp args wa
      in (F4 @ hs, c, fpu, ds0 @ ds1 @ ds2 @ ds3 @ ds4))"

text \<open>Floating point and vectors.\<close>

definition fp_features ::
  "target_parser \<Rightarrow> triple \<Rightarrow> arg_list \<Rightarrow> cpu_choice \<Rightarrow> fpu_kind \<Rightarrow> string list \<Rightarrow> string list \<times> fpu_kind \<times> bool" where
  "fp_features tp t args c fpu F =
     (let F1 = F @ fp16_stage t F;
          (ns, fpu', has) = no_fpu_stage tp (fst (getARMFloatABI tp t args)) c fpu F1;
          F2 = F1 @ ns @ crc_stage args @ fpv5_stage fpu';
          F3 = F2 @ simd_stage tp fpu' F2
      in (F3, fpu', has))"

definition getARMTargetFeatures ::
  "target_parser \<Rightarrow> triple \<Rightarrow> arg_list \<Rightarrow> string list \<Rightarrow> bool \<Rightarrow> bool \<Rightarrow> fpu_kind \<times> string list \<times> diag list" where
  "getARMTargetFeatures tp t args F0 for_as for_multilib =
     (let (F1, c, fpu, ds1) = base_features tp t args F0 for_as;
          (F2, fpu', has) = fp_features tp t args c fpu F1;
          (cs, ds2) = crypto_arch_stage tp t args c F2;
          (ms, ds3) = cmse_stage args;
          (es, ds4) = execute_only_stage tp t args for_as for_multilib;
          (as, ds5) = alignment_stage tp t args;
          (ss, ds6) = sls_stage tp t args
      in (fpu',
          F2 @ crypto_stage F2 @ cs @ frame_chain_stage args @ ms @ cortex_a57_stage args @ long_calls_stage t args @ es @ as @
            reserve_stage args @ ss @ bti_stage args,
          ds1 @ ds2 @ ds3 @ ds4 @ ds5 @ ds6 @ checkARMFloatABI args has))"

end
