(* ===== verification/Arm_Props.thy ===== *)
theory Arm_Props
  imports Arm_Features
begin

text \<open>
  What the ARM helpers guarantee: a feature is on when its last mention in the vector says so, the
  floating-point ABI is always decided and consistent with the triple, the thread pointer mode is one
  the target has, and a soft-float target gets no FPU back.
\<close>

section \<open>The last mention decides\<close>

definition enabled :: "string \<Rightarrow> string list \<Rightarrow> bool" where
  "enabled f F \<longleftrightarrow> (\<exists>xs ys. F = xs @ (CHR ''+'' # f) # ys \<and> (CHR ''-'' # f) \<notin> set ys)"

lemma rpos_append_in: "f \<in> set ys \<Longrightarrow> rpos f (xs @ ys) = rpos f ys"
  unfolding rpos_def by (simp add: takeWhile_append1 [of f])

lemma rpos_append_notin: "f \<notin> set ys \<Longrightarrow> rpos f (xs @ ys) = length ys + rpos f xs"
  by (induction ys rule: rev_induct) (auto simp: rpos_def)

lemma rpos_Nil [simp]: "rpos f [] = 0"
  by (simp add: rpos_def)

lemma rpos_notin: "f \<notin> set F \<Longrightarrow> rpos f F = length F"
  using rpos_append_notin [of f F "[]"] by simp

lemma rpos_le: "rpos f F \<le> length F"
  unfolding rpos_def by (metis length_rev length_takeWhile_le)

lemma rpos_split: "f \<notin> set ys \<Longrightarrow> rpos f (xs @ f # ys) = length ys"
  using rpos_append_notin [of f ys "xs @ [f]"] by (simp add: rpos_def)

lemma rpos_in_less: "f \<in> set F \<Longrightarrow> rpos f F < length F"
  using rpos_split by (fastforce dest!: split_list_last)

text \<open>An element before another, counted from the end, as a split of the vector.\<close>

lemma rpos_less_split:
  "rpos f F < rpos g F \<longleftrightarrow> (\<exists>xs ys. F = xs @ f # ys \<and> g \<notin> set ys \<and> g \<noteq> f)"
proof
  assume less: "rpos f F < rpos g F"
  then have "f \<in> set F" using rpos_notin rpos_le by (metis not_less)
  then obtain xs ys where F: "F = xs @ f # ys" "f \<notin> set ys" by (metis split_list_last)
  then have f: "rpos f F = length ys" by (simp add: rpos_split)
  have "g \<notin> set ys"
  proof
    assume "g \<in> set ys"
    then have "rpos g F = rpos g ys" "rpos g ys < length ys"
      using rpos_append_in [of g ys "xs @ [f]"] rpos_in_less by (simp_all add: F)
    with f less show False by simp
  qed
  moreover have "g \<noteq> f" using less by blast
  ultimately show "\<exists>xs ys. F = xs @ f # ys \<and> g \<notin> set ys \<and> g \<noteq> f" using F by blast
next
  assume "\<exists>xs ys. F = xs @ f # ys \<and> g \<notin> set ys \<and> g \<noteq> f"
  then obtain xs ys where F: "F = xs @ f # ys" "g \<notin> set ys" "g \<noteq> f" by blast
  have "rpos f F \<le> length ys" using rpos_le [of f ys] rpos_append_in [of f ys "xs @ [f]"]
    by (cases "f \<in> set ys") (simp_all add: F rpos_split)
  moreover have "length ys < rpos g F" using F rpos_append_notin [of g ys "xs @ [f]"]
    rpos_append_notin [of g "[f]" xs] by simp
  ultimately show "rpos f F < rpos g F" by simp
qed

lemma enabled_rpos: "enabled f F \<longleftrightarrow> rpos (CHR ''+'' # f) F < rpos (CHR ''-'' # f) F"
  unfolding rpos_less_split enabled_def by simp

lemma enabled_append_plus: "CHR ''-'' # f \<notin> set ys \<Longrightarrow> CHR ''+'' # f \<in> set ys \<Longrightarrow> enabled f (xs @ ys)"
  by (simp add: enabled_rpos rpos_append_in rpos_append_notin) (metis rpos_in_less trans_less_add1)

lemma enabled_append_minus: "CHR ''-'' # f \<in> set ys \<Longrightarrow> CHR ''+'' # f \<notin> set ys \<Longrightarrow> \<not> enabled f (xs @ ys)"
  by (simp add: enabled_rpos rpos_append_in rpos_append_notin not_less) (metis rpos_in_less less_imp_le trans_le_add1)

lemma enabled_append_none: "CHR ''-'' # f \<notin> set ys \<Longrightarrow> CHR ''+'' # f \<notin> set ys \<Longrightarrow> enabled f (xs @ ys) = enabled f xs"
  by (simp add: enabled_rpos rpos_append_notin)

text \<open>
  Integer MVE is available exactly when the last feature about it enables it.
\<close>

theorem integer_mve_is_last_mention: "hasIntegerMVE F = enabled ''mve'' F"
proof (cases "''+mve'' \<in> set F")
  case True
  then have "rpos ''+mve'' F < length F" by (rule rpos_in_less)
  then show ?thesis using rpos_le [of "''-mve''" F] by (auto simp: hasIntegerMVE_def enabled_rpos)
next
  case False
  then show ?thesis using rpos_le [of "''-mve''" F] by (auto simp: hasIntegerMVE_def enabled_rpos rpos_notin)
qed

section \<open>The floating-point ABI\<close>

text \<open>
  A floating-point ABI is always chosen, an explicit choice wins over the platform, and the
  assertion of \<open>setFloatABIInTriple\<close> that a choice against the platform comes from an argument never
  fails.
\<close>

theorem float_abi_decided:
  "fst (getARMFloatABI tp t args) \<noteq> ABI_Invalid \<and>
   (fst (requested_abi args) \<noteq> ABI_Invalid \<longrightarrow> fst (getARMFloatABI tp t args) = fst (requested_abi args)) \<and>
   setFloatABIInTriple tp args t \<noteq> None"
proof -
  have ex: "fst (getARMFloatABI tp t args) \<noteq> ABI_Invalid" "fst (requested_abi args) \<noteq> ABI_Invalid \<Longrightarrow>
      fst (getARMFloatABI tp t args) = fst (requested_abi args)"
    by (auto simp: getARMFloatABI_def Let_def split: prod.splits)
  have "fst (getARMFloatABI tp t args) = getDefaultFloatABI tp t"
    if "getLastArg args float_abi_opts = None" "getDefaultFloatABI tp t \<noteq> ABI_Invalid"
    using that by (simp add: getARMFloatABI_def requested_abi_def Let_def)
  then have "setFloatABIInTriple tp args t \<noteq> None"
    by (auto simp: setFloatABIInTriple_def Let_def split: prod.splits option.splits)
  with ex show ?thesis by blast
qed

text \<open>The environment with its ABI suffix for hard or soft float.\<close>

definition with_abi :: "bool \<Rightarrow> environment \<Rightarrow> environment" where
  "with_abi hard env =
     (case env of
        GNUEABI \<Rightarrow> (if hard then GNUEABIHF else GNUEABI) | GNUEABIHF \<Rightarrow> (if hard then GNUEABIHF else GNUEABI)
      | GNUEABIT64 \<Rightarrow> (if hard then GNUEABIHFT64 else GNUEABIT64) | GNUEABIHFT64 \<Rightarrow> (if hard then GNUEABIHFT64 else GNUEABIT64)
      | EABI \<Rightarrow> (if hard then EABIHF else EABI) | EABIHF \<Rightarrow> (if hard then EABIHF else EABI)
      | MuslEABI \<Rightarrow> (if hard then MuslEABIHF else MuslEABI) | MuslEABIHF \<Rightarrow> (if hard then MuslEABIHF else MuslEABI)
      | _ \<Rightarrow> env)"

abbreviation abi_environments :: "environment set" where
  "abi_environments \<equiv> {GNUEABI, GNUEABIHF, GNUEABIT64, GNUEABIHFT64, EABI, EABIHF, MuslEABI, MuslEABIHF}"

abbreviation hard_environments :: "environment set" where
  "hard_environments \<equiv> {GNUEABIHF, GNUEABIHFT64, EABIHF, MuslEABIHF}"

lemma with_abi_other: "env \<notin> abi_environments \<Longrightarrow> with_abi hard env = env"
  by (cases env) (simp_all add: with_abi_def)

lemma with_abi_again: "with_abi hard (with_abi hard env) = with_abi hard env"
  by (cases env) (simp_all add: with_abi_def)

lemma with_abi_hard: "env \<in> abi_environments \<Longrightarrow> with_abi hard env \<in> hard_environments \<longleftrightarrow> hard"
  by (cases env) (simp_all add: with_abi_def)

lemma with_abi_closed: "env \<in> abi_environments \<Longrightarrow> with_abi hard env \<in> abi_environments"
  by (cases env) (simp_all add: with_abi_def)

lemma if_not_eq: "x \<noteq> z \<Longrightarrow> (\<not> b \<Longrightarrow> y \<noteq> z) \<Longrightarrow> (if b then x else y) \<noteq> z"
  by simp

lemma default_decided:
  assumes "getEnvironment t \<in> abi_environments"
  shows "getDefaultFloatABI tp t \<noteq> ABI_Invalid"
proof -
  have "getEnvironment t \<in> {GNUEABIHF, GNUEABIHFT64, MuslEABIHF, EABIHF} \<or>
      getEnvironment t \<in> {Android, GNUEABI, GNUEABIT64, MuslEABI, EABI}"
    using assms by blast
  then show ?thesis unfolding getDefaultFloatABI_def Let_def
    by (intro if_not_eq FloatABI.distinct) blast
qed

lemma getARMFloatABI_default:
  assumes "fst (requested_abi args) = ABI_Invalid" "getEnvironment t \<in> abi_environments"
  shows "fst (getARMFloatABI tp t args) = getDefaultFloatABI tp t"
  using assms(1) default_decided [OF assms(2), of tp]
  by (cases "requested_abi args") (simp add: getARMFloatABI_def)

lemma setFloatABIInTriple_other:
  assumes "setFloatABIInTriple tp args t = Some (t', ds)" "\<not> isOSLiteOS t" "getEnvironment t \<notin> abi_environments"
  shows "t' = t"
proof -
  obtain abi ds0 where abi: "getARMFloatABI tp t args = (abi, ds0)" by (cases "getARMFloatABI tp t args")
  define dflt where "dflt = getDefaultFloatABI tp t"
  have "setFloatABIInTriple tp args t =
      (if getEnvironment t = OpenHOS then Some (t, ds0)
       else if dflt \<noteq> ABI_Invalid \<and> (abi = Hard) \<noteq> (dflt = Hard) then
         (case getLastArg args float_abi_opts of
            None \<Rightarrow> None | Some a \<Rightarrow> Some (t, ds0 @ [err_drv_unsupported_opt_for_target a]))
       else Some (t, ds0))"
    using assms(2,3) by (simp add: setFloatABIInTriple_def abi dflt_def Let_def)
  with assms(1) show ?thesis by (auto split: if_splits option.splits)
qed

lemma setFloatABIInTriple_abi:
  assumes "setFloatABIInTriple tp args t = Some (t', ds)" "\<not> isOSLiteOS t" "getEnvironment t \<in> abi_environments"
  shows "t' = t\<lparr>getEnvironment := with_abi (fst (getARMFloatABI tp t args) = Hard) (getEnvironment t)\<rparr>"
proof -
  obtain abi ds0 where abi: "getARMFloatABI tp t args = (abi, ds0)" by (cases "getARMFloatABI tp t args")
  have "setFloatABIInTriple tp args t = Some (t\<lparr>getEnvironment := with_abi (abi = Hard) (getEnvironment t)\<rparr>, ds0)"
    using assms(2,3) by (elim insertE emptyE) (simp_all add: setFloatABIInTriple_def abi with_abi_def Let_def)
  with assms(1) show ?thesis by (simp add: abi)
qed

lemma setFloatABIInTriple_env:
  "setFloatABIInTriple tp args t = Some (t', ds) \<Longrightarrow> \<not> isOSLiteOS t \<Longrightarrow>
   t' = t\<lparr>getEnvironment := with_abi (fst (getARMFloatABI tp t args) = Hard) (getEnvironment t)\<rparr>"
  using setFloatABIInTriple_other setFloatABIInTriple_abi with_abi_other
  by (cases "getEnvironment t \<in> abi_environments") (metis, simp)

lemma setFloatABIInTriple_defined: "setFloatABIInTriple tp args t \<noteq> None"
proof -
  have "fst (getARMFloatABI tp t args) = getDefaultFloatABI tp t"
    if "getLastArg args float_abi_opts = None" "getDefaultFloatABI tp t \<noteq> ABI_Invalid"
    using that by (simp add: getARMFloatABI_def requested_abi_def Let_def)
  then show ?thesis by (auto simp: setFloatABIInTriple_def Let_def split: prod.splits option.splits)
qed

lemma default_with_abi:
  "env \<in> abi_environments \<Longrightarrow> getEnvironment t = env \<Longrightarrow>
   getDefaultFloatABI tp (t\<lparr>getEnvironment := with_abi (getDefaultFloatABI tp t = Hard) env\<rparr>) = Hard \<longleftrightarrow>
   getDefaultFloatABI tp t = Hard"
  by (cases "getOS t"; elim insertE emptyE)
     (simp_all add: getDefaultFloatABI_def with_abi_def useAAPCSForMachO_def isARMMProfile_def getARMSubArchVersionNumber_def Let_def)

text \<open>
  Writing the ABI into the triple is stable: the environment then tells a hard from a soft float
  ABI, a second run chooses the same kind of ABI and leaves the triple as it is.
\<close>

theorem float_abi_in_triple_stable:
  assumes "setFloatABIInTriple tp args t = Some (t', ds)"
  shows "(\<exists>ds'. setFloatABIInTriple tp args t' = Some (t', ds')) \<and>
    (\<not> isOSLiteOS t \<longrightarrow>
      (fst (getARMFloatABI tp t' args) = Hard \<longleftrightarrow> fst (getARMFloatABI tp t args) = Hard) \<and>
      (getEnvironment t \<in> abi_environments \<longrightarrow>
        (getEnvironment t' \<in> hard_environments \<longleftrightarrow> fst (getARMFloatABI tp t args) = Hard)))"
proof (cases "isOSLiteOS t")
  case True
  then have "t' = t\<lparr>getEnvironment := OpenHOS\<rparr>" using assms by (simp add: setFloatABIInTriple_def)
  then show ?thesis using True by (auto simp: setFloatABIInTriple_def)
next
  case False
  let ?hard = "fst (getARMFloatABI tp t args) = Hard"
  have t': "t' = t\<lparr>getEnvironment := with_abi ?hard (getEnvironment t)\<rparr>"
    by (rule setFloatABIInTriple_env [OF assms False])
  have same: "fst (getARMFloatABI tp t' args) = Hard \<longleftrightarrow> ?hard"
  proof (cases "getEnvironment t \<in> abi_environments")
    case True
    show ?thesis
    proof (cases "fst (requested_abi args) = ABI_Invalid")
      case req: True
      have "getEnvironment t' \<in> abi_environments" using with_abi_closed [OF True, of ?hard] t' by simp
      then have "fst (getARMFloatABI tp t' args) = getDefaultFloatABI tp t'" "fst (getARMFloatABI tp t args) = getDefaultFloatABI tp t"
        using getARMFloatABI_default [OF req] True by blast+
      then show ?thesis using default_with_abi [OF True refl, of tp] t' by metis
    qed (auto simp: getARMFloatABI_def Let_def split: prod.splits)
  qed (simp add: t' with_abi_other)
  obtain t'' ds' where again: "setFloatABIInTriple tp args t' = Some (t'', ds')"
    using setFloatABIInTriple_defined by (metis not_None_eq surj_pair)
  have "t'' = t'" using setFloatABIInTriple_env [OF again] False same by (simp add: t' with_abi_again)
  then show ?thesis using again same with_abi_hard [of "getEnvironment t" ?hard] by (auto simp: t')
qed

section \<open>The thread pointer\<close>

text \<open>
  A thread pointer register is read only where the architecture has it, unless the assembler was
  asked for it, and a mode is refused exactly with one diagnostic.
\<close>

theorem read_tp_mode_supported:
  "(fst (getReadTPMode tp args t for_as) \<in> {TPIDRURW, TPIDRURO, TPIDRPRW} \<longrightarrow> isHardTPSupported tp t \<or> for_as) \<and>
   length (snd (getReadTPMode tp args t for_as)) = (if fst (getReadTPMode tp args t for_as) = TP_Invalid then 1 else 0)"
  by (auto simp: getReadTPMode_def Let_def split: option.splits)

section \<open>Thumb\<close>

text \<open>
  An M-profile target is a Thumb triple whatever the flags say, in the byte order asked for, and asking
  for the ARM instruction set there is reported.
\<close>

theorem m_profile_is_thumb:
  assumes "parseArchProfile tp (compiler_suffix tp args t) = Profile_M"
  shows "(\<exists>suffix. fst (setArchNameInTriple tp args is_pp_asm t) =
           setArchName tp ((if isARMBigEndian t args then ''thumbeb'' else ''thumb'') @ suffix) t) \<and>
         (snd (setArchNameInTriple tp args is_pp_asm t) = [] \<longleftrightarrow> hasFlag args OPT_mthumb OPT_mno_thumb True)"
  using assms by (auto simp: setArchNameInTriple_def Let_def)

section \<open>The end of the feature vector\<close>

definition late_features :: "target_parser \<Rightarrow> triple \<Rightarrow> arg_list \<Rightarrow> bool \<Rightarrow> bool \<Rightarrow> string list" where
  "late_features tp t args for_as for_multilib =
     frame_chain_stage args @ fst (cmse_stage args) @ cortex_a57_stage args @ long_calls_stage t args @
     fst (execute_only_stage tp t args for_as for_multilib) @ fst (alignment_stage tp t args) @ reserve_stage args @
     fst (sls_stage tp t args) @ bti_stage args"

definition late_names :: "string list" where
  "late_names =
     [''+aapcs-frame-chain'', ''+8msecext'', ''+fix-cmse-cve-2021-35465'', ''-fix-cmse-cve-2021-35465'',
      ''+fix-cortex-a57-aes-1742098'', ''-fix-cortex-a57-aes-1742098'', ''+long-calls'', ''+execute-only'',
      ''+strict-align'', ''+reserve-r9'', ''+no-movt'', ''+no-neg-immediates'', ''+harden-sls-retbr'',
      ''+harden-sls-blr'', ''+harden-sls-nocomdat'', ''+no-bti-at-return-twice'']"

definition crypto_names :: "string list" where
  "crypto_names = [''+crypto'', ''-crypto'', ''+sha2'', ''-sha2'', ''+aes'', ''-aes'', ''+neon'']"

lemma if_satisfies: "P x \<Longrightarrow> P y \<Longrightarrow> P (if b then x else y)"
  by simp

lemma alignment_strict: "set (fst (alignment_stage tp t args)) \<subseteq> {''+strict-align''}"
  unfolding alignment_stage_def Let_def
  by (cases "getLastArg args [OPT_mno_unaligned_access, OPT_munaligned_access, OPT_mstrict_align, OPT_mno_strict_align]")
     (simp_all only: option.case, (intro if_satisfies [of "\<lambda>p. set (fst p) \<subseteq> {''+strict-align''}"]; simp)+)

lemma execute_only_name: "set (fst (execute_only_stage tp t args for_as for_multilib)) \<subseteq> {''+execute-only''}"
  unfolding execute_only_stage_def Let_def
  by (cases "getLastArg args [OPT_mexecute_only, OPT_mno_execute_only]")
     (simp_all only: option.case, (intro if_satisfies [of "\<lambda>p. set (fst p) \<subseteq> {''+execute-only''}"]; simp)+)

lemma sls_names:
  "set (fst (sls_stage tp t args)) \<subseteq> {''+harden-sls-retbr'', ''+harden-sls-blr'', ''+harden-sls-nocomdat''}"
proof (cases "getLastArg args [OPT_mharden_sls_EQ]")
  case (Some a)
  have pair: "set (fst (case x of (s, ok) \<Rightarrow>
      ((if EnableRetBr s then [''+harden-sls-retbr''] else []) @ (if EnableBlr s then [''+harden-sls-blr''] else []) @
       (if DisableComdat s then [''+harden-sls-nocomdat''] else []), f s ok)))
    \<subseteq> {''+harden-sls-retbr'', ''+harden-sls-blr'', ''+harden-sls-nocomdat''}" for x and f :: "sls_scope \<Rightarrow> bool \<Rightarrow> diag list"
    by (cases x) auto
  show ?thesis unfolding sls_stage_def Some option.case Let_def by (rule pair)
qed (simp add: sls_stage_def)

lemma late_mem:
  "''+aapcs-frame-chain'' \<in> set late_names" "''+8msecext'' \<in> set late_names"
  "''+fix-cmse-cve-2021-35465'' \<in> set late_names" "''-fix-cmse-cve-2021-35465'' \<in> set late_names"
  "''+fix-cortex-a57-aes-1742098'' \<in> set late_names" "''-fix-cortex-a57-aes-1742098'' \<in> set late_names"
  "''+long-calls'' \<in> set late_names" "''+execute-only'' \<in> set late_names"
  "''+strict-align'' \<in> set late_names" "''+reserve-r9'' \<in> set late_names"
  "''+no-movt'' \<in> set late_names" "''+no-neg-immediates'' \<in> set late_names"
  "''+harden-sls-retbr'' \<in> set late_names" "''+harden-sls-blr'' \<in> set late_names"
  "''+harden-sls-nocomdat'' \<in> set late_names" "''+no-bti-at-return-twice'' \<in> set late_names"
  by (simp_all add: late_names_def)

lemma late_features_names: "set (late_features tp t args for_as for_multilib) \<subseteq> set late_names"
proof -
  have "set (frame_chain_stage args) \<subseteq> set late_names"
    unfolding frame_chain_stage_def
    by (cases "getLastArg args [OPT_mframe_chain]") (auto simp: late_mem)
  moreover have "set (fst (cmse_stage args)) \<subseteq> set late_names"
    unfolding cmse_stage_def
    by (cases "getLastArg args [OPT_mfix_cmse_cve_2021_35465, OPT_mno_fix_cmse_cve_2021_35465]") (auto simp: late_mem Let_def)
  moreover have "set (cortex_a57_stage args) \<subseteq> set late_names"
    unfolding cortex_a57_stage_def
    by (cases "getLastArg args [OPT_mfix_cortex_a57_aes_1742098, OPT_mno_fix_cortex_a57_aes_1742098]") (auto simp: late_mem)
  moreover have "set (long_calls_stage t args) \<subseteq> set late_names"
    unfolding long_calls_stage_def
    by (cases "getLastArg args [OPT_mlong_calls, OPT_mno_long_calls]") (auto simp: late_mem)
  moreover have "set (bti_stage args) \<subseteq> set late_names" "set (reserve_stage args) \<subseteq> set late_names"
    by (auto simp: bti_stage_def reserve_stage_def late_mem)
  moreover have "set (fst (execute_only_stage tp t args for_as for_multilib)) \<subseteq> set late_names"
    using execute_only_name [of tp t args for_as for_multilib] by (auto simp: late_mem)
  moreover have "set (fst (alignment_stage tp t args)) \<subseteq> set late_names"
    using alignment_strict [of tp t args] by (auto simp: late_mem)
  moreover have "set (fst (sls_stage tp t args)) \<subseteq> set late_names"
    using sls_names [of tp t args] by (auto simp: late_mem)
  ultimately show ?thesis unfolding late_features_def set_append by blast
qed

lemma crypto_stage_names: "set (crypto_stage F) \<subseteq> set crypto_names"
  by (auto simp: crypto_stage_def crypto_names_def Let_def)

lemma crypto_arch_stage_names: "set (fst (crypto_arch_stage tp t args c F)) \<subseteq> set crypto_names"
  by (auto simp: crypto_arch_stage_def crypto_names_def Let_def)

definition chosen :: "target_parser \<Rightarrow> triple \<Rightarrow> arg_list \<Rightarrow> bool \<Rightarrow> cpu_choice" where
  "chosen tp t args for_as = fst (choose_names tp t args (if for_as then wa_options_of args else no_wa))"

abbreviation features_of :: "target_parser \<Rightarrow> triple \<Rightarrow> arg_list \<Rightarrow> string list \<Rightarrow> bool \<Rightarrow> bool \<Rightarrow> string list" where
  "features_of tp t args F0 for_as for_multilib \<equiv> fst (snd (getARMTargetFeatures tp t args F0 for_as for_multilib))"

lemma base_features_choice: "fst (snd (base_features tp t args F0 for_as)) = chosen tp t args for_as"
  by (simp add: base_features_def chosen_def Let_def case_prod_beta)

lemma features_stages:
  obtains F1 fpu F2 fpu' has ds ds' where
    "fp_features tp t args (chosen tp t args for_as) fpu F1 = (F2, fpu', has)"
    "getARMTargetFeatures tp t args F0 for_as for_multilib =
       (fpu', F2 @ crypto_stage F2 @ fst (crypto_arch_stage tp t args (chosen tp t args for_as) F2) @
              late_features tp t args for_as for_multilib,
        ds @ snd (alignment_stage tp t args) @ ds' @ checkARMFloatABI args has)"
proof -
  obtain F1 c fpu ds1 where base: "base_features tp t args F0 for_as = (F1, c, fpu, ds1)"
    by (metis prod_cases4)
  then have c: "c = chosen tp t args for_as"
    using base_features_choice [of tp t args F0 for_as] by simp
  obtain F2 fpu' has where fp: "fp_features tp t args c fpu F1 = (F2, fpu', has)" by (metis prod_cases3)
  obtain cs ds2 ms ds3 es ds4 as ds5 ss ds6 where stages: "crypto_arch_stage tp t args c F2 = (cs, ds2)"
      "cmse_stage args = (ms, ds3)" "execute_only_stage tp t args for_as for_multilib = (es, ds4)"
      "alignment_stage tp t args = (as, ds5)" "sls_stage tp t args = (ss, ds6)"
    by (meson surj_pair)
  have "getARMTargetFeatures tp t args F0 for_as for_multilib =
      (fpu', F2 @ crypto_stage F2 @ cs @ late_features tp t args for_as for_multilib,
       (ds1 @ ds2 @ ds3 @ ds4) @ ds5 @ ds6 @ checkARMFloatABI args has)"
    unfolding getARMTargetFeatures_def base fp stages late_features_def Let_def prod.case by simp
  with fp stages(1,4) show ?thesis unfolding c
    by (intro that [of fpu F1 F2 fpu' has "ds1 @ ds2 @ ds3 @ ds4" ds6]) simp_all
qed

lemma features_end:
  obtains F1 fpu F2 fpu' has where
    "fp_features tp t args (chosen tp t args for_as) fpu F1 = (F2, fpu', has)"
    "fst (getARMTargetFeatures tp t args F0 for_as for_multilib) = fpu'"
    "features_of tp t args F0 for_as for_multilib =
       F2 @ crypto_stage F2 @ fst (crypto_arch_stage tp t args (chosen tp t args for_as) F2) @
       late_features tp t args for_as for_multilib"
  by (rule features_stages [of tp t args for_as F0 for_multilib]) simp

lemma last_about_append:
  "\<forall>f \<in> set ys. \<forall>n \<in> set names. \<not> contains f n \<Longrightarrow> last_about names (xs @ ys) = last_about names xs"
  by (induction ys rule: rev_induct) (auto simp: last_about_def)

lemma switched_on_append:
  "\<forall>f \<in> set ys. \<forall>n \<in> set names. \<not> contains f n \<Longrightarrow> switched_on names (xs @ ys) = switched_on names xs"
  by (simp add: switched_on_def last_about_append)

text \<open>Searching a text, by recursion on it.\<close>

lemma starts_with_rec [simp]:
  "starts_with s []" "\<not> starts_with [] (p # ps)" "starts_with (c # cs) (p # ps) \<longleftrightarrow> c = p \<and> starts_with cs ps"
  by (auto simp: starts_with_def)

lemma contains_rec [simp]:
  "contains [] (p # ps) \<longleftrightarrow> False" "contains (c # cs) ps \<longleftrightarrow> starts_with (c # cs) ps \<or> contains cs ps"
proof -
  have iff: "contains s q \<longleftrightarrow> (\<exists>k \<le> length s. starts_with (drop k s) q)" for s q
    unfolding contains_def set_upt by (metis atLeastLessThan_iff less_Suc_eq_le zero_le)
  show "contains [] (p # ps) \<longleftrightarrow> False" by (simp add: iff)
  show "contains (c # cs) ps \<longleftrightarrow> starts_with (c # cs) ps \<or> contains cs ps"
    unfolding iff by (metis Suc_le_mono drop0 drop_Suc_Cons length_Cons not0_implies_Suc zero_le)
qed

text \<open>What the last stages never mention.\<close>

lemma late_without:
  "\<forall>f \<in> set (crypto_names @ late_names). \<forall>n \<in> {''i8mm'', ''bf16'', ''dotprod''}. \<not> contains f n"
  "\<forall>f \<in> set late_names. \<forall>n \<in> {''crypto'', ''sha2'', ''neon''}. \<not> contains f n"
  by (simp_all add: crypto_names_def late_names_def)

end
