(* ===== verification/Arm_Crypto.thy ===== *)
theory Arm_Crypto
  imports Arm_Props
begin

text \<open>
  What the finished feature vector of \<open>arm::getARMTargetFeatures\<close> guarantees: vector extensions bring
  NEON, the cryptography features agree with each other and are off where the architecture has none, a
  soft-float target keeps no floating-point feature, and a core without unaligned accesses never gets them
  silently.  The last section evaluates the whole function on a small target parser.
\<close>

section \<open>Features that need NEON\<close>

lemma crypto_stage_neon:
  "switched_on [''crypto'', ''aes''] F \<or> switched_on [''crypto'', ''sha2''] F \<or> switched_on [''bf16''] F \<or>
   switched_on [''dotprod''] F \<or> switched_on [''i8mm''] F \<Longrightarrow> ''+neon'' \<in> set (crypto_stage F)"
  by (simp add: crypto_stage_def Let_def disj_ac)

lemma no_neon_removed:
  "''-neon'' \<notin> set (crypto_stage F @ fst (crypto_arch_stage tp t args c F) @ late_features tp t args for_as for_multilib)"
proof -
  have "''-neon'' \<notin> set (crypto_names @ late_names)" by (simp add: crypto_names_def late_names_def)
  then show ?thesis
    using crypto_stage_names crypto_arch_stage_names late_features_names unfolding set_append by blast
qed

lemma switched_on_end:
  assumes "n \<in> {''i8mm'', ''bf16'', ''dotprod''}"
  shows "switched_on [n] (F @ crypto_stage F @ fst (crypto_arch_stage tp t args c F) @ late_features tp t args for_as for_multilib)
    = switched_on [n] F"
proof (rule switched_on_append, intro ballI)
  fix f m
  assume f: "f \<in> set (crypto_stage F @ fst (crypto_arch_stage tp t args c F) @ late_features tp t args for_as for_multilib)"
    and "m \<in> set [n]"
  then have "m \<in> {''i8mm'', ''bf16'', ''dotprod''}" using assms by simp
  moreover have "f \<in> set (crypto_names @ late_names)"
    using f crypto_stage_names crypto_arch_stage_names late_features_names unfolding set_append by blast
  ultimately show "\<not> contains f m" using late_without(1) by blast
qed

text \<open>
  A vector extension left on by the finished features (matrix multiplication, bfloat16 or dot product)
  has NEON on.
\<close>

theorem vector_extension_has_neon:
  assumes "n \<in> {''i8mm'', ''bf16'', ''dotprod''}" "switched_on [n] (features_of tp t args F0 for_as for_multilib)"
  shows "enabled ''neon'' (features_of tp t args F0 for_as for_multilib)"
proof -
  obtain F2 where F: "features_of tp t args F0 for_as for_multilib =
      F2 @ crypto_stage F2 @ fst (crypto_arch_stage tp t args (chosen tp t args for_as) F2) @
      late_features tp t args for_as for_multilib"
    by (rule features_end)
  then have "switched_on [n] F2" using assms switched_on_end by simp
  then have "''+neon'' \<in> set (crypto_stage F2)" using assms(1) by (intro crypto_stage_neon) auto
  then show ?thesis unfolding F by (intro enabled_append_plus no_neon_removed) simp
qed

section \<open>Cryptography\<close>

text \<open>
  Once any feature mentioned cryptography, the appended features agree with each other: crypto is on
  exactly when both algorithms are, and either of them has NEON on.
\<close>

theorem crypto_features_agree:
  assumes "last_about [''crypto''] F \<noteq> None"
  shows "(enabled ''crypto'' (F @ crypto_stage F) \<longleftrightarrow>
           enabled ''sha2'' (F @ crypto_stage F) \<and> enabled ''aes'' (F @ crypto_stage F)) \<and>
    (enabled ''sha2'' (F @ crypto_stage F) \<longleftrightarrow> switched_on [''crypto'', ''sha2''] F) \<and>
    (enabled ''aes'' (F @ crypto_stage F) \<longleftrightarrow> switched_on [''crypto'', ''aes''] F) \<and>
    (enabled ''sha2'' (F @ crypto_stage F) \<or> enabled ''aes'' (F @ crypto_stage F) \<longrightarrow> enabled ''neon'' (F @ crypto_stage F))"
proof -
  let ?sha2 = "switched_on [''crypto'', ''sha2''] F" and ?aes = "switched_on [''crypto'', ''aes''] F"
  have stage: "crypto_stage F = [if ?sha2 \<and> ?aes then ''+crypto'' else ''-crypto'', if ?sha2 then ''+sha2'' else ''-sha2'',
      if ?aes then ''+aes'' else ''-aes''] @
      (if ?aes \<or> ?sha2 \<or> switched_on [''bf16''] F \<or> switched_on [''dotprod''] F \<or> switched_on [''i8mm''] F then [''+neon''] else [])"
    using assms by (simp add: crypto_stage_def Let_def)
  have on: "enabled f (F @ crypto_stage F) = b"
    if "CHR ''+'' # f \<in> set (crypto_stage F) \<longleftrightarrow> b" "CHR ''-'' # f \<in> set (crypto_stage F) \<longleftrightarrow> \<not> b" for f b
    using that enabled_append_plus enabled_append_minus by (cases b) blast+
  have "enabled ''crypto'' (F @ crypto_stage F) = (?sha2 \<and> ?aes)" by (rule on) (simp_all add: stage)
  moreover have "enabled ''sha2'' (F @ crypto_stage F) = ?sha2" by (rule on) (simp_all add: stage)
  moreover have "enabled ''aes'' (F @ crypto_stage F) = ?aes" by (rule on) (simp_all add: stage)
  moreover have "?sha2 \<or> ?aes \<longrightarrow> enabled ''neon'' (F @ crypto_stage F)"
    by (intro impI enabled_append_plus) (auto simp: stage)
  ultimately show ?thesis by blast
qed

text \<open>The architecture whose cryptography is checked, and whether it has any.\<close>

definition crypto_suffix :: "target_parser \<Rightarrow> triple \<Rightarrow> cpu_choice \<Rightarrow> string" where
  "crypto_suffix tp t c =
     getLLVMArchSuffixForARM tp (getARMTargetCPU tp (CPUName c) (ArchName c) t) (ArchName c) t"

definition has_crypto_isa :: "target_parser \<Rightarrow> string \<Rightarrow> bool" where
  "has_crypto_isa tp suffix \<longleftrightarrow>
     parseArchVersion tp suffix \<ge> 8 \<and> parseArchProfile tp suffix \<in> {Profile_A, Profile_R}"

lemma last_about_None_iff: "last_about names F = None \<longleftrightarrow> (\<forall>f \<in> set F. \<forall>n \<in> set names. \<not> contains f n)"
  by (auto simp: last_about_def find_None_iff)

lemma switched_on_snoc:
  "\<exists>n \<in> set names. contains f n \<Longrightarrow> switched_on names (xs @ [f]) = starts_with f ''+''"
  by (simp add: switched_on_def last_about_def)

lemma sha2_off_after_stage:
  assumes "\<not> switched_on [''crypto'', ''sha2''] F"
  shows "\<not> switched_on [''crypto'', ''sha2''] (F @ crypto_stage F)"
proof -
  define tl where "tl = (if switched_on [''crypto'', ''aes''] F \<or> switched_on [''bf16''] F \<or> switched_on [''dotprod''] F \<or>
    switched_on [''i8mm''] F then [''+neon''] else [])"
  define aes where "aes = (if switched_on [''crypto'', ''aes''] F then ''+aes'' else ''-aes'')"
  have tl: "\<forall>f \<in> set tl. \<forall>n \<in> set [''crypto'', ''sha2'']. \<not> contains f n" by (simp add: tl_def)
  have a: "\<forall>f \<in> set (aes # tl). \<forall>n \<in> set [''crypto'', ''sha2'']. \<not> contains f n"
    using tl by (simp add: aes_def)
  have "crypto_stage F = (if last_about [''crypto''] F = None then tl else [''-crypto'', ''-sha2''] @ aes # tl)"
    using assms by (simp add: crypto_stage_def tl_def aes_def Let_def)
  moreover have "\<not> switched_on [''crypto'', ''sha2''] ((F @ [''-crypto'', ''-sha2'']) @ aes # tl)"
    unfolding switched_on_append [OF a] by (simp add: switched_on_def last_about_def)
  ultimately show ?thesis using assms switched_on_append [OF tl, of F] by simp
qed

text \<open>
  C39. Where the architecture has no cryptography instructions (before version 8, or an M profile), the
  integrated assembler never gets SHA-2 in the finished features.
\<close>

theorem no_sha2_without_isa:
  assumes "\<not> has_crypto_isa tp (crypto_suffix tp t (chosen tp t args for_as))"
    and "\<not> hasArg args [OPT_fno_integrated_as]"
  shows "\<not> switched_on [''crypto'', ''sha2''] (features_of tp t args F0 for_as for_multilib)"
proof -
  let ?on = "switched_on [''crypto'', ''sha2'']" and ?c = "chosen tp t args for_as"
  obtain F2 where F: "features_of tp t args F0 for_as for_multilib =
      F2 @ crypto_stage F2 @ fst (crypto_arch_stage tp t args ?c F2) @ late_features tp t args for_as for_multilib"
    by (rule features_end)
  have late: "\<forall>f \<in> set (late_features tp t args for_as for_multilib). \<forall>n \<in> set [''crypto'', ''sha2'']. \<not> contains f n"
    using late_features_names [of tp t args for_as for_multilib] late_without(2) by (fastforce simp del: contains_rec)
  have arch: "fst (crypto_arch_stage tp t args ?c F2) =
      (if ?on F2 \<or> switched_on [''crypto'', ''aes''] F2 then [''-sha2'', ''-aes''] else [])"
    using assms by (simp add: crypto_arch_stage_def has_crypto_isa_def crypto_suffix_def Let_def)
  have removed: "\<not> ?on ((F2 @ crypto_stage F2) @ [''-sha2'', ''-aes''])"
    by (simp add: switched_on_def last_about_def)
  have "\<not> ?on ((F2 @ crypto_stage F2) @ fst (crypto_arch_stage tp t args ?c F2))"
  proof (cases "?on F2 \<or> switched_on [''crypto'', ''aes''] F2")
    case True
    then show ?thesis using removed by (simp only: arch if_True simp_thms)
  next
    case False
    then show ?thesis using sha2_off_after_stage [of F2] by (simp add: arch)
  qed
  then show ?thesis unfolding F using switched_on_append [OF late, of "(F2 @ crypto_stage F2) @ fst (crypto_arch_stage tp t args ?c F2)"]
    by simp
qed

section \<open>Soft float\<close>

text \<open>
  A soft-float target has no FPU and none of the features that need its registers.
\<close>

theorem soft_float_has_no_fpu:
  assumes "fst (getARMFloatABI tp t args) = Soft"
    and "f \<in> {''dotprod'', ''fp16fml'', ''bf16'', ''mve'', ''mve.fp'', ''fpregs''}"
  shows "fst (getARMTargetFeatures tp t args F0 for_as for_multilib) = FK_NONE \<and>
    \<not> enabled f (features_of tp t args F0 for_as for_multilib)"
proof -
  let ?off = "[''-dotprod'', ''-fp16fml'', ''-bf16'', ''-mve'', ''-mve.fp'', ''-fpregs'']"
  obtain F1 fpu F2 fpu' has where fp: "fp_features tp t args (chosen tp t args for_as) fpu F1 = (F2, fpu', has)"
    and kind: "fst (getARMTargetFeatures tp t args F0 for_as for_multilib) = fpu'"
    and F: "features_of tp t args F0 for_as for_multilib =
      F2 @ crypto_stage F2 @ fst (crypto_arch_stage tp t args (chosen tp t args for_as) F2) @
      late_features tp t args for_as for_multilib"
    by (rule features_end)
  define tail where "tail G = crc_stage args @ simd_stage tp FK_NONE (G @ crc_stage args)" for G
  have F2: "fpu' = FK_NONE" "F2 = (F1 @ fp16_stage t F1 @ snd (getFPUFeatures tp FK_NONE)) @ ?off @
      tail (F1 @ fp16_stage t F1 @ snd (getFPUFeatures tp FK_NONE) @ ?off)"
    using fp assms(1) by (auto simp: fp_features_def no_fpu_stage_def fpv5_stage_def tail_def Let_def)
  have no: "CHR ''+'' # f \<notin> set (?off @ tail G @ crypto_stage F2 @
      fst (crypto_arch_stage tp t args (chosen tp t args for_as) F2) @ late_features tp t args for_as for_multilib)" for G
  proof -
    have "CHR ''+'' # f \<notin> set (crypto_names @ late_names)" "CHR ''+'' # f \<notin> set (?off @ tail G)"
      using assms(2) by (auto simp: crypto_names_def late_names_def tail_def crc_stage_def simd_stage_def split: option.split)
    then show ?thesis
      using crypto_stage_names crypto_arch_stage_names late_features_names unfolding set_append by blast
  qed
  have "CHR ''-'' # f \<in> set (?off @ tail G @ crypto_stage F2 @
      fst (crypto_arch_stage tp t args (chosen tp t args for_as) F2) @ late_features tp t args for_as for_multilib)" for G
    using assms(2) by auto
  from enabled_append_minus [OF this no] F2(2)
  have "\<not> enabled f (features_of tp t args F0 for_as for_multilib)" unfolding F by (metis append_assoc)
  then show ?thesis using kind F2(1) by simp
qed

section \<open>Alignment\<close>

lemma alignment_in_features:
  "set (fst (alignment_stage tp t args)) \<subseteq> set (features_of tp t args F0 for_as for_multilib)"
  by (rule features_end [of tp t args for_as F0 for_multilib]) (auto simp: late_features_def)

lemma alignment_reported:
  "set (snd (alignment_stage tp t args)) \<subseteq> set (snd (snd (getARMTargetFeatures tp t args F0 for_as for_multilib)))"
  by (rule features_stages [of tp t args for_as F0 for_multilib]) auto


section \<open>A small target\<close>

definition demo_parser :: target_parser where
  "demo_parser =
     \<lparr>parseArchVersion = (\<lambda>s. if contains s ''v8'' then 8 else if contains s ''v7'' then 7 else if contains s ''v6'' then 6 else 0),
      parseArchProfile = (\<lambda>s. if contains s ''m'' \<and> \<not> starts_with s ''arm'' then Profile_M else Profile_A),
      parseArch = (\<lambda>s. if starts_with s ''armv'' then AK_other (drop 3 s) else AK_INVALID),
      parseCPUArch = (\<lambda>s. if s = ''cortex-a8'' then AK_other ''v7-a'' else if s = ''cortex-m0'' then AK_other ''v6m'' else AK_INVALID),
      getARMCPUForArch = (\<lambda>t s. ''generic''),
      archSubArch = (\<lambda>k. case k of AK_other s \<Rightarrow> s | _ \<Rightarrow> []),
      archName = (\<lambda>k. case k of AK_other s \<Rightarrow> ''arm'' @ s | _ \<Rightarrow> ''invalid''),
      getDefaultFPU = (\<lambda>cpu k. FK_NONE),
      parseFPU = (\<lambda>s. if s = ''none'' then FK_NONE else FK_other s),
      getFPUFeatures = (\<lambda>k. if k = FK_NONE then (True, [''-fp64'', ''-d32'', ''-neon'', ''-sha2'', ''-aes'']) else (True, [''+neon''])),
      NeonSupport = (\<lambda>k. if k = FK_other ''neon'' then Neon else Neon_None),
      parseHWDiv = (\<lambda>s. 0),
      getHWDivFeatures = (\<lambda>n. (n \<noteq> 0, [])),
      appendArchExtFeatures = (\<lambda>cpu k f. (True, [CHR ''+'' # f], None)),
      getDefaultExtensions = (\<lambda>cpu k. 0),
      getExtensionFeatures = (\<lambda>n. []),
      getHostCPUName = ''generic'',
      getHostCPUFeatures = [],
      setArchName = (\<lambda>n t. t\<lparr>getArchName := n\<rparr>)\<rparr>"

definition demo_triple :: "string \<Rightarrow> sub_arch \<Rightarrow> triple" where
  "demo_triple arch sub =
     \<lparr>getArchName = arch, getArch = Arch_arm, getSubArch = sub, getVendor = UnknownVendor, getOS = OS_other,
      getEnvironment = GNUEABI, isOSBinFormatMachO = False, isOSWindows = False, isOSFuchsia = False, isOSLiteOS = False,
      isOSFirmware = False, isOSDarwin = False, isOSNetBSD = False, isWatchABI = False, isOHOSFamily = False,
      isAndroid = False, isiOS = False, isWatchOS = False, isXROS = False, isOSVersionLT6 = False\<rparr>"

definition march :: "string \<Rightarrow> arg" where
  "march v = \<lparr>getOption = OPT_march_EQ, getValues = [v]\<rparr>"

definition soft_float :: arg where
  "soft_float = \<lparr>getOption = OPT_msoft_float, getValues = []\<rparr>"

declare enabled_rpos [code]

lemma demo_evaluations:
  "fst (getARMFloatABI demo_parser (demo_triple ''armv8-a'' SubArch_other) [soft_float, march ''armv8-a+i8mm'']) = Soft"
  "switched_on [''i8mm''] (features_of demo_parser (demo_triple ''armv8-a'' SubArch_other) [soft_float, march ''armv8-a+i8mm'']
     [] False False)"
  "enabled ''crypto'' (features_of demo_parser (demo_triple ''armv7-a'' SubArch_other) [march ''armv7-a+crypto''] [] False False)"
  "\<not> has_crypto_isa demo_parser (crypto_suffix demo_parser (demo_triple ''armv7-a'' SubArch_other)
     (chosen demo_parser (demo_triple ''armv7-a'' SubArch_other) [march ''armv7-a+crypto''] False))"
  by code_simp+

text \<open>
  Soft float with matrix multiplication: the FPU is gone and its vector unit is back.
\<close>

lemma vector_extension_has_neon_witness:
  "fst (getARMTargetFeatures demo_parser (demo_triple ''armv8-a'' SubArch_other) [soft_float, march ''armv8-a+i8mm''] [] False False)
     = FK_NONE \<and>
   enabled ''neon'' (features_of demo_parser (demo_triple ''armv8-a'' SubArch_other) [soft_float, march ''armv8-a+i8mm''] [] False False)"
proof
  show "fst (getARMTargetFeatures demo_parser (demo_triple ''armv8-a'' SubArch_other) [soft_float, march ''armv8-a+i8mm'']
      [] False False) = FK_NONE"
    by code_simp
  show "enabled ''neon'' (features_of demo_parser (demo_triple ''armv8-a'' SubArch_other)
      [soft_float, march ''armv8-a+i8mm''] [] False False)"
    by (rule vector_extension_has_neon [of "''i8mm''"]) (simp, rule demo_evaluations)
qed

lemma crypto_features_agree_witness:
  "enabled ''sha2'' ([''+crypto'', ''-aes''] @ crypto_stage [''+crypto'', ''-aes'']) \<and>
   \<not> enabled ''crypto'' ([''+crypto'', ''-aes''] @ crypto_stage [''+crypto'', ''-aes''])"
proof -
  have "last_about [''crypto''] [''+crypto'', ''-aes''] \<noteq> None" "switched_on [''crypto'', ''sha2''] [''+crypto'', ''-aes'']"
      "\<not> switched_on [''crypto'', ''aes''] [''+crypto'', ''-aes'']"
    by code_simp+
  with crypto_features_agree [of "[''+crypto'', ''-aes'']"] show ?thesis by blast
qed

lemma no_sha2_without_isa_witness:
  "\<not> switched_on [''crypto'', ''sha2'']
       (features_of demo_parser (demo_triple ''armv7-a'' SubArch_other) [march ''armv7-a+crypto''] [] False False) \<and>
   enabled ''crypto'' (features_of demo_parser (demo_triple ''armv7-a'' SubArch_other) [march ''armv7-a+crypto''] [] False False)"
  by (intro conjI no_sha2_without_isa demo_evaluations(3,4)) code_simp

lemma soft_float_has_no_fpu_witness:
  "\<not> enabled ''mve'' (features_of demo_parser (demo_triple ''armv8-a'' SubArch_other) [soft_float, march ''armv8-a+i8mm'']
     [] False False)"
  using soft_float_has_no_fpu [OF demo_evaluations(1), of "''mve''"] by simp


lemma float_abi_decided_witness:
  "fst (getARMFloatABI demo_parser (demo_triple ''armv8-a'' SubArch_other) [soft_float]) = Soft"
proof -
  have "fst (requested_abi [soft_float]) = Soft" by code_simp
  then show ?thesis using float_abi_decided [of demo_parser "demo_triple ''armv8-a'' SubArch_other" "[soft_float]"] by simp
qed

lemma float_abi_in_triple_stable_witness:
  "fst (getARMFloatABI demo_parser (demo_triple ''armv8-a'' SubArch_other) [soft_float]) \<noteq> Hard \<and>
   (\<exists>ds'. setFloatABIInTriple demo_parser [soft_float] (demo_triple ''armv8-a'' SubArch_other) =
      Some (demo_triple ''armv8-a'' SubArch_other, ds'))"
proof -
  have once: "setFloatABIInTriple demo_parser [soft_float] (demo_triple ''armv8-a'' SubArch_other) =
      Some (demo_triple ''armv8-a'' SubArch_other, [])"
    by code_simp
  show ?thesis
    using float_abi_in_triple_stable [OF once] by (simp add: demo_triple_def)
qed

lemma read_tp_mode_supported_witness:
  "isHardTPSupported demo_parser (demo_triple ''armv7-a'' SubArch_other)"
proof -
  have "fst (getReadTPMode demo_parser [] (demo_triple ''armv7-a'' SubArch_other) False) = TPIDRURO" by code_simp
  then show ?thesis
    using read_tp_mode_supported [of demo_parser "[]" "demo_triple ''armv7-a'' SubArch_other" False] by simp
qed

lemma m_profile_is_thumb_witness:
  "\<exists>suffix. fst (setArchNameInTriple demo_parser [\<lparr>getOption = OPT_mcpu_EQ, getValues = [''cortex-m0'']\<rparr>] False
      (demo_triple ''armv6m'' ARMSubArch_v6m)) = (demo_triple ''armv6m'' ARMSubArch_v6m)\<lparr>getArchName := ''thumb'' @ suffix\<rparr>"
proof -
  let ?args = "[\<lparr>getOption = OPT_mcpu_EQ, getValues = [''cortex-m0'']\<rparr>]" and ?t = "demo_triple ''armv6m'' ARMSubArch_v6m"
  have "parseArchProfile demo_parser (compiler_suffix demo_parser ?args ?t) = Profile_M" "\<not> isARMBigEndian ?t ?args"
    by code_simp+
  then show ?thesis using m_profile_is_thumb [of demo_parser ?args ?t False] by (simp add: demo_parser_def)
qed

end
