(* ===== verification/C_Layout.thy ===== *)
theory C_Layout
  imports Prelude
begin

text \<open>
  C types and the layout of C structures under natural alignment, the rule of every target of the build:
  each member goes to the next multiple of its alignment, the structure ends at a multiple of the
  largest one.  Type names are strings, as the headers spell them.
\<close>

section \<open>Types\<close>

datatype ctype = Named string | Struct string | Ptr ctype | Const ctype | Fun_ptr ctype "ctype list" | Varargs

abbreviation c_void :: ctype where "c_void \<equiv> Named ''void''"
abbreviation c_char :: ctype where "c_char \<equiv> Named ''char''"
abbreviation c_int :: ctype where "c_int \<equiv> Named ''int''"
abbreviation c_bool :: ctype where "c_bool \<equiv> Named ''bool''"
abbreviation size_t :: ctype where "size_t \<equiv> Named ''size_t''"
abbreviation int32_t :: ctype where "int32_t \<equiv> Named ''int32_t''"
abbreviation int64_t :: ctype where "int64_t \<equiv> Named ''int64_t''"
abbreviation va_list :: ctype where "va_list \<equiv> Named ''va_list''"

text \<open>How a type is written in front of a member's name.\<close>

fun spelling :: "ctype \<Rightarrow> string" where
  "spelling (Named s) = s"
| "spelling (Struct s) = ''struct '' @ s"
| "spelling (Ptr t) = spelling t @ ''*''"
| "spelling (Const t) = ''const '' @ spelling t"
| "spelling (Fun_ptr t ts) = spelling t @ ''(*)''"
| "spelling Varargs = ''...''"

text \<open>
  The size of a scalar, which is its alignment too, for a pointer size.  The names are those of C and of
  the structures of \<open>lib/jni.h\<close>; a reference type of JNI is a pointer.
\<close>

definition jni_refs :: "string list" where
  "jni_refs = [''jobject'', ''jclass'', ''jstring'', ''jarray'', ''jobjectArray'', ''jbooleanArray'', ''jbyteArray'', ''jcharArray'',
     ''jshortArray'', ''jintArray'', ''jlongArray'', ''jfloatArray'', ''jdoubleArray'', ''jthrowable'', ''jfieldID'', ''jmethodID'']"

fun scalar_size :: "nat \<Rightarrow> ctype \<Rightarrow> nat option" where
  "scalar_size P (Ptr t) = Some P"
| "scalar_size P (Fun_ptr t ts) = Some P"
| "scalar_size P (Const t) = scalar_size P t"
| "scalar_size P (Named s) =
     (if s \<in> set jni_refs \<or> s = ''size_t'' then Some P
      else if s \<in> {''int'', ''int32_t'', ''jint'', ''jfloat''} then Some 4
      else if s \<in> {''int64_t'', ''jlong'', ''jdouble''} then Some 8
      else if s \<in> {''jshort'', ''jchar''} then Some 2
      else if s \<in> {''char'', ''bool'', ''jboolean'', ''jbyte''} then Some 1 else None)"
| "scalar_size P (Struct s) = None"
| "scalar_size P Varargs = None"

section \<open>Layout\<close>

type_synonym c_members = "(ctype \<times> string) list"

fun layout_from :: "nat \<Rightarrow> nat \<Rightarrow> c_members \<Rightarrow> ((string \<times> nat) list \<times> nat) option" where
  "layout_from P at [] = Some ([], at)"
| "layout_from P at ((t, x) # ms) =
     (case scalar_size P t of
        None \<Rightarrow> None
      | Some n \<Rightarrow> map_option (\<lambda>(l, e). ((x, round_up n at) # l, e)) (layout_from P (round_up n at + n) ms))"

definition offsetof :: "nat \<Rightarrow> c_members \<Rightarrow> string \<Rightarrow> nat option" where
  "offsetof P ms x = Option.bind (layout_from P 0 ms) (\<lambda>(l, e). map_of l x)"

definition struct_align :: "nat \<Rightarrow> c_members \<Rightarrow> nat" where
  "struct_align P ms = fold max (map (\<lambda>(t, x). case scalar_size P t of None \<Rightarrow> 1 | Some n \<Rightarrow> n) ms) 1"

definition sizeof_struct :: "nat \<Rightarrow> c_members \<Rightarrow> nat option" where
  "sizeof_struct P ms = map_option (\<lambda>(l, e). round_up (struct_align P ms) e) (layout_from P 0 ms)"

text \<open>A structure whose members are all as wide as a pointer is an array of pointers.\<close>

definition pointer_wide :: "nat \<Rightarrow> c_members \<Rightarrow> bool" where
  "pointer_wide P ms \<longleftrightarrow> list_all (\<lambda>(t, x). scalar_size P t = Some P) ms"

lemma pointer_layout_from:
  assumes "0 < P" "pointer_wide P ms"
  shows "layout_from P (k * P) ms = Some (zip (map snd ms) (map (\<lambda>i. (k + i) * P) [0..<length ms]), (k + length ms) * P)"
  using assms(2)
proof (induction ms arbitrary: k)
  case (Cons m ms)
  obtain t x where m: "m = (t, x)" by (cases m)
  have t: "scalar_size P t = Some P" "pointer_wide P ms" using Cons.prems by (simp_all add: pointer_wide_def m)
  have "map (\<lambda>i. (k + i) * P) [0..<length (m # ms)] = k * P # map (\<lambda>i. (Suc k + i) * P) [0..<length ms]"
    by (simp add: map_upt_Suc del: upt_Suc)
  moreover have "layout_from P (k * P + P) ms =
      Some (zip (map snd ms) (map (\<lambda>i. (Suc k + i) * P) [0..<length ms]), (Suc k + length ms) * P)"
    using Cons.IH [OF t(2), of "Suc k"] by (simp add: add.commute)
  ultimately show ?case using assms(1) by (simp add: m t(1) round_up_dvd del: upt_Suc)
qed simp

lemma pointer_layout:
  assumes "0 < P" "pointer_wide P ms"
  shows "layout_from P 0 ms = Some (zip (map snd ms) (map (\<lambda>i. i * P) [0..<length ms]), length ms * P)"
  using pointer_layout_from [OF assms, of 0] by simp

lemma pointer_offsetof:
  assumes "0 < P" "pointer_wide P ms" "i < length ms" "distinct (map snd ms)"
  shows "offsetof P ms (snd (ms ! i)) = Some (i * P)"
proof -
  have "(snd (ms ! i), i * P) \<in> set (zip (map snd ms) (map (\<lambda>i. i * P) [0..<length ms]))"
    using assms(3) by (auto simp: in_set_zip intro!: exI [of _ i])
  then show ?thesis using assms by (simp add: offsetof_def pointer_layout)
qed

lemma fold_max_same: "list_all (\<lambda>k. k = P) ks \<Longrightarrow> fold max ks (P :: nat) = P"
  by (induction ks) auto

lemma pointer_sizeof:
  assumes "0 < P" "pointer_wide P ms"
  shows "sizeof_struct P ms = Some (length ms * P)"
proof (cases ms)
  case Nil
  then show ?thesis by (simp add: sizeof_struct_def struct_align_def round_up_def)
next
  case (Cons m ms')
  have "list_all (\<lambda>k. k = P) (map (\<lambda>(t, x). case scalar_size P t of None \<Rightarrow> 1 | Some n \<Rightarrow> n) ms)"
    using assms(2) by (auto simp: pointer_wide_def list_all_iff split: prod.splits)
  moreover have "max P (Suc 0) = P" using assms(1) by simp
  ultimately have "struct_align P ms = P"
    by (simp add: struct_align_def Cons fold_max_same)
  then show ?thesis using assms by (simp add: sizeof_struct_def pointer_layout round_up_dvd)
qed

end
