(* ===== verification/Native_Headers.thy ===== *)
theory Native_Headers
  imports C_Layout
begin

text \<open>
  The native structures of the host and what the build reads out of their headers: \<open>ANativeActivity\<close> of
  \<open>lib/native_activity.h\<close>, the runtime contract of \<open>lib/host_runtime_contract.h\<close> and the log priorities of
  \<open>lib/log.h\<close>, with \<open>Get-NativeActivityFieldOffset\<close>, \<open>Get-HostRuntimeContractLayout\<close> and
  \<open>Get-AndroidLogPriority\<close> of \<open>setup.ps1\<close>.  A header's text is modelled by its declarations in order.
\<close>

section \<open>The activity\<close>

abbreviation jobject :: ctype where "jobject \<equiv> Named ''jobject''"
abbreviation JavaVM :: ctype where "JavaVM \<equiv> Named ''JavaVM''"
abbreviation JNIEnv :: ctype where "JNIEnv \<equiv> Named ''JNIEnv''"

definition ANativeActivity :: c_members where
  "ANativeActivity = [
     (Ptr (Struct ''ANativeActivityCallbacks''), ''callbacks''),
     (Ptr JavaVM, ''vm''),
     (Ptr JNIEnv, ''env''),
     (jobject, ''clazz''),
     (Ptr (Const c_char), ''internalDataPath''),
     (Ptr (Const c_char), ''externalDataPath''),
     (int32_t, ''sdkVersion''),
     (Ptr c_void, ''instance''),
     (Ptr (Named ''AAssetManager''), ''assetManager''),
     (Ptr (Const c_char), ''obbPath'')]"

abbreviation activity_ptr :: ctype where "activity_ptr \<equiv> Ptr (Named ''ANativeActivity'')"
abbreviation window_ptr :: ctype where "window_ptr \<equiv> Ptr (Named ''ANativeWindow'')"
abbreviation queue_ptr :: ctype where "queue_ptr \<equiv> Ptr (Named ''AInputQueue'')"

definition ANativeActivityCallbacks :: c_members where
  "ANativeActivityCallbacks = [
     (Fun_ptr c_void [activity_ptr], ''onStart''),
     (Fun_ptr c_void [activity_ptr], ''onResume''),
     (Fun_ptr (Ptr c_void) [activity_ptr, Ptr size_t], ''onSaveInstanceState''),
     (Fun_ptr c_void [activity_ptr], ''onPause''),
     (Fun_ptr c_void [activity_ptr], ''onStop''),
     (Fun_ptr c_void [activity_ptr], ''onDestroy''),
     (Fun_ptr c_void [activity_ptr, c_int], ''onWindowFocusChanged''),
     (Fun_ptr c_void [activity_ptr, window_ptr], ''onNativeWindowCreated''),
     (Fun_ptr c_void [activity_ptr, window_ptr], ''onNativeWindowResized''),
     (Fun_ptr c_void [activity_ptr, window_ptr], ''onNativeWindowRedrawNeeded''),
     (Fun_ptr c_void [activity_ptr, window_ptr], ''onNativeWindowDestroyed''),
     (Fun_ptr c_void [activity_ptr, queue_ptr], ''onInputQueueCreated''),
     (Fun_ptr c_void [activity_ptr, queue_ptr], ''onInputQueueDestroyed''),
     (Fun_ptr c_void [activity_ptr, Ptr (Const (Named ''ARect''))], ''onContentRectChanged''),
     (Fun_ptr c_void [activity_ptr], ''onConfigurationChanged''),
     (Fun_ptr c_void [activity_ptr], ''onLowMemory'')]"

text \<open>
  A line of the structure is a member for the build when a type of words and at most one star stands in
  front of the name; any other line is passed over.
\<close>

fun declared_type :: "ctype \<Rightarrow> string option" where
  "declared_type (Named s) = Some (spelling (Named s))"
| "declared_type (Struct s) = Some (spelling (Struct s))"
| "declared_type (Const (Named s)) = Some (spelling (Const (Named s)))"
| "declared_type (Const (Struct s)) = Some (spelling (Const (Struct s)))"
| "declared_type (Ptr (Named s)) = Some (spelling (Ptr (Named s)))"
| "declared_type (Ptr (Struct s)) = Some (spelling (Ptr (Struct s)))"
| "declared_type (Ptr (Const (Named s))) = Some (spelling (Ptr (Const (Named s))))"
| "declared_type (Ptr (Const (Struct s))) = Some (spelling (Ptr (Const (Struct s))))"
| "declared_type _ = None"

definition member_size :: "nat \<Rightarrow> string \<Rightarrow> nat option" where
  "member_size P type =
     (if type \<noteq> [] \<and> last type = CHR ''*'' \<or> type = ''jobject'' then Some P
      else if type = ''int32_t'' then Some 4 else None)"

fun field_offset_from :: "nat \<Rightarrow> string \<Rightarrow> nat \<Rightarrow> c_members \<Rightarrow> nat option" where
  "field_offset_from P field offset [] = None"
| "field_offset_from P field offset ((t, name) # ms) =
     (case declared_type t of
        None \<Rightarrow> field_offset_from P field offset ms
      | Some type \<Rightarrow>
          (case member_size P type of
             None \<Rightarrow> None
           | Some width \<Rightarrow>
               let offset = nat ((int offset + int width - 1) AND - int width)
               in if name = field then Some offset else field_offset_from P field (offset + width) ms))"

definition Get_NativeActivityFieldOffset :: "c_members \<Rightarrow> string \<Rightarrow> nat \<Rightarrow> nat option" where
  "Get_NativeActivityFieldOffset members field P =
     (if P \<in> {4, 8} then field_offset_from P field 0 members else None)"

section \<open>The runtime contract\<close>

definition host_runtime_contract :: c_members where
  "host_runtime_contract = [
     (size_t, ''size''),
     (Ptr c_void, ''context''),
     (Fun_ptr size_t [Ptr (Const c_char), Ptr c_char, size_t, Ptr c_void], ''get_runtime_property''),
     (Fun_ptr c_bool [Ptr (Const c_char), Ptr int64_t, Ptr int64_t, Ptr int64_t], ''bundle_probe''),
     (Fun_ptr (Ptr (Const c_void)) [Ptr (Const c_char), Ptr (Const c_char)], ''pinvoke_override''),
     (Fun_ptr c_bool [Ptr (Const c_char), Ptr (Ptr c_void), Ptr int64_t], ''external_assembly_probe''),
     (Fun_ptr c_bool [Ptr (Const (Struct ''host_runtime_contract_native_code_context'')),
        Ptr (Struct ''host_runtime_contract_native_code_data'')], ''get_native_code_data'')]"

definition host_runtime_contract_native_code_context :: c_members where
  "host_runtime_contract_native_code_context =
     [(size_t, ''size''), (Ptr (Const c_char), ''assembly_path''), (Ptr (Const c_char), ''owner_composite_name'')]"

definition host_runtime_contract_native_code_data :: c_members where
  "host_runtime_contract_native_code_data =
     [(size_t, ''size''), (Ptr c_void, ''r2r_header_ptr''), (size_t, ''image_size''), (Ptr c_void, ''image_base'')]"

text \<open>The members the build's expression finds: function pointers, and lines of a size or a plain pointer.\<close>

fun contract_member :: "ctype \<Rightarrow> bool" where
  "contract_member (Fun_ptr t ts) = True"
| "contract_member t = (t = size_t \<or> t = Ptr c_void)"

record contract_layout =
  Size :: nat
  Offsets :: "(string \<times> nat) list"
  Members :: "string list"

definition Get_HostRuntimeContractLayout :: "c_members \<Rightarrow> nat \<Rightarrow> contract_layout option" where
  "Get_HostRuntimeContractLayout decls P =
     (let members = map snd (filter (\<lambda>(t, x). contract_member t) decls) in
      if members = [] \<or> hd members \<noteq> ''size'' \<or> ''external_assembly_probe'' \<notin> set members then None
      else Some \<lparr>Size = length members * P, Offsets = zip members (map (\<lambda>i. i * P) [0..<length members]), Members = members\<rparr>)"

section \<open>Log priorities\<close>

definition android_LogPriority :: "(string \<times> int option) list" where
  "android_LogPriority = [
     (''ANDROID_LOG_UNKNOWN'', Some 0), (''ANDROID_LOG_DEFAULT'', None), (''ANDROID_LOG_VERBOSE'', None),
     (''ANDROID_LOG_DEBUG'', None), (''ANDROID_LOG_INFO'', None), (''ANDROID_LOG_WARN'', None),
     (''ANDROID_LOG_ERROR'', None), (''ANDROID_LOG_FATAL'', None), (''ANDROID_LOG_SILENT'', None)]"

fun priority_from :: "int \<Rightarrow> string \<Rightarrow> (string \<times> int option) list \<Rightarrow> int option" where
  "priority_from n name [] = None"
| "priority_from n name ((x, init) # es) =
     (let v = (case init of Some k \<Rightarrow> k | None \<Rightarrow> n) in if x = name then Some v else priority_from (v + 1) name es)"

definition Get_AndroidLogPriority :: "string \<Rightarrow> int option" where
  "Get_AndroidLogPriority name = priority_from 0 name android_LogPriority"

section \<open>The offsets are those of the layout\<close>

text \<open>Members the build can size: references, 32-bit integers and pointers.\<close>

fun readable :: "ctype \<Rightarrow> bool" where
  "readable (Named s) = (s = ''jobject'' \<or> s = ''int32_t'')"
| "readable (Ptr t) = (declared_type (Ptr t) \<noteq> None)"
| "readable _ = False"

lemma declared_pointer: "declared_type (Ptr t) = Some ty \<Longrightarrow> ty \<noteq> [] \<and> last ty = CHR ''*''"
  by (induction "Ptr t" rule: declared_type.induct) auto

lemma readable_size:
  assumes "readable t"
  obtains ty n where "declared_type t = Some ty" "member_size P ty = Some n" "scalar_size P t = Some n" "n = P \<or> n = 4"
proof (cases t)
  case (Named s)
  then show ?thesis using assms that by (auto simp: member_size_def jni_refs_def)
next
  case (Ptr u)
  then obtain ty where "declared_type t = Some ty" using assms by auto
  moreover from this have "member_size P ty = Some P" using declared_pointer Ptr by (auto simp: member_size_def)
  ultimately show ?thesis using that Ptr by simp
qed (use assms in simp_all)

lemma field_offset_layout:
  assumes "P \<in> {4, 8}" "list_all (\<lambda>(t, x). readable t) ms"
  shows "\<exists>l e. layout_from P at ms = Some (l, e) \<and> field_offset_from P x at ms = map_of l x"
  using assms(2)
proof (induction ms arbitrary: at)
  case (Cons m ms)
  obtain t y where m: "m = (t, y)" by (cases m)
  then have t: "readable t" "list_all (\<lambda>(t, x). readable t) ms" using Cons.prems by simp_all
  obtain ty n where ty: "declared_type t = Some ty" "member_size P ty = Some n" "scalar_size P t = Some n" "n = P \<or> n = 4"
    using readable_size [OF t(1)] .
  from ty(4) assms(1) have "n = 2 ^ 2 \<or> n = 2 ^ 3" by auto
  then have "nat ((int at + int n - 1) AND - int n) = round_up n at"
    unfolding minus_eq_not_minus_1 [of "int n"] using and_not_round_up by metis
  moreover obtain l e where "layout_from P (round_up n at + n) ms = Some (l, e)"
      "field_offset_from P x (round_up n at + n) ms = map_of l x"
    using Cons.IH [OF t(2)] by blast
  ultimately show ?case by (simp add: m ty(1-3) Let_def)
qed simp

lemma native_activity_offset:
  assumes "P \<in> {4, 8}"
  shows "Get_NativeActivityFieldOffset ANativeActivity x P = offsetof P ANativeActivity x"
proof -
  have "list_all (\<lambda>(t, x). readable t) ANativeActivity" by (simp add: ANativeActivity_def)
  from field_offset_layout [OF assms this, of 0 x] show ?thesis
    using assms by (auto simp: Get_NativeActivityFieldOffset_def offsetof_def)
qed

lemma activity_fields:
  assumes "0 < P" "4 dvd P"
  shows "offsetof P ANativeActivity ''env'' = Some (2 * P)" "offsetof P ANativeActivity ''clazz'' = Some (3 * P)"
proof -
  have "round_up P P = P" "round_up P (P + P) = P + P" "round_up P (P + P + P) = P + P + P"
    "round_up P (P + P + P + P) = P + P + P + P" "round_up P (P + P + P + P + P) = P + P + P + P + P" "round_up P 0 = 0"
    using assms(1) by (simp_all add: round_up_dvd)
  then show "offsetof P ANativeActivity ''env'' = Some (2 * P)" "offsetof P ANativeActivity ''clazz'' = Some (3 * P)"
    by (simp_all add: offsetof_def ANativeActivity_def jni_refs_def)
qed

text \<open>A line the expression does not recognise is passed over, with its size: an offset behind it is too small.\<close>

lemma skipped_member:
  "Get_NativeActivityFieldOffset [(Ptr (Ptr c_void), ''a''), (Ptr c_void, ''b'')] ''b'' 8 = Some 0"
  "offsetof 8 [(Ptr (Ptr c_void), ''a''), (Ptr c_void, ''b'')] ''b'' = Some 8"
  by (simp_all add: Get_NativeActivityFieldOffset_def member_size_def offsetof_def round_up_def Let_def)

lemma contract_pointer_wide: "pointer_wide P host_runtime_contract"
  by (simp add: pointer_wide_def host_runtime_contract_def)

lemma contract_layout:
  assumes "0 < P"
  obtains l where "Get_HostRuntimeContractLayout host_runtime_contract P = Some l"
    "sizeof_struct P host_runtime_contract = Some (Size l)" "\<And>x. offsetof P host_runtime_contract x = map_of (Offsets l) x"
proof -
  have "filter (\<lambda>(t, x). contract_member t) host_runtime_contract = host_runtime_contract"
    by (simp add: host_runtime_contract_def)
  moreover have "map snd host_runtime_contract \<noteq> []" "hd (map snd host_runtime_contract) = ''size''"
      "''external_assembly_probe'' \<in> set (map snd host_runtime_contract)"
    by (simp_all add: host_runtime_contract_def)
  ultimately have "Get_HostRuntimeContractLayout host_runtime_contract P =
      Some \<lparr>Size = length host_runtime_contract * P,
        Offsets = zip (map snd host_runtime_contract) (map (\<lambda>i. i * P) [0..<length host_runtime_contract]),
        Members = map snd host_runtime_contract\<rparr>"
    by (simp add: Get_HostRuntimeContractLayout_def Let_def)
  then show ?thesis
    by (rule that) (simp_all add: pointer_sizeof [OF assms contract_pointer_wide] pointer_layout [OF assms contract_pointer_wide] offsetof_def)
qed

text \<open>The priorities the host logs with, and their order.\<close>

lemma log_priorities:
  "Get_AndroidLogPriority ''ANDROID_LOG_INFO'' = Some 4" "Get_AndroidLogPriority ''ANDROID_LOG_ERROR'' = Some 6"
  "map (\<lambda>(x, i). Get_AndroidLogPriority x) android_LogPriority = map Some [0 .. 8]"
  by (simp_all add: Get_AndroidLogPriority_def android_LogPriority_def Let_def upto.simps)

end
