(* ===== verification/Jni_Table.thy ===== *)
theory Jni_Table
  imports Native_Headers "HOL-Library.Monad_Syntax"
begin

text \<open>
  The function tables of \<open>lib/jni.h\<close>: \<open>JNINativeInterface\<close> with its 233 pointers, \<open>JNIInvokeInterface\<close> and
  the structures the interface passes, as members in the order of the header; and \<open>Get-JniFunctionTable\<close>
  of \<open>setup.ps1\<close>, which derives the slot of every function from the header's text.
\<close>

section \<open>Types\<close>

abbreviation jboolean :: ctype where "jboolean \<equiv> Named ''jboolean''"
abbreviation jbyte :: ctype where "jbyte \<equiv> Named ''jbyte''"
abbreviation jchar :: ctype where "jchar \<equiv> Named ''jchar''"
abbreviation jshort :: ctype where "jshort \<equiv> Named ''jshort''"
abbreviation jint :: ctype where "jint \<equiv> Named ''jint''"
abbreviation jlong :: ctype where "jlong \<equiv> Named ''jlong''"
abbreviation jfloat :: ctype where "jfloat \<equiv> Named ''jfloat''"
abbreviation jdouble :: ctype where "jdouble \<equiv> Named ''jdouble''"
abbreviation jsize :: ctype where "jsize \<equiv> jint"
abbreviation jclass :: ctype where "jclass \<equiv> Named ''jclass''"
abbreviation jstring :: ctype where "jstring \<equiv> Named ''jstring''"
abbreviation jarray :: ctype where "jarray \<equiv> Named ''jarray''"
abbreviation jobjectArray :: ctype where "jobjectArray \<equiv> Named ''jobjectArray''"
abbreviation jbooleanArray :: ctype where "jbooleanArray \<equiv> Named ''jbooleanArray''"
abbreviation jbyteArray :: ctype where "jbyteArray \<equiv> Named ''jbyteArray''"
abbreviation jcharArray :: ctype where "jcharArray \<equiv> Named ''jcharArray''"
abbreviation jshortArray :: ctype where "jshortArray \<equiv> Named ''jshortArray''"
abbreviation jintArray :: ctype where "jintArray \<equiv> Named ''jintArray''"
abbreviation jlongArray :: ctype where "jlongArray \<equiv> Named ''jlongArray''"
abbreviation jfloatArray :: ctype where "jfloatArray \<equiv> Named ''jfloatArray''"
abbreviation jdoubleArray :: ctype where "jdoubleArray \<equiv> Named ''jdoubleArray''"
abbreviation jthrowable :: ctype where "jthrowable \<equiv> Named ''jthrowable''"
abbreviation jweak :: ctype where "jweak \<equiv> jobject"
abbreviation jfieldID :: ctype where "jfieldID \<equiv> Named ''jfieldID''"
abbreviation jmethodID :: ctype where "jmethodID \<equiv> Named ''jmethodID''"
abbreviation jvalue :: ctype where "jvalue \<equiv> Named ''jvalue''"
abbreviation jobjectRefType :: ctype where "jobjectRefType \<equiv> Named ''jobjectRefType''"

definition JNINativeMethod :: c_members where
  "JNINativeMethod = [(Ptr (Const c_char), ''name''), (Ptr (Const c_char), ''signature''), (Ptr c_void, ''fnPtr'')]"

abbreviation JNINativeMethod_t :: ctype where "JNINativeMethod_t \<equiv> Named ''JNINativeMethod''"

text \<open>The members of the union \<open>jvalue\<close>; as wide as its widest.\<close>

definition jvalue_members :: c_members where
  "jvalue_members = [(jboolean, ''z''), (jbyte, ''b''), (jchar, ''c''), (jshort, ''s''), (jint, ''i''), (jlong, ''j''),
     (jfloat, ''f''), (jdouble, ''d''), (jobject, ''l'')]"

definition jobjectRefType_values :: "(string \<times> int) list" where
  "jobjectRefType_values = [(''JNIInvalidRefType'', 0), (''JNILocalRefType'', 1), (''JNIGlobalRefType'', 2), (''JNIWeakGlobalRefType'', 3)]"

section \<open>The native interface\<close>

definition jni_object_slots :: c_members where
  "jni_object_slots = [
     (Ptr c_void, ''reserved0''), (Ptr c_void, ''reserved1''), (Ptr c_void, ''reserved2''), (Ptr c_void, ''reserved3''),
     (Fun_ptr jint [Ptr JNIEnv], ''GetVersion''),
     (Fun_ptr jclass [Ptr JNIEnv, Ptr (Const c_char), jobject, Ptr (Const jbyte), jsize], ''DefineClass''),
     (Fun_ptr jclass [Ptr JNIEnv, Ptr (Const c_char)], ''FindClass''),
     (Fun_ptr jmethodID [Ptr JNIEnv, jobject], ''FromReflectedMethod''),
     (Fun_ptr jfieldID [Ptr JNIEnv, jobject], ''FromReflectedField''),
     (Fun_ptr jobject [Ptr JNIEnv, jclass, jmethodID, jboolean], ''ToReflectedMethod''),
     (Fun_ptr jclass [Ptr JNIEnv, jclass], ''GetSuperclass''),
     (Fun_ptr jboolean [Ptr JNIEnv, jclass, jclass], ''IsAssignableFrom''),
     (Fun_ptr jobject [Ptr JNIEnv, jclass, jfieldID, jboolean], ''ToReflectedField''),
     (Fun_ptr jint [Ptr JNIEnv, jthrowable], ''Throw''), (Fun_ptr jint [Ptr JNIEnv, jclass, Ptr (Const c_char)], ''ThrowNew''),
     (Fun_ptr jthrowable [Ptr JNIEnv], ''ExceptionOccurred''), (Fun_ptr c_void [Ptr JNIEnv], ''ExceptionDescribe''),
     (Fun_ptr c_void [Ptr JNIEnv], ''ExceptionClear''), (Fun_ptr c_void [Ptr JNIEnv, Ptr (Const c_char)], ''FatalError''),
     (Fun_ptr jint [Ptr JNIEnv, jint], ''PushLocalFrame''), (Fun_ptr jobject [Ptr JNIEnv, jobject], ''PopLocalFrame''),
     (Fun_ptr jobject [Ptr JNIEnv, jobject], ''NewGlobalRef''), (Fun_ptr c_void [Ptr JNIEnv, jobject], ''DeleteGlobalRef''),
     (Fun_ptr c_void [Ptr JNIEnv, jobject], ''DeleteLocalRef''),
     (Fun_ptr jboolean [Ptr JNIEnv, jobject, jobject], ''IsSameObject''),
     (Fun_ptr jobject [Ptr JNIEnv, jobject], ''NewLocalRef''), (Fun_ptr jint [Ptr JNIEnv, jint], ''EnsureLocalCapacity''),
     (Fun_ptr jobject [Ptr JNIEnv, jclass], ''AllocObject''),
     (Fun_ptr jobject [Ptr JNIEnv, jclass, jmethodID, Varargs], ''NewObject''),
     (Fun_ptr jobject [Ptr JNIEnv, jclass, jmethodID, va_list], ''NewObjectV''),
     (Fun_ptr jobject [Ptr JNIEnv, jclass, jmethodID, Ptr (Const jvalue)], ''NewObjectA''),
     (Fun_ptr jclass [Ptr JNIEnv, jobject], ''GetObjectClass''),
     (Fun_ptr jboolean [Ptr JNIEnv, jobject, jclass], ''IsInstanceOf''),
     (Fun_ptr jmethodID [Ptr JNIEnv, jclass, Ptr (Const c_char), Ptr (Const c_char)], ''GetMethodID'')]"

definition jni_virtual_call_slots :: c_members where
  "jni_virtual_call_slots = [
     (Fun_ptr jobject [Ptr JNIEnv, jobject, jmethodID, Varargs], ''CallObjectMethod''),
     (Fun_ptr jobject [Ptr JNIEnv, jobject, jmethodID, va_list], ''CallObjectMethodV''),
     (Fun_ptr jobject [Ptr JNIEnv, jobject, jmethodID, Ptr (Const jvalue)], ''CallObjectMethodA''),
     (Fun_ptr jboolean [Ptr JNIEnv, jobject, jmethodID, Varargs], ''CallBooleanMethod''),
     (Fun_ptr jboolean [Ptr JNIEnv, jobject, jmethodID, va_list], ''CallBooleanMethodV''),
     (Fun_ptr jboolean [Ptr JNIEnv, jobject, jmethodID, Ptr (Const jvalue)], ''CallBooleanMethodA''),
     (Fun_ptr jbyte [Ptr JNIEnv, jobject, jmethodID, Varargs], ''CallByteMethod''),
     (Fun_ptr jbyte [Ptr JNIEnv, jobject, jmethodID, va_list], ''CallByteMethodV''),
     (Fun_ptr jbyte [Ptr JNIEnv, jobject, jmethodID, Ptr (Const jvalue)], ''CallByteMethodA''),
     (Fun_ptr jchar [Ptr JNIEnv, jobject, jmethodID, Varargs], ''CallCharMethod''),
     (Fun_ptr jchar [Ptr JNIEnv, jobject, jmethodID, va_list], ''CallCharMethodV''),
     (Fun_ptr jchar [Ptr JNIEnv, jobject, jmethodID, Ptr (Const jvalue)], ''CallCharMethodA''),
     (Fun_ptr jshort [Ptr JNIEnv, jobject, jmethodID, Varargs], ''CallShortMethod''),
     (Fun_ptr jshort [Ptr JNIEnv, jobject, jmethodID, va_list], ''CallShortMethodV''),
     (Fun_ptr jshort [Ptr JNIEnv, jobject, jmethodID, Ptr (Const jvalue)], ''CallShortMethodA''),
     (Fun_ptr jint [Ptr JNIEnv, jobject, jmethodID, Varargs], ''CallIntMethod''),
     (Fun_ptr jint [Ptr JNIEnv, jobject, jmethodID, va_list], ''CallIntMethodV''),
     (Fun_ptr jint [Ptr JNIEnv, jobject, jmethodID, Ptr (Const jvalue)], ''CallIntMethodA''),
     (Fun_ptr jlong [Ptr JNIEnv, jobject, jmethodID, Varargs], ''CallLongMethod''),
     (Fun_ptr jlong [Ptr JNIEnv, jobject, jmethodID, va_list], ''CallLongMethodV''),
     (Fun_ptr jlong [Ptr JNIEnv, jobject, jmethodID, Ptr (Const jvalue)], ''CallLongMethodA''),
     (Fun_ptr jfloat [Ptr JNIEnv, jobject, jmethodID, Varargs], ''CallFloatMethod''),
     (Fun_ptr jfloat [Ptr JNIEnv, jobject, jmethodID, va_list], ''CallFloatMethodV''),
     (Fun_ptr jfloat [Ptr JNIEnv, jobject, jmethodID, Ptr (Const jvalue)], ''CallFloatMethodA''),
     (Fun_ptr jdouble [Ptr JNIEnv, jobject, jmethodID, Varargs], ''CallDoubleMethod''),
     (Fun_ptr jdouble [Ptr JNIEnv, jobject, jmethodID, va_list], ''CallDoubleMethodV''),
     (Fun_ptr jdouble [Ptr JNIEnv, jobject, jmethodID, Ptr (Const jvalue)], ''CallDoubleMethodA''),
     (Fun_ptr c_void [Ptr JNIEnv, jobject, jmethodID, Varargs], ''CallVoidMethod''),
     (Fun_ptr c_void [Ptr JNIEnv, jobject, jmethodID, va_list], ''CallVoidMethodV''),
     (Fun_ptr c_void [Ptr JNIEnv, jobject, jmethodID, Ptr (Const jvalue)], ''CallVoidMethodA'')]"

definition jni_nonvirtual_call_slots :: c_members where
  "jni_nonvirtual_call_slots = [
     (Fun_ptr jobject [Ptr JNIEnv, jobject, jclass, jmethodID, Varargs], ''CallNonvirtualObjectMethod''),
     (Fun_ptr jobject [Ptr JNIEnv, jobject, jclass, jmethodID, va_list], ''CallNonvirtualObjectMethodV''),
     (Fun_ptr jobject [Ptr JNIEnv, jobject, jclass, jmethodID, Ptr (Const jvalue)], ''CallNonvirtualObjectMethodA''),
     (Fun_ptr jboolean [Ptr JNIEnv, jobject, jclass, jmethodID, Varargs], ''CallNonvirtualBooleanMethod''),
     (Fun_ptr jboolean [Ptr JNIEnv, jobject, jclass, jmethodID, va_list], ''CallNonvirtualBooleanMethodV''),
     (Fun_ptr jboolean [Ptr JNIEnv, jobject, jclass, jmethodID, Ptr (Const jvalue)], ''CallNonvirtualBooleanMethodA''),
     (Fun_ptr jbyte [Ptr JNIEnv, jobject, jclass, jmethodID, Varargs], ''CallNonvirtualByteMethod''),
     (Fun_ptr jbyte [Ptr JNIEnv, jobject, jclass, jmethodID, va_list], ''CallNonvirtualByteMethodV''),
     (Fun_ptr jbyte [Ptr JNIEnv, jobject, jclass, jmethodID, Ptr (Const jvalue)], ''CallNonvirtualByteMethodA''),
     (Fun_ptr jchar [Ptr JNIEnv, jobject, jclass, jmethodID, Varargs], ''CallNonvirtualCharMethod''),
     (Fun_ptr jchar [Ptr JNIEnv, jobject, jclass, jmethodID, va_list], ''CallNonvirtualCharMethodV''),
     (Fun_ptr jchar [Ptr JNIEnv, jobject, jclass, jmethodID, Ptr (Const jvalue)], ''CallNonvirtualCharMethodA''),
     (Fun_ptr jshort [Ptr JNIEnv, jobject, jclass, jmethodID, Varargs], ''CallNonvirtualShortMethod''),
     (Fun_ptr jshort [Ptr JNIEnv, jobject, jclass, jmethodID, va_list], ''CallNonvirtualShortMethodV''),
     (Fun_ptr jshort [Ptr JNIEnv, jobject, jclass, jmethodID, Ptr (Const jvalue)], ''CallNonvirtualShortMethodA''),
     (Fun_ptr jint [Ptr JNIEnv, jobject, jclass, jmethodID, Varargs], ''CallNonvirtualIntMethod''),
     (Fun_ptr jint [Ptr JNIEnv, jobject, jclass, jmethodID, va_list], ''CallNonvirtualIntMethodV''),
     (Fun_ptr jint [Ptr JNIEnv, jobject, jclass, jmethodID, Ptr (Const jvalue)], ''CallNonvirtualIntMethodA''),
     (Fun_ptr jlong [Ptr JNIEnv, jobject, jclass, jmethodID, Varargs], ''CallNonvirtualLongMethod''),
     (Fun_ptr jlong [Ptr JNIEnv, jobject, jclass, jmethodID, va_list], ''CallNonvirtualLongMethodV''),
     (Fun_ptr jlong [Ptr JNIEnv, jobject, jclass, jmethodID, Ptr (Const jvalue)], ''CallNonvirtualLongMethodA''),
     (Fun_ptr jfloat [Ptr JNIEnv, jobject, jclass, jmethodID, Varargs], ''CallNonvirtualFloatMethod''),
     (Fun_ptr jfloat [Ptr JNIEnv, jobject, jclass, jmethodID, va_list], ''CallNonvirtualFloatMethodV''),
     (Fun_ptr jfloat [Ptr JNIEnv, jobject, jclass, jmethodID, Ptr (Const jvalue)], ''CallNonvirtualFloatMethodA''),
     (Fun_ptr jdouble [Ptr JNIEnv, jobject, jclass, jmethodID, Varargs], ''CallNonvirtualDoubleMethod''),
     (Fun_ptr jdouble [Ptr JNIEnv, jobject, jclass, jmethodID, va_list], ''CallNonvirtualDoubleMethodV''),
     (Fun_ptr jdouble [Ptr JNIEnv, jobject, jclass, jmethodID, Ptr (Const jvalue)], ''CallNonvirtualDoubleMethodA''),
     (Fun_ptr c_void [Ptr JNIEnv, jobject, jclass, jmethodID, Varargs], ''CallNonvirtualVoidMethod''),
     (Fun_ptr c_void [Ptr JNIEnv, jobject, jclass, jmethodID, va_list], ''CallNonvirtualVoidMethodV''),
     (Fun_ptr c_void [Ptr JNIEnv, jobject, jclass, jmethodID, Ptr (Const jvalue)], ''CallNonvirtualVoidMethodA'')]"

definition jni_field_slots :: c_members where
  "jni_field_slots = [
     (Fun_ptr jfieldID [Ptr JNIEnv, jclass, Ptr (Const c_char), Ptr (Const c_char)], ''GetFieldID''),
     (Fun_ptr jobject [Ptr JNIEnv, jobject, jfieldID], ''GetObjectField''),
     (Fun_ptr jboolean [Ptr JNIEnv, jobject, jfieldID], ''GetBooleanField''),
     (Fun_ptr jbyte [Ptr JNIEnv, jobject, jfieldID], ''GetByteField''),
     (Fun_ptr jchar [Ptr JNIEnv, jobject, jfieldID], ''GetCharField''),
     (Fun_ptr jshort [Ptr JNIEnv, jobject, jfieldID], ''GetShortField''),
     (Fun_ptr jint [Ptr JNIEnv, jobject, jfieldID], ''GetIntField''),
     (Fun_ptr jlong [Ptr JNIEnv, jobject, jfieldID], ''GetLongField''),
     (Fun_ptr jfloat [Ptr JNIEnv, jobject, jfieldID], ''GetFloatField''),
     (Fun_ptr jdouble [Ptr JNIEnv, jobject, jfieldID], ''GetDoubleField''),
     (Fun_ptr c_void [Ptr JNIEnv, jobject, jfieldID, jobject], ''SetObjectField''),
     (Fun_ptr c_void [Ptr JNIEnv, jobject, jfieldID, jboolean], ''SetBooleanField''),
     (Fun_ptr c_void [Ptr JNIEnv, jobject, jfieldID, jbyte], ''SetByteField''),
     (Fun_ptr c_void [Ptr JNIEnv, jobject, jfieldID, jchar], ''SetCharField''),
     (Fun_ptr c_void [Ptr JNIEnv, jobject, jfieldID, jshort], ''SetShortField''),
     (Fun_ptr c_void [Ptr JNIEnv, jobject, jfieldID, jint], ''SetIntField''),
     (Fun_ptr c_void [Ptr JNIEnv, jobject, jfieldID, jlong], ''SetLongField''),
     (Fun_ptr c_void [Ptr JNIEnv, jobject, jfieldID, jfloat], ''SetFloatField''),
     (Fun_ptr c_void [Ptr JNIEnv, jobject, jfieldID, jdouble], ''SetDoubleField'')]"

definition jni_static_slots :: c_members where
  "jni_static_slots = [
     (Fun_ptr jmethodID [Ptr JNIEnv, jclass, Ptr (Const c_char), Ptr (Const c_char)], ''GetStaticMethodID''),
     (Fun_ptr jobject [Ptr JNIEnv, jclass, jmethodID, Varargs], ''CallStaticObjectMethod''),
     (Fun_ptr jobject [Ptr JNIEnv, jclass, jmethodID, va_list], ''CallStaticObjectMethodV''),
     (Fun_ptr jobject [Ptr JNIEnv, jclass, jmethodID, Ptr (Const jvalue)], ''CallStaticObjectMethodA''),
     (Fun_ptr jboolean [Ptr JNIEnv, jclass, jmethodID, Varargs], ''CallStaticBooleanMethod''),
     (Fun_ptr jboolean [Ptr JNIEnv, jclass, jmethodID, va_list], ''CallStaticBooleanMethodV''),
     (Fun_ptr jboolean [Ptr JNIEnv, jclass, jmethodID, Ptr (Const jvalue)], ''CallStaticBooleanMethodA''),
     (Fun_ptr jbyte [Ptr JNIEnv, jclass, jmethodID, Varargs], ''CallStaticByteMethod''),
     (Fun_ptr jbyte [Ptr JNIEnv, jclass, jmethodID, va_list], ''CallStaticByteMethodV''),
     (Fun_ptr jbyte [Ptr JNIEnv, jclass, jmethodID, Ptr (Const jvalue)], ''CallStaticByteMethodA''),
     (Fun_ptr jchar [Ptr JNIEnv, jclass, jmethodID, Varargs], ''CallStaticCharMethod''),
     (Fun_ptr jchar [Ptr JNIEnv, jclass, jmethodID, va_list], ''CallStaticCharMethodV''),
     (Fun_ptr jchar [Ptr JNIEnv, jclass, jmethodID, Ptr (Const jvalue)], ''CallStaticCharMethodA''),
     (Fun_ptr jshort [Ptr JNIEnv, jclass, jmethodID, Varargs], ''CallStaticShortMethod''),
     (Fun_ptr jshort [Ptr JNIEnv, jclass, jmethodID, va_list], ''CallStaticShortMethodV''),
     (Fun_ptr jshort [Ptr JNIEnv, jclass, jmethodID, Ptr (Const jvalue)], ''CallStaticShortMethodA''),
     (Fun_ptr jint [Ptr JNIEnv, jclass, jmethodID, Varargs], ''CallStaticIntMethod''),
     (Fun_ptr jint [Ptr JNIEnv, jclass, jmethodID, va_list], ''CallStaticIntMethodV''),
     (Fun_ptr jint [Ptr JNIEnv, jclass, jmethodID, Ptr (Const jvalue)], ''CallStaticIntMethodA''),
     (Fun_ptr jlong [Ptr JNIEnv, jclass, jmethodID, Varargs], ''CallStaticLongMethod''),
     (Fun_ptr jlong [Ptr JNIEnv, jclass, jmethodID, va_list], ''CallStaticLongMethodV''),
     (Fun_ptr jlong [Ptr JNIEnv, jclass, jmethodID, Ptr (Const jvalue)], ''CallStaticLongMethodA''),
     (Fun_ptr jfloat [Ptr JNIEnv, jclass, jmethodID, Varargs], ''CallStaticFloatMethod''),
     (Fun_ptr jfloat [Ptr JNIEnv, jclass, jmethodID, va_list], ''CallStaticFloatMethodV''),
     (Fun_ptr jfloat [Ptr JNIEnv, jclass, jmethodID, Ptr (Const jvalue)], ''CallStaticFloatMethodA''),
     (Fun_ptr jdouble [Ptr JNIEnv, jclass, jmethodID, Varargs], ''CallStaticDoubleMethod''),
     (Fun_ptr jdouble [Ptr JNIEnv, jclass, jmethodID, va_list], ''CallStaticDoubleMethodV''),
     (Fun_ptr jdouble [Ptr JNIEnv, jclass, jmethodID, Ptr (Const jvalue)], ''CallStaticDoubleMethodA''),
     (Fun_ptr c_void [Ptr JNIEnv, jclass, jmethodID, Varargs], ''CallStaticVoidMethod''),
     (Fun_ptr c_void [Ptr JNIEnv, jclass, jmethodID, va_list], ''CallStaticVoidMethodV''),
     (Fun_ptr c_void [Ptr JNIEnv, jclass, jmethodID, Ptr (Const jvalue)], ''CallStaticVoidMethodA''),
     (Fun_ptr jfieldID [Ptr JNIEnv, jclass, Ptr (Const c_char), Ptr (Const c_char)], ''GetStaticFieldID''),
     (Fun_ptr jobject [Ptr JNIEnv, jclass, jfieldID], ''GetStaticObjectField''),
     (Fun_ptr jboolean [Ptr JNIEnv, jclass, jfieldID], ''GetStaticBooleanField''),
     (Fun_ptr jbyte [Ptr JNIEnv, jclass, jfieldID], ''GetStaticByteField''),
     (Fun_ptr jchar [Ptr JNIEnv, jclass, jfieldID], ''GetStaticCharField''),
     (Fun_ptr jshort [Ptr JNIEnv, jclass, jfieldID], ''GetStaticShortField''),
     (Fun_ptr jint [Ptr JNIEnv, jclass, jfieldID], ''GetStaticIntField''),
     (Fun_ptr jlong [Ptr JNIEnv, jclass, jfieldID], ''GetStaticLongField''),
     (Fun_ptr jfloat [Ptr JNIEnv, jclass, jfieldID], ''GetStaticFloatField''),
     (Fun_ptr jdouble [Ptr JNIEnv, jclass, jfieldID], ''GetStaticDoubleField''),
     (Fun_ptr c_void [Ptr JNIEnv, jclass, jfieldID, jobject], ''SetStaticObjectField''),
     (Fun_ptr c_void [Ptr JNIEnv, jclass, jfieldID, jboolean], ''SetStaticBooleanField''),
     (Fun_ptr c_void [Ptr JNIEnv, jclass, jfieldID, jbyte], ''SetStaticByteField''),
     (Fun_ptr c_void [Ptr JNIEnv, jclass, jfieldID, jchar], ''SetStaticCharField''),
     (Fun_ptr c_void [Ptr JNIEnv, jclass, jfieldID, jshort], ''SetStaticShortField''),
     (Fun_ptr c_void [Ptr JNIEnv, jclass, jfieldID, jint], ''SetStaticIntField''),
     (Fun_ptr c_void [Ptr JNIEnv, jclass, jfieldID, jlong], ''SetStaticLongField''),
     (Fun_ptr c_void [Ptr JNIEnv, jclass, jfieldID, jfloat], ''SetStaticFloatField''),
     (Fun_ptr c_void [Ptr JNIEnv, jclass, jfieldID, jdouble], ''SetStaticDoubleField'')]"

definition jni_string_slots :: c_members where
  "jni_string_slots = [
     (Fun_ptr jstring [Ptr JNIEnv, Ptr (Const jchar), jsize], ''NewString''),
     (Fun_ptr jsize [Ptr JNIEnv, jstring], ''GetStringLength''),
     (Fun_ptr (Ptr (Const jchar)) [Ptr JNIEnv, jstring, Ptr jboolean], ''GetStringChars''),
     (Fun_ptr c_void [Ptr JNIEnv, jstring, Ptr (Const jchar)], ''ReleaseStringChars''),
     (Fun_ptr jstring [Ptr JNIEnv, Ptr (Const c_char)], ''NewStringUTF''),
     (Fun_ptr jsize [Ptr JNIEnv, jstring], ''GetStringUTFLength''),
     (Fun_ptr (Ptr (Const c_char)) [Ptr JNIEnv, jstring, Ptr jboolean], ''GetStringUTFChars''),
     (Fun_ptr c_void [Ptr JNIEnv, jstring, Ptr (Const c_char)], ''ReleaseStringUTFChars''),
     (Fun_ptr jsize [Ptr JNIEnv, jarray], ''GetArrayLength''),
     (Fun_ptr jobjectArray [Ptr JNIEnv, jsize, jclass, jobject], ''NewObjectArray''),
     (Fun_ptr jobject [Ptr JNIEnv, jobjectArray, jsize], ''GetObjectArrayElement''),
     (Fun_ptr c_void [Ptr JNIEnv, jobjectArray, jsize, jobject], ''SetObjectArrayElement'')]"

definition jni_array_slots :: c_members where
  "jni_array_slots = [
     (Fun_ptr jbooleanArray [Ptr JNIEnv, jsize], ''NewBooleanArray''),
     (Fun_ptr jbyteArray [Ptr JNIEnv, jsize], ''NewByteArray''), (Fun_ptr jcharArray [Ptr JNIEnv, jsize], ''NewCharArray''),
     (Fun_ptr jshortArray [Ptr JNIEnv, jsize], ''NewShortArray''), (Fun_ptr jintArray [Ptr JNIEnv, jsize], ''NewIntArray''),
     (Fun_ptr jlongArray [Ptr JNIEnv, jsize], ''NewLongArray''), (Fun_ptr jfloatArray [Ptr JNIEnv, jsize], ''NewFloatArray''),
     (Fun_ptr jdoubleArray [Ptr JNIEnv, jsize], ''NewDoubleArray''),
     (Fun_ptr (Ptr jboolean) [Ptr JNIEnv, jbooleanArray, Ptr jboolean], ''GetBooleanArrayElements''),
     (Fun_ptr (Ptr jbyte) [Ptr JNIEnv, jbyteArray, Ptr jboolean], ''GetByteArrayElements''),
     (Fun_ptr (Ptr jchar) [Ptr JNIEnv, jcharArray, Ptr jboolean], ''GetCharArrayElements''),
     (Fun_ptr (Ptr jshort) [Ptr JNIEnv, jshortArray, Ptr jboolean], ''GetShortArrayElements''),
     (Fun_ptr (Ptr jint) [Ptr JNIEnv, jintArray, Ptr jboolean], ''GetIntArrayElements''),
     (Fun_ptr (Ptr jlong) [Ptr JNIEnv, jlongArray, Ptr jboolean], ''GetLongArrayElements''),
     (Fun_ptr (Ptr jfloat) [Ptr JNIEnv, jfloatArray, Ptr jboolean], ''GetFloatArrayElements''),
     (Fun_ptr (Ptr jdouble) [Ptr JNIEnv, jdoubleArray, Ptr jboolean], ''GetDoubleArrayElements''),
     (Fun_ptr c_void [Ptr JNIEnv, jbooleanArray, Ptr jboolean, jint], ''ReleaseBooleanArrayElements''),
     (Fun_ptr c_void [Ptr JNIEnv, jbyteArray, Ptr jbyte, jint], ''ReleaseByteArrayElements''),
     (Fun_ptr c_void [Ptr JNIEnv, jcharArray, Ptr jchar, jint], ''ReleaseCharArrayElements''),
     (Fun_ptr c_void [Ptr JNIEnv, jshortArray, Ptr jshort, jint], ''ReleaseShortArrayElements''),
     (Fun_ptr c_void [Ptr JNIEnv, jintArray, Ptr jint, jint], ''ReleaseIntArrayElements''),
     (Fun_ptr c_void [Ptr JNIEnv, jlongArray, Ptr jlong, jint], ''ReleaseLongArrayElements''),
     (Fun_ptr c_void [Ptr JNIEnv, jfloatArray, Ptr jfloat, jint], ''ReleaseFloatArrayElements''),
     (Fun_ptr c_void [Ptr JNIEnv, jdoubleArray, Ptr jdouble, jint], ''ReleaseDoubleArrayElements''),
     (Fun_ptr c_void [Ptr JNIEnv, jbooleanArray, jsize, jsize, Ptr jboolean], ''GetBooleanArrayRegion''),
     (Fun_ptr c_void [Ptr JNIEnv, jbyteArray, jsize, jsize, Ptr jbyte], ''GetByteArrayRegion''),
     (Fun_ptr c_void [Ptr JNIEnv, jcharArray, jsize, jsize, Ptr jchar], ''GetCharArrayRegion''),
     (Fun_ptr c_void [Ptr JNIEnv, jshortArray, jsize, jsize, Ptr jshort], ''GetShortArrayRegion''),
     (Fun_ptr c_void [Ptr JNIEnv, jintArray, jsize, jsize, Ptr jint], ''GetIntArrayRegion''),
     (Fun_ptr c_void [Ptr JNIEnv, jlongArray, jsize, jsize, Ptr jlong], ''GetLongArrayRegion''),
     (Fun_ptr c_void [Ptr JNIEnv, jfloatArray, jsize, jsize, Ptr jfloat], ''GetFloatArrayRegion''),
     (Fun_ptr c_void [Ptr JNIEnv, jdoubleArray, jsize, jsize, Ptr jdouble], ''GetDoubleArrayRegion''),
     (Fun_ptr c_void [Ptr JNIEnv, jbooleanArray, jsize, jsize, Ptr (Const jboolean)], ''SetBooleanArrayRegion''),
     (Fun_ptr c_void [Ptr JNIEnv, jbyteArray, jsize, jsize, Ptr (Const jbyte)], ''SetByteArrayRegion''),
     (Fun_ptr c_void [Ptr JNIEnv, jcharArray, jsize, jsize, Ptr (Const jchar)], ''SetCharArrayRegion''),
     (Fun_ptr c_void [Ptr JNIEnv, jshortArray, jsize, jsize, Ptr (Const jshort)], ''SetShortArrayRegion''),
     (Fun_ptr c_void [Ptr JNIEnv, jintArray, jsize, jsize, Ptr (Const jint)], ''SetIntArrayRegion''),
     (Fun_ptr c_void [Ptr JNIEnv, jlongArray, jsize, jsize, Ptr (Const jlong)], ''SetLongArrayRegion''),
     (Fun_ptr c_void [Ptr JNIEnv, jfloatArray, jsize, jsize, Ptr (Const jfloat)], ''SetFloatArrayRegion''),
     (Fun_ptr c_void [Ptr JNIEnv, jdoubleArray, jsize, jsize, Ptr (Const jdouble)], ''SetDoubleArrayRegion'')]"

definition jni_machine_slots :: c_members where
  "jni_machine_slots = [
     (Fun_ptr jint [Ptr JNIEnv, jclass, Ptr (Const JNINativeMethod_t), jint], ''RegisterNatives''),
     (Fun_ptr jint [Ptr JNIEnv, jclass], ''UnregisterNatives''), (Fun_ptr jint [Ptr JNIEnv, jobject], ''MonitorEnter''),
     (Fun_ptr jint [Ptr JNIEnv, jobject], ''MonitorExit''), (Fun_ptr jint [Ptr JNIEnv, Ptr (Ptr JavaVM)], ''GetJavaVM''),
     (Fun_ptr c_void [Ptr JNIEnv, jstring, jsize, jsize, Ptr jchar], ''GetStringRegion''),
     (Fun_ptr c_void [Ptr JNIEnv, jstring, jsize, jsize, Ptr c_char], ''GetStringUTFRegion''),
     (Fun_ptr (Ptr c_void) [Ptr JNIEnv, jarray, Ptr jboolean], ''GetPrimitiveArrayCritical''),
     (Fun_ptr c_void [Ptr JNIEnv, jarray, Ptr c_void, jint], ''ReleasePrimitiveArrayCritical''),
     (Fun_ptr (Ptr (Const jchar)) [Ptr JNIEnv, jstring, Ptr jboolean], ''GetStringCritical''),
     (Fun_ptr c_void [Ptr JNIEnv, jstring, Ptr (Const jchar)], ''ReleaseStringCritical''),
     (Fun_ptr jweak [Ptr JNIEnv, jobject], ''NewWeakGlobalRef''), (Fun_ptr c_void [Ptr JNIEnv, jweak], ''DeleteWeakGlobalRef''),
     (Fun_ptr jboolean [Ptr JNIEnv], ''ExceptionCheck''),
     (Fun_ptr jobject [Ptr JNIEnv, Ptr c_void, jlong], ''NewDirectByteBuffer''),
     (Fun_ptr (Ptr c_void) [Ptr JNIEnv, jobject], ''GetDirectBufferAddress''),
     (Fun_ptr jlong [Ptr JNIEnv, jobject], ''GetDirectBufferCapacity''),
     (Fun_ptr jobjectRefType [Ptr JNIEnv, jobject], ''GetObjectRefType'')]"

definition JNINativeInterface :: c_members where
  "JNINativeInterface = jni_object_slots @ jni_virtual_call_slots @ jni_nonvirtual_call_slots @ jni_field_slots @ jni_static_slots @ jni_string_slots @ jni_array_slots @ jni_machine_slots"

section \<open>The invocation interface\<close>

definition JNIInvokeInterface :: c_members where
  "JNIInvokeInterface = [
     (Ptr c_void, ''reserved0''), (Ptr c_void, ''reserved1''), (Ptr c_void, ''reserved2''),
     (Fun_ptr jint [Ptr JavaVM], ''DestroyJavaVM''),
     (Fun_ptr jint [Ptr JavaVM, Ptr (Ptr JNIEnv), Ptr c_void], ''AttachCurrentThread''),
     (Fun_ptr jint [Ptr JavaVM], ''DetachCurrentThread''),
     (Fun_ptr jint [Ptr JavaVM, Ptr (Ptr c_void), jint], ''GetEnv''),
     (Fun_ptr jint [Ptr JavaVM, Ptr (Ptr JNIEnv), Ptr c_void], ''AttachCurrentThreadAsDaemon'')]"

definition JavaVMAttachArgs :: c_members where
  "JavaVMAttachArgs = [(jint, ''version''), (Ptr (Const c_char), ''name''), (jobject, ''group'')]"

definition JavaVMOption :: c_members where
  "JavaVMOption = [(Ptr (Const c_char), ''optionString''), (Ptr c_void, ''extraInfo'')]"

definition JavaVMInitArgs :: c_members where
  "JavaVMInitArgs = [(jint, ''version''), (jint, ''nOptions''), (Ptr (Named ''JavaVMOption''), ''options''), (jboolean, ''ignoreUnrecognized'')]"

definition jni_constants :: "(string \<times> int) list" where
  "jni_constants = [(''JNI_FALSE'', 0), (''JNI_TRUE'', 1),
     (''JNI_VERSION_1_1'', 0x00010001), (''JNI_VERSION_1_2'', 0x00010002), (''JNI_VERSION_1_4'', 0x00010004),
     (''JNI_VERSION_1_6'', 0x00010006),
     (''JNI_OK'', 0), (''JNI_ERR'', -1), (''JNI_EDETACHED'', -2), (''JNI_EVERSION'', -3), (''JNI_ENOMEM'', -4),
     (''JNI_EEXIST'', -5), (''JNI_EINVAL'', -6), (''JNI_COMMIT'', 1), (''JNI_ABORT'', 2)]"

section \<open>The table of the build\<close>

text \<open>The fields the build's expression finds: the reserved pointers and the function pointers.\<close>

fun jni_field :: "ctype \<times> string \<Rightarrow> bool" where
  "jni_field (Ptr t, x) = (t = c_void \<and> x \<in> {''reserved0'', ''reserved1'', ''reserved2'', ''reserved3''})"
| "jni_field (Fun_ptr t ts, x) = True"
| "jni_field _ = False"

fun add_slots :: "nat \<Rightarrow> (string \<times> nat) list \<Rightarrow> string list \<Rightarrow> (string \<times> nat) list option" where
  "add_slots index slots [] = Some slots"
| "add_slots index slots (name # names) =
     (if offset_of slots name \<noteq> None then None else add_slots (Suc index) (slots @ [(name, index)]) names)"

definition Get_JniFunctionTable :: "c_members \<Rightarrow> (string \<times> nat) list option" where
  "Get_JniFunctionTable body = do {
     slots \<leftarrow> add_slots 0 [] (map snd (filter jni_field body));
     if length slots \<noteq> 233 \<or> offset_of slots ''GetVersion'' \<noteq> Some 4 \<or> offset_of slots ''GetObjectRefType'' \<noteq> Some 232
     then None else Some slots }"

section \<open>What the build derives\<close>

lemmas jni_slot_defs = jni_object_slots_def jni_virtual_call_slots_def jni_nonvirtual_call_slots_def jni_field_slots_def
  jni_static_slots_def jni_string_slots_def jni_array_slots_def jni_machine_slots_def

lemma offset_of_none: "offset_of slots x = None \<longleftrightarrow> fold_case x \<notin> set (map (fold_case \<circ> fst) slots)"
  by (force simp: offset_of_def find_None_iff)

lemma add_slots_distinct:
  assumes "distinct (map fold_case (map fst slots @ names))"
  shows "add_slots k slots names = Some (slots @ zip names [k..<k + length names])"
  using assms
proof (induction names arbitrary: k slots)
  case (Cons x xs)
  have "offset_of slots x = None" using Cons.prems by (auto simp: offset_of_none)
  moreover have "add_slots (Suc k) (slots @ [(x, k)]) xs = Some ((slots @ [(x, k)]) @ zip xs [Suc k..<Suc k + length xs])"
    using Cons.prems by (intro Cons.IH) simp
  ultimately show ?case by (simp add: upt_conv_Cons del: upt_Suc)
qed simp

lemma jni_groups:
  "list_all (\<lambda>m. jni_field m \<and> scalar_size P (fst m) = Some P) jni_object_slots"
  "list_all (\<lambda>m. jni_field m \<and> scalar_size P (fst m) = Some P) jni_virtual_call_slots"
  "list_all (\<lambda>m. jni_field m \<and> scalar_size P (fst m) = Some P) jni_nonvirtual_call_slots"
  "list_all (\<lambda>m. jni_field m \<and> scalar_size P (fst m) = Some P) jni_field_slots"
  "list_all (\<lambda>m. jni_field m \<and> scalar_size P (fst m) = Some P) jni_static_slots"
  "list_all (\<lambda>m. jni_field m \<and> scalar_size P (fst m) = Some P) jni_string_slots"
  "list_all (\<lambda>m. jni_field m \<and> scalar_size P (fst m) = Some P) jni_array_slots"
  "list_all (\<lambda>m. jni_field m \<and> scalar_size P (fst m) = Some P) jni_machine_slots"
  unfolding jni_slot_defs by simp_all

lemma jni_all: "list_all (\<lambda>m. jni_field m \<and> scalar_size P (fst m) = Some P) JNINativeInterface"
  by (simp add: JNINativeInterface_def jni_groups)

lemma jni_fields: "filter jni_field JNINativeInterface = JNINativeInterface"
  using jni_all by (auto simp: filter_id_conv list_all_iff)

lemma jni_lengths:
  "length jni_object_slots = 34" "length jni_virtual_call_slots = 30" "length jni_nonvirtual_call_slots = 30" "length jni_field_slots = 19" "length jni_static_slots = 50" "length jni_string_slots = 12" "length jni_array_slots = 40" "length jni_machine_slots = 18"
  unfolding jni_slot_defs by simp_all

lemma jni_length: "length JNINativeInterface = 233"
  by (simp add: JNINativeInterface_def jni_lengths)

lemma jni_pointer_wide: "pointer_wide P JNINativeInterface"
  using jni_all [of P] by (auto simp: pointer_wide_def list_all_iff)

end
