(* ===== verification/Jni_Wrappers.thy ===== *)
theory Jni_Wrappers
  imports Jni_Table
begin

text \<open>
  The C++ side of \<open>lib/jni.h\<close>: every member function of \<open>_JNIEnv\<close> and \<open>_JavaVM\<close> with its parameters and
  its body, the call macros as functions of their two arguments, and the meaning of such a body: a call
  through the table that the first word of the object points to.
\<close>

section \<open>Bodies\<close>

datatype expr = This | Var string

text \<open>\<open>functions->f(es)\<close> stands as a statement, as the initializer of a local, or behind \<open>return\<close>.\<close>

datatype stmt =
    Va_start string string
  | Va_end string
  | Do string "expr list"
  | Let string string "expr list"
  | Return_call string "expr list"
  | Return expr

datatype jni_method = jni_method (method_name: string) (method_result: ctype) (method_params: "(ctype \<times> string) list") (method_body: "stmt list")

section \<open>The call macros\<close>

text \<open>The arguments of the macros are the result type and the part of the name.\<close>

definition CALL_TYPE_METHOD :: "ctype \<Rightarrow> string \<Rightarrow> jni_method" where
  "CALL_TYPE_METHOD jtype jname =
     jni_method (''Call'' @ jname @ ''Method'') jtype [(jobject, ''obj''), (jmethodID, ''methodID''), (Varargs, '''')]
       [Va_start ''args'' ''methodID'',
        Let ''result'' (''Call'' @ jname @ ''MethodV'') [This, Var ''obj'', Var ''methodID'', Var ''args''],
        Va_end ''args'', Return (Var ''result'')]"

definition CALL_TYPE_METHODV :: "ctype \<Rightarrow> string \<Rightarrow> jni_method" where
  "CALL_TYPE_METHODV jtype jname =
     jni_method (''Call'' @ jname @ ''MethodV'') jtype [(jobject, ''obj''), (jmethodID, ''methodID''), (va_list, ''args'')]
       [Return_call (''Call'' @ jname @ ''MethodV'') [This, Var ''obj'', Var ''methodID'', Var ''args'']]"

definition CALL_TYPE_METHODA :: "ctype \<Rightarrow> string \<Rightarrow> jni_method" where
  "CALL_TYPE_METHODA jtype jname =
     jni_method (''Call'' @ jname @ ''MethodA'') jtype [(jobject, ''obj''), (jmethodID, ''methodID''), (Ptr (Const jvalue), ''args'')]
       [Return_call (''Call'' @ jname @ ''MethodA'') [This, Var ''obj'', Var ''methodID'', Var ''args'']]"

definition CALL_TYPE :: "ctype \<Rightarrow> string \<Rightarrow> jni_method list" where
  "CALL_TYPE jtype jname = [CALL_TYPE_METHOD jtype jname, CALL_TYPE_METHODV jtype jname, CALL_TYPE_METHODA jtype jname]"

definition CALL_NONVIRT_TYPE_METHOD :: "ctype \<Rightarrow> string \<Rightarrow> jni_method" where
  "CALL_NONVIRT_TYPE_METHOD jtype jname =
     jni_method (''CallNonvirtual'' @ jname @ ''Method'') jtype
       [(jobject, ''obj''), (jclass, ''clazz''), (jmethodID, ''methodID''), (Varargs, '''')]
       [Va_start ''args'' ''methodID'',
        Let ''result'' (''CallNonvirtual'' @ jname @ ''MethodV'') [This, Var ''obj'', Var ''clazz'', Var ''methodID'', Var ''args''],
        Va_end ''args'', Return (Var ''result'')]"

definition CALL_NONVIRT_TYPE_METHODV :: "ctype \<Rightarrow> string \<Rightarrow> jni_method" where
  "CALL_NONVIRT_TYPE_METHODV jtype jname =
     jni_method (''CallNonvirtual'' @ jname @ ''MethodV'') jtype
       [(jobject, ''obj''), (jclass, ''clazz''), (jmethodID, ''methodID''), (va_list, ''args'')]
       [Return_call (''CallNonvirtual'' @ jname @ ''MethodV'') [This, Var ''obj'', Var ''clazz'', Var ''methodID'', Var ''args'']]"

definition CALL_NONVIRT_TYPE_METHODA :: "ctype \<Rightarrow> string \<Rightarrow> jni_method" where
  "CALL_NONVIRT_TYPE_METHODA jtype jname =
     jni_method (''CallNonvirtual'' @ jname @ ''MethodA'') jtype
       [(jobject, ''obj''), (jclass, ''clazz''), (jmethodID, ''methodID''), (Ptr (Const jvalue), ''args'')]
       [Return_call (''CallNonvirtual'' @ jname @ ''MethodA'') [This, Var ''obj'', Var ''clazz'', Var ''methodID'', Var ''args'']]"

definition CALL_NONVIRT_TYPE :: "ctype \<Rightarrow> string \<Rightarrow> jni_method list" where
  "CALL_NONVIRT_TYPE jtype jname =
     [CALL_NONVIRT_TYPE_METHOD jtype jname, CALL_NONVIRT_TYPE_METHODV jtype jname, CALL_NONVIRT_TYPE_METHODA jtype jname]"

definition CALL_STATIC_TYPE_METHOD :: "ctype \<Rightarrow> string \<Rightarrow> jni_method" where
  "CALL_STATIC_TYPE_METHOD jtype jname =
     jni_method (''CallStatic'' @ jname @ ''Method'') jtype [(jclass, ''clazz''), (jmethodID, ''methodID''), (Varargs, '''')]
       [Va_start ''args'' ''methodID'',
        Let ''result'' (''CallStatic'' @ jname @ ''MethodV'') [This, Var ''clazz'', Var ''methodID'', Var ''args''],
        Va_end ''args'', Return (Var ''result'')]"

definition CALL_STATIC_TYPE_METHODV :: "ctype \<Rightarrow> string \<Rightarrow> jni_method" where
  "CALL_STATIC_TYPE_METHODV jtype jname =
     jni_method (''CallStatic'' @ jname @ ''MethodV'') jtype [(jclass, ''clazz''), (jmethodID, ''methodID''), (va_list, ''args'')]
       [Return_call (''CallStatic'' @ jname @ ''MethodV'') [This, Var ''clazz'', Var ''methodID'', Var ''args'']]"

definition CALL_STATIC_TYPE_METHODA :: "ctype \<Rightarrow> string \<Rightarrow> jni_method" where
  "CALL_STATIC_TYPE_METHODA jtype jname =
     jni_method (''CallStatic'' @ jname @ ''MethodA'') jtype [(jclass, ''clazz''), (jmethodID, ''methodID''), (Ptr (Const jvalue), ''args'')]
       [Return_call (''CallStatic'' @ jname @ ''MethodA'') [This, Var ''clazz'', Var ''methodID'', Var ''args'']]"

definition CALL_STATIC_TYPE :: "ctype \<Rightarrow> string \<Rightarrow> jni_method list" where
  "CALL_STATIC_TYPE jtype jname =
     [CALL_STATIC_TYPE_METHOD jtype jname, CALL_STATIC_TYPE_METHODV jtype jname, CALL_STATIC_TYPE_METHODA jtype jname]"

section \<open>The member functions\<close>

definition jni_object_methods :: "jni_method list" where
  "jni_object_methods = [
     jni_method ''GetVersion'' jint [] [Return_call ''GetVersion'' [This]],
     jni_method ''DefineClass'' jclass [(Ptr (Const c_char), ''name''), (jobject, ''loader''), (Ptr (Const jbyte), ''buf''), (jsize, ''bufLen'')] [Return_call ''DefineClass'' [This, Var ''name'', Var ''loader'', Var ''buf'', Var ''bufLen'']],
     jni_method ''FindClass'' jclass [(Ptr (Const c_char), ''name'')] [Return_call ''FindClass'' [This, Var ''name'']],
     jni_method ''FromReflectedMethod'' jmethodID [(jobject, ''method'')] [Return_call ''FromReflectedMethod'' [This, Var ''method'']],
     jni_method ''FromReflectedField'' jfieldID [(jobject, ''field'')] [Return_call ''FromReflectedField'' [This, Var ''field'']],
     jni_method ''ToReflectedMethod'' jobject [(jclass, ''cls''), (jmethodID, ''methodID''), (jboolean, ''isStatic'')] [Return_call ''ToReflectedMethod'' [This, Var ''cls'', Var ''methodID'', Var ''isStatic'']],
     jni_method ''GetSuperclass'' jclass [(jclass, ''clazz'')] [Return_call ''GetSuperclass'' [This, Var ''clazz'']],
     jni_method ''IsAssignableFrom'' jboolean [(jclass, ''clazz1''), (jclass, ''clazz2'')] [Return_call ''IsAssignableFrom'' [This, Var ''clazz1'', Var ''clazz2'']],
     jni_method ''ToReflectedField'' jobject [(jclass, ''cls''), (jfieldID, ''fieldID''), (jboolean, ''isStatic'')] [Return_call ''ToReflectedField'' [This, Var ''cls'', Var ''fieldID'', Var ''isStatic'']],
     jni_method ''Throw'' jint [(jthrowable, ''obj'')] [Return_call ''Throw'' [This, Var ''obj'']],
     jni_method ''ThrowNew'' jint [(jclass, ''clazz''), (Ptr (Const c_char), ''message'')] [Return_call ''ThrowNew'' [This, Var ''clazz'', Var ''message'']],
     jni_method ''ExceptionOccurred'' jthrowable [] [Return_call ''ExceptionOccurred'' [This]],
     jni_method ''ExceptionDescribe'' c_void [] [Do ''ExceptionDescribe'' [This]],
     jni_method ''ExceptionClear'' c_void [] [Do ''ExceptionClear'' [This]],
     jni_method ''FatalError'' c_void [(Ptr (Const c_char), ''msg'')] [Do ''FatalError'' [This, Var ''msg'']],
     jni_method ''PushLocalFrame'' jint [(jint, ''capacity'')] [Return_call ''PushLocalFrame'' [This, Var ''capacity'']],
     jni_method ''PopLocalFrame'' jobject [(jobject, ''result'')] [Return_call ''PopLocalFrame'' [This, Var ''result'']],
     jni_method ''NewGlobalRef'' jobject [(jobject, ''obj'')] [Return_call ''NewGlobalRef'' [This, Var ''obj'']],
     jni_method ''DeleteGlobalRef'' c_void [(jobject, ''globalRef'')] [Do ''DeleteGlobalRef'' [This, Var ''globalRef'']],
     jni_method ''DeleteLocalRef'' c_void [(jobject, ''localRef'')] [Do ''DeleteLocalRef'' [This, Var ''localRef'']],
     jni_method ''IsSameObject'' jboolean [(jobject, ''ref1''), (jobject, ''ref2'')] [Return_call ''IsSameObject'' [This, Var ''ref1'', Var ''ref2'']],
     jni_method ''NewLocalRef'' jobject [(jobject, ''ref'')] [Return_call ''NewLocalRef'' [This, Var ''ref'']],
     jni_method ''EnsureLocalCapacity'' jint [(jint, ''capacity'')] [Return_call ''EnsureLocalCapacity'' [This, Var ''capacity'']],
     jni_method ''AllocObject'' jobject [(jclass, ''clazz'')] [Return_call ''AllocObject'' [This, Var ''clazz'']],
     jni_method ''NewObject'' jobject [(jclass, ''clazz''), (jmethodID, ''methodID''), (Varargs, '''')] [Va_start ''args'' ''methodID'', Let ''result'' ''NewObjectV'' [This, Var ''clazz'', Var ''methodID'', Var ''args''], Va_end ''args'', Return (Var ''result'')],
     jni_method ''NewObjectV'' jobject [(jclass, ''clazz''), (jmethodID, ''methodID''), (va_list, ''args'')] [Return_call ''NewObjectV'' [This, Var ''clazz'', Var ''methodID'', Var ''args'']],
     jni_method ''NewObjectA'' jobject [(jclass, ''clazz''), (jmethodID, ''methodID''), (Ptr (Const jvalue), ''args'')] [Return_call ''NewObjectA'' [This, Var ''clazz'', Var ''methodID'', Var ''args'']],
     jni_method ''GetObjectClass'' jclass [(jobject, ''obj'')] [Return_call ''GetObjectClass'' [This, Var ''obj'']],
     jni_method ''IsInstanceOf'' jboolean [(jobject, ''obj''), (jclass, ''clazz'')] [Return_call ''IsInstanceOf'' [This, Var ''obj'', Var ''clazz'']],
     jni_method ''GetMethodID'' jmethodID [(jclass, ''clazz''), (Ptr (Const c_char), ''name''), (Ptr (Const c_char), ''sig'')] [Return_call ''GetMethodID'' [This, Var ''clazz'', Var ''name'', Var ''sig'']]]"

definition jni_virtual_call_methods :: "jni_method list" where
  "jni_virtual_call_methods = concat (map (\<lambda>(t, n). CALL_TYPE t n) [
     (jobject, ''Object''), (jboolean, ''Boolean''), (jbyte, ''Byte''), (jchar, ''Char''), (jshort, ''Short''), (jint, ''Int''),
     (jlong, ''Long''), (jfloat, ''Float''), (jdouble, ''Double'')]) @ [
     jni_method ''CallVoidMethod'' c_void [(jobject, ''obj''), (jmethodID, ''methodID''), (Varargs, '''')] [Va_start ''args'' ''methodID'', Do ''CallVoidMethodV'' [This, Var ''obj'', Var ''methodID'', Var ''args''], Va_end ''args''],
     jni_method ''CallVoidMethodV'' c_void [(jobject, ''obj''), (jmethodID, ''methodID''), (va_list, ''args'')] [Do ''CallVoidMethodV'' [This, Var ''obj'', Var ''methodID'', Var ''args'']],
     jni_method ''CallVoidMethodA'' c_void [(jobject, ''obj''), (jmethodID, ''methodID''), (Ptr (Const jvalue), ''args'')] [Do ''CallVoidMethodA'' [This, Var ''obj'', Var ''methodID'', Var ''args'']]]"

definition jni_nonvirtual_call_methods :: "jni_method list" where
  "jni_nonvirtual_call_methods = concat (map (\<lambda>(t, n). CALL_NONVIRT_TYPE t n) [
     (jobject, ''Object''), (jboolean, ''Boolean''), (jbyte, ''Byte''), (jchar, ''Char''), (jshort, ''Short''), (jint, ''Int''),
     (jlong, ''Long''), (jfloat, ''Float''), (jdouble, ''Double'')]) @ [
     jni_method ''CallNonvirtualVoidMethod'' c_void [(jobject, ''obj''), (jclass, ''clazz''), (jmethodID, ''methodID''), (Varargs, '''')] [Va_start ''args'' ''methodID'', Do ''CallNonvirtualVoidMethodV'' [This, Var ''obj'', Var ''clazz'', Var ''methodID'', Var ''args''], Va_end ''args''],
     jni_method ''CallNonvirtualVoidMethodV'' c_void [(jobject, ''obj''), (jclass, ''clazz''), (jmethodID, ''methodID''), (va_list, ''args'')] [Do ''CallNonvirtualVoidMethodV'' [This, Var ''obj'', Var ''clazz'', Var ''methodID'', Var ''args'']],
     jni_method ''CallNonvirtualVoidMethodA'' c_void [(jobject, ''obj''), (jclass, ''clazz''), (jmethodID, ''methodID''), (Ptr (Const jvalue), ''args'')] [Do ''CallNonvirtualVoidMethodA'' [This, Var ''obj'', Var ''clazz'', Var ''methodID'', Var ''args'']]]"

definition jni_field_methods :: "jni_method list" where
  "jni_field_methods = [
     jni_method ''GetFieldID'' jfieldID [(jclass, ''clazz''), (Ptr (Const c_char), ''name''), (Ptr (Const c_char), ''sig'')] [Return_call ''GetFieldID'' [This, Var ''clazz'', Var ''name'', Var ''sig'']],
     jni_method ''GetObjectField'' jobject [(jobject, ''obj''), (jfieldID, ''fieldID'')] [Return_call ''GetObjectField'' [This, Var ''obj'', Var ''fieldID'']],
     jni_method ''GetBooleanField'' jboolean [(jobject, ''obj''), (jfieldID, ''fieldID'')] [Return_call ''GetBooleanField'' [This, Var ''obj'', Var ''fieldID'']],
     jni_method ''GetByteField'' jbyte [(jobject, ''obj''), (jfieldID, ''fieldID'')] [Return_call ''GetByteField'' [This, Var ''obj'', Var ''fieldID'']],
     jni_method ''GetCharField'' jchar [(jobject, ''obj''), (jfieldID, ''fieldID'')] [Return_call ''GetCharField'' [This, Var ''obj'', Var ''fieldID'']],
     jni_method ''GetShortField'' jshort [(jobject, ''obj''), (jfieldID, ''fieldID'')] [Return_call ''GetShortField'' [This, Var ''obj'', Var ''fieldID'']],
     jni_method ''GetIntField'' jint [(jobject, ''obj''), (jfieldID, ''fieldID'')] [Return_call ''GetIntField'' [This, Var ''obj'', Var ''fieldID'']],
     jni_method ''GetLongField'' jlong [(jobject, ''obj''), (jfieldID, ''fieldID'')] [Return_call ''GetLongField'' [This, Var ''obj'', Var ''fieldID'']],
     jni_method ''GetFloatField'' jfloat [(jobject, ''obj''), (jfieldID, ''fieldID'')] [Return_call ''GetFloatField'' [This, Var ''obj'', Var ''fieldID'']],
     jni_method ''GetDoubleField'' jdouble [(jobject, ''obj''), (jfieldID, ''fieldID'')] [Return_call ''GetDoubleField'' [This, Var ''obj'', Var ''fieldID'']],
     jni_method ''SetObjectField'' c_void [(jobject, ''obj''), (jfieldID, ''fieldID''), (jobject, ''value'')] [Do ''SetObjectField'' [This, Var ''obj'', Var ''fieldID'', Var ''value'']],
     jni_method ''SetBooleanField'' c_void [(jobject, ''obj''), (jfieldID, ''fieldID''), (jboolean, ''value'')] [Do ''SetBooleanField'' [This, Var ''obj'', Var ''fieldID'', Var ''value'']],
     jni_method ''SetByteField'' c_void [(jobject, ''obj''), (jfieldID, ''fieldID''), (jbyte, ''value'')] [Do ''SetByteField'' [This, Var ''obj'', Var ''fieldID'', Var ''value'']],
     jni_method ''SetCharField'' c_void [(jobject, ''obj''), (jfieldID, ''fieldID''), (jchar, ''value'')] [Do ''SetCharField'' [This, Var ''obj'', Var ''fieldID'', Var ''value'']],
     jni_method ''SetShortField'' c_void [(jobject, ''obj''), (jfieldID, ''fieldID''), (jshort, ''value'')] [Do ''SetShortField'' [This, Var ''obj'', Var ''fieldID'', Var ''value'']],
     jni_method ''SetIntField'' c_void [(jobject, ''obj''), (jfieldID, ''fieldID''), (jint, ''value'')] [Do ''SetIntField'' [This, Var ''obj'', Var ''fieldID'', Var ''value'']],
     jni_method ''SetLongField'' c_void [(jobject, ''obj''), (jfieldID, ''fieldID''), (jlong, ''value'')] [Do ''SetLongField'' [This, Var ''obj'', Var ''fieldID'', Var ''value'']],
     jni_method ''SetFloatField'' c_void [(jobject, ''obj''), (jfieldID, ''fieldID''), (jfloat, ''value'')] [Do ''SetFloatField'' [This, Var ''obj'', Var ''fieldID'', Var ''value'']],
     jni_method ''SetDoubleField'' c_void [(jobject, ''obj''), (jfieldID, ''fieldID''), (jdouble, ''value'')] [Do ''SetDoubleField'' [This, Var ''obj'', Var ''fieldID'', Var ''value'']]]"

definition jni_static_methods :: "jni_method list" where
  "jni_static_methods = [
     jni_method ''GetStaticMethodID'' jmethodID [(jclass, ''clazz''), (Ptr (Const c_char), ''name''), (Ptr (Const c_char), ''sig'')] [Return_call ''GetStaticMethodID'' [This, Var ''clazz'', Var ''name'', Var ''sig'']]] @ concat (map (\<lambda>(t, n). CALL_STATIC_TYPE t n) [
     (jobject, ''Object''), (jboolean, ''Boolean''), (jbyte, ''Byte''), (jchar, ''Char''), (jshort, ''Short''), (jint, ''Int''),
     (jlong, ''Long''), (jfloat, ''Float''), (jdouble, ''Double'')]) @ [
     jni_method ''CallStaticVoidMethod'' c_void [(jclass, ''clazz''), (jmethodID, ''methodID''), (Varargs, '''')] [Va_start ''args'' ''methodID'', Do ''CallStaticVoidMethodV'' [This, Var ''clazz'', Var ''methodID'', Var ''args''], Va_end ''args''],
     jni_method ''CallStaticVoidMethodV'' c_void [(jclass, ''clazz''), (jmethodID, ''methodID''), (va_list, ''args'')] [Do ''CallStaticVoidMethodV'' [This, Var ''clazz'', Var ''methodID'', Var ''args'']],
     jni_method ''CallStaticVoidMethodA'' c_void [(jclass, ''clazz''), (jmethodID, ''methodID''), (Ptr (Const jvalue), ''args'')] [Do ''CallStaticVoidMethodA'' [This, Var ''clazz'', Var ''methodID'', Var ''args'']],
     jni_method ''GetStaticFieldID'' jfieldID [(jclass, ''clazz''), (Ptr (Const c_char), ''name''), (Ptr (Const c_char), ''sig'')] [Return_call ''GetStaticFieldID'' [This, Var ''clazz'', Var ''name'', Var ''sig'']],
     jni_method ''GetStaticObjectField'' jobject [(jclass, ''clazz''), (jfieldID, ''fieldID'')] [Return_call ''GetStaticObjectField'' [This, Var ''clazz'', Var ''fieldID'']],
     jni_method ''GetStaticBooleanField'' jboolean [(jclass, ''clazz''), (jfieldID, ''fieldID'')] [Return_call ''GetStaticBooleanField'' [This, Var ''clazz'', Var ''fieldID'']],
     jni_method ''GetStaticByteField'' jbyte [(jclass, ''clazz''), (jfieldID, ''fieldID'')] [Return_call ''GetStaticByteField'' [This, Var ''clazz'', Var ''fieldID'']],
     jni_method ''GetStaticCharField'' jchar [(jclass, ''clazz''), (jfieldID, ''fieldID'')] [Return_call ''GetStaticCharField'' [This, Var ''clazz'', Var ''fieldID'']],
     jni_method ''GetStaticShortField'' jshort [(jclass, ''clazz''), (jfieldID, ''fieldID'')] [Return_call ''GetStaticShortField'' [This, Var ''clazz'', Var ''fieldID'']],
     jni_method ''GetStaticIntField'' jint [(jclass, ''clazz''), (jfieldID, ''fieldID'')] [Return_call ''GetStaticIntField'' [This, Var ''clazz'', Var ''fieldID'']],
     jni_method ''GetStaticLongField'' jlong [(jclass, ''clazz''), (jfieldID, ''fieldID'')] [Return_call ''GetStaticLongField'' [This, Var ''clazz'', Var ''fieldID'']],
     jni_method ''GetStaticFloatField'' jfloat [(jclass, ''clazz''), (jfieldID, ''fieldID'')] [Return_call ''GetStaticFloatField'' [This, Var ''clazz'', Var ''fieldID'']],
     jni_method ''GetStaticDoubleField'' jdouble [(jclass, ''clazz''), (jfieldID, ''fieldID'')] [Return_call ''GetStaticDoubleField'' [This, Var ''clazz'', Var ''fieldID'']],
     jni_method ''SetStaticObjectField'' c_void [(jclass, ''clazz''), (jfieldID, ''fieldID''), (jobject, ''value'')] [Do ''SetStaticObjectField'' [This, Var ''clazz'', Var ''fieldID'', Var ''value'']],
     jni_method ''SetStaticBooleanField'' c_void [(jclass, ''clazz''), (jfieldID, ''fieldID''), (jboolean, ''value'')] [Do ''SetStaticBooleanField'' [This, Var ''clazz'', Var ''fieldID'', Var ''value'']],
     jni_method ''SetStaticByteField'' c_void [(jclass, ''clazz''), (jfieldID, ''fieldID''), (jbyte, ''value'')] [Do ''SetStaticByteField'' [This, Var ''clazz'', Var ''fieldID'', Var ''value'']],
     jni_method ''SetStaticCharField'' c_void [(jclass, ''clazz''), (jfieldID, ''fieldID''), (jchar, ''value'')] [Do ''SetStaticCharField'' [This, Var ''clazz'', Var ''fieldID'', Var ''value'']],
     jni_method ''SetStaticShortField'' c_void [(jclass, ''clazz''), (jfieldID, ''fieldID''), (jshort, ''value'')] [Do ''SetStaticShortField'' [This, Var ''clazz'', Var ''fieldID'', Var ''value'']],
     jni_method ''SetStaticIntField'' c_void [(jclass, ''clazz''), (jfieldID, ''fieldID''), (jint, ''value'')] [Do ''SetStaticIntField'' [This, Var ''clazz'', Var ''fieldID'', Var ''value'']],
     jni_method ''SetStaticLongField'' c_void [(jclass, ''clazz''), (jfieldID, ''fieldID''), (jlong, ''value'')] [Do ''SetStaticLongField'' [This, Var ''clazz'', Var ''fieldID'', Var ''value'']],
     jni_method ''SetStaticFloatField'' c_void [(jclass, ''clazz''), (jfieldID, ''fieldID''), (jfloat, ''value'')] [Do ''SetStaticFloatField'' [This, Var ''clazz'', Var ''fieldID'', Var ''value'']],
     jni_method ''SetStaticDoubleField'' c_void [(jclass, ''clazz''), (jfieldID, ''fieldID''), (jdouble, ''value'')] [Do ''SetStaticDoubleField'' [This, Var ''clazz'', Var ''fieldID'', Var ''value'']]]"

definition jni_string_methods :: "jni_method list" where
  "jni_string_methods = [
     jni_method ''NewString'' jstring [(Ptr (Const jchar), ''unicodeChars''), (jsize, ''len'')] [Return_call ''NewString'' [This, Var ''unicodeChars'', Var ''len'']],
     jni_method ''GetStringLength'' jsize [(jstring, ''string'')] [Return_call ''GetStringLength'' [This, Var ''string'']],
     jni_method ''GetStringChars'' (Ptr (Const jchar)) [(jstring, ''string''), (Ptr jboolean, ''isCopy'')] [Return_call ''GetStringChars'' [This, Var ''string'', Var ''isCopy'']],
     jni_method ''ReleaseStringChars'' c_void [(jstring, ''string''), (Ptr (Const jchar), ''chars'')] [Do ''ReleaseStringChars'' [This, Var ''string'', Var ''chars'']],
     jni_method ''NewStringUTF'' jstring [(Ptr (Const c_char), ''bytes'')] [Return_call ''NewStringUTF'' [This, Var ''bytes'']],
     jni_method ''GetStringUTFLength'' jsize [(jstring, ''string'')] [Return_call ''GetStringUTFLength'' [This, Var ''string'']],
     jni_method ''GetStringUTFChars'' (Ptr (Const c_char)) [(jstring, ''string''), (Ptr jboolean, ''isCopy'')] [Return_call ''GetStringUTFChars'' [This, Var ''string'', Var ''isCopy'']],
     jni_method ''ReleaseStringUTFChars'' c_void [(jstring, ''string''), (Ptr (Const c_char), ''utf'')] [Do ''ReleaseStringUTFChars'' [This, Var ''string'', Var ''utf'']],
     jni_method ''GetArrayLength'' jsize [(jarray, ''array'')] [Return_call ''GetArrayLength'' [This, Var ''array'']],
     jni_method ''NewObjectArray'' jobjectArray [(jsize, ''length''), (jclass, ''elementClass''), (jobject, ''initialElement'')] [Return_call ''NewObjectArray'' [This, Var ''length'', Var ''elementClass'', Var ''initialElement'']],
     jni_method ''GetObjectArrayElement'' jobject [(jobjectArray, ''array''), (jsize, ''index'')] [Return_call ''GetObjectArrayElement'' [This, Var ''array'', Var ''index'']],
     jni_method ''SetObjectArrayElement'' c_void [(jobjectArray, ''array''), (jsize, ''index''), (jobject, ''value'')] [Do ''SetObjectArrayElement'' [This, Var ''array'', Var ''index'', Var ''value'']]]"

definition jni_array_methods :: "jni_method list" where
  "jni_array_methods = [
     jni_method ''NewBooleanArray'' jbooleanArray [(jsize, ''length'')] [Return_call ''NewBooleanArray'' [This, Var ''length'']],
     jni_method ''NewByteArray'' jbyteArray [(jsize, ''length'')] [Return_call ''NewByteArray'' [This, Var ''length'']],
     jni_method ''NewCharArray'' jcharArray [(jsize, ''length'')] [Return_call ''NewCharArray'' [This, Var ''length'']],
     jni_method ''NewShortArray'' jshortArray [(jsize, ''length'')] [Return_call ''NewShortArray'' [This, Var ''length'']],
     jni_method ''NewIntArray'' jintArray [(jsize, ''length'')] [Return_call ''NewIntArray'' [This, Var ''length'']],
     jni_method ''NewLongArray'' jlongArray [(jsize, ''length'')] [Return_call ''NewLongArray'' [This, Var ''length'']],
     jni_method ''NewFloatArray'' jfloatArray [(jsize, ''length'')] [Return_call ''NewFloatArray'' [This, Var ''length'']],
     jni_method ''NewDoubleArray'' jdoubleArray [(jsize, ''length'')] [Return_call ''NewDoubleArray'' [This, Var ''length'']],
     jni_method ''GetBooleanArrayElements'' (Ptr jboolean) [(jbooleanArray, ''array''), (Ptr jboolean, ''isCopy'')] [Return_call ''GetBooleanArrayElements'' [This, Var ''array'', Var ''isCopy'']],
     jni_method ''GetByteArrayElements'' (Ptr jbyte) [(jbyteArray, ''array''), (Ptr jboolean, ''isCopy'')] [Return_call ''GetByteArrayElements'' [This, Var ''array'', Var ''isCopy'']],
     jni_method ''GetCharArrayElements'' (Ptr jchar) [(jcharArray, ''array''), (Ptr jboolean, ''isCopy'')] [Return_call ''GetCharArrayElements'' [This, Var ''array'', Var ''isCopy'']],
     jni_method ''GetShortArrayElements'' (Ptr jshort) [(jshortArray, ''array''), (Ptr jboolean, ''isCopy'')] [Return_call ''GetShortArrayElements'' [This, Var ''array'', Var ''isCopy'']],
     jni_method ''GetIntArrayElements'' (Ptr jint) [(jintArray, ''array''), (Ptr jboolean, ''isCopy'')] [Return_call ''GetIntArrayElements'' [This, Var ''array'', Var ''isCopy'']],
     jni_method ''GetLongArrayElements'' (Ptr jlong) [(jlongArray, ''array''), (Ptr jboolean, ''isCopy'')] [Return_call ''GetLongArrayElements'' [This, Var ''array'', Var ''isCopy'']],
     jni_method ''GetFloatArrayElements'' (Ptr jfloat) [(jfloatArray, ''array''), (Ptr jboolean, ''isCopy'')] [Return_call ''GetFloatArrayElements'' [This, Var ''array'', Var ''isCopy'']],
     jni_method ''GetDoubleArrayElements'' (Ptr jdouble) [(jdoubleArray, ''array''), (Ptr jboolean, ''isCopy'')] [Return_call ''GetDoubleArrayElements'' [This, Var ''array'', Var ''isCopy'']],
     jni_method ''ReleaseBooleanArrayElements'' c_void [(jbooleanArray, ''array''), (Ptr jboolean, ''elems''), (jint, ''mode'')] [Do ''ReleaseBooleanArrayElements'' [This, Var ''array'', Var ''elems'', Var ''mode'']],
     jni_method ''ReleaseByteArrayElements'' c_void [(jbyteArray, ''array''), (Ptr jbyte, ''elems''), (jint, ''mode'')] [Do ''ReleaseByteArrayElements'' [This, Var ''array'', Var ''elems'', Var ''mode'']],
     jni_method ''ReleaseCharArrayElements'' c_void [(jcharArray, ''array''), (Ptr jchar, ''elems''), (jint, ''mode'')] [Do ''ReleaseCharArrayElements'' [This, Var ''array'', Var ''elems'', Var ''mode'']],
     jni_method ''ReleaseShortArrayElements'' c_void [(jshortArray, ''array''), (Ptr jshort, ''elems''), (jint, ''mode'')] [Do ''ReleaseShortArrayElements'' [This, Var ''array'', Var ''elems'', Var ''mode'']],
     jni_method ''ReleaseIntArrayElements'' c_void [(jintArray, ''array''), (Ptr jint, ''elems''), (jint, ''mode'')] [Do ''ReleaseIntArrayElements'' [This, Var ''array'', Var ''elems'', Var ''mode'']],
     jni_method ''ReleaseLongArrayElements'' c_void [(jlongArray, ''array''), (Ptr jlong, ''elems''), (jint, ''mode'')] [Do ''ReleaseLongArrayElements'' [This, Var ''array'', Var ''elems'', Var ''mode'']],
     jni_method ''ReleaseFloatArrayElements'' c_void [(jfloatArray, ''array''), (Ptr jfloat, ''elems''), (jint, ''mode'')] [Do ''ReleaseFloatArrayElements'' [This, Var ''array'', Var ''elems'', Var ''mode'']],
     jni_method ''ReleaseDoubleArrayElements'' c_void [(jdoubleArray, ''array''), (Ptr jdouble, ''elems''), (jint, ''mode'')] [Do ''ReleaseDoubleArrayElements'' [This, Var ''array'', Var ''elems'', Var ''mode'']],
     jni_method ''GetBooleanArrayRegion'' c_void [(jbooleanArray, ''array''), (jsize, ''start''), (jsize, ''len''), (Ptr jboolean, ''buf'')] [Do ''GetBooleanArrayRegion'' [This, Var ''array'', Var ''start'', Var ''len'', Var ''buf'']],
     jni_method ''GetByteArrayRegion'' c_void [(jbyteArray, ''array''), (jsize, ''start''), (jsize, ''len''), (Ptr jbyte, ''buf'')] [Do ''GetByteArrayRegion'' [This, Var ''array'', Var ''start'', Var ''len'', Var ''buf'']],
     jni_method ''GetCharArrayRegion'' c_void [(jcharArray, ''array''), (jsize, ''start''), (jsize, ''len''), (Ptr jchar, ''buf'')] [Do ''GetCharArrayRegion'' [This, Var ''array'', Var ''start'', Var ''len'', Var ''buf'']],
     jni_method ''GetShortArrayRegion'' c_void [(jshortArray, ''array''), (jsize, ''start''), (jsize, ''len''), (Ptr jshort, ''buf'')] [Do ''GetShortArrayRegion'' [This, Var ''array'', Var ''start'', Var ''len'', Var ''buf'']],
     jni_method ''GetIntArrayRegion'' c_void [(jintArray, ''array''), (jsize, ''start''), (jsize, ''len''), (Ptr jint, ''buf'')] [Do ''GetIntArrayRegion'' [This, Var ''array'', Var ''start'', Var ''len'', Var ''buf'']],
     jni_method ''GetLongArrayRegion'' c_void [(jlongArray, ''array''), (jsize, ''start''), (jsize, ''len''), (Ptr jlong, ''buf'')] [Do ''GetLongArrayRegion'' [This, Var ''array'', Var ''start'', Var ''len'', Var ''buf'']],
     jni_method ''GetFloatArrayRegion'' c_void [(jfloatArray, ''array''), (jsize, ''start''), (jsize, ''len''), (Ptr jfloat, ''buf'')] [Do ''GetFloatArrayRegion'' [This, Var ''array'', Var ''start'', Var ''len'', Var ''buf'']],
     jni_method ''GetDoubleArrayRegion'' c_void [(jdoubleArray, ''array''), (jsize, ''start''), (jsize, ''len''), (Ptr jdouble, ''buf'')] [Do ''GetDoubleArrayRegion'' [This, Var ''array'', Var ''start'', Var ''len'', Var ''buf'']],
     jni_method ''SetBooleanArrayRegion'' c_void [(jbooleanArray, ''array''), (jsize, ''start''), (jsize, ''len''), (Ptr (Const jboolean), ''buf'')] [Do ''SetBooleanArrayRegion'' [This, Var ''array'', Var ''start'', Var ''len'', Var ''buf'']],
     jni_method ''SetByteArrayRegion'' c_void [(jbyteArray, ''array''), (jsize, ''start''), (jsize, ''len''), (Ptr (Const jbyte), ''buf'')] [Do ''SetByteArrayRegion'' [This, Var ''array'', Var ''start'', Var ''len'', Var ''buf'']],
     jni_method ''SetCharArrayRegion'' c_void [(jcharArray, ''array''), (jsize, ''start''), (jsize, ''len''), (Ptr (Const jchar), ''buf'')] [Do ''SetCharArrayRegion'' [This, Var ''array'', Var ''start'', Var ''len'', Var ''buf'']],
     jni_method ''SetShortArrayRegion'' c_void [(jshortArray, ''array''), (jsize, ''start''), (jsize, ''len''), (Ptr (Const jshort), ''buf'')] [Do ''SetShortArrayRegion'' [This, Var ''array'', Var ''start'', Var ''len'', Var ''buf'']],
     jni_method ''SetIntArrayRegion'' c_void [(jintArray, ''array''), (jsize, ''start''), (jsize, ''len''), (Ptr (Const jint), ''buf'')] [Do ''SetIntArrayRegion'' [This, Var ''array'', Var ''start'', Var ''len'', Var ''buf'']],
     jni_method ''SetLongArrayRegion'' c_void [(jlongArray, ''array''), (jsize, ''start''), (jsize, ''len''), (Ptr (Const jlong), ''buf'')] [Do ''SetLongArrayRegion'' [This, Var ''array'', Var ''start'', Var ''len'', Var ''buf'']],
     jni_method ''SetFloatArrayRegion'' c_void [(jfloatArray, ''array''), (jsize, ''start''), (jsize, ''len''), (Ptr (Const jfloat), ''buf'')] [Do ''SetFloatArrayRegion'' [This, Var ''array'', Var ''start'', Var ''len'', Var ''buf'']],
     jni_method ''SetDoubleArrayRegion'' c_void [(jdoubleArray, ''array''), (jsize, ''start''), (jsize, ''len''), (Ptr (Const jdouble), ''buf'')] [Do ''SetDoubleArrayRegion'' [This, Var ''array'', Var ''start'', Var ''len'', Var ''buf'']]]"

definition jni_machine_methods :: "jni_method list" where
  "jni_machine_methods = [
     jni_method ''RegisterNatives'' jint [(jclass, ''clazz''), (Ptr (Const JNINativeMethod_t), ''methods''), (jint, ''nMethods'')] [Return_call ''RegisterNatives'' [This, Var ''clazz'', Var ''methods'', Var ''nMethods'']],
     jni_method ''UnregisterNatives'' jint [(jclass, ''clazz'')] [Return_call ''UnregisterNatives'' [This, Var ''clazz'']],
     jni_method ''MonitorEnter'' jint [(jobject, ''obj'')] [Return_call ''MonitorEnter'' [This, Var ''obj'']],
     jni_method ''MonitorExit'' jint [(jobject, ''obj'')] [Return_call ''MonitorExit'' [This, Var ''obj'']],
     jni_method ''GetJavaVM'' jint [(Ptr (Ptr JavaVM), ''vm'')] [Return_call ''GetJavaVM'' [This, Var ''vm'']],
     jni_method ''GetStringRegion'' c_void [(jstring, ''str''), (jsize, ''start''), (jsize, ''len''), (Ptr jchar, ''buf'')] [Do ''GetStringRegion'' [This, Var ''str'', Var ''start'', Var ''len'', Var ''buf'']],
     jni_method ''GetStringUTFRegion'' c_void [(jstring, ''str''), (jsize, ''start''), (jsize, ''len''), (Ptr c_char, ''buf'')] [Return_call ''GetStringUTFRegion'' [This, Var ''str'', Var ''start'', Var ''len'', Var ''buf'']],
     jni_method ''GetPrimitiveArrayCritical'' (Ptr c_void) [(jarray, ''array''), (Ptr jboolean, ''isCopy'')] [Return_call ''GetPrimitiveArrayCritical'' [This, Var ''array'', Var ''isCopy'']],
     jni_method ''ReleasePrimitiveArrayCritical'' c_void [(jarray, ''array''), (Ptr c_void, ''carray''), (jint, ''mode'')] [Do ''ReleasePrimitiveArrayCritical'' [This, Var ''array'', Var ''carray'', Var ''mode'']],
     jni_method ''GetStringCritical'' (Ptr (Const jchar)) [(jstring, ''string''), (Ptr jboolean, ''isCopy'')] [Return_call ''GetStringCritical'' [This, Var ''string'', Var ''isCopy'']],
     jni_method ''ReleaseStringCritical'' c_void [(jstring, ''string''), (Ptr (Const jchar), ''carray'')] [Do ''ReleaseStringCritical'' [This, Var ''string'', Var ''carray'']],
     jni_method ''NewWeakGlobalRef'' jweak [(jobject, ''obj'')] [Return_call ''NewWeakGlobalRef'' [This, Var ''obj'']],
     jni_method ''DeleteWeakGlobalRef'' c_void [(jweak, ''obj'')] [Do ''DeleteWeakGlobalRef'' [This, Var ''obj'']],
     jni_method ''ExceptionCheck'' jboolean [] [Return_call ''ExceptionCheck'' [This]],
     jni_method ''NewDirectByteBuffer'' jobject [(Ptr c_void, ''address''), (jlong, ''capacity'')] [Return_call ''NewDirectByteBuffer'' [This, Var ''address'', Var ''capacity'']],
     jni_method ''GetDirectBufferAddress'' (Ptr c_void) [(jobject, ''buf'')] [Return_call ''GetDirectBufferAddress'' [This, Var ''buf'']],
     jni_method ''GetDirectBufferCapacity'' jlong [(jobject, ''buf'')] [Return_call ''GetDirectBufferCapacity'' [This, Var ''buf'']],
     jni_method ''GetObjectRefType'' jobjectRefType [(jobject, ''obj'')] [Return_call ''GetObjectRefType'' [This, Var ''obj'']]]"

definition JNIEnv_methods :: "jni_method list" where
  "JNIEnv_methods = jni_object_methods @ jni_virtual_call_methods @ jni_nonvirtual_call_methods @ jni_field_methods @ jni_static_methods @ jni_string_methods @ jni_array_methods @ jni_machine_methods"

definition JavaVM_methods :: "jni_method list" where
  "JavaVM_methods = [
     jni_method ''DestroyJavaVM'' jint [] [Return_call ''DestroyJavaVM'' [This]],
     jni_method ''AttachCurrentThread'' jint [(Ptr (Ptr JNIEnv), ''p_env''), (Ptr c_void, ''thr_args'')]
       [Return_call ''AttachCurrentThread'' [This, Var ''p_env'', Var ''thr_args'']],
     jni_method ''DetachCurrentThread'' jint [] [Return_call ''DetachCurrentThread'' [This]],
     jni_method ''GetEnv'' jint [(Ptr (Ptr c_void), ''env''), (jint, ''version'')]
       [Return_call ''GetEnv'' [This, Var ''env'', Var ''version'']],
     jni_method ''AttachCurrentThreadAsDaemon'' jint [(Ptr (Ptr JNIEnv), ''p_env''), (Ptr c_void, ''thr_args'')]
       [Return_call ''AttachCurrentThreadAsDaemon'' [This, Var ''p_env'', Var ''thr_args'']]]"

section \<open>Running a member function\<close>

text \<open>
  A value is an integer, which a pointer and a reference are, or the list that a \<open>va_list\<close> walks.  The
  machine the functions live in is not part of the sources: reading a pointer and calling a function at
  an address are parameters, both at a state of the machine.
\<close>

datatype jval = Num int | Va_args "jval list"

record 'w vm =
  pointer_size :: nat
  read_pointer :: "'w \<Rightarrow> int \<Rightarrow> int"
  call_function :: "int \<Rightarrow> jval list \<Rightarrow> 'w \<Rightarrow> jval \<times> 'w"

record jni_frame =
  this_object :: int
  variables :: "(string \<times> jval) list"
  last_named :: "string option"
  rest_args :: "jval list"
  open_lists :: "string list"

fun eval_expr :: "jni_frame \<Rightarrow> expr \<Rightarrow> jval option" where
  "eval_expr fr This = Some (Num (this_object fr))"
| "eval_expr fr (Var x) = map_of (variables fr) x"

text \<open>\<open>functions\<close> is the first member of the object; the table's members are laid out as C does.\<close>

definition table_function :: "'w vm \<Rightarrow> c_members \<Rightarrow> int \<Rightarrow> string \<Rightarrow> 'w \<Rightarrow> int option" where
  "table_function v table obj f w =
     (case offsetof (pointer_size v) table f of
        None \<Rightarrow> None
      | Some k \<Rightarrow> Some (read_pointer v w (read_pointer v w obj + int k)))"

definition call_table :: "'w vm \<Rightarrow> c_members \<Rightarrow> jni_frame \<Rightarrow> string \<Rightarrow> expr list \<Rightarrow> 'w \<Rightarrow> (jval \<times> 'w) option" where
  "call_table v table fr f es w =
     (case (table_function v table (this_object fr) f w, those (map (eval_expr fr) es)) of
        (Some fp, Some args) \<Rightarrow> Some (call_function v fp args w)
      | _ \<Rightarrow> None)"

text \<open>
  No value stands for undefined behaviour: an unknown name, \<open>va_start\<close> behind anything but the last named
  parameter, \<open>va_end\<close> of a list that is not open, or leaving the function with one open.
\<close>

fun run_body :: "'w vm \<Rightarrow> c_members \<Rightarrow> stmt list \<Rightarrow> jni_frame \<Rightarrow> 'w \<Rightarrow> (jval option \<times> 'w) option" where
  "run_body v table [] fr w = (if open_lists fr = [] then Some (None, w) else None)"
| "run_body v table (Va_start x l # ss) fr w =
     (if last_named fr = Some l
      then run_body v table ss (fr\<lparr>variables := (x, Va_args (rest_args fr)) # variables fr, open_lists := x # open_lists fr\<rparr>) w
      else None)"
| "run_body v table (Va_end x # ss) fr w =
     (if x \<in> set (open_lists fr) then run_body v table ss (fr\<lparr>open_lists := remove1 x (open_lists fr)\<rparr>) w else None)"
| "run_body v table (Do f es # ss) fr w =
     (case call_table v table fr f es w of None \<Rightarrow> None | Some (r, w') \<Rightarrow> run_body v table ss fr w')"
| "run_body v table (Let x f es # ss) fr w =
     (case call_table v table fr f es w of
        None \<Rightarrow> None
      | Some (r, w') \<Rightarrow> run_body v table ss (fr\<lparr>variables := (x, r) # variables fr\<rparr>) w')"
| "run_body v table (Return_call f es # ss) fr w =
     (if open_lists fr = [] then map_option (\<lambda>(r, w'). (Some r, w')) (call_table v table fr f es w) else None)"
| "run_body v table (Return e # ss) fr w =
     (if open_lists fr = [] then map_option (\<lambda>r. (Some r, w)) (eval_expr fr e) else None)"

text \<open>A call binds the named parameters; what is left over is for a variadic function.  A \<open>void\<close> result is dropped.\<close>

definition named_params :: "jni_method \<Rightarrow> string list" where
  "named_params m = map snd (filter (\<lambda>(t, x). t \<noteq> Varargs) (method_params m))"

definition is_variadic :: "jni_method \<Rightarrow> bool" where
  "is_variadic m \<longleftrightarrow> method_params m \<noteq> [] \<and> fst (last (method_params m)) = Varargs"

definition call_method :: "'w vm \<Rightarrow> c_members \<Rightarrow> jni_method \<Rightarrow> int \<Rightarrow> jval list \<Rightarrow> 'w \<Rightarrow> (jval option \<times> 'w) option" where
  "call_method v table m obj args w =
     (let xs = named_params m; n = length xs in
      if length args < n \<or> (length args > n \<and> \<not> is_variadic m) then None
      else map_option (\<lambda>(r, w'). (if method_result m = c_void then None else r, w'))
        (run_body v table (method_body m)
          \<lparr>this_object = obj, variables = zip xs (take n args), last_named = (if xs = [] then None else Some (last xs)),
           rest_args = drop n args, open_lists = []\<rparr> w))"

end
