(* ===== verification/Jni_Slots.thy ===== *)
theory Jni_Slots
  imports Jni_Table
begin

text \<open>
  The slot table that the build derives from \<open>lib/jni.h\<close>: no name repeats, the shape test passes, and the
  slot of a function times the size of a pointer is where the C structure has it.  Names are told
  apart by a hash of their folded spelling.
\<close>

section \<open>No name repeats\<close>

definition name_key :: "string \<Rightarrow> nat" where
  "name_key s = foldl (\<lambda>k c. k * 3 + of_char c) 0 (fold_case s) mod 8192"

lemmas key_simps = comp_def name_key_def fold_case_def

lemma object_keys: "map (name_key \<circ> snd) jni_object_slots = [
    1360, 1361, 1362, 1363, 4186, 4037, 7999, 3259, 460, 4586, 7599, 1981, 3633, 5490, 2186, 8120, 4246, 7062, 1000, 1616, 5031,
    1856, 1677, 2771, 2907, 100, 2703, 3232, 3483, 2375, 2354, 4951, 2942, 810]"
  unfolding jni_slot_defs by (simp add: key_simps)

lemma virtual_call_keys: "map (name_key \<circ> snd) jni_virtual_call_slots = [
    2314, 7060, 7039, 1871, 5731, 5710, 435, 1423, 1402, 7577, 6465, 6444, 635, 2023, 2002, 4470, 5336, 5315, 5303, 7835, 7814,
    3639, 2843, 2822, 1760, 5398, 5377, 595, 1903, 1882]"
  unfolding jni_slot_defs by (simp add: key_simps)

lemma nonvirtual_call_keys: "map (name_key \<circ> snd) jni_nonvirtual_call_slots = [
    5752, 990, 969, 3993, 3905, 3884, 817, 2569, 2548, 7959, 7611, 7590, 1781, 5461, 5440, 7328, 5718, 5697, 5685, 789, 768,
    4785, 6281, 6260, 5198, 7520, 7499, 977, 3049, 3028]"
  unfolding jni_slot_defs by (simp add: key_simps)

lemma field_keys: "map (name_key \<circ> snd) jni_field_slots = [
    371, 5113, 1248, 5532, 5182, 3972, 6509, 4424, 7704, 7659, 477, 3724, 1376, 1026, 7888, 2393, 268, 3428, 3023]"
  unfolding jni_slot_defs by (simp add: key_simps)

lemma static_keys: "map (name_key \<circ> snd) jni_static_slots = [
    3812, 4004, 3938, 3917, 6941, 4557, 4536, 1533, 4717, 4696, 483, 1567, 1546, 3929, 3713, 3692, 4836, 6434, 6413, 6401, 2937,
    2916, 6933, 4533, 4512, 3450, 2276, 2255, 1693, 5197, 5176, 6833, 4247, 6842, 6346, 5996, 6414, 1319, 5238, 1954, 6793, 7899,
    1414, 7662, 7312, 2170, 7219, 6554, 5902, 2253]"
  unfolding jni_slot_defs by (simp add: key_simps)

lemma string_keys: "map (name_key \<circ> snd) jni_string_slots = [
    6185, 4117, 6066, 5525, 4658, 2114, 8129, 1714, 1849, 6774, 4128, 6892]"
  unfolding jni_slot_defs by (simp add: key_simps)

lemma array_keys: "map (name_key \<circ> snd) jni_array_slots = [
    6345, 2025, 1675, 1757, 5302, 917, 5489, 1128, 282, 854, 6456, 5694, 4807, 5762, 5458, 5125, 1379, 7873, 5283, 2175, 4416,
    4589, 1939, 2760, 7171, 863, 7857, 2311, 392, 4139, 3195, 3158, 1743, 2179, 981, 6259, 6292, 5455, 7143, 6810]"
  unfolding jni_slot_defs by (simp add: key_simps)

lemma machine_keys: "map (name_key \<circ> snd) jni_machine_slots = [
    2077, 4812, 2630, 6372, 3563, 5395, 3392, 5863, 7544, 2166, 3943, 4856, 6741, 6953, 3645, 2521, 3077, 5564]"
  unfolding jni_slot_defs by (simp add: key_simps)

lemmas jni_keys = object_keys virtual_call_keys nonvirtual_call_keys field_keys static_keys string_keys array_keys machine_keys

lemma jni_names_distinct: "distinct (map fold_case (map snd JNINativeInterface))"
proof -
  have "distinct (map (name_key \<circ> snd) JNINativeInterface)"
    unfolding JNINativeInterface_def map_append jni_keys by simp
  then have "distinct (map (\<lambda>s. foldl (\<lambda>k c. k * 3 + of_char c) (0::nat) s mod 8192) (map (fold_case \<circ> snd) JNINativeInterface))"
    by (simp add: comp_def name_key_def)
  then show ?thesis by (subst (asm) distinct_map) simp
qed

section \<open>The table\<close>

lemma jni_shape: "snd (JNINativeInterface ! 4) = ''GetVersion''" "snd (JNINativeInterface ! 232) = ''GetObjectRefType''"
  by (simp_all add: JNINativeInterface_def nth_append jni_lengths) (simp_all add: jni_slot_defs)

lemma offset_of_zip:
  assumes "distinct (map fold_case names)" "i < length names"
  shows "offset_of (zip names [0..<length names]) (names ! i) = Some i"
proof -
  have other: "fold_case (names ! j) \<noteq> fold_case (names ! i)" if "j < i" for j
    using nth_eq_iff_index_eq [OF assms(1), of j i] assms(2) that by simp
  have "find (\<lambda>(k, _). fold_case k = fold_case (names ! i)) (zip names [0..<length names]) = Some (names ! i, i)"
    unfolding find_Some_iff using assms(2) other by (auto intro!: exI [of _ i])
  then show ?thesis by (simp add: offset_of_def)
qed

lemma jni_table: "Get_JniFunctionTable JNINativeInterface = Some (zip (map snd JNINativeInterface) [0..<233])"
proof -
  let ?names = "map snd JNINativeInterface"
  have len: "length ?names = 233" by (simp add: jni_length)
  have "add_slots 0 [] ?names = Some (zip ?names [0..<233])"
    using add_slots_distinct [of "[]" ?names 0] jni_names_distinct by (simp add: jni_length)
  moreover have "offset_of (zip ?names [0..<233]) (?names ! 4) = Some 4" "offset_of (zip ?names [0..<233]) (?names ! 232) = Some 232"
    using offset_of_zip [OF jni_names_distinct] by (simp_all only: len)
  ultimately show ?thesis
    by (simp add: Get_JniFunctionTable_def jni_fields jni_length jni_shape del: upt_Suc)
qed

text \<open>The slot of a function, and its place in the structure.\<close>

lemma jni_slot:
  assumes "i < 233" "0 < P"
  shows "offset_of (zip (map snd JNINativeInterface) [0..<233]) (snd (JNINativeInterface ! i)) = Some i"
    and "offsetof P JNINativeInterface (snd (JNINativeInterface ! i)) = Some (i * P)"
proof -
  show "offset_of (zip (map snd JNINativeInterface) [0..<233]) (snd (JNINativeInterface ! i)) = Some i"
    using offset_of_zip [OF jni_names_distinct, of i] assms by (simp add: jni_length)
  have "distinct (map snd JNINativeInterface)" using jni_names_distinct unfolding distinct_map [of fold_case] by (rule conjunct1)
  then show "offsetof P JNINativeInterface (snd (JNINativeInterface ! i)) = Some (i * P)"
    using pointer_offsetof [OF assms(2) jni_pointer_wide, of i] assms(1) by (simp add: jni_length)
qed

section \<open>What the build reads is where C has it\<close>

text \<open>
  C19. For both pointer sizes, every offset the build derives from the text of a header is the offset of C's
  layout: any field of the activity, present or not; every member of the runtime contract, and its size;
  every slot of the JNI table, times the pointer size.
\<close>

theorem build_offsets_are_c_layout:
  assumes "P \<in> {4, 8}"
  shows "Get_NativeActivityFieldOffset ANativeActivity x P = offsetof P ANativeActivity x \<and>
    (\<exists>l. Get_HostRuntimeContractLayout host_runtime_contract P = Some l \<and>
      sizeof_struct P host_runtime_contract = Some (Size l) \<and> offsetof P host_runtime_contract y = map_of (Offsets l) y) \<and>
    (\<exists>slots. Get_JniFunctionTable JNINativeInterface = Some slots \<and>
      (\<forall>(f, i) \<in> set slots. offsetof P JNINativeInterface f = Some (i * P)))"
proof (intro conjI)
  have P: "0 < P" using assms by auto
  show "Get_NativeActivityFieldOffset ANativeActivity x P = offsetof P ANativeActivity x" by (rule native_activity_offset [OF assms])
  show "\<exists>l. Get_HostRuntimeContractLayout host_runtime_contract P = Some l \<and>
      sizeof_struct P host_runtime_contract = Some (Size l) \<and> offsetof P host_runtime_contract y = map_of (Offsets l) y"
    using contract_layout [OF P] by metis
  have "offsetof P JNINativeInterface f = Some (i * P)" if "(f, i) \<in> set (zip (map snd JNINativeInterface) [0..<233])" for f i
    using that jni_slot(2) [OF _ P] by (auto simp: in_set_zip jni_length)
  then show "\<exists>slots. Get_JniFunctionTable JNINativeInterface = Some slots \<and>
      (\<forall>(f, i) \<in> set slots. offsetof P JNINativeInterface f = Some (i * P))"
    unfolding jni_table by blast
qed

lemma build_offsets_are_c_layout_witness:
  "Get_NativeActivityFieldOffset ANativeActivity ''sdkVersion'' 8 = Some 48 \<and>
   Get_NativeActivityFieldOffset ANativeActivity ''instance'' 8 = Some 56"
proof -
  have offset: "Get_NativeActivityFieldOffset ANativeActivity x 8 = offsetof 8 ANativeActivity x" for x
    using build_offsets_are_c_layout [of 8 x "''size''"] by simp
  show ?thesis unfolding offset by (simp add: offsetof_def ANativeActivity_def jni_refs_def round_up_def)
qed

end
