(* ===== verification/Jni_Calls.thy ===== *)
theory Jni_Calls
  imports Jni_Wrappers Jni_Slots
begin

text \<open>
  A call through a member function of \<open>_JNIEnv\<close>: which function of the table it reaches, with which
  arguments, and that its type is the function's type.
\<close>

section \<open>Bodies that forward\<close>

definition target_name :: "jni_method \<Rightarrow> string" where
  "target_name m = method_name m @ (if is_variadic m then ''V'' else [])"

text \<open>The shape of a body that passes the object and every parameter on, in order.\<close>

definition forwards :: "jni_method \<Rightarrow> bool" where
  "forwards m \<longleftrightarrow>
     (let xs = named_params m; f = target_name m in
      distinct xs \<and>
      (if is_variadic m
       then xs \<noteq> [] \<and> ''args'' \<notin> set xs \<and>
         (if method_result m = c_void
          then method_body m = [Va_start ''args'' (last xs), Do f (This # map Var xs @ [Var ''args'']), Va_end ''args'']
          else method_body m = [Va_start ''args'' (last xs), Let ''result'' f (This # map Var xs @ [Var ''args'']),
            Va_end ''args'', Return (Var ''result'')])
       else method_body m = [Return_call f (This # map Var xs)] \<or>
         method_result m = c_void \<and> method_body m = [Do f (This # map Var xs)]))"

definition passed_args :: "jni_method \<Rightarrow> jval list \<Rightarrow> jval list" where
  "passed_args m args =
     (let n = length (named_params m) in if is_variadic m then take n args @ [Va_args (drop n args)] else args)"

definition accepts_args :: "jni_method \<Rightarrow> jval list \<Rightarrow> bool" where
  "accepts_args m args \<longleftrightarrow>
     (if is_variadic m then length (named_params m) \<le> length args else length args = length (named_params m))"

lemma eval_vars:
  assumes "distinct xs" "length xs = length vs"
  shows "map (map_of (zip xs vs)) xs = map Some vs"
  using assms by (intro nth_equalityI) (simp_all add: map_of_zip_nth)

lemma those_map_Some [simp]: "those (map Some vs) = Some vs"
  by (induction vs) auto

lemma those_append_Some: "those (map Some vs @ [Some v]) = Some (vs @ [v])"
  by (induction vs) auto

lemma eval_args:
  assumes "distinct xs" "length xs = length vs"
  shows "variables fr = zip xs vs \<Longrightarrow> map (eval_expr fr) (map Var xs) = map Some vs"
    and "variables fr = (y, z) # zip xs vs \<Longrightarrow> y \<notin> set xs \<Longrightarrow> map (eval_expr fr) (map Var xs) = map Some vs"
proof -
  show "variables fr = zip xs vs \<Longrightarrow> map (eval_expr fr) (map Var xs) = map Some vs"
    using eval_vars [OF assms] by (simp add: comp_def)
  assume fr: "variables fr = (y, z) # zip xs vs" "y \<notin> set xs"
  then have "map (eval_expr fr) (map Var xs) = map (map_of (zip xs vs)) xs" by auto
  then show "map (eval_expr fr) (map Var xs) = map Some vs" using eval_vars [OF assms] by simp
qed

lemma forwards_call:
  assumes "forwards m" "accepts_args m args" "table_function v table obj (target_name m) w = Some fp"
  shows "call_method v table m obj args w =
    (let (r, w') = call_function v fp (Num obj # passed_args m args) w in
     Some (if method_result m = c_void then None else Some r, w'))"
proof -
  let ?xs = "named_params m" and ?n = "length (named_params m)"
  let ?fr = "\<lparr>this_object = obj, variables = zip ?xs (take ?n args),
    last_named = (if ?xs = [] then None else Some (last ?xs)), rest_args = drop ?n args, open_lists = []\<rparr>"
  have d: "distinct ?xs" using assms(1) by (simp add: forwards_def Let_def)
  have n: "length ?xs = length (take ?n args)" using assms(2) by (auto simp: accepts_args_def split: if_splits)
  show ?thesis
  proof (cases "is_variadic m")
    case True
    then have m: "?xs \<noteq> []" "''args'' \<notin> set ?xs" using assms(1) by (simp_all add: forwards_def Let_def)
    let ?fr1 = "?fr\<lparr>variables := (''args'', Va_args (drop ?n args)) # zip ?xs (take ?n args), open_lists := [''args'']\<rparr>"
    have "map (eval_expr ?fr1) (map Var ?xs) = map Some (take ?n args)"
      by (rule eval_args(2) [OF d n _ m(2)]) simp
    then have "call_table v table ?fr1 (target_name m) (This # map Var ?xs @ [Var ''args'']) w =
        Some (call_function v fp (Num obj # passed_args m args) w)"
      using assms(3) True by (simp add: call_table_def passed_args_def those_append_Some Let_def del: map_map)
    then show ?thesis
      using assms(1,2) True m(1)
      by (auto simp: call_method_def forwards_def accepts_args_def Let_def split: prod.splits if_splits)
  next
    case False
    then have len: "length args = ?n" using assms(2) by (simp add: accepts_args_def)
    have "map (eval_expr ?fr) (map Var ?xs) = map Some (take ?n args)"
      by (rule eval_args(1) [OF d n]) simp
    then have "call_table v table ?fr (target_name m) (This # map Var ?xs) w =
        Some (call_function v fp (Num obj # passed_args m args) w)"
      using assms(3) False len by (simp add: call_table_def passed_args_def Let_def del: map_map)
    then show ?thesis
      using assms(1) False len
      by (auto simp: call_method_def forwards_def Let_def split: prod.splits if_splits)
  qed
qed

section \<open>Every member function forwards to its own slot\<close>

lemmas jni_method_defs = jni_object_methods_def jni_virtual_call_methods_def jni_nonvirtual_call_methods_def jni_field_methods_def
  jni_static_methods_def jni_string_methods_def jni_array_methods_def jni_machine_methods_def

lemmas call_macro_defs = CALL_TYPE_def CALL_TYPE_METHOD_def CALL_TYPE_METHODV_def CALL_TYPE_METHODA_def
  CALL_NONVIRT_TYPE_def CALL_NONVIRT_TYPE_METHOD_def CALL_NONVIRT_TYPE_METHODV_def CALL_NONVIRT_TYPE_METHODA_def
  CALL_STATIC_TYPE_def CALL_STATIC_TYPE_METHOD_def CALL_STATIC_TYPE_METHODV_def CALL_STATIC_TYPE_METHODA_def

lemmas method_shape = is_variadic_def named_params_def target_name_def

text \<open>A variadic function is followed by the one that takes its list.\<close>

fun lists_follow :: "jni_method list \<Rightarrow> bool" where
  "lists_follow [] = True"
| "lists_follow [m] = (\<not> is_variadic m)"
| "lists_follow (m # m' # ms) = ((is_variadic m \<longrightarrow> method_name m' = method_name m @ ''V'') \<and> lists_follow (m' # ms))"

lemma lists_follow_append: "lists_follow ms \<Longrightarrow> lists_follow ms' \<Longrightarrow> lists_follow (ms @ ms')"
proof (induction ms rule: lists_follow.induct)
  case (2 m)
  then show ?case by (cases ms') simp_all
qed simp_all

lemma lists_follow_nth:
  "lists_follow ms \<Longrightarrow> i < length ms \<Longrightarrow> is_variadic (ms ! i) \<Longrightarrow>
    Suc i < length ms \<and> method_name (ms ! Suc i) = method_name (ms ! i) @ ''V''"
proof (induction ms arbitrary: i rule: lists_follow.induct)
  case (3 m m' ms)
  then show ?case by (cases i) auto
qed simp_all

definition sound_methods :: "jni_method list \<Rightarrow> string list \<Rightarrow> bool" where
  "sound_methods ms names \<longleftrightarrow> list_all forwards ms \<and> lists_follow ms \<and> map method_name ms = names"

lemma sound_methods_append: "sound_methods ms ns \<Longrightarrow> sound_methods ms' ns' \<Longrightarrow> sound_methods (ms @ ms') (ns @ ns')"
  by (simp add: sound_methods_def lists_follow_append)

lemma object_sound: "sound_methods jni_object_methods (map snd (drop 4 jni_object_slots))"
  unfolding sound_methods_def jni_object_methods_def jni_object_slots_def
  by (simp add: call_macro_defs forwards_def method_shape Let_def)

lemma virtual_call_sound: "sound_methods jni_virtual_call_methods (map snd (jni_virtual_call_slots))"
  unfolding sound_methods_def jni_virtual_call_methods_def jni_virtual_call_slots_def
  by (simp add: call_macro_defs forwards_def method_shape Let_def)

lemma nonvirtual_call_sound: "sound_methods jni_nonvirtual_call_methods (map snd (jni_nonvirtual_call_slots))"
  unfolding sound_methods_def jni_nonvirtual_call_methods_def jni_nonvirtual_call_slots_def
  by (simp add: call_macro_defs forwards_def method_shape Let_def)

lemma field_sound: "sound_methods jni_field_methods (map snd (jni_field_slots))"
  unfolding sound_methods_def jni_field_methods_def jni_field_slots_def
  by (simp add: call_macro_defs forwards_def method_shape Let_def)

lemma static_sound: "sound_methods jni_static_methods (map snd (jni_static_slots))"
  unfolding sound_methods_def jni_static_methods_def jni_static_slots_def
  by (simp add: call_macro_defs forwards_def method_shape Let_def)

lemma string_sound: "sound_methods jni_string_methods (map snd (jni_string_slots))"
  unfolding sound_methods_def jni_string_methods_def jni_string_slots_def
  by (simp add: call_macro_defs forwards_def method_shape Let_def)

lemma array_sound: "sound_methods jni_array_methods (map snd (jni_array_slots))"
  unfolding sound_methods_def jni_array_methods_def jni_array_slots_def
  by (simp add: call_macro_defs forwards_def method_shape Let_def)

lemma machine_sound: "sound_methods jni_machine_methods (map snd (jni_machine_slots))"
  unfolding sound_methods_def jni_machine_methods_def jni_machine_slots_def
  by (simp add: call_macro_defs forwards_def method_shape Let_def)

lemma jni_sound: "sound_methods JNIEnv_methods (map snd (drop 4 JNINativeInterface))"
proof -
  have "drop 4 JNINativeInterface = drop 4 jni_object_slots @ jni_virtual_call_slots @ jni_nonvirtual_call_slots @ jni_field_slots @ jni_static_slots @ jni_string_slots @ jni_array_slots @ jni_machine_slots"
    by (simp add: JNINativeInterface_def jni_lengths)
  then show ?thesis
    unfolding JNIEnv_methods_def
    by (simp only: map_append) (intro sound_methods_append object_sound virtual_call_sound nonvirtual_call_sound field_sound static_sound string_sound array_sound machine_sound)
qed

lemma jni_method_count: "length JNIEnv_methods = 229"
proof -
  have "map method_name JNIEnv_methods = map snd (drop 4 JNINativeInterface)" using jni_sound by (simp add: sound_methods_def)
  then have "length (map method_name JNIEnv_methods) = length (map snd (drop 4 JNINativeInterface))" by simp
  then show ?thesis by (simp add: jni_length)
qed

lemma jni_method_nth:
  assumes "i < 229"
  defines "m \<equiv> JNIEnv_methods ! i"
  shows "forwards m" "method_name m = snd (JNINativeInterface ! (i + 4))"
    "target_name m = snd (JNINativeInterface ! (if is_variadic m then i + 5 else i + 4))"
    "is_variadic m \<Longrightarrow> i < 228"
proof -
  note sound = jni_sound [unfolded sound_methods_def]
  show "forwards m" using sound assms by (simp add: list_all_length jni_method_count)
  have name: "method_name (JNIEnv_methods ! k) = snd (JNINativeInterface ! (k + 4))" if "k < 229" for k
  proof -
    have "map method_name JNIEnv_methods ! k = map snd (drop 4 JNINativeInterface) ! k" using sound by simp
    then show ?thesis using that by (simp add: jni_method_count jni_length add.commute)
  qed
  then show "method_name m = snd (JNINativeInterface ! (i + 4))" using assms by simp
  have follow: "is_variadic m \<Longrightarrow> Suc i < 229 \<and> method_name (JNIEnv_methods ! Suc i) = method_name m @ ''V''"
    using lists_follow_nth [of JNIEnv_methods i] sound assms by (simp add: jni_method_count)
  then show "is_variadic m \<Longrightarrow> i < 228" by simp
  show "target_name m = snd (JNINativeInterface ! (if is_variadic m then i + 5 else i + 4))"
    using name [of i] name [of "Suc i"] follow assms by (auto simp: target_name_def numeral_eq_Suc)
qed

lemma member_call:
  assumes "i < 229" "0 < pointer_size v" "accepts_args (JNIEnv_methods ! i) args"
  defines "j \<equiv> if is_variadic (JNIEnv_methods ! i) then i + 5 else i + 4" and "table \<equiv> zip (map snd JNINativeInterface) [0..<233]"
  shows "offset_of table (method_name (JNIEnv_methods ! i)) = Some (i + 4)"
    and "offset_of table (target_name (JNIEnv_methods ! i)) = Some j"
    and "call_method v JNINativeInterface (JNIEnv_methods ! i) obj args w =
      (let (r, w') = call_function v (read_pointer v w (read_pointer v w obj + int (j * pointer_size v)))
          (Num obj # passed_args (JNIEnv_methods ! i) args) w
       in Some (if method_result (JNIEnv_methods ! i) = c_void then None else Some r, w'))"
proof -
  note m = jni_method_nth [OF assms(1), folded j_def]
  have j: "j < 233" using m(4) assms(1) by (auto simp: j_def)
  show "offset_of table (target_name (JNIEnv_methods ! i)) = Some j"
    unfolding table_def m(3) by (rule jni_slot(1) [OF j assms(2)])
  show "offset_of table (method_name (JNIEnv_methods ! i)) = Some (i + 4)"
    unfolding table_def m(2) by (rule jni_slot(1) [OF _ assms(2)]) (use assms(1) in simp)
  have "table_function v JNINativeInterface obj (target_name (JNIEnv_methods ! i)) w =
      Some (read_pointer v w (read_pointer v w obj + int (j * pointer_size v)))"
    using jni_slot(2) [OF j assms(2)] by (simp add: table_function_def m(3))
  from forwards_call [OF m(1) assms(3) this]
  show "call_method v JNINativeInterface (JNIEnv_methods ! i) obj args w =
      (let (r, w') = call_function v (read_pointer v w (read_pointer v w obj + int (j * pointer_size v)))
          (Num obj # passed_args (JNIEnv_methods ! i) args) w
       in Some (if method_result (JNIEnv_methods ! i) = c_void then None else Some r, w'))" .
qed

text \<open>
  C17. A call of a member function of \<open>JNIEnv\<close> with arguments it accepts is a call of the pointer that lies
  in the object's table at the slot which the build derives from the header, times the pointer size; the
  object comes first and every argument keeps its place.  A variadic function goes to the slot of its
  \<open>va_list\<close> version, with the arguments behind the named ones as its list.
\<close>

theorem jni_call_reaches_slot:
  assumes "i < 229" "0 < pointer_size v" "accepts_args (JNIEnv_methods ! i) args"
  shows "\<exists>slots j. Get_JniFunctionTable JNINativeInterface = Some slots \<and>
    offset_of slots (method_name (JNIEnv_methods ! i)) = Some (i + 4) \<and>
    offset_of slots (target_name (JNIEnv_methods ! i)) = Some j \<and>
    call_method v JNINativeInterface (JNIEnv_methods ! i) obj args w =
      (let (r, w') = call_function v (read_pointer v w (read_pointer v w obj + int (j * pointer_size v)))
          (Num obj # passed_args (JNIEnv_methods ! i) args) w
       in Some (if method_result (JNIEnv_methods ! i) = c_void then None else Some r, w'))"
  by (rule exI, rule exI, intro conjI, rule jni_table, (rule member_call [OF assms])+)

text \<open>A variadic function and a plain one, called on a machine that answers with what it was called with.\<close>

definition echo_vm :: "(int \<times> jval list) vm" where
  "echo_vm = \<lparr>pointer_size = 8, read_pointer = \<lambda>w p. p + 1000, call_function = \<lambda>fp args w. (Num 7, (fp, args))\<rparr>"

lemma method_group_lengths:
  "length jni_object_methods = 30" "length jni_virtual_call_methods = 30" "length jni_nonvirtual_call_methods = 30" "length jni_field_methods = 19" "length jni_static_methods = 50" "length jni_string_methods = 12" "length jni_array_methods = 40" "length jni_machine_methods = 18"
  using object_sound [unfolded sound_methods_def, THEN conjunct2, THEN conjunct2, THEN arg_cong, of length] virtual_call_sound [unfolded sound_methods_def, THEN conjunct2, THEN conjunct2, THEN arg_cong, of length] nonvirtual_call_sound [unfolded sound_methods_def, THEN conjunct2, THEN conjunct2, THEN arg_cong, of length] field_sound [unfolded sound_methods_def, THEN conjunct2, THEN conjunct2, THEN arg_cong, of length] static_sound [unfolded sound_methods_def, THEN conjunct2, THEN conjunct2, THEN arg_cong, of length] string_sound [unfolded sound_methods_def, THEN conjunct2, THEN conjunct2, THEN arg_cong, of length] array_sound [unfolded sound_methods_def, THEN conjunct2, THEN conjunct2, THEN arg_cong, of length] machine_sound [unfolded sound_methods_def, THEN conjunct2, THEN conjunct2, THEN arg_cong, of length]
  by (simp_all add: jni_lengths)

lemma jni_call_reaches_slot_witness:
  "call_method echo_vm JNINativeInterface (JNIEnv_methods ! 24) 16 [Num 1, Num 2, Num 3, Num 4] (0, []) =
     Some (Some (Num 7), (2248, [Num 16, Num 1, Num 2, Va_args [Num 3, Num 4]]))"
proof -
  have m: "is_variadic (JNIEnv_methods ! 24)" "named_params (JNIEnv_methods ! 24) = [''clazz'', ''methodID'']"
      "method_result (JNIEnv_methods ! 24) = jobject" "target_name (JNIEnv_methods ! 24) = snd (JNINativeInterface ! 29)"
    by (simp_all add: JNIEnv_methods_def JNINativeInterface_def nth_append method_group_lengths jni_lengths)
      (simp_all add: jni_object_methods_def jni_object_slots_def method_shape)
  have "accepts_args (JNIEnv_methods ! 24) [Num 1, Num 2, Num 3, Num 4]" by (simp add: accepts_args_def m)
  moreover have "0 < pointer_size echo_vm" "24 < (229::nat)" by (simp_all add: echo_vm_def)
  ultimately obtain slots j where
    "Get_JniFunctionTable JNINativeInterface = Some slots" "offset_of slots (snd (JNINativeInterface ! 29)) = Some j"
    "call_method echo_vm JNINativeInterface (JNIEnv_methods ! 24) 16 [Num 1, Num 2, Num 3, Num 4] (0, []) =
      (let (r, w') = call_function echo_vm (read_pointer echo_vm (0, []) (read_pointer echo_vm (0, []) 16 + int (j * pointer_size echo_vm)))
          (Num 16 # passed_args (JNIEnv_methods ! 24) [Num 1, Num 2, Num 3, Num 4]) (0, [])
       in Some (if method_result (JNIEnv_methods ! 24) = c_void then None else Some r, w'))"
    using jni_call_reaches_slot [of 24 echo_vm "[Num 1, Num 2, Num 3, Num 4]" 16 "(0, [])", unfolded m(4)] by blast
  moreover from this have "j = 29" using jni_slot(1) [of 29 1] by (simp add: jni_table)
  ultimately show ?thesis by (simp add: echo_vm_def m passed_args_def Let_def)
qed

end
