(* ===== verification/Jni_Types.thy ===== *)
theory Jni_Types
  imports Jni_Calls
begin

text \<open>
  The types of the member functions of \<open>lib/jni.h\<close>: a checker for their bodies against the function pointers
  of a table, and the fact that every member function of \<open>_JNIEnv\<close> and \<open>_JavaVM\<close> passes it and has the type
  of the pointer of its name.
\<close>

section \<open>Checking a body\<close>

text \<open>The type a table declares for a member.\<close>

definition member_type :: "c_members \<Rightarrow> string \<Rightarrow> ctype option" where
  "member_type table f = map_of (map prod.swap table) f"

fun expr_type :: "ctype \<Rightarrow> (string \<times> ctype) list \<Rightarrow> expr \<Rightarrow> ctype option" where
  "expr_type self env This = Some self"
| "expr_type self env (Var x) = map_of env x"

text \<open>A call has a type when the table has a function pointer of the types of the arguments.\<close>

definition call_type :: "ctype \<Rightarrow> c_members \<Rightarrow> (string \<times> ctype) list \<Rightarrow> string \<Rightarrow> expr list \<Rightarrow> ctype option" where
  "call_type self table env f es =
     (case member_type table f of
        Some (Fun_ptr t ts) \<Rightarrow> if map (expr_type self env) es = map Some ts then Some t else None
      | _ \<Rightarrow> None)"

fun typed_body :: "ctype \<Rightarrow> c_members \<Rightarrow> ctype \<Rightarrow> (string \<times> ctype) list \<Rightarrow> stmt list \<Rightarrow> bool" where
  "typed_body self table r env [] \<longleftrightarrow> r = c_void"
| "typed_body self table r env (Va_start x l # ss) \<longleftrightarrow> map_of env l \<noteq> None \<and> typed_body self table r ((x, va_list) # env) ss"
| "typed_body self table r env (Va_end x # ss) \<longleftrightarrow> map_of env x = Some va_list \<and> typed_body self table r env ss"
| "typed_body self table r env (Do f es # ss) \<longleftrightarrow> call_type self table env f es \<noteq> None \<and> typed_body self table r env ss"
| "typed_body self table r env (Let x f es # ss) \<longleftrightarrow>
     (case call_type self table env f es of None \<Rightarrow> False | Some t \<Rightarrow> t \<noteq> c_void \<and> typed_body self table r ((x, t) # env) ss)"
| "typed_body self table r env (Return_call f es # ss) \<longleftrightarrow> call_type self table env f es = Some r"
| "typed_body self table r env (Return e # ss) \<longleftrightarrow> expr_type self env e = Some r"

text \<open>The named parameters with their types, and the type of a member function as a pointer of a table has it.\<close>

definition named_types :: "jni_method \<Rightarrow> ctype list" where
  "named_types m = map fst (filter (\<lambda>(t, x). t \<noteq> Varargs) (method_params m))"

definition well_typed :: "ctype \<Rightarrow> c_members \<Rightarrow> jni_method \<Rightarrow> bool" where
  "well_typed self table m \<longleftrightarrow> typed_body self table (method_result m) (zip (named_params m) (named_types m)) (method_body m)"

definition method_type :: "ctype \<Rightarrow> jni_method \<Rightarrow> ctype" where
  "method_type self m = Fun_ptr (method_result m) (self # map fst (method_params m))"

section \<open>A body that forwards\<close>

lemma named_lengths: "length (named_types m) = length (named_params m)"
  by (simp add: named_types_def named_params_def)

lemma var_types:
  assumes "distinct xs" "length ts = length xs"
  shows "map (expr_type self (zip xs ts)) (map Var xs) = map Some ts"
    and "y \<notin> set xs \<Longrightarrow> map (expr_type self ((y, t) # zip xs ts)) (map Var xs) = map Some ts"
proof -
  show first: "map (expr_type self (zip xs ts)) (map Var xs) = map Some ts"
    using eval_vars [OF assms(1) assms(2) [symmetric]] by (simp add: comp_def)
  show "map (expr_type self ((y, t) # zip xs ts)) (map Var xs) = map Some ts" if "y \<notin> set xs"
  proof -
    have "map (expr_type self ((y, t) # zip xs ts)) (map Var xs) = map (expr_type self (zip xs ts)) (map Var xs)"
      using that by auto
    then show ?thesis using first by (rule trans)
  qed
qed

text \<open>What the type of the function it calls has to be.\<close>

definition target_type :: "ctype \<Rightarrow> jni_method \<Rightarrow> ctype" where
  "target_type self m = Fun_ptr (method_result m) (self # named_types m @ (if is_variadic m then [va_list] else []))"

lemma forwards_well_typed:
  assumes "forwards m" "member_type table (target_name m) = Some (target_type self m)"
  shows "well_typed self table m"
proof -
  let ?xs = "named_params m" and ?ts = "named_types m"
  let ?env = "zip ?xs ?ts"
  have d: "distinct ?xs" using assms(1) by (simp add: forwards_def Let_def)
  show ?thesis
  proof (cases "is_variadic m")
    case True
    let ?env1 = "(''args'', va_list) # ?env"
    have xs: "?xs \<noteq> []" "''args'' \<notin> set ?xs" using assms(1) True by (simp_all add: forwards_def Let_def)
    then have "last ?xs \<in> set (map fst ?env)" by (simp add: named_lengths)
    then have start: "map_of ?env (last ?xs) \<noteq> None" by (metis list.set_map map_of_eq_None_iff)
    have "map (expr_type self ?env1) (This # map Var ?xs @ [Var ''args'']) = map Some (self # ?ts @ [va_list])"
      using var_types(2) [OF d named_lengths xs(2)] by simp
    then have "call_type self table ?env1 (target_name m) (This # map Var ?xs @ [Var ''args'']) = Some (method_result m)"
      using assms(2) True by (simp add: call_type_def target_type_def del: list.map map_append)
    then show ?thesis
      using assms(1) True start by (auto simp: well_typed_def forwards_def Let_def split: if_splits)
  next
    case False
    have "map (expr_type self ?env) (This # map Var ?xs) = map Some (self # ?ts)"
      using var_types(1) [OF d named_lengths] by simp
    then have "call_type self table ?env (target_name m) (This # map Var ?xs) = Some (method_result m)"
      using assms(2) False by (simp add: call_type_def target_type_def del: list.map map_append)
    then show ?thesis
      using assms(1) False by (auto simp: well_typed_def forwards_def Let_def)
  qed
qed

section \<open>The tables have the types\<close>

text \<open>
  A group of member functions against its pointers: the own type of each, and behind a variadic one the
  function that takes its list.
\<close>

fun types_match :: "ctype \<Rightarrow> jni_method list \<Rightarrow> c_members \<Rightarrow> bool" where
  "types_match self [] ps \<longleftrightarrow> ps = []"
| "types_match self (m # ms) ps \<longleftrightarrow>
     (case ps of
        [] \<Rightarrow> False
      | (t, x) # ps' \<Rightarrow> t = method_type self m \<and>
          (if is_variadic m then ps' \<noteq> [] \<and> fst (hd ps') = target_type self m else t = target_type self m) \<and>
          types_match self ms ps')"

lemma types_match_append:
  "types_match self ms ps \<Longrightarrow> types_match self ms' ps' \<Longrightarrow> types_match self (ms @ ms') (ps @ ps')"
  by (induction self ms ps rule: types_match.induct) (auto split: list.splits if_splits)

lemma types_match_length: "types_match self ms ps \<Longrightarrow> length ps = length ms"
  by (induction self ms ps rule: types_match.induct) (auto split: list.splits)

lemma types_match_nth:
  "types_match self ms ps \<Longrightarrow> i < length ms \<Longrightarrow>
    fst (ps ! i) = method_type self (ms ! i) \<and>
    fst (ps ! (if is_variadic (ms ! i) then Suc i else i)) = target_type self (ms ! i)"
proof (induction ms arbitrary: ps i)
  case (Cons m ms)
  then obtain p ps' where ps: "ps = p # ps'" by (cases ps) auto
  have m: "fst p = method_type self m" "types_match self ms ps'"
      "if is_variadic m then ps' \<noteq> [] \<and> fst (hd ps') = target_type self m else fst p = target_type self m"
    using Cons.prems(1) by (auto simp: ps split: prod.splits)
  show ?case
  proof (cases i)
    case 0
    then show ?thesis using m by (auto simp: ps hd_conv_nth split: if_splits)
  next
    case (Suc n)
    then show ?thesis using Cons.IH [OF m(2), of n] Cons.prems(2) by (auto simp: ps)
  qed
qed simp

lemmas type_shape = method_type_def target_type_def named_types_def is_variadic_def

lemma object_types: "types_match (Ptr JNIEnv) jni_object_methods (drop 4 jni_object_slots)"
  unfolding jni_object_methods_def jni_object_slots_def by (simp add: type_shape)

lemma virtual_call_types: "types_match (Ptr JNIEnv) jni_virtual_call_methods jni_virtual_call_slots"
  unfolding jni_virtual_call_methods_def jni_virtual_call_slots_def by (simp add: call_macro_defs type_shape)

lemma nonvirtual_call_types: "types_match (Ptr JNIEnv) jni_nonvirtual_call_methods jni_nonvirtual_call_slots"
  unfolding jni_nonvirtual_call_methods_def jni_nonvirtual_call_slots_def by (simp add: call_macro_defs type_shape)

lemma field_types: "types_match (Ptr JNIEnv) jni_field_methods jni_field_slots"
  unfolding jni_field_methods_def jni_field_slots_def by (simp add: type_shape)

lemma static_types: "types_match (Ptr JNIEnv) jni_static_methods jni_static_slots"
  unfolding jni_static_methods_def jni_static_slots_def by (simp add: call_macro_defs type_shape)

lemma string_types: "types_match (Ptr JNIEnv) jni_string_methods jni_string_slots"
  unfolding jni_string_methods_def jni_string_slots_def by (simp add: type_shape)

lemma array_types: "types_match (Ptr JNIEnv) jni_array_methods jni_array_slots"
  unfolding jni_array_methods_def jni_array_slots_def by (simp add: type_shape)

lemma machine_types: "types_match (Ptr JNIEnv) jni_machine_methods jni_machine_slots"
  unfolding jni_machine_methods_def jni_machine_slots_def by (simp add: type_shape)

lemma env_types: "types_match (Ptr JNIEnv) JNIEnv_methods (drop 4 JNINativeInterface)"
proof -
  have "drop 4 JNINativeInterface = drop 4 jni_object_slots @ jni_virtual_call_slots @ jni_nonvirtual_call_slots @ jni_field_slots @
      jni_static_slots @ jni_string_slots @ jni_array_slots @ jni_machine_slots"
    by (simp add: JNINativeInterface_def jni_lengths)
  then show ?thesis
    unfolding JNIEnv_methods_def
    by (simp only:) (intro types_match_append object_types virtual_call_types nonvirtual_call_types field_types static_types
      string_types array_types machine_types)
qed

lemma vm_types: "types_match (Ptr JavaVM) JavaVM_methods (drop 3 JNIInvokeInterface)"
  unfolding JavaVM_methods_def JNIInvokeInterface_def by (simp add: type_shape)

lemma vm_sound: "sound_methods JavaVM_methods (map snd (drop 3 JNIInvokeInterface))"
  unfolding sound_methods_def JavaVM_methods_def JNIInvokeInterface_def by (simp add: forwards_def method_shape Let_def)

section \<open>Every member function is well typed\<close>

lemma member_type_nth:
  assumes "distinct (map snd table)" "i < length table"
  shows "member_type table (snd (table ! i)) = Some (fst (table ! i))"
proof -
  have "map fst (map prod.swap table) = map snd table" by simp
  moreover have "(snd (table ! i), fst (table ! i)) \<in> set (map prod.swap table)" using assms(2) by (force simp: in_set_conv_nth)
  ultimately show ?thesis using assms(1) unfolding member_type_def by (metis map_of_is_SomeI)
qed

lemma table_well_typed:
  assumes sound: "sound_methods ms (map snd (drop k table))" and types: "types_match self ms (drop k table)"
    and distinct: "distinct (map snd table)" and m: "m \<in> set ms"
  shows "well_typed self table m" "member_type table (method_name m) = Some (method_type self m)"
proof -
  obtain i where i: "i < length ms" "m = ms ! i" using m by (metis in_set_conv_nth)
  let ?j = "if is_variadic m then Suc i else i"
  note s = sound [unfolded sound_methods_def]
  have len: "length (drop k table) = length ms" by (rule types_match_length [OF types])
  have names: "method_name (ms ! n) = snd (table ! (k + n))" if "n < length ms" for n
  proof -
    have "map method_name ms ! n = map snd (drop k table) ! n" using s by simp
    then show ?thesis using that len by simp
  qed
  have follow: "is_variadic m \<Longrightarrow> Suc i < length ms \<and> method_name (ms ! Suc i) = method_name m @ ''V''"
    using lists_follow_nth s i by blast
  then have j: "?j < length ms" "target_name m = snd (table ! (k + ?j))"
    using names [of i] names [of "Suc i"] i by (auto simp: target_name_def)
  have "fst (table ! (k + i)) = method_type self m" "fst (table ! (k + ?j)) = target_type self m"
    using types_match_nth [OF types i(1)] i j(1) len by auto
  moreover have "member_type table (snd (table ! (k + n))) = Some (fst (table ! (k + n)))" if "n < length ms" for n
    using member_type_nth [OF distinct] that len by simp
  ultimately show "member_type table (method_name m) = Some (method_type self m)" "well_typed self table m"
    using names [OF i(1)] i j s by (auto intro!: forwards_well_typed simp: list_all_iff)
qed

lemma jni_distinct: "distinct (map snd JNINativeInterface)"
  using jni_names_distinct unfolding distinct_map [of fold_case] by (rule conjunct1)

text \<open>
  C18. Every member function of \<open>_JNIEnv\<close> and of \<open>_JavaVM\<close> has the type of the function pointer of its name,
  the object in front, and its body is well typed: the pointer it calls exists in the table, takes what
  it is passed, a \<open>va_list\<close> for the arguments behind the dots, and returns what the member function returns.
\<close>

theorem jni_members_well_typed:
  assumes "(self, table, methods) \<in> {(JNIEnv, JNINativeInterface, JNIEnv_methods), (JavaVM, JNIInvokeInterface, JavaVM_methods)}"
    and "m \<in> set methods"
  shows "member_type table (method_name m) = Some (method_type (Ptr self) m) \<and> well_typed (Ptr self) table m"
proof -
  have "distinct (map snd JNIInvokeInterface)" by (simp add: JNIInvokeInterface_def)
  then show ?thesis
    using assms table_well_typed [OF jni_sound env_types jni_distinct] table_well_typed [OF vm_sound vm_types] by auto
qed

lemma jni_members_well_typed_witness:
  "member_type JNIInvokeInterface ''GetEnv'' = Some (Fun_ptr jint [Ptr JavaVM, Ptr (Ptr c_void), jint]) \<and>
   well_typed (Ptr JavaVM) JNIInvokeInterface (JavaVM_methods ! 3)"
  using jni_members_well_typed [of JavaVM JNIInvokeInterface JavaVM_methods "JavaVM_methods ! 3"]
  by (simp add: JavaVM_methods_def method_type_def)

end
