(* ===== verification/Native_Peers.thy ===== *)
theory Native_Peers
  imports Jni_Calls
begin

text \<open>
  The code that \<open>Add-NativePeerMethods\<close> of \<open>setup.ps1\<close> emits to register the native methods of the
  activity: one stub per JNI function, \<open>Check\<close> and \<open>Bind\<close>, as instruction lists of the emitter's order,
  and a machine that runs them.  What the emitted code calls outside, the Java machine and the marshaller
  of the managed runtime, is a parameter.
\<close>

section \<open>The machine\<close>

datatype il_ret = Void_ret | Byte_ret | Int_ret | Ptr_ret

datatype il =
    Ldarg nat | Ldc int | Ldstr string | Ldftn string | Ldloc nat | Stloc nat | Mul
  | Pointer_size | Read_pointer | Write_pointer | Alloc | Free | Encode | Free_string
  | Calli nat il_ret | Invoke string nat
  | Newobj string | Throw | Brfalse string | Brtrue string | Label string | Ret
  | Try "il list" "il list"

datatype il_val = Native int | Managed string

record 'w host =
  java :: "'w vm"
  write_pointer :: "int \<Rightarrow> int \<Rightarrow> 'w \<Rightarrow> 'w"
  alloc_memory :: "int \<Rightarrow> 'w \<Rightarrow> int option \<times> 'w"
  free_memory :: "int \<Rightarrow> 'w \<Rightarrow> 'w"
  encode_string :: "string \<Rightarrow> 'w \<Rightarrow> int option \<times> 'w"
  free_encoded :: "int \<Rightarrow> 'w \<Rightarrow> 'w"
  entry_point :: "string \<Rightarrow> int"

text \<open>What a run does outside, in order; a failing allocation has no address.\<close>

datatype event =
    Called string "il_val list" "il_val option"
  | Allocated int "int option" | Freed int
  | Encoded string "int option" | Freed_string int
  | Wrote int int

record 'w il_state =
  world :: 'w
  trace :: "event list"

record il_frame =
  arguments :: "il_val list"
  locals :: "nat \<Rightarrow> int"
  stack :: "il_val list"

datatype il_out = Fell | Returned "il_val option" | Threw string | Stuck

definition log_event :: "event \<Rightarrow> 'w \<Rightarrow> 'w il_state \<Rightarrow> 'w il_state" where
  "log_event e w st = st\<lparr>world := w, trace := trace st @ [e]\<rparr>"

definition push :: "il_val \<Rightarrow> il_val list \<Rightarrow> il_frame \<Rightarrow> il_frame" where
  "push v s fr = fr\<lparr>stack := v # s\<rparr>"

text \<open>A result comes back at the width of the declared type.\<close>

fun convert_result :: "il_ret \<Rightarrow> int \<Rightarrow> il_val option" where
  "convert_result Void_ret r = None"
| "convert_result Byte_ret r = Some (Native (r mod 256))"
| "convert_result Int_ret r = Some (Native (signed_take_bit 31 r))"
| "convert_result Ptr_ret r = Some (Native r)"

fun the_ints :: "il_val list \<Rightarrow> jval list option" where
  "the_ints [] = Some []"
| "the_ints (Native n # vs) = map_option ((#) (Num n)) (the_ints vs)"
| "the_ints (Managed s # vs) = None"

fun result_int :: "jval \<Rightarrow> int" where
  "result_int (Num n) = n"
| "result_int (Va_args vs) = 0"

fun skip_to :: "string \<Rightarrow> il list \<Rightarrow> il list option" where
  "skip_to l [] = None"
| "skip_to l (Label l' # is) = (if l = l' then Some is else skip_to l is)"
| "skip_to l (i # is) = skip_to l is"

lemma skip_to_size: "skip_to l is = Some is' \<Longrightarrow> size_list size is' \<le> size_list size is"
  by (induction l "is" rule: skip_to.induct) (auto split: if_splits)

type_synonym 'w il_methods = "string \<Rightarrow> il_val list \<Rightarrow> 'w il_state \<Rightarrow> il_out \<times> 'w il_state"

text \<open>
  One instruction without control flow: the new frame and state, an exception, or no value for a stack
  the instruction does not fit.
\<close>

datatype 'w il_step = Next il_frame "'w il_state" | Raise string "'w il_state" | Bad

fun step_il :: "'w host \<Rightarrow> 'w il_methods \<Rightarrow> il \<Rightarrow> il_frame \<Rightarrow> 'w il_state \<Rightarrow> 'w il_step" where
  "step_il h meth (Ldarg n) fr st =
     (if n < length (arguments fr) then Next (push (arguments fr ! n) (stack fr) fr) st else Bad)"
| "step_il h meth (Ldc n) fr st = Next (push (Native n) (stack fr) fr) st"
| "step_il h meth (Ldstr s) fr st = Next (push (Managed s) (stack fr) fr) st"
| "step_il h meth (Ldftn s) fr st = Next (push (Native (entry_point h s)) (stack fr) fr) st"
| "step_il h meth (Ldloc n) fr st = Next (push (Native (locals fr n)) (stack fr) fr) st"
| "step_il h meth (Stloc n) fr st =
     (case stack fr of Native v # s \<Rightarrow> Next (fr\<lparr>locals := (locals fr)(n := v), stack := s\<rparr>) st | _ \<Rightarrow> Bad)"
| "step_il h meth Mul fr st =
     (case stack fr of Native b # Native a # s \<Rightarrow> Next (push (Native (a * b)) s fr) st | _ \<Rightarrow> Bad)"
| "step_il h meth Pointer_size fr st = Next (push (Native (int (pointer_size (java h)))) (stack fr) fr) st"
| "step_il h meth Read_pointer fr st =
     (case stack fr of
        Native off # Native p # s \<Rightarrow> Next (push (Native (read_pointer (java h) (world st) (p + off))) s fr) st | _ \<Rightarrow> Bad)"
| "step_il h meth Write_pointer fr st =
     (case stack fr of
        Native v # Native off # Native p # s \<Rightarrow>
          Next (fr\<lparr>stack := s\<rparr>) (log_event (Wrote (p + off) v) (write_pointer h (p + off) v (world st)) st) | _ \<Rightarrow> Bad)"
| "step_il h meth Alloc fr st =
     (case stack fr of
        Native n # s \<Rightarrow>
          (case alloc_memory h n (world st) of
             (None, w) \<Rightarrow> Raise ''OutOfMemoryException'' (log_event (Allocated n None) w st)
           | (Some p, w) \<Rightarrow> Next (push (Native p) s fr) (log_event (Allocated n (Some p)) w st)) | _ \<Rightarrow> Bad)"
| "step_il h meth Free fr st =
     (case stack fr of
        Native p # s \<Rightarrow> Next (fr\<lparr>stack := s\<rparr>) (log_event (Freed p) (free_memory h p (world st)) st) | _ \<Rightarrow> Bad)"
| "step_il h meth Encode fr st =
     (case stack fr of
        Managed t # s \<Rightarrow>
          (case encode_string h t (world st) of
             (None, w) \<Rightarrow> Raise ''OutOfMemoryException'' (log_event (Encoded t None) w st)
           | (Some p, w) \<Rightarrow> Next (push (Native p) s fr) (log_event (Encoded t (Some p)) w st)) | _ \<Rightarrow> Bad)"
| "step_il h meth Free_string fr st =
     (case stack fr of
        Native p # s \<Rightarrow> Next (fr\<lparr>stack := s\<rparr>) (log_event (Freed_string p) (free_encoded h p (world st)) st) | _ \<Rightarrow> Bad)"
| "step_il h meth (Calli n ret) fr st =
     (case stack fr of
        Native fp # s \<Rightarrow>
          (if length s < n then Bad
           else case the_ints (rev (take n s)) of
             None \<Rightarrow> Bad
           | Some args \<Rightarrow>
               let (r, w) = call_function (java h) fp args (world st);
                   s' = (case convert_result ret (result_int r) of None \<Rightarrow> drop n s | Some v \<Rightarrow> v # drop n s)
               in Next (fr\<lparr>stack := s'\<rparr>) (st\<lparr>world := w\<rparr>)) | _ \<Rightarrow> Bad)"
| "step_il h meth (Invoke f n) fr st =
     (if length (stack fr) < n then Bad
      else let args = rev (take n (stack fr)) in
        (case meth f args st of
           (Returned r, st') \<Rightarrow>
             Next (fr\<lparr>stack := (case r of None \<Rightarrow> drop n (stack fr) | Some v \<Rightarrow> v # drop n (stack fr))\<rparr>)
               (st'\<lparr>trace := trace st' @ [Called f args r]\<rparr>)
         | (Threw e, st') \<Rightarrow> Raise e st'
         | _ \<Rightarrow> Bad))"
| "step_il h meth (Newobj e) fr st = (case stack fr of Managed s # s' \<Rightarrow> Next (push (Managed e) s' fr) st | _ \<Rightarrow> Bad)"
| "step_il h meth (Label l) fr st = Next fr st"
| "step_il h meth i fr st = Bad"

text \<open>
  Branches go forward inside their block.  A block that ends or throws runs its finally block, whose own
  exception replaces the first; a method does not return from inside a block.
\<close>

function run_il ::
  "'w host \<Rightarrow> 'w il_methods \<Rightarrow> il list \<Rightarrow> il_frame \<Rightarrow> 'w il_state \<Rightarrow> il_out \<times> il_frame \<times> 'w il_state" where
  "run_il h meth [] fr st = (Fell, fr, st)"
| "run_il h meth (i # is) fr st =
     (case i of
        Brfalse l \<Rightarrow>
          (case stack fr of
             Native v # s \<Rightarrow>
               (if v \<noteq> 0 then run_il h meth is (fr\<lparr>stack := s\<rparr>) st
                else case skip_to l is of None \<Rightarrow> (Stuck, fr, st) | Some is' \<Rightarrow> run_il h meth is' (fr\<lparr>stack := s\<rparr>) st)
           | _ \<Rightarrow> (Stuck, fr, st))
      | Brtrue l \<Rightarrow>
          (case stack fr of
             Native v # s \<Rightarrow>
               (if v = 0 then run_il h meth is (fr\<lparr>stack := s\<rparr>) st
                else case skip_to l is of None \<Rightarrow> (Stuck, fr, st) | Some is' \<Rightarrow> run_il h meth is' (fr\<lparr>stack := s\<rparr>) st)
           | _ \<Rightarrow> (Stuck, fr, st))
      | Ret \<Rightarrow> (case stack fr of [] \<Rightarrow> (Returned None, fr, st) | [v] \<Rightarrow> (Returned (Some v), fr, st) | _ \<Rightarrow> (Stuck, fr, st))
      | Throw \<Rightarrow> (case stack fr of Managed e # s \<Rightarrow> (Threw e, fr, st) | _ \<Rightarrow> (Stuck, fr, st))
      | Try body finally \<Rightarrow>
          (case run_il h meth body (fr\<lparr>stack := []\<rparr>) st of
             (out, fr1, st1) \<Rightarrow>
               (case run_il h meth finally (fr1\<lparr>stack := []\<rparr>) st1 of
                  (Fell, fr2, st2) \<Rightarrow>
                    (case out of
                       Fell \<Rightarrow> run_il h meth is (fr2\<lparr>stack := []\<rparr>) st2
                     | Threw e \<Rightarrow> (Threw e, fr2, st2)
                     | _ \<Rightarrow> (Stuck, fr2, st2))
                | (Threw e, fr2, st2) \<Rightarrow> (case out of Stuck \<Rightarrow> (Stuck, fr2, st2) | Returned v \<Rightarrow> (Stuck, fr2, st2) | _ \<Rightarrow> (Threw e, fr2, st2))
                | (_, fr2, st2) \<Rightarrow> (Stuck, fr2, st2)))
      | _ \<Rightarrow>
          (case step_il h meth i fr st of
             Next fr' st' \<Rightarrow> run_il h meth is fr' st'
           | Raise e st' \<Rightarrow> (Threw e, fr, st')
           | Bad \<Rightarrow> (Stuck, fr, st)))"
  by pat_completeness auto
termination
  by (relation "measure (\<lambda>(_, _, is, _). size_list size is)") (auto dest: skip_to_size)

definition run_method :: "'w host \<Rightarrow> 'w il_methods \<Rightarrow> il list \<Rightarrow> il_val list \<Rightarrow> 'w il_state \<Rightarrow> il_out \<times> 'w il_state" where
  "run_method h meth body args st =
     (case run_il h meth body \<lparr>arguments = args, locals = \<lambda>n. 0, stack = []\<rparr> st of (out, fr, st') \<Rightarrow> (out, st'))"

section \<open>The emitted methods\<close>

text \<open>Name, result and number of the parameters, each an address or an integer.\<close>

definition signatures :: "(string \<times> il_ret \<times> nat) list" where
  "signatures = [(''GetObjectClass'', Ptr_ret, 2), (''RegisterNatives'', Int_ret, 4), (''DeleteLocalRef'', Void_ret, 2),
     (''ExceptionCheck'', Byte_ret, 1), (''ExceptionClear'', Void_ret, 1)]"

definition emit_stub :: "nat \<Rightarrow> il_ret \<Rightarrow> nat \<Rightarrow> il list" where
  "emit_stub slot ret n =
     map Ldarg [0..<n] @
     [Ldarg 0, Ldc 0, Read_pointer, Ldc (int slot), Pointer_size, Mul, Read_pointer, Calli n ret, Ret]"

text \<open>A name the header lacks is an error of the build.\<close>

fun emit_stubs :: "(string \<times> nat) list \<Rightarrow> (string \<times> il_ret \<times> nat) list \<Rightarrow> (string \<times> il list) list option" where
  "emit_stubs slots [] = Some []"
| "emit_stubs slots ((f, ret, n) # sigs) =
     (case offset_of slots f of
        None \<Rightarrow> None
      | Some slot \<Rightarrow> map_option ((#) (f, emit_stub slot ret n)) (emit_stubs slots sigs))"

definition check_code :: "il list" where
  "check_code = [Ldarg 0, Invoke ''ExceptionCheck'' 1, Brfalse ''okay'', Ldarg 0, Invoke ''ExceptionClear'' 1,
     Ldstr ''Java exception during owned peer registration.'', Newobj ''InvalidOperationException'', Throw,
     Label ''okay'', Ret]"

record callback =
  Name :: string
  JavaName :: string
  Descriptor :: string

definition callbacks :: "callback list" where
  "callbacks = [
     \<lparr>Name = ''OnActivityResult'', JavaName = ''n_onActivityResult'', Descriptor = ''(IILandroid/content/Intent;)V''\<rparr>,
     \<lparr>Name = ''OnRequestPermissionsResult'', JavaName = ''n_onRequestPermissionsResult'',
       Descriptor = ''(I[Ljava/lang/String;[I)V''\<rparr>]"

text \<open>
  The locals of \<open>Bind\<close> in the order of their declaration: the environment, the class, the array of methods,
  the name and the descriptor of each callback, the result of the registration.
\<close>

abbreviation (input) env_local :: nat where "env_local \<equiv> 0"
abbreviation (input) class_local :: nat where "class_local \<equiv> 1"
abbreviation (input) methods_local :: nat where "methods_local \<equiv> 2"
abbreviation (input) name_local :: "nat \<Rightarrow> nat" where "name_local i \<equiv> 3 + 2 * i"
abbreviation (input) descriptor_local :: "nat \<Rightarrow> nat" where "descriptor_local i \<equiv> 4 + 2 * i"
abbreviation (input) result_local :: nat where "result_local \<equiv> 7"

definition receiver :: "callback \<Rightarrow> string" where
  "receiver cb = Name cb @ ''Receiver''"

definition emit_part :: "nat \<Rightarrow> nat \<Rightarrow> il \<Rightarrow> il list" where
  "emit_part i part load = [Ldloc methods_local, Pointer_size, Ldc (int (3 * i + part)), Mul, load, Write_pointer]"

definition emit_callback :: "nat \<Rightarrow> callback \<Rightarrow> il list" where
  "emit_callback i cb =
     [Ldstr (JavaName cb), Encode, Stloc (name_local i), Ldstr (Descriptor cb), Encode, Stloc (descriptor_local i)] @
     emit_part i 0 (Ldloc (name_local i)) @ emit_part i 1 (Ldloc (descriptor_local i)) @ emit_part i 2 (Ldftn (receiver cb))"

definition open_code :: "il list" where
  "open_code = [Ldarg 0, Brtrue ''hasActivity'', Ldstr ''nativeActivity'', Newobj ''ArgumentNullException'', Throw,
     Label ''hasActivity'', Ldarg 0, Pointer_size, Ldc 2, Mul, Read_pointer, Stloc env_local]"

definition class_code :: "il list" where
  "class_code = [Ldloc env_local, Ldarg 0, Pointer_size, Ldc 3, Mul, Read_pointer, Invoke ''GetObjectClass'' 2, Stloc class_local,
     Ldloc env_local, Invoke ''Check'' 1]"

definition array_code :: "il list" where
  "array_code = [Pointer_size, Ldc 6, Mul, Alloc, Stloc methods_local]"

definition register_code :: "il list" where
  "register_code = [Ldloc env_local, Ldloc class_local, Ldloc methods_local, Ldc 2, Invoke ''RegisterNatives'' 4, Stloc result_local,
     Ldloc env_local, Invoke ''Check'' 1, Ldloc result_local, Brfalse ''registered'',
     Ldstr ''RegisterNatives rejected the owned activity peer.'', Newobj ''InvalidOperationException'', Throw,
     Label ''registered'']"

definition release_code :: "nat \<Rightarrow> il list" where
  "release_code n =
     concat (map (\<lambda>l. [Ldloc l, Free_string]) (map name_local [0..<n] @ map descriptor_local [0..<n])) @
     [Ldloc methods_local, Free, Ldloc class_local, Brfalse ''noClass'', Ldloc env_local, Ldloc class_local,
      Invoke ''DeleteLocalRef'' 2, Label ''noClass'']"

definition emit_bind :: "callback list \<Rightarrow> il list" where
  "emit_bind cbs =
     open_code @
     [Try (class_code @ array_code @ concat (map (\<lambda>(i, cb). emit_callback i cb) (List.enumerate 0 cbs)) @ register_code)
       (release_code (length cbs)), Ret]"

section \<open>The receivers\<close>

text \<open>
  What Java calls: the handler of the callback, when one is set, with the arguments behind the environment
  and the peer.  An action ends with the exception it threw, if any.
\<close>

type_synonym 'w action = "'w \<Rightarrow> string option \<times> 'w"

definition try_catch :: "'w action \<Rightarrow> 'w action \<Rightarrow> 'w action" where
  "try_catch body handler w = (case body w of (None, w') \<Rightarrow> (None, w') | (Some e, w') \<Rightarrow> handler w')"

definition run_receiver ::
  "(int \<Rightarrow> string \<Rightarrow> string \<Rightarrow> 'w action) \<Rightarrow> int \<Rightarrow> (int list \<Rightarrow> 'w action) option \<Rightarrow> callback \<Rightarrow> int list \<Rightarrow> 'w action" where
  "run_receiver LogWrite ErrorPriority handler cb params =
     try_catch (case handler of None \<Rightarrow> (\<lambda>w. (None, w)) | Some f \<Rightarrow> f (take 3 (drop 2 params)))
       (try_catch (LogWrite ErrorPriority ''Pwsh'' (Name cb @ '' PowerShell handler failed.'')) (\<lambda>w. (None, w)))"

text \<open>No exception reaches the Java machine, whatever the handler and the log do.\<close>

lemma receiver_swallows: "fst (run_receiver LogWrite prio handler cb params w) = None"
  by (simp add: run_receiver_def try_catch_def split: option.split prod.split)

section \<open>Running them\<close>

definition stub_methods :: "'w host \<Rightarrow> (string \<times> il list) list \<Rightarrow> 'w il_methods" where
  "stub_methods h stubs f args st =
     (case map_of stubs f of None \<Rightarrow> (Stuck, st) | Some code \<Rightarrow> run_method h (\<lambda>f args st. (Stuck, st)) code args st)"

definition peer_methods :: "'w host \<Rightarrow> (string \<times> il list) list \<Rightarrow> 'w il_methods" where
  "peer_methods h stubs f args st =
     (if f = ''Check'' then run_method h (stub_methods h stubs) check_code args st else stub_methods h stubs f args st)"

definition Bind :: "'w host \<Rightarrow> (string \<times> il list) list \<Rightarrow> int \<Rightarrow> 'w il_state \<Rightarrow> il_out \<times> 'w il_state" where
  "Bind h stubs activity st = run_method h (peer_methods h stubs) (emit_bind callbacks) [Native activity] st"

text \<open>\<open>Add-NativePeerMethods\<close>: the stubs from the slot table of the header.\<close>

definition Add_NativePeerMethods :: "c_members \<Rightarrow> (string \<times> il list) list option" where
  "Add_NativePeerMethods header = Option.bind (Get_JniFunctionTable header) (\<lambda>slots. emit_stubs slots signatures)"

section \<open>A stub is the member function\<close>

definition peer_slots :: "(string \<times> nat) list" where
  "peer_slots = [(''GetObjectClass'', 31), (''RegisterNatives'', 215), (''DeleteLocalRef'', 23), (''ExceptionCheck'', 228),
     (''ExceptionClear'', 17)]"

lemma peer_slot_names: "list_all (\<lambda>(f, k). k < 233 \<and> snd (JNINativeInterface ! k) = f) peer_slots"
  by (simp add: peer_slots_def JNINativeInterface_def nth_append jni_lengths) (simp add: jni_slot_defs)

lemma peer_slot:
  assumes "(f, k) \<in> set peer_slots"
  shows "offset_of (zip (map snd JNINativeInterface) [0..<233]) f = Some k"
  using jni_slot(1) [of k 1] peer_slot_names assms by (auto simp: list_all_iff)

definition peer_stubs :: "(string \<times> il list) list" where
  "peer_stubs = [(''GetObjectClass'', emit_stub 31 Ptr_ret 2), (''RegisterNatives'', emit_stub 215 Int_ret 4),
     (''DeleteLocalRef'', emit_stub 23 Void_ret 2), (''ExceptionCheck'', emit_stub 228 Byte_ret 1),
     (''ExceptionClear'', emit_stub 17 Void_ret 1)]"

lemma peer_stubs: "Add_NativePeerMethods JNINativeInterface = Some peer_stubs"
  using peer_slot by (simp add: Add_NativePeerMethods_def jni_table signatures_def peer_slots_def peer_stubs_def)

text \<open>What a stub calls: the pointer in the table of its first argument, with its arguments.\<close>

definition jni_call :: "'w host \<Rightarrow> nat \<Rightarrow> int list \<Rightarrow> 'w \<Rightarrow> jval \<times> 'w" where
  "jni_call h slot xs w =
     call_function (java h) (read_pointer (java h) w (read_pointer (java h) w (hd xs) + int (slot * pointer_size (java h)))) (map Num xs) w"

lemma the_ints_map: "the_ints (map Native xs) = Some (map Num xs)"
  by (induction xs) auto

lemma load_args:
  assumes "n \<le> length (arguments fr)"
  shows "run_il h meth (map Ldarg [0..<n] @ is) fr st =
    run_il h meth is (fr\<lparr>stack := rev (take n (arguments fr)) @ stack fr\<rparr>) st"
  using assms
proof (induction n arbitrary: "is")
  case (Suc n)
  then show ?case by (simp add: push_def take_Suc_conv_app_nth)
qed simp

lemma stub_runs:
  assumes "length xs = n" "0 < n"
  shows "run_method h meth (emit_stub slot ret n) (map Native xs) st =
    (case jni_call h slot xs (world st) of (r, w) \<Rightarrow> (Returned (convert_result ret (result_int r)), st\<lparr>world := w\<rparr>))"
proof -
  have "rev (take n (map Native xs)) = rev (map Native xs)" "map Native xs ! 0 = Native (hd xs)"
    using assms hd_conv_nth [of xs] by auto
  then show ?thesis
    using assms the_ints_map [of xs]
    by (simp add: run_method_def emit_stub_def load_args push_def jni_call_def rev_map mult.commute split: prod.splits option.splits)
qed

end
