(* ===== verification/Native_Bound.thy ===== *)
theory Native_Bound
  imports Native_Peers "HOL-Library.Multiset"
begin

text \<open>
  What the emitted peer registration guarantees: its stubs are the member functions of \<open>JNIEnv\<close>, and \<open>Bind\<close>
  gives back everything it acquired, on every path, and registers exactly the callbacks it was built for.
\<close>

section \<open>The stubs\<close>

text \<open>The member function behind each stub: its index in \<open>_JNIEnv\<close>.\<close>

definition peer_members :: "(string \<times> nat) list" where
  "peer_members = [(''GetObjectClass'', 27), (''RegisterNatives'', 211), (''DeleteLocalRef'', 19), (''ExceptionCheck'', 224),
     (''ExceptionClear'', 13)]"

lemma peer_member_nth:
  "JNIEnv_methods ! 27 = jni_method ''GetObjectClass'' jclass [(jobject, ''obj'')] [Return_call ''GetObjectClass'' [This, Var ''obj'']]"
  "JNIEnv_methods ! 211 = jni_method ''RegisterNatives'' jint
     [(jclass, ''clazz''), (Ptr (Const JNINativeMethod_t), ''methods''), (jint, ''nMethods'')]
     [Return_call ''RegisterNatives'' [This, Var ''clazz'', Var ''methods'', Var ''nMethods'']]"
  "JNIEnv_methods ! 19 = jni_method ''DeleteLocalRef'' c_void [(jobject, ''localRef'')] [Do ''DeleteLocalRef'' [This, Var ''localRef'']]"
  "JNIEnv_methods ! 224 = jni_method ''ExceptionCheck'' jboolean [] [Return_call ''ExceptionCheck'' [This]]"
  "JNIEnv_methods ! 13 = jni_method ''ExceptionClear'' c_void [] [Do ''ExceptionClear'' [This]]"
  by (simp_all add: JNIEnv_methods_def nth_append method_group_lengths)
    (simp_all add: jni_object_methods_def jni_machine_methods_def)

lemma peer_signature:
  assumes "(f, ret, n) \<in> set signatures"
  obtains i where "i < 229" "method_name (JNIEnv_methods ! i) = f" "\<not> is_variadic (JNIEnv_methods ! i)"
    "length (named_params (JNIEnv_methods ! i)) = n - 1" "method_result (JNIEnv_methods ! i) = c_void \<longleftrightarrow> ret = Void_ret"
    "map_of peer_stubs f = Some (emit_stub (i + 4) ret n)" "0 < n"
proof -
  have "\<exists>i. i < 229 \<and> method_name (JNIEnv_methods ! i) = f \<and> \<not> is_variadic (JNIEnv_methods ! i) \<and>
      length (named_params (JNIEnv_methods ! i)) = n - 1 \<and> (method_result (JNIEnv_methods ! i) = c_void \<longleftrightarrow> ret = Void_ret) \<and>
      map_of peer_stubs f = Some (emit_stub (i + 4) ret n) \<and> 0 < n"
    using assms unfolding signatures_def
  proof (simp, elim disjE conjE, goal_cases)
    case 1 then show ?case by (intro exI [of _ 27]) (simp add: peer_member_nth is_variadic_def named_params_def peer_stubs_def)
  next
    case 2 then show ?case by (intro exI [of _ 211]) (simp add: peer_member_nth is_variadic_def named_params_def peer_stubs_def)
  next
    case 3 then show ?case by (intro exI [of _ 19]) (simp add: peer_member_nth is_variadic_def named_params_def peer_stubs_def)
  next
    case 4 then show ?case by (intro exI [of _ 224]) (simp add: peer_member_nth is_variadic_def named_params_def peer_stubs_def)
  next
    case 5 then show ?case by (intro exI [of _ 13]) (simp add: peer_member_nth is_variadic_def named_params_def peer_stubs_def)
  qed
  then show ?thesis using that by blast
qed


section \<open>What is held and what is given back\<close>

datatype resource = Text int | Memory int | Local_ref int

text \<open>An address of zero is nothing to give back.\<close>

definition held :: "(int \<Rightarrow> resource) \<Rightarrow> int \<Rightarrow> resource multiset" where
  "held f p = (if p = 0 then {#} else {#f p#})"

fun acquired :: "event \<Rightarrow> resource multiset" where
  "acquired (Encoded s (Some p)) = held Text p"
| "acquired (Allocated n (Some p)) = held Memory p"
| "acquired (Called f args (Some (Native c))) = (if f = ''GetObjectClass'' then held Local_ref c else {#})"
| "acquired _ = {#}"

fun released :: "event \<Rightarrow> resource multiset" where
  "released (Freed_string p) = held Text p"
| "released (Freed p) = held Memory p"
| "released (Called f [Native env, Native c] r) = (if f = ''DeleteLocalRef'' then held Local_ref c else {#})"
| "released _ = {#}"

definition amount :: "(event \<Rightarrow> resource multiset) \<Rightarrow> event list \<Rightarrow> resource multiset" where
  "amount g t = sum_list (map g t)"

lemma amount_simps [simp]: "amount g [] = {#}" "amount g (e # t) = g e + amount g t" "amount g (t @ t') = amount g t + amount g t'"
  by (simp_all add: amount_def)

definition holdings :: "(nat \<Rightarrow> int) \<Rightarrow> resource multiset" where
  "holdings l = held Text (l 3) + held Text (l 4) + held Text (l 5) + held Text (l 6) + held Memory (l 2) + held Local_ref (l 1)"

text \<open>A stretch of a run that gives nothing back and keeps what it acquires in its locals.\<close>

definition grows :: "il_frame \<times> 'w il_state \<Rightarrow> il_frame \<times> 'w il_state \<Rightarrow> bool" where
  "grows s s' \<longleftrightarrow> (\<exists>t. trace (snd s') = trace (snd s) @ t \<and> holdings (locals (fst s')) = holdings (locals (fst s)) + amount acquired t \<and> amount released t = {#})"

lemma grows_trans: "grows s1 s2 \<Longrightarrow> grows s2 s3 \<Longrightarrow> grows s1 s3"
  unfolding grows_def
proof (elim exE conjE)
  fix t t'
  assume "trace (snd s2) = trace (snd s1) @ t" "holdings (locals (fst s2)) = holdings (locals (fst s1)) + amount acquired t" "amount released t = {#}"
    "trace (snd s3) = trace (snd s2) @ t'" "holdings (locals (fst s3)) = holdings (locals (fst s2)) + amount acquired t'" "amount released t' = {#}"
  then show "\<exists>t. trace (snd s3) = trace (snd s1) @ t \<and> holdings (locals (fst s3)) = holdings (locals (fst s1)) + amount acquired t \<and> amount released t = {#}"
    by (intro exI [of _ "t @ t'"]) (simp add: add.assoc)
qed

text \<open>
  A piece of code that may throw, and otherwise goes on with what follows it in a state of which \<open>Q\<close>
  holds; either way nothing it acquired is lost.
\<close>

definition acquires ::
  "'w host \<Rightarrow> il list \<Rightarrow> il_frame \<times> 'w il_state \<Rightarrow> (il_frame \<times> 'w il_state \<Rightarrow> bool) \<Rightarrow> bool" where
  "acquires h seg s Q \<longleftrightarrow> (\<forall>rest.
     (\<exists>e s'. run_il h (peer_methods h peer_stubs) (seg @ rest) (fst s) (snd s) = (Threw e, s') \<and> grows s s') \<or>
     (\<exists>s'. run_il h (peer_methods h peer_stubs) (seg @ rest) (fst s) (snd s) =
        run_il h (peer_methods h peer_stubs) rest (fst s') (snd s') \<and> grows s s' \<and> Q s'))"

lemma acquires_append:
  assumes "acquires h seg s Q" "\<And>s'. Q s' \<Longrightarrow> acquires h seg' s' R"
  shows "acquires h (seg @ seg') s R"
  unfolding acquires_def append_assoc
proof
  fix rest
  let ?run = "\<lambda>c s. run_il h (peer_methods h peer_stubs) c (fst s) (snd s)"
  from assms(1) [unfolded acquires_def, THEN spec, of "seg' @ rest"]
  show "(\<exists>e s'. ?run (seg @ seg' @ rest) s = (Threw e, s') \<and> grows s s') \<or>
      (\<exists>s'. ?run (seg @ seg' @ rest) s = ?run rest s' \<and> grows s s' \<and> R s')"
  proof (elim disjE exE conjE)
    fix s1 assume s1: "?run (seg @ seg' @ rest) s = ?run (seg' @ rest) s1" "grows s s1" "Q s1"
    from assms(2) [OF s1(3), unfolded acquires_def, THEN spec, of rest] show ?thesis
      using s1(1) grows_trans [OF s1(2)] by (elim disjE exE conjE) (metis, metis)
  qed blast
qed

lemma acquires_seq:
  assumes "acquires h seg s (\<lambda>(fr', st'). Q fr' st')" "\<And>fr' st'. Q fr' st' \<Longrightarrow> acquires h seg' (fr', st') R"
  shows "acquires h (seg @ seg') s R"
  by (rule acquires_append [OF assms(1)]) (use assms(2) in auto)

lemma acquires_mono: "acquires h seg s Q \<Longrightarrow> (\<And>s'. Q s' \<Longrightarrow> R s') \<Longrightarrow> acquires h seg s R"
  unfolding acquires_def by blast

section \<open>Calls\<close>

lemma peer_call:
  assumes "(f, ret, n) \<in> set signatures" "length xs = n"
  shows "\<exists>r w. peer_methods h peer_stubs f (map Native xs) st = (Returned (convert_result ret r), st\<lparr>world := w\<rparr>)"
proof -
  obtain i where i: "map_of peer_stubs f = Some (emit_stub (i + 4) ret n)" "0 < n" using peer_signature [OF assms(1)] by blast
  have "f \<noteq> ''Check''" using assms(1) by (auto simp: signatures_def)
  then show ?thesis
    using i(1) by (auto simp: peer_methods_def stub_methods_def stub_runs [OF assms(2) i(2)] split: prod.splits)
qed

lemma peer_ptr_call:
  obtains c w where "peer_methods h peer_stubs ''GetObjectClass'' [Native e, Native x] st = (Returned (Some (Native c)), st\<lparr>world := w\<rparr>)"
  using peer_call [of "''GetObjectClass''" Ptr_ret 2 "[e, x]" h st] by (auto simp: signatures_def)

lemma peer_register_call:
  obtains c w where "peer_methods h peer_stubs ''RegisterNatives'' [Native e, Native x, Native y, Native z] st =
    (Returned (Some (Native c)), st\<lparr>world := w\<rparr>)"
  using peer_call [of "''RegisterNatives''" Int_ret 4 "[e, x, y, z]" h st] by (auto simp: signatures_def)

lemma peer_delete_call:
  obtains w where "peer_methods h peer_stubs ''DeleteLocalRef'' [Native e, Native x] st = (Returned None, st\<lparr>world := w\<rparr>)"
  using peer_call [of "''DeleteLocalRef''" Void_ret 2 "[e, x]" h st] by (auto simp: signatures_def)

text \<open>\<open>Check\<close> returns when no exception is pending, and throws after clearing it otherwise.\<close>

lemma peer_check:
  obtains st' where "peer_methods h peer_stubs ''Check'' [Native e] st = (Returned None, st')"
      "trace st' = trace st @ [Called ''ExceptionCheck'' [Native e] (Some (Native 0))]"
  | st' c where "peer_methods h peer_stubs ''Check'' [Native e] st = (Threw ''InvalidOperationException'', st')" "c \<noteq> 0"
      "trace st' = trace st @ [Called ''ExceptionCheck'' [Native e] (Some (Native c)), Called ''ExceptionClear'' [Native e] None]"
proof -
  have stub: "peer_methods h peer_stubs f = stub_methods h peer_stubs f" if "f \<noteq> ''Check''" for f
    using that by (simp add: peer_methods_def fun_eq_iff)
  obtain c w where check: "stub_methods h peer_stubs ''ExceptionCheck'' [Native e] st = (Returned (Some (Native c)), st\<lparr>world := w\<rparr>)"
    using peer_call [of "''ExceptionCheck''" Byte_ret 1 "[e]" h st] by (auto simp: signatures_def stub)
  let ?st = "st\<lparr>world := w, trace := trace st @ [Called ''ExceptionCheck'' [Native e] (Some (Native c))]\<rparr>"
  obtain w' where clear: "stub_methods h peer_stubs ''ExceptionClear'' [Native e] ?st = (Returned None, ?st\<lparr>world := w'\<rparr>)"
    using peer_call [of "''ExceptionClear''" Void_ret 1 "[e]" h ?st] by (auto simp: signatures_def stub)
  show ?thesis
  proof (cases "c = 0")
    case True
    then show ?thesis using that(1) check by (simp add: peer_methods_def check_code_def run_method_def push_def Let_def)
  next
    case False
    then show ?thesis using that(2) check clear by (simp add: peer_methods_def check_code_def run_method_def push_def Let_def)
  qed
qed

section \<open>The pieces of Bind\<close>

definition activity_object :: "'w host \<Rightarrow> int \<Rightarrow> 'w \<Rightarrow> int" where
  "activity_object h activity w = read_pointer (java h) w (activity + int (pointer_size (java h)) * 3)"

lemma holdings_upd:
  "l 3 = 0 \<Longrightarrow> holdings (l(3 := p)) = holdings l + held Text p"
  "l 4 = 0 \<Longrightarrow> holdings (l(4 := p)) = holdings l + held Text p"
  "l 5 = 0 \<Longrightarrow> holdings (l(5 := p)) = holdings l + held Text p"
  "l 6 = 0 \<Longrightarrow> holdings (l(6 := p)) = holdings l + held Text p"
  "l 2 = 0 \<Longrightarrow> holdings (l(2 := p)) = holdings l + held Memory p"
  "l 1 = 0 \<Longrightarrow> holdings (l(1 := p)) = holdings l + held Local_ref p"
  "holdings (l(7 := p)) = holdings l" "holdings (l(0 := p)) = holdings l"
  by (simp_all add: holdings_def held_def)

lemmas run_simps = push_def Let_def log_event_def

lemma growsI:
  "trace (snd s') = trace (snd s) @ t \<Longrightarrow> holdings (locals (fst s')) = holdings (locals (fst s)) + amount acquired t \<Longrightarrow> amount released t = {#} \<Longrightarrow> grows s s'"
  by (auto simp: grows_def)

lemma acquires_ok:
  assumes "\<And>rest. run_il h (peer_methods h peer_stubs) (seg @ rest) fr st = run_il h (peer_methods h peer_stubs) rest fr' st'"
    and "grows (fr, st) (fr', st')" "Q (fr', st')"
  shows "acquires h seg (fr, st) Q"
  unfolding acquires_def using assms by (intro allI disjI2 exI [of _ "(fr', st')"]) simp

lemma acquires_throw:
  assumes "\<And>rest. run_il h (peer_methods h peer_stubs) (seg @ rest) fr st = (Threw e, fr', st')" "grows (fr, st) (fr', st')"
  shows "acquires h seg (fr, st) Q"
  unfolding acquires_def using assms by (intro allI disjI1 exI [of _ e] exI [of _ "(fr', st')"]) simp

text \<open>The events of a check that passes.\<close>

definition passed :: "int \<Rightarrow> event list" where
  "passed e = [Called ''ExceptionCheck'' [Native e] (Some (Native 0)), Called ''Check'' [Native e] None]"

lemma check_acquires:
  assumes "stack fr = []"
  shows "acquires h [Ldloc 0, Invoke ''Check'' 1] (fr, st)
    (\<lambda>(fr', st'). fr' = fr\<lparr>stack := []\<rparr> \<and> trace st' = trace st @ passed (locals fr 0))"
proof (cases rule: peer_check [of h "locals fr 0" st])
  case (1 st1)
  show ?thesis
    by (rule acquires_ok [of _ _ _ _ "fr\<lparr>stack := []\<rparr>" "st1\<lparr>trace := trace st1 @ [Called ''Check'' [Native (locals fr 0)] None]\<rparr>"])
      (simp_all add: run_simps passed_def assms 1 grows_def)
next
  case (2 st1 k)
  show ?thesis
    by (rule acquires_throw [of _ _ _ _ "''InvalidOperationException''" "fr\<lparr>stack := [Native (locals fr 0)]\<rparr>" st1])
      (simp_all add: run_simps assms 2 grows_def)
qed

lemma class_acquires:
  assumes "arguments fr = [Native activity]" "stack fr = []" "locals fr 1 = 0"
  shows "acquires h class_code (fr, st) (\<lambda>(fr', st'). \<exists>c. fr' = fr\<lparr>locals := (locals fr)(1 := c), stack := []\<rparr> \<and>
    trace st' = trace st @ [Called ''GetObjectClass'' [Native (locals fr 0), Native (activity_object h activity (world st))] (Some (Native c))] @
      passed (locals fr 0))"
proof -
  let ?e = "locals fr 0" and ?x = "activity_object h activity (world st)"
  let ?get = "[Ldloc 0, Ldarg 0, Pointer_size, Ldc 3, Mul, Read_pointer, Invoke ''GetObjectClass'' 2, Stloc 1]"
  obtain c w where get: "peer_methods h peer_stubs ''GetObjectClass'' [Native ?e, Native ?x] st = (Returned (Some (Native c)), st\<lparr>world := w\<rparr>)"
    by (rule peer_ptr_call)
  let ?st1 = "st\<lparr>world := w, trace := trace st @ [Called ''GetObjectClass'' [Native ?e, Native ?x] (Some (Native c))]\<rparr>"
  let ?fr1 = "fr\<lparr>locals := (locals fr)(1 := c), stack := []\<rparr>"
  have "acquires h ?get (fr, st) (\<lambda>s. s = (?fr1, ?st1))"
    by (rule acquires_ok [of _ _ _ _ ?fr1 ?st1])
      (use assms get in \<open>simp_all add: run_simps activity_object_def grows_def holdings_upd [simplified]\<close>)
  then have "acquires h (?get @ [Ldloc 0, Invoke ''Check'' 1]) (fr, st) (\<lambda>(fr', st'). fr' = ?fr1 \<and> trace st' = trace ?st1 @ passed ?e)"
    by (rule acquires_append) (use check_acquires [of ?fr1 h ?st1] in simp)
  then show ?thesis by (auto simp: class_code_def elim!: acquires_mono)
qed

lemma array_acquires:
  assumes "stack fr = []" "locals fr 2 = 0"
  shows "acquires h array_code (fr, st) (\<lambda>(fr', st'). \<exists>m. fr' = fr\<lparr>locals := (locals fr)(2 := m), stack := []\<rparr> \<and>
    trace st' = trace st @ [Allocated (int (pointer_size (java h)) * 6) (Some m)])"
proof (cases "alloc_memory h (int (pointer_size (java h)) * 6) (world st)")
  case (Pair r w)
  let ?st = "log_event (Allocated (int (pointer_size (java h)) * 6) r) w st"
  show ?thesis
  proof (cases r)
    case None
    show ?thesis
      by (rule acquires_throw [of _ _ _ _ "''OutOfMemoryException''" "fr\<lparr>stack := [Native (int (pointer_size (java h)) * 6)]\<rparr>" ?st])
        (use assms Pair None in \<open>simp_all add: array_code_def run_simps grows_def\<close>)
  next
    case (Some m)
    show ?thesis
      by (rule acquires_ok [of _ _ _ _ "fr\<lparr>locals := (locals fr)(2 := m), stack := []\<rparr>" ?st])
        (use assms Pair Some in \<open>auto simp: array_code_def run_simps grows_def holdings_upd [simplified]\<close>)
  qed
qed

text \<open>A string that is encoded and kept.\<close>

lemma encode_acquires:
  assumes "stack fr = []" "locals fr l = 0" "l \<in> {3, 4, 5, 6}"
  shows "acquires h [Ldstr s, Encode, Stloc l] (fr, st) (\<lambda>(fr', st'). \<exists>p. fr' = fr\<lparr>locals := (locals fr)(l := p), stack := []\<rparr> \<and>
    trace st' = trace st @ [Encoded s (Some p)])"
proof (cases "encode_string h s (world st)")
  case (Pair r w)
  let ?st = "log_event (Encoded s r) w st"
  show ?thesis
  proof (cases r)
    case None
    show ?thesis
      by (rule acquires_throw [of _ _ _ _ "''OutOfMemoryException''" "fr\<lparr>stack := [Managed s]\<rparr>" ?st])
        (use assms Pair None in \<open>simp_all add: run_simps grows_def\<close>)
  next
    case (Some p)
    show ?thesis
      by (rule acquires_ok [of _ _ _ _ "fr\<lparr>locals := (locals fr)(l := p), stack := []\<rparr>" ?st])
        (use assms Pair Some in \<open>auto simp: run_simps grows_def holdings_upd [simplified]\<close>)
  qed
qed

lemma part_acquires:
  assumes "stack fr = []" "load = Ldloc l \<and> v = locals fr l \<or> load = Ldftn s \<and> v = entry_point h s"
  shows "acquires h (emit_part i part load) (fr, st) (\<lambda>(fr', st'). fr' = fr\<lparr>stack := []\<rparr> \<and>
    trace st' = trace st @ [Wrote (locals fr 2 + int (pointer_size (java h)) * int (3 * i + part)) v])"
proof -
  let ?at = "locals fr 2 + int (pointer_size (java h)) * int (3 * i + part)"
  show ?thesis
    by (rule acquires_ok [of _ _ _ _ "fr\<lparr>stack := []\<rparr>" "log_event (Wrote ?at v) (write_pointer h ?at v (world st)) st"])
      (use assms in \<open>auto simp: emit_part_def run_simps grows_def\<close>)
qed

text \<open>What a callback leaves in the trace: its two strings, and one structure of three words.\<close>

definition callback_events :: "'w host \<Rightarrow> nat \<Rightarrow> callback \<Rightarrow> int \<Rightarrow> int \<Rightarrow> int \<Rightarrow> event list" where
  "callback_events h i cb m a b =
     (let at = \<lambda>part. m + int (pointer_size (java h)) * int (3 * i + part) in
      [Encoded (JavaName cb) (Some a), Encoded (Descriptor cb) (Some b),
       Wrote (at 0) a, Wrote (at 1) b, Wrote (at 2) (entry_point h (receiver cb))])"

lemma callback_acquires:
  fixes st :: "'w il_state"
  assumes "stack fr = []" "locals fr (3 + 2 * i) = 0" "locals fr (4 + 2 * i) = 0" "i = 0 \<or> i = 1"
  shows "acquires h (emit_callback i cb) (fr, st) (\<lambda>(fr', st'). \<exists>a b.
    fr' = fr\<lparr>locals := (locals fr)(3 + 2 * i := a, 4 + 2 * i := b), stack := []\<rparr> \<and>
    trace st' = trace st @ callback_events h i cb (locals fr 2) a b)"
proof -
  let ?n = "3 + 2 * i" and ?d = "4 + 2 * i"
  have code: "emit_callback i cb = [Ldstr (JavaName cb), Encode, Stloc ?n] @ [Ldstr (Descriptor cb), Encode, Stloc ?d] @
      emit_part i 0 (Ldloc ?n) @ emit_part i 1 (Ldloc ?d) @ emit_part i 2 (Ldftn (receiver cb))"
    by (simp add: emit_callback_def)
  have l: "?n \<in> {3, 4, 5, 6}" "?d \<in> {3, 4, 5, 6}" "?n \<noteq> 2" "?d \<noteq> 2" using assms(4) by auto
  have parts: "acquires h (emit_part i 0 (Ldloc ?n) @ emit_part i 1 (Ldloc ?d) @ emit_part i 2 (Ldftn (receiver cb))) (fr1, st1)
      (\<lambda>(fr', st'). fr' = fr1 \<and> trace st' = trace st @ callback_events h i cb (locals fr1 2) a b)"
    if fr1: "fr1 = fr\<lparr>locals := (locals fr)(?n := a, ?d := b), stack := []\<rparr>"
      "trace st1 = trace st @ [Encoded (JavaName cb) (Some a), Encoded (Descriptor cb) (Some b)]" for fr1 st1 a b
    by ((rule acquires_append, rule part_acquires, use fr1 in simp, use fr1 in \<open>simp; fail\<close>, clarify)+,
        rule acquires_mono, rule part_acquires, use fr1 in simp, use fr1 in simp)
      (use fr1 l in \<open>auto simp: callback_events_def\<close>)
  show ?thesis
    unfolding code
  proof (rule acquires_seq [OF encode_acquires [OF assms(1,2) l(1)]], elim exE conjE)
    fix fr1 a and st1 :: "'w il_state"
    assume 1: "fr1 = fr\<lparr>locals := (locals fr)(?n := a), stack := []\<rparr>" "trace st1 = trace st @ [Encoded (JavaName cb) (Some a)]"
    then have fr1: "stack fr1 = []" "locals fr1 ?d = 0" using assms(3) by simp_all
    show "acquires h ([Ldstr (Descriptor cb), Encode, Stloc ?d] @
        emit_part i 0 (Ldloc ?n) @ emit_part i 1 (Ldloc ?d) @ emit_part i 2 (Ldftn (receiver cb))) (fr1, st1)
      (\<lambda>(fr', st'). \<exists>a b. fr' = fr\<lparr>locals := (locals fr)(?n := a, ?d := b), stack := []\<rparr> \<and>
        trace st' = trace st @ callback_events h i cb (locals fr 2) a b)"
    proof (rule acquires_seq [OF encode_acquires [OF fr1 l(2)]], elim exE conjE)
      fix fr2 b and st2 :: "'w il_state"
      assume 2: "fr2 = fr1\<lparr>locals := (locals fr1)(?d := b), stack := []\<rparr>" "trace st2 = trace st1 @ [Encoded (Descriptor cb) (Some b)]"
      have "acquires h (emit_part i 0 (Ldloc ?n) @ emit_part i 1 (Ldloc ?d) @ emit_part i 2 (Ldftn (receiver cb))) (fr2, st2)
          (\<lambda>(fr', st'). fr' = fr2 \<and> trace st' = trace st @ callback_events h i cb (locals fr2 2) a b)"
        by (rule parts) (simp_all add: 1 2)
      then show "acquires h (emit_part i 0 (Ldloc ?n) @ emit_part i 1 (Ldloc ?d) @ emit_part i 2 (Ldftn (receiver cb))) (fr2, st2)
        (\<lambda>(fr', st'). \<exists>a b. fr' = fr\<lparr>locals := (locals fr)(?n := a, ?d := b), stack := []\<rparr> \<and>
          trace st' = trace st @ callback_events h i cb (locals fr 2) a b)"
        using l(3,4) by (elim acquires_mono) (auto simp: 1 2)
    qed
  qed
qed

lemma register_acquires:
  fixes st :: "'w il_state"
  assumes "stack fr = []"
  shows "acquires h register_code (fr, st) (\<lambda>(fr', st'). fr' = fr\<lparr>locals := (locals fr)(7 := 0), stack := []\<rparr> \<and>
    trace st' = trace st @ [Called ''RegisterNatives'' [Native (locals fr 0), Native (locals fr 1), Native (locals fr 2), Native 2]
      (Some (Native 0))] @ passed (locals fr 0))"
proof -
  let ?call = "[Ldloc 0, Ldloc 1, Ldloc 2, Ldc 2, Invoke ''RegisterNatives'' 4, Stloc 7]"
  let ?test = "[Ldloc 7, Brfalse ''registered'', Ldstr ''RegisterNatives rejected the owned activity peer.'',
    Newobj ''InvalidOperationException'', Throw, Label ''registered'']"
  let ?args = "[Native (locals fr 0), Native (locals fr 1), Native (locals fr 2), Native 2]"
  obtain c w where call: "peer_methods h peer_stubs ''RegisterNatives'' ?args st = (Returned (Some (Native c)), st\<lparr>world := w\<rparr>)"
    by (rule peer_register_call)
  let ?fr1 = "fr\<lparr>locals := (locals fr)(7 := c), stack := []\<rparr>"
  let ?st1 = "st\<lparr>world := w, trace := trace st @ [Called ''RegisterNatives'' ?args (Some (Native c))]\<rparr>"
  have first: "acquires h ?call (fr, st) (\<lambda>s. s = (?fr1, ?st1))"
    by (rule acquires_ok [of _ _ _ _ ?fr1 ?st1]) (use assms call in \<open>simp_all add: run_simps grows_def holdings_upd [simplified]\<close>)
  have test: "acquires h ?test (?fr1, st2) (\<lambda>(fr', st'). c = 0 \<and> fr' = ?fr1 \<and> st' = st2)" for st2
  proof (cases "c = 0")
    case True
    then show ?thesis by (intro acquires_ok [of _ _ _ _ ?fr1 st2]) (simp_all add: run_simps grows_def)
  next
    case False
    then show ?thesis
      by (intro acquires_throw [of _ _ _ _ "''InvalidOperationException''" "?fr1\<lparr>stack := [Managed ''InvalidOperationException'']\<rparr>" st2])
        (simp_all add: run_simps grows_def)
  qed
  have "acquires h ([Ldloc 0, Invoke ''Check'' 1] @ ?test) (?fr1, ?st1)
      (\<lambda>(fr', st'). c = 0 \<and> fr' = ?fr1 \<and> trace st' = trace ?st1 @ passed (locals fr 0))"
  proof (rule acquires_seq [OF check_acquires], simp, elim conjE)
    fix fr2 and st2 :: "'w il_state"
    assume "fr2 = ?fr1\<lparr>stack := []\<rparr>" "trace st2 = trace ?st1 @ passed (locals ?fr1 0)"
    then show "acquires h ?test (fr2, st2) (\<lambda>(fr', st'). c = 0 \<and> fr' = ?fr1 \<and> trace st' = trace ?st1 @ passed (locals fr 0))"
      using test [of st2] by (auto elim!: acquires_mono)
  qed
  then have "acquires h (?call @ [Ldloc 0, Invoke ''Check'' 1] @ ?test) (fr, st)
      (\<lambda>(fr', st'). c = 0 \<and> fr' = ?fr1 \<and> trace st' = trace ?st1 @ passed (locals fr 0))"
    by (intro acquires_append [OF first]) simp
  then show ?thesis by (auto simp: register_code_def elim!: acquires_mono)
qed

text \<open>The events of the release, whatever the locals hold.\<close>

definition release_events :: "(nat \<Rightarrow> int) \<Rightarrow> event list" where
  "release_events l = [Freed_string (l 3), Freed_string (l 5), Freed_string (l 4), Freed_string (l 6), Freed (l 2)] @
     (if l 1 = 0 then [] else [Called ''DeleteLocalRef'' [Native (l 0), Native (l 1)] None])"

lemma release_events_amount: "amount released (release_events l) = holdings l" "amount acquired (release_events l) = {#}"
  by (simp_all add: release_events_def holdings_def held_def)

lemma release_runs:
  "\<exists>fr' st'. run_il h (peer_methods h peer_stubs) (release_code 2) (fr\<lparr>stack := []\<rparr>) st = (Fell, fr', st') \<and>
    trace st' = trace st @ release_events (locals fr)"
proof -
  let ?run = "run_il h (peer_methods h peer_stubs)" and ?fr = "fr\<lparr>stack := []\<rparr>" and ?l = "locals fr"
  let ?free = "\<lambda>l st. log_event (Freed_string (?l l)) (free_encoded h (?l l) (world st)) st"
  let ?tail = "[Ldloc 1, Brfalse ''noClass'', Ldloc 0, Ldloc 1, Invoke ''DeleteLocalRef'' 2, Label ''noClass'']"
  have two: "[0..<2] = [0, 1 :: nat]" by code_simp
  have code: "release_code 2 = [Ldloc 3, Free_string, Ldloc 5, Free_string, Ldloc 4, Free_string, Ldloc 6, Free_string, Ldloc 2, Free] @ ?tail"
    by (simp add: release_code_def two)
  have free: "?run (Ldloc l # Free_string # rest) ?fr st = ?run rest ?fr (?free l st)" for l rest st
    by (simp add: push_def)
  define st4 where "st4 = ?free 6 (?free 4 (?free 5 (?free 3 st)))"
  define st5 where "st5 = log_event (Freed (?l 2)) (free_memory h (?l 2) (world st4)) st4"
  have trace5: "trace st5 = trace st @ [Freed_string (?l 3), Freed_string (?l 5), Freed_string (?l 4), Freed_string (?l 6), Freed (?l 2)]"
    by (simp add: st5_def st4_def log_event_def)
  have "?run (release_code 2) ?fr st = ?run ([Ldloc 2, Free] @ ?tail) ?fr st4"
    by (simp only: code append_Cons append_Nil free st4_def)
  then have run: "?run (release_code 2) ?fr st = ?run ?tail ?fr st5"
    by (simp only: append_Cons append_Nil st5_def) (simp add: push_def)
  obtain w where delete: "peer_methods h peer_stubs ''DeleteLocalRef'' [Native (?l 0), Native (?l 1)] st5 = (Returned None, st5\<lparr>world := w\<rparr>)"
    by (rule peer_delete_call)
  show ?thesis
    unfolding run using delete by (cases "?l 1 = 0") (simp_all add: run_simps release_events_def trace5)
qed

section \<open>Bind\<close>

definition bind_events :: "'w host \<Rightarrow> int \<Rightarrow> int \<Rightarrow> int \<Rightarrow> int \<Rightarrow> int \<Rightarrow> int \<Rightarrow> int \<Rightarrow> int \<Rightarrow> event list" where
  "bind_events h e x c m a0 b0 a1 b1 =
     [Called ''GetObjectClass'' [Native e, Native x] (Some (Native c))] @ passed e @
     [Allocated (int (pointer_size (java h)) * 6) (Some m)] @
     callback_events h 0 (callbacks ! 0) m a0 b0 @ callback_events h 1 (callbacks ! 1) m a1 b1 @
     [Called ''RegisterNatives'' [Native e, Native c, Native m, Native 2] (Some (Native 0))] @ passed e"

definition bind_locals :: "int \<Rightarrow> int \<Rightarrow> int \<Rightarrow> int \<Rightarrow> int \<Rightarrow> int \<Rightarrow> int \<Rightarrow> nat \<Rightarrow> int" where
  "bind_locals e c m a0 b0 a1 b1 = (\<lambda>n. 0)(0 := e, 1 := c, 2 := m, 3 := a0, 4 := b0, 5 := a1, 6 := b1, 7 := 0)"

definition try_code :: "il list" where
  "try_code = class_code @ array_code @ emit_callback 0 (callbacks ! 0) @ emit_callback 1 (callbacks ! 1) @ register_code"

lemma body_acquires:
  fixes st :: "'w il_state"
  assumes fr: "fr = \<lparr>arguments = [Native activity], locals = (\<lambda>n. 0)(0 := e), stack = []\<rparr>"
    and x: "x = activity_object h activity (world st)"
  shows "acquires h try_code (fr, st) (\<lambda>(fr', st'). \<exists>c m a0 b0 a1 b1. locals fr' = bind_locals e c m a0 b0 a1 b1 \<and>
    trace st' = trace st @ bind_events h e x c m a0 b0 a1 b1)"
  unfolding try_code_def
proof (rule acquires_seq [OF class_acquires [of fr activity]], (simp add: fr; fail)+, elim exE conjE)
  fix fr1 c and st1 :: "'w il_state"
  assume 1: "fr1 = fr\<lparr>locals := (locals fr)(1 := c), stack := []\<rparr>"
    "trace st1 = trace st @ [Called ''GetObjectClass'' [Native (locals fr 0), Native (activity_object h activity (world st))] (Some (Native c))] @
      passed (locals fr 0)"
  let ?Q = "\<lambda>(fr', st' :: 'w il_state). \<exists>c m a0 b0 a1 b1. locals fr' = bind_locals e c m a0 b0 a1 b1 \<and>
    trace st' = trace st @ bind_events h e x c m a0 b0 a1 b1"
  show "acquires h (array_code @ emit_callback 0 (callbacks ! 0) @ emit_callback 1 (callbacks ! 1) @ register_code) (fr1, st1) ?Q"
  proof (rule acquires_seq [OF array_acquires], (simp add: fr 1(1); fail)+, elim exE conjE)
    fix fr2 m and st2 :: "'w il_state"
    assume 2: "fr2 = fr1\<lparr>locals := (locals fr1)(2 := m), stack := []\<rparr>"
      "trace st2 = trace st1 @ [Allocated (int (pointer_size (java h)) * 6) (Some m)]"
    show "acquires h (emit_callback 0 (callbacks ! 0) @ emit_callback 1 (callbacks ! 1) @ register_code) (fr2, st2) ?Q"
    proof (rule acquires_seq [OF callback_acquires], (simp add: fr 1(1) 2(1); fail)+, elim exE conjE)
      fix fr3 a0 b0 and st3 :: "'w il_state"
      assume 3: "fr3 = fr2\<lparr>locals := (locals fr2)(3 + 2 * 0 := a0, 4 + 2 * 0 := b0), stack := []\<rparr>"
        "trace st3 = trace st2 @ callback_events h 0 (callbacks ! 0) (locals fr2 2) a0 b0"
      show "acquires h (emit_callback 1 (callbacks ! 1) @ register_code) (fr3, st3) ?Q"
      proof (rule acquires_seq [OF callback_acquires], (simp add: fr 1(1) 2(1) 3(1); fail)+, elim exE conjE)
        fix fr4 a1 b1 and st4 :: "'w il_state"
        assume 4: "fr4 = fr3\<lparr>locals := (locals fr3)(3 + 2 * 1 := a1, 4 + 2 * 1 := b1), stack := []\<rparr>"
          "trace st4 = trace st3 @ callback_events h 1 (callbacks ! 1) (locals fr3 2) a1 b1"
        have l: "(locals fr4)(7 := 0) = bind_locals e c m a0 b0 a1 b1"
          by (simp add: fr 1(1) 2(1) 3(1) 4(1) bind_locals_def)
        have "stack fr4 = []" by (simp add: 4(1))
        from register_acquires [OF this, of h st4] show "acquires h register_code (fr4, st4) ?Q"
        proof (rule acquires_mono, clarify)
          fix st5 :: "'w il_state"
          assume "trace st5 = trace st4 @ [Called ''RegisterNatives'' [Native (locals fr4 0), Native (locals fr4 1), Native (locals fr4 2), Native 2]
            (Some (Native 0))] @ passed (locals fr4 0)"
          then have "trace st5 = trace st @ bind_events h e x c m a0 b0 a1 b1"
            by (simp add: fr 1 2 3 4 bind_events_def x)
          then show "\<exists>c m a0 b0 a1 b1. locals (fr4\<lparr>locals := (locals fr4)(7 := 0), stack := []\<rparr>) = bind_locals e c m a0 b0 a1 b1 \<and>
            trace st5 = trace st @ bind_events h e x c m a0 b0 a1 b1"
            by (intro exI [of _ c] exI [of _ m] exI [of _ a0] exI [of _ b0] exI [of _ a1] exI [of _ b1]) (simp add: l)
        qed
      qed
    qed
  qed
qed

text \<open>
  The whole of \<open>Bind\<close> for an activity: either some piece threw, or every event of a registration happened;
  then the locals were given back.
\<close>

lemma bind_code: "emit_bind callbacks = open_code @ [Try try_code (release_code 2), Ret]"
  by (simp add: emit_bind_def callbacks_def try_code_def numeral_2_eq_2)

definition activity_env :: "'w host \<Rightarrow> int \<Rightarrow> 'w \<Rightarrow> int" where
  "activity_env h activity w = read_pointer (java h) w (activity + int (pointer_size (java h)) * 2)"

lemma Bind_opens:
  assumes "activity \<noteq> 0"
  shows "Bind h stubs activity st = (case run_il h (peer_methods h stubs) [Try try_code (release_code 2), Ret]
    \<lparr>arguments = [Native activity], locals = (\<lambda>n. 0)(0 := activity_env h activity (world st)), stack = []\<rparr> st of (out, fr, st') \<Rightarrow> (out, st'))"
proof -
  have "run_il h (peer_methods h stubs) (open_code @ rest) \<lparr>arguments = [Native activity], locals = \<lambda>n. 0, stack = []\<rparr> st =
      run_il h (peer_methods h stubs) rest
        \<lparr>arguments = [Native activity], locals = (\<lambda>n. 0)(0 := activity_env h activity (world st)), stack = []\<rparr> st" for rest
    using assms by (simp add: open_code_def run_simps activity_env_def)
  then show ?thesis by (simp only: Bind_def run_method_def bind_code)
qed

lemma Bind_runs:
  assumes "activity \<noteq> 0" and e_def: "e = activity_env h activity (world st)" and x_def: "x = activity_object h activity (world st)"
  shows "(\<exists>err l t st'. Bind h peer_stubs activity st = (Threw err, st') \<and> trace st' = trace st @ t @ release_events l \<and>
      amount acquired t = holdings l \<and> amount released t = {#}) \<or>
    (\<exists>c m a0 b0 a1 b1 st'. Bind h peer_stubs activity st = (Returned None, st') \<and>
      trace st' = trace st @ bind_events h e x c m a0 b0 a1 b1 @ release_events (bind_locals e c m a0 b0 a1 b1))"
proof -
  let ?fr = "\<lparr>arguments = [Native activity], locals = (\<lambda>n. 0)(0 := e), stack = []\<rparr>"
  let ?run = "run_il h (peer_methods h peer_stubs)"
  have no: "holdings ((\<lambda>n. 0)(0 := e)) = {#}" by (simp add: holdings_def held_def)
  from body_acquires [of ?fr activity e x h st, unfolded acquires_def, THEN spec, of "[]"]
  consider (thrown) err fr1 st1 t where "?run try_code ?fr st = (Threw err, fr1, st1)" "trace st1 = trace st @ t"
      "holdings (locals fr1) = amount acquired t" "amount released t = {#}"
    | (fell) fr1 st1 c m a0 b0 a1 b1 where "?run try_code ?fr st = (Fell, fr1, st1)" "locals fr1 = bind_locals e c m a0 b0 a1 b1"
      "trace st1 = trace st @ bind_events h e x c m a0 b0 a1 b1"
    unfolding grows_def using no x_def by (auto simp del: fun_upd_apply)
  then show ?thesis
  proof cases
    case thrown
    obtain fr2 st2 where "?run (release_code 2) (fr1\<lparr>stack := []\<rparr>) st1 = (Fell, fr2, st2)" "trace st2 = trace st1 @ release_events (locals fr1)"
      using release_runs by blast
    then show ?thesis
      using thrown by (intro disjI1 exI [of _ err] exI [of _ "locals fr1"] exI [of _ t] exI [of _ st2])
        (simp add: Bind_opens [OF assms(1)] flip: e_def)
  next
    case fell
    obtain fr2 st2 where "?run (release_code 2) (fr1\<lparr>stack := []\<rparr>) st1 = (Fell, fr2, st2)" "trace st2 = trace st1 @ release_events (locals fr1)"
      using release_runs by blast
    then show ?thesis
      using fell by (intro disjI2 exI [of _ c] exI [of _ m] exI [of _ a0] exI [of _ b0] exI [of _ a1] exI [of _ b1] exI [of _ st2])
        (simp add: Bind_opens [OF assms(1)] flip: e_def)
  qed
qed

end
