(* ===== verification/Native_Bind.thy ===== *)
theory Native_Bind
  imports Native_Bound
begin

text \<open>
  The properties of the emitted peer registration, and a registration that runs on a small host.
\<close>

lemma bind_events_amount:
  "amount acquired (bind_events h e x c m a0 b0 a1 b1) = holdings (bind_locals e c m a0 b0 a1 b1)"
  "amount released (bind_events h e x c m a0 b0 a1 b1) = {#}"
  by (simp_all add: bind_events_def callback_events_def passed_def bind_locals_def holdings_def Let_def)

lemma Bind_no_activity:
  "Bind h stubs 0 st = (Threw ''ArgumentNullException'', st)"
  by (simp add: Bind_def run_method_def bind_code open_code_def run_simps)

text \<open>
  C21. \<open>Bind\<close> gives back everything: on every path, whether it returns or throws and whatever the Java
  machine and the allocator answer, the strings, the block of memory and the local reference it got are
  exactly those it gave back.
\<close>

theorem peer_binding_leaks_nothing:
  assumes "Add_NativePeerMethods JNINativeInterface = Some stubs" "Bind h stubs activity st = (out, st')"
  shows "(out = Returned None \<or> (\<exists>e. out = Threw e)) \<and>
    (\<exists>t. trace st' = trace st @ t \<and> amount acquired t = amount released t)"
proof (cases "activity = 0")
  case True
  then have "out = Threw ''ArgumentNullException''" "st' = st" using assms(2) by (simp_all add: Bind_no_activity)
  moreover have "trace st = trace st @ [] \<and> amount acquired [] = amount released []" by simp
  ultimately show ?thesis by blast
next
  case False
  have stubs: "stubs = peer_stubs" using assms(1) by (simp add: peer_stubs)
  from Bind_runs [OF False refl refl, of h st] show ?thesis
  proof (elim disjE exE conjE)
    fix err l t st1
    assume "Bind h peer_stubs activity st = (Threw err, st1)" "trace st1 = trace st @ t @ release_events l"
      "amount acquired t = holdings l" "amount released t = {#}"
    then show ?thesis
      using assms(2) by (auto simp: stubs release_events_amount intro!: exI [of _ "t @ release_events l"])
  next
    fix c m a0 b0 a1 b1 st1
    let ?e = "activity_env h activity (world st)" and ?x = "activity_object h activity (world st)"
    let ?l = "bind_locals ?e c m a0 b0 a1 b1"
    assume "Bind h peer_stubs activity st = (Returned None, st1)"
      "trace st1 = trace st @ bind_events h ?e ?x c m a0 b0 a1 b1 @ release_events ?l"
    then show ?thesis
      using assms(2) by (auto simp: stubs release_events_amount bind_events_amount
        intro!: exI [of _ "bind_events h ?e ?x c m a0 b0 a1 b1 @ release_events ?l"])
  qed
qed

text \<open>Where a field of the \<open>i\<close>-th method of an array lies, and what is written for a callback.\<close>

definition method_field :: "nat \<Rightarrow> int \<Rightarrow> nat \<Rightarrow> string \<Rightarrow> int" where
  "method_field P m i f = m + int (i * the (sizeof_struct P JNINativeMethod) + the (offsetof P JNINativeMethod f))"

definition registered :: "'w host \<Rightarrow> int \<Rightarrow> nat \<Rightarrow> int \<Rightarrow> int \<Rightarrow> event list" where
  "registered h m i a b =
     (let at = method_field (pointer_size (java h)) m i; cb = callbacks ! i in
      [Encoded (JavaName cb) (Some a), Encoded (Descriptor cb) (Some b),
       Wrote (at ''name'') a, Wrote (at ''signature'') b, Wrote (at ''fnPtr'') (entry_point h (receiver cb))])"

lemma method_layout:
  assumes "0 < P"
  shows "sizeof_struct P JNINativeMethod = Some (3 * P)" "offsetof P JNINativeMethod ''name'' = Some 0"
    "offsetof P JNINativeMethod ''signature'' = Some P" "offsetof P JNINativeMethod ''fnPtr'' = Some (2 * P)"
proof -
  have wide: "pointer_wide P JNINativeMethod" by (simp add: pointer_wide_def JNINativeMethod_def)
  have d: "distinct (map snd JNINativeMethod)" "length JNINativeMethod = 3" by (simp_all add: JNINativeMethod_def)
  show "sizeof_struct P JNINativeMethod = Some (3 * P)" using pointer_sizeof [OF assms wide] d(2) by simp
  show "offsetof P JNINativeMethod ''name'' = Some 0" "offsetof P JNINativeMethod ''signature'' = Some P"
      "offsetof P JNINativeMethod ''fnPtr'' = Some (2 * P)"
    using pointer_offsetof [OF assms wide _ d(1), of 0] pointer_offsetof [OF assms wide _ d(1), of 1]
      pointer_offsetof [OF assms wide _ d(1), of 2] by (simp_all add: d(2)) (simp_all add: JNINativeMethod_def)
qed

lemma registered_events: "0 < pointer_size (java h) \<Longrightarrow> callback_events h i (callbacks ! i) m a b = registered h m i a b"
  by (simp add: callback_events_def registered_def method_field_def method_layout Let_def algebra_simps)

text \<open>
  C22. When \<open>Bind\<close> returns, it registered both callbacks: it read the environment and the activity where
  the structure of \<open>lib/native_activity.h\<close> has them, filled an array of two \<open>JNINativeMethod\<close> structures of
  \<open>lib/jni.h\<close> with the name, the descriptor and the entry point of each callback, and passed it with the
  activity's class to \<open>RegisterNatives\<close>, which answered 0; no exception was pending before or after.
\<close>

theorem peer_binding_registers:
  assumes "Add_NativePeerMethods JNINativeInterface = Some stubs" "Bind h stubs activity st = (Returned v, st')"
    and "pointer_size (java h) \<in> {4, 8}"
  shows "\<exists>oe ox c m a0 b0 a1 b1 t.
    offsetof (pointer_size (java h)) ANativeActivity ''env'' = Some oe \<and>
    offsetof (pointer_size (java h)) ANativeActivity ''clazz'' = Some ox \<and>
    (let e = read_pointer (java h) (world st) (activity + int oe); x = read_pointer (java h) (world st) (activity + int ox) in
     trace st' = trace st @
       [Called ''GetObjectClass'' [Native e, Native x] (Some (Native c))] @ passed e @
       [Allocated (int (2 * the (sizeof_struct (pointer_size (java h)) JNINativeMethod))) (Some m)] @
       registered h m 0 a0 b0 @ registered h m 1 a1 b1 @
       [Called ''RegisterNatives'' [Native e, Native c, Native m, Native 2] (Some (Native 0))] @ passed e @ t)"
proof -
  let ?P = "pointer_size (java h)"
  have P: "0 < ?P" "4 dvd ?P" using assms(3) by auto
  have "activity \<noteq> 0" using assms(2) by (auto simp: Bind_no_activity)
  moreover have stubs: "stubs = peer_stubs" using assms(1) by (simp add: peer_stubs)
  ultimately obtain c m a0 b0 a1 b1 l where
    "trace st' = trace st @ bind_events h (activity_env h activity (world st)) (activity_object h activity (world st)) c m a0 b0 a1 b1 @
      release_events l"
    using Bind_runs [of activity _ h st, OF _ refl refl] assms(2) by auto
  note runs = this
  have env: "activity_env h activity (world st) = read_pointer (java h) (world st) (activity + int (2 * ?P))"
    and object: "activity_object h activity (world st) = read_pointer (java h) (world st) (activity + int (3 * ?P))"
    by (simp_all add: activity_env_def activity_object_def mult.commute)
  have size: "int (2 * the (sizeof_struct ?P JNINativeMethod)) = int ?P * 6" by (simp add: method_layout(1) [OF P(1)])
  show ?thesis
    unfolding size Let_def
  proof (rule exI, rule exI, rule exI [of _ c], rule exI [of _ m], rule exI [of _ a0], rule exI [of _ b0], rule exI [of _ a1],
      rule exI [of _ b1], rule exI [of _ "release_events l"], intro conjI)
    show "offsetof ?P ANativeActivity ''env'' = Some (2 * ?P)" "offsetof ?P ANativeActivity ''clazz'' = Some (3 * ?P)"
      by (rule activity_fields [OF P])+
  qed (simp add: runs bind_events_def registered_events [OF P(1)] env object)
qed

section \<open>A registration\<close>

text \<open>A host whose pointers read as their address: a class is found, no exception is pending, registration succeeds.\<close>

definition demo_host :: "unit host" where
  "demo_host = \<lparr>
     java = \<lparr>pointer_size = 8, read_pointer = \<lambda>w p. p,
       call_function = \<lambda>fp args w. (Num (if length args = 2 then 5 else 0), w)\<rparr>,
     write_pointer = \<lambda>p v w. w, alloc_memory = \<lambda>n w. (Some 0x1000, w), free_memory = \<lambda>p w. w,
     encode_string = \<lambda>s w. (Some (int (length s)), w), free_encoded = \<lambda>p w. w, entry_point = \<lambda>f. 0x2000\<rparr>"

lemma demo_stub:
  assumes "length xs = n" "0 < n"
  shows "run_method demo_host meth (emit_stub slot ret n) (map Native xs) st =
    (Returned (convert_result ret (if n = 2 then 5 else 0)), st)"
  using assms by (simp add: stub_runs jni_call_def demo_host_def)

lemma demo_calls:
  "stub_methods demo_host peer_stubs ''GetObjectClass'' [Native e, Native x] st = (Returned (Some (Native 5)), st)"
  "stub_methods demo_host peer_stubs ''RegisterNatives'' [Native e, Native x, Native y, Native z] st = (Returned (Some (Native 0)), st)"
  "stub_methods demo_host peer_stubs ''DeleteLocalRef'' [Native e, Native x] st = (Returned None, st)"
  "stub_methods demo_host peer_stubs ''ExceptionCheck'' [Native e] st = (Returned (Some (Native 0)), st)"
  unfolding stub_methods_def peer_stubs_def
  using demo_stub [of "[e, x]" 2 _ 31 Ptr_ret st] demo_stub [of "[e, x]" 2 _ 23 Void_ret st]
    demo_stub [of "[e, x, y, z]" 4 _ 215 Int_ret st] demo_stub [of "[e]" 1 _ 228 Byte_ret st]
  by simp_all

lemma demo_peers:
  "f \<noteq> ''Check'' \<Longrightarrow> peer_methods demo_host peer_stubs f args st = stub_methods demo_host peer_stubs f args st"
  "peer_methods demo_host peer_stubs ''Check'' [Native e] st =
    (Returned None, st\<lparr>trace := trace st @ [Called ''ExceptionCheck'' [Native e] (Some (Native 0))]\<rparr>)"
  by (simp_all add: peer_methods_def run_method_def check_code_def run_simps demo_calls)

lemma demo_selectors:
  "pointer_size (java demo_host) = 8" "read_pointer (java demo_host) w p = p"
  "alloc_memory demo_host n w = (Some 0x1000, w)" "encode_string demo_host s w = (Some (int (length s)), w)"
  by (simp_all add: demo_host_def)

lemma demo_body:
  "\<exists>fr' st'. run_il demo_host (peer_methods demo_host peer_stubs) try_code
    \<lparr>arguments = [Native 64], locals = (\<lambda>n. 0)(0 := e), stack = []\<rparr> st = (Fell, fr', st')"
  by (simp add: try_code_def class_code_def run_simps demo_calls demo_peers array_code_def emit_callback_def emit_part_def
    register_code_def demo_selectors)

lemma demo_bind: "fst (Bind demo_host peer_stubs 64 st) = Returned None"
proof -
  let ?run = "run_il demo_host (peer_methods demo_host peer_stubs)"
  let ?fr = "\<lparr>arguments = [Native 64], locals = (\<lambda>n. 0)(0 := activity_env demo_host 64 ()), stack = []\<rparr>"
  obtain fr1 st1 where body: "?run try_code ?fr st = (Fell, fr1, st1)" using demo_body by blast
  obtain fr2 st2 where release: "?run (release_code 2) (fr1\<lparr>stack := []\<rparr>) st1 = (Fell, fr2, st2)" using release_runs by blast
  have "?run [Try try_code (release_code 2), Ret] ?fr st = (Returned None, fr2\<lparr>stack := []\<rparr>, st2)" by (simp add: body release)
  then show ?thesis by (simp add: Bind_opens)
qed

text \<open>The state before anything ran.\<close>

definition demo_start :: "unit il_state" where
  "demo_start = \<lparr>world = (), trace = []\<rparr>"

lemma peer_binding_leaks_nothing_witness:
  "\<exists>t. trace (snd (Bind demo_host peer_stubs 64 demo_start)) = t \<and> amount acquired t = amount released t"
  using peer_binding_leaks_nothing [OF peer_stubs, of demo_host 64 demo_start _ "snd (Bind demo_host peer_stubs 64 demo_start)"]
  by (simp add: demo_start_def prod_eq_iff)

lemma peer_binding_registers_witness:
  "\<exists>c m a0 b0 a1 b1 t. trace (snd (Bind demo_host peer_stubs 64 demo_start)) =
     Called ''GetObjectClass'' [Native 80, Native 88] (Some (Native c)) # passed 80 @ Allocated 48 (Some m) #
     registered demo_host m 0 a0 b0 @ registered demo_host m 1 a1 b1 @
     Called ''RegisterNatives'' [Native 80, Native c, Native m, Native 2] (Some (Native 0)) # passed 80 @ t"
proof -
  have "Bind demo_host peer_stubs 64 demo_start = (Returned None, snd (Bind demo_host peer_stubs 64 demo_start))"
    by (simp add: prod_eq_iff demo_bind)
  from peer_binding_registers [OF peer_stubs this] show ?thesis
    by (simp add: demo_selectors method_layout activity_fields demo_start_def Let_def)
qed


end
