(* ===== verification/Res_Types.thy ===== *)
theory Res_Types
  imports Prelude C_Layout "HOL-Library.Monad_Syntax"
begin

text \<open>
  The structures of \<open>lib/ResourceTypes.h\<close>: chunk headers, values, string pools, the nodes of a binary XML
  document and the parts of a resource table, each a record with its little-endian image; the
  enumerations as tables of names and values; the macros and inline functions of the header.
\<close>

section \<open>Chunk types\<close>

type_synonym c_enum = "(string \<times> nat) list"

definition chunk_types :: c_enum where
  "chunk_types = [
     (''RES_NULL_TYPE'', 0x0000), (''RES_STRING_POOL_TYPE'', 0x0001), (''RES_TABLE_TYPE'', 0x0002), (''RES_XML_TYPE'', 0x0003),
     (''RES_XML_FIRST_CHUNK_TYPE'', 0x0100), (''RES_XML_START_NAMESPACE_TYPE'', 0x0100), (''RES_XML_END_NAMESPACE_TYPE'', 0x0101),
     (''RES_XML_START_ELEMENT_TYPE'', 0x0102), (''RES_XML_END_ELEMENT_TYPE'', 0x0103), (''RES_XML_CDATA_TYPE'', 0x0104),
     (''RES_XML_LAST_CHUNK_TYPE'', 0x017f), (''RES_XML_RESOURCE_MAP_TYPE'', 0x0180),
     (''RES_TABLE_PACKAGE_TYPE'', 0x0200), (''RES_TABLE_TYPE_TYPE'', 0x0201), (''RES_TABLE_TYPE_SPEC_TYPE'', 0x0202),
     (''RES_TABLE_LIBRARY_TYPE'', 0x0203), (''RES_TABLE_OVERLAYABLE_TYPE'', 0x0204),
     (''RES_TABLE_OVERLAYABLE_POLICY_TYPE'', 0x0205), (''RES_TABLE_STAGED_ALIAS_TYPE'', 0x0206)]"

text \<open>The value of an enumerator, where a theory uses it.\<close>

definition enumerator :: "c_enum \<Rightarrow> string \<Rightarrow> ('a :: len) word" where
  "enumerator es x = of_nat (the (map_of es x))"

abbreviation RES_STRING_POOL_TYPE :: u16 where "RES_STRING_POOL_TYPE \<equiv> 0x0001"
abbreviation RES_TABLE_TYPE :: u16 where "RES_TABLE_TYPE \<equiv> 0x0002"
abbreviation RES_XML_TYPE :: u16 where "RES_XML_TYPE \<equiv> 0x0003"
abbreviation RES_XML_START_NAMESPACE_TYPE :: u16 where "RES_XML_START_NAMESPACE_TYPE \<equiv> 0x0100"
abbreviation RES_XML_END_NAMESPACE_TYPE :: u16 where "RES_XML_END_NAMESPACE_TYPE \<equiv> 0x0101"
abbreviation RES_XML_START_ELEMENT_TYPE :: u16 where "RES_XML_START_ELEMENT_TYPE \<equiv> 0x0102"
abbreviation RES_XML_END_ELEMENT_TYPE :: u16 where "RES_XML_END_ELEMENT_TYPE \<equiv> 0x0103"
abbreviation RES_XML_RESOURCE_MAP_TYPE :: u16 where "RES_XML_RESOURCE_MAP_TYPE \<equiv> 0x0180"
abbreviation RES_TABLE_PACKAGE_TYPE :: u16 where "RES_TABLE_PACKAGE_TYPE \<equiv> 0x0200"
abbreviation RES_TABLE_TYPE_TYPE :: u16 where "RES_TABLE_TYPE_TYPE \<equiv> 0x0201"
abbreviation RES_TABLE_TYPE_SPEC_TYPE :: u16 where "RES_TABLE_TYPE_SPEC_TYPE \<equiv> 0x0202"

lemma chunk_type_values:
  "enumerator chunk_types ''RES_STRING_POOL_TYPE'' = RES_STRING_POOL_TYPE" "enumerator chunk_types ''RES_TABLE_TYPE'' = RES_TABLE_TYPE"
  "enumerator chunk_types ''RES_XML_TYPE'' = RES_XML_TYPE"
  "enumerator chunk_types ''RES_XML_START_NAMESPACE_TYPE'' = RES_XML_START_NAMESPACE_TYPE"
  "enumerator chunk_types ''RES_XML_END_NAMESPACE_TYPE'' = RES_XML_END_NAMESPACE_TYPE"
  "enumerator chunk_types ''RES_XML_START_ELEMENT_TYPE'' = RES_XML_START_ELEMENT_TYPE"
  "enumerator chunk_types ''RES_XML_END_ELEMENT_TYPE'' = RES_XML_END_ELEMENT_TYPE"
  "enumerator chunk_types ''RES_XML_RESOURCE_MAP_TYPE'' = RES_XML_RESOURCE_MAP_TYPE"
  "enumerator chunk_types ''RES_TABLE_PACKAGE_TYPE'' = RES_TABLE_PACKAGE_TYPE"
  "enumerator chunk_types ''RES_TABLE_TYPE_TYPE'' = RES_TABLE_TYPE_TYPE"
  "enumerator chunk_types ''RES_TABLE_TYPE_SPEC_TYPE'' = RES_TABLE_TYPE_SPEC_TYPE"
  by (simp_all add: enumerator_def chunk_types_def)

section \<open>Resource identifiers\<close>

definition Res_VALIDID :: "u32 \<Rightarrow> bool" where "Res_VALIDID resid \<longleftrightarrow> resid \<noteq> 0"
definition Res_CHECKID :: "u32 \<Rightarrow> bool" where "Res_CHECKID resid \<longleftrightarrow> resid AND 0xFFFF0000 \<noteq> 0"

definition Res_MAKEID :: "u32 \<Rightarrow> u32 \<Rightarrow> u32 \<Rightarrow> u32" where
  "Res_MAKEID package type entry = (push_bit 24 (package + 1) OR push_bit 16 ((type + 1) AND 0xFF)) OR (entry AND 0xFFFF)"

definition Res_GETPACKAGE :: "u32 \<Rightarrow> u32" where "Res_GETPACKAGE i = drop_bit 24 i - 1"
definition Res_GETTYPE :: "u32 \<Rightarrow> u32" where "Res_GETTYPE i = (drop_bit 16 i AND 0xFF) - 1"
definition Res_GETENTRY :: "u32 \<Rightarrow> u32" where "Res_GETENTRY i = i AND 0xFFFF"

definition Res_INTERNALID :: "u32 \<Rightarrow> bool" where
  "Res_INTERNALID resid \<longleftrightarrow> resid AND 0xFFFF0000 \<noteq> 0 \<and> resid AND 0xFF0000 = 0"

definition Res_MAKEINTERNAL :: "u32 \<Rightarrow> u32" where "Res_MAKEINTERNAL entry = 0x01000000 OR (entry AND 0xFFFF)"
definition Res_MAKEARRAY :: "u32 \<Rightarrow> u32" where "Res_MAKEARRAY entry = 0x02000000 OR (entry AND 0xFFFF)"
definition Res_MAXPACKAGE :: nat where "Res_MAXPACKAGE = 255"
definition Res_MAXTYPE :: nat where "Res_MAXTYPE = 255"

section \<open>Values and structures of one size\<close>

definition value_types :: c_enum where
  "value_types = [
     (''TYPE_NULL'', 0x00), (''TYPE_REFERENCE'', 0x01), (''TYPE_ATTRIBUTE'', 0x02), (''TYPE_STRING'', 0x03), (''TYPE_FLOAT'', 0x04),
     (''TYPE_DIMENSION'', 0x05), (''TYPE_FRACTION'', 0x06), (''TYPE_DYNAMIC_REFERENCE'', 0x07), (''TYPE_DYNAMIC_ATTRIBUTE'', 0x08),
     (''TYPE_FIRST_INT'', 0x10), (''TYPE_INT_DEC'', 0x10), (''TYPE_INT_HEX'', 0x11), (''TYPE_INT_BOOLEAN'', 0x12),
     (''TYPE_FIRST_COLOR_INT'', 0x1c), (''TYPE_INT_COLOR_ARGB8'', 0x1c), (''TYPE_INT_COLOR_RGB8'', 0x1d),
     (''TYPE_INT_COLOR_ARGB4'', 0x1e), (''TYPE_INT_COLOR_RGB4'', 0x1f), (''TYPE_LAST_COLOR_INT'', 0x1f), (''TYPE_LAST_INT'', 0x1f)]"

definition complex_values :: c_enum where
  "complex_values = [
     (''COMPLEX_UNIT_SHIFT'', 0), (''COMPLEX_UNIT_MASK'', 0xf), (''COMPLEX_UNIT_PX'', 0), (''COMPLEX_UNIT_DIP'', 1),
     (''COMPLEX_UNIT_SP'', 2), (''COMPLEX_UNIT_PT'', 3), (''COMPLEX_UNIT_IN'', 4), (''COMPLEX_UNIT_MM'', 5),
     (''COMPLEX_UNIT_FRACTION'', 0), (''COMPLEX_UNIT_FRACTION_PARENT'', 1), (''COMPLEX_RADIX_SHIFT'', 4), (''COMPLEX_RADIX_MASK'', 0x3),
     (''COMPLEX_RADIX_23p0'', 0), (''COMPLEX_RADIX_16p7'', 1), (''COMPLEX_RADIX_8p15'', 2), (''COMPLEX_RADIX_0p23'', 3),
     (''COMPLEX_MANTISSA_SHIFT'', 8), (''COMPLEX_MANTISSA_MASK'', 0xffffff)]"

definition null_values :: c_enum where "null_values = [(''DATA_NULL_UNDEFINED'', 0), (''DATA_NULL_EMPTY'', 1)]"
definition pool_flag_values :: c_enum where "pool_flag_values = [(''SORTED_FLAG'', 1), (''UTF8_FLAG'', 256)]"
definition spec_flag_values :: c_enum where "spec_flag_values = [(''SPEC_PUBLIC'', 0x40000000), (''SPEC_STAGED_API'', 0x20000000)]"
definition type_flag_values :: c_enum where "type_flag_values = [(''FLAG_SPARSE'', 0x01), (''FLAG_OFFSET16'', 0x02)]"

definition entry_flag_values :: c_enum where
  "entry_flag_values = [(''FLAG_COMPLEX'', 1), (''FLAG_PUBLIC'', 2), (''FLAG_WEAK'', 4), (''FLAG_COMPACT'', 8)]"

definition policy_flag_values :: c_enum where
  "policy_flag_values = [(''NONE'', 0), (''PUBLIC'', 0x1), (''SYSTEM_PARTITION'', 0x2), (''VENDOR_PARTITION'', 0x4),
     (''PRODUCT_PARTITION'', 0x8), (''SIGNATURE'', 0x10), (''ODM_PARTITION'', 0x20), (''OEM_PARTITION'', 0x40),
     (''ACTOR_SIGNATURE'', 0x80), (''CONFIG_SIGNATURE'', 0x100)]"

definition map_type_values :: c_enum where
  "map_type_values = [(''TYPE_ANY'', 0x0000FFFF), (''TYPE_REFERENCE'', 1), (''TYPE_STRING'', 2), (''TYPE_INTEGER'', 4),
     (''TYPE_BOOLEAN'', 8), (''TYPE_COLOR'', 16), (''TYPE_FLOAT'', 32), (''TYPE_DIMENSION'', 64), (''TYPE_FRACTION'', 128),
     (''TYPE_ENUM'', 65536), (''TYPE_FLAGS'', 131072)]"

definition map_attr_values :: "(string \<times> u32) list" where
  "map_attr_values = map (\<lambda>(x, k). (x, Res_MAKEINTERNAL k)) [(''ATTR_TYPE'', 0), (''ATTR_MIN'', 1), (''ATTR_MAX'', 2), (''ATTR_L10N'', 3),
     (''ATTR_OTHER'', 4), (''ATTR_ZERO'', 5), (''ATTR_ONE'', 6), (''ATTR_TWO'', 7), (''ATTR_FEW'', 8), (''ATTR_MANY'', 9)]"

text \<open>A reference is a structure of one 32-bit member.\<close>

type_synonym ResTable_ref = u32
type_synonym ResStringPool_ref = u32

named_theorems field_skip \<open>a field behind a prefix\<close>

lemma rd_skip [field_skip]:
  "rd8 (xs @ ys) (length xs + k) = rd8 ys k" "rd16 (xs @ ys) (length xs + k) = rd16 ys k" "rd32 (xs @ ys) (length xs + k) = rd32 ys k"
  by (simp_all add: rd8_def rd16_def rd32_def rd_def)

lemma rd_skip_0 [field_skip]:
  "rd8 (xs @ ys) (length xs) = rd8 ys 0" "rd16 (xs @ ys) (length xs) = rd16 ys 0" "rd32 (xs @ ys) (length xs) = rd32 ys 0"
  using rd_skip [of xs ys 0] by simp_all

record ResChunk_header =
  chunk_type :: u16
  headerSize :: u16
  chunk_size :: u32

definition sizeof_ResChunk_header :: nat where "sizeof_ResChunk_header = 8"

definition enc_ResChunk_header :: "ResChunk_header \<Rightarrow> byte list" where
  "enc_ResChunk_header r = enc16 (chunk_type r) @ enc16 (headerSize r) @ enc32 (chunk_size r)"

definition dec_ResChunk_header :: "byte list \<Rightarrow> nat \<Rightarrow> ResChunk_header option" where
  "dec_ResChunk_header bs off = do {
     v0 \<leftarrow> rd16 bs off; v1 \<leftarrow> rd16 bs (off + 2); v2 \<leftarrow> rd32 bs (off + 4);
     Some \<lparr>chunk_type = v0, headerSize = v1, chunk_size = v2\<rparr> }"

lemma ResChunk_header_codec [codec_simps]:
  "length (enc_ResChunk_header r) = 8" "length xs \<le> off \<Longrightarrow> dec_ResChunk_header (xs @ ys) off = dec_ResChunk_header ys (off - length xs)"
  "dec_ResChunk_header (enc_ResChunk_header r @ ys) 0 = Some r"
proof -
  show "length (enc_ResChunk_header r) = 8" by (simp add: enc_ResChunk_header_def codec_simps)
  show "length xs \<le> off \<Longrightarrow> dec_ResChunk_header (xs @ ys) off = dec_ResChunk_header ys (off - length xs)"
    by (auto simp: dec_ResChunk_header_def field_skip add.assoc simp del: add_2_eq_Suc' dest!: le_Suc_ex)
  show "dec_ResChunk_header (enc_ResChunk_header r @ ys) 0 = Some r" by (simp add: enc_ResChunk_header_def dec_ResChunk_header_def codec_simps)
qed

interpretation c_ResChunk_header: record_codec enc_ResChunk_header dec_ResChunk_header 8
  by unfold_locales (simp_all add: codec_simps)

lemma ResChunk_header_skip [field_skip]: "dec_ResChunk_header (xs @ ys) (length xs + k) = dec_ResChunk_header ys k"
  by (simp add: codec_simps)

record Res_value =
  value_size :: u16
  value_res0 :: u8
  dataType :: u8
  value_data :: u32

definition sizeof_Res_value :: nat where "sizeof_Res_value = 8"

definition enc_Res_value :: "Res_value \<Rightarrow> byte list" where
  "enc_Res_value r = enc16 (value_size r) @ enc8 (value_res0 r) @ enc8 (dataType r) @ enc32 (value_data r)"

definition dec_Res_value :: "byte list \<Rightarrow> nat \<Rightarrow> Res_value option" where
  "dec_Res_value bs off = do {
     v0 \<leftarrow> rd16 bs off; v1 \<leftarrow> rd8 bs (off + 2); v2 \<leftarrow> rd8 bs (off + 3);
     v3 \<leftarrow> rd32 bs (off + 4);
     Some \<lparr>value_size = v0, value_res0 = v1, dataType = v2, value_data = v3\<rparr> }"

lemma Res_value_codec [codec_simps]:
  "length (enc_Res_value r) = 8" "length xs \<le> off \<Longrightarrow> dec_Res_value (xs @ ys) off = dec_Res_value ys (off - length xs)"
  "dec_Res_value (enc_Res_value r @ ys) 0 = Some r"
proof -
  show "length (enc_Res_value r) = 8" by (simp add: enc_Res_value_def codec_simps)
  show "length xs \<le> off \<Longrightarrow> dec_Res_value (xs @ ys) off = dec_Res_value ys (off - length xs)"
    by (auto simp: dec_Res_value_def field_skip add.assoc simp del: add_2_eq_Suc' dest!: le_Suc_ex)
  show "dec_Res_value (enc_Res_value r @ ys) 0 = Some r" by (simp add: enc_Res_value_def dec_Res_value_def codec_simps)
qed

interpretation c_Res_value: record_codec enc_Res_value dec_Res_value 8
  by unfold_locales (simp_all add: codec_simps)

lemma Res_value_skip [field_skip]: "dec_Res_value (xs @ ys) (length xs + k) = dec_Res_value ys k"
  by (simp add: codec_simps)

record ResStringPool_header =
  pool_header :: ResChunk_header
  stringCount :: u32
  styleCount :: u32
  pool_flags :: u32
  stringsStart :: u32
  stylesStart :: u32

definition sizeof_ResStringPool_header :: nat where "sizeof_ResStringPool_header = 28"

definition enc_ResStringPool_header :: "ResStringPool_header \<Rightarrow> byte list" where
  "enc_ResStringPool_header r = enc_ResChunk_header (pool_header r) @ enc32 (stringCount r) @ enc32 (styleCount r) @ enc32 (pool_flags r) @
     enc32 (stringsStart r) @ enc32 (stylesStart r)"

definition dec_ResStringPool_header :: "byte list \<Rightarrow> nat \<Rightarrow> ResStringPool_header option" where
  "dec_ResStringPool_header bs off = do {
     v0 \<leftarrow> dec_ResChunk_header bs off; v1 \<leftarrow> rd32 bs (off + 8);
     v2 \<leftarrow> rd32 bs (off + 12); v3 \<leftarrow> rd32 bs (off + 16); v4 \<leftarrow> rd32 bs (off + 20);
     v5 \<leftarrow> rd32 bs (off + 24);
     Some \<lparr>pool_header = v0, stringCount = v1, styleCount = v2, pool_flags = v3, stringsStart = v4, stylesStart = v5\<rparr> }"

lemma ResStringPool_header_codec [codec_simps]:
  "length (enc_ResStringPool_header r) = 28" "length xs \<le> off \<Longrightarrow> dec_ResStringPool_header (xs @ ys) off = dec_ResStringPool_header ys (off - length xs)"
  "dec_ResStringPool_header (enc_ResStringPool_header r @ ys) 0 = Some r"
proof -
  show "length (enc_ResStringPool_header r) = 28" by (simp add: enc_ResStringPool_header_def codec_simps)
  show "length xs \<le> off \<Longrightarrow> dec_ResStringPool_header (xs @ ys) off = dec_ResStringPool_header ys (off - length xs)"
    by (auto simp: dec_ResStringPool_header_def field_skip add.assoc simp del: add_2_eq_Suc' dest!: le_Suc_ex)
  show "dec_ResStringPool_header (enc_ResStringPool_header r @ ys) 0 = Some r" by (simp add: enc_ResStringPool_header_def dec_ResStringPool_header_def codec_simps)
qed

interpretation c_ResStringPool_header: record_codec enc_ResStringPool_header dec_ResStringPool_header 28
  by unfold_locales (simp_all add: codec_simps)

lemma ResStringPool_header_skip [field_skip]: "dec_ResStringPool_header (xs @ ys) (length xs + k) = dec_ResStringPool_header ys k"
  by (simp add: codec_simps)

record ResStringPool_span =
  span_name :: ResStringPool_ref
  firstChar :: u32
  lastChar :: u32

definition sizeof_ResStringPool_span :: nat where "sizeof_ResStringPool_span = 12"

definition enc_ResStringPool_span :: "ResStringPool_span \<Rightarrow> byte list" where
  "enc_ResStringPool_span r = enc32 (span_name r) @ enc32 (firstChar r) @ enc32 (lastChar r)"

definition dec_ResStringPool_span :: "byte list \<Rightarrow> nat \<Rightarrow> ResStringPool_span option" where
  "dec_ResStringPool_span bs off = do {
     v0 \<leftarrow> rd32 bs off; v1 \<leftarrow> rd32 bs (off + 4); v2 \<leftarrow> rd32 bs (off + 8);
     Some \<lparr>span_name = v0, firstChar = v1, lastChar = v2\<rparr> }"

lemma ResStringPool_span_codec [codec_simps]:
  "length (enc_ResStringPool_span r) = 12" "length xs \<le> off \<Longrightarrow> dec_ResStringPool_span (xs @ ys) off = dec_ResStringPool_span ys (off - length xs)"
  "dec_ResStringPool_span (enc_ResStringPool_span r @ ys) 0 = Some r"
proof -
  show "length (enc_ResStringPool_span r) = 12" by (simp add: enc_ResStringPool_span_def codec_simps)
  show "length xs \<le> off \<Longrightarrow> dec_ResStringPool_span (xs @ ys) off = dec_ResStringPool_span ys (off - length xs)"
    by (auto simp: dec_ResStringPool_span_def field_skip add.assoc simp del: add_2_eq_Suc' dest!: le_Suc_ex)
  show "dec_ResStringPool_span (enc_ResStringPool_span r @ ys) 0 = Some r" by (simp add: enc_ResStringPool_span_def dec_ResStringPool_span_def codec_simps)
qed

interpretation c_ResStringPool_span: record_codec enc_ResStringPool_span dec_ResStringPool_span 12
  by unfold_locales (simp_all add: codec_simps)

lemma ResStringPool_span_skip [field_skip]: "dec_ResStringPool_span (xs @ ys) (length xs + k) = dec_ResStringPool_span ys k"
  by (simp add: codec_simps)

record ResXMLTree_header =
  xml_header :: ResChunk_header

definition sizeof_ResXMLTree_header :: nat where "sizeof_ResXMLTree_header = 8"

definition enc_ResXMLTree_header :: "ResXMLTree_header \<Rightarrow> byte list" where
  "enc_ResXMLTree_header r = enc_ResChunk_header (xml_header r)"

definition dec_ResXMLTree_header :: "byte list \<Rightarrow> nat \<Rightarrow> ResXMLTree_header option" where
  "dec_ResXMLTree_header bs off = do {
     v0 \<leftarrow> dec_ResChunk_header bs off;
     Some \<lparr>xml_header = v0\<rparr> }"

lemma ResXMLTree_header_codec [codec_simps]:
  "length (enc_ResXMLTree_header r) = 8" "length xs \<le> off \<Longrightarrow> dec_ResXMLTree_header (xs @ ys) off = dec_ResXMLTree_header ys (off - length xs)"
  "dec_ResXMLTree_header (enc_ResXMLTree_header r @ ys) 0 = Some r"
proof -
  show "length (enc_ResXMLTree_header r) = 8" by (simp add: enc_ResXMLTree_header_def codec_simps)
  show "length xs \<le> off \<Longrightarrow> dec_ResXMLTree_header (xs @ ys) off = dec_ResXMLTree_header ys (off - length xs)"
    by (auto simp: dec_ResXMLTree_header_def field_skip add.assoc simp del: add_2_eq_Suc' dest!: le_Suc_ex)
  show "dec_ResXMLTree_header (enc_ResXMLTree_header r @ ys) 0 = Some r" by (simp add: enc_ResXMLTree_header_def dec_ResXMLTree_header_def codec_simps)
qed

interpretation c_ResXMLTree_header: record_codec enc_ResXMLTree_header dec_ResXMLTree_header 8
  by unfold_locales (simp_all add: codec_simps)

lemma ResXMLTree_header_skip [field_skip]: "dec_ResXMLTree_header (xs @ ys) (length xs + k) = dec_ResXMLTree_header ys k"
  by (simp add: codec_simps)

record ResXMLTree_node =
  node_header :: ResChunk_header
  lineNumber :: u32
  comment :: ResStringPool_ref

definition sizeof_ResXMLTree_node :: nat where "sizeof_ResXMLTree_node = 16"

definition enc_ResXMLTree_node :: "ResXMLTree_node \<Rightarrow> byte list" where
  "enc_ResXMLTree_node r = enc_ResChunk_header (node_header r) @ enc32 (lineNumber r) @ enc32 (comment r)"

definition dec_ResXMLTree_node :: "byte list \<Rightarrow> nat \<Rightarrow> ResXMLTree_node option" where
  "dec_ResXMLTree_node bs off = do {
     v0 \<leftarrow> dec_ResChunk_header bs off; v1 \<leftarrow> rd32 bs (off + 8);
     v2 \<leftarrow> rd32 bs (off + 12);
     Some \<lparr>node_header = v0, lineNumber = v1, comment = v2\<rparr> }"

lemma ResXMLTree_node_codec [codec_simps]:
  "length (enc_ResXMLTree_node r) = 16" "length xs \<le> off \<Longrightarrow> dec_ResXMLTree_node (xs @ ys) off = dec_ResXMLTree_node ys (off - length xs)"
  "dec_ResXMLTree_node (enc_ResXMLTree_node r @ ys) 0 = Some r"
proof -
  show "length (enc_ResXMLTree_node r) = 16" by (simp add: enc_ResXMLTree_node_def codec_simps)
  show "length xs \<le> off \<Longrightarrow> dec_ResXMLTree_node (xs @ ys) off = dec_ResXMLTree_node ys (off - length xs)"
    by (auto simp: dec_ResXMLTree_node_def field_skip add.assoc simp del: add_2_eq_Suc' dest!: le_Suc_ex)
  show "dec_ResXMLTree_node (enc_ResXMLTree_node r @ ys) 0 = Some r" by (simp add: enc_ResXMLTree_node_def dec_ResXMLTree_node_def codec_simps)
qed

interpretation c_ResXMLTree_node: record_codec enc_ResXMLTree_node dec_ResXMLTree_node 16
  by unfold_locales (simp_all add: codec_simps)

lemma ResXMLTree_node_skip [field_skip]: "dec_ResXMLTree_node (xs @ ys) (length xs + k) = dec_ResXMLTree_node ys k"
  by (simp add: codec_simps)

record ResXMLTree_cdataExt =
  cdata :: ResStringPool_ref
  typedData :: Res_value

definition sizeof_ResXMLTree_cdataExt :: nat where "sizeof_ResXMLTree_cdataExt = 12"

definition enc_ResXMLTree_cdataExt :: "ResXMLTree_cdataExt \<Rightarrow> byte list" where
  "enc_ResXMLTree_cdataExt r = enc32 (cdata r) @ enc_Res_value (typedData r)"

definition dec_ResXMLTree_cdataExt :: "byte list \<Rightarrow> nat \<Rightarrow> ResXMLTree_cdataExt option" where
  "dec_ResXMLTree_cdataExt bs off = do {
     v0 \<leftarrow> rd32 bs off; v1 \<leftarrow> dec_Res_value bs (off + 4);
     Some \<lparr>cdata = v0, typedData = v1\<rparr> }"

lemma ResXMLTree_cdataExt_codec [codec_simps]:
  "length (enc_ResXMLTree_cdataExt r) = 12" "length xs \<le> off \<Longrightarrow> dec_ResXMLTree_cdataExt (xs @ ys) off = dec_ResXMLTree_cdataExt ys (off - length xs)"
  "dec_ResXMLTree_cdataExt (enc_ResXMLTree_cdataExt r @ ys) 0 = Some r"
proof -
  show "length (enc_ResXMLTree_cdataExt r) = 12" by (simp add: enc_ResXMLTree_cdataExt_def codec_simps)
  show "length xs \<le> off \<Longrightarrow> dec_ResXMLTree_cdataExt (xs @ ys) off = dec_ResXMLTree_cdataExt ys (off - length xs)"
    by (auto simp: dec_ResXMLTree_cdataExt_def field_skip add.assoc simp del: add_2_eq_Suc' dest!: le_Suc_ex)
  show "dec_ResXMLTree_cdataExt (enc_ResXMLTree_cdataExt r @ ys) 0 = Some r" by (simp add: enc_ResXMLTree_cdataExt_def dec_ResXMLTree_cdataExt_def codec_simps)
qed

interpretation c_ResXMLTree_cdataExt: record_codec enc_ResXMLTree_cdataExt dec_ResXMLTree_cdataExt 12
  by unfold_locales (simp_all add: codec_simps)

lemma ResXMLTree_cdataExt_skip [field_skip]: "dec_ResXMLTree_cdataExt (xs @ ys) (length xs + k) = dec_ResXMLTree_cdataExt ys k"
  by (simp add: codec_simps)

record ResXMLTree_namespaceExt =
  ns_prefix :: ResStringPool_ref
  ns_uri :: ResStringPool_ref

definition sizeof_ResXMLTree_namespaceExt :: nat where "sizeof_ResXMLTree_namespaceExt = 8"

definition enc_ResXMLTree_namespaceExt :: "ResXMLTree_namespaceExt \<Rightarrow> byte list" where
  "enc_ResXMLTree_namespaceExt r = enc32 (ns_prefix r) @ enc32 (ns_uri r)"

definition dec_ResXMLTree_namespaceExt :: "byte list \<Rightarrow> nat \<Rightarrow> ResXMLTree_namespaceExt option" where
  "dec_ResXMLTree_namespaceExt bs off = do {
     v0 \<leftarrow> rd32 bs off; v1 \<leftarrow> rd32 bs (off + 4);
     Some \<lparr>ns_prefix = v0, ns_uri = v1\<rparr> }"

lemma ResXMLTree_namespaceExt_codec [codec_simps]:
  "length (enc_ResXMLTree_namespaceExt r) = 8" "length xs \<le> off \<Longrightarrow> dec_ResXMLTree_namespaceExt (xs @ ys) off = dec_ResXMLTree_namespaceExt ys (off - length xs)"
  "dec_ResXMLTree_namespaceExt (enc_ResXMLTree_namespaceExt r @ ys) 0 = Some r"
proof -
  show "length (enc_ResXMLTree_namespaceExt r) = 8" by (simp add: enc_ResXMLTree_namespaceExt_def codec_simps)
  show "length xs \<le> off \<Longrightarrow> dec_ResXMLTree_namespaceExt (xs @ ys) off = dec_ResXMLTree_namespaceExt ys (off - length xs)"
    by (auto simp: dec_ResXMLTree_namespaceExt_def field_skip add.assoc simp del: add_2_eq_Suc' dest!: le_Suc_ex)
  show "dec_ResXMLTree_namespaceExt (enc_ResXMLTree_namespaceExt r @ ys) 0 = Some r" by (simp add: enc_ResXMLTree_namespaceExt_def dec_ResXMLTree_namespaceExt_def codec_simps)
qed

interpretation c_ResXMLTree_namespaceExt: record_codec enc_ResXMLTree_namespaceExt dec_ResXMLTree_namespaceExt 8
  by unfold_locales (simp_all add: codec_simps)

lemma ResXMLTree_namespaceExt_skip [field_skip]: "dec_ResXMLTree_namespaceExt (xs @ ys) (length xs + k) = dec_ResXMLTree_namespaceExt ys k"
  by (simp add: codec_simps)

record ResXMLTree_endElementExt =
  end_ns :: ResStringPool_ref
  end_name :: ResStringPool_ref

definition sizeof_ResXMLTree_endElementExt :: nat where "sizeof_ResXMLTree_endElementExt = 8"

definition enc_ResXMLTree_endElementExt :: "ResXMLTree_endElementExt \<Rightarrow> byte list" where
  "enc_ResXMLTree_endElementExt r = enc32 (end_ns r) @ enc32 (end_name r)"

definition dec_ResXMLTree_endElementExt :: "byte list \<Rightarrow> nat \<Rightarrow> ResXMLTree_endElementExt option" where
  "dec_ResXMLTree_endElementExt bs off = do {
     v0 \<leftarrow> rd32 bs off; v1 \<leftarrow> rd32 bs (off + 4);
     Some \<lparr>end_ns = v0, end_name = v1\<rparr> }"

lemma ResXMLTree_endElementExt_codec [codec_simps]:
  "length (enc_ResXMLTree_endElementExt r) = 8" "length xs \<le> off \<Longrightarrow> dec_ResXMLTree_endElementExt (xs @ ys) off = dec_ResXMLTree_endElementExt ys (off - length xs)"
  "dec_ResXMLTree_endElementExt (enc_ResXMLTree_endElementExt r @ ys) 0 = Some r"
proof -
  show "length (enc_ResXMLTree_endElementExt r) = 8" by (simp add: enc_ResXMLTree_endElementExt_def codec_simps)
  show "length xs \<le> off \<Longrightarrow> dec_ResXMLTree_endElementExt (xs @ ys) off = dec_ResXMLTree_endElementExt ys (off - length xs)"
    by (auto simp: dec_ResXMLTree_endElementExt_def field_skip add.assoc simp del: add_2_eq_Suc' dest!: le_Suc_ex)
  show "dec_ResXMLTree_endElementExt (enc_ResXMLTree_endElementExt r @ ys) 0 = Some r" by (simp add: enc_ResXMLTree_endElementExt_def dec_ResXMLTree_endElementExt_def codec_simps)
qed

interpretation c_ResXMLTree_endElementExt: record_codec enc_ResXMLTree_endElementExt dec_ResXMLTree_endElementExt 8
  by unfold_locales (simp_all add: codec_simps)

lemma ResXMLTree_endElementExt_skip [field_skip]: "dec_ResXMLTree_endElementExt (xs @ ys) (length xs + k) = dec_ResXMLTree_endElementExt ys k"
  by (simp add: codec_simps)

record ResXMLTree_attrExt =
  ext_ns :: ResStringPool_ref
  ext_name :: ResStringPool_ref
  attributeStart :: u16
  attributeSize :: u16
  attributeCount :: u16
  idIndex :: u16
  classIndex :: u16
  styleIndex :: u16

definition sizeof_ResXMLTree_attrExt :: nat where "sizeof_ResXMLTree_attrExt = 20"

definition enc_ResXMLTree_attrExt :: "ResXMLTree_attrExt \<Rightarrow> byte list" where
  "enc_ResXMLTree_attrExt r = enc32 (ext_ns r) @ enc32 (ext_name r) @ enc16 (attributeStart r) @ enc16 (attributeSize r) @
     enc16 (attributeCount r) @ enc16 (idIndex r) @ enc16 (classIndex r) @ enc16 (styleIndex r)"

definition dec_ResXMLTree_attrExt :: "byte list \<Rightarrow> nat \<Rightarrow> ResXMLTree_attrExt option" where
  "dec_ResXMLTree_attrExt bs off = do {
     v0 \<leftarrow> rd32 bs off; v1 \<leftarrow> rd32 bs (off + 4); v2 \<leftarrow> rd16 bs (off + 8);
     v3 \<leftarrow> rd16 bs (off + 10); v4 \<leftarrow> rd16 bs (off + 12); v5 \<leftarrow> rd16 bs (off + 14);
     v6 \<leftarrow> rd16 bs (off + 16); v7 \<leftarrow> rd16 bs (off + 18);
     Some \<lparr>ext_ns = v0, ext_name = v1, attributeStart = v2, attributeSize = v3, attributeCount = v4, idIndex = v5,
           classIndex = v6, styleIndex = v7\<rparr> }"

lemma ResXMLTree_attrExt_codec [codec_simps]:
  "length (enc_ResXMLTree_attrExt r) = 20" "length xs \<le> off \<Longrightarrow> dec_ResXMLTree_attrExt (xs @ ys) off = dec_ResXMLTree_attrExt ys (off - length xs)"
  "dec_ResXMLTree_attrExt (enc_ResXMLTree_attrExt r @ ys) 0 = Some r"
proof -
  show "length (enc_ResXMLTree_attrExt r) = 20" by (simp add: enc_ResXMLTree_attrExt_def codec_simps)
  show "length xs \<le> off \<Longrightarrow> dec_ResXMLTree_attrExt (xs @ ys) off = dec_ResXMLTree_attrExt ys (off - length xs)"
    by (auto simp: dec_ResXMLTree_attrExt_def field_skip add.assoc simp del: add_2_eq_Suc' dest!: le_Suc_ex)
  show "dec_ResXMLTree_attrExt (enc_ResXMLTree_attrExt r @ ys) 0 = Some r" by (simp add: enc_ResXMLTree_attrExt_def dec_ResXMLTree_attrExt_def codec_simps)
qed

interpretation c_ResXMLTree_attrExt: record_codec enc_ResXMLTree_attrExt dec_ResXMLTree_attrExt 20
  by unfold_locales (simp_all add: codec_simps)

lemma ResXMLTree_attrExt_skip [field_skip]: "dec_ResXMLTree_attrExt (xs @ ys) (length xs + k) = dec_ResXMLTree_attrExt ys k"
  by (simp add: codec_simps)

record ResXMLTree_attribute =
  attr_ns :: ResStringPool_ref
  attr_name :: ResStringPool_ref
  rawValue :: ResStringPool_ref
  typedValue :: Res_value

definition sizeof_ResXMLTree_attribute :: nat where "sizeof_ResXMLTree_attribute = 20"

definition enc_ResXMLTree_attribute :: "ResXMLTree_attribute \<Rightarrow> byte list" where
  "enc_ResXMLTree_attribute r = enc32 (attr_ns r) @ enc32 (attr_name r) @ enc32 (rawValue r) @ enc_Res_value (typedValue r)"

definition dec_ResXMLTree_attribute :: "byte list \<Rightarrow> nat \<Rightarrow> ResXMLTree_attribute option" where
  "dec_ResXMLTree_attribute bs off = do {
     v0 \<leftarrow> rd32 bs off; v1 \<leftarrow> rd32 bs (off + 4); v2 \<leftarrow> rd32 bs (off + 8);
     v3 \<leftarrow> dec_Res_value bs (off + 12);
     Some \<lparr>attr_ns = v0, attr_name = v1, rawValue = v2, typedValue = v3\<rparr> }"

lemma ResXMLTree_attribute_codec [codec_simps]:
  "length (enc_ResXMLTree_attribute r) = 20" "length xs \<le> off \<Longrightarrow> dec_ResXMLTree_attribute (xs @ ys) off = dec_ResXMLTree_attribute ys (off - length xs)"
  "dec_ResXMLTree_attribute (enc_ResXMLTree_attribute r @ ys) 0 = Some r"
proof -
  show "length (enc_ResXMLTree_attribute r) = 20" by (simp add: enc_ResXMLTree_attribute_def codec_simps)
  show "length xs \<le> off \<Longrightarrow> dec_ResXMLTree_attribute (xs @ ys) off = dec_ResXMLTree_attribute ys (off - length xs)"
    by (auto simp: dec_ResXMLTree_attribute_def field_skip add.assoc simp del: add_2_eq_Suc' dest!: le_Suc_ex)
  show "dec_ResXMLTree_attribute (enc_ResXMLTree_attribute r @ ys) 0 = Some r" by (simp add: enc_ResXMLTree_attribute_def dec_ResXMLTree_attribute_def codec_simps)
qed

interpretation c_ResXMLTree_attribute: record_codec enc_ResXMLTree_attribute dec_ResXMLTree_attribute 20
  by unfold_locales (simp_all add: codec_simps)

lemma ResXMLTree_attribute_skip [field_skip]: "dec_ResXMLTree_attribute (xs @ ys) (length xs + k) = dec_ResXMLTree_attribute ys k"
  by (simp add: codec_simps)

record ResTable_header =
  table_header :: ResChunk_header
  packageCount :: u32

definition sizeof_ResTable_header :: nat where "sizeof_ResTable_header = 12"

definition enc_ResTable_header :: "ResTable_header \<Rightarrow> byte list" where
  "enc_ResTable_header r = enc_ResChunk_header (table_header r) @ enc32 (packageCount r)"

definition dec_ResTable_header :: "byte list \<Rightarrow> nat \<Rightarrow> ResTable_header option" where
  "dec_ResTable_header bs off = do {
     v0 \<leftarrow> dec_ResChunk_header bs off; v1 \<leftarrow> rd32 bs (off + 8);
     Some \<lparr>table_header = v0, packageCount = v1\<rparr> }"

lemma ResTable_header_codec [codec_simps]:
  "length (enc_ResTable_header r) = 12" "length xs \<le> off \<Longrightarrow> dec_ResTable_header (xs @ ys) off = dec_ResTable_header ys (off - length xs)"
  "dec_ResTable_header (enc_ResTable_header r @ ys) 0 = Some r"
proof -
  show "length (enc_ResTable_header r) = 12" by (simp add: enc_ResTable_header_def codec_simps)
  show "length xs \<le> off \<Longrightarrow> dec_ResTable_header (xs @ ys) off = dec_ResTable_header ys (off - length xs)"
    by (auto simp: dec_ResTable_header_def field_skip add.assoc simp del: add_2_eq_Suc' dest!: le_Suc_ex)
  show "dec_ResTable_header (enc_ResTable_header r @ ys) 0 = Some r" by (simp add: enc_ResTable_header_def dec_ResTable_header_def codec_simps)
qed

interpretation c_ResTable_header: record_codec enc_ResTable_header dec_ResTable_header 12
  by unfold_locales (simp_all add: codec_simps)

lemma ResTable_header_skip [field_skip]: "dec_ResTable_header (xs @ ys) (length xs + k) = dec_ResTable_header ys k"
  by (simp add: codec_simps)

record ResTable_typeSpec =
  spec_header :: ResChunk_header
  spec_id :: u8
  spec_res0 :: u8
  typesCount :: u16
  spec_entryCount :: u32

definition sizeof_ResTable_typeSpec :: nat where "sizeof_ResTable_typeSpec = 16"

definition enc_ResTable_typeSpec :: "ResTable_typeSpec \<Rightarrow> byte list" where
  "enc_ResTable_typeSpec r = enc_ResChunk_header (spec_header r) @ enc8 (spec_id r) @ enc8 (spec_res0 r) @ enc16 (typesCount r) @
     enc32 (spec_entryCount r)"

definition dec_ResTable_typeSpec :: "byte list \<Rightarrow> nat \<Rightarrow> ResTable_typeSpec option" where
  "dec_ResTable_typeSpec bs off = do {
     v0 \<leftarrow> dec_ResChunk_header bs off; v1 \<leftarrow> rd8 bs (off + 8);
     v2 \<leftarrow> rd8 bs (off + 9); v3 \<leftarrow> rd16 bs (off + 10); v4 \<leftarrow> rd32 bs (off + 12);
     Some \<lparr>spec_header = v0, spec_id = v1, spec_res0 = v2, typesCount = v3, spec_entryCount = v4\<rparr> }"

lemma ResTable_typeSpec_codec [codec_simps]:
  "length (enc_ResTable_typeSpec r) = 16" "length xs \<le> off \<Longrightarrow> dec_ResTable_typeSpec (xs @ ys) off = dec_ResTable_typeSpec ys (off - length xs)"
  "dec_ResTable_typeSpec (enc_ResTable_typeSpec r @ ys) 0 = Some r"
proof -
  show "length (enc_ResTable_typeSpec r) = 16" by (simp add: enc_ResTable_typeSpec_def codec_simps)
  show "length xs \<le> off \<Longrightarrow> dec_ResTable_typeSpec (xs @ ys) off = dec_ResTable_typeSpec ys (off - length xs)"
    by (auto simp: dec_ResTable_typeSpec_def field_skip add.assoc simp del: add_2_eq_Suc' dest!: le_Suc_ex)
  show "dec_ResTable_typeSpec (enc_ResTable_typeSpec r @ ys) 0 = Some r" by (simp add: enc_ResTable_typeSpec_def dec_ResTable_typeSpec_def codec_simps)
qed

interpretation c_ResTable_typeSpec: record_codec enc_ResTable_typeSpec dec_ResTable_typeSpec 16
  by unfold_locales (simp_all add: codec_simps)

lemma ResTable_typeSpec_skip [field_skip]: "dec_ResTable_typeSpec (xs @ ys) (length xs + k) = dec_ResTable_typeSpec ys k"
  by (simp add: codec_simps)

record ResTable_lib_header =
  lib_header :: ResChunk_header
  lib_count :: u32

definition sizeof_ResTable_lib_header :: nat where "sizeof_ResTable_lib_header = 12"

definition enc_ResTable_lib_header :: "ResTable_lib_header \<Rightarrow> byte list" where
  "enc_ResTable_lib_header r = enc_ResChunk_header (lib_header r) @ enc32 (lib_count r)"

definition dec_ResTable_lib_header :: "byte list \<Rightarrow> nat \<Rightarrow> ResTable_lib_header option" where
  "dec_ResTable_lib_header bs off = do {
     v0 \<leftarrow> dec_ResChunk_header bs off; v1 \<leftarrow> rd32 bs (off + 8);
     Some \<lparr>lib_header = v0, lib_count = v1\<rparr> }"

lemma ResTable_lib_header_codec [codec_simps]:
  "length (enc_ResTable_lib_header r) = 12" "length xs \<le> off \<Longrightarrow> dec_ResTable_lib_header (xs @ ys) off = dec_ResTable_lib_header ys (off - length xs)"
  "dec_ResTable_lib_header (enc_ResTable_lib_header r @ ys) 0 = Some r"
proof -
  show "length (enc_ResTable_lib_header r) = 12" by (simp add: enc_ResTable_lib_header_def codec_simps)
  show "length xs \<le> off \<Longrightarrow> dec_ResTable_lib_header (xs @ ys) off = dec_ResTable_lib_header ys (off - length xs)"
    by (auto simp: dec_ResTable_lib_header_def field_skip add.assoc simp del: add_2_eq_Suc' dest!: le_Suc_ex)
  show "dec_ResTable_lib_header (enc_ResTable_lib_header r @ ys) 0 = Some r" by (simp add: enc_ResTable_lib_header_def dec_ResTable_lib_header_def codec_simps)
qed

interpretation c_ResTable_lib_header: record_codec enc_ResTable_lib_header dec_ResTable_lib_header 12
  by unfold_locales (simp_all add: codec_simps)

lemma ResTable_lib_header_skip [field_skip]: "dec_ResTable_lib_header (xs @ ys) (length xs + k) = dec_ResTable_lib_header ys k"
  by (simp add: codec_simps)

record ResTable_staged_alias_header =
  alias_header :: ResChunk_header
  alias_count :: u32

definition sizeof_ResTable_staged_alias_header :: nat where "sizeof_ResTable_staged_alias_header = 12"

definition enc_ResTable_staged_alias_header :: "ResTable_staged_alias_header \<Rightarrow> byte list" where
  "enc_ResTable_staged_alias_header r = enc_ResChunk_header (alias_header r) @ enc32 (alias_count r)"

definition dec_ResTable_staged_alias_header :: "byte list \<Rightarrow> nat \<Rightarrow> ResTable_staged_alias_header option" where
  "dec_ResTable_staged_alias_header bs off = do {
     v0 \<leftarrow> dec_ResChunk_header bs off; v1 \<leftarrow> rd32 bs (off + 8);
     Some \<lparr>alias_header = v0, alias_count = v1\<rparr> }"

lemma ResTable_staged_alias_header_codec [codec_simps]:
  "length (enc_ResTable_staged_alias_header r) = 12" "length xs \<le> off \<Longrightarrow> dec_ResTable_staged_alias_header (xs @ ys) off = dec_ResTable_staged_alias_header ys (off - length xs)"
  "dec_ResTable_staged_alias_header (enc_ResTable_staged_alias_header r @ ys) 0 = Some r"
proof -
  show "length (enc_ResTable_staged_alias_header r) = 12" by (simp add: enc_ResTable_staged_alias_header_def codec_simps)
  show "length xs \<le> off \<Longrightarrow> dec_ResTable_staged_alias_header (xs @ ys) off = dec_ResTable_staged_alias_header ys (off - length xs)"
    by (auto simp: dec_ResTable_staged_alias_header_def field_skip add.assoc simp del: add_2_eq_Suc' dest!: le_Suc_ex)
  show "dec_ResTable_staged_alias_header (enc_ResTable_staged_alias_header r @ ys) 0 = Some r" by (simp add: enc_ResTable_staged_alias_header_def dec_ResTable_staged_alias_header_def codec_simps)
qed

interpretation c_ResTable_staged_alias_header: record_codec enc_ResTable_staged_alias_header dec_ResTable_staged_alias_header 12
  by unfold_locales (simp_all add: codec_simps)

lemma ResTable_staged_alias_header_skip [field_skip]: "dec_ResTable_staged_alias_header (xs @ ys) (length xs + k) = dec_ResTable_staged_alias_header ys k"
  by (simp add: codec_simps)

record ResTable_staged_alias_entry =
  stagedResId :: u32
  finalizedResId :: u32

definition sizeof_ResTable_staged_alias_entry :: nat where "sizeof_ResTable_staged_alias_entry = 8"

definition enc_ResTable_staged_alias_entry :: "ResTable_staged_alias_entry \<Rightarrow> byte list" where
  "enc_ResTable_staged_alias_entry r = enc32 (stagedResId r) @ enc32 (finalizedResId r)"

definition dec_ResTable_staged_alias_entry :: "byte list \<Rightarrow> nat \<Rightarrow> ResTable_staged_alias_entry option" where
  "dec_ResTable_staged_alias_entry bs off = do {
     v0 \<leftarrow> rd32 bs off; v1 \<leftarrow> rd32 bs (off + 4);
     Some \<lparr>stagedResId = v0, finalizedResId = v1\<rparr> }"

lemma ResTable_staged_alias_entry_codec [codec_simps]:
  "length (enc_ResTable_staged_alias_entry r) = 8" "length xs \<le> off \<Longrightarrow> dec_ResTable_staged_alias_entry (xs @ ys) off = dec_ResTable_staged_alias_entry ys (off - length xs)"
  "dec_ResTable_staged_alias_entry (enc_ResTable_staged_alias_entry r @ ys) 0 = Some r"
proof -
  show "length (enc_ResTable_staged_alias_entry r) = 8" by (simp add: enc_ResTable_staged_alias_entry_def codec_simps)
  show "length xs \<le> off \<Longrightarrow> dec_ResTable_staged_alias_entry (xs @ ys) off = dec_ResTable_staged_alias_entry ys (off - length xs)"
    by (auto simp: dec_ResTable_staged_alias_entry_def field_skip add.assoc simp del: add_2_eq_Suc' dest!: le_Suc_ex)
  show "dec_ResTable_staged_alias_entry (enc_ResTable_staged_alias_entry r @ ys) 0 = Some r" by (simp add: enc_ResTable_staged_alias_entry_def dec_ResTable_staged_alias_entry_def codec_simps)
qed

interpretation c_ResTable_staged_alias_entry: record_codec enc_ResTable_staged_alias_entry dec_ResTable_staged_alias_entry 8
  by unfold_locales (simp_all add: codec_simps)

lemma ResTable_staged_alias_entry_skip [field_skip]: "dec_ResTable_staged_alias_entry (xs @ ys) (length xs + k) = dec_ResTable_staged_alias_entry ys k"
  by (simp add: codec_simps)

record ResTable_overlayable_policy_header =
  policy_header :: ResChunk_header
  policy_flags :: u32
  policy_entry_count :: u32

definition sizeof_ResTable_overlayable_policy_header :: nat where "sizeof_ResTable_overlayable_policy_header = 16"

definition enc_ResTable_overlayable_policy_header :: "ResTable_overlayable_policy_header \<Rightarrow> byte list" where
  "enc_ResTable_overlayable_policy_header r = enc_ResChunk_header (policy_header r) @ enc32 (policy_flags r) @ enc32 (policy_entry_count r)"

definition dec_ResTable_overlayable_policy_header :: "byte list \<Rightarrow> nat \<Rightarrow> ResTable_overlayable_policy_header option" where
  "dec_ResTable_overlayable_policy_header bs off = do {
     v0 \<leftarrow> dec_ResChunk_header bs off; v1 \<leftarrow> rd32 bs (off + 8);
     v2 \<leftarrow> rd32 bs (off + 12);
     Some \<lparr>policy_header = v0, policy_flags = v1, policy_entry_count = v2\<rparr> }"

lemma ResTable_overlayable_policy_header_codec [codec_simps]:
  "length (enc_ResTable_overlayable_policy_header r) = 16" "length xs \<le> off \<Longrightarrow> dec_ResTable_overlayable_policy_header (xs @ ys) off = dec_ResTable_overlayable_policy_header ys (off - length xs)"
  "dec_ResTable_overlayable_policy_header (enc_ResTable_overlayable_policy_header r @ ys) 0 = Some r"
proof -
  show "length (enc_ResTable_overlayable_policy_header r) = 16" by (simp add: enc_ResTable_overlayable_policy_header_def codec_simps)
  show "length xs \<le> off \<Longrightarrow> dec_ResTable_overlayable_policy_header (xs @ ys) off = dec_ResTable_overlayable_policy_header ys (off - length xs)"
    by (auto simp: dec_ResTable_overlayable_policy_header_def field_skip add.assoc simp del: add_2_eq_Suc' dest!: le_Suc_ex)
  show "dec_ResTable_overlayable_policy_header (enc_ResTable_overlayable_policy_header r @ ys) 0 = Some r" by (simp add: enc_ResTable_overlayable_policy_header_def dec_ResTable_overlayable_policy_header_def codec_simps)
qed

interpretation c_ResTable_overlayable_policy_header: record_codec enc_ResTable_overlayable_policy_header dec_ResTable_overlayable_policy_header 16
  by unfold_locales (simp_all add: codec_simps)

lemma ResTable_overlayable_policy_header_skip [field_skip]: "dec_ResTable_overlayable_policy_header (xs @ ys) (length xs + k) = dec_ResTable_overlayable_policy_header ys k"
  by (simp add: codec_simps)

record ResTable_sparseTypeEntry =
  sparse_idx :: u16
  sparse_offset :: u16

definition sizeof_ResTable_sparseTypeEntry :: nat where "sizeof_ResTable_sparseTypeEntry = 4"

definition enc_ResTable_sparseTypeEntry :: "ResTable_sparseTypeEntry \<Rightarrow> byte list" where
  "enc_ResTable_sparseTypeEntry r = enc16 (sparse_idx r) @ enc16 (sparse_offset r)"

definition dec_ResTable_sparseTypeEntry :: "byte list \<Rightarrow> nat \<Rightarrow> ResTable_sparseTypeEntry option" where
  "dec_ResTable_sparseTypeEntry bs off = do {
     v0 \<leftarrow> rd16 bs off; v1 \<leftarrow> rd16 bs (off + 2);
     Some \<lparr>sparse_idx = v0, sparse_offset = v1\<rparr> }"

lemma ResTable_sparseTypeEntry_codec [codec_simps]:
  "length (enc_ResTable_sparseTypeEntry r) = 4" "length xs \<le> off \<Longrightarrow> dec_ResTable_sparseTypeEntry (xs @ ys) off = dec_ResTable_sparseTypeEntry ys (off - length xs)"
  "dec_ResTable_sparseTypeEntry (enc_ResTable_sparseTypeEntry r @ ys) 0 = Some r"
proof -
  show "length (enc_ResTable_sparseTypeEntry r) = 4" by (simp add: enc_ResTable_sparseTypeEntry_def codec_simps)
  show "length xs \<le> off \<Longrightarrow> dec_ResTable_sparseTypeEntry (xs @ ys) off = dec_ResTable_sparseTypeEntry ys (off - length xs)"
    by (auto simp: dec_ResTable_sparseTypeEntry_def field_skip add.assoc simp del: add_2_eq_Suc' dest!: le_Suc_ex)
  show "dec_ResTable_sparseTypeEntry (enc_ResTable_sparseTypeEntry r @ ys) 0 = Some r" by (simp add: enc_ResTable_sparseTypeEntry_def dec_ResTable_sparseTypeEntry_def codec_simps)
qed

interpretation c_ResTable_sparseTypeEntry: record_codec enc_ResTable_sparseTypeEntry dec_ResTable_sparseTypeEntry 4
  by unfold_locales (simp_all add: codec_simps)

lemma ResTable_sparseTypeEntry_skip [field_skip]: "dec_ResTable_sparseTypeEntry (xs @ ys) (length xs + k) = dec_ResTable_sparseTypeEntry ys k"
  by (simp add: codec_simps)

record ResTable_entry =
  full_size :: u16
  full_flags :: u16
  full_key :: ResStringPool_ref

definition sizeof_ResTable_entry :: nat where "sizeof_ResTable_entry = 8"

definition enc_ResTable_entry :: "ResTable_entry \<Rightarrow> byte list" where
  "enc_ResTable_entry r = enc16 (full_size r) @ enc16 (full_flags r) @ enc32 (full_key r)"

definition dec_ResTable_entry :: "byte list \<Rightarrow> nat \<Rightarrow> ResTable_entry option" where
  "dec_ResTable_entry bs off = do {
     v0 \<leftarrow> rd16 bs off; v1 \<leftarrow> rd16 bs (off + 2); v2 \<leftarrow> rd32 bs (off + 4);
     Some \<lparr>full_size = v0, full_flags = v1, full_key = v2\<rparr> }"

lemma ResTable_entry_codec [codec_simps]:
  "length (enc_ResTable_entry r) = 8" "length xs \<le> off \<Longrightarrow> dec_ResTable_entry (xs @ ys) off = dec_ResTable_entry ys (off - length xs)"
  "dec_ResTable_entry (enc_ResTable_entry r @ ys) 0 = Some r"
proof -
  show "length (enc_ResTable_entry r) = 8" by (simp add: enc_ResTable_entry_def codec_simps)
  show "length xs \<le> off \<Longrightarrow> dec_ResTable_entry (xs @ ys) off = dec_ResTable_entry ys (off - length xs)"
    by (auto simp: dec_ResTable_entry_def field_skip add.assoc simp del: add_2_eq_Suc' dest!: le_Suc_ex)
  show "dec_ResTable_entry (enc_ResTable_entry r @ ys) 0 = Some r" by (simp add: enc_ResTable_entry_def dec_ResTable_entry_def codec_simps)
qed

interpretation c_ResTable_entry: record_codec enc_ResTable_entry dec_ResTable_entry 8
  by unfold_locales (simp_all add: codec_simps)

lemma ResTable_entry_skip [field_skip]: "dec_ResTable_entry (xs @ ys) (length xs + k) = dec_ResTable_entry ys k"
  by (simp add: codec_simps)

record ResTable_map_entry =
  map_entry_full :: ResTable_entry
  map_parent :: ResTable_ref
  map_count :: u32

definition sizeof_ResTable_map_entry :: nat where "sizeof_ResTable_map_entry = 16"

definition enc_ResTable_map_entry :: "ResTable_map_entry \<Rightarrow> byte list" where
  "enc_ResTable_map_entry r = enc_ResTable_entry (map_entry_full r) @ enc32 (map_parent r) @ enc32 (map_count r)"

definition dec_ResTable_map_entry :: "byte list \<Rightarrow> nat \<Rightarrow> ResTable_map_entry option" where
  "dec_ResTable_map_entry bs off = do {
     v0 \<leftarrow> dec_ResTable_entry bs off; v1 \<leftarrow> rd32 bs (off + 8);
     v2 \<leftarrow> rd32 bs (off + 12);
     Some \<lparr>map_entry_full = v0, map_parent = v1, map_count = v2\<rparr> }"

lemma ResTable_map_entry_codec [codec_simps]:
  "length (enc_ResTable_map_entry r) = 16" "length xs \<le> off \<Longrightarrow> dec_ResTable_map_entry (xs @ ys) off = dec_ResTable_map_entry ys (off - length xs)"
  "dec_ResTable_map_entry (enc_ResTable_map_entry r @ ys) 0 = Some r"
proof -
  show "length (enc_ResTable_map_entry r) = 16" by (simp add: enc_ResTable_map_entry_def codec_simps)
  show "length xs \<le> off \<Longrightarrow> dec_ResTable_map_entry (xs @ ys) off = dec_ResTable_map_entry ys (off - length xs)"
    by (auto simp: dec_ResTable_map_entry_def field_skip add.assoc simp del: add_2_eq_Suc' dest!: le_Suc_ex)
  show "dec_ResTable_map_entry (enc_ResTable_map_entry r @ ys) 0 = Some r" by (simp add: enc_ResTable_map_entry_def dec_ResTable_map_entry_def codec_simps)
qed

interpretation c_ResTable_map_entry: record_codec enc_ResTable_map_entry dec_ResTable_map_entry 16
  by unfold_locales (simp_all add: codec_simps)

lemma ResTable_map_entry_skip [field_skip]: "dec_ResTable_map_entry (xs @ ys) (length xs + k) = dec_ResTable_map_entry ys k"
  by (simp add: codec_simps)

record ResTable_map =
  map_name :: ResTable_ref
  map_value :: Res_value

definition sizeof_ResTable_map :: nat where "sizeof_ResTable_map = 12"

definition enc_ResTable_map :: "ResTable_map \<Rightarrow> byte list" where
  "enc_ResTable_map r = enc32 (map_name r) @ enc_Res_value (map_value r)"

definition dec_ResTable_map :: "byte list \<Rightarrow> nat \<Rightarrow> ResTable_map option" where
  "dec_ResTable_map bs off = do {
     v0 \<leftarrow> rd32 bs off; v1 \<leftarrow> dec_Res_value bs (off + 4);
     Some \<lparr>map_name = v0, map_value = v1\<rparr> }"

lemma ResTable_map_codec [codec_simps]:
  "length (enc_ResTable_map r) = 12" "length xs \<le> off \<Longrightarrow> dec_ResTable_map (xs @ ys) off = dec_ResTable_map ys (off - length xs)"
  "dec_ResTable_map (enc_ResTable_map r @ ys) 0 = Some r"
proof -
  show "length (enc_ResTable_map r) = 12" by (simp add: enc_ResTable_map_def codec_simps)
  show "length xs \<le> off \<Longrightarrow> dec_ResTable_map (xs @ ys) off = dec_ResTable_map ys (off - length xs)"
    by (auto simp: dec_ResTable_map_def field_skip add.assoc simp del: add_2_eq_Suc' dest!: le_Suc_ex)
  show "dec_ResTable_map (enc_ResTable_map r @ ys) 0 = Some r" by (simp add: enc_ResTable_map_def dec_ResTable_map_def codec_simps)
qed

interpretation c_ResTable_map: record_codec enc_ResTable_map dec_ResTable_map 12
  by unfold_locales (simp_all add: codec_simps)

lemma ResTable_map_skip [field_skip]: "dec_ResTable_map (xs @ ys) (length xs + k) = dec_ResTable_map ys k"
  by (simp add: codec_simps)

section \<open>Structures with arrays\<close>

definition enc16s :: "u16 list \<Rightarrow> byte list" where
  "enc16s vs = concat (map enc16 vs)"

fun rd16s :: "nat \<Rightarrow> byte list \<Rightarrow> nat \<Rightarrow> u16 list option" where
  "rd16s 0 bs off = Some []"
| "rd16s (Suc n) bs off = do { v \<leftarrow> rd16 bs off; vs \<leftarrow> rd16s n bs (off + 2); Some (v # vs) }"

lemma length_enc16s [simp]: "length (enc16s vs) = 2 * length vs"
  by (induction vs) (auto simp: enc16s_def)

lemma rd16s_skip [field_skip]: "rd16s n (xs @ ys) (length xs + k) = rd16s n ys k"
proof (induction n arbitrary: k)
  case (Suc n)
  then show ?case using Suc [of "k + 2"] by (simp add: field_skip add.assoc)
qed simp

lemma rd16s_codec [codec_simps]:
  "length xs \<le> off \<Longrightarrow> rd16s n (xs @ ys) off = rd16s n ys (off - length xs)" "rd16s (length vs) (enc16s vs @ ys) 0 = Some vs"
proof -
  show "length xs \<le> off \<Longrightarrow> rd16s n (xs @ ys) off = rd16s n ys (off - length xs)"
    by (auto simp: field_skip dest!: le_Suc_ex)
  show "rd16s (length vs) (enc16s vs @ ys) 0 = Some vs"
  proof (induction vs)
    case (Cons v vs)
    have "rd16s (length vs) (enc16 v @ enc16s vs @ ys) 2 = Some vs"
      using rd16s_skip [of "length vs" "enc16 v" "enc16s vs @ ys" 0] Cons by simp
    then show ?case by (simp add: enc16s_def codec_simps numeral_2_eq_2)
  qed (simp add: enc16s_def)
qed

lemma slice_codec:
  "length xs \<le> off \<Longrightarrow> slice (xs @ ys) off n = slice ys (off - length xs) n" "length xs = n \<Longrightarrow> slice (xs @ ys) 0 n = Some xs"
  by (auto simp: slice_past)

record ResTable_package =
  package_header :: ResChunk_header
  package_id :: u32
  package_name :: "u16 list"
  typeStrings :: u32
  lastPublicType :: u32
  keyStrings :: u32
  lastPublicKey :: u32
  typeIdOffset :: u32

definition enc_ResTable_package :: "ResTable_package \<Rightarrow> byte list" where
  "enc_ResTable_package r = enc_ResChunk_header (package_header r) @ enc32 (package_id r) @ enc16s (package_name r) @
     enc32 (typeStrings r) @ enc32 (lastPublicType r) @ enc32 (keyStrings r) @ enc32 (lastPublicKey r) @ enc32 (typeIdOffset r)"

definition dec_ResTable_package :: "byte list \<Rightarrow> nat \<Rightarrow> ResTable_package option" where
  "dec_ResTable_package bs off = do {
     v0 \<leftarrow> dec_ResChunk_header bs off; v1 \<leftarrow> rd32 bs (off + 8); v2 \<leftarrow> rd16s 128 bs (off + 12);
     v3 \<leftarrow> rd32 bs (off + 268); v4 \<leftarrow> rd32 bs (off + 272); v5 \<leftarrow> rd32 bs (off + 276); v6 \<leftarrow> rd32 bs (off + 280);
     v7 \<leftarrow> rd32 bs (off + 284);
     Some \<lparr>package_header = v0, package_id = v1, package_name = v2, typeStrings = v3, lastPublicType = v4, keyStrings = v5,
           lastPublicKey = v6, typeIdOffset = v7\<rparr> }"

record ResTable_lib_entry =
  packageId :: u32
  packageName :: "u16 list"

definition enc_ResTable_lib_entry :: "ResTable_lib_entry \<Rightarrow> byte list" where
  "enc_ResTable_lib_entry r = enc32 (packageId r) @ enc16s (packageName r)"

definition dec_ResTable_lib_entry :: "byte list \<Rightarrow> nat \<Rightarrow> ResTable_lib_entry option" where
  "dec_ResTable_lib_entry bs off = do {
     v0 \<leftarrow> rd32 bs off; v1 \<leftarrow> rd16s 128 bs (off + 4); Some \<lparr>packageId = v0, packageName = v1\<rparr> }"

record ResTable_overlayable_header =
  overlayable_header :: ResChunk_header
  overlayable_name :: "u16 list"
  overlayable_actor :: "u16 list"

definition enc_ResTable_overlayable_header :: "ResTable_overlayable_header \<Rightarrow> byte list" where
  "enc_ResTable_overlayable_header r =
     enc_ResChunk_header (overlayable_header r) @ enc16s (overlayable_name r) @ enc16s (overlayable_actor r)"

definition dec_ResTable_overlayable_header :: "byte list \<Rightarrow> nat \<Rightarrow> ResTable_overlayable_header option" where
  "dec_ResTable_overlayable_header bs off = do {
     v0 \<leftarrow> dec_ResChunk_header bs off; v1 \<leftarrow> rd16s 256 bs (off + 8); v2 \<leftarrow> rd16s 256 bs (off + 520);
     Some \<lparr>overlayable_header = v0, overlayable_name = v1, overlayable_actor = v2\<rparr> }"

lemma array_structures:
  "length (package_name p) = 128 \<Longrightarrow> length (enc_ResTable_package p) = 288"
  "length (package_name p) = 128 \<Longrightarrow> dec_ResTable_package (xs @ enc_ResTable_package p @ ys) (length xs) = Some p"
  "length (packageName l) = 128 \<Longrightarrow> length (enc_ResTable_lib_entry l) = 260"
  "length (packageName l) = 128 \<Longrightarrow> dec_ResTable_lib_entry (xs @ enc_ResTable_lib_entry l @ ys) (length xs) = Some l"
  "length (overlayable_name h) = 256 \<Longrightarrow> length (overlayable_actor h) = 256 \<Longrightarrow> length (enc_ResTable_overlayable_header h) = 1032"
  "length (overlayable_name h) = 256 \<Longrightarrow> length (overlayable_actor h) = 256 \<Longrightarrow>
    dec_ResTable_overlayable_header (xs @ enc_ResTable_overlayable_header h @ ys) (length xs) = Some h"
proof -
  have read: "rd16s n (enc16s vs @ zs) 0 = Some vs" if "length vs = n" for n vs zs using that rd16s_codec(2) [of vs zs] by simp
  show "length (package_name p) = 128 \<Longrightarrow> length (enc_ResTable_package p) = 288"
    "length (packageName l) = 128 \<Longrightarrow> length (enc_ResTable_lib_entry l) = 260"
    "length (overlayable_name h) = 256 \<Longrightarrow> length (overlayable_actor h) = 256 \<Longrightarrow> length (enc_ResTable_overlayable_header h) = 1032"
    by (simp_all add: enc_ResTable_package_def enc_ResTable_lib_entry_def enc_ResTable_overlayable_header_def codec_simps)
  show "length (package_name p) = 128 \<Longrightarrow> dec_ResTable_package (xs @ enc_ResTable_package p @ ys) (length xs) = Some p"
    using read [of "package_name p" 128] by (simp add: enc_ResTable_package_def dec_ResTable_package_def codec_simps)
  show "length (packageName l) = 128 \<Longrightarrow> dec_ResTable_lib_entry (xs @ enc_ResTable_lib_entry l @ ys) (length xs) = Some l"
    using read [of "packageName l" 128] by (simp add: enc_ResTable_lib_entry_def dec_ResTable_lib_entry_def codec_simps)
  show "length (overlayable_name h) = 256 \<Longrightarrow> length (overlayable_actor h) = 256 \<Longrightarrow>
    dec_ResTable_overlayable_header (xs @ enc_ResTable_overlayable_header h @ ys) (length xs) = Some h"
    using read [of "overlayable_name h" 256] read [of "overlayable_actor h" 256]
    by (simp add: enc_ResTable_overlayable_header_def dec_ResTable_overlayable_header_def codec_simps)
qed

section \<open>Configurations\<close>

text \<open>
  The members of the structure inside its unions; the unions themselves are the words at their place in
  the image.  Three bytes of padding end it.
\<close>

record ResTable_config =
  config_size :: u32
  mcc :: u16
  mnc :: u16
  language :: "u8 list"
  country :: "u8 list"
  orientation :: u8
  touchscreen :: u8
  density :: u16
  keyboard :: u8
  navigation :: u8
  inputFlags :: u8
  inputFieldPad0 :: u8
  screenWidth :: u16
  screenHeight :: u16
  sdkVersion :: u16
  minorVersion :: u16
  screenLayout :: u8
  uiMode :: u8
  smallestScreenWidthDp :: u16
  screenWidthDp :: u16
  screenHeightDp :: u16
  localeScript :: "u8 list"
  localeVariant :: "u8 list"
  screenLayout2 :: u8
  colorMode :: u8
  screenConfigPad2 :: u16
  localeScriptWasComputed :: bool
  localeNumberingSystem :: "u8 list"

definition config_wf :: "ResTable_config \<Rightarrow> bool" where
  "config_wf c \<longleftrightarrow> length (language c) = 2 \<and> length (country c) = 2 \<and> length (localeScript c) = 4 \<and>
     length (localeVariant c) = 8 \<and> length (localeNumberingSystem c) = 8"

definition enc_ResTable_config :: "ResTable_config \<Rightarrow> byte list" where
  "enc_ResTable_config c = enc32 (config_size c) @ enc16 (mcc c) @ enc16 (mnc c) @ language c @ country c @
     enc8 (orientation c) @ enc8 (touchscreen c) @ enc16 (density c) @
     enc8 (keyboard c) @ enc8 (navigation c) @ enc8 (inputFlags c) @ enc8 (inputFieldPad0 c) @
     enc16 (screenWidth c) @ enc16 (screenHeight c) @ enc16 (sdkVersion c) @ enc16 (minorVersion c) @
     enc8 (screenLayout c) @ enc8 (uiMode c) @ enc16 (smallestScreenWidthDp c) @ enc16 (screenWidthDp c) @ enc16 (screenHeightDp c) @
     localeScript c @ localeVariant c @ enc8 (screenLayout2 c) @ enc8 (colorMode c) @ enc16 (screenConfigPad2 c) @
     enc8 (if localeScriptWasComputed c then 1 else 0) @ localeNumberingSystem c @ [0, 0, 0]"

definition dec_ResTable_config :: "byte list \<Rightarrow> nat \<Rightarrow> ResTable_config option" where
  "dec_ResTable_config bs off = do {
     sz \<leftarrow> rd32 bs off; a \<leftarrow> rd16 bs (off + 4); b \<leftarrow> rd16 bs (off + 6); l \<leftarrow> slice bs (off + 8) 2; c \<leftarrow> slice bs (off + 10) 2;
     orient \<leftarrow> rd8 bs (off + 12); touch \<leftarrow> rd8 bs (off + 13); dens \<leftarrow> rd16 bs (off + 14);
     key \<leftarrow> rd8 bs (off + 16); nav \<leftarrow> rd8 bs (off + 17); flags \<leftarrow> rd8 bs (off + 18); pad \<leftarrow> rd8 bs (off + 19);
     w \<leftarrow> rd16 bs (off + 20); h \<leftarrow> rd16 bs (off + 22); sdk \<leftarrow> rd16 bs (off + 24); minor \<leftarrow> rd16 bs (off + 26);
     lay \<leftarrow> rd8 bs (off + 28); ui \<leftarrow> rd8 bs (off + 29); sw \<leftarrow> rd16 bs (off + 30); wd \<leftarrow> rd16 bs (off + 32); hd \<leftarrow> rd16 bs (off + 34);
     scr \<leftarrow> slice bs (off + 36) 4; var \<leftarrow> slice bs (off + 40) 8; lay2 \<leftarrow> rd8 bs (off + 48); col \<leftarrow> rd8 bs (off + 49);
     pad2 \<leftarrow> rd16 bs (off + 50); comp \<leftarrow> rd8 bs (off + 52); num \<leftarrow> slice bs (off + 53) 8;
     Some \<lparr>config_size = sz, mcc = a, mnc = b, language = l, country = c, orientation = orient, touchscreen = touch, density = dens,
           keyboard = key, navigation = nav, inputFlags = flags, inputFieldPad0 = pad, screenWidth = w, screenHeight = h,
           sdkVersion = sdk, minorVersion = minor, screenLayout = lay, uiMode = ui, smallestScreenWidthDp = sw,
           screenWidthDp = wd, screenHeightDp = hd, localeScript = scr, localeVariant = var, screenLayout2 = lay2, colorMode = col,
           screenConfigPad2 = pad2, localeScriptWasComputed = comp \<noteq> 0, localeNumberingSystem = num\<rparr> }"

lemma config_codec:
  assumes "config_wf c"
  shows "length (enc_ResTable_config c) = 64" "dec_ResTable_config (xs @ enc_ResTable_config c @ ys) (length xs) = Some c"
proof -
  note wf = assms [unfolded config_wf_def]
  show "length (enc_ResTable_config c) = 64" using wf by (simp add: enc_ResTable_config_def)
  show "dec_ResTable_config (xs @ enc_ResTable_config c @ ys) (length xs) = Some c"
    using wf by (simp add: enc_ResTable_config_def dec_ResTable_config_def codec_simps slice_codec)
qed

text \<open>The words of the unions.\<close>

definition config_word :: "nat \<Rightarrow> ResTable_config \<Rightarrow> u32" where
  "config_word off c = the (rd32 (enc_ResTable_config c) off)"

definition imsi :: "ResTable_config \<Rightarrow> u32" where "imsi = config_word 4"
definition locale_word :: "ResTable_config \<Rightarrow> u32" where "locale_word = config_word 8"
definition screenType :: "ResTable_config \<Rightarrow> u32" where "screenType = config_word 12"
definition input_word :: "ResTable_config \<Rightarrow> u32" where "input_word = config_word 16"
definition input_bits :: "ResTable_config \<Rightarrow> u32" where "input_bits c = config_word 16 c AND 0xFFFFFF"
definition grammaticalInflection :: "ResTable_config \<Rightarrow> u8" where "grammaticalInflection c = inputFieldPad0 c"
definition screenSize :: "ResTable_config \<Rightarrow> u32" where "screenSize = config_word 20"
definition version :: "ResTable_config \<Rightarrow> u32" where "version = config_word 24"
definition screenConfig :: "ResTable_config \<Rightarrow> u32" where "screenConfig = config_word 28"
definition screenSizeDp :: "ResTable_config \<Rightarrow> u32" where "screenSizeDp = config_word 32"
definition screenConfig2 :: "ResTable_config \<Rightarrow> u32" where "screenConfig2 = config_word 48"

definition clearLocale :: "ResTable_config \<Rightarrow> ResTable_config" where
  "clearLocale c = c\<lparr>language := [0, 0], country := [0, 0], localeScriptWasComputed := False,
     localeScript := replicate 4 0, localeVariant := replicate 8 0, localeNumberingSystem := replicate 8 0\<rparr>"

definition config_masks :: c_enum where
  "config_masks = [(''MASK_KEYSHIDDEN'', 0x3), (''MASK_NAVHIDDEN'', 0xc), (''SHIFT_NAVHIDDEN'', 2), (''GRAMMATICAL_INFLECTION_GENDER_MASK'', 3),
     (''MASK_SCREENSIZE'', 0x0f), (''MASK_SCREENLONG'', 0x30), (''SHIFT_SCREENLONG'', 4), (''MASK_LAYOUTDIR'', 0xC0), (''SHIFT_LAYOUTDIR'', 6),
     (''MASK_UI_MODE_TYPE'', 0x0f), (''MASK_UI_MODE_NIGHT'', 0x30), (''SHIFT_UI_MODE_NIGHT'', 4), (''MASK_SCREENROUND'', 3),
     (''MASK_WIDE_COLOR_GAMUT'', 3), (''MASK_HDR'', 0xc), (''SHIFT_COLOR_MODE_HDR'', 2)]"

lemma cleared_locale:
  assumes "config_wf c"
  shows "config_wf (clearLocale c)" "locale_word (clearLocale c) = 0"
    "take 8 (enc_ResTable_config (clearLocale c)) = take 8 (enc_ResTable_config c)"
proof -
  show wf: "config_wf (clearLocale c)" using assms by (simp add: config_wf_def clearLocale_def)
  have "enc32 0 = [0, 0, 0, 0]" by code_simp
  then have "enc32 0 @ zs = 0 # 0 # 0 # 0 # zs" for zs by simp
  then have "rd32 (0 # 0 # 0 # 0 # zs) 0 = Some 0" for zs using rd_here(3) [of 0 zs] by simp
  then show "locale_word (clearLocale c) = 0"
    by (simp add: locale_word_def config_word_def enc_ResTable_config_def clearLocale_def codec_simps)
  show "take 8 (enc_ResTable_config (clearLocale c)) = take 8 (enc_ResTable_config c)"
    by (simp add: enc_ResTable_config_def clearLocale_def)
qed

section \<open>Types and entries\<close>

record ResTable_type =
  type_header :: ResChunk_header
  type_id :: u8
  type_flags :: u8
  type_reserved :: u16
  type_entryCount :: u32
  entriesStart :: u32
  config :: ResTable_config

definition NO_ENTRY :: u32 where "NO_ENTRY = 0xFFFFFFFF"

definition enc_ResTable_type :: "ResTable_type \<Rightarrow> byte list" where
  "enc_ResTable_type r = enc_ResChunk_header (type_header r) @ enc8 (type_id r) @ enc8 (type_flags r) @ enc16 (type_reserved r) @
     enc32 (type_entryCount r) @ enc32 (entriesStart r) @ enc_ResTable_config (config r)"

definition dec_ResTable_type :: "byte list \<Rightarrow> nat \<Rightarrow> ResTable_type option" where
  "dec_ResTable_type bs off = do {
     v0 \<leftarrow> dec_ResChunk_header bs off; v1 \<leftarrow> rd8 bs (off + 8); v2 \<leftarrow> rd8 bs (off + 9); v3 \<leftarrow> rd16 bs (off + 10);
     v4 \<leftarrow> rd32 bs (off + 12); v5 \<leftarrow> rd32 bs (off + 16); v6 \<leftarrow> dec_ResTable_config bs (off + 20);
     Some \<lparr>type_header = v0, type_id = v1, type_flags = v2, type_reserved = v3, type_entryCount = v4, entriesStart = v5, config = v6\<rparr> }"

lemma type_codec:
  assumes "config_wf (config r)"
  shows "length (enc_ResTable_type r) = 84" "dec_ResTable_type (xs @ enc_ResTable_type r @ ys) (length xs) = Some r"
proof -
  show "length (enc_ResTable_type r) = 84" by (simp add: enc_ResTable_type_def codec_simps config_codec [OF assms])
  let ?pre = "xs @ enc_ResChunk_header (type_header r) @ enc8 (type_id r) @ enc8 (type_flags r) @ enc16 (type_reserved r) @
    enc32 (type_entryCount r) @ enc32 (entriesStart r)"
  have "dec_ResTable_config (?pre @ enc_ResTable_config (config r) @ ys) (length ?pre) = Some (config r)"
    by (rule config_codec(2) [OF assms])
  then have "dec_ResTable_config (xs @ enc_ResTable_type r @ ys) (length xs + 20) = Some (config r)"
    by (simp add: enc_ResTable_type_def codec_simps)
  then show "dec_ResTable_type (xs @ enc_ResTable_type r @ ys) (length xs) = Some r"
    by (simp add: dec_ResTable_type_def) (simp add: enc_ResTable_type_def codec_simps)
qed

definition offset_from16 :: "u16 \<Rightarrow> u32" where
  "offset_from16 off16 = (if off16 = 0xffff then NO_ENTRY else ucast off16 * 4)"

definition kResTableTypeMinSize :: nat where "kResTableTypeMinSize = 84 - 64 + 4"

text \<open>
  An entry is a union of two structures with the same widths: the compact key is the size of the full form,
  the compact data its key.  The flags lie at the same place in both.
\<close>

definition compact_key :: "ResTable_entry \<Rightarrow> u16" where "compact_key e = full_size e"
definition compact_data :: "ResTable_entry \<Rightarrow> u32" where "compact_data e = full_key e"
definition entry_flags :: "ResTable_entry \<Rightarrow> u16" where "entry_flags e = full_flags e"
definition is_compact :: "ResTable_entry \<Rightarrow> bool" where "is_compact e \<longleftrightarrow> entry_flags e AND 8 \<noteq> 0"
definition is_complex :: "ResTable_entry \<Rightarrow> bool" where "is_complex e \<longleftrightarrow> entry_flags e AND 1 \<noteq> 0"

definition entry_size :: "ResTable_entry \<Rightarrow> nat" where
  "entry_size e = (if is_compact e then sizeof_ResTable_entry else unat (full_size e))"

definition entry_key :: "ResTable_entry \<Rightarrow> u32" where
  "entry_key e = (if is_compact e then ucast (compact_key e) else full_key e)"

text \<open>The value of the entry at \<open>at\<close>; a full entry is followed by it.\<close>

definition entry_value :: "byte list \<Rightarrow> nat \<Rightarrow> ResTable_entry \<Rightarrow> Res_value option" where
  "entry_value bs at e =
     (if is_compact e
      then Some \<lparr>value_size = of_nat sizeof_Res_value, value_res0 = 0, dataType = ucast (drop_bit 8 (full_flags e)), value_data = compact_data e\<rparr>
      else dec_Res_value bs (at + unat (full_size e)))"

definition map_entry :: "byte list \<Rightarrow> nat \<Rightarrow> ResTable_entry \<Rightarrow> ResTable_map_entry option" where
  "map_entry bs at e = (if is_complex e \<and> \<not> is_compact e then dec_ResTable_map_entry bs at else None)"

definition add_policy :: "u32 \<Rightarrow> u32 \<Rightarrow> u32" where "add_policy first second = first OR second"

section \<open>Nine-patches\<close>

text \<open>A packed structure; the arrays lie at offsets from its own address.\<close>

record Res_png_9patch =
  wasDeserialized :: u8
  numXDivs :: u8
  numYDivs :: u8
  numColors :: u8
  xDivsOffset :: u32
  yDivsOffset :: u32
  paddingLeft :: u32
  paddingRight :: u32
  paddingTop :: u32
  paddingBottom :: u32
  colorsOffset :: u32

definition new_9patch :: "Res_png_9patch \<Rightarrow> Res_png_9patch" where
  "new_9patch raw = raw\<lparr>wasDeserialized := 0, xDivsOffset := 0, yDivsOffset := 0, colorsOffset := 0\<rparr>"

definition getXDivs :: "u64 \<Rightarrow> Res_png_9patch \<Rightarrow> u64" where "getXDivs this p = this + ucast (xDivsOffset p)"
definition getYDivs :: "u64 \<Rightarrow> Res_png_9patch \<Rightarrow> u64" where "getYDivs this p = this + ucast (yDivsOffset p)"
definition getColors :: "u64 \<Rightarrow> Res_png_9patch \<Rightarrow> u64" where "getColors this p = this + ucast (colorsOffset p)"

definition patch_colors :: c_enum where "patch_colors = [(''NO_COLOR'', 1), (''TRANSPARENT_COLOR'', 0)]"

section \<open>Identifiers take their parts apart\<close>

lemma resource_id_parts:
  assumes "unat p < Res_MAXPACKAGE" "unat t < Res_MAXTYPE" "unat e < 2 ^ 16"
  shows "Res_GETPACKAGE (Res_MAKEID p t e) = p" "Res_GETTYPE (Res_MAKEID p t e) = t" "Res_GETENTRY (Res_MAKEID p t e) = e"
proof -
  have next8: "take_bit 8 (x + 1) = x + 1" if "unat x < 255" for x :: u32
  proof -
    have "unat (x + 1) < 2 ^ 8" using that by (simp add: unat_word_ariths)
    then have "unat (take_bit 8 (x + 1)) = unat (x + 1)" by (simp only: unsigned_take_bit_eq take_bit_nat_eq_self)
    then show ?thesis by (simp only: word_unat_eq_iff)
  qed
  have "unat (take_bit 16 e) = unat e" using assms(3) by (simp only: unsigned_take_bit_eq take_bit_nat_eq_self)
  then have e: "take_bit 16 e = e" by (simp only: word_unat_eq_iff)
  have masks: "(0xFF :: u32) = mask 8" "(0xFFFF :: u32) = mask 16" by (simp_all add: mask_eq_exp_minus_1)
  note next_p = next8 [of p] and next_t = next8 [of t]
  let ?id = "Res_MAKEID p t e"
  have i: "?id = push_bit 24 (p + 1) OR push_bit 16 (t + 1) OR e"
    using next_t assms(2) e by (simp add: Res_MAKEID_def masks Res_MAXTYPE_def or.assoc flip: take_bit_eq_mask)
  have bits: "bit (p + 1) n \<Longrightarrow> n < 8" "bit (t + 1) n \<Longrightarrow> n < 8" "bit e n \<Longrightarrow> n < 16" for n
    using next_p next_t e assms by (metis Res_MAXPACKAGE_def Res_MAXTYPE_def bit_take_bit_iff)+
  have "drop_bit 24 ?id = p + 1"
    unfolding i by (rule bit_word_eqI) (auto simp: bit_simps dest: bits)
  then show "Res_GETPACKAGE ?id = p" by (simp add: Res_GETPACKAGE_def)
  have "drop_bit 16 ?id AND 0xFF = t + 1"
    unfolding i masks by (rule bit_word_eqI) (auto simp: bit_simps dest: bits)
  then show "Res_GETTYPE ?id = t" by (simp add: Res_GETTYPE_def)
  show "Res_GETENTRY ?id = e"
    unfolding Res_GETENTRY_def i masks by (rule bit_word_eqI) (auto simp: bit_simps dest: bits)
qed

end
