(* ===== verification/Axml_Writer.thy ===== *)
theory Axml_Writer
  imports Res_Types
begin

text \<open>
  The emitters of binary XML in \<open>setup.ps1\<close>: string pools, the nodes of a document and their attributes.
  A failing cast or a refused parameter is \<open>None\<close>.  A string is its UTF-16 units.
\<close>

section \<open>Strings\<close>

type_synonym utf16 = "u16 list"

definition utf16 :: "string \<Rightarrow> utf16" where
  "utf16 s = map of_char s"

definition high_surrogate :: "u16 \<Rightarrow> bool" where "high_surrogate u \<longleftrightarrow> 0xD800 \<le> u \<and> u \<le> 0xDBFF"
definition low_surrogate :: "u16 \<Rightarrow> bool" where "low_surrogate u \<longleftrightarrow> 0xDC00 \<le> u \<and> u \<le> 0xDFFF"

text \<open>The encoder and the decoder of the runtime put the replacement character for a surrogate that stands alone.\<close>

fun replace_lone :: "utf16 \<Rightarrow> utf16" where
  "replace_lone [] = []"
| "replace_lone [u] = [if high_surrogate u \<or> low_surrogate u then 0xFFFD else u]"
| "replace_lone (u # v # us) =
     (if high_surrogate u \<and> low_surrogate v then u # v # replace_lone us
      else (if high_surrogate u \<or> low_surrogate u then 0xFFFD else u) # replace_lone (v # us))"

definition Unicode_GetBytes :: "utf16 \<Rightarrow> byte list" where
  "Unicode_GetBytes s = enc16s (replace_lone s)"

lemma length_replace_lone [simp]: "length (replace_lone s) = length s"
  by (induction s rule: replace_lone.induct) auto

lemma length_Unicode [simp]: "length (Unicode_GetBytes s) = 2 * length s"
  by (simp add: Unicode_GetBytes_def)

section \<open>Casts\<close>

definition cast16 :: "nat \<Rightarrow> u16 option" where "cast16 n = (if n < 2 ^ 16 then Some (of_nat n) else None)"
definition cast32 :: "nat \<Rightarrow> u32 option" where "cast32 n = (if n < 2 ^ 32 then Some (of_nat n) else None)"

definition cast32_int :: "int \<Rightarrow> u32 option" where
  "cast32_int i = (if 0 \<le> i \<and> i < 2 ^ 32 then Some (of_int i) else None)"

section \<open>String pools\<close>

fun pool_data :: "utf16 list \<Rightarrow> byte list \<Rightarrow> u32 list \<Rightarrow> (byte list \<times> u32 list) option" where
  "pool_data [] data offsets = Some (data, offsets)"
| "pool_data (s # ss) data offsets = do {
     off \<leftarrow> cast32 (length data);
     n \<leftarrow> cast16 (length s);
     pool_data ss (data @ enc16 n @ Unicode_GetBytes s @ enc16 0) (offsets @ [off]) }"

lemma pad_step: "n mod 4 \<noteq> 0 \<Longrightarrow> Suc ((4 - Suc n mod 4) mod 4) = (4 - n mod 4) mod (4 :: nat)"
proof -
  assume "n mod 4 \<noteq> 0"
  then have "n mod 4 = 1 \<or> n mod 4 = 2 \<or> n mod 4 = 3" using mod_less_divisor [of 4 n] by linarith
  then show ?thesis by (auto simp: mod_Suc)
qed

lemma pad_less: "n mod 4 \<noteq> 0 \<Longrightarrow> (4 - Suc n mod 4) mod 4 < (4 - n mod 4) mod (4 :: nat)"
  using pad_step [of n] by linarith

function pad_4 :: "byte list \<Rightarrow> byte list" where
  "pad_4 data = (if length data mod 4 = 0 then data else pad_4 (data @ [0]))"
  by auto
termination by (relation "measure (\<lambda>data. (4 - length data mod 4) mod 4)") (simp, simp only: in_measure length_append_singleton pad_less not_False_eq_True)

declare pad_4.simps [simp del]

text \<open>A mandatory parameter takes neither an empty list nor an empty string in it.\<close>

definition New_ResStringPool :: "utf16 list \<Rightarrow> byte list option" where
  "New_ResStringPool strings = (if strings = [] \<or> [] \<in> set strings then None else do {
     (data, offsets) \<leftarrow> pool_data strings [] [];
     let data = pad_4 data;
     let stringsStart = 28 + 4 * length strings;
     size \<leftarrow> cast32 (stringsStart + length data);
     count \<leftarrow> cast32 (length strings);
     start \<leftarrow> cast32 stringsStart;
     Some (enc16 0x0001 @ enc16 28 @ enc32 size @ enc32 count @ enc32 0 @ enc32 0 @ enc32 start @ enc32 0 @
       concat (map enc32 offsets) @ data) })"

text \<open>The manifest builds its pool itself, with a computed padding.\<close>

definition manifest_pool :: "utf16 list \<Rightarrow> byte list option" where
  "manifest_pool strings = do {
     (data, offsets) \<leftarrow> pool_data strings [] [];
     let data = data @ replicate ((4 - length data mod 4) mod 4) 0;
     let stringsStart = 28 + length strings * 4;
     size \<leftarrow> cast32 (stringsStart + length data);
     count \<leftarrow> cast32 (length strings);
     start \<leftarrow> cast32 stringsStart;
     Some (enc16 0x0001 @ enc16 28 @ enc32 size @ enc32 count @ enc32 0 @ enc32 0 @ enc32 start @ enc32 0 @
       concat (map enc32 offsets) @ data) }"

definition resource_map :: "u32 list \<Rightarrow> byte list option" where
  "resource_map ids = do {
     size \<leftarrow> cast32 (8 + length ids * 4);
     Some (enc16 0x0180 @ enc16 8 @ enc32 size @ concat (map enc32 ids)) }"

section \<open>Nodes\<close>

text \<open>
  The index of a string by a hashtable: the keys ignore case, as the runtime's comparer \<open>key\<close> has it, and
  the last string of a key wins.  A string that is missing is \<open>$null\<close>, which casts to zero.
\<close>

definition str_map :: "(utf16 \<Rightarrow> utf16) \<Rightarrow> utf16 list \<Rightarrow> utf16 \<Rightarrow> nat option" where
  "str_map key strings = foldl (\<lambda>m (i, s). m(key s \<mapsto> i)) (\<lambda>k. None) (List.enumerate 0 strings)"

definition S :: "(utf16 \<Rightarrow> utf16) \<Rightarrow> utf16 list \<Rightarrow> utf16 \<Rightarrow> u32" where
  "S key strings v = (case str_map key strings (key v) of None \<Rightarrow> 0 | Some i \<Rightarrow> of_nat i)"

definition android_uri :: utf16 where "android_uri = utf16 ''http://schemas.android.com/apk/res/android''"

record xml_attr =
  HasNs :: bool
  Attr_Name :: utf16
  RawVal :: u32
  DataType :: u8
  Data :: u32

definition Attr_Ref :: "utf16 \<Rightarrow> u32 \<Rightarrow> xml_attr" where
  "Attr_Ref name resVal = \<lparr>HasNs = True, Attr_Name = name, RawVal = 0xFFFFFFFF, DataType = 0x01, Data = resVal\<rparr>"

definition Attr_String :: "(utf16 \<Rightarrow> u32) \<Rightarrow> utf16 \<Rightarrow> utf16 \<Rightarrow> bool \<Rightarrow> xml_attr" where
  "Attr_String s name strVal hasNs = \<lparr>HasNs = hasNs, Attr_Name = name, RawVal = s strVal, DataType = 0x03, Data = s strVal\<rparr>"

definition Attr_IntDec :: "utf16 \<Rightarrow> int \<Rightarrow> bool \<Rightarrow> xml_attr option" where
  "Attr_IntDec name intVal hasNs =
     map_option (\<lambda>d. \<lparr>HasNs = hasNs, Attr_Name = name, RawVal = 0xFFFFFFFF, DataType = 0x10, Data = d\<rparr>) (cast32_int intVal)"

definition Attr_Bool :: "utf16 \<Rightarrow> bool \<Rightarrow> xml_attr" where
  "Attr_Bool name boolVal =
     \<lparr>HasNs = True, Attr_Name = name, RawVal = 0xFFFFFFFF, DataType = 0x12, Data = (if boolVal then 0xFFFFFFFF else 0)\<rparr>"

definition Write_StartNs :: "(utf16 \<Rightarrow> u32) \<Rightarrow> utf16 \<Rightarrow> utf16 \<Rightarrow> u32 \<Rightarrow> byte list" where
  "Write_StartNs s prefix uri line =
     enc16 0x0100 @ enc16 16 @ enc32 24 @ enc32 line @ enc32 0xFFFFFFFF @ enc32 (s prefix) @ enc32 (s uri)"

definition Write_EndNs :: "(utf16 \<Rightarrow> u32) \<Rightarrow> utf16 \<Rightarrow> utf16 \<Rightarrow> u32 \<Rightarrow> byte list" where
  "Write_EndNs s prefix uri line =
     enc16 0x0101 @ enc16 16 @ enc32 24 @ enc32 line @ enc32 0xFFFFFFFF @ enc32 (s prefix) @ enc32 (s uri)"

definition write_attribute :: "(utf16 \<Rightarrow> u32) \<Rightarrow> xml_attr \<Rightarrow> byte list" where
  "write_attribute s a =
     enc32 (if HasNs a then s android_uri else 0xFFFFFFFF) @ enc32 (s (Attr_Name a)) @ enc32 (RawVal a) @
     enc16 8 @ enc8 0 @ enc8 (DataType a) @ enc32 (Data a)"

definition Write_StartElem :: "(utf16 \<Rightarrow> u32) \<Rightarrow> utf16 \<Rightarrow> xml_attr list \<Rightarrow> u32 \<Rightarrow> byte list option" where
  "Write_StartElem s name attrs line = do {
     size \<leftarrow> cast32 (36 + length attrs * 20);
     count \<leftarrow> cast16 (length attrs);
     Some (enc16 0x0102 @ enc16 16 @ enc32 size @ enc32 line @ enc32 0xFFFFFFFF @ enc32 0xFFFFFFFF @ enc32 (s name) @
       enc16 0x0014 @ enc16 0x0014 @ enc16 count @ enc16 0 @ enc16 0 @ enc16 0 @
       concat (map (write_attribute s) attrs)) }"

definition Write_EndElem :: "(utf16 \<Rightarrow> u32) \<Rightarrow> utf16 \<Rightarrow> u32 \<Rightarrow> byte list" where
  "Write_EndElem s name line =
     enc16 0x0103 @ enc16 16 @ enc32 24 @ enc32 line @ enc32 0xFFFFFFFF @ enc32 0xFFFFFFFF @ enc32 (s name)"

text \<open>A call of one of these, as a value; a document makes them in order.\<close>

datatype xml_call = StartNs utf16 utf16 u32 | EndNs utf16 utf16 u32 | StartElem utf16 "xml_attr list" u32 | EndElem utf16 u32

fun write_call :: "(utf16 \<Rightarrow> u32) \<Rightarrow> xml_call \<Rightarrow> byte list option" where
  "write_call s (StartNs p u l) = Some (Write_StartNs s p u l)"
| "write_call s (EndNs p u l) = Some (Write_EndNs s p u l)"
| "write_call s (StartElem n as l) = Write_StartElem s n as l"
| "write_call s (EndElem n l) = Some (Write_EndElem s n l)"

definition write_calls :: "(utf16 \<Rightarrow> u32) \<Rightarrow> xml_call list \<Rightarrow> byte list option" where
  "write_calls s cs = map_option concat (those (map (write_call s) cs))"

definition write_document :: "byte list \<Rightarrow> byte list \<Rightarrow> byte list \<Rightarrow> byte list option" where
  "write_document pool ids tree = do {
     size \<leftarrow> cast32 (8 + length pool + length ids + length tree);
     Some (enc16 0x0003 @ enc16 8 @ enc32 size @ pool @ ids @ tree) }"

text \<open>The whole of a document: pool, resource map and the calls.\<close>

definition write_axml :: "(utf16 \<Rightarrow> utf16) \<Rightarrow> utf16 list \<Rightarrow> u32 list \<Rightarrow> xml_call list \<Rightarrow> byte list option" where
  "write_axml key strings ids calls = do {
     pool \<leftarrow> New_ResStringPool strings;
     resources \<leftarrow> resource_map ids;
     tree \<leftarrow> write_calls (S key strings) calls;
     write_document pool resources tree }"

section \<open>The padding\<close>

lemma pad_4_eq: "pad_4 data = data @ replicate ((4 - length data mod 4) mod 4) 0"
proof (induction data rule: pad_4.induct)
  case (1 data)
  show ?case
  proof (cases "length data mod 4 = 0")
    case True
    then show ?thesis by (simp add: pad_4.simps [of data])
  next
    case False
    show ?thesis
      using 1 [OF False] False by (simp add: pad_4.simps [of data] pad_step [OF False, symmetric])
  qed
qed

lemma manifest_pool_eq:
  "strings \<noteq> [] \<Longrightarrow> [] \<notin> set strings \<Longrightarrow> manifest_pool strings = New_ResStringPool strings"
  by (simp add: manifest_pool_def New_ResStringPool_def pad_4_eq mult.commute)

end
