(* ===== verification/Axml_Reader.thy ===== *)
theory Axml_Reader
  imports Axml_Writer
begin

text \<open>
  The reader of binary XML in \<open>setup.ps1\<close>: \<open>Test-ResChunkHeader\<close>, \<open>Test-BinaryAxml\<close>, \<open>Assert-ManifestAttributeIds\<close>
  and \<open>Get-AxmlChunkOffset\<close>.  Every \<open>throw\<close> is an error of its own; an exception of the runtime, for a read
  or an index out of range, is \<open>Runtime_error\<close>.
\<close>

datatype axml_error =
    Short_document
  | Header_past_container nat
  | Header_below_minimum nat nat nat
  | Header_larger_than_chunk nat nat nat
  | Misaligned_chunk nat nat nat
  | Chunk_past_container nat nat
  | Wrong_document_type u16
  | Wrong_file_size nat nat
  | Header_past_document nat
  | String_past_pool nat
  | Attributes_past_node nat
  | Unmatched_close nat
  | No_string_pool
  | No_resource_map
  | Elements_open int
  | Namespaces_open int
  | Undeclared_attribute utf16
  | Wrong_attribute_id utf16 utf16 u32 u32
  | No_such_chunk u16 int
  | Banner_shape
  | Banner_layout
  | Runtime_error

abbreviation get :: "'a option \<Rightarrow> axml_error + 'a" where "get \<equiv> or_abort Runtime_error"

section \<open>Chunk headers\<close>

text \<open>The header size and the size of the chunk.\<close>

definition Test_ResChunkHeader :: "byte list \<Rightarrow> nat \<Rightarrow> nat \<Rightarrow> nat \<Rightarrow> axml_error + nat \<times> nat" where
  "Test_ResChunkHeader d at minimum end_at =
     (if at + 8 > end_at then Inl (Header_past_container at)
      else bind_sum (get (rd16 d (at + 2))) (\<lambda>hs. bind_sum (get (rd32 d (at + 4))) (\<lambda>sz.
        let h = unat hs; n = unat sz in
        if h < minimum then Inl (Header_below_minimum at h minimum)
        else if h > n then Inl (Header_larger_than_chunk at h n)
        else if (h OR n) AND 3 \<noteq> 0 then Inl (Misaligned_chunk at n h)
        else if at + n > end_at then Inl (Chunk_past_container n at)
        else Inr (h, n))))"

section \<open>Strings\<close>

definition cont :: "byte \<Rightarrow> bool" where "cont b \<longleftrightarrow> 0x80 \<le> b \<and> b \<le> 0xBF"

text \<open>Which second bytes may follow a first byte of three or four.\<close>

definition second3 :: "byte \<Rightarrow> byte \<Rightarrow> bool" where
  "second3 b c \<longleftrightarrow> (if b = 0xE0 then 0xA0 else 0x80) \<le> c \<and> c \<le> (if b = 0xED then 0x9F else 0xBF)"

definition second4 :: "byte \<Rightarrow> byte \<Rightarrow> bool" where
  "second4 b c \<longleftrightarrow> (if b = 0xF0 then 0x90 else 0x80) \<le> c \<and> c \<le> (if b = 0xF4 then 0x8F else 0xBF)"

definition supplementary :: "nat \<Rightarrow> utf16" where
  "supplementary p = [of_nat (0xD800 + (p - 0x10000) div 0x400), of_nat (0xDC00 + (p - 0x10000) mod 0x400)]"

text \<open>The decoder puts one replacement character for each longest part of a sequence that cannot go on.\<close>

fun UTF8_GetString :: "byte list \<Rightarrow> utf16" where
  "UTF8_GetString [] = []"
| "UTF8_GetString (b # bs) =
     (if b < 0x80 then ucast b # UTF8_GetString bs
      else if 0xC2 \<le> b \<and> b \<le> 0xDF then
        (case bs of
           c # cs \<Rightarrow> if cont c then of_nat ((unat b - 0xC0) * 64 + (unat c - 0x80)) # UTF8_GetString cs
             else 0xFFFD # UTF8_GetString bs
         | [] \<Rightarrow> [0xFFFD])
      else if 0xE0 \<le> b \<and> b \<le> 0xEF then
        (case bs of
           c # cs \<Rightarrow>
             if \<not> second3 b c then 0xFFFD # UTF8_GetString bs
             else (case cs of
                e # es \<Rightarrow> if cont e then of_nat (((unat b - 0xE0) * 64 + (unat c - 0x80)) * 64 + (unat e - 0x80)) # UTF8_GetString es
                  else 0xFFFD # UTF8_GetString cs
              | [] \<Rightarrow> [0xFFFD])
         | [] \<Rightarrow> [0xFFFD])
      else if 0xF0 \<le> b \<and> b \<le> 0xF4 then
        (case bs of
           c # cs \<Rightarrow>
             if \<not> second4 b c then 0xFFFD # UTF8_GetString bs
             else (case cs of
                e # es \<Rightarrow>
                  if \<not> cont e then 0xFFFD # UTF8_GetString cs
                  else (case es of
                     f # fs \<Rightarrow>
                       if cont f then supplementary ((((unat b - 0xF0) * 64 + (unat c - 0x80)) * 64 + (unat e - 0x80)) * 64 + (unat f - 0x80)) @ UTF8_GetString fs
                       else 0xFFFD # UTF8_GetString es
                   | [] \<Rightarrow> [0xFFFD])
              | [] \<Rightarrow> [0xFFFD])
         | [] \<Rightarrow> [0xFFFD])
      else 0xFFFD # UTF8_GetString bs)"

definition read_utf8 :: "byte list \<Rightarrow> nat \<Rightarrow> nat \<Rightarrow> nat \<Rightarrow> axml_error + utf16" where
  "read_utf8 d at end_at s =
     bind_sum (get (rd8 d at)) (\<lambda>b0.
     let at = at + (if b0 AND 0x80 \<noteq> 0 then 2 else 1) in
     bind_sum (get (rd8 d at)) (\<lambda>b.
     bind_sum (if b AND 0x80 \<noteq> 0
               then bind_sum (get (rd8 d (at + 1))) (\<lambda>c. Inr (unat (b AND 0x7F) * 256 + unat c, at + 2))
               else Inr (unat b, at + 1)) (\<lambda>(n, at).
     if at + n > end_at then Inl (String_past_pool s)
     else bind_sum (get (slice d at n)) (\<lambda>bs. Inr (UTF8_GetString bs)))))"

definition read_utf16 :: "byte list \<Rightarrow> nat \<Rightarrow> nat \<Rightarrow> nat \<Rightarrow> axml_error + utf16" where
  "read_utf16 d at end_at s =
     bind_sum (get (rd16 d at)) (\<lambda>w.
     bind_sum (if w AND 0x8000 \<noteq> 0
               then bind_sum (get (rd16 d (at + 2))) (\<lambda>v. Inr (unat (w AND 0x7FFF) * 65536 + unat v, at + 4))
               else Inr (unat w, at + 2)) (\<lambda>(n, at).
     if at + 2 * n > end_at then Inl (String_past_pool s)
     else bind_sum (get (rd16s n d at)) (\<lambda>us. Inr (replace_lone us))))"

fun read_strings :: "byte list \<Rightarrow> bool \<Rightarrow> nat \<Rightarrow> nat \<Rightarrow> nat \<Rightarrow> nat \<Rightarrow> nat \<Rightarrow> axml_error + utf16 list" where
  "read_strings d utf8 base offsets end_at s 0 = Inr []"
| "read_strings d utf8 base offsets end_at s (Suc n) =
     bind_sum (get (rd32 d (offsets + 4 * s))) (\<lambda>off.
     bind_sum ((if utf8 then read_utf8 else read_utf16) d (base + unat off) end_at s) (\<lambda>x.
     bind_sum (read_strings d utf8 base offsets end_at (Suc s) n) (\<lambda>xs. Inr (x # xs))))"

definition read_pool :: "byte list \<Rightarrow> nat \<Rightarrow> nat \<Rightarrow> axml_error + utf16 list" where
  "read_pool d cursor chunkSize =
     bind_sum (get (rd32 d (cursor + 8))) (\<lambda>count.
     bind_sum (get (rd32 d (cursor + 16))) (\<lambda>flags.
     bind_sum (get (rd32 d (cursor + 20))) (\<lambda>start.
     bind_sum (get (rd16 d (cursor + 2))) (\<lambda>h.
     read_strings d (flags AND 0x100 \<noteq> 0) (cursor + unat start) (cursor + unat h) (cursor + chunkSize) 0 (unat count)))))"

section \<open>Elements\<close>

text \<open>A list indexed by a signed integer: a negative one counts from the end.\<close>

definition ps_index :: "'a list \<Rightarrow> int \<Rightarrow> 'a option" where
  "ps_index xs i =
     (if 0 \<le> i \<and> nat i < length xs then Some (xs ! nat i)
      else if i < 0 \<and> nat (- i) \<le> length xs then Some (xs ! (length xs - nat (- i))) else None)"

datatype attr_value = Str_value utf16 | Num_value u32

record identity =
  id_name :: utf16
  Namespaced :: bool
  ResourceId :: u32

record axml_element =
  elem_name :: utf16
  elem_depth :: int
  attributes :: "(utf16 \<times> attr_value) list"
  identities :: "identity list"

text \<open>An ordered dictionary: a key that is there, whatever its case, keeps its place and takes the new value.\<close>

definition put :: "(utf16 \<Rightarrow> utf16) \<Rightarrow> utf16 \<Rightarrow> attr_value \<Rightarrow> (utf16 \<times> attr_value) list \<Rightarrow> (utf16 \<times> attr_value) list" where
  "put key k v d = (if \<exists>(k', _) \<in> set d. key k' = key k then map (\<lambda>(k', v'). (k', if key k' = key k then v else v')) d else d @ [(k, v)])"

fun read_attributes ::
  "(utf16 \<Rightarrow> utf16) \<Rightarrow> byte list \<Rightarrow> utf16 list \<Rightarrow> u32 list \<Rightarrow> nat \<Rightarrow> nat \<Rightarrow> nat \<Rightarrow>
   (utf16 \<times> attr_value) list \<Rightarrow> identity list \<Rightarrow> axml_error + (utf16 \<times> attr_value) list \<times> identity list" where
  "read_attributes key d strings ids at width 0 as is = Inr (as, is)"
| "read_attributes key d strings ids at width (Suc n) as is =
     bind_sum (get (rd32 d (at + 8))) (\<lambda>raw.
     bind_sum (get (rd32 d (at + 4))) (\<lambda>nameIndex.
     bind_sum (get (ps_index strings (sint nameIndex))) (\<lambda>name.
     bind_sum (get (rd32 d at)) (\<lambda>ns.
     bind_sum (if sint raw \<ge> 0 then bind_sum (get (ps_index strings (sint raw))) (\<lambda>t. Inr (Str_value t))
               else bind_sum (get (rd32 d (at + 16))) (\<lambda>v. Inr (Num_value v))) (\<lambda>v.
     let identity = \<lparr>id_name = name, Namespaced = (sint ns \<ge> 0),
           ResourceId = (if 0 \<le> sint nameIndex \<and> nat (sint nameIndex) < length ids then ids ! nat (sint nameIndex) else 0)\<rparr>
     in read_attributes key d strings ids (at + width) width n (put key name v as) (is @ [identity]))))))"

section \<open>The walk\<close>

record axml_state =
  depth :: int
  namespaceDepth :: int
  elements :: nat
  sawStringPool :: bool
  sawResourceMap :: bool
  pool_strings :: "utf16 list"
  parsed :: "axml_element list"
  resourceIds :: "u32 list"

definition axml_init :: axml_state where
  "axml_init = \<lparr>depth = 0, namespaceDepth = 0, elements = 0, sawStringPool = False, sawResourceMap = False,
     pool_strings = [], parsed = [], resourceIds = []\<rparr>"

function read_ids :: "byte list \<Rightarrow> nat \<Rightarrow> nat \<Rightarrow> axml_error + u32 list" where
  "read_ids d at end_at =
     (if at < end_at then bind_sum (get (rd32 d at)) (\<lambda>i. bind_sum (read_ids d (at + 4) end_at) (\<lambda>is. Inr (i # is))) else Inr [])"
  by auto
termination by (relation "measure (\<lambda>(d, at, end_at). end_at - at)") auto

declare read_ids.simps [simp del]

definition minimum_header :: "u16 \<Rightarrow> nat" where
  "minimum_header t =
     (if t = RES_STRING_POOL_TYPE then 28
      else if t \<in> {RES_XML_START_NAMESPACE_TYPE, RES_XML_END_NAMESPACE_TYPE, RES_XML_START_ELEMENT_TYPE, RES_XML_END_ELEMENT_TYPE} then 16
      else 8)"

definition start_element :: "(utf16 \<Rightarrow> utf16) \<Rightarrow> byte list \<Rightarrow> nat \<Rightarrow> nat \<Rightarrow> axml_state \<Rightarrow> axml_error + axml_state" where
  "start_element key d cursor chunkSize st =
     (let ext = cursor + 16; st = st\<lparr>depth := depth st + 1, elements := elements st + 1\<rparr> in
      bind_sum (get (rd16 d (ext + 8))) (\<lambda>attributeStart.
      bind_sum (get (rd16 d (ext + 10))) (\<lambda>attributeSize.
      bind_sum (get (rd16 d (ext + 12))) (\<lambda>attributeCount.
      if int (unat attributeStart + unat attributeSize * unat attributeCount) > int chunkSize - 16 then Inl (Attributes_past_node cursor)
      else bind_sum (read_attributes key d (pool_strings st) (resourceIds st) (ext + unat attributeStart) (unat attributeSize)
               (unat attributeCount) [] []) (\<lambda>(as, is).
           bind_sum (get (rd32 d (ext + 4))) (\<lambda>i.
           bind_sum (get (ps_index (pool_strings st) (sint i))) (\<lambda>name.
           Inr (st\<lparr>parsed := parsed st @ [\<lparr>elem_name = name, elem_depth = depth st, attributes = as, identities = is\<rparr>]\<rparr>))))))))"

definition read_chunk :: "(utf16 \<Rightarrow> utf16) \<Rightarrow> byte list \<Rightarrow> nat \<Rightarrow> u16 \<Rightarrow> nat \<Rightarrow> axml_state \<Rightarrow> axml_error + axml_state" where
  "read_chunk key d cursor chunkType chunkSize st =
     (if chunkType = RES_STRING_POOL_TYPE then
        bind_sum (read_pool d cursor chunkSize) (\<lambda>xs. Inr (st\<lparr>sawStringPool := True, pool_strings := pool_strings st @ xs\<rparr>))
      else if chunkType = RES_XML_RESOURCE_MAP_TYPE then
        bind_sum (get (rd16 d (cursor + 2))) (\<lambda>h.
        bind_sum (read_ids d (cursor + unat h) (cursor + chunkSize)) (\<lambda>is.
        Inr (st\<lparr>sawResourceMap := True, resourceIds := resourceIds st @ is\<rparr>)))
      else if chunkType = RES_XML_START_NAMESPACE_TYPE then Inr (st\<lparr>namespaceDepth := namespaceDepth st + 1\<rparr>)
      else if chunkType = RES_XML_END_NAMESPACE_TYPE then Inr (st\<lparr>namespaceDepth := namespaceDepth st - 1\<rparr>)
      else if chunkType = RES_XML_START_ELEMENT_TYPE then start_element key d cursor chunkSize st
      else if chunkType = RES_XML_END_ELEMENT_TYPE then
        (if depth st - 1 < 0 then Inl (Unmatched_close cursor) else Inr (st\<lparr>depth := depth st - 1\<rparr>))
      else Inr st)"

lemma chunk_header_bounds:
  assumes "Test_ResChunkHeader d at minimum end_at = Inr (h, n)"
  shows "minimum \<le> h" "h \<le> n" "at + n \<le> end_at" "at + 8 \<le> end_at"
  using assms by (auto simp: Test_ResChunkHeader_def bind_sum_Inr_iff Let_def split: if_splits)

lemma minimum_header_8: "8 \<le> minimum_header t"
  by (simp add: minimum_header_def)

function walk :: "(utf16 \<Rightarrow> utf16) \<Rightarrow> byte list \<Rightarrow> nat \<Rightarrow> axml_state \<Rightarrow> axml_error + axml_state" where
  "walk key d cursor st =
     (if cursor < length d then
        if length d - cursor < 8 then Inl (Header_past_document cursor)
        else bind_sum (get (rd16 d cursor)) (\<lambda>chunkType.
          bind_sum (Test_ResChunkHeader d cursor (minimum_header chunkType) (length d)) (\<lambda>hn.
          bind_sum (read_chunk key d cursor chunkType (snd hn) st) (\<lambda>st'. walk key d (cursor + snd hn) st')))
      else Inr st)"
  by auto
termination
proof (relation "measure (\<lambda>(key, d, cursor, st). length d - cursor)", goal_cases)
  case (2 key d cursor st t hn st')
  have "8 \<le> snd hn" using chunk_header_bounds [of d cursor _ _ "fst hn" "snd hn"] 2(4) minimum_header_8 [of t] by force
  then show ?case using 2(1) by simp
qed simp

declare walk.simps [simp del]

record axml_report =
  FileSize :: nat
  ElementCount :: nat
  Strings :: "utf16 list"
  Elements :: "axml_element list"

definition Test_BinaryAxml :: "(utf16 \<Rightarrow> utf16) \<Rightarrow> byte list \<Rightarrow> axml_error + axml_report" where
  "Test_BinaryAxml key d =
     (if length d < 8 then Inl Short_document
      else bind_sum (get (rd16 d 0)) (\<lambda>type.
        bind_sum (Test_ResChunkHeader d 0 8 (length d)) (\<lambda>(headerSize, _).
        bind_sum (get (rd32 d 4)) (\<lambda>fileSize.
        if type \<noteq> RES_XML_TYPE then Inl (Wrong_document_type type)
        else if unat fileSize \<noteq> length d then Inl (Wrong_file_size (unat fileSize) (length d))
        else bind_sum (walk key d headerSize axml_init) (\<lambda>st.
          if \<not> sawStringPool st then Inl No_string_pool
          else if \<not> sawResourceMap st then Inl No_resource_map
          else if depth st \<noteq> 0 then Inl (Elements_open (depth st))
          else if namespaceDepth st \<noteq> 0 then Inl (Namespaces_open (namespaceDepth st))
          else Inr \<lparr>FileSize = unat fileSize, ElementCount = elements st, Strings = pool_strings st, Elements = parsed st\<rparr>)))))"

section \<open>Attribute identifiers\<close>

text \<open>
  \<open>declared\<close> is the id that the pinned \<open>public-final.xml\<close> gives an attribute name.  The count of the
  attributes that were checked is returned.
\<close>

definition check_identity :: "(utf16 \<Rightarrow> u32 option) \<Rightarrow> utf16 \<Rightarrow> identity \<Rightarrow> axml_error + nat" where
  "check_identity declared element a =
     (case declared (id_name a) of
        None \<Rightarrow> Inl (Undeclared_attribute (id_name a))
      | Some i \<Rightarrow> if ResourceId a \<noteq> i then Inl (Wrong_attribute_id element (id_name a) (ResourceId a) i) else Inr 1)"

fun sum_checks :: "('a \<Rightarrow> axml_error + nat) \<Rightarrow> 'a list \<Rightarrow> axml_error + nat" where
  "sum_checks f [] = Inr 0"
| "sum_checks f (x # xs) = bind_sum (f x) (\<lambda>k. bind_sum (sum_checks f xs) (\<lambda>n. Inr (k + n)))"

definition Assert_ManifestAttributeIds :: "(utf16 \<Rightarrow> u32 option) \<Rightarrow> axml_report \<Rightarrow> axml_error + nat" where
  "Assert_ManifestAttributeIds declared report =
     sum_checks (\<lambda>e. sum_checks (check_identity declared (elem_name e)) (filter Namespaced (identities e))) (Elements report)"

end
