(* ===== verification/Axml_Image.thy ===== *)
theory Axml_Image
  imports Axml_Reader
begin

text \<open>
  What the emitters write, in terms of the structures of \<open>lib/ResourceTypes.h\<close>, and what the reader makes of
  such an image: string pools, resource maps and nodes, one lemma for each kind of chunk.
\<close>

section \<open>Images\<close>

definition str_image :: "utf16 \<Rightarrow> byte list" where
  "str_image s = enc16 (of_nat (length s)) @ Unicode_GetBytes s @ enc16 0"

definition pool_bytes :: "utf16 list \<Rightarrow> byte list" where
  "pool_bytes ss = concat (map str_image ss)"

definition str_offset :: "utf16 list \<Rightarrow> nat \<Rightarrow> nat" where
  "str_offset ss i = length (pool_bytes (take i ss))"

definition pool_padding :: "utf16 list \<Rightarrow> byte list" where
  "pool_padding ss = replicate ((4 - length (pool_bytes ss) mod 4) mod 4) 0"

definition pool_size :: "utf16 list \<Rightarrow> nat" where
  "pool_size ss = 28 + 4 * length ss + length (pool_bytes ss @ pool_padding ss)"

definition pool_image :: "utf16 list \<Rightarrow> byte list" where
  "pool_image ss = enc_ResStringPool_header \<lparr>
       pool_header = \<lparr>chunk_type = RES_STRING_POOL_TYPE, headerSize = 28, chunk_size = of_nat (pool_size ss)\<rparr>,
       stringCount = of_nat (length ss), styleCount = 0, pool_flags = 0, stringsStart = of_nat (28 + 4 * length ss), stylesStart = 0\<rparr> @
     concat (map (\<lambda>i. enc32 (of_nat (str_offset ss i))) [0..<length ss]) @ pool_bytes ss @ pool_padding ss"

definition map_image :: "u32 list \<Rightarrow> byte list" where
  "map_image ids = enc_ResChunk_header \<lparr>chunk_type = RES_XML_RESOURCE_MAP_TYPE, headerSize = 8, chunk_size = of_nat (8 + 4 * length ids)\<rparr> @
     concat (map enc32 ids)"

text \<open>A node with the indices of its strings.\<close>

datatype xml_node =
    Node_ns_start u32 u32 u32
  | Node_ns_end u32 u32 u32
  | Node_start u32 u32 "ResXMLTree_attribute list"
  | Node_end u32 u32

definition node_image :: "u16 \<Rightarrow> nat \<Rightarrow> u32 \<Rightarrow> byte list" where
  "node_image t n line = enc_ResXMLTree_node \<lparr>
     node_header = \<lparr>chunk_type = t, headerSize = 16, chunk_size = of_nat n\<rparr>, lineNumber = line, comment = 0xFFFFFFFF\<rparr>"

fun enc_node :: "xml_node \<Rightarrow> byte list" where
  "enc_node (Node_ns_start line p u) =
     node_image RES_XML_START_NAMESPACE_TYPE 24 line @ enc_ResXMLTree_namespaceExt \<lparr>ns_prefix = p, ns_uri = u\<rparr>"
| "enc_node (Node_ns_end line p u) =
     node_image RES_XML_END_NAMESPACE_TYPE 24 line @ enc_ResXMLTree_namespaceExt \<lparr>ns_prefix = p, ns_uri = u\<rparr>"
| "enc_node (Node_start line n as) =
     node_image RES_XML_START_ELEMENT_TYPE (36 + 20 * length as) line @
     enc_ResXMLTree_attrExt \<lparr>ext_ns = 0xFFFFFFFF, ext_name = n, attributeStart = 20, attributeSize = 20,
       attributeCount = of_nat (length as), idIndex = 0, classIndex = 0, styleIndex = 0\<rparr> @
     concat (map enc_ResXMLTree_attribute as)"
| "enc_node (Node_end line n) =
     node_image RES_XML_END_ELEMENT_TYPE 24 line @ enc_ResXMLTree_endElementExt \<lparr>end_ns = 0xFFFFFFFF, end_name = n\<rparr>"

fun node_ok :: "xml_node \<Rightarrow> bool" where
  "node_ok (Node_start line n as) \<longleftrightarrow> length as < 2 ^ 16"
| "node_ok _ \<longleftrightarrow> True"

definition document_image :: "utf16 list \<Rightarrow> u32 list \<Rightarrow> xml_node list \<Rightarrow> byte list" where
  "document_image ss ids ns =
     (let rest = pool_image ss @ map_image ids @ concat (map enc_node ns) in
      enc_ResChunk_header \<lparr>chunk_type = RES_XML_TYPE, headerSize = 8, chunk_size = of_nat (8 + length rest)\<rparr> @ rest)"

section \<open>The emitters write them\<close>

lemma length_str_image [simp]: "length (str_image s) = 4 + 2 * length s"
  by (simp add: str_image_def)

lemma pool_bytes_append [simp]: "pool_bytes (ss @ ts) = pool_bytes ss @ pool_bytes ts"
  by (simp add: pool_bytes_def)

lemma pool_bytes_simps [simp]: "pool_bytes [] = []" "pool_bytes (s # ss) = str_image s @ pool_bytes ss"
  by (simp_all add: pool_bytes_def)

lemma str_offset_Suc: "str_offset (s # ss) (Suc i) = length (str_image s) + str_offset ss i"
  by (simp add: str_offset_def)

lemma str_offset_le: "str_offset ss i \<le> length (pool_bytes ss)"
proof -
  have "pool_bytes ss = pool_bytes (take i ss) @ pool_bytes (drop i ss)"
    by (simp flip: pool_bytes_append)
  then show ?thesis by (simp add: str_offset_def)
qed

lemma pool_data_image:
  assumes "\<forall>s \<in> set ss. length s < 2 ^ 16" "length data + length (pool_bytes ss) < 2 ^ 32"
  shows "pool_data ss data offs =
    Some (data @ pool_bytes ss, offs @ map (\<lambda>i. of_nat (length data + str_offset ss i)) [0..<length ss])"
  using assms
proof (induction ss arbitrary: data offs)
  case (Cons s ss)
  let ?data = "data @ enc16 (of_nat (length s)) @ Unicode_GetBytes s @ enc16 0"
  have "pool_data ss ?data (offs @ [of_nat (length data)]) =
      Some (?data @ pool_bytes ss,
        (offs @ [of_nat (length data)]) @ map (\<lambda>i. of_nat (length ?data + str_offset ss i)) [0..<length ss])"
    by (rule Cons.IH) (use Cons.prems in auto)
  moreover have "map (\<lambda>i. of_nat (length data + str_offset (s # ss) i)) [0..<length (s # ss)] =
      (of_nat (length data) :: u32) # map (\<lambda>i. of_nat (length ?data + str_offset ss i)) [0..<length ss]"
    unfolding length_Cons map_upt_Suc
    by (simp add: str_offset_Suc del: upt_Suc) (simp add: str_offset_def add.assoc)
  ultimately show ?case
    using Cons.prems by (simp add: cast32_def cast16_def str_image_def del: upt_Suc)
qed simp

lemma pool_written:
  assumes "ss \<noteq> []" "[] \<notin> set ss" "\<forall>s \<in> set ss. length s < 2 ^ 16" "pool_size ss < 2 ^ 32"
  shows "New_ResStringPool ss = Some (pool_image ss)"
proof -
  have "length (pool_bytes ss) < 2 ^ 32" using assms(4) by (simp add: pool_size_def)
  then have "pool_data ss [] [] = Some (pool_bytes ss, map (\<lambda>i. of_nat (str_offset ss i)) [0..<length ss])"
    using pool_data_image [of ss "[]" "[]"] assms(3) by simp
  then show ?thesis
    using assms by (simp add: New_ResStringPool_def pad_4_eq cast32_def pool_image_def enc_ResStringPool_header_def
      enc_ResChunk_header_def pool_size_def pool_padding_def comp_def)
qed

lemma map_written: "8 + 4 * length ids < 2 ^ 32 \<Longrightarrow> resource_map ids = Some (map_image ids)"
  by (simp add: resource_map_def map_image_def cast32_def enc_ResChunk_header_def mult.commute)

text \<open>A call with its strings looked up.\<close>

definition resolve_attr :: "(utf16 \<Rightarrow> u32) \<Rightarrow> xml_attr \<Rightarrow> ResXMLTree_attribute" where
  "resolve_attr s a = \<lparr>attr_ns = (if HasNs a then s android_uri else 0xFFFFFFFF), attr_name = s (Attr_Name a), rawValue = RawVal a,
     typedValue = \<lparr>value_size = 8, value_res0 = 0, dataType = DataType a, value_data = Data a\<rparr>\<rparr>"

fun resolve :: "(utf16 \<Rightarrow> u32) \<Rightarrow> xml_call \<Rightarrow> xml_node" where
  "resolve s (StartNs p u l) = Node_ns_start l (s p) (s u)"
| "resolve s (EndNs p u l) = Node_ns_end l (s p) (s u)"
| "resolve s (StartElem n as l) = Node_start l (s n) (map (resolve_attr s) as)"
| "resolve s (EndElem n l) = Node_end l (s n)"

lemmas node_defs = node_image_def enc_ResXMLTree_node_def enc_ResChunk_header_def enc_ResXMLTree_namespaceExt_def
  enc_ResXMLTree_endElementExt_def enc_ResXMLTree_attrExt_def

lemma attribute_written: "write_attribute s a = enc_ResXMLTree_attribute (resolve_attr s a)"
  by (simp add: write_attribute_def resolve_attr_def enc_ResXMLTree_attribute_def enc_Res_value_def)

lemma call_written: "node_ok (resolve s c) \<Longrightarrow> write_call s c = Some (enc_node (resolve s c))"
  by (cases c) (simp_all add: node_defs Write_StartNs_def Write_EndNs_def Write_EndElem_def Write_StartElem_def cast32_def cast16_def
    comp_def attribute_written [abs_def] mult.commute)

lemma calls_written:
  assumes "list_all (\<lambda>c. node_ok (resolve s c)) cs"
  shows "write_calls s cs = Some (concat (map (enc_node \<circ> resolve s) cs))"
proof -
  have "map (write_call s) cs = map Some (map (enc_node \<circ> resolve s) cs)"
    using assms by (simp add: list_all_iff call_written)
  moreover have "those (map Some xs) = Some xs" for xs :: "byte list list" by (induction xs) auto
  ultimately show ?thesis by (simp only: write_calls_def option.map)
qed

end
