(* ===== verification/Axml_Walk.thy ===== *)
theory Axml_Walk
  imports Axml_Image
begin

text \<open>
  The reader over an image: one lemma for each kind of chunk says what reading it does to the state, whatever
  stands before and behind it.
\<close>

section \<open>One chunk\<close>

lemma aligned_or: "4 dvd h \<Longrightarrow> 4 dvd n \<Longrightarrow> (h OR n) AND 3 = (0 :: nat)"
proof -
  assume "4 dvd h" "4 dvd n"
  then have "take_bit 2 h = 0" "take_bit 2 n = 0" by (simp_all add: take_bit_eq_mod)
  then have "take_bit 2 (h OR n) = 0" by (simp add: take_bit_or)
  moreover have "(3 :: nat) = mask 2" by (simp add: mask_eq_exp_minus_1)
  ultimately show ?thesis by (simp add: take_bit_eq_mask)
qed

lemma header_read:
  fixes pre post body :: "byte list"
  assumes "unat (headerSize H) = h" "unat (chunk_size H) = 8 + length body" "minimum \<le> h" "h \<le> 8 + length body"
    and "4 dvd h" "4 dvd 8 + length body"
  defines "d \<equiv> pre @ enc_ResChunk_header H @ body @ post"
  shows "rd16 d (length pre) = Some (chunk_type H)"
    "Test_ResChunkHeader d (length pre) minimum (length d) = Inr (h, 8 + length body)"
proof -
  have rd: "rd16 d (length pre + 2) = Some (headerSize H)" "rd32 d (length pre + 4) = Some (chunk_size H)"
    by (simp_all add: d_def field_skip enc_ResChunk_header_def codec_simps del: add_2_eq_Suc')
  show "rd16 d (length pre) = Some (chunk_type H)"
    by (simp add: d_def field_skip enc_ResChunk_header_def codec_simps)
  have len: "length d = length pre + (8 + length body) + length post" by (simp add: d_def)
  show "Test_ResChunkHeader d (length pre) minimum (length d) = Inr (h, 8 + length body)"
    unfolding Test_ResChunkHeader_def rd or_abort_simps bind_sum_simps Let_def assms(1,2)
    using assms(3-4) aligned_or [OF assms(5,6)] by (simp add: len)
qed

lemma walk_chunk:
  fixes pre post body :: "byte list"
  assumes "unat (headerSize H) = h" "unat (chunk_size H) = 8 + length body" "minimum_header (chunk_type H) \<le> h"
    "h \<le> 8 + length body" "4 dvd h" "4 dvd 8 + length body"
  defines "d \<equiv> pre @ enc_ResChunk_header H @ body @ post"
  shows "walk key d (length pre) st =
    bind_sum (read_chunk key d (length pre) (chunk_type H) (8 + length body) st) (walk key d (length (pre @ enc_ResChunk_header H @ body)))"
proof -
  note read = header_read [OF assms(1-6), of pre post, folded d_def]
  have "length pre < length d" "\<not> length d - length pre < 8" by (simp_all add: d_def)
  then show ?thesis
    by (subst walk.simps) (simp add: read add.assoc)
qed

section \<open>String pools\<close>

text \<open>Strings that are written and read as they are: no lone surrogate, a length of fifteen bits.\<close>

definition plain :: "utf16 \<Rightarrow> bool" where
  "plain s \<longleftrightarrow> replace_lone s = s \<and> length s < 2 ^ 15"

lemma rd16s_here: "length vs = n \<Longrightarrow> rd16s n (enc16s vs @ ys) 0 = Some vs"
  using rd16s_codec(2) [of vs ys] by simp

lemma read_string_image:
  assumes "plain s" "base + off + 4 + 2 * length s \<le> end_at" "d = xs @ str_image s @ ys" "length xs = base + off"
  shows "read_utf16 d (base + off) end_at i = Inr s"
proof -
  have small: "length s < 2 ^ 15" "replace_lone s = s" using assms(1) by (simp_all add: plain_def)
  have w: "unat (of_nat (length s) :: u16) = length s" using small(1) by (simp add: unat_of_nat)
  have "take_bit 15 (of_nat (length s) :: u16) = of_nat (length s)"
    using small(1) by (simp add: take_bit_of_nat take_bit_nat_eq_self)
  then have "\<not> bit (of_nat (length s) :: u16) 15" by (metis bit_take_bit_iff less_irrefl)
  then have high: "(of_nat (length s) :: u16) AND 0x8000 = 0"
    using and_exp_eq_0_iff_not_bit [of "of_nat (length s) :: u16" 15] by simp
  have at: "base + off = length xs + 0" "base + off + 2 = length xs + 2" using assms(4) by simp_all
  have "rd16 d (base + off) = Some (of_nat (length s))"
    unfolding assms(3) at(1) field_skip by (simp add: str_image_def codec_simps)
  moreover have "rd16s (length s) d (base + off + 2) = Some s"
    unfolding assms(3) at(2) field_skip
    by (simp add: str_image_def codec_simps rd16s_here Unicode_GetBytes_def small)
  ultimately show ?thesis
    using assms(2) by (simp add: read_utf16_def high w small Let_def)
qed

lemma read_strings_image:
  assumes "\<And>i. i < length ss \<Longrightarrow> rd32 d (offsets + 4 * i) = Some (of_nat (str_offset ss i))"
    and "\<forall>s \<in> set ss. plain s" "length (pool_bytes ss) < 2 ^ 32"
    and "d = xs @ pool_bytes ss @ ys" "length xs = base" "base + length (pool_bytes ss) \<le> end_at"
  shows "n \<le> length ss \<Longrightarrow> read_strings d False base offsets end_at (length ss - n) n = Inr (drop (length ss - n) ss)"
proof (induction n)
  case (Suc n)
  let ?i = "length ss - Suc n"
  have i: "?i < length ss" "Suc ?i = length ss - n" using Suc.prems by simp_all
  let ?s = "ss ! ?i"
  have split: "ss = take ?i ss @ ?s # drop (Suc ?i) ss" using i(1) by (rule id_take_nth_drop)
  have bytes: "pool_bytes ss = pool_bytes (take ?i ss) @ str_image ?s @ pool_bytes (drop (Suc ?i) ss)"
    by (subst split) (simp del: append_take_drop_id)
  have "str_offset ss ?i + (4 + 2 * length ?s) \<le> length (pool_bytes ss)"
    using arg_cong [OF bytes, of length] by (simp add: str_offset_def)
  then have room: "base + str_offset ss ?i + 4 + 2 * length ?s \<le> end_at" using assms(6) by simp
  have "d = (xs @ pool_bytes (take ?i ss)) @ str_image ?s @ pool_bytes (drop (Suc ?i) ss) @ ys"
    using assms(4) bytes by simp
  moreover have "length (xs @ pool_bytes (take ?i ss)) = base + str_offset ss ?i" using assms(5) by (simp add: str_offset_def)
  moreover have "plain ?s" using assms(2) i(1) by simp
  ultimately have "read_utf16 d (base + str_offset ss ?i) end_at ?i = Inr ?s" using room by (intro read_string_image)
  moreover have "unat (of_nat (str_offset ss ?i) :: u32) = str_offset ss ?i"
    using str_offset_le [of ss ?i] assms(3) by (simp add: unat_of_nat)
  moreover have "drop ?i ss = ?s # drop (length ss - n) ss"
    using Cons_nth_drop_Suc [OF i(1)] i(2) by simp
  ultimately show ?case
    using Suc.IH Suc.prems assms(1) [OF i(1)] i(2) by simp
qed simp

lemma pad_dvd: "4 dvd n + (4 - n mod 4) mod (4 :: nat)"
proof -
  have "n mod 4 = 0 \<or> n mod 4 = 1 \<or> n mod 4 = 2 \<or> n mod 4 = 3" using mod_less_divisor [of 4 n] by linarith
  then show ?thesis by (elim disjE) (simp_all add: dvd_eq_mod_eq_0 mod_add_left_eq [of n, symmetric] mod_Suc)
qed

lemma pool_size_dvd: "4 dvd pool_size ss"
  using pad_dvd [of "length (pool_bytes ss)"] by (simp add: pool_size_def pool_padding_def)

lemma pool_image_parts:
  obtains body where "pool_image ss =
      enc_ResChunk_header \<lparr>chunk_type = RES_STRING_POOL_TYPE, headerSize = 28, chunk_size = of_nat (pool_size ss)\<rparr> @ body"
    "8 + length body = pool_size ss"
proof -
  let ?n = "length ss" and ?start = "28 + 4 * length ss"
  let ?H = "\<lparr>chunk_type = RES_STRING_POOL_TYPE, headerSize = 28, chunk_size = of_nat (pool_size ss)\<rparr>"
  let ?fields = "enc32 (of_nat ?n) @ enc32 0 @ enc32 0 @ enc32 (of_nat ?start) @ enc32 0"
  let ?offsets = "map (\<lambda>i. of_nat (str_offset ss i)) [0..<?n] :: u32 list"
  let ?data = "pool_bytes ss @ pool_padding ss"
  let ?body = "?fields @ concat (map enc32 ?offsets) @ ?data"
  have "pool_image ss = enc_ResChunk_header ?H @ ?body"
    by (simp add: pool_image_def enc_ResStringPool_header_def comp_def)
  moreover have "8 + length ?body = pool_size ss"
    using c32.table_length [of ?offsets] by (simp add: pool_size_def del: map_map)
  ultimately show ?thesis by (rule that)
qed

lemma read_pool_image:
  assumes "\<forall>s \<in> set ss. plain s" "pool_size ss < 2 ^ 32" "d = pre @ pool_image ss @ post"
  shows "read_pool d (length pre) (pool_size ss) = Inr ss"
proof -
  let ?n = "length ss" and ?start = "28 + 4 * length ss"
  let ?H = "\<lparr>chunk_type = RES_STRING_POOL_TYPE, headerSize = 28, chunk_size = of_nat (pool_size ss)\<rparr>"
  let ?fields = "enc32 (of_nat ?n) @ enc32 0 @ enc32 0 @ enc32 (of_nat ?start) @ enc32 0"
  let ?offsets = "map (\<lambda>i. of_nat (str_offset ss i)) [0..<?n] :: u32 list"
  let ?data = "pool_bytes ss @ pool_padding ss"
  let ?body = "?fields @ concat (map enc32 ?offsets) @ ?data"
  have image: "pool_image ss = enc_ResChunk_header ?H @ ?body"
    by (simp add: pool_image_def enc_ResStringPool_header_def comp_def)
  have offsets_length: "length (concat (map enc32 ?offsets)) = 4 * ?n" using c32.table_length [of ?offsets] by (simp only: length_map length_upt diff_zero)
  have len: "8 + length ?body = pool_size ss" by (simp add: pool_size_def offsets_length del: map_map)
  have small: "length (pool_bytes ss) < 2 ^ 32" "?start < 2 ^ 32" "?n < 2 ^ 32" "28 \<le> pool_size ss"
    using assms(2) by (simp_all add: pool_size_def)
  have d: "d = pre @ enc_ResChunk_header ?H @ ?body @ post" using assms(3) image by simp
  have count: "rd32 d (length pre + 8) = Some (of_nat ?n)" and flags: "rd32 d (length pre + 16) = Some 0"
    and start: "rd32 d (length pre + 20) = Some (of_nat ?start)" and header: "rd16 d (length pre + 2) = Some 28"
    unfolding d field_skip by (simp_all add: codec_simps enc_ResChunk_header_def del: of_nat_add of_nat_mult)
  have table: "rd32 d (length pre + 28 + 4 * i) = Some (of_nat (str_offset ss i))" if "i < ?n" for i
  proof -
    let ?xs = "pre @ enc_ResChunk_header ?H @ ?fields"
    have "rd32 (?xs @ concat (map enc32 ?offsets) @ ?data @ post) (length ?xs + 4 * i) = Some (?offsets ! i)"
      by (rule c32.table_nth) (use that in simp)
    then show ?thesis using that by (simp add: d)
  qed
  have "read_strings d False (length pre + ?start) (length pre + 28) (length pre + pool_size ss) (?n - ?n) ?n = Inr (drop (?n - ?n) ss)"
  proof (rule read_strings_image [where xs = "pre @ enc_ResChunk_header ?H @ ?fields @ concat (map enc32 ?offsets)" and ys = "pool_padding ss @ post"])
    show "d = (pre @ enc_ResChunk_header ?H @ ?fields @ concat (map enc32 ?offsets)) @ pool_bytes ss @ pool_padding ss @ post"
      by (simp add: d)
    show "length (pre @ enc_ResChunk_header ?H @ ?fields @ concat (map enc32 ?offsets)) = length pre + ?start"
      by (simp add: offsets_length del: map_map)
  qed (use assms(1) small table in \<open>simp_all add: pool_size_def\<close>)
  then show ?thesis
    using small by (simp add: read_pool_def count flags start header [simplified] unat_of_nat del: of_nat_add of_nat_mult)
qed

lemma walk_pool:
  assumes "\<forall>s \<in> set ss. plain s" "pool_size ss < 2 ^ 32" "d = pre @ pool_image ss @ post"
  shows "walk key d (length pre) st =
    walk key d (length (pre @ pool_image ss)) (st\<lparr>sawStringPool := True, pool_strings := pool_strings st @ ss\<rparr>)"
proof -
  let ?H = "\<lparr>chunk_type = RES_STRING_POOL_TYPE, headerSize = 28, chunk_size = of_nat (pool_size ss)\<rparr>"
  obtain body where image: "pool_image ss = enc_ResChunk_header ?H @ body" and len: "8 + length body = pool_size ss"
    by (rule pool_image_parts)
  have small: "28 \<le> pool_size ss" by (simp add: pool_size_def)
  have d: "d = pre @ enc_ResChunk_header ?H @ body @ post" using assms(3) image by simp
  have pool: "read_pool d (length pre) (pool_size ss) = Inr ss" by (rule read_pool_image [OF assms])
  have "walk key d (length pre) st =
      bind_sum (read_chunk key d (length pre) (chunk_type ?H) (8 + length body) st) (walk key d (length (pre @ enc_ResChunk_header ?H @ body)))"
    unfolding d
    by (rule walk_chunk [where h = 28])
      (use assms(2) len small pool_size_dvd [of ss] in \<open>simp_all only: len, simp_all add: unat_of_nat minimum_header_def\<close>)
  then show ?thesis
    unfolding len image by (simp add: read_chunk_def pool)
qed

section \<open>Resource maps\<close>

lemma read_ids_image: "read_ids (xs @ concat (map enc32 ids) @ ys) (length xs) (length xs + 4 * length ids) = Inr ids"
proof (induction ids arbitrary: xs)
  case Nil
  show ?case by (simp add: read_ids.simps)
next
  case (Cons i ids)
  have "read_ids ((xs @ enc32 i) @ concat (map enc32 ids) @ ys) (length (xs @ enc32 i)) (length (xs @ enc32 i) + 4 * length ids) = Inr ids"
    by (rule Cons.IH)
  then show ?case
    by (subst read_ids.simps) (simp add: field_skip codec_simps add.assoc)
qed

lemma walk_map:
  assumes "8 + 4 * length ids < 2 ^ 32" "d = pre @ map_image ids @ post"
  shows "walk key d (length pre) st =
    walk key d (length (pre @ map_image ids)) (st\<lparr>sawResourceMap := True, resourceIds := resourceIds st @ ids\<rparr>)"
proof -
  let ?H = "\<lparr>chunk_type = RES_XML_RESOURCE_MAP_TYPE, headerSize = 8, chunk_size = of_nat (8 + 4 * length ids)\<rparr>"
  let ?body = "concat (map enc32 ids)"
  have len: "length ?body = 4 * length ids" by (rule c32.table_length)
  have d: "d = pre @ enc_ResChunk_header ?H @ ?body @ post" using assms(2) by (simp add: map_image_def)
  have header: "rd16 d (length pre + 2) = Some 8"
    unfolding d field_skip by (simp add: codec_simps enc_ResChunk_header_def)
  have "read_ids d (length pre + 8) (length pre + (8 + 4 * length ids)) = Inr ids"
    using read_ids_image [of "pre @ enc_ResChunk_header ?H" ids post] by (simp add: d add.assoc)
  moreover have "walk key d (length pre) st =
      bind_sum (read_chunk key d (length pre) (chunk_type ?H) (8 + length ?body) st) (walk key d (length (pre @ enc_ResChunk_header ?H @ ?body)))"
    unfolding d
    by (rule walk_chunk [where h = 8]) (use assms(1) in \<open>simp_all only: len, simp_all add: unat_of_nat minimum_header_def del: of_nat_add of_nat_mult\<close>)
  ultimately show ?thesis
    unfolding len by (simp add: read_chunk_def header [simplified] map_image_def len add.assoc)
qed

section \<open>Nodes\<close>

fun take_attributes ::
  "(utf16 \<Rightarrow> utf16) \<Rightarrow> utf16 list \<Rightarrow> u32 list \<Rightarrow> ResXMLTree_attribute list \<Rightarrow> (utf16 \<times> attr_value) list \<Rightarrow> identity list \<Rightarrow>
   axml_error + (utf16 \<times> attr_value) list \<times> identity list" where
  "take_attributes key strings ids [] as is = Inr (as, is)"
| "take_attributes key strings ids (a # rest) as is =
     bind_sum (get (ps_index strings (sint (attr_name a)))) (\<lambda>name.
     bind_sum (if sint (rawValue a) \<ge> 0 then bind_sum (get (ps_index strings (sint (rawValue a)))) (\<lambda>t. Inr (Str_value t))
               else Inr (Num_value (value_data (typedValue a)))) (\<lambda>v.
     let identity = \<lparr>id_name = name, Namespaced = (sint (attr_ns a) \<ge> 0),
           ResourceId = (if 0 \<le> sint (attr_name a) \<and> nat (sint (attr_name a)) < length ids then ids ! nat (sint (attr_name a)) else 0)\<rparr>
     in take_attributes key strings ids rest (put key name v as) (is @ [identity])))"

lemma attribute_fields:
  assumes "d = xs @ enc_ResXMLTree_attribute a @ ys"
  shows "rd32 d (length xs) = Some (attr_ns a)" "rd32 d (length xs + 4) = Some (attr_name a)"
    "rd32 d (length xs + 8) = Some (rawValue a)" "rd32 d (length xs + 16) = Some (value_data (typedValue a))"
  unfolding assms field_skip by (simp_all add: enc_ResXMLTree_attribute_def enc_Res_value_def codec_simps)

lemma read_attributes_image:
  "d = xs @ concat (map enc_ResXMLTree_attribute attrs) @ ys \<Longrightarrow>
   read_attributes key d strings ids (length xs) 20 (length attrs) as is = take_attributes key strings ids attrs as is"
proof (induction attrs arbitrary: xs as "is")
  case (Cons a attrs)
  have "d = (xs @ enc_ResXMLTree_attribute a) @ concat (map enc_ResXMLTree_attribute attrs) @ ys" using Cons.prems by simp
  note rest = Cons.IH [OF this]
  have "d = xs @ enc_ResXMLTree_attribute a @ concat (map enc_ResXMLTree_attribute attrs) @ ys" using Cons.prems by simp
  note fields = attribute_fields [OF this]
  show ?case using rest by (simp add: fields codec_simps Let_def cong: if_cong)
qed simp

fun node_step :: "(utf16 \<Rightarrow> utf16) \<Rightarrow> xml_node \<Rightarrow> nat \<Rightarrow> axml_state \<Rightarrow> axml_error + axml_state" where
  "node_step key (Node_ns_start l p u) cursor st = Inr (st\<lparr>namespaceDepth := namespaceDepth st + 1\<rparr>)"
| "node_step key (Node_ns_end l p u) cursor st = Inr (st\<lparr>namespaceDepth := namespaceDepth st - 1\<rparr>)"
| "node_step key (Node_start l n attrs) cursor st =
     bind_sum (take_attributes key (pool_strings st) (resourceIds st) attrs [] []) (\<lambda>(as, is).
     bind_sum (get (ps_index (pool_strings st) (sint n))) (\<lambda>name.
     Inr (st\<lparr>depth := depth st + 1, elements := elements st + 1,
       parsed := parsed st @ [\<lparr>elem_name = name, elem_depth = depth st + 1, attributes = as, identities = is\<rparr>]\<rparr>)))"
| "node_step key (Node_end l n) cursor st =
     (if depth st - 1 < 0 then Inl (Unmatched_close cursor) else Inr (st\<lparr>depth := depth st - 1\<rparr>))"

lemma attributes_length: "length (concat (map enc_ResXMLTree_attribute attrs)) = 20 * length attrs"
  by (induction attrs) (simp_all add: codec_simps)

text \<open>A node as a chunk header and its body.\<close>

definition node_body :: "xml_node \<Rightarrow> byte list" where
  "node_body n = drop 8 (enc_node n)"

fun node_chunk :: "xml_node \<Rightarrow> ResChunk_header" where
  "node_chunk (Node_ns_start l p u) = \<lparr>chunk_type = RES_XML_START_NAMESPACE_TYPE, headerSize = 16, chunk_size = 24\<rparr>"
| "node_chunk (Node_ns_end l p u) = \<lparr>chunk_type = RES_XML_END_NAMESPACE_TYPE, headerSize = 16, chunk_size = 24\<rparr>"
| "node_chunk (Node_start l n as) = \<lparr>chunk_type = RES_XML_START_ELEMENT_TYPE, headerSize = 16, chunk_size = of_nat (36 + 20 * length as)\<rparr>"
| "node_chunk (Node_end l n) = \<lparr>chunk_type = RES_XML_END_ELEMENT_TYPE, headerSize = 16, chunk_size = 24\<rparr>"

lemma node_split: "enc_node n = enc_ResChunk_header (node_chunk n) @ node_body n"
  by (cases n) (simp_all add: node_body_def node_image_def enc_ResXMLTree_node_def codec_simps)

lemma node_length: "length (enc_node n) = (case n of Node_start l m as \<Rightarrow> 36 + 20 * length as | _ \<Rightarrow> 24)"
  by (cases n) (simp_all add: node_image_def codec_simps attributes_length)

lemma start_element_image:
  assumes "length attrs < 2 ^ 16" "d = pre @ enc_node (Node_start l n attrs) @ post"
  shows "start_element key d (length pre) (36 + 20 * length attrs) st = node_step key (Node_start l n attrs) (length pre) st"
proof -
  let ?node = "node_image RES_XML_START_ELEMENT_TYPE (36 + 20 * length attrs) l"
  let ?ext = "enc_ResXMLTree_attrExt \<lparr>ext_ns = 0xFFFFFFFF, ext_name = n, attributeStart = 20, attributeSize = 20,
       attributeCount = of_nat (length attrs), idIndex = 0, classIndex = 0, styleIndex = 0\<rparr>"
  have node: "length ?node = 16" by (simp add: node_image_def codec_simps)
  have d: "d = (pre @ ?node) @ ?ext @ concat (map enc_ResXMLTree_attribute attrs) @ post" using assms(2) by simp
  have at: "length pre + 16 + k = length (pre @ ?node) + k" for k by (simp add: node)
  have fields: "rd32 d (length pre + 16 + 4) = Some n" "rd16 d (length pre + 16 + 8) = Some 20" "rd16 d (length pre + 16 + 10) = Some 20"
    "rd16 d (length pre + 16 + 12) = Some (of_nat (length attrs))"
    unfolding d at field_skip by (simp_all add: enc_ResXMLTree_attrExt_def codec_simps)
  have "d = (pre @ ?node @ ?ext) @ concat (map enc_ResXMLTree_attribute attrs) @ post" by (simp add: d)
  note attrs = read_attributes_image [OF this]
  have "length (pre @ ?node @ ?ext) = length pre + 16 + 20" by (simp add: node codec_simps)
  note attrs = attrs [unfolded this]
  show ?thesis
    unfolding start_element_def Let_def fields or_abort_simps bind_sum_simps
    using assms(1) attrs by (simp add: unat_of_nat case_prod_beta)
qed

lemma walk_node:
  assumes "node_ok n" "d = pre @ enc_node n @ post"
  shows "walk key d (length pre) st = bind_sum (node_step key n (length pre) st) (walk key d (length (pre @ enc_node n)))"
proof -
  have d: "d = pre @ enc_ResChunk_header (node_chunk n) @ node_body n @ post" using assms(2) by (simp add: node_split)
  have len: "8 + length (node_body n) = (case n of Node_start l m as \<Rightarrow> 36 + 20 * length as | _ \<Rightarrow> 24)"
    using node_length [of n] arg_cong [OF node_split [of n], of length] by (simp add: codec_simps)
  have chunk: "unat (headerSize (node_chunk n)) = 16" "unat (chunk_size (node_chunk n)) = 8 + length (node_body n)"
    "minimum_header (chunk_type (node_chunk n)) \<le> 16" "16 \<le> 8 + length (node_body n)" "4 dvd (16 :: nat)" "4 dvd 8 + length (node_body n)"
    unfolding len using assms(1) by (cases n; simp add: minimum_header_def unat_of_nat del: of_nat_add of_nat_mult)+
  have "walk key d (length pre) st = bind_sum (read_chunk key d (length pre) (chunk_type (node_chunk n)) (8 + length (node_body n)) st)
      (walk key d (length (pre @ enc_ResChunk_header (node_chunk n) @ node_body n)))"
    unfolding d by (rule walk_chunk [OF chunk])
  moreover have "read_chunk key d (length pre) (chunk_type (node_chunk n)) (8 + length (node_body n)) st = node_step key n (length pre) st"
    unfolding len using assms start_element_image by (cases n) (simp_all add: read_chunk_def)
  ultimately show ?thesis by (simp add: node_split)
qed

section \<open>Documents\<close>

fun run_nodes :: "(utf16 \<Rightarrow> utf16) \<Rightarrow> xml_node list \<Rightarrow> nat \<Rightarrow> axml_state \<Rightarrow> axml_error + axml_state" where
  "run_nodes key [] cursor st = Inr st"
| "run_nodes key (n # ns) cursor st = bind_sum (node_step key n cursor st) (run_nodes key ns (cursor + length (enc_node n)))"

lemma walk_nodes:
  "list_all node_ok ns \<Longrightarrow> d = pre @ concat (map enc_node ns) \<Longrightarrow> walk key d (length pre) st = run_nodes key ns (length pre) st"
proof (induction ns arbitrary: pre st)
  case Nil
  then show ?case by (simp add: walk.simps)
next
  case (Cons n ns)
  have n: "node_ok n" "list_all node_ok ns" using Cons.prems(1) by simp_all
  have d: "d = pre @ enc_node n @ concat (map enc_node ns)" "d = (pre @ enc_node n) @ concat (map enc_node ns)"
    using Cons.prems(2) by simp_all
  show ?case
    unfolding walk_node [OF n(1) d(1)] using Cons.IH [OF n(2) d(2)] by (simp add: bind_sum_def split: sum.split)
qed

text \<open>The state behind the pool and the map.\<close>

definition axml_start :: "utf16 list \<Rightarrow> u32 list \<Rightarrow> axml_state" where
  "axml_start ss ids = axml_init\<lparr>sawStringPool := True, pool_strings := ss, sawResourceMap := True, resourceIds := ids\<rparr>"

definition finish :: "nat \<Rightarrow> axml_state \<Rightarrow> axml_error + axml_report" where
  "finish n st =
     (if depth st \<noteq> 0 then Inl (Elements_open (depth st))
      else if namespaceDepth st \<noteq> 0 then Inl (Namespaces_open (namespaceDepth st))
      else Inr \<lparr>FileSize = n, ElementCount = elements st, Strings = pool_strings st, Elements = parsed st\<rparr>)"

lemma node_step_keeps:
  "node_step key n cursor st = Inr st' \<Longrightarrow>
    sawStringPool st' = sawStringPool st \<and> sawResourceMap st' = sawResourceMap st \<and> pool_strings st' = pool_strings st \<and> resourceIds st' = resourceIds st"
  by (cases n) (auto simp: bind_sum_Inr_iff split: if_splits)

lemma run_nodes_keeps:
  "run_nodes key ns cursor st = Inr st' \<Longrightarrow>
    sawStringPool st' = sawStringPool st \<and> sawResourceMap st' = sawResourceMap st \<and> pool_strings st' = pool_strings st \<and> resourceIds st' = resourceIds st"
proof (induction ns arbitrary: cursor st)
  case (Cons n ns)
  then obtain st1 where st1: "node_step key n cursor st = Inr st1" "run_nodes key ns (cursor + length (enc_node n)) st1 = Inr st'"
    by (auto simp: bind_sum_Inr_iff)
  show ?case using Cons.IH [OF st1(2)] node_step_keeps [OF st1(1)] by simp
qed simp

lemma pool_length: "length (pool_image ss) = pool_size ss"
proof -
  have "map (\<lambda>i. enc32 (of_nat (str_offset ss i))) [0..<length ss] = map enc32 (map (\<lambda>i. of_nat (str_offset ss i)) [0..<length ss])" by simp
  then have "length (concat (map (\<lambda>i. enc32 (of_nat (str_offset ss i))) [0..<length ss])) = 4 * length ss"
    using c32.table_length [of "map (\<lambda>i. of_nat (str_offset ss i)) [0..<length ss]"] by (simp only: length_map length_upt diff_zero)
  then show ?thesis by (simp add: pool_image_def pool_size_def codec_simps)
qed

lemma map_length: "length (map_image ids) = 8 + 4 * length ids"
  by (simp add: map_image_def codec_simps c32.table_length)

lemma nodes_dvd: "4 dvd length (concat (map enc_node ns))"
proof (induction ns)
  case (Cons n ns)
  moreover have "4 dvd length (enc_node n)" by (simp add: node_length split: xml_node.split)
  ultimately show ?case by simp
qed simp

lemma document_read:
  assumes "\<forall>s \<in> set ss. plain s" "list_all node_ok ns" "length (document_image ss ids ns) < 2 ^ 32"
  shows "Test_BinaryAxml key (document_image ss ids ns) =
    bind_sum (run_nodes key ns (8 + length (pool_image ss @ map_image ids)) (axml_start ss ids)) (finish (length (document_image ss ids ns)))"
proof -
  let ?rest = "pool_image ss @ map_image ids @ concat (map enc_node ns)"
  let ?H = "\<lparr>chunk_type = RES_XML_TYPE, headerSize = 8, chunk_size = of_nat (8 + length ?rest)\<rparr>"
  let ?d = "document_image ss ids ns"
  have d: "?d = [] @ enc_ResChunk_header ?H @ ?rest @ []" by (simp add: document_image_def Let_def)
  have small: "8 + length ?rest < 2 ^ 32" "pool_size ss < 2 ^ 32" "8 + 4 * length ids < 2 ^ 32"
    using assms(3) by (simp_all add: document_image_def Let_def pool_length map_length codec_simps)
  have "4 dvd length ?rest" using pool_size_dvd [of ss] nodes_dvd [of ns] by (simp add: pool_length map_length)
  then have dvd: "4 dvd 8 + length ?rest" by simp
  have H: "unat (headerSize ?H) = 8" "unat (chunk_size ?H) = 8 + length ?rest"
    using small(1) by (simp_all only: ResChunk_header.select_convs, simp_all add: unat_of_nat del: of_nat_add length_append)
  note header = header_read [OF H _ _ _ dvd, of 8 "[]" "[]", folded d]
  have total: "length ?d = 8 + length ?rest" by (simp add: d codec_simps)
  have size: "rd32 ?d 4 = Some (chunk_size ?H)" unfolding d by (simp add: enc_ResChunk_header_def codec_simps)
  have "?d = enc_ResChunk_header ?H @ pool_image ss @ map_image ids @ concat (map enc_node ns)" by (simp add: d)
  note pool = walk_pool [OF assms(1) small(2) this]
  have "?d = (enc_ResChunk_header ?H @ pool_image ss) @ map_image ids @ concat (map enc_node ns)" by (simp add: d)
  note ids = walk_map [OF small(3) this]
  have "?d = (enc_ResChunk_header ?H @ pool_image ss @ map_image ids) @ concat (map enc_node ns)" by (simp add: d)
  note nodes = walk_nodes [OF assms(2) this]
  have walk: "walk key ?d 8 axml_init = run_nodes key ns (8 + length (pool_image ss @ map_image ids)) (axml_start ss ids)"
    using pool [of key axml_init] ids [of key] nodes [of key] by (simp add: codec_simps axml_start_def axml_init_def)
  have keeps: "sawStringPool st \<and> sawResourceMap st" if "run_nodes key ns c (axml_start ss ids) = Inr st" for c st
    using run_nodes_keeps [OF that] by (simp add: axml_start_def)
  have "\<not> length ?d < 8" by (simp add: total)
  moreover have "rd16 ?d 0 = Some RES_XML_TYPE" "Test_ResChunkHeader ?d 0 8 (length ?d) = Inr (8, 8 + length ?rest)"
    using header by simp_all
  moreover have "unat (chunk_size ?H) = length ?d" using H(2) total by simp
  ultimately show ?thesis
    unfolding Test_BinaryAxml_def
    by (simp add: size walk del: ResChunk_header.select_convs)
      (use keeps in \<open>auto simp: bind_sum_def finish_def total split: sum.split\<close>)
qed

end
