(* ===== verification/Axml_Roundtrip.thy ===== *)
theory Axml_Roundtrip
  imports Axml_Walk
begin

text \<open>
  A document that the emitters write is accepted by the reader, which returns the elements that were
  written: names, depths, attributes as text or number, and the resource id of every attribute name.
\<close>

section \<open>Looking strings up\<close>

lemma str_map_snoc: "str_map key (ss @ [s]) = (str_map key ss)(key s \<mapsto> length ss)"
  by (simp add: str_map_def enumerate_append_eq)

lemma str_map_Some:
  "str_map key ss k = Some i \<Longrightarrow> i < length ss \<and> key (ss ! i) = k \<and> (\<forall>j. i < j \<longrightarrow> j < length ss \<longrightarrow> key (ss ! j) \<noteq> k)"
proof (induction ss rule: rev_induct)
  case Nil
  then show ?case by (simp add: str_map_def)
next
  case (snoc s ss)
  then show ?case by (auto simp: str_map_snoc nth_append less_Suc_eq split: if_splits)
qed

lemma str_map_defined: "k \<in> key ` set ss \<Longrightarrow> \<exists>i. str_map key ss k = Some i"
  by (induction ss rule: rev_induct) (auto simp: str_map_snoc)

text \<open>A string that is found is the one that was asked for when no other string has its key.\<close>

definition findable :: "(utf16 \<Rightarrow> utf16) \<Rightarrow> utf16 list \<Rightarrow> utf16 \<Rightarrow> bool" where
  "findable key ss x \<longleftrightarrow> x \<in> set ss \<and> (\<forall>y \<in> set ss. key y = key x \<longrightarrow> y = x)"

lemma found:
  assumes "findable key ss x" "length ss < 2 ^ 31"
  obtains i where "i < length ss" "ss ! i = x" "S key ss x = of_nat i" "\<forall>j. i < j \<longrightarrow> j < length ss \<longrightarrow> ss ! j \<noteq> x"
    "sint (S key ss x) = int i"
proof -
  obtain i where i: "str_map key ss (key x) = Some i" using str_map_defined [of "key x" key ss] assms(1) by (auto simp: findable_def)
  note at = str_map_Some [OF i]
  have "ss ! i = x" using at assms(1) by (auto simp: findable_def)
  moreover have "S key ss x = of_nat i" by (simp add: S_def i)
  moreover have "\<forall>j. i < j \<longrightarrow> j < length ss \<longrightarrow> ss ! j \<noteq> x" using at by auto
  moreover have "sint (of_nat i :: u32) = int i"
    using at assms(2) by (simp add: signed_of_nat signed_take_bit_int_eq_self)
  ultimately show ?thesis using that at by metis
qed

section \<open>Attributes\<close>

definition attr_good :: "(utf16 \<Rightarrow> utf16) \<Rightarrow> utf16 list \<Rightarrow> xml_attr \<Rightarrow> bool" where
  "attr_good key ss a \<longleftrightarrow> findable key ss (Attr_Name a) \<and> (HasNs a \<longrightarrow> findable key ss android_uri) \<and>
     (RawVal a = 0xFFFFFFFF \<or> (\<exists>v. findable key ss v \<and> RawVal a = S key ss v))"

text \<open>What is read back: the text or the number, and the entry of the resource map at the index of the name.\<close>

definition attr_read :: "utf16 list \<Rightarrow> xml_attr \<Rightarrow> attr_value" where
  "attr_read ss a = (if RawVal a = 0xFFFFFFFF then Num_value (Data a) else Str_value (ss ! unat (RawVal a)))"

definition name_id :: "(utf16 \<Rightarrow> utf16) \<Rightarrow> utf16 list \<Rightarrow> u32 list \<Rightarrow> utf16 \<Rightarrow> u32" where
  "name_id key ss ids x = (let i = unat (S key ss x) in if i < length ids then ids ! i else 0)"

definition attr_identity :: "(utf16 \<Rightarrow> utf16) \<Rightarrow> utf16 list \<Rightarrow> u32 list \<Rightarrow> xml_attr \<Rightarrow> identity" where
  "attr_identity key ss ids a = \<lparr>id_name = Attr_Name a, Namespaced = HasNs a, ResourceId = name_id key ss ids (Attr_Name a)\<rparr>"

definition put_all :: "(utf16 \<Rightarrow> utf16) \<Rightarrow> utf16 list \<Rightarrow> xml_attr list \<Rightarrow> (utf16 \<times> attr_value) list \<Rightarrow> (utf16 \<times> attr_value) list" where
  "put_all key ss as d = fold (\<lambda>a. put key (Attr_Name a) (attr_read ss a)) as d"

lemma none_index: "sint (0xFFFFFFFF :: u32) = - 1" by simp

lemma ps_index_found: "ss ! i = x \<Longrightarrow> i < length ss \<Longrightarrow> ps_index ss (int i) = Some x"
  by (simp add: ps_index_def)

lemma take_attributes_good:
  assumes "length ss < 2 ^ 31"
  shows "list_all (attr_good key ss) as \<Longrightarrow>
    take_attributes key ss ids (map (resolve_attr (S key ss)) as) d is = Inr (put_all key ss as d, is @ map (attr_identity key ss ids) as)"
proof (induction as arbitrary: d "is")
  case (Cons a as)
  have good: "attr_good key ss a" "list_all (attr_good key ss) as" using Cons.prems by simp_all
  obtain i where i: "i < length ss" "ss ! i = Attr_Name a" "S key ss (Attr_Name a) = of_nat i" "sint (S key ss (Attr_Name a)) = int i"
    using found [OF _ assms] good(1) unfolding attr_good_def by metis
  have u: "unat (S key ss (Attr_Name a)) = i"
    using i(1) assms unfolding i(3) by (simp add: unat_of_nat)
  have name: "ps_index ss (int i) = Some (Attr_Name a)" using i(1,2) by (simp add: ps_index_found)
  have ns: "(0 \<le> sint (if HasNs a then S key ss android_uri else 0xFFFFFFFF)) = HasNs a"
  proof (cases "HasNs a")
    case True
    then obtain k where "sint (S key ss android_uri) = int k" using found [OF _ assms] good(1) unfolding attr_good_def by metis
    then show ?thesis using True by simp
  qed simp
  have read: "(if 0 \<le> sint (RawVal a) then bind_sum (get (ps_index ss (sint (RawVal a)))) (\<lambda>t. Inr (Str_value t)) else Inr (Num_value (Data a))) =
      Inr (attr_read ss a)"
  proof (cases "RawVal a = 0xFFFFFFFF")
    case True
    then show ?thesis by (simp add: attr_read_def none_index)
  next
    case False
    then obtain v where v: "findable key ss v" "RawVal a = S key ss v" using good(1) by (auto simp: attr_good_def)
    obtain k where k: "k < length ss" "ss ! k = v" "S key ss v = of_nat k" "sint (S key ss v) = int k" by (rule found [OF v(1) assms]) blast
    have "unat (S key ss v) = k" using k(1) assms unfolding k(3) by (simp add: unat_of_nat)
    then show ?thesis using False v(2) k by (simp add: attr_read_def ps_index_found)
  qed
  have "take_attributes key ss ids (map (resolve_attr (S key ss)) (a # as)) d is =
      take_attributes key ss ids (map (resolve_attr (S key ss)) as) (put key (Attr_Name a) (attr_read ss a) d) (is @ [attr_identity key ss ids a])"
    using read by (simp add: resolve_attr_def name ns i(4) Let_def attr_identity_def name_id_def u cong: if_cong)
  then show ?case using Cons.IH [OF good(2)] by (simp add: put_all_def)
qed (simp add: put_all_def)

section \<open>Elements\<close>

fun call_good :: "(utf16 \<Rightarrow> utf16) \<Rightarrow> utf16 list \<Rightarrow> xml_call \<Rightarrow> bool" where
  "call_good key ss (StartElem n as l) \<longleftrightarrow> findable key ss n \<and> list_all (attr_good key ss) as \<and> length as < 2 ^ 16"
| "call_good key ss _ \<longleftrightarrow> True"

text \<open>Proper nesting: an element closes the one that was opened last, a namespace the one of its prefix.\<close>

fun nested :: "utf16 list \<Rightarrow> utf16 list \<Rightarrow> xml_call list \<Rightarrow> bool" where
  "nested open_elems open_ns [] \<longleftrightarrow> open_elems = [] \<and> open_ns = []"
| "nested open_elems open_ns (StartNs p u l # cs) \<longleftrightarrow> nested open_elems (p # open_ns) cs"
| "nested open_elems open_ns (EndNs p u l # cs) \<longleftrightarrow> open_ns \<noteq> [] \<and> hd open_ns = p \<and> nested open_elems (tl open_ns) cs"
| "nested open_elems open_ns (StartElem n as l # cs) \<longleftrightarrow> nested (n # open_elems) open_ns cs"
| "nested open_elems open_ns (EndElem n l # cs) \<longleftrightarrow> open_elems \<noteq> [] \<and> hd open_elems = n \<and> nested (tl open_elems) open_ns cs"

fun call_elements :: "(utf16 \<Rightarrow> utf16) \<Rightarrow> utf16 list \<Rightarrow> u32 list \<Rightarrow> int \<Rightarrow> xml_call list \<Rightarrow> axml_element list" where
  "call_elements key ss ids k [] = []"
| "call_elements key ss ids k (StartElem n as l # cs) =
     \<lparr>elem_name = n, elem_depth = k + 1, attributes = put_all key ss as [], identities = map (attr_identity key ss ids) as\<rparr> #
     call_elements key ss ids (k + 1) cs"
| "call_elements key ss ids k (EndElem n l # cs) = call_elements key ss ids (k - 1) cs"
| "call_elements key ss ids k (_ # cs) = call_elements key ss ids k cs"

lemma run_calls:
  assumes "length ss < 2 ^ 31"
  shows "list_all (call_good key ss) cs \<Longrightarrow> nested es nss cs \<Longrightarrow> pool_strings st = ss \<Longrightarrow> resourceIds st = ids \<Longrightarrow>
    depth st = int (length es) \<Longrightarrow> namespaceDepth st = int (length nss) \<Longrightarrow>
    run_nodes key (map (resolve (S key ss)) cs) cursor st =
      Inr (st\<lparr>depth := 0, namespaceDepth := 0, elements := elements st + length (call_elements key ss ids (depth st) cs),
        parsed := parsed st @ call_elements key ss ids (depth st) cs\<rparr>)"
proof (induction cs arbitrary: es nss st cursor)
  case Nil
  then show ?case by simp
next
  case (Cons c cs)
  have good: "call_good key ss c" "list_all (call_good key ss) cs" using Cons.prems(1) by simp_all
  let ?at = "cursor + length (enc_node (resolve (S key ss) c))"
  let ?tail = "\<lambda>st. st\<lparr>depth := 0, namespaceDepth := 0, elements := elements st + length (call_elements key ss ids (depth st) cs),
    parsed := parsed st @ call_elements key ss ids (depth st) cs\<rparr>"
  have run: "run_nodes key (map (resolve (S key ss)) (c # cs)) cursor st = run_nodes key (map (resolve (S key ss)) cs) ?at st'"
    if "node_step key (resolve (S key ss) c) cursor st = Inr st'" for st'
    using that by (simp del: enc_node.simps)
  show ?case
  proof (cases c)
    case (StartNs p u l)
    let ?st = "st\<lparr>namespaceDepth := namespaceDepth st + 1\<rparr>"
    have "run_nodes key (map (resolve (S key ss)) cs) ?at ?st = Inr (?tail ?st)"
      by (rule Cons.IH [OF good(2), of es "p # nss"]) (use Cons.prems StartNs in simp_all)
    moreover have "node_step key (resolve (S key ss) c) cursor st = Inr ?st" by (simp add: StartNs)
    ultimately show ?thesis by (simp only: run) (simp add: StartNs)
  next
    case (EndNs p u l)
    then obtain ns' where ns: "nss = p # ns'" "nested es ns' cs" using Cons.prems(2) by (cases nss) simp_all
    let ?st = "st\<lparr>namespaceDepth := namespaceDepth st - 1\<rparr>"
    have "run_nodes key (map (resolve (S key ss)) cs) ?at ?st = Inr (?tail ?st)"
      by (rule Cons.IH [OF good(2) ns(2)]) (use Cons.prems ns(1) in simp_all)
    moreover have "node_step key (resolve (S key ss) c) cursor st = Inr ?st" by (simp add: EndNs)
    ultimately show ?thesis by (simp only: run) (simp add: EndNs)
  next
    case (EndElem n l)
    then obtain es' where es: "es = n # es'" "nested es' nss cs" using Cons.prems(2) by (cases es) simp_all
    let ?st = "st\<lparr>depth := depth st - 1\<rparr>"
    have "run_nodes key (map (resolve (S key ss)) cs) ?at ?st = Inr (?tail ?st)"
      by (rule Cons.IH [OF good(2) es(2)]) (use Cons.prems es(1) in simp_all)
    moreover have "node_step key (resolve (S key ss) c) cursor st = Inr ?st" using Cons.prems(5) es(1) by (simp add: EndElem)
    ultimately show ?thesis by (simp only: run) (simp add: EndElem)
  next
    case (StartElem n as l)
    then have "findable key ss n" using good(1) by simp
    then obtain i where i: "i < length ss" "ss ! i = n" "sint (S key ss n) = int i" by (rule found [OF _ assms]) blast
    have name: "ps_index ss (int i) = Some n" using i(1,2) by (simp add: ps_index_found)
    have attrs: "take_attributes key ss ids (map (resolve_attr (S key ss)) as) [] [] =
        Inr (put_all key ss as [], map (attr_identity key ss ids) as)"
      using take_attributes_good [OF assms] good(1) StartElem by simp
    let ?e = "\<lparr>elem_name = n, elem_depth = depth st + 1, attributes = put_all key ss as [], identities = map (attr_identity key ss ids) as\<rparr>"
    let ?st = "st\<lparr>depth := depth st + 1, elements := elements st + 1, parsed := parsed st @ [?e]\<rparr>"
    have step: "node_step key (resolve (S key ss) c) cursor st = Inr ?st"
      using Cons.prems(3,4) by (simp add: StartElem name attrs i(3))
    have "run_nodes key (map (resolve (S key ss)) cs) ?at ?st = Inr (?tail ?st)"
      by (rule Cons.IH [OF good(2), of "n # es" nss]) (use Cons.prems StartElem in simp_all)
    then show ?thesis unfolding run [OF step] by (simp add: StartElem)
  qed
qed

section \<open>The round trip\<close>

fun call_size :: "xml_call \<Rightarrow> nat" where
  "call_size (StartElem n as l) = 36 + 20 * length as"
| "call_size _ = 24"

definition axml_fits :: "utf16 list \<Rightarrow> u32 list \<Rightarrow> xml_call list \<Rightarrow> bool" where
  "axml_fits ss ids cs \<longleftrightarrow> ss \<noteq> [] \<and> [] \<notin> set ss \<and>
     8 + pool_size ss + (8 + 4 * length ids) + sum_list (map call_size cs) < 2 ^ 32"

lemma calls_length:
  "length (concat (map (enc_node \<circ> resolve s) cs)) = sum_list (map call_size cs)"
proof (induction cs)
  case (Cons c cs)
  then show ?case by (cases c) (simp_all add: node_length del: enc_node.simps)
qed simp

lemma pool_size_strings: "4 * length ss \<le> pool_size ss"
  by (simp add: pool_size_def)

lemma document_written:
  assumes "axml_fits ss ids cs" "\<forall>s \<in> set ss. plain s" "list_all (call_good key ss) cs"
  shows "write_axml key ss ids cs = Some (document_image ss ids (map (resolve (S key ss)) cs))"
    "length (document_image ss ids (map (resolve (S key ss)) cs)) < 2 ^ 32" "list_all node_ok (map (resolve (S key ss)) cs)"
proof -
  have ok: "list_all (\<lambda>c. node_ok (resolve (S key ss) c)) cs"
  proof -
    have "call_good key ss c \<Longrightarrow> node_ok (resolve (S key ss) c)" for c by (cases c) simp_all
    then show ?thesis using assms(3) by (auto simp: list_all_iff)
  qed
  then show "list_all node_ok (map (resolve (S key ss)) cs)" by (simp add: list_all_iff)
  have fits: "ss \<noteq> []" "[] \<notin> set ss" "pool_size ss < 2 ^ 32" "8 + 4 * length ids < 2 ^ 32"
    "8 + length (pool_image ss) + length (map_image ids) + length (concat (map (enc_node \<circ> resolve (S key ss)) cs)) < 2 ^ 32"
    using assms(1) by (simp_all add: axml_fits_def calls_length pool_length map_length)
  have short: "\<forall>s \<in> set ss. length s < 2 ^ 16" using assms(2) by (auto simp: plain_def)
  show "length (document_image ss ids (map (resolve (S key ss)) cs)) < 2 ^ 32"
    using fits(5) by (simp add: document_image_def Let_def codec_simps)
  show "write_axml key ss ids cs = Some (document_image ss ids (map (resolve (S key ss)) cs))"
    using fits(5) by (simp add: write_axml_def pool_written [OF fits(1,2) short fits(3)] map_written [OF fits(4)] calls_written [OF ok]
      write_document_def cast32_def document_image_def Let_def enc_ResChunk_header_def add.assoc)
qed

lemma document_round_trip:
  assumes "axml_fits ss ids cs" "\<forall>s \<in> set ss. plain s" "list_all (call_good key ss) cs" "nested [] [] cs"
  obtains d where "write_axml key ss ids cs = Some d"
    "Test_BinaryAxml key d = Inr \<lparr>FileSize = length d, ElementCount = length (call_elements key ss ids 0 cs), Strings = ss,
       Elements = call_elements key ss ids 0 cs\<rparr>"
proof -
  note written = document_written [OF assms(1-3)]
  have "length ss < 2 ^ 31" using assms(1) pool_size_strings [of ss] by (simp add: axml_fits_def)
  from run_calls [OF this assms(3,4)] show ?thesis
    using that [OF written(1)] document_read [OF assms(2) written(3,2)]
    by (simp add: axml_start_def axml_init_def finish_def)
qed

text \<open>
  C23. Any sequence of the emitters' calls that is properly nested makes a document that the reader accepts, and
  what it lists is what was called for: the strings of the pool, every element with its name and depth, every
  attribute with its text or number, and for every attribute name the entry of the resource map at its index.
\<close>

theorem axml_round_trip:
  assumes "axml_fits ss ids cs" "\<forall>s \<in> set ss. plain s" "list_all (call_good key ss) cs" "nested [] [] cs"
  shows "\<exists>d. write_axml key ss ids cs = Some d \<and>
    Test_BinaryAxml key d = Inr \<lparr>FileSize = length d, ElementCount = length (call_elements key ss ids 0 cs), Strings = ss,
      Elements = call_elements key ss ids 0 cs\<rparr>"
  using document_round_trip [OF assms] by blast

end
