(* ===== verification/Axml_Tree.thy ===== *)
theory Axml_Tree
  imports Axml_Roundtrip
begin

text \<open>
  What a binary XML document means: a tree of elements whose attributes are texts or numbers, with no
  string pool and no indices.  The calls of the emitters that write a tree, and what the reader lists of it.
\<close>

section \<open>Trees\<close>

text \<open>An attribute: whether it is in the android namespace, its name, and its text or its typed number.\<close>

datatype attr_spec = Text_attr bool utf16 utf16 | Num_attr bool utf16 u8 u32

fun spec_ns :: "attr_spec \<Rightarrow> bool" where
  "spec_ns (Text_attr b n v) = b"
| "spec_ns (Num_attr b n t v) = b"

fun spec_name :: "attr_spec \<Rightarrow> utf16" where
  "spec_name (Text_attr b n v) = n"
| "spec_name (Num_attr b n t v) = n"

fun spec_value :: "attr_spec \<Rightarrow> attr_value" where
  "spec_value (Text_attr b n v) = Str_value v"
| "spec_value (Num_attr b n t v) = Num_value v"

fun spec_strings :: "attr_spec \<Rightarrow> utf16 list" where
  "spec_strings (Text_attr b n v) = [n, v]"
| "spec_strings (Num_attr b n t v) = [n]"

fun render :: "(utf16 \<Rightarrow> u32) \<Rightarrow> attr_spec \<Rightarrow> xml_attr" where
  "render s (Text_attr b n v) = Attr_String s n v b"
| "render s (Num_attr b n t v) = \<lparr>HasNs = b, Attr_Name = n, RawVal = 0xFFFFFFFF, DataType = t, Data = v\<rparr>"

datatype xml_tree = Tree (tag: utf16) (tag_attrs: "attr_spec list") (tag_line: u32) (subtrees: "xml_tree list")

fun tree_calls :: "(utf16 \<Rightarrow> u32) \<Rightarrow> xml_tree \<Rightarrow> xml_call list" where
  "tree_calls s (Tree n as l ts) = StartElem n (map (render s) as) l # concat (map (tree_calls s) ts) @ [EndElem n l]"

definition tree_document :: "(utf16 \<Rightarrow> u32) \<Rightarrow> utf16 \<Rightarrow> u32 \<Rightarrow> xml_tree \<Rightarrow> xml_call list" where
  "tree_document s prefix l t = StartNs prefix android_uri l # tree_calls s t @ [EndNs prefix android_uri l]"

text \<open>The elements of a tree in document order, with their depths and the id of every attribute name.\<close>

fun listing :: "(utf16 \<Rightarrow> u32) \<Rightarrow> int \<Rightarrow> xml_tree \<Rightarrow> axml_element list" where
  "listing idf k (Tree n as l ts) =
     \<lparr>elem_name = n, elem_depth = k + 1, attributes = map (\<lambda>a. (spec_name a, spec_value a)) as,
       identities = map (\<lambda>a. \<lparr>id_name = spec_name a, Namespaced = spec_ns a, ResourceId = idf (spec_name a)\<rparr>) as\<rparr> #
     concat (map (listing idf (k + 1)) ts)"

fun tree_strings :: "xml_tree \<Rightarrow> utf16 list" where
  "tree_strings (Tree n as l ts) = n # concat (map spec_strings as) @ concat (map tree_strings ts)"

text \<open>No element has an attribute twice, and none has too many for the count.\<close>

fun tree_ok :: "xml_tree \<Rightarrow> bool" where
  "tree_ok (Tree n as l ts) \<longleftrightarrow> distinct (map spec_name as) \<and> length as < 2 ^ 16 \<and> list_all tree_ok ts"

section \<open>Nesting\<close>

lemma nested_trees:
  "(\<And>t cs. t \<in> set ts \<Longrightarrow> nested es nss (tree_calls s t @ cs) = nested es nss cs) \<Longrightarrow>
   nested es nss (concat (map (tree_calls s) ts) @ cs) = nested es nss cs"
  by (induction ts) simp_all

lemma nested_tree: "nested es nss (tree_calls s t @ cs) = nested es nss cs"
proof (induction t arbitrary: es cs)
  case (Tree n as l ts)
  then show ?case by (simp add: nested_trees)
qed

lemma nested_document: "nested [] [] (tree_document s prefix l t)"
  by (simp add: tree_document_def nested_tree)

section \<open>Strings that are there\<close>

lemma findable_in: "inj_on key (set ss) \<Longrightarrow> x \<in> set ss \<Longrightarrow> findable key ss x"
  by (auto simp: findable_def dest: inj_onD)

lemma S_in:
  assumes "inj_on key (set ss)" "x \<in> set ss" "length ss < 2 ^ 31"
  shows "unat (S key ss x) < length ss" "ss ! unat (S key ss x) = x" "S key ss x \<noteq> 0xFFFFFFFF"
proof -
  obtain i where i: "i < length ss" "ss ! i = x" "S key ss x = of_nat i"
    by (rule found [OF findable_in [OF assms(1,2)] assms(3)]) blast
  have u: "unat (S key ss x) = i" using i(1) assms(3) unfolding i(3) by (simp add: unat_of_nat)
  then show "unat (S key ss x) < length ss" "ss ! unat (S key ss x) = x" using i by simp_all
  have "unat (S key ss x) \<noteq> unat (0xFFFFFFFF :: u32)" unfolding u using i(1) assms(3) by simp
  then show "S key ss x \<noteq> 0xFFFFFFFF" by metis
qed

lemma spec_render [simp]: "HasNs (render s a) = spec_ns a" "Attr_Name (render s a) = spec_name a"
  by (cases a; simp add: Attr_String_def)+

lemma render_good:
  assumes "inj_on key (set ss)" "set (spec_strings a) \<subseteq> set ss" "android_uri \<in> set ss"
  shows "attr_good key ss (render (S key ss) a)"
proof (cases a)
  case (Text_attr b n v)
  then have "findable key ss n" "findable key ss v" "findable key ss android_uri" using assms by (simp_all add: findable_in)
  then show ?thesis using Text_attr unfolding attr_good_def by (auto simp: Attr_String_def)
next
  case (Num_attr b n t v)
  then show ?thesis using assms by (simp add: attr_good_def findable_in)
qed

lemma render_read:
  assumes "inj_on key (set ss)" "set (spec_strings a) \<subseteq> set ss" "length ss < 2 ^ 31"
  shows "attr_read ss (render (S key ss) a) = spec_value a"
  using assms S_in [OF assms(1) _ assms(3)] by (cases a) (simp_all add: attr_read_def Attr_String_def)

section \<open>Attributes of an element\<close>

lemma put_new: "key k \<notin> key ` fst ` set d \<Longrightarrow> put key k v d = d @ [(k, v)]"
proof -
  assume "key k \<notin> key ` fst ` set d"
  then have "\<not> (\<exists>(k', _) \<in> set d. key k' = key k)" by (force simp: image_iff)
  then show ?thesis unfolding put_def by (simp only: if_False)
qed

lemma put_all_distinct:
  "distinct (map (key \<circ> Attr_Name) as) \<Longrightarrow> key ` fst ` set d \<inter> key ` Attr_Name ` set as = {} \<Longrightarrow>
   put_all key ss as d = d @ map (\<lambda>a. (Attr_Name a, attr_read ss a)) as"
proof (induction as arbitrary: d)
  case (Cons a as)
  have "put key (Attr_Name a) (attr_read ss a) d = d @ [(Attr_Name a, attr_read ss a)]"
    using Cons.prems(2) by (intro put_new) auto
  moreover have "put_all key ss as (d @ [(Attr_Name a, attr_read ss a)]) =
      (d @ [(Attr_Name a, attr_read ss a)]) @ map (\<lambda>a. (Attr_Name a, attr_read ss a)) as"
    using Cons.prems by (intro Cons.IH) (auto simp: image_iff)
  ultimately show ?case by (simp add: put_all_def)
qed (simp add: put_all_def)

lemma spec_name_in: "spec_name a \<in> set (spec_strings a)"
  by (cases a) simp_all

lemma rendered_attributes:
  assumes "inj_on key (set ss)" "\<forall>a \<in> set as. set (spec_strings a) \<subseteq> set ss" "distinct (map spec_name as)" "length ss < 2 ^ 31"
  shows "put_all key ss (map (render (S key ss)) as) [] = map (\<lambda>a. (spec_name a, spec_value a)) as"
proof -
  have "spec_name ` set as \<subseteq> set ss" using assms(2) spec_name_in by fastforce
  then have "inj_on key (set (map spec_name as))" using assms(1) inj_on_subset by (metis list.set_map)
  then have "distinct (map key (map spec_name as))" using assms(3) by (subst distinct_map) (rule conjI)
  then have "distinct (map (key \<circ> Attr_Name) (map (render (S key ss)) as))" by (simp add: comp_def)
  from put_all_distinct [OF this, of "[]" ss] show ?thesis
    using render_read [OF assms(1) _ assms(4)] assms(2) by simp
qed

section \<open>Elements of a tree\<close>

lemma call_elements_tree:
  assumes "inj_on key (set ss)" "length ss < 2 ^ 31"
  shows "tree_ok t \<Longrightarrow> set (tree_strings t) \<subseteq> set ss \<Longrightarrow>
    call_elements key ss ids k (tree_calls (S key ss) t @ cs) = listing (name_id key ss ids) k t @ call_elements key ss ids k cs"
proof (induction t arbitrary: k cs)
  case (Tree n as l ts)
  have sub: "call_elements key ss ids k' (concat (map (tree_calls (S key ss)) us) @ cs') =
      concat (map (listing (name_id key ss ids) k') us) @ call_elements key ss ids k' cs'" if "set us \<subseteq> set ts" for us k' cs'
    using that
  proof (induction us)
    case (Cons u us)
    then have "tree_ok u" "set (tree_strings u) \<subseteq> set ss" using Tree.prems by (auto simp: list_all_iff)
    then show ?case using Tree.IH [of u] Cons by simp
  qed simp
  have "put_all key ss (map (render (S key ss)) as) [] = map (\<lambda>a. (spec_name a, spec_value a)) as"
    using Tree.prems by (intro rendered_attributes [OF assms(1) _ _ assms(2)]) auto
  then show ?case by (simp add: sub attr_identity_def)
qed

lemma calls_good_tree:
  assumes "inj_on key (set ss)" "android_uri \<in> set ss"
  shows "tree_ok t \<Longrightarrow> set (tree_strings t) \<subseteq> set ss \<Longrightarrow> list_all (call_good key ss) (tree_calls (S key ss) t)"
proof (induction t)
  case (Tree n as l ts)
  have "list_all (call_good key ss) (tree_calls (S key ss) u)" if "u \<in> set ts" for u
  proof (rule Tree.IH [OF that])
    show "tree_ok u" "set (tree_strings u) \<subseteq> set ss" using Tree.prems that by (auto simp: list_all_iff)
  qed
  then have "list_all (call_good key ss) (concat (map (tree_calls (S key ss)) ts))"
    unfolding list_all_iff set_concat set_map by blast
  moreover have "list_all (attr_good key ss) (map (render (S key ss)) as)"
    using Tree.prems(2) render_good [OF assms(1) _ assms(2)] by (auto simp: list_all_iff)
  ultimately show ?case using Tree.prems findable_in [OF assms(1)] by simp
qed

text \<open>The size of the calls of a tree.\<close>

fun tree_size :: "xml_tree \<Rightarrow> nat" where
  "tree_size (Tree n as l ts) = 60 + 20 * length as + sum_list (map tree_size ts)"

lemma calls_size_tree: "sum_list (map call_size (tree_calls s t)) = tree_size t"
proof (induction t)
  case (Tree n as l ts)
  then have "sum_list (map call_size (concat (map (tree_calls s) ts))) = sum_list (map tree_size ts)"
    by (induction ts) simp_all
  then show ?case by simp
qed

lemma tree_document_read:
  assumes "inj_on key (set ss)" "\<forall>s \<in> set ss. plain s" "[] \<notin> set ss" "set (tree_strings t) \<subseteq> set ss" "android_uri \<in> set ss" "tree_ok t"
    "8 + pool_size ss + (8 + 4 * length ids) + (48 + tree_size t) < 2 ^ 32"
  obtains d where "write_axml key ss ids (tree_document (S key ss) prefix l t) = Some d"
    "Test_BinaryAxml key d = Inr \<lparr>FileSize = length d, ElementCount = length (listing (name_id key ss ids) 0 t), Strings = ss,
       Elements = listing (name_id key ss ids) 0 t\<rparr>"
proof -
  have short: "length ss < 2 ^ 31" using assms(7) pool_size_strings [of ss] by simp
  have fits: "axml_fits ss ids (tree_document (S key ss) prefix l t)"
    using assms(3,5,7) calls_size_tree [of "S key ss" t] by (auto simp: axml_fits_def tree_document_def)
  have good: "list_all (call_good key ss) (tree_document (S key ss) prefix l t)"
    using calls_good_tree [OF assms(1,5,6,4)] by (simp add: tree_document_def)
  have "call_elements key ss ids 0 (tree_document (S key ss) prefix l t) = listing (name_id key ss ids) 0 t"
    using call_elements_tree [OF assms(1) short assms(6,4)] by (simp add: tree_document_def)
  with document_round_trip [OF fits assms(2) good nested_document] that show ?thesis by metis
qed

lemma pool_size_bound: "pool_size ss \<le> 31 + (\<Sum>s \<leftarrow> ss. 8 + 2 * length s)"
proof -
  have "length (pool_bytes ss) = (\<Sum>s \<leftarrow> ss. 4 + 2 * length s)" by (induction ss) (simp_all add: pool_bytes_def)
  moreover have "length (pool_padding ss) \<le> 3" by (simp add: pool_padding_def)
  moreover have "4 * length ss + (\<Sum>s \<leftarrow> ss. 4 + 2 * length s) = (\<Sum>s \<leftarrow> ss. 8 + 2 * length s)" by (induction ss) simp_all
  ultimately show ?thesis by (simp add: pool_size_def)
qed

lemma pool_size_plain: "\<forall>s \<in> set ss. plain s \<Longrightarrow> pool_size ss \<le> 31 + 65544 * length ss"
proof -
  assume "\<forall>s \<in> set ss. plain s"
  then have "(\<Sum>s \<leftarrow> ss. 8 + 2 * length s) \<le> 65544 * length ss" by (induction ss) (auto simp: plain_def)
  then show ?thesis using pool_size_bound [of ss] by linarith
qed

section \<open>Resource ids\<close>

text \<open>The resource map gives its ids to the first strings of the pool, when none of them comes again.\<close>

lemma name_id_map:
  assumes "inj_on key (set ss)" "length ss < 2 ^ 31" "i < length ids" "i < length ss" "\<forall>j. i < j \<longrightarrow> j < length ss \<longrightarrow> ss ! j \<noteq> ss ! i"
  shows "name_id key ss ids (ss ! i) = ids ! i"
proof -
  have mem: "ss ! i \<in> set ss" using assms(4) by simp
  obtain j where j: "j < length ss" "ss ! j = ss ! i" "S key ss (ss ! i) = of_nat j" "\<forall>k. j < k \<longrightarrow> k < length ss \<longrightarrow> ss ! k \<noteq> ss ! i"
    by (rule found [OF findable_in [OF assms(1) mem] assms(2)]) blast
  have "j = i" using j(1,2,4) assms(4,5) by (metis linorder_neqE_nat)
  then have "unat (S key ss (ss ! i)) = i" using j(1) assms(2) unfolding j(3) by (simp add: unat_of_nat)
  then show ?thesis using assms(3) by (simp add: name_id_def)
qed

lemma name_id_table:
  assumes "inj_on key (set (map fst table @ rest))" "length (map fst table @ rest) < 2 ^ 31"
    "distinct (map fst table)" "fst ` set table \<inter> set rest = {}" "(n, i) \<in> set table"
  shows "name_id key (map fst table @ rest) (map snd table) n = i"
proof -
  let ?ss = "map fst table @ rest"
  obtain k where k: "k < length table" "table ! k = (n, i)" using assms(5) by (auto simp: in_set_conv_nth)
  have once: "?ss ! j \<noteq> ?ss ! k" if "k < j" "j < length ?ss" for j
  proof (cases "j < length table")
    case True
    then show ?thesis using assms(3) k(1) that(1) by (simp add: nth_append distinct_conv_nth)
  next
    case False
    then have "?ss ! j \<in> set rest" using that(2) by (simp add: nth_append)
    moreover have "?ss ! k \<in> fst ` set table" using k(1) by (simp add: nth_append)
    ultimately show ?thesis using assms(4) by auto
  qed
  have "name_id key ?ss (map snd table) (?ss ! k) = map snd table ! k"
    using assms(1,2) k(1) once by (intro name_id_map) auto
  then show ?thesis using k by (simp add: nth_append)
qed

section \<open>The check of the attribute ids\<close>

fun tree_specs :: "xml_tree \<Rightarrow> attr_spec list" where
  "tree_specs (Tree n as l ts) = as @ concat (map tree_specs ts)"

lemma spec_names_tree: "a \<in> set (tree_specs t) \<Longrightarrow> spec_name a \<in> set (tree_strings t)"
proof (induction t)
  case (Tree n as l ts)
  then show ?case using spec_name_in by (auto intro: rev_bexI)
qed

lemma sum_checks_append:
  "sum_checks f (xs @ ys) = bind_sum (sum_checks f xs) (\<lambda>k. bind_sum (sum_checks f ys) (\<lambda>n. Inr (k + n)))"
proof (induction xs)
  case Nil
  then show ?case by (cases "sum_checks f ys") simp_all
next
  case (Cons x xs)
  then show ?case
    by (cases "f x"; cases "sum_checks f xs"; cases "sum_checks f ys") (simp_all add: add.assoc)
qed

lemma sum_checks_ones: "\<forall>x \<in> set xs. f x = Inr 1 \<Longrightarrow> sum_checks f xs = Inr (length xs)"
  by (induction xs) simp_all

lemma identities_checked:
  assumes "\<forall>a \<in> set as. spec_ns a \<longrightarrow> declared (spec_name a) = Some (idf (spec_name a))"
  shows "sum_checks (check_identity declared e) (filter Namespaced
      (map (\<lambda>a. \<lparr>id_name = spec_name a, Namespaced = spec_ns a, ResourceId = idf (spec_name a)\<rparr>) as)) = Inr (length (filter spec_ns as))"
  using assms by (induction as) (simp_all add: check_identity_def)

lemma listing_checked:
  assumes "\<forall>a \<in> set (tree_specs t). spec_ns a \<longrightarrow> declared (spec_name a) = Some (idf (spec_name a))"
  shows "sum_checks (\<lambda>e. sum_checks (check_identity declared (elem_name e)) (filter Namespaced (identities e))) (listing idf k t) =
    Inr (length (filter spec_ns (tree_specs t)))"
  using assms
proof (induction t arbitrary: k)
  case (Tree n as l ts)
  let ?check = "\<lambda>e. sum_checks (check_identity declared (elem_name e)) (filter Namespaced (identities e))"
  have "sum_checks ?check (concat (map (listing idf k') us)) = Inr (length (filter spec_ns (concat (map tree_specs us))))"
    if "set us \<subseteq> set ts" for us k'
    using that
  proof (induction us)
    case (Cons u us)
    then have "\<forall>a \<in> set (tree_specs u). spec_ns a \<longrightarrow> declared (spec_name a) = Some (idf (spec_name a))" using Tree.prems by auto
    then show ?case using Tree.IH [of u] Cons by (simp add: sum_checks_append)
  qed simp
  moreover have "\<forall>a \<in> set as. spec_ns a \<longrightarrow> declared (spec_name a) = Some (idf (spec_name a))" using Tree.prems by simp
  ultimately show ?case by (simp add: identities_checked)
qed

lemma listing_cong:
  "(\<And>a. a \<in> set (tree_specs t) \<Longrightarrow> f (spec_name a) = g (spec_name a)) \<Longrightarrow> listing f k t = listing g k t"
proof (induction t arbitrary: k)
  case (Tree n as l ts)
  then show ?case by (auto intro!: arg_cong [where f = concat] map_cong)
qed

text \<open>The id that a table of names and ids gives a name, and that \<open>public-final.xml\<close> has the whole table.\<close>

definition table_id :: "(utf16 \<times> u32) list \<Rightarrow> utf16 \<Rightarrow> u32" where
  "table_id table n = (case map_of table n of None \<Rightarrow> 0 | Some i \<Rightarrow> i)"

definition ids_declared :: "(utf16 \<Rightarrow> u32 option) \<Rightarrow> (utf16 \<times> u32) list \<Rightarrow> bool" where
  "ids_declared declared table \<longleftrightarrow> list_all (\<lambda>(n, i). declared n = Some i) table"

lemma name_id_lookup:
  assumes "inj_on key (set (map fst table @ rest))" "length (map fst table @ rest) < 2 ^ 31"
    "distinct (map fst table)" "fst ` set table \<inter> set rest = {}" "n \<in> set (map fst table @ rest)"
  shows "name_id key (map fst table @ rest) (map snd table) n = table_id table n"
proof (cases "map_of table n")
  case None
  let ?i = "unat (S key (map fst table @ rest) n)"
  note at = S_in [OF assms(1,5,2)]
  have "length table \<le> ?i"
  proof (rule ccontr)
    assume "\<not> length table \<le> ?i"
    then have "n = map fst table ! ?i" "?i < length (map fst table)" using at(2) by (simp_all add: nth_append)
    then have "n \<in> fst ` set table" using nth_mem [of ?i "map fst table"] by simp
    then show False using None by (simp add: map_of_eq_None_iff)
  qed
  then show ?thesis using None by (simp add: name_id_def table_id_def)
next
  case (Some i)
  from name_id_table [OF assms(1-4) map_of_SomeD [OF Some]] Some show ?thesis by (simp add: table_id_def)
qed

lemma declared_id: "ids_declared declared table \<Longrightarrow> map_of table n = Some i \<Longrightarrow> declared n = Some (table_id table n)"
  using map_of_SomeD [of table n i] by (auto simp: ids_declared_def list_all_iff table_id_def)

section \<open>Strings of the program text\<close>

lemma of_char_u16: "unat (of_char c :: u16) = of_char c"
proof -
  have "of_char c < (256 :: nat)" by simp
  then have "of_char c mod 65536 = (of_char c :: nat)" by (intro mod_less) linarith
  then have "unat (of_nat (of_char c) :: u16) = of_char c" by (simp add: unat_of_nat)
  then show ?thesis by (simp only: of_nat_of_char)
qed

lemma utf16_eq [simp]: "utf16 s = utf16 t \<longleftrightarrow> s = t"
proof -
  have "inj (of_char :: char \<Rightarrow> u16)" by (rule injI) (metis of_char_u16 of_char_eq_iff)
  then show ?thesis by (auto simp: utf16_def dest: inj_map_eq_map)
qed

lemma not_surrogate: "\<not> high_surrogate (of_char c)" "\<not> low_surrogate (of_char c)"
proof -
  have "unat (of_char c :: u16) < 256" unfolding of_char_u16 by simp
  then show "\<not> high_surrogate (of_char c)" "\<not> low_surrogate (of_char c)"
    by (simp_all add: high_surrogate_def low_surrogate_def word_le_nat_alt)
qed

lemma replace_lone_plain: "\<forall>u \<in> set s. \<not> high_surrogate u \<and> \<not> low_surrogate u \<Longrightarrow> replace_lone s = s"
  by (induction s rule: replace_lone.induct) simp_all

lemma length_utf16 [simp]: "length (utf16 s) = length s"
  by (simp add: utf16_def)

lemma plain_utf16: "length s < 2 ^ 15 \<Longrightarrow> plain (utf16 s)"
  unfolding plain_def using replace_lone_plain [of "utf16 s"] by (simp add: utf16_def not_surrogate)

lemma utf16_Nil [simp]: "utf16 s = [] \<longleftrightarrow> s = []" "[] = utf16 s \<longleftrightarrow> s = []"
  by (auto simp: utf16_def)

text \<open>A comparer that ignores the case of the letters of ASCII.\<close>

definition fold_utf16 :: "utf16 \<Rightarrow> utf16" where
  "fold_utf16 s = map (\<lambda>u. if 65 \<le> u \<and> u \<le> 90 then u + 32 else u) s"

lemma fold_char:
  "(if 65 \<le> (of_char c :: u16) \<and> of_char c \<le> (90 :: u16) then of_char c + 32 else of_char c :: u16) =
   of_char (let n = of_char c :: nat in if 65 \<le> n \<and> n \<le> 90 then char_of (n + 32) else c)"
proof -
  let ?n = "of_char c :: nat"
  have le: "(65 \<le> (of_char c :: u16)) = (65 \<le> ?n)" "(of_char c \<le> (90 :: u16)) = (?n \<le> 90)"
    by (simp_all add: word_le_nat_alt of_char_u16)
  have "of_char (char_of (?n + 32) :: char) = (of_nat (?n + 32) :: u16)" if "?n \<le> 90"
  proof -
    have "of_char (char_of (?n + 32) :: char) = ?n + 32" using that by simp
    then have "of_nat (of_char (char_of (?n + 32) :: char)) = (of_nat (?n + 32) :: u16)" by (rule arg_cong)
    then show ?thesis by (simp only: of_nat_of_char)
  qed
  then show ?thesis unfolding le by (simp add: Let_def of_nat_of_char)
qed

lemma fold_utf16_utf16: "fold_utf16 (utf16 s) = utf16 (fold_case s)"
  unfolding fold_utf16_def utf16_def fold_case_def map_map by (rule map_cong [OF refl]) (simp only: comp_apply fold_char)

lemma inj_utf16: "distinct (map fold_case ss) \<Longrightarrow> inj_on fold_utf16 (set (map utf16 ss))"
  by (auto simp: inj_on_def distinct_map fold_utf16_utf16)

end
