(* ===== verification/Axml_Manifest.thy ===== *)
theory Axml_Manifest
  imports Axml_Tree
begin

text \<open>
  \<open>New-BinaryAxmlManifest\<close> of \<open>setup.ps1\<close>: the binary Android manifest of the application, and the tree of
  elements it stands for.
\<close>

section \<open>Parameters and strings\<close>

record manifest_params =
  PackageName :: utf16
  ActivityClassName :: utf16
  ActivityLabel :: utf16
  VersionCode :: int
  VersionName :: utf16
  MinSdkVersion :: int
  TargetSdkVersion :: int
  CompileSdkVersion :: int
  CompileSdkVersionCodename :: utf16
  NativeLibraryName :: utf16
  Debuggable :: bool

definition attrNames :: "bool \<Rightarrow> utf16 list" where
  "attrNames debuggable =
    [utf16 ''theme'', utf16 ''label'', utf16 ''icon'', utf16 ''name'', utf16 ''exported'', utf16 ''authorities'', utf16 ''initOrder'',
     utf16 ''launchMode'', utf16 ''value'', utf16 ''resource'', utf16 ''minSdkVersion'', utf16 ''versionCode'', utf16 ''versionName'',
     utf16 ''targetSdkVersion'', utf16 ''allowBackup'', utf16 ''required'', utf16 ''banner'', utf16 ''extractNativeLibs'', utf16 ''compileSdkVersion'',
     utf16 ''compileSdkVersionCodename''] @
    [utf16 ''hasCode''] @ (if debuggable then [utf16 ''debuggable''] else [])"

definition resIds :: "bool \<Rightarrow> u32 list" where
  "resIds debuggable =
    [0x01010000, 0x01010001, 0x01010002, 0x01010003, 0x01010010, 0x01010018, 0x0101001A, 0x0101001D, 0x01010024, 0x01010025, 0x0101020C, 0x0101021B,
     0x0101021C, 0x01010270, 0x01010280, 0x0101028E, 0x010103F2, 0x010104EA, 0x01010572, 0x01010573] @
    [0x0101000C] @ (if debuggable then [0x0101000F] else [])"

definition activityFullName :: "manifest_params \<Rightarrow> utf16" where
  "activityFullName p = PackageName p @ utf16 ''.'' @ ActivityClassName p"

definition providerAuthority :: "manifest_params \<Rightarrow> utf16" where
  "providerAuthority p = PackageName p @ utf16 ''.mono.MonoRuntimeProvider.__mono_init__''"

definition baseStrings :: "manifest_params \<Rightarrow> utf16 list" where
  "baseStrings p =
    [utf16 ''android.permission.INTERNET'', utf16 ''android.permission.ACCESS_NETWORK_STATE'', utf16 ''android.permission.WAKE_LOCK'',
     utf16 ''android.permission.POST_NOTIFICATIONS'', utf16 ''android.permission.FOREGROUND_SERVICE'',
     utf16 ''android.permission.REQUEST_INSTALL_PACKAGES'', utf16 ''uses-permission'', VersionName p, CompileSdkVersionCodename p, ActivityLabel p,
     utf16 ''action'', utf16 ''activity'', utf16 ''android'', utf16 ''android.app.Application'', utf16 ''android.hardware.touchscreen'',
     utf16 ''android.intent.action.MAIN'', utf16 ''android.intent.category.LAUNCHER'', utf16 ''android.intent.category.LEANBACK_LAUNCHER'',
     utf16 ''android.software.leanback'', utf16 ''application'', utf16 ''base'', utf16 ''category'', utf16 ''com.android.dynamic.apk.fused.modules'',
     utf16 ''com.android.vending.splits'', PackageName p, activityFullName p, providerAuthority p, android_uri, utf16 ''intent-filter'',
     utf16 ''manifest'', utf16 ''meta-data'', utf16 ''mono.MonoRuntimeProvider'', utf16 ''package'', utf16 ''platformBuildVersionCode'',
     utf16 ''platformBuildVersionName'', utf16 ''provider'', utf16 ''uses-feature'', utf16 ''uses-sdk'']"

text \<open>The strings the provider of another runtime would need are left out; \<open>same\<close> is the comparison of the operator.\<close>

definition dropped :: "(utf16 \<Rightarrow> utf16 \<Rightarrow> bool) \<Rightarrow> manifest_params \<Rightarrow> utf16 \<Rightarrow> bool" where
  "dropped same p s \<longleftrightarrow> same s (utf16 ''mono.MonoRuntimeProvider'') \<or> same s (providerAuthority p) \<or> same s (utf16 ''provider'')"

definition otherStrings :: "(utf16 \<Rightarrow> utf16 \<Rightarrow> bool) \<Rightarrow> manifest_params \<Rightarrow> utf16 list" where
  "otherStrings same p = filter (\<lambda>s. \<not> dropped same p s) (baseStrings p) @ [utf16 ''android.app.lib_name'', NativeLibraryName p]"

definition manifest_strings :: "(utf16 \<Rightarrow> utf16 \<Rightarrow> bool) \<Rightarrow> manifest_params \<Rightarrow> utf16 list" where
  "manifest_strings same p = attrNames (Debuggable p) @ otherStrings same p"

section \<open>The calls\<close>

definition permissions :: "utf16 list" where
  "permissions = [utf16 ''android.permission.INTERNET'', utf16 ''android.permission.ACCESS_NETWORK_STATE'', utf16 ''android.permission.WAKE_LOCK'',
     utf16 ''android.permission.POST_NOTIFICATIONS'', utf16 ''android.permission.FOREGROUND_SERVICE'',
     utf16 ''android.permission.REQUEST_INSTALL_PACKAGES'']"

definition permission_calls :: "(utf16 \<Rightarrow> u32) \<Rightarrow> xml_call list" where
  "permission_calls s = concat (map (\<lambda>permission.
     [StartElem (utf16 ''uses-permission'') [Attr_String s (utf16 ''name'') permission True] 10, EndElem (utf16 ''uses-permission'') 10]) permissions)"

definition feature_calls :: "(utf16 \<Rightarrow> u32) \<Rightarrow> string \<Rightarrow> u32 \<Rightarrow> xml_call list" where
  "feature_calls s feature l =
     [StartElem (utf16 ''uses-feature'') [Attr_String s (utf16 ''name'') (utf16 feature) True, Attr_Bool (utf16 ''required'') False] l,
      EndElem (utf16 ''uses-feature'') l]"

definition appAttrs :: "(utf16 \<Rightarrow> u32) \<Rightarrow> manifest_params \<Rightarrow> xml_attr list" where
  "appAttrs s p =
     (let attrs = [Attr_String s (utf16 ''label'') (ActivityLabel p) True, Attr_Ref (utf16 ''icon'') 0x7F010000,
            Attr_String s (utf16 ''name'') (utf16 ''android.app.Application'') True, Attr_Bool (utf16 ''allowBackup'') True,
            Attr_Ref (utf16 ''banner'') 0x7F010002, Attr_Bool (utf16 ''extractNativeLibs'') True];
          flags = [Attr_Bool (utf16 ''hasCode'') True] @ (if Debuggable p then [Attr_Bool (utf16 ''debuggable'') True] else [])
      in take 3 attrs @ flags @ drop 3 attrs)"

definition action_calls :: "(utf16 \<Rightarrow> u32) \<Rightarrow> string \<Rightarrow> string \<Rightarrow> u32 \<Rightarrow> xml_call list" where
  "action_calls s element value_name l =
     [StartElem (utf16 element) [Attr_String s (utf16 ''name'') (utf16 value_name) True] l, EndElem (utf16 element) l]"

definition meta_calls :: "(utf16 \<Rightarrow> u32) \<Rightarrow> string \<Rightarrow> utf16 \<Rightarrow> u32 \<Rightarrow> xml_call list" where
  "meta_calls s name_text v l =
     [StartElem (utf16 ''meta-data'') [Attr_String s (utf16 ''name'') (utf16 name_text) True, Attr_String s (utf16 ''value'') v True] l,
      EndElem (utf16 ''meta-data'') l]"

definition manifest_calls :: "(utf16 \<Rightarrow> u32) \<Rightarrow> manifest_params \<Rightarrow> xml_call list option" where
  "manifest_calls s p = do {
     versionCode \<leftarrow> Attr_IntDec (utf16 ''versionCode'') (VersionCode p) True;
     compileSdk \<leftarrow> Attr_IntDec (utf16 ''compileSdkVersion'') (CompileSdkVersion p) True;
     platformCode \<leftarrow> Attr_IntDec (utf16 ''platformBuildVersionCode'') (CompileSdkVersion p) False;
     minSdk \<leftarrow> Attr_IntDec (utf16 ''minSdkVersion'') (MinSdkVersion p) True;
     targetSdk \<leftarrow> Attr_IntDec (utf16 ''targetSdkVersion'') (TargetSdkVersion p) True;
     launchMode \<leftarrow> Attr_IntDec (utf16 ''launchMode'') 1 True;
     Some (
       [StartNs (utf16 ''android'') android_uri 8,
        StartElem (utf16 ''manifest'')
          [versionCode, Attr_String s (utf16 ''versionName'') (VersionName p) True, compileSdk,
           Attr_String s (utf16 ''compileSdkVersionCodename'') (CompileSdkVersionCodename p) True,
           Attr_String s (utf16 ''package'') (PackageName p) False, platformCode,
           Attr_String s (utf16 ''platformBuildVersionName'') (CompileSdkVersionCodename p) False] 8,
        StartElem (utf16 ''uses-sdk'') [minSdk, targetSdk] 9, EndElem (utf16 ''uses-sdk'') 9] @
       permission_calls s @ feature_calls s ''android.software.leanback'' 10 @
       permission_calls s @ feature_calls s ''android.hardware.touchscreen'' 11 @
       [StartElem (utf16 ''application'') (appAttrs s p) 12,
        StartElem (utf16 ''activity'')
          [Attr_Ref (utf16 ''theme'') 0x0103022E, Attr_String s (utf16 ''label'') (ActivityLabel p) True,
           Attr_Ref (utf16 ''icon'') 0x7F010000, Attr_String s (utf16 ''name'') (activityFullName p) True,
           Attr_Bool (utf16 ''exported'') True, launchMode, Attr_Ref (utf16 ''banner'') 0x7F010002] 13,
        StartElem (utf16 ''intent-filter'') [] 14] @
       action_calls s ''action'' ''android.intent.action.MAIN'' 15 @
       action_calls s ''category'' ''android.intent.category.LAUNCHER'' 16 @
       action_calls s ''category'' ''android.intent.category.LEANBACK_LAUNCHER'' 17 @
       [EndElem (utf16 ''intent-filter'') 14] @
       meta_calls s ''android.app.lib_name'' (NativeLibraryName p) 18 @
       [EndElem (utf16 ''activity'') 13] @
       meta_calls s ''com.android.dynamic.apk.fused.modules'' (utf16 ''base'') 0 @
       [EndElem (utf16 ''application'') 12, EndElem (utf16 ''manifest'') 8, EndNs (utf16 ''android'') android_uri 8]) }"

text \<open>A parameter of type \<open>[int]\<close> is bound only to a number of 32 bits, a mandatory string only to a string that is not empty.\<close>

definition bound :: "manifest_params \<Rightarrow> bool" where
  "bound p \<longleftrightarrow> PackageName p \<noteq> [] \<and> ActivityClassName p \<noteq> [] \<and>
     list_all (\<lambda>i. - (2 ^ 31) \<le> i \<and> i < 2 ^ 31) [VersionCode p, MinSdkVersion p, TargetSdkVersion p, CompileSdkVersion p]"

definition New_BinaryAxmlManifest :: "(utf16 \<Rightarrow> utf16) \<Rightarrow> (utf16 \<Rightarrow> utf16 \<Rightarrow> bool) \<Rightarrow> manifest_params \<Rightarrow> byte list option" where
  "New_BinaryAxmlManifest key same p = (if \<not> bound p then None else do {
     pool \<leftarrow> manifest_pool (manifest_strings same p);
     ids \<leftarrow> resource_map (resIds (Debuggable p));
     calls \<leftarrow> manifest_calls (S key (manifest_strings same p)) p;
     tree \<leftarrow> write_calls (S key (manifest_strings same p)) calls;
     write_document pool ids tree })"

section \<open>The manifest as a tree\<close>

definition text_spec :: "string \<Rightarrow> utf16 \<Rightarrow> attr_spec" where "text_spec n v = Text_attr True (utf16 n) v"
definition int_spec :: "string \<Rightarrow> int \<Rightarrow> attr_spec" where "int_spec n i = Num_attr True (utf16 n) 0x10 (of_int i)"
definition bool_spec :: "string \<Rightarrow> bool \<Rightarrow> attr_spec" where "bool_spec n b = Num_attr True (utf16 n) 0x12 (if b then 0xFFFFFFFF else 0)"
definition reference_spec :: "string \<Rightarrow> u32 \<Rightarrow> attr_spec" where "reference_spec n i = Num_attr True (utf16 n) 0x01 i"

definition named_tree :: "string \<Rightarrow> utf16 \<Rightarrow> u32 \<Rightarrow> xml_tree" where
  "named_tree n v l = Tree (utf16 n) [text_spec ''name'' v] l []"

definition feature_tree :: "string \<Rightarrow> u32 \<Rightarrow> xml_tree" where
  "feature_tree v l = Tree (utf16 ''uses-feature'') [text_spec ''name'' (utf16 v), bool_spec ''required'' False] l []"

definition meta_tree :: "string \<Rightarrow> utf16 \<Rightarrow> u32 \<Rightarrow> xml_tree" where
  "meta_tree n v l = Tree (utf16 ''meta-data'') [text_spec ''name'' (utf16 n), text_spec ''value'' v] l []"

definition activity_tree :: "manifest_params \<Rightarrow> xml_tree" where
  "activity_tree p = Tree (utf16 ''activity'')
     [reference_spec ''theme'' 0x0103022E, text_spec ''label'' (ActivityLabel p), reference_spec ''icon'' 0x7F010000,
      text_spec ''name'' (activityFullName p), bool_spec ''exported'' True, int_spec ''launchMode'' 1, reference_spec ''banner'' 0x7F010002] 13
     [Tree (utf16 ''intent-filter'') [] 14
        [named_tree ''action'' (utf16 ''android.intent.action.MAIN'') 15,
         named_tree ''category'' (utf16 ''android.intent.category.LAUNCHER'') 16,
         named_tree ''category'' (utf16 ''android.intent.category.LEANBACK_LAUNCHER'') 17],
      meta_tree ''android.app.lib_name'' (NativeLibraryName p) 18]"

definition application_tree :: "manifest_params \<Rightarrow> xml_tree" where
  "application_tree p = Tree (utf16 ''application'')
     ([text_spec ''label'' (ActivityLabel p), reference_spec ''icon'' 0x7F010000, text_spec ''name'' (utf16 ''android.app.Application''),
       bool_spec ''hasCode'' True] @ (if Debuggable p then [bool_spec ''debuggable'' True] else []) @
      [bool_spec ''allowBackup'' True, reference_spec ''banner'' 0x7F010002, bool_spec ''extractNativeLibs'' True]) 12
     [activity_tree p, meta_tree ''com.android.dynamic.apk.fused.modules'' (utf16 ''base'') 0]"

definition manifest_tree :: "manifest_params \<Rightarrow> xml_tree" where
  "manifest_tree p = Tree (utf16 ''manifest'')
     [int_spec ''versionCode'' (VersionCode p), text_spec ''versionName'' (VersionName p), int_spec ''compileSdkVersion'' (CompileSdkVersion p),
      text_spec ''compileSdkVersionCodename'' (CompileSdkVersionCodename p), Text_attr False (utf16 ''package'') (PackageName p),
      Num_attr False (utf16 ''platformBuildVersionCode'') 0x10 (of_int (CompileSdkVersion p)),
      Text_attr False (utf16 ''platformBuildVersionName'') (CompileSdkVersionCodename p)] 8
     ([Tree (utf16 ''uses-sdk'') [int_spec ''minSdkVersion'' (MinSdkVersion p), int_spec ''targetSdkVersion'' (TargetSdkVersion p)] 9 []] @
      map (\<lambda>v. named_tree ''uses-permission'' v 10) permissions @ [feature_tree ''android.software.leanback'' 10] @
      map (\<lambda>v. named_tree ''uses-permission'' v 10) permissions @ [feature_tree ''android.hardware.touchscreen'' 11] @
      [application_tree p])"

lemmas spec_defs = text_spec_def int_spec_def bool_spec_def reference_spec_def
lemmas tree_defs = named_tree_def feature_tree_def meta_tree_def activity_tree_def application_tree_def manifest_tree_def permissions_def

definition versions :: "manifest_params \<Rightarrow> int list" where
  "versions p = [VersionCode p, MinSdkVersion p, TargetSdkVersion p, CompileSdkVersion p]"

lemma int_attr: "0 \<le> i \<Longrightarrow> i < 2 ^ 31 \<Longrightarrow> Attr_IntDec n i b = Some (render s (Num_attr b n 0x10 (of_int i)))"
  by (simp add: Attr_IntDec_def cast32_int_def)

lemma rendered:
  "Attr_String s n v b = render s (Text_attr b n v)" "Attr_Ref n i = render s (Num_attr True n 0x01 i)"
  "Attr_Bool n x = render s (Num_attr True n 0x12 (if x then 0xFFFFFFFF else 0))"
  by (simp_all add: Attr_Ref_def Attr_Bool_def)

lemma manifest_calls_tree:
  assumes "list_all (\<lambda>i. 0 \<le> i \<and> i < 2 ^ 31) (versions p)"
  shows "manifest_calls s p = Some (tree_document s (utf16 ''android'') 8 (manifest_tree p))"
proof -
  have v: "0 \<le> VersionCode p" "VersionCode p < 2 ^ 31" "0 \<le> MinSdkVersion p" "MinSdkVersion p < 2 ^ 31"
    "0 \<le> TargetSdkVersion p" "TargetSdkVersion p < 2 ^ 31" "0 \<le> CompileSdkVersion p" "CompileSdkVersion p < 2 ^ 31"
    using assms by (simp_all add: versions_def)
  have one: "0 \<le> (1 :: int)" "(1 :: int) < 2 ^ 31" by simp_all
  show ?thesis
    unfolding manifest_calls_def int_attr [OF v(1,2), of _ _ s] int_attr [OF v(3,4), of _ _ s] int_attr [OF v(5,6), of _ _ s]
      int_attr [OF v(7,8), of _ _ s] int_attr [OF one, of _ _ s]
      permission_calls_def feature_calls_def action_calls_def meta_calls_def appAttrs_def rendered [where s = s]
    by (simp add: tree_document_def tree_defs spec_defs del: render.simps)
qed

section \<open>What is read back\<close>

definition attr_table :: "bool \<Rightarrow> (utf16 \<times> u32) list" where
  "attr_table debuggable = zip (attrNames debuggable) (resIds debuggable)"

lemma attr_table_columns: "map fst (attr_table b) = attrNames b" "map snd (attr_table b) = resIds b"
  by (simp_all add: attr_table_def attrNames_def resIds_def)

lemma attrNames_distinct: "distinct (attrNames b)"
  by (simp add: attrNames_def)

text \<open>
  Nothing stands in the way: the numbers fit, the strings are neither empty nor too long, no two of them
  differ only as the comparer does not see, none is the name of an attribute, and none is dropped.
\<close>

definition manifest_ok :: "(utf16 \<Rightarrow> utf16) \<Rightarrow> (utf16 \<Rightarrow> utf16 \<Rightarrow> bool) \<Rightarrow> manifest_params \<Rightarrow> bool" where
  "manifest_ok key same p \<longleftrightarrow> bound p \<and> list_all (\<lambda>i. 0 \<le> i \<and> i < 2 ^ 31) (versions p) \<and>
     list_all (\<lambda>s. s \<noteq> [] \<and> plain s) (manifest_strings same p) \<and> inj_on key (set (manifest_strings same p)) \<and>
     set (attrNames (Debuggable p)) \<inter> set (otherStrings same p) = {} \<and>
     list_all (\<lambda>s. \<not> dropped same p s) (android_uri # tree_strings (manifest_tree p))"

definition manifest_report :: "(utf16 \<Rightarrow> utf16 \<Rightarrow> bool) \<Rightarrow> nat \<Rightarrow> manifest_params \<Rightarrow> axml_report" where
  "manifest_report same n p =
     \<lparr>FileSize = n, ElementCount = 24, Strings = manifest_strings same p,
       Elements = listing (table_id (attr_table (Debuggable p))) 0 (manifest_tree p)\<rparr>"

lemma tree_strings_known: "set (tree_strings (manifest_tree p)) \<subseteq> set (attrNames (Debuggable p)) \<union> set (baseStrings p) \<union> {utf16 ''android.app.lib_name'', NativeLibraryName p}"
  by (simp add: tree_defs spec_defs attrNames_def baseStrings_def)

lemma tree_strings_pooled:
  assumes "list_all (\<lambda>s. \<not> dropped same p s) (tree_strings (manifest_tree p))"
  shows "set (tree_strings (manifest_tree p)) \<subseteq> set (manifest_strings same p)"
proof
  fix x assume x: "x \<in> set (tree_strings (manifest_tree p))"
  then have "\<not> dropped same p x" using assms by (simp add: list_all_iff)
  moreover have "x \<in> set (attrNames (Debuggable p)) \<union> set (baseStrings p) \<union> {utf16 ''android.app.lib_name'', NativeLibraryName p}"
    using x tree_strings_known by blast
  ultimately show "x \<in> set (manifest_strings same p)" by (auto simp: manifest_strings_def otherStrings_def)
qed

lemma manifest_tree_ok: "tree_ok (manifest_tree p)"
  by (simp add: tree_defs spec_defs)

lemma base_lengths: "length (baseStrings p) = 38" "length (attrNames b) \<le> 22"
  by (simp_all add: baseStrings_def attrNames_def)

lemma android_uri_base: "android_uri \<in> set (baseStrings p)"
  by (simp add: baseStrings_def)

lemma manifest_strings_count: "length (manifest_strings same p) \<le> 62"
proof -
  have "length (filter (\<lambda>s. \<not> dropped same p s) (baseStrings p)) \<le> length (baseStrings p)" by (rule length_filter_le)
  then show ?thesis using base_lengths(1) [of p] base_lengths(2) [of "Debuggable p"] by (simp add: manifest_strings_def otherStrings_def)
qed

lemma manifest_size:
  assumes "\<forall>s \<in> set (manifest_strings same p). plain s"
  shows "8 + pool_size (manifest_strings same p) + (8 + 4 * length (resIds (Debuggable p))) + (48 + tree_size (manifest_tree p)) < 2 ^ 32"
proof -
  have "tree_size (manifest_tree p) \<le> 10000" by (simp add: tree_defs)
  moreover have "length (resIds (Debuggable p)) \<le> 22" by (simp add: resIds_def)
  ultimately show ?thesis using pool_size_plain [OF assms] manifest_strings_count [of same p] by simp
qed

lemma manifest_written_read:
  assumes "manifest_ok key same p"
  obtains d where "New_BinaryAxmlManifest key same p = Some d" "Test_BinaryAxml key d = Inr (manifest_report same (length d) p)"
proof -
  let ?ss = "manifest_strings same p" and ?ids = "resIds (Debuggable p)" and ?t = "manifest_tree p"
  have ok: "bound p" "list_all (\<lambda>i. 0 \<le> i \<and> i < 2 ^ 31) (versions p)" "\<forall>s \<in> set ?ss. plain s" "[] \<notin> set ?ss" "inj_on key (set ?ss)"
    "set (attrNames (Debuggable p)) \<inter> set (otherStrings same p) = {}" "list_all (\<lambda>s. \<not> dropped same p s) (tree_strings ?t)"
    "\<not> dropped same p android_uri"
    using assms by (auto simp: manifest_ok_def list_all_iff)
  note strings = tree_strings_pooled [OF ok(7)]
  have uri: "android_uri \<in> set ?ss" using ok(8) android_uri_base [of p] by (simp add: manifest_strings_def otherStrings_def)
  have nonempty: "?ss \<noteq> []" using uri by auto
  have short: "length ?ss < 2 ^ 31" using manifest_strings_count [of same p] by simp
  have ids: "listing (name_id key ?ss ?ids) 0 ?t = listing (table_id (attr_table (Debuggable p))) 0 ?t"
  proof (rule listing_cong)
    fix a assume "a \<in> set (tree_specs ?t)"
    then have "spec_name a \<in> set ?ss" using strings spec_names_tree by blast
    then show "name_id key ?ss ?ids (spec_name a) = table_id (attr_table (Debuggable p)) (spec_name a)"
      using name_id_lookup [of key "attr_table (Debuggable p)" "otherStrings same p"] ok(5,6) short
      by (simp add: attr_table_columns attrNames_distinct manifest_strings_def flip: list.set_map)
  qed
  have count: "length (listing f 0 ?t) = 24" for f by (simp add: tree_defs)
  show ?thesis
  proof (rule tree_document_read [OF ok(5,3,4) strings uri manifest_tree_ok manifest_size [OF ok(3)], of "utf16 ''android''" 8])
    fix d
    assume d: "write_axml key ?ss ?ids (tree_document (S key ?ss) (utf16 ''android'') 8 ?t) = Some d"
      "Test_BinaryAxml key d = Inr \<lparr>FileSize = length d, ElementCount = length (listing (name_id key ?ss ?ids) 0 ?t), Strings = ?ss,
         Elements = listing (name_id key ?ss ?ids) 0 ?t\<rparr>"
    have "New_BinaryAxmlManifest key same p = Some d"
      using d(1) ok(1) by (simp add: New_BinaryAxmlManifest_def manifest_calls_tree [OF ok(2)] write_axml_def manifest_pool_eq [OF nonempty ok(4)])
    moreover have "Test_BinaryAxml key d = Inr (manifest_report same (length d) p)"
      using d(2) by (simp add: ids count manifest_report_def)
    ultimately show ?thesis by (rule that)
  qed
qed


lemma manifest_names: "\<forall>a \<in> set (tree_specs (manifest_tree p)). spec_ns a \<longrightarrow> spec_name a \<in> set (attrNames (Debuggable p))"
  by (simp add: tree_defs spec_defs attrNames_def)

lemma manifest_namespaced: "length (filter spec_ns (tree_specs (manifest_tree p))) = (if Debuggable p then 44 else 43)"
  by (simp add: tree_defs spec_defs)

lemma manifest_checked:
  assumes "ids_declared declared (attr_table (Debuggable p))"
  shows "Assert_ManifestAttributeIds declared (manifest_report same n p) = Inr (if Debuggable p then 44 else 43)"
proof -
  let ?table = "attr_table (Debuggable p)"
  have "\<forall>a \<in> set (tree_specs (manifest_tree p)). spec_ns a \<longrightarrow> declared (spec_name a) = Some (table_id ?table (spec_name a))"
  proof (intro ballI impI)
    fix a assume "a \<in> set (tree_specs (manifest_tree p))" "spec_ns a"
    then have "spec_name a \<in> fst ` set ?table" using manifest_names [of p] attr_table_columns(1) [of "Debuggable p"] by (metis list.set_map)
    then obtain i where "map_of ?table (spec_name a) = Some i" by (metis map_of_eq_None_iff not_None_eq)
    then show "declared (spec_name a) = Some (table_id ?table (spec_name a))" by (rule declared_id [OF assms])
  qed
  from listing_checked [OF this, of 0] show ?thesis
    by (simp add: Assert_ManifestAttributeIds_def manifest_report_def manifest_namespaced)
qed

text \<open>The ids of an element's attributes, in the order they are written.\<close>

definition ids_ascend :: "axml_element \<Rightarrow> bool" where
  "ids_ascend e \<longleftrightarrow> sorted_wrt (<) (map ResourceId (filter Namespaced (identities e)))"

fun specs_ascend :: "(utf16 \<Rightarrow> u32) \<Rightarrow> xml_tree \<Rightarrow> bool" where
  "specs_ascend f (Tree n as l ts) \<longleftrightarrow> sorted_wrt (<) (map (f \<circ> spec_name) (filter spec_ns as)) \<and> list_all (specs_ascend f) ts"

lemma listing_ascends: "specs_ascend f t \<Longrightarrow> list_all ids_ascend (listing f k t)"
proof (induction t arbitrary: k)
  case (Tree n as l ts)
  have "list_all ids_ascend (listing f (k + 1) u)" if "u \<in> set ts" for u
    using Tree that by (simp add: list_all_iff)
  then have "list_all ids_ascend (concat (map (listing f (k + 1)) ts))" unfolding list_all_iff by auto
  moreover have "ids_ascend (hd (listing f k (Tree n as l ts)))" using Tree.prems by (simp add: ids_ascend_def filter_map comp_def)
  ultimately show ?case by simp
qed

lemma manifest_ascends: "specs_ascend (table_id (attr_table (Debuggable p))) (manifest_tree p)"
  by (simp add: tree_defs spec_defs table_id_def attr_table_def attrNames_def resIds_def)


end
