(* ===== verification/Axml_Drawable.thy ===== *)
theory Axml_Drawable
  imports Axml_Tree
begin

text \<open>
  \<open>New-LauncherDrawableAxml\<close> of \<open>setup.ps1\<close>: the adaptive icon and the TV banner, written, read back and
  checked before they are returned.
\<close>

section \<open>Emission\<close>

datatype drawable_kind = AdaptiveIcon | TvBanner

definition drawable_ids :: "drawable_kind \<Rightarrow> (utf16 \<times> u32) list" where
  "drawable_ids kind = (case kind of
     AdaptiveIcon \<Rightarrow> [(utf16 ''drawable'', 0x01010199)]
   | TvBanner \<Rightarrow> [(utf16 ''gravity'', 0x010100AF), (utf16 ''height'', 0x01010155), (utf16 ''width'', 0x01010159), (utf16 ''drawable'', 0x01010199)])"

definition drawable_strings :: "drawable_kind \<Rightarrow> utf16 list" where
  "drawable_strings kind = map fst (drawable_ids kind) @
     [utf16 ''adaptive-icon'', utf16 ''background'', utf16 ''foreground'', utf16 ''android'', android_uri, utf16 ''layer-list'', utf16 ''item'']"

definition Write_IconNamespace :: "(utf16 \<Rightarrow> u32) \<Rightarrow> u16 \<Rightarrow> byte list" where
  "Write_IconNamespace s t =
     enc16 t @ enc16 16 @ enc32 24 @ enc32 1 @ enc32 0xFFFFFFFF @ enc32 (s (utf16 ''android'')) @ enc32 (s android_uri)"

record icon_attr =
  Icon_Name :: utf16
  Icon_Type :: u8
  Icon_Data :: u32

definition Write_IconStartElement :: "(utf16 \<Rightarrow> u32) \<Rightarrow> utf16 \<Rightarrow> icon_attr list \<Rightarrow> u32 \<Rightarrow> byte list option" where
  "Write_IconStartElement s name attrs line = do {
     size \<leftarrow> cast32 (36 + 20 * length attrs);
     count \<leftarrow> cast16 (length attrs);
     Some (enc16 0x0102 @ enc16 16 @ enc32 size @ enc32 line @ enc32 0xFFFFFFFF @ enc32 0xFFFFFFFF @ enc32 (s name) @
       enc16 20 @ enc16 20 @ enc16 count @ enc16 0 @ enc16 0 @ enc16 0 @
       concat (map (\<lambda>a. enc32 (s android_uri) @ enc32 (s (Icon_Name a)) @ enc32 0xFFFFFFFF @
         enc16 8 @ enc8 0 @ enc8 (Icon_Type a) @ enc32 (Icon_Data a)) attrs)) }"

definition Write_IconEndElement :: "(utf16 \<Rightarrow> u32) \<Rightarrow> utf16 \<Rightarrow> u32 \<Rightarrow> byte list" where
  "Write_IconEndElement s name line =
     enc16 0x0103 @ enc16 16 @ enc32 24 @ enc32 line @ enc32 0xFFFFFFFF @ enc32 0xFFFFFFFF @ enc32 (s name)"

text \<open>A length in density-independent pixels: the mantissa above the unit.\<close>

definition dip :: "u32 \<Rightarrow> u32" where "dip n = push_bit 8 n OR 1"

definition icon_ref :: "u32 \<Rightarrow> icon_attr" where
  "icon_ref i = \<lparr>Icon_Name = utf16 ''drawable'', Icon_Type = 0x01, Icon_Data = i\<rparr>"

definition icon_dimension :: "string \<Rightarrow> u32 \<Rightarrow> icon_attr" where
  "icon_dimension n v = \<lparr>Icon_Name = utf16 n, Icon_Type = 0x05, Icon_Data = dip v\<rparr>"

definition icon_tree :: "(utf16 \<Rightarrow> u32) \<Rightarrow> u32 \<Rightarrow> u32 \<Rightarrow> drawable_kind \<Rightarrow> byte list option" where
  "icon_tree s foreground background kind = (case kind of
     TvBanner \<Rightarrow> do {
       layers \<leftarrow> Write_IconStartElement s (utf16 ''layer-list'') [] 2;
       item1 \<leftarrow> Write_IconStartElement s (utf16 ''item'') [icon_dimension ''height'' 180, icon_dimension ''width'' 320, icon_ref background] 3;
       item2 \<leftarrow> Write_IconStartElement s (utf16 ''item'')
         [\<lparr>Icon_Name = utf16 ''gravity'', Icon_Type = 0x10, Icon_Data = 0x11\<rparr>,
          icon_dimension ''height'' 144, icon_dimension ''width'' 144, icon_ref foreground] 4;
       Some (Write_IconNamespace s 0x0100 @ layers @ item1 @ Write_IconEndElement s (utf16 ''item'') 3 @
         item2 @ Write_IconEndElement s (utf16 ''item'') 4 @ Write_IconEndElement s (utf16 ''layer-list'') 2 @
         Write_IconNamespace s 0x0101) }
   | AdaptiveIcon \<Rightarrow> do {
       icon \<leftarrow> Write_IconStartElement s (utf16 ''adaptive-icon'') [] 2;
       back \<leftarrow> Write_IconStartElement s (utf16 ''background'') [icon_ref background] 3;
       fore \<leftarrow> Write_IconStartElement s (utf16 ''foreground'') [icon_ref foreground] 4;
       Some (Write_IconNamespace s 0x0100 @ icon @ back @ Write_IconEndElement s (utf16 ''background'') 3 @
         fore @ Write_IconEndElement s (utf16 ''foreground'') 4 @ Write_IconEndElement s (utf16 ''adaptive-icon'') 2 @
         Write_IconNamespace s 0x0101) })"

section \<open>The checks on the banner\<close>

fun join_names :: "utf16 list \<Rightarrow> utf16" where
  "join_names [] = []"
| "join_names [n] = n"
| "join_names (n # m # ns) = n @ utf16 ''/'' @ join_names (m # ns)"

definition attribute_of :: "(utf16 \<Rightarrow> utf16) \<Rightarrow> axml_element \<Rightarrow> string \<Rightarrow> attr_value option" where
  "attribute_of key e n = map_option snd (find (\<lambda>(k, _). key k = key (utf16 n)) (attributes e))"

fun decimal :: "nat \<Rightarrow> string" where
  "decimal n = (if n < 10 then [char_of (48 + n)] else decimal (n div 10) @ [char_of (48 + n mod 10)])"

text \<open>A number is compared with a number, a text with the digits of the number.\<close>

definition equals_number :: "attr_value option \<Rightarrow> u32 \<Rightarrow> bool" where
  "equals_number v n = (case v of
     None \<Rightarrow> False
   | Some (Num_value m) \<Rightarrow> m = n
   | Some (Str_value t) \<Rightarrow> t = utf16 (decimal (unat n)))"

definition banner_placed :: "(utf16 \<Rightarrow> utf16) \<Rightarrow> u32 \<Rightarrow> u32 \<Rightarrow> axml_element \<Rightarrow> axml_element \<Rightarrow> bool" where
  "banner_placed key foreground background backdrop artwork \<longleftrightarrow>
     equals_number (attribute_of key backdrop ''drawable'') background \<and>
     equals_number (attribute_of key artwork ''drawable'') foreground \<and>
     equals_number (attribute_of key backdrop ''width'') (dip 320) \<and>
     equals_number (attribute_of key backdrop ''height'') (dip 180) \<and>
     equals_number (attribute_of key artwork ''width'') (dip 144) \<and>
     equals_number (attribute_of key artwork ''height'') (dip 144) \<and>
     equals_number (attribute_of key artwork ''gravity'') 0x11"

definition New_LauncherDrawableAxml ::
  "(utf16 \<Rightarrow> utf16) \<Rightarrow> (utf16 \<Rightarrow> u32 option) \<Rightarrow> u32 \<Rightarrow> u32 \<Rightarrow> drawable_kind \<Rightarrow> axml_error + byte list" where
  "New_LauncherDrawableAxml key declared foreground background kind =
     bind_sum (get (do {
       pool \<leftarrow> New_ResStringPool (drawable_strings kind);
       ids \<leftarrow> resource_map (map snd (drawable_ids kind));
       tree \<leftarrow> icon_tree (S key (drawable_strings kind)) foreground background kind;
       write_document pool ids tree })) (\<lambda>d.
     bind_sum (Test_BinaryAxml key d) (\<lambda>report.
     bind_sum (Assert_ManifestAttributeIds declared report) (\<lambda>checkedIds.
     if kind = TvBanner then
       (if checkedIds \<noteq> 7 \<or> join_names (map elem_name (Elements report)) \<noteq> utf16 ''layer-list/item/item'' then Inl Banner_shape
        else if \<not> banner_placed key foreground background (Elements report ! 1) (Elements report ! 2) then Inl Banner_layout
        else Inr d)
     else Inr d)))"

section \<open>The documents as trees\<close>

definition ref_spec :: "u32 \<Rightarrow> attr_spec" where "ref_spec i = Num_attr True (utf16 ''drawable'') 0x01 i"
definition dim_spec :: "string \<Rightarrow> u32 \<Rightarrow> attr_spec" where "dim_spec n v = Num_attr True (utf16 n) 0x05 (v * 256 + 1)"

definition drawable_tree :: "u32 \<Rightarrow> u32 \<Rightarrow> drawable_kind \<Rightarrow> xml_tree" where
  "drawable_tree foreground background kind = (case kind of
     TvBanner \<Rightarrow> Tree (utf16 ''layer-list'') [] 2
       [Tree (utf16 ''item'') [dim_spec ''height'' 180, dim_spec ''width'' 320, ref_spec background] 3 [],
        Tree (utf16 ''item'') [Num_attr True (utf16 ''gravity'') 0x10 0x11, dim_spec ''height'' 144, dim_spec ''width'' 144, ref_spec foreground] 4 []]
   | AdaptiveIcon \<Rightarrow> Tree (utf16 ''adaptive-icon'') [] 2
       [Tree (utf16 ''background'') [ref_spec background] 3 [], Tree (utf16 ''foreground'') [ref_spec foreground] 4 []])"

definition icon_spec :: "icon_attr \<Rightarrow> attr_spec" where
  "icon_spec a = Num_attr True (Icon_Name a) (Icon_Type a) (Icon_Data a)"

lemma icon_start: "Write_IconStartElement s n as l = Write_StartElem s n (map (render s \<circ> icon_spec) as) l"
  by (simp add: Write_IconStartElement_def Write_StartElem_def write_attribute_def icon_spec_def comp_def mult.commute)

lemma icon_end: "Write_IconEndElement s n l = Write_EndElem s n l"
  by (simp add: Write_IconEndElement_def Write_EndElem_def)

lemma icon_namespace:
  "Write_IconNamespace s 0x0100 = Write_StartNs s (utf16 ''android'') android_uri 1"
  "Write_IconNamespace s 0x0101 = Write_EndNs s (utf16 ''android'') android_uri 1"
  by (simp_all add: Write_IconNamespace_def Write_StartNs_def Write_EndNs_def)

lemma icon_specs [simp]:
  "icon_spec (icon_ref i) = ref_spec i" "icon_spec (icon_dimension n 180) = dim_spec n 180"
  "icon_spec (icon_dimension n 320) = dim_spec n 320" "icon_spec (icon_dimension n 144) = dim_spec n 144"
  "icon_spec \<lparr>Icon_Name = m, Icon_Type = t, Icon_Data = v\<rparr> = Num_attr True m t v"
  by (simp_all add: icon_spec_def icon_ref_def ref_spec_def icon_dimension_def dim_spec_def dip_def push_bit_eq_mult)

lemma write_calls_simps [simp]:
  "write_calls s [] = Some []"
  "write_calls s (c # cs) = Option.bind (write_call s c) (\<lambda>x. map_option (\<lambda>y. x @ y) (write_calls s cs))"
  by (simp_all add: write_calls_def option.map_comp comp_def split: option.splits)

lemma icon_tree_calls:
  "icon_tree s foreground background kind = write_calls s (tree_document s (utf16 ''android'') 1 (drawable_tree foreground background kind))"
  by (cases kind)
    (simp_all add: icon_tree_def tree_document_def drawable_tree_def icon_start icon_end icon_namespace comp_def split: Option.bind_split)

section \<open>The result\<close>

definition drawable_id :: "drawable_kind \<Rightarrow> utf16 \<Rightarrow> u32" where
  "drawable_id kind n = (case map_of (drawable_ids kind) n of None \<Rightarrow> 0 | Some i \<Rightarrow> i)"

lemma drawable_tree_ok: "tree_ok (drawable_tree foreground background kind)"
  by (cases kind) (simp_all add: drawable_tree_def ref_spec_def dim_spec_def)

lemma drawable_tree_strings: "set (tree_strings (drawable_tree foreground background kind)) \<subseteq> set (drawable_strings kind)"
  by (cases kind) (simp_all add: drawable_tree_def ref_spec_def dim_spec_def drawable_strings_def drawable_ids_def)

lemma drawable_strings_plain: "\<forall>s \<in> set (drawable_strings kind). plain s" "[] \<notin> set (drawable_strings kind)"
  by (cases kind; simp add: drawable_strings_def drawable_ids_def android_uri_def plain_utf16)+

lemma drawable_size:
  "8 + pool_size (drawable_strings kind) + (8 + 4 * length (map snd (drawable_ids kind))) +
    (48 + tree_size (drawable_tree foreground background kind)) < 2 ^ 32"
  using pool_size_bound [of "drawable_strings kind"]
  by (cases kind) (simp_all add: drawable_strings_def drawable_ids_def drawable_tree_def android_uri_def)

lemma drawable_name_id:
  assumes "inj_on key (set (drawable_strings kind))" "(n, i) \<in> set (drawable_ids kind)"
  shows "name_id key (drawable_strings kind) (map snd (drawable_ids kind)) n = i"
  using assms unfolding drawable_strings_def by (intro name_id_table) (cases kind; simp add: drawable_ids_def android_uri_def)+

lemma drawable_id_in: "(n, i) \<in> set (drawable_ids kind) \<Longrightarrow> drawable_id kind n = i"
  by (cases kind) (auto simp: drawable_id_def drawable_ids_def)

definition drawable_report :: "nat \<Rightarrow> u32 \<Rightarrow> u32 \<Rightarrow> drawable_kind \<Rightarrow> axml_report" where
  "drawable_report n foreground background kind =
     \<lparr>FileSize = n, ElementCount = 3, Strings = drawable_strings kind,
       Elements = listing (drawable_id kind) 0 (drawable_tree foreground background kind)\<rparr>"

lemma drawable_named: "a \<in> set (tree_specs (drawable_tree foreground background kind)) \<Longrightarrow> \<exists>i. (spec_name a, i) \<in> set (drawable_ids kind)"
  by (cases kind) (auto simp: drawable_tree_def drawable_ids_def ref_spec_def dim_spec_def)

lemma drawable_written_read:
  assumes "inj_on key (set (drawable_strings kind))"
  obtains d where "write_axml key (drawable_strings kind) (map snd (drawable_ids kind))
      (tree_document (S key (drawable_strings kind)) (utf16 ''android'') 1 (drawable_tree foreground background kind)) = Some d"
    "Test_BinaryAxml key d = Inr (drawable_report (length d) foreground background kind)"
proof -
  have uri: "android_uri \<in> set (drawable_strings kind)" by (simp add: drawable_strings_def)
  have ids: "listing (name_id key (drawable_strings kind) (map snd (drawable_ids kind))) 0 (drawable_tree foreground background kind) =
      listing (drawable_id kind) 0 (drawable_tree foreground background kind)"
  proof (rule listing_cong)
    fix a assume "a \<in> set (tree_specs (drawable_tree foreground background kind))"
    from drawable_named [OF this] drawable_name_id [OF assms] drawable_id_in
    show "name_id key (drawable_strings kind) (map snd (drawable_ids kind)) (spec_name a) = drawable_id kind (spec_name a)" by auto
  qed
  have three: "length (listing (drawable_id kind) 0 (drawable_tree foreground background kind)) = 3"
    by (cases kind) (simp_all add: drawable_tree_def)
  show ?thesis
    by (rule tree_document_read [OF assms drawable_strings_plain drawable_tree_strings [of foreground background] uri
          drawable_tree_ok drawable_size, of "utf16 ''android''" 1])
      (rule that, simp_all add: drawable_report_def ids three)
qed

text \<open>The ids are those of the pinned \<open>public-final.xml\<close>, and the banner is laid out as the check demands.\<close>

definition ns_total :: "drawable_kind \<Rightarrow> nat" where
  "ns_total kind = (case kind of AdaptiveIcon \<Rightarrow> 2 | TvBanner \<Rightarrow> 7)"

lemma drawable_checked:
  assumes "ids_declared declared (drawable_ids kind)"
  shows "Assert_ManifestAttributeIds declared (drawable_report n foreground background kind) = Inr (ns_total kind)"
proof -
  let ?t = "drawable_tree foreground background kind"
  have "\<forall>a \<in> set (tree_specs ?t). spec_ns a \<longrightarrow> declared (spec_name a) = Some (drawable_id kind (spec_name a))"
  proof (intro ballI impI)
    fix a assume "a \<in> set (tree_specs ?t)"
    then obtain i where i: "(spec_name a, i) \<in> set (drawable_ids kind)" using drawable_named by blast
    then show "declared (spec_name a) = Some (drawable_id kind (spec_name a))"
      using assms drawable_id_in [OF i] by (auto simp: ids_declared_def list_all_iff)
  qed
  from listing_checked [OF this, of 0] have
    "sum_checks (\<lambda>e. sum_checks (check_identity declared (elem_name e)) (filter Namespaced (identities e))) (listing (drawable_id kind) 0 ?t) =
      Inr (length (filter spec_ns (tree_specs ?t)))" .
  moreover have "length (filter spec_ns (tree_specs ?t)) = ns_total kind"
    by (cases kind) (simp_all add: drawable_tree_def ns_total_def ref_spec_def dim_spec_def)
  ultimately show ?thesis by (simp add: Assert_ManifestAttributeIds_def drawable_report_def)
qed

lemma key_differs:
  "inj_on key (set ss) \<Longrightarrow> x \<in> set ss \<Longrightarrow> y \<in> set ss \<Longrightarrow> (key x = key y) = (x = y)"
  by (rule inj_on_eq_iff)

lemma banner_passes:
  assumes "inj_on key (set (drawable_strings TvBanner))"
  shows "join_names (map elem_name (Elements (drawable_report n foreground background TvBanner))) = utf16 ''layer-list/item/item''"
    "banner_placed key foreground background (Elements (drawable_report n foreground background TvBanner) ! 1)
       (Elements (drawable_report n foreground background TvBanner) ! 2)"
proof -
  show "join_names (map elem_name (Elements (drawable_report n foreground background TvBanner))) = utf16 ''layer-list/item/item''"
    by (simp add: drawable_report_def drawable_tree_def utf16_def)
  have "(key (utf16 x) = key (utf16 y)) = (x = y)"
    if "x \<in> {''drawable'', ''width'', ''height'', ''gravity''}" "y \<in> {''drawable'', ''width'', ''height'', ''gravity''}" for x y
    using that by (subst key_differs [OF assms]) (auto simp: drawable_strings_def drawable_ids_def)
  note keys = this
  have d: "dip 320 = 0x14001" "dip 180 = 0xB401" "dip 144 = 0x9001" by (simp_all add: dip_def push_bit_eq_mult)
  show "banner_placed key foreground background (Elements (drawable_report n foreground background TvBanner) ! 1)
       (Elements (drawable_report n foreground background TvBanner) ! 2)"
    by (simp add: banner_placed_def drawable_report_def drawable_tree_def ref_spec_def dim_spec_def attribute_of_def keys equals_number_def d)
qed

text \<open>
  C26. A launcher drawable is always emitted: the document that is returned passes the reader, which lists
  exactly the elements of the adaptive icon or of the banner, each attribute with its value and with the
  resource id that the pinned list declares for its name.
\<close>

theorem launcher_drawable:
  assumes "inj_on key (set (drawable_strings kind))" "ids_declared declared (drawable_ids kind)"
  shows "\<exists>d. New_LauncherDrawableAxml key declared foreground background kind = Inr d \<and>
    Test_BinaryAxml key d = Inr (drawable_report (length d) foreground background kind)"
proof -
  obtain d where d: "write_axml key (drawable_strings kind) (map snd (drawable_ids kind))
      (tree_document (S key (drawable_strings kind)) (utf16 ''android'') 1 (drawable_tree foreground background kind)) = Some d"
    "Test_BinaryAxml key d = Inr (drawable_report (length d) foreground background kind)"
    using drawable_written_read [OF assms(1)] by blast
  then have step: "New_LauncherDrawableAxml key declared foreground background kind =
      bind_sum (Assert_ManifestAttributeIds declared (drawable_report (length d) foreground background kind)) (\<lambda>checkedIds.
      if kind = TvBanner then
        (if checkedIds \<noteq> 7 \<or> join_names (map elem_name (Elements (drawable_report (length d) foreground background kind))) \<noteq> utf16 ''layer-list/item/item''
         then Inl Banner_shape
         else if \<not> banner_placed key foreground background (Elements (drawable_report (length d) foreground background kind) ! 1)
             (Elements (drawable_report (length d) foreground background kind) ! 2) then Inl Banner_layout
         else Inr d)
      else Inr d)"
    unfolding New_LauncherDrawableAxml_def icon_tree_calls write_axml_def by (simp only: or_abort_simps bind_sum_simps)
  have "New_LauncherDrawableAxml key declared foreground background kind = Inr d"
    unfolding step drawable_checked [OF assms(2)]
    using banner_passes [of key] assms(1) by (cases kind) (simp_all add: ns_total_def)
  with d(2) show ?thesis by blast
qed

lemma fold_utf16_drawable: "inj_on fold_utf16 (set (drawable_strings kind))"
proof -
  have "fold_utf16 s = s" if "s \<in> set (drawable_strings kind)" for s
    using that by (cases kind) (auto simp: drawable_strings_def drawable_ids_def android_uri_def fold_utf16_def utf16_def)
  then show ?thesis by (auto simp: inj_on_def)
qed

lemma launcher_drawable_witness:
  "\<exists>d. New_LauncherDrawableAxml fold_utf16 (map_of (drawable_ids TvBanner)) 0x7F010001 0x7F020000 TvBanner = Inr d \<and>
    Test_BinaryAxml fold_utf16 d = Inr (drawable_report (length d) 0x7F010001 0x7F020000 TvBanner)"
  by (rule launcher_drawable [OF fold_utf16_drawable]) (simp add: ids_declared_def drawable_ids_def)

end
