(* ===== verification/Axml_Accepted.thy ===== *)
theory Axml_Accepted
  imports Axml_Reader
begin

text \<open>
  What acceptance by \<open>Test-BinaryAxml\<close> means for any document, written by these emitters or not: its chunks
  tile it, its elements are a forest in document order, and the search for a chunk ends.
\<close>

section \<open>An accepted run\<close>

inductive accepted_run :: "(utf16 \<Rightarrow> utf16) \<Rightarrow> byte list \<Rightarrow> nat \<Rightarrow> axml_state \<Rightarrow> nat list \<Rightarrow> axml_state \<Rightarrow> bool" for key d where
  finish: "accepted_run key d (length d) st [] st"
| chunk: "rd16 d c = Some t \<Longrightarrow> Test_ResChunkHeader d c (minimum_header t) (length d) = Inr (h, n) \<Longrightarrow>
    read_chunk key d c t n st = Inr st1 \<Longrightarrow> accepted_run key d (c + n) st1 ns st2 \<Longrightarrow> accepted_run key d c st (n # ns) st2"

lemma walk_step:
  assumes "walk key d c st = Inr st2" "c < length d"
  obtains t h n st1 where "rd16 d c = Some t" "Test_ResChunkHeader d c (minimum_header t) (length d) = Inr (h, n)"
    "read_chunk key d c t n st = Inr st1" "walk key d (c + n) st1 = Inr st2"
proof -
  have "\<not> length d - c < 8" using assms by (auto simp: walk.simps [of key d c])
  then have "bind_sum (get (rd16 d c)) (\<lambda>chunkType.
      bind_sum (Test_ResChunkHeader d c (minimum_header chunkType) (length d)) (\<lambda>hn.
      bind_sum (read_chunk key d c chunkType (snd hn) st) (\<lambda>st'. walk key d (c + snd hn) st'))) = Inr st2"
    using assms by (simp add: walk.simps [of key d c])
  then obtain t hn st1 where "get (rd16 d c) = Inr t" "Test_ResChunkHeader d c (minimum_header t) (length d) = Inr hn"
    "read_chunk key d c t (snd hn) st = Inr st1" "walk key d (c + snd hn) st1 = Inr st2"
    unfolding bind_sum_Inr_iff by blast
  then show ?thesis using that [of t "fst hn" "snd hn" st1] by (cases "rd16 d c") simp_all
qed

lemma walk_run: "walk key d c st = Inr st2 \<Longrightarrow> c \<le> length d \<Longrightarrow> \<exists>ns. accepted_run key d c st ns st2"
proof (induction "length d - c" arbitrary: c st rule: less_induct)
  case less
  show ?case
  proof (cases "c < length d")
    case True
    from less.prems(1) True obtain t h n st1 where step: "rd16 d c = Some t"
      "Test_ResChunkHeader d c (minimum_header t) (length d) = Inr (h, n)"
      "read_chunk key d c t n st = Inr st1" "walk key d (c + n) st1 = Inr st2" by (rule walk_step)
    note bounds = chunk_header_bounds [OF step(2)]
    have "length d - (c + n) < length d - c" using bounds(1,2) minimum_header_8 [of t] True by simp
    then obtain ns where "accepted_run key d (c + n) st1 ns st2" using less.hyps [of "c + n" st1] step(4) bounds(3) by blast
    then show ?thesis using accepted_run.chunk [OF step(1-3)] by blast
  next
    case False
    then have "c = length d" using less.prems(2) by simp
    moreover have "st2 = st" using less.prems(1) False by (simp add: walk.simps [of key d c])
    ultimately show ?thesis using accepted_run.finish by blast
  qed
qed

lemma low_bits: "((h :: nat) OR n) AND 3 = 0 \<longleftrightarrow> h mod 4 = 0 \<and> n mod 4 = 0"
proof -
  have "(h OR n) AND 3 = take_bit 2 (h OR n)" by (simp add: take_bit_eq_mask mask_eq_exp_minus_1)
  also have "\<dots> = take_bit 2 h OR take_bit 2 n" by (rule take_bit_or)
  finally show ?thesis by (simp add: take_bit_eq_mod or_eq_0_iff)
qed

lemma chunk_header_accepted:
  assumes "Test_ResChunkHeader d at minimum end_at = Inr (h, n)"
  obtains hs sz where "rd16 d (at + 2) = Some hs" "rd32 d (at + 4) = Some sz" "h = unat hs" "n = unat sz"
    "h mod 4 = 0" "n mod 4 = 0"
proof -
  have "bind_sum (get (rd16 d (at + 2))) (\<lambda>hs. bind_sum (get (rd32 d (at + 4))) (\<lambda>sz.
        let h = unat hs; n = unat sz in
        if h < minimum then Inl (Header_below_minimum at h minimum)
        else if h > n then Inl (Header_larger_than_chunk at h n)
        else if (h OR n) AND 3 \<noteq> 0 then Inl (Misaligned_chunk at n h)
        else if at + n > end_at then Inl (Chunk_past_container n at)
        else Inr (h, n))) = Inr (h, n)"
    using assms by (simp add: Test_ResChunkHeader_def split: if_splits)
  then obtain hs sz where r: "get (rd16 d (at + 2)) = Inr hs" "get (rd32 d (at + 4)) = Inr sz"
    "h = unat hs" "n = unat sz" "(h OR n) AND 3 = 0"
    unfolding bind_sum_Inr_iff Let_def by (auto split: if_splits)
  then show ?thesis using that [of hs sz] low_bits [of h n] by (cases "rd16 d (at + 2)"; cases "rd32 d (at + 4)") simp_all
qed

lemma document_run:
  assumes "Test_BinaryAxml key d = Inr r"
  obtains h ns st where "rd16 d 2 = Some h" "unat h \<le> length d" "8 \<le> unat h" "unat h mod 4 = 0" "accepted_run key d (unat h) axml_init ns st"
    "depth st = 0" "namespaceDepth st = 0" "sawStringPool st" "sawResourceMap st"
    "r = \<lparr>FileSize = length d, ElementCount = elements st, Strings = pool_strings st, Elements = parsed st\<rparr>"
proof -
  have long: "\<not> length d < 8" using assms by (auto simp: Test_BinaryAxml_def)
  then have "bind_sum (get (rd16 d 0)) (\<lambda>type.
        bind_sum (Test_ResChunkHeader d 0 8 (length d)) (\<lambda>(headerSize, _).
        bind_sum (get (rd32 d 4)) (\<lambda>fileSize.
        if type \<noteq> RES_XML_TYPE then Inl (Wrong_document_type type)
        else if unat fileSize \<noteq> length d then Inl (Wrong_file_size (unat fileSize) (length d))
        else bind_sum (walk key d headerSize axml_init) (\<lambda>st.
          if \<not> sawStringPool st then Inl No_string_pool
          else if \<not> sawResourceMap st then Inl No_resource_map
          else if depth st \<noteq> 0 then Inl (Elements_open (depth st))
          else if namespaceDepth st \<noteq> 0 then Inl (Namespaces_open (namespaceDepth st))
          else Inr \<lparr>FileSize = unat fileSize, ElementCount = elements st, Strings = pool_strings st, Elements = parsed st\<rparr>)))) = Inr r"
    using assms by (simp add: Test_BinaryAxml_def)
  then have "\<exists>h n st. Test_ResChunkHeader d 0 8 (length d) = Inr (h, n) \<and> walk key d h axml_init = Inr st \<and>
    sawStringPool st \<and> sawResourceMap st \<and> depth st = 0 \<and> namespaceDepth st = 0 \<and>
    r = \<lparr>FileSize = length d, ElementCount = elements st, Strings = pool_strings st, Elements = parsed st\<rparr>"
    unfolding bind_sum_Inr_iff by (fastforce simp: bind_sum_Inr_iff split: if_splits)
  then obtain h n st where parts: "Test_ResChunkHeader d 0 8 (length d) = Inr (h, n)" "walk key d h axml_init = Inr st"
    "sawStringPool st" "sawResourceMap st" "depth st = 0" "namespaceDepth st = 0"
    "r = \<lparr>FileSize = length d, ElementCount = elements st, Strings = pool_strings st, Elements = parsed st\<rparr>"
    by blast
  obtain hs where hs: "rd16 d 2 = Some hs" "h = unat hs" "h mod 4 = 0" using chunk_header_accepted [OF parts(1)] by (metis add_0)
  note bounds = chunk_header_bounds [OF parts(1)]
  have "h \<le> length d" using bounds by simp
  then obtain ns where "accepted_run key d h axml_init ns st" using walk_run [OF parts(2)] by blast
  then show ?thesis using that [of hs ns st] hs bounds parts by simp
qed

section \<open>The chunks tile the document\<close>

text \<open>Each size is the one its chunk header has, at least eight bytes and a multiple of four.\<close>

fun tiles :: "byte list \<Rightarrow> nat \<Rightarrow> nat list \<Rightarrow> bool" where
  "tiles d c [] \<longleftrightarrow> c = length d"
| "tiles d c (n # ns) \<longleftrightarrow> map_option unat (rd32 d (c + 4)) = Some n \<and> 8 \<le> n \<and> n mod 4 = 0 \<and> c + n \<le> length d \<and> tiles d (c + n) ns"

lemma run_tiles: "accepted_run key d c st ns st2 \<Longrightarrow> tiles d c ns"
proof (induction rule: accepted_run.induct)
  case (chunk c t h n st st1 ns st2)
  obtain hs sz where sz: "rd16 d (c + 2) = Some hs" "rd32 d (c + 4) = Some sz" "h = unat hs" "n = unat sz" "h mod 4 = 0" "n mod 4 = 0"
    by (rule chunk_header_accepted [OF chunk.hyps(2)])
  have "map_option unat (rd32 d (c + 4)) = Some n" unfolding sz(2) by (simp only: option.map sz(4))
  moreover have "8 \<le> n" using chunk_header_bounds(1,2) [OF chunk.hyps(2)] minimum_header_8 [of t] by linarith
  ultimately show ?case using sz(6) chunk.IH chunk_header_bounds(3) [OF chunk.hyps(2)] by (simp only: tiles.simps simp_thms)
qed simp

section \<open>The elements are a forest\<close>

text \<open>Depths in document order: an element is at most one deeper than the one before it.\<close>

fun preorder :: "int \<Rightarrow> int list \<Rightarrow> bool" where
  "preorder k [] \<longleftrightarrow> True"
| "preorder k (x # xs) \<longleftrightarrow> 1 \<le> x \<and> x \<le> k + 1 \<and> preorder x xs"

lemma preorder_snoc: "preorder k (xs @ [x]) \<longleftrightarrow> preorder k xs \<and> 1 \<le> x \<and> x \<le> last (k # xs) + 1"
  by (induction xs arbitrary: k) auto

definition well_nested :: "axml_state \<Rightarrow> bool" where
  "well_nested st \<longleftrightarrow> 0 \<le> depth st \<and> elements st = length (parsed st) \<and> preorder 0 (map elem_depth (parsed st)) \<and>
     depth st \<le> last (0 # map elem_depth (parsed st))"

lemma start_element_parsed:
  assumes "start_element key d c n st = Inr st1"
  shows "\<exists>e. elem_depth e = depth st + 1 \<and> depth st1 = depth st + 1 \<and> elements st1 = elements st + 1 \<and> parsed st1 = parsed st @ [e]"
  using assms by (auto simp: start_element_def Let_def bind_sum_Inr_iff split: if_splits)

lemma read_chunk_nested:
  assumes "read_chunk key d c t n st = Inr st1" "well_nested st"
  shows "well_nested st1"
proof (cases "t = RES_XML_START_ELEMENT_TYPE")
  case True
  then have "start_element key d c n st = Inr st1" using assms(1) by (simp add: read_chunk_def)
  then obtain e where e: "elem_depth e = depth st + 1" "depth st1 = depth st + 1" "elements st1 = elements st + 1" "parsed st1 = parsed st @ [e]"
    using start_element_parsed by blast
  then show ?thesis using assms(2) by (simp add: well_nested_def preorder_snoc)
next
  case False
  then have "depth st1 = depth st \<or> (depth st1 = depth st - 1 \<and> 0 \<le> depth st1)" "elements st1 = elements st" "parsed st1 = parsed st"
    using assms(1) by (auto simp: read_chunk_def bind_sum_Inr_iff split: if_splits)
  then show ?thesis using assms(2) by (auto simp: well_nested_def)
qed

lemma run_nested: "accepted_run key d c st ns st2 \<Longrightarrow> well_nested st \<Longrightarrow> well_nested st2"
  by (induction rule: accepted_run.induct) (auto intro: read_chunk_nested)

text \<open>An element takes at least the sixteen bytes of its node.\<close>

lemma run_size: "accepted_run key d c st ns st2 \<Longrightarrow> c + 16 * elements st2 \<le> length d + 16 * elements st"
proof (induction rule: accepted_run.induct)
  case (chunk c t h n st st1 ns st2)
  note bounds = chunk_header_bounds(1,2) [OF chunk.hyps(2)]
  have "16 * elements st1 \<le> n + 16 * elements st"
  proof (cases "t = RES_XML_START_ELEMENT_TYPE")
    case True
    then have "16 \<le> n" using bounds by (simp add: minimum_header_def)
    moreover have "elements st1 = elements st + 1"
      using True chunk.hyps(3) start_element_parsed [of key d c n st st1] by (auto simp: read_chunk_def)
    ultimately show ?thesis by simp
  next
    case False
    then have "elements st1 = elements st" using chunk.hyps(3) by (auto simp: read_chunk_def bind_sum_Inr_iff split: if_splits)
    then show ?thesis by simp
  qed
  then show ?case using chunk.IH by simp
qed simp

text \<open>
  C27. A document that the reader accepts is sound, whoever wrote it: its chunks tile it from the end of its
  header to its last byte, each of a multiple of four bytes; its elements are a forest in document order, so
  that a depth is at least one and at most one more than the depth before it; and their number is bounded by
  the size of the document.
\<close>

theorem accepted_document:
  assumes "Test_BinaryAxml key d = Inr r"
  shows "\<exists>h ns. rd16 d 2 = Some h \<and> tiles d (unat h) ns \<and> preorder 0 (map elem_depth (Elements r)) \<and>
    ElementCount r = length (Elements r) \<and> 16 * ElementCount r + 8 \<le> length d"
proof (rule document_run [OF assms])
  fix h ns st
  assume run: "rd16 d 2 = Some h" "unat h \<le> length d" "8 \<le> unat h" "unat h mod 4 = 0" "accepted_run key d (unat h) axml_init ns st"
    "depth st = 0" "namespaceDepth st = 0" "sawStringPool st" "sawResourceMap st"
    "r = \<lparr>FileSize = length d, ElementCount = elements st, Strings = pool_strings st, Elements = parsed st\<rparr>"
  have "well_nested st" by (rule run_nested [OF run(5)]) (simp add: well_nested_def axml_init_def)
  moreover have "unat h + 16 * elements st \<le> length d" using run_size [OF run(5)] by (simp add: axml_init_def)
  ultimately show ?thesis using run(1,3,10) run_tiles [OF run(5)] by (auto simp: well_nested_def)
qed

section \<open>The search for a chunk\<close>

text \<open>A chunk of size zero would be visited for ever, so the search is a partial function: \<open>None\<close> is not returning.\<close>

partial_function (option) chunk_offset :: "byte list \<Rightarrow> u16 \<Rightarrow> int \<Rightarrow> nat \<Rightarrow> int \<Rightarrow> (axml_error + nat) option" where
  "chunk_offset d t occurrence cursor seen =
     (if cursor < length d then
        (case rd16 d cursor of
           None \<Rightarrow> Some (Inl Runtime_error)
         | Some u \<Rightarrow>
             if u = t \<and> seen = occurrence then Some (Inr cursor)
             else (case rd32 d (cursor + 4) of
                None \<Rightarrow> Some (Inl Runtime_error)
              | Some n \<Rightarrow> chunk_offset d t occurrence (cursor + unat n) (if u = t then seen + 1 else seen)))
      else Some (Inl (No_such_chunk t occurrence)))"

definition Get_AxmlChunkOffset :: "byte list \<Rightarrow> u16 \<Rightarrow> int \<Rightarrow> (axml_error + nat) option" where
  "Get_AxmlChunkOffset d t occurrence = (case rd16 d 2 of
     None \<Rightarrow> Some (Inl Runtime_error)
   | Some h \<Rightarrow> chunk_offset d t occurrence (unat h) 0)"

fun chunk_starts :: "nat \<Rightarrow> nat list \<Rightarrow> nat list" where
  "chunk_starts c [] = []"
| "chunk_starts c (n # ns) = c # chunk_starts (c + n) ns"

text \<open>The chunks of a type, and the one of them that is asked for.\<close>

definition nth_chunk :: "byte list \<Rightarrow> u16 \<Rightarrow> nat list \<Rightarrow> int \<Rightarrow> int \<Rightarrow> axml_error + nat" where
  "nth_chunk d t starts occurrence seen =
     (let cs = filter (\<lambda>c. rd16 d c = Some t) starts; k = occurrence - seen in
      if 0 \<le> k \<and> nat k < length cs then Inr (cs ! nat k) else Inl (No_such_chunk t occurrence))"

lemma rd16_in: "c + 2 \<le> length d \<Longrightarrow> \<exists>u. rd16 d c = Some u"
  by (simp add: rd16_def rd_def slice_def)

lemma chunk_offset_tiles:
  "tiles d c ns \<Longrightarrow> chunk_offset d t occurrence c seen = Some (nth_chunk d t (chunk_starts c ns) occurrence seen)"
proof (induction ns arbitrary: c seen)
  case Nil
  then show ?case by (subst chunk_offset.simps) (simp add: nth_chunk_def)
next
  case (Cons n ns)
  then obtain sz where sz: "rd32 d (c + 4) = Some sz" "n = unat sz" by auto
  have inside: "c < length d" "c + 2 \<le> length d" using Cons.prems by simp_all
  then obtain u where u: "rd16 d c = Some u" using rd16_in [of c d] by auto
  show ?case
  proof (cases "u = t \<and> seen = occurrence")
    case True
    then show ?thesis using inside(1) u by (simp add: chunk_offset.simps [of d t occurrence c] nth_chunk_def)
  next
    case False
    have "chunk_offset d t occurrence c seen = chunk_offset d t occurrence (c + n) (if u = t then seen + 1 else seen)"
      using False inside(1) u sz by (subst chunk_offset.simps) auto
    also have "\<dots> = Some (nth_chunk d t (chunk_starts (c + n) ns) occurrence (if u = t then seen + 1 else seen))"
      using Cons by simp
    also have "\<dots> = Some (nth_chunk d t (chunk_starts c (n # ns)) occurrence seen)"
    proof -
      have less: "nat (occurrence - (seen + 1)) = nat (occurrence - seen) - Suc 0" by arith
      show ?thesis using False u by (auto simp: nth_chunk_def Let_def nth_Cons' less)
    qed
    finally show ?thesis .
  qed
qed

text \<open>
  C28. On a document that the reader accepts, the search for a chunk ends, though it would run for ever on a chunk of
  size zero: it returns the offset of the chunk of that type at that occurrence, or reports that there is none.
\<close>

theorem chunk_search_ends:
  assumes "Test_BinaryAxml key d = Inr r"
  shows "\<exists>h ns. rd16 d 2 = Some h \<and> tiles d (unat h) ns \<and>
    Get_AxmlChunkOffset d t occurrence = Some (nth_chunk d t (chunk_starts (unat h) ns) occurrence 0)"
proof (rule document_run [OF assms])
  fix h ns st
  assume run: "rd16 d 2 = Some h" "unat h \<le> length d" "8 \<le> unat h" "unat h mod 4 = 0" "accepted_run key d (unat h) axml_init ns st"
    "depth st = 0" "namespaceDepth st = 0" "sawStringPool st" "sawResourceMap st"
    "r = \<lparr>FileSize = length d, ElementCount = elements st, Strings = pool_strings st, Elements = parsed st\<rparr>"
  from run_tiles [OF run(5)] have tiles: "tiles d (unat h) ns" .
  then show ?thesis using run(1) chunk_offset_tiles [OF tiles] by (auto simp: Get_AxmlChunkOffset_def)
qed

end
