(* ===== verification/Axml_Demo.thy ===== *)
theory Axml_Demo
  imports Axml_Manifest Axml_Drawable Axml_Accepted
begin

text \<open>
  The manifest of the application itself meets every hypothesis of the theorems on manifests, under a comparer
  that ignores the case of ASCII letters.
\<close>

definition pwsh_manifest :: manifest_params where
  "pwsh_manifest = \<lparr>PackageName = utf16 ''dev.mansfieldplumbing.pwsh'', ActivityClassName = utf16 ''MainActivity'', ActivityLabel = utf16 ''Pwsh'',
     VersionCode = 1, VersionName = utf16 ''1.0-preview'', MinSdkVersion = 26, TargetSdkVersion = 37, CompileSdkVersion = 37,
     CompileSdkVersionCodename = utf16 ''17'', NativeLibraryName = utf16 ''pwsh-host'', Debuggable = False\<rparr>"

definition other_literals :: "string list" where
  "other_literals = [''android.permission.INTERNET'', ''android.permission.ACCESS_NETWORK_STATE'', ''android.permission.WAKE_LOCK'',
     ''android.permission.POST_NOTIFICATIONS'', ''android.permission.FOREGROUND_SERVICE'', ''android.permission.REQUEST_INSTALL_PACKAGES'',
     ''uses-permission'', ''1.0-preview'', ''17'', ''Pwsh'', ''action'', ''activity'', ''android'', ''android.app.Application'', ''android.hardware.touchscreen'',
     ''android.intent.action.MAIN'', ''android.intent.category.LAUNCHER'', ''android.intent.category.LEANBACK_LAUNCHER'', ''android.software.leanback'',
     ''application'', ''base'', ''category'', ''com.android.dynamic.apk.fused.modules'', ''com.android.vending.splits'', ''dev.mansfieldplumbing.pwsh'',
     ''dev.mansfieldplumbing.pwsh.MainActivity'', ''http://schemas.android.com/apk/res/android'', ''intent-filter'', ''manifest'', ''meta-data'',
     ''package'', ''platformBuildVersionCode'', ''platformBuildVersionName'', ''uses-feature'', ''uses-sdk'', ''android.app.lib_name'', ''pwsh-host'']"

definition attr_literals :: "string list" where
  "attr_literals = [''theme'', ''label'', ''icon'', ''name'', ''exported'', ''authorities'', ''initOrder'', ''launchMode'', ''value'', ''resource'',
     ''minSdkVersion'', ''versionCode'', ''versionName'', ''targetSdkVersion'', ''allowBackup'', ''required'', ''banner'', ''extractNativeLibs'',
     ''compileSdkVersion'', ''compileSdkVersionCodename'', ''hasCode'']"

text \<open>The comparison of the operator, on ASCII.\<close>

definition same_utf16 :: "utf16 \<Rightarrow> utf16 \<Rightarrow> bool" where
  "same_utf16 s t \<longleftrightarrow> fold_utf16 s = fold_utf16 t"

lemma dropped_literal:
  "dropped same_utf16 pwsh_manifest (utf16 s) \<longleftrightarrow>
    fold_case s \<in> set (map fold_case [''mono.MonoRuntimeProvider'', ''dev.mansfieldplumbing.pwsh.mono.MonoRuntimeProvider.__mono_init__'', ''provider''])"
proof -
  have "providerAuthority pwsh_manifest = utf16 ''dev.mansfieldplumbing.pwsh.mono.MonoRuntimeProvider.__mono_init__''"
    by (simp add: providerAuthority_def pwsh_manifest_def utf16_def)
  then show ?thesis by (simp add: dropped_def same_utf16_def fold_utf16_utf16)
qed

lemma attr_folded: "map fold_case attr_literals =
    [''theme'', ''label'', ''icon'', ''name'', ''exported'', ''authorities'', ''initorder'', ''launchmode'', ''value'', ''resource'', ''minsdkversion'',
     ''versioncode'', ''versionname'', ''targetsdkversion'', ''allowbackup'', ''required'', ''banner'', ''extractnativelibs'', ''compilesdkversion'',
     ''compilesdkversioncodename'', ''hascode'']"
  by (simp add: attr_literals_def fold_case_def char_of_def bit_0)

lemma other_folded: "map fold_case other_literals =
    [''android.permission.internet'', ''android.permission.access_network_state'', ''android.permission.wake_lock'',
     ''android.permission.post_notifications'', ''android.permission.foreground_service'', ''android.permission.request_install_packages'',
     ''uses-permission'', ''1.0-preview'', ''17'', ''pwsh'', ''action'', ''activity'', ''android'', ''android.app.application'',
     ''android.hardware.touchscreen'', ''android.intent.action.main'', ''android.intent.category.launcher'',
     ''android.intent.category.leanback_launcher'', ''android.software.leanback'', ''application'', ''base'', ''category'',
     ''com.android.dynamic.apk.fused.modules'', ''com.android.vending.splits'', ''dev.mansfieldplumbing.pwsh'',
     ''dev.mansfieldplumbing.pwsh.mainactivity'', ''http://schemas.android.com/apk/res/android'', ''intent-filter'', ''manifest'', ''meta-data'',
     ''package'', ''platformbuildversioncode'', ''platformbuildversionname'', ''uses-feature'', ''uses-sdk'', ''android.app.lib_name'', ''pwsh-host'']"
  by (simp add: other_literals_def fold_case_def char_of_def bit_0)

lemma literals_distinct: "distinct (map fold_case (attr_literals @ other_literals))"
  unfolding map_append attr_folded other_folded by simp

lemma dropped_folded:
  "fold_case ''mono.MonoRuntimeProvider'' = ''mono.monoruntimeprovider''"
  "fold_case ''dev.mansfieldplumbing.pwsh.mono.MonoRuntimeProvider.__mono_init__'' = ''dev.mansfieldplumbing.pwsh.mono.monoruntimeprovider.__mono_init__''"
  "fold_case ''provider'' = ''provider''"
  by (simp_all add: fold_case_def char_of_def bit_0)

lemmas literal_folds = other_folded [unfolded other_literals_def list.map list.inject] attr_folded [unfolded attr_literals_def list.map list.inject]
  dropped_folded

lemma pwsh_parts:
  "VersionName pwsh_manifest = utf16 ''1.0-preview''" "CompileSdkVersionCodename pwsh_manifest = utf16 ''17''"
  "ActivityLabel pwsh_manifest = utf16 ''Pwsh''" "PackageName pwsh_manifest = utf16 ''dev.mansfieldplumbing.pwsh''"
  "activityFullName pwsh_manifest = utf16 ''dev.mansfieldplumbing.pwsh.MainActivity''"
  "providerAuthority pwsh_manifest = utf16 ''dev.mansfieldplumbing.pwsh.mono.MonoRuntimeProvider.__mono_init__''"
  "NativeLibraryName pwsh_manifest = utf16 ''pwsh-host''" "Debuggable pwsh_manifest = False"
  by (simp_all add: activityFullName_def providerAuthority_def pwsh_manifest_def utf16_def)

lemma dropped_iff: "dropped same_utf16 pwsh_manifest (utf16 s) \<longleftrightarrow>
    fold_case s \<in> {''mono.monoruntimeprovider'', ''dev.mansfieldplumbing.pwsh.mono.monoruntimeprovider.__mono_init__'', ''provider''}"
  unfolding dropped_literal by (simp add: dropped_folded)

lemma pwsh_base: "baseStrings pwsh_manifest = map utf16 (take 26 other_literals @ [''dev.mansfieldplumbing.pwsh.mono.MonoRuntimeProvider.__mono_init__''] @
    take 4 (drop 26 other_literals) @ [''mono.MonoRuntimeProvider''] @ take 3 (drop 30 other_literals) @ [''provider''] @ take 2 (drop 33 other_literals))"
  by (simp add: baseStrings_def pwsh_parts android_uri_def other_literals_def)

lemma others_kept: "list_all (\<lambda>s. \<not> dropped same_utf16 pwsh_manifest (utf16 s)) other_literals"
proof -
  have "list_all (\<lambda>t. t \<notin> {''mono.monoruntimeprovider'', ''dev.mansfieldplumbing.pwsh.mono.monoruntimeprovider.__mono_init__'', ''provider''})
      (map fold_case other_literals)"
    unfolding other_folded by simp
  then show ?thesis by (simp add: list_all_iff dropped_iff)
qed

lemma pwsh_dropped:
  "dropped same_utf16 pwsh_manifest (utf16 ''dev.mansfieldplumbing.pwsh.mono.MonoRuntimeProvider.__mono_init__'')"
  "dropped same_utf16 pwsh_manifest (utf16 ''mono.MonoRuntimeProvider'')" "dropped same_utf16 pwsh_manifest (utf16 ''provider'')"
  by (simp_all add: dropped_iff dropped_folded)

lemma filter_kept:
  "set xs \<subseteq> set other_literals \<Longrightarrow> filter (\<lambda>s. \<not> dropped same_utf16 pwsh_manifest s) (map utf16 xs) = map utf16 xs"
  using others_kept by (intro filter_True) (auto simp: list_all_iff)

lemma take_drop_in: "set (take n (drop m xs)) \<subseteq> set xs"
  by (meson order_trans set_drop_subset set_take_subset)

lemma pwsh_other: "otherStrings same_utf16 pwsh_manifest = map utf16 other_literals"
proof -
  have "filter (\<lambda>s. \<not> dropped same_utf16 pwsh_manifest s) (baseStrings pwsh_manifest) =
      map utf16 (take 26 other_literals @ take 4 (drop 26 other_literals) @ take 3 (drop 30 other_literals) @ take 2 (drop 33 other_literals))"
    unfolding pwsh_base map_append filter_append
    by (simp only: filter_kept [OF set_take_subset] filter_kept [OF take_drop_in] list.map filter.simps pwsh_dropped not_True_eq_False if_False append_Nil)
  then show ?thesis by (simp add: otherStrings_def pwsh_parts other_literals_def)
qed

lemma pwsh_attrs: "attrNames False = map utf16 attr_literals"
  by (simp add: attrNames_def attr_literals_def)

lemma pwsh_strings: "manifest_strings same_utf16 pwsh_manifest = map utf16 (attr_literals @ other_literals)"
  by (simp add: manifest_strings_def pwsh_parts pwsh_attrs pwsh_other)

lemma pwsh_manifest_ok: "manifest_ok fold_utf16 same_utf16 pwsh_manifest"
proof -
  have "bound pwsh_manifest" "list_all (\<lambda>i. 0 \<le> i \<and> i < 2 ^ 31) (versions pwsh_manifest)"
    by (simp_all add: bound_def versions_def pwsh_manifest_def)
  moreover have "list_all (\<lambda>s. s \<noteq> [] \<and> plain s) (manifest_strings same_utf16 pwsh_manifest)"
    unfolding pwsh_strings by (simp add: attr_literals_def other_literals_def plain_utf16)
  moreover have "inj_on fold_utf16 (set (manifest_strings same_utf16 pwsh_manifest))"
    unfolding pwsh_strings by (rule inj_utf16 [OF literals_distinct])
  moreover have "set (attrNames False) \<inter> set (otherStrings same_utf16 pwsh_manifest) = {}"
    unfolding pwsh_attrs pwsh_other by (simp add: attr_literals_def other_literals_def)
  moreover have "list_all (\<lambda>s. \<not> dropped same_utf16 pwsh_manifest s) (android_uri # tree_strings (manifest_tree pwsh_manifest))"
    by (simp add: tree_defs spec_defs pwsh_parts dropped_iff android_uri_def literal_folds)
  ultimately show ?thesis by (simp add: manifest_ok_def pwsh_parts)
qed


lemma pwsh_declared: "ids_declared (map_of (attr_table False)) (attr_table False)"
  by (simp add: ids_declared_def attr_table_def attrNames_def resIds_def)


section \<open>Other witnesses\<close>

definition sample_pool :: "utf16 list" where
  "sample_pool = [utf16 ''name'', utf16 ''android'', android_uri, utf16 ''item'']"

definition sample_calls :: "xml_call list" where
  "sample_calls = [StartNs (utf16 ''android'') android_uri 1,
     StartElem (utf16 ''item'') [Attr_String (S fold_utf16 sample_pool) (utf16 ''name'') (utf16 ''item'') True] 2,
     EndElem (utf16 ''item'') 2, EndNs (utf16 ''android'') android_uri 1]"

lemma sample_inj: "inj_on fold_utf16 (set sample_pool)"
proof -
  have "sample_pool = map utf16 [''name'', ''android'', ''http://schemas.android.com/apk/res/android'', ''item'']"
    by (simp add: sample_pool_def android_uri_def)
  moreover have "distinct (map fold_case [''name'', ''android'', ''http://schemas.android.com/apk/res/android'', ''item''])"
    by (simp add: fold_case_def)
  ultimately show ?thesis using inj_utf16 by metis
qed

lemma axml_round_trip_witness:
  "\<exists>d. write_axml fold_utf16 sample_pool [0x01010003] sample_calls = Some d \<and>
    Test_BinaryAxml fold_utf16 d = Inr \<lparr>FileSize = length d, ElementCount = 1, Strings = sample_pool,
      Elements = [\<lparr>elem_name = utf16 ''item'', elem_depth = 1, attributes = [(utf16 ''name'', Str_value (utf16 ''item''))],
        identities = [\<lparr>id_name = utf16 ''name'', Namespaced = True, ResourceId = 0x01010003\<rparr>]\<rparr>]\<rparr>"
proof -
  let ?key = "fold_utf16" and ?ss = "sample_pool"
  have found: "findable ?key ?ss x" if "x \<in> set ?ss" for x using findable_in [OF sample_inj that] .
  have "pool_size ?ss \<le> 1000" using pool_size_bound [of ?ss] by (simp add: sample_pool_def android_uri_def)
  then have fits: "axml_fits ?ss [0x01010003] sample_calls"
    by (simp add: axml_fits_def sample_pool_def sample_calls_def android_uri_def)
  have plain: "\<forall>s \<in> set ?ss. plain s" by (simp add: sample_pool_def android_uri_def plain_utf16)
  have good: "list_all (call_good ?key ?ss) sample_calls"
    using found by (auto simp: sample_calls_def attr_good_def Attr_String_def sample_pool_def)
  have nest: "nested [] [] sample_calls" by (simp add: sample_calls_def)
  have short: "length ?ss < 2 ^ 31" by (simp add: sample_pool_def)
  have name: "name_id ?key ?ss [0x01010003] (utf16 ''name'') = 0x01010003"
    using name_id_table [of ?key "[(utf16 ''name'', 0x01010003)]" "[utf16 ''android'', android_uri, utf16 ''item'']" "utf16 ''name''"]
      sample_inj by (simp add: sample_pool_def android_uri_def)
  have read: "attr_read ?ss (render (S ?key ?ss) (Text_attr True (utf16 ''name'') (utf16 ''item''))) = Str_value (utf16 ''item'')"
    using render_read [OF sample_inj _ short, of "Text_attr True (utf16 ''name'') (utf16 ''item'')"] by (simp add: sample_pool_def)
  have "call_elements ?key ?ss [0x01010003] 0 sample_calls =
      [\<lparr>elem_name = utf16 ''item'', elem_depth = 1, attributes = [(utf16 ''name'', Str_value (utf16 ''item''))],
        identities = [\<lparr>id_name = utf16 ''name'', Namespaced = True, ResourceId = 0x01010003\<rparr>]\<rparr>]"
    using read by (simp add: sample_calls_def put_all_def put_def attr_identity_def name Attr_String_def)
  then show ?thesis using axml_round_trip [OF fits plain good nest] by simp
qed

lemma accepted_document_witness:
  "\<exists>d h ns. rd16 d 2 = Some h \<and> tiles d (unat h) ns \<and>
    preorder 0 (map elem_depth (Elements (drawable_report (length d) 0x7F010001 0x7F020000 AdaptiveIcon))) \<and> 16 * 3 + 8 \<le> length d"
proof -
  obtain d where "Test_BinaryAxml fold_utf16 d = Inr (drawable_report (length d) 0x7F010001 0x7F020000 AdaptiveIcon)"
    using drawable_written_read [OF fold_utf16_drawable] by blast
  from accepted_document [OF this] show ?thesis by (auto simp: drawable_report_def)
qed

lemma chunk_search_ends_witness:
  "\<exists>d h ns. rd16 d 2 = Some h \<and> tiles d (unat h) ns \<and>
    Get_AxmlChunkOffset d RES_STRING_POOL_TYPE 0 = Some (nth_chunk d RES_STRING_POOL_TYPE (chunk_starts (unat h) ns) 0 0)"
proof -
  obtain d where "Test_BinaryAxml fold_utf16 d = Inr (drawable_report (length d) 0x7F010001 0x7F020000 AdaptiveIcon)"
    using drawable_written_read [OF fold_utf16_drawable] by blast
  from chunk_search_ends [OF this] show ?thesis by blast
qed

section \<open>Namespaces are only counted\<close>

text \<open>A document that closes a namespace before it opens one is accepted.\<close>

definition crossed :: "byte list" where
  "crossed = document_image [utf16 ''a''] [] [Node_ns_end 1 0 0, Node_ns_start 1 0 0]"

lemma namespaces_only_counted:
  "Test_BinaryAxml key crossed = Inr \<lparr>FileSize = length crossed, ElementCount = 0, Strings = [utf16 ''a''], Elements = []\<rparr>"
proof -
  have "pool_size [utf16 ''a''] \<le> 1000" using pool_size_bound [of "[utf16 ''a'']"] by simp
  then have "length crossed < 2 ^ 32"
    by (simp add: crossed_def document_image_def Let_def codec_simps pool_length map_length node_length del: enc_node.simps)
  then show ?thesis
    using document_read [of "[utf16 ''a'']" "[Node_ns_end 1 0 0, Node_ns_start 1 0 0]" "[]" key]
    by (simp add: crossed_def plain_utf16 axml_start_def axml_init_def finish_def)
qed

end
