(* ===== verification/Res_Table.thy ===== *)
theory Res_Table
  imports Axml_Tree
begin

text \<open>
  \<open>New-ResourceTable\<close> of \<open>setup.ps1\<close>, and the resolution of a resource identifier in a table, written
  from what \<open>lib/ResourceTypes.h\<close> says of its structures.
\<close>

section \<open>Emission\<close>

text \<open>An array copied into another at an offset where it fits.\<close>

definition copy_to :: "byte list \<Rightarrow> byte list \<Rightarrow> nat \<Rightarrow> byte list" where
  "copy_to bs xs at = take at xs @ bs @ drop (at + length bs) xs"

definition icon_type_spec :: "byte list" where
  "icon_type_spec = enc16 0x0202 @ enc16 16 @ enc32 (16 + 12) @ enc8 1 @ enc8 0 @ enc16 0 @ enc32 3 @ enc32 0 @ enc32 0 @ enc32 0"

definition color_type_spec :: "byte list" where
  "color_type_spec = enc16 0x0202 @ enc16 16 @ enc32 20 @ enc8 2 @ enc8 0 @ enc16 0 @ enc32 1 @ enc32 0"

definition New_IconTypeChunk :: "nat \<Rightarrow> u16 \<Rightarrow> u16 \<Rightarrow> byte list option" where
  "New_IconTypeChunk entryIndex density_value sdk = (if entryIndex > 2 then None else Some (
     let headerSize = 20 + 64; entriesStart = headerSize + 12;
       config = copy_to (enc16 sdk) (copy_to (enc16 density_value) (copy_to (enc32 64) (replicate 64 0) 0) 14) 24 in
     enc16 0x0201 @ enc16 (of_nat headerSize) @ enc32 (of_nat (entriesStart + 16)) @
     enc8 1 @ enc8 0 @ enc16 0 @ enc32 3 @ enc32 (of_nat entriesStart) @ config @
     concat (map (\<lambda>i. enc32 (if i = entryIndex then 0 else 0xFFFFFFFF)) [0..<3]) @
     enc16 8 @ enc16 0 @ enc32 (of_nat entryIndex) @ enc16 8 @ enc8 0 @ enc8 0x03 @ enc32 (of_nat entryIndex)))"

definition color_type_chunk :: "u32 \<Rightarrow> byte list" where
  "color_type_chunk backgroundColor =
     (let headerSize = 20 + 64; entriesStart = headerSize + 4; config = copy_to (enc32 64) (replicate 64 0) 0 in
     enc16 0x0201 @ enc16 (of_nat headerSize) @ enc32 (of_nat (entriesStart + 16)) @
     enc8 2 @ enc8 0 @ enc16 0 @ enc32 1 @ enc32 (of_nat entriesStart) @ config @ enc32 0 @
     enc16 8 @ enc16 0 @ enc32 3 @ enc16 8 @ enc8 0 @ enc8 0x1C @ enc32 backgroundColor)"

definition type_names :: "utf16 list" where "type_names = [utf16 ''mipmap'', utf16 ''color'']"

definition key_names :: "utf16 list" where
  "key_names = [utf16 ''ic_launcher'', utf16 ''ic_launcher_foreground'', utf16 ''ic_tv_banner'', utf16 ''ic_launcher_background'']"

definition New_ResourceTable :: "utf16 \<Rightarrow> utf16 \<Rightarrow> utf16 \<Rightarrow> utf16 \<Rightarrow> u32 \<Rightarrow> byte list option" where
  "New_ResourceTable name iconPath foregroundPath bannerPath backgroundColor =
     (if name = [] \<or> iconPath = [] \<or> foregroundPath = [] \<or> bannerPath = [] then None else do {
       valueStrings \<leftarrow> New_ResStringPool [iconPath, foregroundPath, bannerPath];
       typeStrings \<leftarrow> New_ResStringPool type_names;
       keyStrings \<leftarrow> New_ResStringPool key_names;
       iconType \<leftarrow> New_IconTypeChunk 0 0xFFFE 26;
       foregroundType \<leftarrow> New_IconTypeChunk 1 0xFFFF 0;
       bannerType \<leftarrow> New_IconTypeChunk 2 0xFFFE 26;
       let colorType = color_type_chunk backgroundColor;
       let keyStringsOffset = 288 + length typeStrings;
       packageSize \<leftarrow> cast32 (keyStringsOffset + length keyStrings + length icon_type_spec + length iconType + length foregroundType +
         length bannerType + length color_type_spec + length colorType);
       let nameBytes = Unicode_GetBytes name;
       if length nameBytes > 254 then None else do {
       keyOffset \<leftarrow> cast32 keyStringsOffset;
       let package = enc16 0x0200 @ enc16 288 @ enc32 packageSize @ enc32 0x7F @ copy_to nameBytes (replicate 256 0) 0 @
         enc32 288 @ enc32 2 @ enc32 keyOffset @ enc32 4 @ enc32 0 @ typeStrings @ keyStrings @
         icon_type_spec @ iconType @ foregroundType @ bannerType @ color_type_spec @ colorType;
       tableSize \<leftarrow> cast32 (12 + length valueStrings + length package);
       Some (enc16 0x0002 @ enc16 12 @ enc32 tableSize @ enc32 1 @ valueStrings @ package) } })"

section \<open>Resolution\<close>

text \<open>The chunks from one place to another, by the sizes in their headers.\<close>

function chunks_between :: "byte list \<Rightarrow> nat \<Rightarrow> nat \<Rightarrow> (nat \<times> ResChunk_header) list option" where
  "chunks_between d at end_at =
     (if at + 8 \<le> end_at then
        case dec_ResChunk_header d at of
          None \<Rightarrow> None
        | Some h \<Rightarrow> if unat (chunk_size h) < 8 then None else map_option (Cons (at, h)) (chunks_between d (at + unat (chunk_size h)) end_at)
      else Some [])"
  by auto
termination by (relation "measure (\<lambda>(d, at, end_at). end_at - at)") auto

declare chunks_between.simps [simp del]

text \<open>The entry of a type in one configuration, when the type has it there.\<close>

definition type_entry :: "byte list \<Rightarrow> nat \<Rightarrow> u8 \<Rightarrow> nat \<Rightarrow> (ResTable_config \<times> u32 \<times> Res_value) option" where
  "type_entry d at t e = do {
     ty \<leftarrow> dec_ResTable_type d at;
     if type_id ty = t \<and> e < unat (type_entryCount ty) then do {
       offset \<leftarrow> rd32 d (at + unat (headerSize (type_header ty)) + 4 * e);
       if offset = NO_ENTRY then None else do {
         let place = at + unat (entriesStart ty) + unat offset;
         entry \<leftarrow> dec_ResTable_entry d place;
         v \<leftarrow> entry_value d place entry;
         Some (config ty, entry_key entry, v) } }
     else None }"

record resource =
  res_config :: ResTable_config
  res_name :: utf16
  res_value :: attr_value

text \<open>Every configuration that has the resource, with its name and its text or number.\<close>

definition resolve_id :: "byte list \<Rightarrow> u32 \<Rightarrow> resource list option" where
  "resolve_id d resid = do {
     table \<leftarrow> dec_ResTable_header d 0;
     let pool_at = unat (headerSize (table_header table));
     pool \<leftarrow> dec_ResStringPool_header d pool_at;
     let pool_length = unat (chunk_size (pool_header pool));
     let at = pool_at + pool_length;
     package \<leftarrow> dec_ResTable_package d at;
     if package_id package \<noteq> Res_GETPACKAGE resid + 1 then None else do {
       let keys_at = at + unat (keyStrings package);
       keys \<leftarrow> dec_ResStringPool_header d keys_at;
       names \<leftarrow> (case read_pool d keys_at (unat (chunk_size (pool_header keys))) of Inl _ \<Rightarrow> None | Inr ss \<Rightarrow> Some ss);
       values \<leftarrow> (case read_pool d pool_at pool_length of Inl _ \<Rightarrow> None | Inr ss \<Rightarrow> Some ss);
       chunks \<leftarrow> chunks_between d (at + unat (headerSize (package_header package))) (at + unat (chunk_size (package_header package)));
       let entries = List.map_filter (\<lambda>(c, h). if chunk_type h = RES_TABLE_TYPE_TYPE
         then type_entry d c (ucast (Res_GETTYPE resid + 1)) (unat (Res_GETENTRY resid)) else None) chunks;
       those (map (\<lambda>(c, k, v). do {
         n \<leftarrow> (if unat k < length names then Some (names ! unat k) else None);
         x \<leftarrow> (if dataType v = 0x03 then (if unat (value_data v) < length values then Some (Str_value (values ! unat (value_data v))) else None)
               else Some (Num_value (value_data v)));
         Some \<lparr>res_config = c, res_name = n, res_value = x\<rparr> }) entries) } }"

section \<open>Configurations and types\<close>

definition config_of :: "u16 \<Rightarrow> u16 \<Rightarrow> ResTable_config" where
  "config_of density_value sdk = \<lparr>config_size = 64, mcc = 0, mnc = 0, language = [0, 0], country = [0, 0], orientation = 0, touchscreen = 0,
     density = density_value, keyboard = 0, navigation = 0, inputFlags = 0, inputFieldPad0 = 0, screenWidth = 0, screenHeight = 0,
     sdkVersion = sdk, minorVersion = 0, screenLayout = 0, uiMode = 0, smallestScreenWidthDp = 0, screenWidthDp = 0, screenHeightDp = 0,
     localeScript = replicate 4 0, localeVariant = replicate 8 0, screenLayout2 = 0, colorMode = 0, screenConfigPad2 = 0,
     localeScriptWasComputed = False, localeNumberingSystem = replicate 8 0\<rparr>"

lemma config_of_wf [simp]: "config_wf (config_of density_value sdk)"
  by (simp add: config_wf_def config_of_def)

lemma zero_images: "enc8 0 = [0]" "enc16 0 = [0, 0]" "enc32 0 = [0, 0, 0, 0]"
  by code_simp+

lemma config_image:
  "copy_to (enc16 sdk) (copy_to (enc16 density_value) (copy_to (enc32 64) (replicate 64 0) 0) 14) 24 =
    enc_ResTable_config (config_of density_value sdk)"
proof -
  have "copy_to (enc32 64) (replicate 64 0) 0 = enc32 64 @ replicate 60 (0 :: byte)"
    by (simp add: copy_to_def codec_simps)
  moreover have "copy_to (enc16 density_value) (enc32 64 @ replicate 60 0) 14 = enc32 64 @ replicate 10 0 @ enc16 density_value @ replicate 48 0"
    by (simp add: copy_to_def codec_simps)
  moreover have "copy_to (enc16 sdk) (enc32 64 @ replicate 10 0 @ enc16 density_value @ replicate 48 0) 24 =
      enc32 64 @ replicate 10 0 @ enc16 density_value @ replicate 8 0 @ enc16 sdk @ replicate 38 0"
    by (simp add: copy_to_def codec_simps)
  ultimately show ?thesis
    by (simp add: enc_ResTable_config_def config_of_def zero_images numeral_eq_Suc)
qed

lemma plain_config_image: "copy_to (enc32 64) (replicate 64 0) 0 = enc_ResTable_config (config_of 0 0)"
  by (simp add: copy_to_def codec_simps enc_ResTable_config_def config_of_def zero_images numeral_eq_Suc)

definition type_image :: "ResTable_type \<Rightarrow> u32 list \<Rightarrow> ResTable_entry \<Rightarrow> Res_value \<Rightarrow> byte list" where
  "type_image ty offs en v = enc_ResTable_type ty @ concat (map enc32 offs) @ enc_ResTable_entry en @ enc_Res_value v"

definition icon_type :: "u16 \<Rightarrow> u16 \<Rightarrow> ResTable_type" where
  "icon_type density_value sdk = \<lparr>type_header = \<lparr>chunk_type = RES_TABLE_TYPE_TYPE, headerSize = 84, chunk_size = 112\<rparr>, type_id = 1, type_flags = 0,
     type_reserved = 0, type_entryCount = 3, entriesStart = 96, config = config_of density_value sdk\<rparr>"

definition color_type :: ResTable_type where
  "color_type = \<lparr>type_header = \<lparr>chunk_type = RES_TABLE_TYPE_TYPE, headerSize = 84, chunk_size = 104\<rparr>, type_id = 2, type_flags = 0,
     type_reserved = 0, type_entryCount = 1, entriesStart = 88, config = config_of 0 0\<rparr>"

lemma icon_chunk:
  assumes "i \<le> 2"
  shows "New_IconTypeChunk i density_value sdk = Some (type_image (icon_type density_value sdk)
    (map (\<lambda>j. if j = i then 0 else NO_ENTRY) [0..<3]) \<lparr>full_size = 8, full_flags = 0, full_key = of_nat i\<rparr>
    \<lparr>value_size = 8, value_res0 = 0, dataType = 3, value_data = of_nat i\<rparr>)"
  using assms unfolding NO_ENTRY_def
  by (simp add: New_IconTypeChunk_def config_image type_image_def icon_type_def enc_ResTable_type_def enc_ResChunk_header_def
    enc_ResTable_entry_def enc_Res_value_def comp_def Let_def del: upt_Suc)

lemma color_chunk:
  "color_type_chunk c = type_image color_type [0] \<lparr>full_size = 8, full_flags = 0, full_key = 3\<rparr>
    \<lparr>value_size = 8, value_res0 = 0, dataType = 0x1C, value_data = c\<rparr>"
  by (simp add: color_type_chunk_def plain_config_image type_image_def color_type_def enc_ResTable_type_def enc_ResChunk_header_def
    enc_ResTable_entry_def enc_Res_value_def Let_def)

text \<open>The type at a place has the entry when its offset is there.\<close>

definition type_ok :: "ResTable_type \<Rightarrow> u32 list \<Rightarrow> ResTable_entry \<Rightarrow> bool" where
  "type_ok ty offs en \<longleftrightarrow> config_wf (config ty) \<and> chunk_type (type_header ty) = RES_TABLE_TYPE_TYPE \<and> unat (headerSize (type_header ty)) = 84 \<and>
     unat (chunk_size (type_header ty)) = 100 + 4 * length offs \<and> unat (entriesStart ty) = 84 + 4 * length offs \<and>
     unat (type_entryCount ty) = length offs \<and> full_size en = 8 \<and> full_flags en = 0 \<and> set offs \<subseteq> {0, NO_ENTRY}"

lemma type_image_split:
  assumes "config_wf (config ty)"
  obtains body where "type_image ty offs en v = enc_ResChunk_header (type_header ty) @ body" "length body = 92 + 4 * length offs"
proof -
  let ?tail = "enc8 (type_id ty) @ enc8 (type_flags ty) @ enc16 (type_reserved ty) @ enc32 (type_entryCount ty) @ enc32 (entriesStart ty) @
    enc_ResTable_config (config ty) @ concat (map enc32 offs) @ enc_ResTable_entry en @ enc_Res_value v"
  have "length (concat (map enc32 offs)) = 4 * length offs" using c32.table_length [of offs] .
  then have "length ?tail = 92 + 4 * length offs" by (simp add: codec_simps config_codec [OF assms])
  then show ?thesis using that [of ?tail] by (simp add: type_image_def enc_ResTable_type_def)
qed

lemma type_entry_image:
  assumes "type_ok ty offs en" "d = pre @ type_image ty offs en v @ post"
  shows "type_entry d (length pre) t e =
    (if type_id ty = t \<and> e < length offs \<and> offs ! e = 0 then Some (config ty, full_key en, v) else None)"
proof -
  have ok: "config_wf (config ty)" "unat (headerSize (type_header ty)) = 84" "unat (entriesStart ty) = 84 + 4 * length offs"
    "unat (type_entryCount ty) = length offs" "full_size en = 8" "full_flags en = 0" "set offs \<subseteq> {0, NO_ENTRY}"
    using assms(1) by (simp_all add: type_ok_def)
  have ty: "dec_ResTable_type d (length pre) = Some ty"
    unfolding assms(2) type_image_def append_assoc by (rule type_codec(2) [OF ok(1)])
  have size: "length (pre @ enc_ResTable_type ty) = length pre + 84" by (simp add: type_codec(1) [OF ok(1)])
  have table: "length (concat (map enc32 offs)) = 4 * length offs" using c32.table_length [of offs] .
  have offset: "rd32 d (length pre + 84 + 4 * e) = Some (offs ! e)" if "e < length offs"
    using c32.table_nth [of e offs "pre @ enc_ResTable_type ty" "enc_ResTable_entry en @ enc_Res_value v @ post"] that
    by (simp add: assms(2) type_image_def size [simplified])
  have place: "length pre + (84 + 4 * length offs) = length (pre @ enc_ResTable_type ty @ concat (map enc32 offs))"
    using size table by simp
  have entry: "dec_ResTable_entry d (length pre + (84 + 4 * length offs)) = Some en"
    unfolding place using assms(2) by (simp add: type_image_def codec_simps)
  have after: "length pre + (84 + 4 * length offs) + 8 = length (pre @ enc_ResTable_type ty @ concat (map enc32 offs) @ enc_ResTable_entry en)"
    using place by (simp add: codec_simps)
  have "dec_Res_value d (length pre + (84 + 4 * length offs) + 8) = Some v"
    unfolding after using assms(2) by (simp add: type_image_def codec_simps)
  then have "entry_value d (length pre + (84 + 4 * length offs)) en = Some v" "entry_key en = full_key en"
    using ok(5,6) by (simp_all add: entry_value_def entry_key_def is_compact_def entry_flags_def)
  moreover have "offs ! e = 0" if "e < length offs" "offs ! e \<noteq> NO_ENTRY" using nth_mem [OF that(1)] ok(7) that(2) by auto
  ultimately show ?thesis
    using offset by (auto simp: type_entry_def ty ok(2,3,4) entry NO_ENTRY_def Let_def)
qed

section \<open>The chunks of a package\<close>

datatype chunk_piece = Other ResChunk_header "byte list" | Typed ResTable_type "u32 list" ResTable_entry Res_value

fun piece_image :: "chunk_piece \<Rightarrow> byte list" where
  "piece_image (Other h b) = enc_ResChunk_header h @ b"
| "piece_image (Typed ty offs en v) = type_image ty offs en v"

fun piece_header :: "chunk_piece \<Rightarrow> ResChunk_header" where
  "piece_header (Other h b) = h"
| "piece_header (Typed ty offs en v) = type_header ty"

fun piece_ok :: "chunk_piece \<Rightarrow> bool" where
  "piece_ok (Other h b) \<longleftrightarrow> unat (chunk_size h) = 8 + length b \<and> chunk_type h \<noteq> RES_TABLE_TYPE_TYPE"
| "piece_ok (Typed ty offs en v) \<longleftrightarrow> type_ok ty offs en"

fun piece_entry :: "u8 \<Rightarrow> nat \<Rightarrow> chunk_piece \<Rightarrow> (ResTable_config \<times> u32 \<times> Res_value) option" where
  "piece_entry t e (Other h b) = None"
| "piece_entry t e (Typed ty offs en v) =
     (if type_id ty = t \<and> e < length offs \<and> offs ! e = 0 then Some (config ty, full_key en, v) else None)"

fun places :: "nat \<Rightarrow> chunk_piece list \<Rightarrow> (nat \<times> ResChunk_header) list" where
  "places at [] = []"
| "places at (p # ps) = (at, piece_header p) # places (at + length (piece_image p)) ps"

lemma piece_split:
  assumes "piece_ok p"
  obtains body where "piece_image p = enc_ResChunk_header (piece_header p) @ body" "unat (chunk_size (piece_header p)) = 8 + length body"
proof (cases p)
  case (Other h b)
  then show ?thesis using assms that by simp
next
  case (Typed ty offs en v)
  then have ok: "type_ok ty offs en" using assms by simp
  then have "config_wf (config ty)" by (simp add: type_ok_def)
  then obtain body where "type_image ty offs en v = enc_ResChunk_header (type_header ty) @ body" "length body = 92 + 4 * length offs"
    by (rule type_image_split)
  then show ?thesis using that Typed ok by (simp add: type_ok_def)
qed

lemma chunks_between_places:
  "list_all piece_ok ps \<Longrightarrow> d = pre @ concat (map piece_image ps) @ post \<Longrightarrow>
   chunks_between d (length pre) (length pre + length (concat (map piece_image ps))) = Some (places (length pre) ps)"
proof (induction ps arbitrary: pre)
  case Nil
  then show ?case by (subst chunks_between.simps) simp
next
  case (Cons p ps)
  obtain body where body: "piece_image p = enc_ResChunk_header (piece_header p) @ body" "unat (chunk_size (piece_header p)) = 8 + length body"
    using Cons.prems(1) by (auto elim: piece_split)
  have step: "chunks_between d (length (pre @ piece_image p)) (length (pre @ piece_image p) + length (concat (map piece_image ps))) =
      Some (places (length (pre @ piece_image p)) ps)"
    using Cons.prems by (intro Cons.IH) simp_all
  have len: "length (piece_image p) = 8 + length body" using body(1) by (simp add: codec_simps)
  have "dec_ResChunk_header d (length pre) = Some (piece_header p)"
    using Cons.prems(2) body(1) by (simp add: codec_simps)
  then show ?case using step body(2) len
    by (subst chunks_between.simps) (simp add: add.assoc)
qed

lemma entries_at_places:
  "list_all piece_ok ps \<Longrightarrow> d = pre @ concat (map piece_image ps) @ post \<Longrightarrow>
   List.map_filter (\<lambda>(c, h). if chunk_type h = RES_TABLE_TYPE_TYPE then type_entry d c t e else None) (places (length pre) ps) =
   List.map_filter (piece_entry t e) ps"
proof (induction ps arbitrary: pre)
  case Nil
  then show ?case by (simp add: List.map_filter_simps)
next
  case (Cons p ps)
  have rest: "List.map_filter (\<lambda>(c, h). if chunk_type h = RES_TABLE_TYPE_TYPE then type_entry d c t e else None) (places (length (pre @ piece_image p)) ps) =
      List.map_filter (piece_entry t e) ps"
    using Cons.prems by (intro Cons.IH) simp_all
  have "(if chunk_type (piece_header p) = RES_TABLE_TYPE_TYPE then type_entry d (length pre) t e else None) = piece_entry t e p"
  proof (cases p)
    case (Other h b)
    then show ?thesis using Cons.prems(1) by simp
  next
    case (Typed ty offs en v)
    then have ok: "type_ok ty offs en" using Cons.prems(1) by simp
    have "d = pre @ type_image ty offs en v @ (concat (map piece_image ps) @ post)" using Cons.prems(2) Typed by simp
    from type_entry_image [OF ok this] ok show ?thesis using Typed by (simp add: type_ok_def)
  qed
  then show ?case using rest by (simp add: List.map_filter_simps split: option.split)
qed

section \<open>The table\<close>

definition name_field :: "utf16 \<Rightarrow> u16 list" where
  "name_field name = replace_lone name @ replicate (128 - length name) 0"

lemma name_field_image:
  "length name \<le> 127 \<Longrightarrow> copy_to (Unicode_GetBytes name) (replicate 256 0) 0 = enc16s (name_field name)"
proof -
  have zeros: "enc16s (replicate n 0) = replicate (2 * n) 0" for n by (induction n) (simp_all add: enc16s_def zero_images)
  have app: "enc16s (xs @ ys) = enc16s xs @ enc16s ys" for xs ys by (simp add: enc16s_def)
  assume "length name \<le> 127"
  then show ?thesis by (simp add: copy_to_def Unicode_GetBytes_def name_field_def app zeros right_diff_distrib')
qed

definition pool_header_of :: "utf16 list \<Rightarrow> ResChunk_header" where
  "pool_header_of ss = \<lparr>chunk_type = RES_STRING_POOL_TYPE, headerSize = 28, chunk_size = of_nat (pool_size ss)\<rparr>"

definition icon_piece :: "nat \<Rightarrow> u16 \<Rightarrow> u16 \<Rightarrow> chunk_piece" where
  "icon_piece i density_value sdk = Typed (icon_type density_value sdk) (map (\<lambda>j. if j = i then 0 else NO_ENTRY) [0..<3])
     \<lparr>full_size = 8, full_flags = 0, full_key = of_nat i\<rparr> \<lparr>value_size = 8, value_res0 = 0, dataType = 3, value_data = of_nat i\<rparr>"

definition color_piece :: "u32 \<Rightarrow> chunk_piece" where
  "color_piece c = Typed color_type [0] \<lparr>full_size = 8, full_flags = 0, full_key = 3\<rparr>
     \<lparr>value_size = 8, value_res0 = 0, dataType = 0x1C, value_data = c\<rparr>"

definition spec_piece :: "u8 \<Rightarrow> nat \<Rightarrow> chunk_piece" where
  "spec_piece t n = Other \<lparr>chunk_type = RES_TABLE_TYPE_SPEC_TYPE, headerSize = 16, chunk_size = of_nat (16 + 4 * n)\<rparr>
     (enc8 t @ enc8 0 @ enc16 0 @ enc32 (of_nat n) @ concat (replicate n (enc32 0)))"

lemma spec_images: "piece_image (spec_piece 1 3) = icon_type_spec" "piece_image (spec_piece 2 1) = color_type_spec"
  by (simp_all add: spec_piece_def icon_type_spec_def color_type_spec_def enc_ResChunk_header_def numeral_3_eq_3)

definition type_pieces :: "u32 \<Rightarrow> chunk_piece list" where
  "type_pieces c = [spec_piece 1 3, icon_piece 0 0xFFFE 26, icon_piece 1 0xFFFF 0, icon_piece 2 0xFFFE 26, spec_piece 2 1, color_piece c]"

lemma type_pieces_ok: "list_all piece_ok (type_pieces c)"
  by (auto simp: type_pieces_def spec_piece_def icon_piece_def color_piece_def type_ok_def icon_type_def color_type_def codec_simps NO_ENTRY_def
    length_concat sum_list_replicate chunk_type_values)

lemma type_pieces_length: "length (concat (map piece_image (type_pieces c))) = 488"
  by (simp add: type_pieces_def spec_piece_def icon_piece_def color_piece_def type_image_def icon_type_def color_type_def codec_simps type_codec(1) length_concat sum_list_replicate comp_def sum_list_triv)

definition table_package :: "utf16 \<Rightarrow> ResTable_package" where
  "table_package name = \<lparr>package_header = \<lparr>chunk_type = RES_TABLE_PACKAGE_TYPE, headerSize = 288,
       chunk_size = of_nat (288 + pool_size type_names + pool_size key_names + 488)\<rparr>,
     package_id = 0x7F, package_name = name_field name, typeStrings = 288, lastPublicType = 2,
     keyStrings = of_nat (288 + pool_size type_names), lastPublicKey = 4, typeIdOffset = 0\<rparr>"

lemma package_name_length: "length name \<le> 127 \<Longrightarrow> length (package_name (table_package name)) = 128"
  by (simp add: table_package_def name_field_def)

definition table_image :: "utf16 \<Rightarrow> utf16 list \<Rightarrow> u32 \<Rightarrow> byte list" where
  "table_image name paths c =
     enc_ResTable_header \<lparr>table_header = \<lparr>chunk_type = RES_TABLE_TYPE, headerSize = 12,
       chunk_size = of_nat (12 + pool_size paths + 288 + pool_size type_names + pool_size key_names + 488)\<rparr>, packageCount = 1\<rparr> @
     pool_image paths @ enc_ResTable_package (table_package name) @ pool_image type_names @ pool_image key_names @
     concat (map piece_image (type_pieces c))"

lemma names_plain: "\<forall>s \<in> set type_names. plain s" "\<forall>s \<in> set key_names. plain s" "pool_size type_names < 1000" "pool_size key_names < 1000"
  using pool_size_bound [of type_names] pool_size_bound [of key_names] by (simp_all add: type_names_def key_names_def plain_utf16)

lemma table_written:
  assumes "name \<noteq> []" "length name \<le> 127" "\<forall>s \<in> {iconPath, foregroundPath, bannerPath}. s \<noteq> [] \<and> plain s"
  shows "New_ResourceTable name iconPath foregroundPath bannerPath c = Some (table_image name [iconPath, foregroundPath, bannerPath] c)"
proof -
  let ?paths = "[iconPath, foregroundPath, bannerPath]"
  have paths: "pool_size ?paths < 1000000" using pool_size_plain [of ?paths] assms(3) by simp
  have pools: "New_ResStringPool ?paths = Some (pool_image ?paths)" "New_ResStringPool type_names = Some (pool_image type_names)"
    "New_ResStringPool key_names = Some (pool_image key_names)"
    using assms(3) paths names_plain by (auto simp: plain_def type_names_def key_names_def intro!: pool_written)
  have icons: "New_IconTypeChunk i density_value sdk = Some (piece_image (icon_piece i density_value sdk))" if "i \<le> 2" for i density_value sdk
    using icon_chunk [OF that] by (simp add: icon_piece_def)
  have color: "color_type_chunk c = piece_image (color_piece c)" by (simp add: color_chunk color_piece_def)
  have total: "length icon_type_spec + length (piece_image (icon_piece 0 0xFFFE 26)) + length (piece_image (icon_piece 1 0xFFFF 0)) +
      length (piece_image (icon_piece 2 0xFFFE 26)) + length color_type_spec + length (piece_image (color_piece c)) = 488"
    using type_pieces_length [of c] unfolding type_pieces_def list.map spec_images by (simp add: add.assoc)
  have order: "icon_type_spec @ piece_image (icon_piece 0 0xFFFE 26) @ piece_image (icon_piece 1 0xFFFF 0) @ piece_image (icon_piece 2 0xFFFE 26) @
      color_type_spec @ piece_image (color_piece c) = concat (map piece_image (type_pieces c))"
    unfolding type_pieces_def list.map spec_images by simp
  let ?name = "copy_to (Unicode_GetBytes name) (replicate 256 0) 0"
  let ?package = "enc16 0x0200 @ enc16 288 @ enc32 (of_nat (288 + pool_size type_names + pool_size key_names + 488)) @ enc32 0x7F @ ?name @
    enc32 288 @ enc32 2 @ enc32 (of_nat (288 + pool_size type_names)) @ enc32 4 @ enc32 0 @ pool_image type_names @ pool_image key_names @
    concat (map piece_image (type_pieces c))"
  have package: "?package = enc_ResTable_package (table_package name) @ pool_image type_names @ pool_image key_names @ concat (map piece_image (type_pieces c))"
    by (simp add: name_field_image [OF assms(2)] enc_ResTable_package_def table_package_def enc_ResChunk_header_def)
  have size: "288 + length (pool_image type_names) + length (pool_image key_names) + length icon_type_spec + length (piece_image (icon_piece 0 0xFFFE 26)) +
      length (piece_image (icon_piece 1 0xFFFF 0)) + length (piece_image (icon_piece 2 0xFFFE 26)) + length color_type_spec + length (piece_image (color_piece c)) =
      288 + pool_size type_names + pool_size key_names + 488"
    using total by (simp only: pool_length)
  have package_length: "length ?package = 288 + pool_size type_names + pool_size key_names + 488"
    unfolding package length_append array_structures(1) [OF package_name_length [OF assms(2)]] pool_length type_pieces_length by simp
  have casts: "cast32 (288 + pool_size type_names + pool_size key_names + 488) = Some (of_nat (288 + pool_size type_names + pool_size key_names + 488))"
    "cast32 (288 + pool_size type_names) = Some (of_nat (288 + pool_size type_names))"
    "cast32 (12 + pool_size ?paths + (288 + pool_size type_names + pool_size key_names + 488)) =
      Some (of_nat (12 + pool_size ?paths + 288 + pool_size type_names + pool_size key_names + 488))"
    using names_plain(3,4) paths by (simp_all add: cast32_def add.assoc)
  have guard: "(name = [] \<or> iconPath = [] \<or> foregroundPath = [] \<or> bannerPath = []) = False" using assms by auto
  have short: "(length (Unicode_GetBytes name) > 254) = False" using assms(2) by simp
  have "New_ResourceTable name iconPath foregroundPath bannerPath c =
      Some (enc16 0x0002 @ enc16 12 @ enc32 (of_nat (12 + pool_size ?paths + 288 + pool_size type_names + pool_size key_names + 488)) @ enc32 1 @
        pool_image ?paths @ ?package)"
    unfolding New_ResourceTable_def guard if_False pools icons [OF order.refl] icons [of 0, OF zero_le] icons [of 1, OF one_le_numeral] color
      Let_def Option.bind.simps size casts(1) short
    unfolding order pool_length casts(2) Option.bind.simps package_length casts(3) ..
  then show ?thesis unfolding package by (simp add: table_image_def enc_ResTable_header_def enc_ResChunk_header_def)
qed

section \<open>Every resource resolves\<close>

lemma pool_header_read:
  "dec_ResStringPool_header (pre @ pool_image ss @ post) (length pre) = Some \<lparr>pool_header = pool_header_of ss, stringCount = of_nat (length ss),
     styleCount = 0, pool_flags = 0, stringsStart = of_nat (28 + 4 * length ss), stylesStart = 0\<rparr>"
  by (simp add: pool_image_def pool_header_of_def codec_simps del: of_nat_add of_nat_mult)

definition as_resource :: "utf16 list \<Rightarrow> ResTable_config \<times> u32 \<times> Res_value \<Rightarrow> resource option" where
  "as_resource values = (\<lambda>(c, k, v). do {
     n \<leftarrow> (if unat k < length key_names then Some (key_names ! unat k) else None);
     x \<leftarrow> (if dataType v = 0x03 then (if unat (value_data v) < length values then Some (Str_value (values ! unat (value_data v))) else None)
           else Some (Num_value (value_data v)));
     Some \<lparr>res_config = c, res_name = n, res_value = x\<rparr> })"

lemma resolve_image:
  assumes "length name \<le> 127" "\<forall>s \<in> set paths. plain s" "pool_size paths < 2 ^ 31" "Res_GETPACKAGE resid = 0x7E"
  shows "resolve_id (table_image name paths c) resid =
    those (map (as_resource paths) (List.map_filter (piece_entry (ucast (Res_GETTYPE resid + 1)) (unat (Res_GETENTRY resid))) (type_pieces c)))"
proof -
  let ?d = "table_image name paths c"
  let ?H = "\<lparr>table_header = \<lparr>chunk_type = RES_TABLE_TYPE, headerSize = 12,
    chunk_size = of_nat (12 + pool_size paths + 288 + pool_size type_names + pool_size key_names + 488)\<rparr>, packageCount = 1\<rparr>"
  let ?pre0 = "enc_ResTable_header ?H" and ?P = "table_package name"
  let ?pre1 = "?pre0 @ pool_image paths"
  let ?pre2 = "?pre1 @ enc_ResTable_package ?P @ pool_image type_names"
  let ?pre3 = "?pre2 @ pool_image key_names" and ?rest = "concat (map piece_image (type_pieces c))"
  note P = array_structures(1,2) [OF package_name_length [OF assms(1)]]
  have d: "?d = ?pre0 @ pool_image paths @ enc_ResTable_package ?P @ pool_image type_names @ pool_image key_names @ ?rest"
    by (simp add: table_image_def)
  have lens: "length ?pre0 = 12" "length ?pre1 = 12 + pool_size paths" "length ?pre2 = 12 + pool_size paths + (288 + pool_size type_names)"
    "length ?pre3 = 12 + pool_size paths + (288 + pool_size type_names + pool_size key_names)"
    using P(1) by (simp_all only: length_append pool_length, simp_all add: codec_simps)
  have header: "dec_ResTable_header ?d 0 = Some ?H" unfolding d by (simp only: ResTable_header_codec(3))
  have pool: "dec_ResStringPool_header ?d 12 = Some \<lparr>pool_header = pool_header_of paths, stringCount = of_nat (length paths),
     styleCount = 0, pool_flags = 0, stringsStart = of_nat (28 + 4 * length paths), stylesStart = 0\<rparr>"
    using pool_header_read [of ?pre0 paths] unfolding lens d .
  have package: "dec_ResTable_package ?d (12 + pool_size paths) = Some ?P"
    using P(2) [of ?pre1] unfolding lens d by simp
  have keys: "dec_ResStringPool_header ?d (12 + pool_size paths + (288 + pool_size type_names)) = Some \<lparr>pool_header = pool_header_of key_names,
     stringCount = of_nat (length key_names), styleCount = 0, pool_flags = 0, stringsStart = of_nat (28 + 4 * length key_names), stylesStart = 0\<rparr>"
    using pool_header_read [of ?pre2 key_names ?rest] unfolding lens d by simp
  have names: "read_pool ?d (12 + pool_size paths + (288 + pool_size type_names)) (pool_size key_names) = Inr key_names"
    using read_pool_image [OF names_plain(2), of ?d ?pre2 ?rest] names_plain(4) unfolding lens by (simp add: d)
  have texts: "read_pool ?d 12 (pool_size paths) = Inr paths"
    using read_pool_image [OF assms(2), of ?d ?pre0] assms(3) unfolding lens by (simp add: d)
  obtain tb kb where pools: "pool_image type_names = enc_ResChunk_header (pool_header_of type_names) @ tb" "8 + length tb = pool_size type_names"
    "pool_image key_names = enc_ResChunk_header (pool_header_of key_names) @ kb" "8 + length kb = pool_size key_names"
    unfolding pool_header_of_def using pool_image_parts by metis
  let ?ps = "Other (pool_header_of type_names) tb # Other (pool_header_of key_names) kb # type_pieces c"
  let ?pre = "?pre1 @ enc_ResTable_package ?P"
  have images: "concat (map piece_image ?ps) = pool_image type_names @ pool_image key_names @ ?rest"
    by (simp add: pools(1,3))
  have ok: "list_all piece_ok ?ps"
    using pools(2,4) names_plain(3,4) type_pieces_ok by (simp add: pool_header_of_def unat_of_nat chunk_type_values)
  have dp: "?d = ?pre @ concat (map piece_image ?ps) @ []" unfolding images by (simp add: d)
  have pre: "length ?pre = 12 + pool_size paths + 288" using lens(2) P(1) by simp
  have total: "length (concat (map piece_image ?ps)) = pool_size type_names + pool_size key_names + 488"
    unfolding images by (simp add: pool_length type_pieces_length)
  have run: "chunks_between ?d (length ?pre) (length ?pre + length (concat (map piece_image ?ps))) = Some (places (length ?pre) ?ps)"
    by (rule chunks_between_places [OF ok dp])
  have ends: "12 + pool_size paths + 288 + (pool_size type_names + pool_size key_names + 488) =
      12 + pool_size paths + (288 + pool_size type_names + pool_size key_names + 488)" by simp
  note chunks = run [unfolded pre total ends]
  have entries: "List.map_filter (\<lambda>(at, h). if chunk_type h = RES_TABLE_TYPE_TYPE then type_entry ?d at t e else None)
      (places (12 + pool_size paths + 288) ?ps) = List.map_filter (piece_entry t e) (type_pieces c)" for t e
    using entries_at_places [OF ok dp, of t e] unfolding pre by (simp add: List.map_filter_simps)
  have fields: "unat (headerSize (table_header ?H)) = 12" "unat (chunk_size (pool_header_of paths)) = pool_size paths"
    "unat (keyStrings ?P) = 288 + pool_size type_names" "unat (chunk_size (pool_header_of key_names)) = pool_size key_names"
    "unat (headerSize (package_header ?P)) = 288" "unat (chunk_size (package_header ?P)) = 288 + pool_size type_names + pool_size key_names + 488"
    "package_id ?P = 0x7F"
    using assms(3) names_plain(3,4)
    by (simp_all add: table_package_def pool_header_of_def unat_of_nat del: of_nat_add of_nat_mult of_nat_numeral)
  show ?thesis
    unfolding resolve_id_def header Option.bind.simps fields(1) pool Let_def ResStringPool_header.simps fields(2) package fields(3,7)
      keys fields(4) names texts fields(5,6) chunks sum.case entries as_resource_def
    by (simp add: assms(4))
qed

lemma table_resources:
  assumes "length name \<le> 127" "\<forall>s \<in> set [iconPath, foregroundPath, bannerPath]. plain s"
  shows "resolve_id (table_image name [iconPath, foregroundPath, bannerPath] c) 0x7F010000 =
      Some [\<lparr>res_config = config_of 0xFFFE 26, res_name = utf16 ''ic_launcher'', res_value = Str_value iconPath\<rparr>]"
    "resolve_id (table_image name [iconPath, foregroundPath, bannerPath] c) 0x7F010001 =
      Some [\<lparr>res_config = config_of 0xFFFF 0, res_name = utf16 ''ic_launcher_foreground'', res_value = Str_value foregroundPath\<rparr>]"
    "resolve_id (table_image name [iconPath, foregroundPath, bannerPath] c) 0x7F010002 =
      Some [\<lparr>res_config = config_of 0xFFFE 26, res_name = utf16 ''ic_tv_banner'', res_value = Str_value bannerPath\<rparr>]"
    "resolve_id (table_image name [iconPath, foregroundPath, bannerPath] c) 0x7F020000 =
      Some [\<lparr>res_config = config_of 0 0, res_name = utf16 ''ic_launcher_background'', res_value = Num_value c\<rparr>]"
proof -
  have small: "pool_size [iconPath, foregroundPath, bannerPath] < 2 ^ 31" using pool_size_plain [OF assms(2)] by simp
  have ids: "Res_GETPACKAGE 0x7F010000 = 0x7E" "Res_GETPACKAGE 0x7F010001 = 0x7E" "Res_GETPACKAGE 0x7F010002 = 0x7E" "Res_GETPACKAGE 0x7F020000 = 0x7E"
    "Res_GETTYPE 0x7F010000 = 0" "Res_GETTYPE 0x7F010001 = 0" "Res_GETTYPE 0x7F010002 = 0" "Res_GETTYPE 0x7F020000 = 1"
    "Res_GETENTRY 0x7F010000 = 0" "Res_GETENTRY 0x7F010001 = 1" "Res_GETENTRY 0x7F010002 = 2" "Res_GETENTRY 0x7F020000 = 0"
    by (simp_all add: Res_GETPACKAGE_def Res_GETTYPE_def Res_GETENTRY_def drop_bit_eq_div)
  note resolve = resolve_image [OF assms small]
  note pieces = type_pieces_def icon_piece_def color_piece_def spec_piece_def icon_type_def color_type_def as_resource_def key_names_def
    List.map_filter_simps NO_ENTRY_def
  show "resolve_id (table_image name [iconPath, foregroundPath, bannerPath] c) 0x7F010000 =
      Some [\<lparr>res_config = config_of 0xFFFE 26, res_name = utf16 ''ic_launcher'', res_value = Str_value iconPath\<rparr>]"
    unfolding resolve [OF ids(1)] ids by (simp add: pieces)
  show "resolve_id (table_image name [iconPath, foregroundPath, bannerPath] c) 0x7F010001 =
      Some [\<lparr>res_config = config_of 0xFFFF 0, res_name = utf16 ''ic_launcher_foreground'', res_value = Str_value foregroundPath\<rparr>]"
    unfolding resolve [OF ids(2)] ids by (simp add: pieces)
  show "resolve_id (table_image name [iconPath, foregroundPath, bannerPath] c) 0x7F010002 =
      Some [\<lparr>res_config = config_of 0xFFFE 26, res_name = utf16 ''ic_tv_banner'', res_value = Str_value bannerPath\<rparr>]"
    unfolding resolve [OF ids(3)] ids by (simp add: pieces)
  show "resolve_id (table_image name [iconPath, foregroundPath, bannerPath] c) 0x7F020000 =
      Some [\<lparr>res_config = config_of 0 0, res_name = utf16 ''ic_launcher_background'', res_value = Num_value c\<rparr>]"
    unfolding resolve [OF ids(4)] ids by (simp add: pieces)
qed

text \<open>
  C29. The emitted resource table resolves every identifier the program uses, read as the structures of
  \<open>lib/ResourceTypes.h\<close>: each of the three drawables to its path, in its density and from its version of the
  system on, and the background to its colour, each under its name and in exactly one configuration.
\<close>

theorem resource_table_resolves:
  assumes "name \<noteq> []" "length name \<le> 127" "iconPath \<noteq> []" "foregroundPath \<noteq> []" "bannerPath \<noteq> []"
    "plain iconPath" "plain foregroundPath" "plain bannerPath"
  shows "\<exists>d. New_ResourceTable name iconPath foregroundPath bannerPath c = Some d \<and>
    resolve_id d 0x7F010000 = Some [\<lparr>res_config = config_of 0xFFFE 26, res_name = utf16 ''ic_launcher'', res_value = Str_value iconPath\<rparr>] \<and>
    resolve_id d 0x7F010001 = Some [\<lparr>res_config = config_of 0xFFFF 0, res_name = utf16 ''ic_launcher_foreground'', res_value = Str_value foregroundPath\<rparr>] \<and>
    resolve_id d 0x7F010002 = Some [\<lparr>res_config = config_of 0xFFFE 26, res_name = utf16 ''ic_tv_banner'', res_value = Str_value bannerPath\<rparr>] \<and>
    resolve_id d 0x7F020000 = Some [\<lparr>res_config = config_of 0 0, res_name = utf16 ''ic_launcher_background'', res_value = Num_value c\<rparr>]"
proof -
  have "New_ResourceTable name iconPath foregroundPath bannerPath c = Some (table_image name [iconPath, foregroundPath, bannerPath] c)"
    using assms by (intro table_written) simp_all
  moreover have "\<forall>s \<in> set [iconPath, foregroundPath, bannerPath]. plain s" using assms(6-8) by simp
  ultimately show ?thesis using table_resources [OF assms(2)] by blast
qed

lemma resource_table_resolves_witness:
  "\<exists>d. New_ResourceTable (utf16 ''dev.mansfieldplumbing.pwsh'') (utf16 ''res/icon.xml'') (utf16 ''res/art.png'') (utf16 ''res/banner.xml'') 0xFF012456 = Some d \<and>
    resolve_id d 0x7F010002 = Some [\<lparr>res_config = config_of 0xFFFE 26, res_name = utf16 ''ic_tv_banner'', res_value = Str_value (utf16 ''res/banner.xml'')\<rparr>]"
  using resource_table_resolves [where name = "utf16 ''dev.mansfieldplumbing.pwsh''" and iconPath = "utf16 ''res/icon.xml''"
      and foregroundPath = "utf16 ''res/art.png''" and bannerPath = "utf16 ''res/banner.xml''" and c = "0xFF012456"]
  by (auto simp: plain_utf16)

end
