(* ===== verification/A64_Code.thy ===== *)
theory A64_Code
  imports Prelude
begin

text \<open>
  The AArch64 section of \<open>setup.ps1\<close>: the named encoders, the independent decoder, and the step encoder
  \<open>New-A64Step\<close> with its verifier \<open>Test-A64Step\<close>.  A step is the hashtable the host programs are
  written in, a constructor for every operation with the fields it has; an exception is \<open>Inl\<close>.  The
  32-bit arithmetic of the encoders is that of words, addresses are mathematical integers: an image has
  fewer than \<open>2^31\<close> bytes.
\<close>

datatype a64_error =
    Invalid_argument
  | Adr_out_of_range int
  | Misaligned_offset int
  | Offset_out_of_range int
  | Misaligned_distance int
  | Distance_out_of_range int
  | Unrecognized u32
  | Label_moved string
  | Unexpected_instruction
  | Outside_image

section \<open>Steps\<close>

datatype wide_op = Movz | Movn
datatype adr_op = Adr | Adrp
datatype register_op = Br | Ret_op
datatype pair_op = Stp_pre | Ldp_post | Stp | Ldp
datatype mem_op = Ldr64 | Ldr32 | Str64
datatype branch_op = B | B_hs | Cbz | Cbnz
datatype page_op = Lea_data | Load64_data | Load32_data

datatype a64_step =
    Label string
  | Wide wide_op int int bool
  | Mov int int bool
  | Ret
  | Adr_data int string
  | Tail string
  | Pair pair_op int int int
  | Add_imm int int int
  | Add_reg int int int
  | Cmp_imm32 int int
  | Mem mem_op int int int
  | Page_data page_op int string
  | Load_got int string
  | Call_import string int
  | Call_data string int
  | Branch string
  | Branch_hs string
  | Compare_branch bool int bool string

section \<open>Encoders\<close>

definition in_range :: "int \<Rightarrow> int \<Rightarrow> int \<Rightarrow> bool" where
  "in_range a b v \<longleftrightarrow> a \<le> v \<and> v \<le> b"

definition New_A64MovWide :: "wide_op \<Rightarrow> int \<Rightarrow> int \<Rightarrow> bool \<Rightarrow> a64_error + u32" where
  "New_A64MovWide op Rd imm16 is64 =
     (if \<not> in_range 0 31 Rd \<or> \<not> in_range 0 65535 imm16 then Inl Invalid_argument
      else Inr (push_bit 31 (of_bool is64) OR push_bit 29 (case op of Movz \<Rightarrow> 2 | Movn \<Rightarrow> 0) OR push_bit 23 0x25
        OR push_bit 5 (word_of_int imm16) OR word_of_int Rd))"

definition New_A64MovRegister :: "int \<Rightarrow> int \<Rightarrow> bool \<Rightarrow> a64_error + u32" where
  "New_A64MovRegister Rd Rm is64 =
     (if \<not> in_range 0 30 Rd \<or> \<not> in_range 0 30 Rm then Inl Invalid_argument
      else Inr (push_bit 31 (of_bool is64) OR 0x2A000000 OR push_bit 16 (word_of_int Rm) OR push_bit 5 31 OR word_of_int Rd))"

definition New_A64Adr :: "adr_op \<Rightarrow> int \<Rightarrow> int \<Rightarrow> a64_error + u32" where
  "New_A64Adr op Rd imm21 =
     (if \<not> in_range 0 30 Rd then Inl Invalid_argument
      else if imm21 < -1048576 \<or> imm21 > 1048575 then Inl (Adr_out_of_range imm21)
      else let v = word_of_int (imm21 AND 0x1FFFFF) in
        Inr (push_bit 31 (case op of Adrp \<Rightarrow> 1 | Adr \<Rightarrow> 0) OR push_bit 29 (v AND 3) OR push_bit 24 0x10
          OR push_bit 5 (drop_bit 2 v AND 0x7FFFF) OR word_of_int Rd))"

definition New_A64LdrUnsigned :: "int \<Rightarrow> int \<Rightarrow> int \<Rightarrow> a64_error + u32" where
  "New_A64LdrUnsigned Rt Rn offset =
     (if \<not> in_range 0 30 Rt \<or> \<not> in_range 0 31 Rn \<or> \<not> in_range 0 32760 offset then Inl Invalid_argument
      else if offset mod 8 \<noteq> 0 then Inl (Misaligned_offset offset)
      else Inr (0xF9400000 OR push_bit 10 (word_of_int (offset div 8)) OR push_bit 5 (word_of_int Rn) OR word_of_int Rt))"

definition New_A64BranchRegister :: "register_op \<Rightarrow> int \<Rightarrow> a64_error + u32" where
  "New_A64BranchRegister op Rn =
     (if \<not> in_range 0 30 Rn then Inl Invalid_argument
      else Inr (0xD61F0000 OR push_bit 21 (case op of Ret_op \<Rightarrow> 2 | Br \<Rightarrow> 0) OR push_bit 5 (word_of_int Rn)))"

definition New_A64PairTransfer :: "pair_op \<Rightarrow> int \<Rightarrow> int \<Rightarrow> int \<Rightarrow> int \<Rightarrow> a64_error + u32" where
  "New_A64PairTransfer op Rt Rt2 Rn offset =
     (if \<not> in_range 0 30 Rt \<or> \<not> in_range 0 30 Rt2 \<or> \<not> in_range 0 31 Rn then Inl Invalid_argument
      else if offset mod 8 \<noteq> 0 \<or> offset < -512 \<or> offset > 504 then Inl (Misaligned_offset offset)
      else Inr ((case op of Stp_pre \<Rightarrow> 0xA9800000 | Ldp_post \<Rightarrow> 0xA8C00000 | Stp \<Rightarrow> 0xA9000000 | Ldp \<Rightarrow> 0xA9400000)
        OR push_bit 15 (word_of_int ((offset div 8) AND 0x7F)) OR push_bit 10 (word_of_int Rt2) OR push_bit 5 (word_of_int Rn)
        OR word_of_int Rt))"

definition New_A64AddImmediate :: "int \<Rightarrow> int \<Rightarrow> int \<Rightarrow> a64_error + u32" where
  "New_A64AddImmediate Rd Rn imm =
     (if \<not> in_range 0 31 Rd \<or> \<not> in_range 0 31 Rn \<or> \<not> in_range 0 4095 imm then Inl Invalid_argument
      else Inr (0x91000000 OR push_bit 10 (word_of_int imm) OR push_bit 5 (word_of_int Rn) OR word_of_int Rd))"

definition New_A64AddRegister :: "int \<Rightarrow> int \<Rightarrow> int \<Rightarrow> a64_error + u32" where
  "New_A64AddRegister Rd Rn Rm =
     (if \<not> in_range 0 30 Rd \<or> \<not> in_range 0 30 Rn \<or> \<not> in_range 0 30 Rm then Inl Invalid_argument
      else Inr (0x8B000000 OR push_bit 16 (word_of_int Rm) OR push_bit 5 (word_of_int Rn) OR word_of_int Rd))"

definition New_A64CompareImmediate :: "int \<Rightarrow> int \<Rightarrow> a64_error + u32" where
  "New_A64CompareImmediate Rn imm =
     (if \<not> in_range 0 30 Rn \<or> \<not> in_range 0 4095 imm then Inl Invalid_argument
      else Inr (0x7100001F OR push_bit 10 (word_of_int imm) OR push_bit 5 (word_of_int Rn)))"

definition New_A64LoadStore :: "mem_op \<Rightarrow> int \<Rightarrow> int \<Rightarrow> int \<Rightarrow> a64_error + u32" where
  "New_A64LoadStore op Rt Rn offset =
     (let scale = (case op of Ldr32 \<Rightarrow> 4 | _ \<Rightarrow> 8) in
      if \<not> in_range 0 30 Rt \<or> \<not> in_range 0 31 Rn then Inl Invalid_argument
      else if offset mod scale \<noteq> 0 \<or> offset < 0 \<or> offset div scale > 4095 then Inl (Offset_out_of_range offset)
      else Inr ((case op of Ldr64 \<Rightarrow> 0xF9400000 | Ldr32 \<Rightarrow> 0xB9400000 | Str64 \<Rightarrow> 0xF9000000)
        OR push_bit 10 (word_of_int (offset div scale)) OR push_bit 5 (word_of_int Rn) OR word_of_int Rt))"

text \<open>The register of a comparing branch has no range of its own.\<close>

definition New_A64Branch :: "branch_op \<Rightarrow> int \<Rightarrow> int \<Rightarrow> bool \<Rightarrow> a64_error + u32" where
  "New_A64Branch op distance Rt is64 =
     (if distance mod 4 \<noteq> 0 then Inl (Misaligned_distance distance)
      else let words = distance div 4; bits = (case op of B \<Rightarrow> 26 | _ \<Rightarrow> 19); limit = push_bit (bits - 1) 1 in
      if words < - limit \<or> words \<ge> limit then Inl (Distance_out_of_range distance)
      else let field = word_of_int (words AND (push_bit bits 1 - 1)) in
        Inr (case op of
          B \<Rightarrow> 0x14000000 OR field
        | B_hs \<Rightarrow> 0x54000000 OR push_bit 5 field OR 2
        | Cbz \<Rightarrow> push_bit 31 (of_bool is64) OR 0x34000000 OR push_bit 5 field OR word_of_int Rt
        | Cbnz \<Rightarrow> push_bit 31 (of_bool is64) OR 0x35000000 OR push_bit 5 field OR word_of_int Rt))"

section \<open>The decoder\<close>

datatype a64_instruction =
    I_wide wide_op bool int int int
  | I_mov bool int int
  | I_adr adr_op int int
  | I_mem mem_op int int int
  | I_pair pair_op int int int int
  | I_add_imm int int int
  | I_add_reg int int int
  | I_cmp_imm32 int int
  | I_b int
  | I_b_cond int int
  | I_compare bool bool int int
  | I_blr int
  | I_br int
  | I_ret int

text \<open>A field as a signed number of so many bits.\<close>

definition signed_field :: "int \<Rightarrow> nat \<Rightarrow> int" where
  "signed_field v bits = (if v AND push_bit (bits - 1) 1 \<noteq> 0 then v - push_bit bits 1 else v)"

definition field_at :: "u32 \<Rightarrow> nat \<Rightarrow> u32 \<Rightarrow> int" where
  "field_at w k m = uint (drop_bit k w AND m)"

definition Read_A64Instruction :: "u32 \<Rightarrow> a64_error + a64_instruction" where
  "Read_A64Instruction w =
     (let is64 = (drop_bit 31 w \<noteq> 0); Rd = field_at w 0 31; Rn = field_at w 5 31; Rm = field_at w 16 31; imm12 = field_at w 10 0xFFF;
          imm19 = signed_field (field_at w 5 0x7FFFF) 19;
          pair = (\<lambda>op. I_pair op (8 * signed_field (field_at w 15 0x7F) 7) (field_at w 10 31) Rn Rd) in
      if w AND 0x7F800000 = 0x52800000 then Inr (I_wide Movz is64 (field_at w 21 3) (field_at w 5 0xFFFF) Rd)
      else if w AND 0x7F800000 = 0x12800000 then Inr (I_wide Movn is64 (field_at w 21 3) (field_at w 5 0xFFFF) Rd)
      else if w AND 0x7FE0FFE0 = 0x2A0003E0 then Inr (I_mov is64 Rm Rd)
      else if w AND 0x1F000000 = 0x10000000 then
        (let raw = uint (push_bit 2 (drop_bit 5 w AND 0x7FFFF) OR (drop_bit 29 w AND 3)) in
         Inr (I_adr (if w AND 0x80000000 \<noteq> 0 then Adrp else Adr) (if raw AND 0x100000 \<noteq> 0 then raw - 0x200000 else raw) Rd))
      else if w AND 0xFFC00000 = 0xF9400000 then Inr (I_mem Ldr64 (imm12 * 8) Rn Rd)
      else if w AND 0xFFC00000 = 0xB9400000 then Inr (I_mem Ldr32 (imm12 * 4) Rn Rd)
      else if w AND 0xFFC00000 = 0xF9000000 then Inr (I_mem Str64 (imm12 * 8) Rn Rd)
      else if w AND 0xFFC00000 = 0xA9800000 then Inr (pair Stp_pre)
      else if w AND 0xFFC00000 = 0xA8C00000 then Inr (pair Ldp_post)
      else if w AND 0xFFC00000 = 0xA9000000 then Inr (pair Stp)
      else if w AND 0xFFC00000 = 0xA9400000 then Inr (pair Ldp)
      else if w AND 0xFFC00000 = 0x91000000 then Inr (I_add_imm imm12 Rn Rd)
      else if w AND 0xFFE0FC00 = 0x8B000000 then Inr (I_add_reg Rm Rn Rd)
      else if w AND 0xFFC0001F = 0x7100001F then Inr (I_cmp_imm32 imm12 Rn)
      else if w AND 0xFC000000 = 0x14000000 then Inr (I_b (4 * signed_field (field_at w 0 0x3FFFFFF) 26))
      else if w AND 0xFF000010 = 0x54000000 then Inr (I_b_cond (field_at w 0 0xF) (4 * imm19))
      else if w AND 0x7E000000 = 0x34000000 then Inr (I_compare (w AND 0x01000000 \<noteq> 0) is64 Rd (4 * imm19))
      else if w AND 0xFFFFFC1F = 0xD63F0000 then Inr (I_blr Rn)
      else if w AND 0xFFFFFC1F = 0xD61F0000 then Inr (I_br Rn)
      else if w AND 0xFFFFFC1F = 0xD65F0000 then Inr (I_ret Rn)
      else Inl (Unrecognized w))"

section \<open>Steps in an image\<close>

fun Get_A64StepLength :: "a64_step \<Rightarrow> nat" where
  "Get_A64StepLength (Label n) = 0"
| "Get_A64StepLength (Tail f) = 12"
| "Get_A64StepLength (Call_import f n) = 12"
| "Get_A64StepLength (Call_data l n) = 12"
| "Get_A64StepLength (Page_data op Rd l) = 8"
| "Get_A64StepLength (Load_got Rd f) = 8"
| "Get_A64StepLength s = 4"

text \<open>The values of several encoders in order.\<close>

fun in_order :: "('e + 'a) list \<Rightarrow> 'e + 'a list" where
  "in_order [] = Inr []"
| "in_order (x # xs) = bind_sum x (\<lambda>v. bind_sum (in_order xs) (\<lambda>vs. Inr (v # vs)))"

fun a64_words :: "a64_step \<Rightarrow> int \<Rightarrow> int \<Rightarrow> int \<Rightarrow> int \<Rightarrow> (a64_error + u32) list" where
  "a64_words (Label n) pc target pages low = []"
| "a64_words (Wide op Rd imm is64) pc target pages low = [New_A64MovWide op Rd imm is64]"
| "a64_words (Mov Rd Rm is64) pc target pages low = [New_A64MovRegister Rd Rm is64]"
| "a64_words Ret pc target pages low = [New_A64BranchRegister Ret_op 30]"
| "a64_words (Adr_data Rd l) pc target pages low = [New_A64Adr Adr Rd (target - pc)]"
| "a64_words (Tail f) pc target pages low = [New_A64Adr Adrp 16 pages, New_A64LdrUnsigned 16 16 low, New_A64BranchRegister Br 16]"
| "a64_words (Pair op Rt Rt2 off) pc target pages low = [New_A64PairTransfer op Rt Rt2 31 off]"
| "a64_words (Add_imm Rd Rn imm) pc target pages low = [New_A64AddImmediate Rd Rn imm]"
| "a64_words (Add_reg Rd Rn Rm) pc target pages low = [New_A64AddRegister Rd Rn Rm]"
| "a64_words (Cmp_imm32 Rn imm) pc target pages low = [New_A64CompareImmediate Rn imm]"
| "a64_words (Mem op Rt Rn off) pc target pages low = [New_A64LoadStore op Rt Rn off]"
| "a64_words (Page_data Lea_data Rd l) pc target pages low = [New_A64Adr Adrp Rd pages, New_A64AddImmediate Rd Rd low]"
| "a64_words (Page_data Load64_data Rd l) pc target pages low = [New_A64Adr Adrp Rd pages, New_A64LoadStore Ldr64 Rd Rd low]"
| "a64_words (Page_data Load32_data Rd l) pc target pages low = [New_A64Adr Adrp Rd pages, New_A64LoadStore Ldr32 Rd Rd low]"
| "a64_words (Load_got Rd f) pc target pages low = [New_A64Adr Adrp Rd pages, New_A64LoadStore Ldr64 Rd Rd low]"
| "a64_words (Call_import f n) pc target pages low = [New_A64Adr Adrp 16 pages, New_A64LoadStore Ldr64 16 16 low, Inr (0xD63F0000 OR push_bit 5 16)]"
| "a64_words (Call_data l n) pc target pages low = [New_A64Adr Adrp 16 pages, New_A64LoadStore Ldr64 16 16 low, Inr (0xD63F0000 OR push_bit 5 16)]"
| "a64_words (Branch l) pc target pages low = [New_A64Branch B (target - pc) 0 False]"
| "a64_words (Branch_hs l) pc target pages low = [New_A64Branch B_hs (target - pc) 0 False]"
| "a64_words (Compare_branch nz Rt is64 l) pc target pages low = [New_A64Branch (if nz then Cbnz else Cbz) (target - pc) Rt is64]"

definition page_distance :: "int \<Rightarrow> int \<Rightarrow> int" where
  "page_distance pc target = drop_bit 12 ((target AND -4096) - (pc AND -4096))"

definition New_A64Step :: "a64_step \<Rightarrow> int \<Rightarrow> int \<Rightarrow> a64_error + byte list" where
  "New_A64Step s pc target =
     bind_sum (in_order (a64_words s pc target (page_distance pc target) (target AND 0xFFF))) (\<lambda>ws. Inr (concat (map enc32 ws)))"

text \<open>The word at \<open>pc + 4 * k\<close>, decoded.\<close>

definition decode_at :: "byte list \<Rightarrow> int \<Rightarrow> nat \<Rightarrow> a64_error + a64_instruction" where
  "decode_at img pc k =
     (if pc < 0 then Inl Outside_image
      else bind_sum (or_abort Outside_image (rd32 img (nat pc + 4 * k))) Read_A64Instruction)"

text \<open>
  The address that an ADRP at \<open>pc\<close> and the page offset of the next instruction select; a \<open>null\<close> becomes
  slot 0 when it is looked up.
\<close>

definition paged :: "int \<Rightarrow> a64_instruction \<Rightarrow> int \<Rightarrow> int option" where
  "paged pc i low = (case i of I_adr Adrp imm Rd \<Rightarrow> Some ((pc AND -4096) + push_bit 12 imm + low) | _ \<Rightarrow> None)"

definition rd_of :: "a64_instruction \<Rightarrow> int option" where
  "rd_of i = (case i of I_adr op imm Rd \<Rightarrow> Some Rd | I_wide op is64 hw imm Rd \<Rightarrow> Some Rd | I_mov is64 Rm Rd \<Rightarrow> Some Rd
     | I_add_imm imm Rn Rd \<Rightarrow> Some Rd | I_add_reg Rm Rn Rd \<Rightarrow> Some Rd | _ \<Rightarrow> None)"

definition second_at :: "int \<Rightarrow> a64_instruction \<Rightarrow> mem_op \<Rightarrow> int \<Rightarrow> a64_instruction \<Rightarrow> int option option" where
  "second_at pc word op r w2 =
     (case w2 of I_mem op2 off Rn Rt \<Rightarrow> if op2 = op \<and> rd_of word = Some r \<and> Rt = r \<and> Rn = r then Some (paged pc word off) else None | _ \<Rightarrow> None)"

definition slot_of :: "(int \<Rightarrow> string option) \<Rightarrow> int option \<Rightarrow> string option" where
  "slot_of slot_import a = slot_import (case a of None \<Rightarrow> 0 | Some n \<Rightarrow> n)"

definition lea_at :: "int \<Rightarrow> a64_instruction \<Rightarrow> int \<Rightarrow> a64_instruction \<Rightarrow> int option option" where
  "lea_at pc word r w2 =
     (case w2 of I_add_imm imm Rn Rd \<Rightarrow> if rd_of word = Some r \<and> Rd = r \<and> Rn = r then Some (paged pc word imm) else None | _ \<Rightarrow> None)"

text \<open>Whether the instructions decoded at \<open>pc\<close> are those of the step; \<open>at k\<close> decodes the \<open>k\<close>-th.\<close>

fun step_matches :: "(nat \<Rightarrow> a64_error + a64_instruction) \<Rightarrow> int \<Rightarrow> a64_step \<Rightarrow> (string \<Rightarrow> int option) \<Rightarrow> (int \<Rightarrow> string option) \<Rightarrow>
    (string \<Rightarrow> int option) \<Rightarrow> a64_instruction \<Rightarrow> a64_error + bool" where
  "step_matches at pc (Label n) data_at slot_import labels word = Inr False"
| "step_matches at pc (Wide op Rd imm is64) data_at slot_import labels word = Inr (word = I_wide op is64 0 imm Rd)"
| "step_matches at pc (Mov Rd Rm is64) data_at slot_import labels word = Inr (word = I_mov is64 Rm Rd)"
| "step_matches at pc Ret data_at slot_import labels word = Inr (word = I_ret 30)"
| "step_matches at pc (Adr_data Rd l) data_at slot_import labels word =
     Inr (case word of I_adr Adr imm r \<Rightarrow> r = Rd \<and> data_at l = Some (pc + imm) | _ \<Rightarrow> False)"
| "step_matches at pc (Tail f) data_at slot_import labels word =
     bind_sum (at 1) (\<lambda>w2. bind_sum (at 2) (\<lambda>w3. Inr (case (word, w2) of
       (I_adr Adrp imm Rd, I_mem Ldr64 off Rn Rt) \<Rightarrow> Rd = 16 \<and> Rn = 16 \<and> Rt = 16 \<and> w3 = I_br 16 \<and>
         slot_import ((pc AND -4096) + push_bit 12 imm + off) = Some f | _ \<Rightarrow> False)))"
| "step_matches at pc (Pair op Rt Rt2 off) data_at slot_import labels word = Inr (word = I_pair op off Rt2 31 Rt)"
| "step_matches at pc (Add_imm Rd Rn imm) data_at slot_import labels word = Inr (word = I_add_imm imm Rn Rd)"
| "step_matches at pc (Add_reg Rd Rn Rm) data_at slot_import labels word = Inr (word = I_add_reg Rm Rn Rd)"
| "step_matches at pc (Cmp_imm32 Rn imm) data_at slot_import labels word = Inr (word = I_cmp_imm32 imm Rn)"
| "step_matches at pc (Mem op Rt Rn off) data_at slot_import labels word = Inr (word = I_mem op off Rn Rt)"
| "step_matches at pc (Page_data op Rd l) data_at slot_import labels word =
     bind_sum (at 1) (\<lambda>w2. Inr ((case op of Lea_data \<Rightarrow> lea_at pc word Rd w2 | Load64_data \<Rightarrow> second_at pc word Ldr64 Rd w2
       | Load32_data \<Rightarrow> second_at pc word Ldr32 Rd w2) = Some (data_at l)))"
| "step_matches at pc (Load_got Rd f) data_at slot_import labels word =
     bind_sum (at 1) (\<lambda>w2. Inr (map_option (slot_of slot_import) (second_at pc word Ldr64 Rd w2) = Some (Some f)))"
| "step_matches at pc (Call_import f n) data_at slot_import labels word =
     bind_sum (at 1) (\<lambda>w2. bind_sum (at 2) (\<lambda>w3.
       Inr (map_option (slot_of slot_import) (second_at pc word Ldr64 16 w2) = Some (Some f) \<and> w3 = I_blr 16)))"
| "step_matches at pc (Call_data l n) data_at slot_import labels word =
     bind_sum (at 1) (\<lambda>w2. bind_sum (at 2) (\<lambda>w3. Inr (second_at pc word Ldr64 16 w2 = Some (data_at l) \<and> w3 = I_blr 16)))"
| "step_matches at pc (Branch l) data_at slot_import labels word = Inr (case word of I_b d \<Rightarrow> labels l = Some (pc + d) | _ \<Rightarrow> False)"
| "step_matches at pc (Branch_hs l) data_at slot_import labels word =
     Inr (case word of I_b_cond c d \<Rightarrow> c = 2 \<and> labels l = Some (pc + d) | _ \<Rightarrow> False)"
| "step_matches at pc (Compare_branch nz Rt is64 l) data_at slot_import labels word =
     Inr (case word of I_compare nz' is64' Rt' d \<Rightarrow> nz' = nz \<and> Rt' = Rt \<and> is64' = is64 \<and> labels l = Some (pc + d) | _ \<Rightarrow> False)"

definition Test_A64Step :: "byte list \<Rightarrow> int \<Rightarrow> a64_step \<Rightarrow> (string \<Rightarrow> int option) \<Rightarrow> (int \<Rightarrow> string option) \<Rightarrow>
    (string \<Rightarrow> int option) \<Rightarrow> a64_error + nat" where
  "Test_A64Step img pc s data_at slot_import labels =
     (case s of
        Label n \<Rightarrow> if labels n \<noteq> Some pc then Inl (Label_moved n) else Inr 0
      | _ \<Rightarrow> bind_sum (decode_at img pc 0) (\<lambda>word.
          bind_sum (step_matches (decode_at img pc) pc s data_at slot_import labels word) (\<lambda>ok.
            if \<not> ok then Inl Unexpected_instruction else Inr (Get_A64StepLength s))))"

end
