(* ===== verification/A64_Read.thy ===== *)
theory A64_Read
  imports A64_Code
begin

text \<open>
  The decoder reads every word of the encoders back with the fields they were given: a word is an OR of
  masked fields at their places, a mask selects the fields it covers, and the fixed bits of one class of
  instructions exclude the classes the decoder tries before it.
\<close>

named_theorems word_fields \<open>masks and shifts of a word that is an OR of fields\<close>

lemma or_AND [word_fields]: "(a OR b) AND numeral m = (a AND numeral m) OR (b AND (numeral m :: u32))"
  by (rule bit.conj_disj_distrib2)

lemma and_AND [word_fields]: "(x AND numeral a) AND numeral b = (x :: u32) AND (numeral a AND numeral b)"
  by (simp add: and.assoc)

lemma drop_push [word_fields]: "drop_bit k (push_bit k m) = m \<Longrightarrow> drop_bit k (push_bit k x) AND m = x AND (m :: u32)"
proof (rule bit_eqI)
  fix n
  assume "drop_bit k (push_bit k m) = m"
  then have "bit m n \<Longrightarrow> bit (drop_bit k (push_bit k m)) n" by simp
  then have "bit m n \<Longrightarrow> k + n < 32" by (auto simp: bit_simps)
  then show "bit (drop_bit k (push_bit k x) AND m) n = bit (x AND m) n" by (auto simp: bit_simps)
qed

text \<open>A word with other fixed bits does not pass a test.\<close>

lemma mask_clash: "w AND f = b \<Longrightarrow> b AND m \<noteq> c AND f \<Longrightarrow> (w :: u32) AND m \<noteq> c"
  by (metis and.assoc and.commute)

text \<open>An integer in range is the field of its width of some word.\<close>

definition is_field :: "u32 \<Rightarrow> int \<Rightarrow> bool" where
  "is_field x v \<longleftrightarrow> word_of_int v = x \<and> uint x = v"

lemma field_word:
  assumes "in_range 0 n v" "n + 1 = 2 ^ k" "k \<le> 32"
  shows "\<exists>x. is_field (x AND mask k) v"
proof -
  have v: "take_bit k v = v" "0 \<le> v" using assms by (auto simp: in_range_def intro: take_bit_int_eq_self)
  then have "take_bit 32 v = v" using assms(3) by (metis min.absorb2 take_bit_take_bit)
  then have "uint (word_of_int v :: u32) = v" using v(2) by (simp add: unsigned_of_int)
  with v have u: "uint (word_of_int v AND mask k :: u32) = v" by (simp add: unsigned_take_bit_eq flip: take_bit_eq_mask)
  then have "word_of_int v = (word_of_int v AND mask k :: u32)"
    by (metis word_of_int_uint)
  with u show ?thesis by (auto simp: is_field_def)
qed

lemma field5: "in_range 0 31 v \<Longrightarrow> \<exists>x. is_field (x AND 31) v"
  using field_word [of 31 v 5] by (simp add: mask_numeral)
lemma field7: "in_range 0 0x7F v \<Longrightarrow> \<exists>x. is_field (x AND 0x7F) v"
  using field_word [of 127 v 7] by (simp add: mask_numeral)
lemma field12: "in_range 0 0xFFF v \<Longrightarrow> \<exists>x. is_field (x AND 0xFFF) v"
  using field_word [of 4095 v 12] by (simp add: mask_numeral)
lemma field16: "in_range 0 0xFFFF v \<Longrightarrow> \<exists>x. is_field (x AND 0xFFFF) v"
  using field_word [of 65535 v 16] by (simp add: mask_numeral)
lemma field19: "in_range 0 0x7FFFF v \<Longrightarrow> \<exists>x. is_field (x AND 0x7FFFF) v"
  using field_word [of 524287 v 19] by (simp add: mask_numeral)
lemma field21: "in_range 0 0x1FFFFF v \<Longrightarrow> \<exists>x. is_field (x AND 0x1FFFFF) v"
  using field_word [of 2097151 v 21] by (simp add: mask_numeral)
lemma field26: "in_range 0 0x3FFFFFF v \<Longrightarrow> \<exists>x. is_field (x AND 0x3FFFFFF) v"
  using field_word [of 67108863 v 26] by (simp add: mask_numeral)

lemma and_mask_range: "in_range 0 (2 ^ n - 1) ((v :: int) AND (2 ^ n - 1))"
proof -
  have "v AND (2 ^ n - 1) = v mod 2 ^ n" by (simp only: take_bit_eq_mod flip: take_bit_eq_mask mask_eq_exp_minus_1)
  then show ?thesis by (simp add: in_range_def zle_diff1_eq)
qed

lemma signed_field_take_bit: "signed_field (take_bit (Suc n) v) (Suc n) = signed_take_bit n v"
proof -
  have "take_bit (Suc n) v AND push_bit n 1 \<noteq> 0 \<longleftrightarrow> bit v n"
    by (simp only: bit_take_bit_iff flip: bit_iff_and_push_bit_not_eq_0) simp
  then show ?thesis by (simp add: signed_field_def signed_take_bit_eq_take_bit_minus push_bit_eq_mult)
qed

lemma signed_field_and:
  assumes "- (2 ^ n) \<le> v" "v < 2 ^ n"
  shows "signed_field (v AND (2 ^ Suc n - 1)) (Suc n) = v"
  using signed_field_take_bit [of n v] signed_take_bit_int_eq_self [OF assms]
  by (simp only: take_bit_eq_mask mask_eq_exp_minus_1)

section \<open>The classes of the decoder\<close>

text \<open>The fixed bits of a class decide what the decoder reads.\<close>

lemma class_movz: "w AND 0x7F800000 = 0x52800000 \<Longrightarrow>
    Read_A64Instruction w = Inr (I_wide Movz (drop_bit 31 w \<noteq> 0) (field_at w 21 3) (field_at w 5 0xFFFF) (field_at w 0 31))"
  by (simp add: Read_A64Instruction_def Let_def mask_clash [of w "0x7F800000" "0x52800000"])

lemma class_movn: "w AND 0x7F800000 = 0x12800000 \<Longrightarrow>
    Read_A64Instruction w = Inr (I_wide Movn (drop_bit 31 w \<noteq> 0) (field_at w 21 3) (field_at w 5 0xFFFF) (field_at w 0 31))"
  by (simp add: Read_A64Instruction_def Let_def mask_clash [of w "0x7F800000" "0x12800000"])

lemma class_mov: "w AND 0x7FE0FFE0 = 0x2A0003E0 \<Longrightarrow>
    Read_A64Instruction w = Inr (I_mov (drop_bit 31 w \<noteq> 0) (field_at w 16 31) (field_at w 0 31))"
  by (simp add: Read_A64Instruction_def Let_def mask_clash [of w "0x7FE0FFE0" "0x2A0003E0"])

lemma class_ldr64: "w AND 0xFFC00000 = 0xF9400000 \<Longrightarrow>
    Read_A64Instruction w = Inr (I_mem Ldr64 (field_at w 10 0xFFF * 8) (field_at w 5 31) (field_at w 0 31))"
  by (simp add: Read_A64Instruction_def Let_def mask_clash [of w "0xFFC00000" "0xF9400000"])

lemma class_ldr32: "w AND 0xFFC00000 = 0xB9400000 \<Longrightarrow>
    Read_A64Instruction w = Inr (I_mem Ldr32 (field_at w 10 0xFFF * 4) (field_at w 5 31) (field_at w 0 31))"
  by (simp add: Read_A64Instruction_def Let_def mask_clash [of w "0xFFC00000" "0xB9400000"])

lemma class_str64: "w AND 0xFFC00000 = 0xF9000000 \<Longrightarrow>
    Read_A64Instruction w = Inr (I_mem Str64 (field_at w 10 0xFFF * 8) (field_at w 5 31) (field_at w 0 31))"
  by (simp add: Read_A64Instruction_def Let_def mask_clash [of w "0xFFC00000" "0xF9000000"])

lemma class_stp_pre: "w AND 0xFFC00000 = 0xA9800000 \<Longrightarrow>
    Read_A64Instruction w = Inr (I_pair Stp_pre (8 * signed_field (field_at w 15 0x7F) 7) (field_at w 10 31) (field_at w 5 31) (field_at w 0 31))"
  by (simp add: Read_A64Instruction_def Let_def mask_clash [of w "0xFFC00000" "0xA9800000"])

lemma class_ldp_post: "w AND 0xFFC00000 = 0xA8C00000 \<Longrightarrow>
    Read_A64Instruction w = Inr (I_pair Ldp_post (8 * signed_field (field_at w 15 0x7F) 7) (field_at w 10 31) (field_at w 5 31) (field_at w 0 31))"
  by (simp add: Read_A64Instruction_def Let_def mask_clash [of w "0xFFC00000" "0xA8C00000"])

lemma class_stp: "w AND 0xFFC00000 = 0xA9000000 \<Longrightarrow>
    Read_A64Instruction w = Inr (I_pair Stp (8 * signed_field (field_at w 15 0x7F) 7) (field_at w 10 31) (field_at w 5 31) (field_at w 0 31))"
  by (simp add: Read_A64Instruction_def Let_def mask_clash [of w "0xFFC00000" "0xA9000000"])

lemma class_ldp: "w AND 0xFFC00000 = 0xA9400000 \<Longrightarrow>
    Read_A64Instruction w = Inr (I_pair Ldp (8 * signed_field (field_at w 15 0x7F) 7) (field_at w 10 31) (field_at w 5 31) (field_at w 0 31))"
  by (simp add: Read_A64Instruction_def Let_def mask_clash [of w "0xFFC00000" "0xA9400000"])

lemma class_add_imm: "w AND 0xFFC00000 = 0x91000000 \<Longrightarrow>
    Read_A64Instruction w = Inr (I_add_imm (field_at w 10 0xFFF) (field_at w 5 31) (field_at w 0 31))"
  by (simp add: Read_A64Instruction_def Let_def mask_clash [of w "0xFFC00000" "0x91000000"])

lemma class_add_reg: "w AND 0xFFE0FC00 = 0x8B000000 \<Longrightarrow>
    Read_A64Instruction w = Inr (I_add_reg (field_at w 16 31) (field_at w 5 31) (field_at w 0 31))"
  by (simp add: Read_A64Instruction_def Let_def mask_clash [of w "0xFFE0FC00" "0x8B000000"])

lemma class_cmp_imm32: "w AND 0xFFC0001F = 0x7100001F \<Longrightarrow>
    Read_A64Instruction w = Inr (I_cmp_imm32 (field_at w 10 0xFFF) (field_at w 5 31))"
  by (simp add: Read_A64Instruction_def Let_def mask_clash [of w "0xFFC0001F" "0x7100001F"])

lemma class_b: "w AND 0xFC000000 = 0x14000000 \<Longrightarrow>
    Read_A64Instruction w = Inr (I_b (4 * signed_field (field_at w 0 0x3FFFFFF) 26))"
  by (simp add: Read_A64Instruction_def Let_def mask_clash [of w "0xFC000000" "0x14000000"])

lemma class_b_cond: "w AND 0xFF000010 = 0x54000000 \<Longrightarrow>
    Read_A64Instruction w = Inr (I_b_cond (field_at w 0 0xF) (4 * signed_field (field_at w 5 0x7FFFF) 19))"
  by (simp add: Read_A64Instruction_def Let_def mask_clash [of w "0xFF000010" "0x54000000"])

lemma class_compare: "w AND 0x7E000000 = 0x34000000 \<Longrightarrow>
    Read_A64Instruction w = Inr (I_compare (w AND 0x01000000 \<noteq> 0) (drop_bit 31 w \<noteq> 0) (field_at w 0 31) (4 * signed_field (field_at w 5 0x7FFFF) 19))"
  by (simp add: Read_A64Instruction_def Let_def mask_clash [of w "0x7E000000" "0x34000000"])

lemma class_blr: "w AND 0xFFFFFC1F = 0xD63F0000 \<Longrightarrow>
    Read_A64Instruction w = Inr (I_blr (field_at w 5 31))"
  by (simp add: Read_A64Instruction_def Let_def mask_clash [of w "0xFFFFFC1F" "0xD63F0000"])

lemma class_br: "w AND 0xFFFFFC1F = 0xD61F0000 \<Longrightarrow>
    Read_A64Instruction w = Inr (I_br (field_at w 5 31))"
  by (simp add: Read_A64Instruction_def Let_def mask_clash [of w "0xFFFFFC1F" "0xD61F0000"])

lemma class_ret: "w AND 0xFFFFFC1F = 0xD65F0000 \<Longrightarrow>
    Read_A64Instruction w = Inr (I_ret (field_at w 5 31))"
  by (simp add: Read_A64Instruction_def Let_def mask_clash [of w "0xFFFFFC1F" "0xD65F0000"])

lemma class_adr: "w AND 0x1F000000 = 0x10000000 \<Longrightarrow>
    Read_A64Instruction w = Inr (I_adr (if w AND 0x80000000 \<noteq> 0 then Adrp else Adr)
      (signed_field (uint (push_bit 2 (drop_bit 5 w AND 0x7FFFF) OR (drop_bit 29 w AND 3))) 21) (field_at w 0 31))"
  by (simp add: Read_A64Instruction_def Let_def signed_field_def mask_clash [of w "0x1F000000" "0x10000000"])

section \<open>Encoders and decoder\<close>

lemma push_drop_AND: "push_bit k (drop_bit k x AND m) = (x AND push_bit k m :: u32)"
proof (rule bit_eqI)
  show "bit (push_bit k (drop_bit k x AND m)) n = bit (x AND push_bit k m) n" for n
    by (cases "k \<le> n") (auto simp: bit_simps)
qed

lemma adr_halves: "push_bit 2 (drop_bit 2 x AND 0x7FFFF) OR (x AND 3) = (x :: u32) AND 0x1FFFFF"
proof -
  have "(x AND 0x1FFFFC) OR (x AND 3) = x AND (0x1FFFFC OR 3)" by (simp only: bit.conj_disj_distrib)
  then show ?thesis using push_drop_AND [of 2 x "0x7FFFF"] by simp
qed

lemma read_wide: "New_A64MovWide op Rd imm is64 = Inr w \<Longrightarrow> Read_A64Instruction w = Inr (I_wide op is64 0 imm Rd)"
proof -
  assume a: "New_A64MovWide op Rd imm is64 = Inr w"
  then have r: "in_range 0 31 Rd" "in_range 0 0xFFFF imm" by (auto simp: New_A64MovWide_def split: if_splits)
  obtain x y where f: "is_field (x AND 31) Rd" "is_field (y AND 0xFFFF) imm" using field5 [OF r(1)] field16 [OF r(2)] by blast
  have w: "w = push_bit 31 (of_bool is64) OR push_bit 29 (case op of Movz \<Rightarrow> 2 | Movn \<Rightarrow> 0) OR push_bit 23 0x25
      OR push_bit 5 (y AND 0xFFFF) OR (x AND 31)"
    using a r f by (simp add: New_A64MovWide_def is_field_def)
  show ?thesis using f by (cases op; cases is64) (simp_all add: class_movz class_movn w word_fields field_at_def is_field_def)
qed

lemma read_mov: "New_A64MovRegister Rd Rm is64 = Inr w \<Longrightarrow> Read_A64Instruction w = Inr (I_mov is64 Rm Rd)"
proof -
  assume a: "New_A64MovRegister Rd Rm is64 = Inr w"
  then have r: "in_range 0 31 Rd" "in_range 0 31 Rm" by (auto simp: New_A64MovRegister_def in_range_def split: if_splits)
  obtain x y where f: "is_field (x AND 31) Rd" "is_field (y AND 31) Rm" using field5 [OF r(1)] field5 [OF r(2)] by blast
  have w: "w = push_bit 31 (of_bool is64) OR 0x2A000000 OR push_bit 16 (y AND 31) OR push_bit 5 31 OR (x AND 31)"
    using a f by (auto simp: New_A64MovRegister_def is_field_def split: if_splits)
  show ?thesis using f by (cases is64) (simp_all add: class_mov w word_fields field_at_def is_field_def)
qed

lemma read_adr: "New_A64Adr op Rd imm = Inr w \<Longrightarrow> Read_A64Instruction w = Inr (I_adr op imm Rd)"
proof -
  assume a: "New_A64Adr op Rd imm = Inr w"
  then have r: "in_range 0 31 Rd" and i: "- (2 ^ 20) \<le> imm" "imm < 2 ^ 20" by (auto simp: New_A64Adr_def in_range_def split: if_splits)
  have v: "in_range 0 0x1FFFFF (imm AND 0x1FFFFF)" using and_mask_range [of 21 imm] by simp
  obtain x y where f: "is_field (x AND 31) Rd" "is_field (y AND 0x1FFFFF) (imm AND 0x1FFFFF)" using field5 [OF r] field21 [OF v] by blast
  have w: "w = push_bit 31 (case op of Adrp \<Rightarrow> 1 | Adr \<Rightarrow> 0) OR push_bit 29 (y AND 3) OR push_bit 24 0x10
      OR push_bit 5 (drop_bit 2 y AND 0x7FFFF) OR (x AND 31)"
    using a f by (auto simp: New_A64Adr_def is_field_def Let_def and.assoc split: if_splits)
  have h: "push_bit 2 (drop_bit 5 w AND 0x7FFFF) OR (drop_bit 29 w AND 3) = y AND 0x1FFFFF"
    unfolding adr_halves [symmetric] by (cases op) (simp_all add: w word_fields)
  have fixed: "w AND 0x1F000000 = 0x10000000" by (cases op) (simp_all add: w word_fields)
  have bits: "w AND 0x80000000 = (case op of Adrp \<Rightarrow> 0x80000000 | Adr \<Rightarrow> 0)" "field_at w 0 31 = Rd"
    using f by (cases op; simp add: w word_fields field_at_def is_field_def)+
  have "uint (y AND 0x1FFFFF) = imm AND 0x1FFFFF" using f(2) by (simp add: is_field_def)
  moreover have "signed_field (imm AND 0x1FFFFF) 21 = imm" using signed_field_and [OF i] by simp
  ultimately show ?thesis by (cases op) (simp_all add: class_adr [OF fixed, unfolded h bits])
qed

lemma read_ldr: "New_A64LdrUnsigned Rt Rn off = Inr w \<Longrightarrow> Read_A64Instruction w = Inr (I_mem Ldr64 off Rn Rt)"
proof -
  assume a: "New_A64LdrUnsigned Rt Rn off = Inr w"
  then have r: "in_range 0 31 Rt" "in_range 0 31 Rn" "in_range 0 0xFFF (off div 8)" and o: "off div 8 * 8 = off"
    by (auto simp: New_A64LdrUnsigned_def in_range_def split: if_splits)
  obtain x y z where f: "is_field (x AND 31) Rt" "is_field (y AND 31) Rn" "is_field (z AND 0xFFF) (off div 8)"
    using field5 [OF r(1)] field5 [OF r(2)] field12 [OF r(3)] by blast
  have w: "w = 0xF9400000 OR push_bit 10 (z AND 0xFFF) OR push_bit 5 (y AND 31) OR (x AND 31)"
    using a f by (auto simp: New_A64LdrUnsigned_def is_field_def split: if_splits)
  show ?thesis using f o by (simp add: class_ldr64 w word_fields field_at_def is_field_def)
qed

lemma read_branch_register:
  "New_A64BranchRegister op Rn = Inr w \<Longrightarrow> Read_A64Instruction w = Inr (case op of Br \<Rightarrow> I_br Rn | Ret_op \<Rightarrow> I_ret Rn)"
proof -
  assume a: "New_A64BranchRegister op Rn = Inr w"
  then have r: "in_range 0 31 Rn" by (auto simp: New_A64BranchRegister_def in_range_def split: if_splits)
  obtain x where f: "is_field (x AND 31) Rn" using field5 [OF r] by blast
  have w: "w = 0xD61F0000 OR push_bit 21 (case op of Ret_op \<Rightarrow> 2 | Br \<Rightarrow> 0) OR push_bit 5 (x AND 31)"
    using a f by (auto simp: New_A64BranchRegister_def is_field_def split: if_splits)
  show ?thesis using f by (cases op) (simp_all add: class_br class_ret w word_fields field_at_def is_field_def)
qed

lemma read_pair: "New_A64PairTransfer op Rt Rt2 Rn off = Inr w \<Longrightarrow> Read_A64Instruction w = Inr (I_pair op off Rt2 Rn Rt)"
proof -
  assume a: "New_A64PairTransfer op Rt Rt2 Rn off = Inr w"
  then have r: "in_range 0 31 Rt" "in_range 0 31 Rt2" "in_range 0 31 Rn" and o: "8 * (off div 8) = off"
    and i: "- (2 ^ 6) \<le> off div 8" "off div 8 < 2 ^ 6"
    by (auto simp: New_A64PairTransfer_def in_range_def split: if_splits)
  have v: "in_range 0 0x7F (off div 8 AND 0x7F)" using and_mask_range [of 7 "off div 8"] by simp
  obtain x y z u where f: "is_field (x AND 31) Rt" "is_field (y AND 31) Rt2" "is_field (z AND 31) Rn" "is_field (u AND 0x7F) (off div 8 AND 0x7F)"
    using field5 [OF r(1)] field5 [OF r(2)] field5 [OF r(3)] field7 [OF v] by blast
  have w: "w = (case op of Stp_pre \<Rightarrow> 0xA9800000 | Ldp_post \<Rightarrow> 0xA8C00000 | Stp \<Rightarrow> 0xA9000000 | Ldp \<Rightarrow> 0xA9400000)
      OR push_bit 15 (u AND 0x7F) OR push_bit 10 (y AND 31) OR push_bit 5 (z AND 31) OR (x AND 31)"
    using a f by (auto simp: New_A64PairTransfer_def is_field_def split: if_splits)
  have s: "signed_field (off div 8 AND 0x7F) 7 = off div 8" using signed_field_and [OF i] by simp
  have "field_at w 15 0x7F = off div 8 AND 0x7F" "field_at w 10 31 = Rt2" "field_at w 5 31 = Rn" "field_at w 0 31 = Rt"
    using f by (cases op; simp add: w word_fields field_at_def is_field_def)+
  then show ?thesis using s o
    by (cases op) (simp_all add: class_stp_pre class_ldp_post class_stp class_ldp w word_fields)
qed

lemma read_add_imm: "New_A64AddImmediate Rd Rn imm = Inr w \<Longrightarrow> Read_A64Instruction w = Inr (I_add_imm imm Rn Rd)"
proof -
  assume a: "New_A64AddImmediate Rd Rn imm = Inr w"
  then have r: "in_range 0 31 Rd" "in_range 0 31 Rn" "in_range 0 0xFFF imm" by (auto simp: New_A64AddImmediate_def split: if_splits)
  obtain x y z where f: "is_field (x AND 31) Rd" "is_field (y AND 31) Rn" "is_field (z AND 0xFFF) imm"
    using field5 [OF r(1)] field5 [OF r(2)] field12 [OF r(3)] by blast
  have w: "w = 0x91000000 OR push_bit 10 (z AND 0xFFF) OR push_bit 5 (y AND 31) OR (x AND 31)"
    using a f by (auto simp: New_A64AddImmediate_def is_field_def split: if_splits)
  show ?thesis using f by (simp add: class_add_imm w word_fields field_at_def is_field_def)
qed

lemma read_add_reg: "New_A64AddRegister Rd Rn Rm = Inr w \<Longrightarrow> Read_A64Instruction w = Inr (I_add_reg Rm Rn Rd)"
proof -
  assume a: "New_A64AddRegister Rd Rn Rm = Inr w"
  then have r: "in_range 0 31 Rd" "in_range 0 31 Rn" "in_range 0 31 Rm" by (auto simp: New_A64AddRegister_def in_range_def split: if_splits)
  obtain x y z where f: "is_field (x AND 31) Rd" "is_field (y AND 31) Rn" "is_field (z AND 31) Rm"
    using field5 [OF r(1)] field5 [OF r(2)] field5 [OF r(3)] by blast
  have w: "w = 0x8B000000 OR push_bit 16 (z AND 31) OR push_bit 5 (y AND 31) OR (x AND 31)"
    using a f by (auto simp: New_A64AddRegister_def is_field_def split: if_splits)
  show ?thesis using f by (simp add: class_add_reg w word_fields field_at_def is_field_def)
qed

lemma read_cmp_imm32: "New_A64CompareImmediate Rn imm = Inr w \<Longrightarrow> Read_A64Instruction w = Inr (I_cmp_imm32 imm Rn)"
proof -
  assume a: "New_A64CompareImmediate Rn imm = Inr w"
  then have r: "in_range 0 31 Rn" "in_range 0 0xFFF imm" by (auto simp: New_A64CompareImmediate_def in_range_def split: if_splits)
  obtain y z where f: "is_field (y AND 31) Rn" "is_field (z AND 0xFFF) imm" using field5 [OF r(1)] field12 [OF r(2)] by blast
  have w: "w = 0x7100001F OR push_bit 10 (z AND 0xFFF) OR push_bit 5 (y AND 31)"
    using a f by (auto simp: New_A64CompareImmediate_def is_field_def split: if_splits)
  show ?thesis using f by (simp add: class_cmp_imm32 w word_fields field_at_def is_field_def)
qed

lemma read_mem: "New_A64LoadStore op Rt Rn off = Inr w \<Longrightarrow> Read_A64Instruction w = Inr (I_mem op off Rn Rt)"
proof -
  let ?s = "case op of Ldr32 \<Rightarrow> 4 | _ \<Rightarrow> 8"
  assume a: "New_A64LoadStore op Rt Rn off = Inr w"
  then have r: "in_range 0 31 Rt" "in_range 0 31 Rn" "in_range 0 0xFFF (off div ?s)" and o: "off div ?s * ?s = off"
    by (cases op; auto simp: New_A64LoadStore_def in_range_def Let_def split: if_splits)+
  obtain x y z where f: "is_field (x AND 31) Rt" "is_field (y AND 31) Rn" "is_field (z AND 0xFFF) (off div ?s)"
    using field5 [OF r(1)] field5 [OF r(2)] field12 [OF r(3)] by blast
  have w: "w = (case op of Ldr64 \<Rightarrow> 0xF9400000 | Ldr32 \<Rightarrow> 0xB9400000 | Str64 \<Rightarrow> 0xF9000000)
      OR push_bit 10 (z AND 0xFFF) OR push_bit 5 (y AND 31) OR (x AND 31)"
    using a f by (auto simp: New_A64LoadStore_def is_field_def Let_def split: if_splits)
  show ?thesis using f o
    by (cases op) (simp_all add: class_ldr64 class_ldr32 class_str64 w word_fields field_at_def is_field_def)
qed

lemma read_call: "Read_A64Instruction (0xD63F0000 OR push_bit 5 16) = Inr (I_blr 16)"
  by (simp add: class_blr field_at_def)

text \<open>What the decoder makes of a branch over a distance.\<close>

fun branch_read :: "branch_op \<Rightarrow> int \<Rightarrow> int \<Rightarrow> bool \<Rightarrow> a64_instruction" where
  "branch_read B d Rt is64 = I_b d"
| "branch_read B_hs d Rt is64 = I_b_cond 2 d"
| "branch_read Cbz d Rt is64 = I_compare False is64 Rt d"
| "branch_read Cbnz d Rt is64 = I_compare True is64 Rt d"

lemma read_b: "New_A64Branch B d Rt is64 = Inr w \<Longrightarrow> Read_A64Instruction w = Inr (I_b d)"
proof -
  assume a: "New_A64Branch B d Rt is64 = Inr w"
  then have o: "4 * (d div 4) = d" and i: "- (2 ^ 25) \<le> d div 4" "d div 4 < 2 ^ 25"
    by (auto simp: New_A64Branch_def Let_def split: if_splits)
  have v: "in_range 0 0x3FFFFFF (d div 4 AND 0x3FFFFFF)" using and_mask_range [of 26 "d div 4"] by simp
  obtain x where f: "is_field (x AND 0x3FFFFFF) (d div 4 AND 0x3FFFFFF)" using field26 [OF v] by blast
  have w: "w = 0x14000000 OR (x AND 0x3FFFFFF)"
    using a f by (auto simp: New_A64Branch_def is_field_def Let_def split: if_splits)
  show ?thesis using f o signed_field_and [OF i] by (simp add: class_b w word_fields field_at_def is_field_def)
qed

lemma read_short_branch:
  assumes "New_A64Branch op d Rt is64 = Inr w" "op \<noteq> B" "in_range 0 31 Rt"
  shows "Read_A64Instruction w = Inr (branch_read op d Rt is64)"
proof -
  have o: "4 * (d div 4) = d" and i: "- (2 ^ 18) \<le> d div 4" "d div 4 < 2 ^ 18"
    using assms by (cases op; auto simp: New_A64Branch_def Let_def split: if_splits)+
  have v: "in_range 0 0x7FFFF (d div 4 AND 0x7FFFF)" using and_mask_range [of 19 "d div 4"] by simp
  obtain x y where f: "is_field (x AND 0x7FFFF) (d div 4 AND 0x7FFFF)" "is_field (y AND 31) Rt" using field19 [OF v] field5 [OF assms(3)] by blast
  have w: "w = (case op of B_hs \<Rightarrow> 0x54000000 OR push_bit 5 (x AND 0x7FFFF) OR 2
      | Cbz \<Rightarrow> push_bit 31 (of_bool is64) OR 0x34000000 OR push_bit 5 (x AND 0x7FFFF) OR (y AND 31)
      | _ \<Rightarrow> push_bit 31 (of_bool is64) OR 0x35000000 OR push_bit 5 (x AND 0x7FFFF) OR (y AND 31))"
    using assms(1,2) f by (cases op) (auto simp: New_A64Branch_def is_field_def Let_def split: if_splits)
  show ?thesis using f o signed_field_and [OF i] assms(2)
    by (cases op; cases is64) (simp_all add: class_b_cond class_compare w word_fields field_at_def is_field_def)
qed

lemma read_b_hs: "New_A64Branch B_hs d 0 False = Inr w \<Longrightarrow> Read_A64Instruction w = Inr (I_b_cond 2 d)"
  using read_short_branch [of B_hs d 0 False w] by (simp add: in_range_def)

lemma read_compare:
  "New_A64Branch (if nz then Cbnz else Cbz) d Rt is64 = Inr w \<Longrightarrow> in_range 0 31 Rt \<Longrightarrow>
    Read_A64Instruction w = Inr (I_compare nz is64 Rt d)"
  using read_short_branch [of "if nz then Cbnz else Cbz" d Rt is64 w] by (cases nz) simp_all

end
