(* ===== verification/A64_Verified.thy ===== *)
theory A64_Verified
  imports A64_Read
begin

text \<open>
  Every step that is encoded is verified where it lies: the verifier decodes the words of the step and
  finds its operation, registers, immediates, and the address, slot or label that it was encoded for.
\<close>

lemma page_of: "(t :: int) AND -4096 = t - t mod 4096"
  using AND_NOT_mask [of t 12] by (simp add: mask_numeral take_bit_eq_mod)

lemma page_address: "(pc AND -4096) + push_bit 12 (page_distance pc target) + (target AND 0xFFF) = target"
proof -
  have "(target AND -4096) - (pc AND -4096) = 4096 * (target div 4096 - pc div 4096)"
    by (simp add: page_of minus_mod_eq_mult_div right_diff_distrib)
  then have "push_bit 12 (page_distance pc target) = (target AND -4096) - (pc AND -4096)"
    by (simp add: page_distance_def push_bit_eq_mult drop_bit_eq_div)
  moreover have "target AND 0xFFF = target mod 4096" using take_bit_eq_mask [of 12 target] by (simp add: mask_numeral take_bit_eq_mod)
  ultimately show ?thesis by (simp add: page_of)
qed

lemma decode_word:
  assumes "k < length ws"
  shows "decode_at (pre @ concat (map enc32 ws) @ post) (int (length pre)) k = Read_A64Instruction (ws ! k)"
  using c32.table_nth [OF assms, of pre post] by (simp add: decode_at_def)

lemma in_order_Inr: "in_order xs = Inr vs \<longleftrightarrow> list_all2 (\<lambda>x v. x = Inr v) xs vs"
  by (induction xs arbitrary: vs) (auto simp: bind_sum_Inr_iff list_all2_Cons1)

text \<open>The number of words is the length the writer reserves.\<close>

lemma words_length: "4 * length (a64_words s pc target pages low) = Get_A64StepLength s"
  by (cases s; simp) (rename_tac op Rd l, case_tac op; simp)

text \<open>What the tables hold for the target of a step.\<close>

fun a64_resolved :: "a64_step \<Rightarrow> int \<Rightarrow> int \<Rightarrow> (string \<Rightarrow> int option) \<Rightarrow> (int \<Rightarrow> string option) \<Rightarrow> (string \<Rightarrow> int option) \<Rightarrow> bool" where
  "a64_resolved (Label n) pc target data_at slot_import labels \<longleftrightarrow> labels n = Some pc"
| "a64_resolved (Adr_data Rd l) pc target data_at slot_import labels \<longleftrightarrow> data_at l = Some target"
| "a64_resolved (Page_data op Rd l) pc target data_at slot_import labels \<longleftrightarrow> data_at l = Some target"
| "a64_resolved (Call_data l n) pc target data_at slot_import labels \<longleftrightarrow> data_at l = Some target"
| "a64_resolved (Tail f) pc target data_at slot_import labels \<longleftrightarrow> slot_import target = Some f"
| "a64_resolved (Load_got Rd f) pc target data_at slot_import labels \<longleftrightarrow> slot_import target = Some f"
| "a64_resolved (Call_import f n) pc target data_at slot_import labels \<longleftrightarrow> slot_import target = Some f"
| "a64_resolved (Branch l) pc target data_at slot_import labels \<longleftrightarrow> labels l = Some target"
| "a64_resolved (Branch_hs l) pc target data_at slot_import labels \<longleftrightarrow> labels l = Some target"
| "a64_resolved (Compare_branch nz Rt is64 l) pc target data_at slot_import labels \<longleftrightarrow> in_range 0 31 Rt \<and> labels l = Some target"
| "a64_resolved s pc target data_at slot_import labels \<longleftrightarrow> True"

lemma step_matches_words:
  assumes "list_all2 (\<lambda>x v. x = Inr v) (a64_words s pc target (page_distance pc target) (target AND 0xFFF)) ws"
    and "\<And>k. k < length ws \<Longrightarrow> at k = Read_A64Instruction (ws ! k)"
    and "a64_resolved s pc target data_at slot_import labels" "\<And>n. s \<noteq> Label n"
  shows "\<exists>word. at 0 = Inr word \<and> step_matches at pc s data_at slot_import labels word = Inr True"
proof -
  note reads = read_wide read_mov read_adr read_ldr read_branch_register read_pair read_add_imm read_add_reg read_cmp_imm32 read_mem
    read_call [simplified] read_b read_b_hs read_compare
  note at = assms(2) [of 0] assms(2) [of 1] assms(2) [of 2]
  note steps = list_all2_Cons1 reads page_address second_at_def lea_at_def paged_def rd_of_def slot_of_def
  show ?thesis
  proof (cases s)
    case (Page_data op Rd l)
    then show ?thesis using assms(1,3) at by (cases op) (auto simp: steps)
  qed (use assms(1,3,4) at in \<open>auto simp: steps\<close>)
qed

lemma step_verified_at:
  assumes "New_A64Step s (int (length pre)) target = Inr bs" "a64_resolved s (int (length pre)) target data_at slot_import labels"
  shows "length bs = Get_A64StepLength s"
    and "Test_A64Step (pre @ bs @ post) (int (length pre)) s data_at slot_import labels = Inr (Get_A64StepLength s)"
proof -
  let ?pc = "int (length pre)"
  obtain ws where ws: "list_all2 (\<lambda>x v. x = Inr v) (a64_words s ?pc target (page_distance ?pc target) (target AND 0xFFF)) ws"
    and bs: "bs = concat (map enc32 ws)"
    using assms(1) by (auto simp: New_A64Step_def bind_sum_Inr_iff in_order_Inr)
  show "length bs = Get_A64StepLength s"
    using words_length [of s ?pc target "page_distance ?pc target" "target AND 0xFFF"] list_all2_lengthD [OF ws] by (simp add: bs c32.table_length)
  show "Test_A64Step (pre @ bs @ post) ?pc s data_at slot_import labels = Inr (Get_A64StepLength s)"
  proof (cases "\<exists>n. s = Label n")
    case True
    then show ?thesis using assms(2) by (auto simp: Test_A64Step_def)
  next
    case False
    obtain word where "decode_at (pre @ bs @ post) ?pc 0 = Inr word"
      "step_matches (decode_at (pre @ bs @ post) ?pc) ?pc s data_at slot_import labels word = Inr True"
      using step_matches_words [OF ws _ assms(2), of "decode_at (pre @ bs @ post) ?pc"] False by (auto simp: bs decode_word)
    then show ?thesis using False by (auto simp: Test_A64Step_def split: a64_step.split)
  qed
qed

section \<open>The round trip\<close>

text \<open>
  C14. A step that \<open>New-A64Step\<close> encodes at an address for a target takes exactly the bytes its length says, and
  \<open>Test-A64Step\<close> accepts it there, whatever lies around it, when the tables of labels, data and GOT slots
  hold the target: the independent decoder recovers every field that was encoded.
\<close>

theorem a64_step_verified:
  assumes "New_A64Step s (int (length pre)) target = Inr bs" "a64_resolved s (int (length pre)) target data_at slot_import labels"
  shows "length bs = Get_A64StepLength s \<and>
    Test_A64Step (pre @ bs @ post) (int (length pre)) s data_at slot_import labels = Inr (Get_A64StepLength s)"
  using step_verified_at [OF assms] by blast

lemma a64_step_verified_witness:
  "\<exists>bs. New_A64Step (Call_import ''strcmp'' 2) 8 0x4010 = Inr bs \<and> length bs = 12 \<and>
     Test_A64Step (replicate 8 0 @ bs @ [1]) 8 (Call_import ''strcmp'' 2) (\<lambda>l. None) [0x4010 \<mapsto> ''strcmp''] (\<lambda>l. None) = Inr 12"
proof -
  obtain bs where bs: "New_A64Step (Call_import ''strcmp'' 2) 8 0x4010 = Inr bs"
    by (simp add: New_A64Step_def page_distance_def New_A64Adr_def New_A64LoadStore_def in_range_def)
  then show ?thesis
    using a64_step_verified [of "Call_import ''strcmp'' 2" "replicate 8 0" "0x4010" bs "\<lambda>l. None" "[0x4010 \<mapsto> ''strcmp'']" "\<lambda>l. None" "[1]"]
    by simp
qed

end
