(* ===== verification/A64_Abi.thy ===== *)
theory A64_Abi
  imports A64_Code
begin

text \<open>
  \<open>Test-A64CallAbi\<close>: the check of a step program against AAPCS64, over its control-flow graph.  The
  passes are those of the function: labels and the platform register, the prologue with its saved pairs,
  the restores in front of every exit, the basic blocks, the flow of stack depth and written registers to
  a fixed point, and the unreachable blocks.
\<close>

datatype abi_error =
    No_steps
  | Label_defined_twice string
  | Undefined_label string
  | Platform_register
  | Index_out_of_range
  | Link_not_saved
  | Register_not_saved int
  | Pairs_not_restored
  | Cannot_index
  | Restored_out_of_order
  | Depths_differ nat int int
  | Misaligned_call int
  | Argument_not_set int
  | Leaves_below_entry int
  | No_exit
  | No_convergence
  | Unreachable nat

section \<open>Fields of a step\<close>

text \<open>The registers a step names as \<open>Rd\<close>, \<open>Rt\<close> and \<open>Rt2\<close>, when it has the field.\<close>

fun step_Rd :: "a64_step \<Rightarrow> int option" where
  "step_Rd (Wide op Rd imm is64) = Some Rd"
| "step_Rd (Mov Rd Rm is64) = Some Rd"
| "step_Rd (Adr_data Rd l) = Some Rd"
| "step_Rd (Add_imm Rd Rn imm) = Some Rd"
| "step_Rd (Add_reg Rd Rn Rm) = Some Rd"
| "step_Rd (Page_data op Rd l) = Some Rd"
| "step_Rd (Load_got Rd f) = Some Rd"
| "step_Rd s = None"

fun step_Rt :: "a64_step \<Rightarrow> int option" where
  "step_Rt (Pair op Rt Rt2 off) = Some Rt"
| "step_Rt (Mem op Rt Rn off) = Some Rt"
| "step_Rt (Compare_branch nz Rt is64 l) = Some Rt"
| "step_Rt s = None"

fun step_Rt2 :: "a64_step \<Rightarrow> int option" where
  "step_Rt2 (Pair op Rt Rt2 off) = Some Rt2"
| "step_Rt2 s = None"

fun step_branch :: "a64_step \<Rightarrow> string option" where
  "step_branch (Branch l) = Some l"
| "step_branch (Branch_hs l) = Some l"
| "step_branch (Compare_branch nz Rt is64 l) = Some l"
| "step_branch s = None"

text \<open>A call, with its number of arguments.\<close>

fun step_call :: "a64_step \<Rightarrow> int option" where
  "step_call (Call_import f n) = Some n"
| "step_call (Call_data l n) = Some n"
| "step_call s = None"

fun is_exit :: "a64_step \<Rightarrow> bool" where
  "is_exit Ret = True"
| "is_exit (Tail f) = True"
| "is_exit s = False"

fun is_label :: "a64_step \<Rightarrow> bool" where
  "is_label (Label n) = True"
| "is_label s = False"

text \<open>Steps whose \<open>Rt\<close> is read only.\<close>

fun reads_Rt :: "a64_step \<Rightarrow> bool" where
  "reads_Rt (Mem Str64 Rt Rn off) = True"
| "reads_Rt (Compare_branch nz Rt is64 l) = True"
| "reads_Rt s = False"

fun is_pair :: "a64_step \<Rightarrow> bool" where
  "is_pair (Pair op Rt Rt2 off) = True"
| "is_pair s = False"

definition calleeSaved :: "int list" where
  "calleeSaved = [19, 20, 21, 22, 23, 24, 25, 26, 27, 28, 29]"

section \<open>Labels\<close>

text \<open>The index of every label, \<open>i\<close> the index of the first step; the keys of the hashtable ignore case.\<close>

type_synonym label_table = "(string \<times> nat) list"

definition label_at :: "label_table \<Rightarrow> string \<Rightarrow> nat option" where
  "label_at ls l = map_of ls (fold_case l)"

fun label_index :: "nat \<Rightarrow> a64_step list \<Rightarrow> label_table \<Rightarrow> abi_error + label_table" where
  "label_index i [] ls = Inr ls"
| "label_index i (s # ss) ls =
     (case s of
        Label n \<Rightarrow> if label_at ls n \<noteq> None then Inl (Label_defined_twice n) else label_index (Suc i) ss ((fold_case n, i) # ls)
      | _ \<Rightarrow> label_index (Suc i) ss ls)"

definition check_step :: "label_table \<Rightarrow> a64_step \<Rightarrow> abi_error + unit" where
  "check_step ls s =
     bind_sum (case step_branch s of Some l \<Rightarrow> if label_at ls l = None then Inl (Undefined_label l) else Inr () | None \<Rightarrow> Inr ())
       (\<lambda>_. if Some 18 \<in> {step_Rd s, step_Rt s, step_Rt2 s} then Inl Platform_register else Inr ())"

fun check_steps :: "label_table \<Rightarrow> a64_step list \<Rightarrow> abi_error + unit" where
  "check_steps ls [] = Inr ()"
| "check_steps ls (s # ss) = bind_sum (check_step ls s) (\<lambda>_. check_steps ls ss)"

section \<open>Prologue and exits\<close>

fun leading_pairs :: "a64_step list \<Rightarrow> (int \<times> int) list \<times> nat" where
  "leading_pairs (Pair Stp Rt Rt2 off # ss) = (let (ps, k) = leading_pairs ss in ((Rt, Rt2) # ps, Suc k))"
| "leading_pairs ss = ([], 0)"

text \<open>The saved pairs and the number of steps of the prologue.\<close>

definition prologue :: "a64_step list \<Rightarrow> abi_error + (int \<times> int) list \<times> nat" where
  "prologue ss =
     (case ss of
        Pair Stp_pre Rt Rt2 off # rest \<Rightarrow>
          (case rest of
             [] \<Rightarrow> Inl Index_out_of_range
           | s # rest' \<Rightarrow>
               let (frame, body) = (if s = Add_imm 29 31 0 then (2, rest') else (1, rest));
                   (ps, k) = leading_pairs body
               in Inr ((Rt, Rt2) # ps, frame + k))
      | _ \<Rightarrow> Inr ([], 0))"

definition saved_registers :: "(int \<times> int) list \<Rightarrow> int list" where
  "saved_registers ps = concat (map (\<lambda>(a, b). [a, b]) ps)"

text \<open>The restores in front of an exit, from the steps before it, the last first.\<close>

fun restores_before :: "a64_step list \<Rightarrow> (pair_op \<times> int \<times> int) list \<Rightarrow> (pair_op \<times> int \<times> int) list" where
  "restores_before (Pair Ldp Rt Rt2 off # rev_ss) rs = restores_before rev_ss ((Ldp, Rt, Rt2) # rs)"
| "restores_before (Pair Ldp_post Rt Rt2 off # rev_ss) rs = restores_before rev_ss ((Ldp_post, Rt, Rt2) # rs)"
| "restores_before (Label n # rev_ss) rs = restores_before rev_ss rs"
| "restores_before rev_ss rs = rs"

text \<open>
  With a single pair the enumeration of \<open>$expectedOrder\<close> unrolls the pair itself, and indexing one of its
  registers throws.
\<close>

definition check_exit :: "(int \<times> int) list \<Rightarrow> (pair_op \<times> int \<times> int) list \<Rightarrow> abi_error + unit" where
  "check_exit ps rs =
     (if length rs \<noteq> length ps then Inl Pairs_not_restored
      else if length ps = 1 then Inl Cannot_index
      else if rs \<noteq> map (\<lambda>(a, b). (Ldp, a, b)) (rev (tl ps)) @ map (\<lambda>(a, b). (Ldp_post, a, b)) (take 1 ps) then Inl Restored_out_of_order
      else Inr ())"

text \<open>A register of \<open>Rd\<close> or \<open>Rt\<close> that is callee-saved and was not saved.\<close>

definition unsaved :: "int list \<Rightarrow> a64_step \<Rightarrow> int list" where
  "unsaved saved s =
     (if is_pair s \<or> reads_Rt s then []
      else filter (\<lambda>r. r \<in> set calleeSaved \<and> r \<notin> set saved) (List.map_filter (\<lambda>f. f s) [step_Rd, step_Rt]))"

text \<open>Step by step, \<open>before\<close> the steps in front, the last first.\<close>

fun check_saved :: "(int \<times> int) list \<Rightarrow> nat \<Rightarrow> nat \<Rightarrow> a64_step list \<Rightarrow> a64_step list \<Rightarrow> abi_error + unit" where
  "check_saved ps k i before [] = Inr ()"
| "check_saved ps k i before (s # ss) =
     (if i \<ge> k \<and> unsaved (saved_registers ps) s \<noteq> [] then Inl (Register_not_saved (hd (unsaved (saved_registers ps) s)))
      else bind_sum (if is_exit s \<and> ps \<noteq> [] then check_exit ps (restores_before before []) else Inr ())
        (\<lambda>_. check_saved ps k (Suc i) (s # before) ss))"

section \<open>Blocks\<close>

definition ends_block :: "a64_step \<Rightarrow> bool" where
  "ends_block s \<longleftrightarrow> step_branch s \<noteq> None \<or> is_exit s"

definition is_leader :: "a64_step list \<Rightarrow> nat \<Rightarrow> bool" where
  "is_leader ss i \<longleftrightarrow> i = 0 \<or> is_label (ss ! i) \<or> ends_block (ss ! (i - 1))"

definition block_starts :: "a64_step list \<Rightarrow> nat list" where
  "block_starts ss = filter (is_leader ss) [0..<length ss]"

definition block_end :: "nat list \<Rightarrow> nat \<Rightarrow> nat \<Rightarrow> nat" where
  "block_end starts n b = (if b + 1 < length starts then starts ! (b + 1) else n)"

text \<open>The block of a step is the last one that starts at it or before it.\<close>

definition block_of :: "nat list \<Rightarrow> nat \<Rightarrow> nat" where
  "block_of starts i = length (filter (\<lambda>s. s \<le> i) starts) - 1"

section \<open>Flow\<close>

record abi_state =
  Depth :: int
  Written :: "int set"

type_synonym flow_state = "(nat \<Rightarrow> abi_state option) \<times> nat list"

text \<open>What flows into a block: the states met so far and the queue.\<close>

definition flow :: "nat \<Rightarrow> abi_state \<Rightarrow> flow_state \<Rightarrow> abi_error + flow_state" where
  "flow target st c =
     (case c of (inState, queue) \<Rightarrow>
       (case inState target of
          None \<Rightarrow> Inr (inState(target \<mapsto> st), queue @ [target])
        | Some current \<Rightarrow>
            if Depth current \<noteq> Depth st then Inl (Depths_differ target (Depth current) (Depth st))
            else let kept = Written current \<inter> Written st in
              Inr (inState(target \<mapsto> current\<lparr>Written := kept\<rparr>),
                if card kept \<noteq> card (Written current) then queue @ [target] else queue)))"

text \<open>The first argument register that is not written.\<close>

definition argument_missing :: "int \<Rightarrow> int set \<Rightarrow> int option" where
  "argument_missing n written = List.find (\<lambda>a. a \<notin> written) (map int [0..<nat n])"

text \<open>The registers a step writes by its default case.\<close>

definition writes :: "a64_step \<Rightarrow> int set" where
  "writes s = (if reads_Rt s then {} else set (List.map_filter (\<lambda>f. f s) [step_Rd, step_Rt]))"

fun step_state :: "a64_step \<Rightarrow> abi_state \<Rightarrow> abi_error + abi_state" where
  "step_state (Label n) st = Inr st"
| "step_state (Pair Stp_pre Rt Rt2 off) st = Inr (st\<lparr>Depth := Depth st - off\<rparr>)"
| "step_state (Pair Ldp_post Rt Rt2 off) st = Inr (st\<lparr>Depth := Depth st - off, Written := {Rt, Rt2} \<union> Written st\<rparr>)"
| "step_state (Pair Ldp Rt Rt2 off) st = Inr (st\<lparr>Written := {Rt, Rt2} \<union> Written st\<rparr>)"
| "step_state (Pair Stp Rt Rt2 off) st = Inr st"
| "step_state s st =
     (case step_call s of
        Some n \<Rightarrow>
          if Depth st mod 16 \<noteq> 0 then Inl (Misaligned_call (Depth st))
          else (case argument_missing n (Written st) of
             Some a \<Rightarrow> Inl (Argument_not_set a)
           | None \<Rightarrow> Inr (st\<lparr>Written := insert 0 (Written st \<inter> set calleeSaved)\<rparr>))
      | None \<Rightarrow>
          if is_exit s then (if Depth st \<noteq> 0 then Inl (Leaves_below_entry (Depth st)) else Inr st)
          else if step_branch s \<noteq> None then Inr st
          else Inr (st\<lparr>Written := writes s \<union> Written st\<rparr>))"

text \<open>Whether a step may go on with the next one.\<close>

fun falls_through :: "a64_step \<Rightarrow> bool" where
  "falls_through (Branch l) = False"
| "falls_through s = (\<not> is_exit s)"

text \<open>The steps of a block; the result has the state the block falls through with, if it does.\<close>

fun run_block :: "(string \<Rightarrow> nat) \<Rightarrow> a64_step list \<Rightarrow> abi_state \<Rightarrow> flow_state \<Rightarrow> abi_error + abi_state option \<times> flow_state" where
  "run_block target [] st c = Inr (Some st, c)"
| "run_block target (s # ss) st c =
     bind_sum (step_state s st) (\<lambda>st'.
     bind_sum (case step_branch s of Some l \<Rightarrow> flow (target l) st' c | None \<Rightarrow> Inr c) (\<lambda>c'.
     bind_sum (run_block target ss st' c') (\<lambda>(falls, c'').
       Inr (if falls_through s then falls else None, c''))))"

definition block_steps :: "a64_step list \<Rightarrow> nat list \<Rightarrow> nat \<Rightarrow> a64_step list" where
  "block_steps ss starts b = take (block_end starts (length ss) b - starts ! b) (drop (starts ! b) ss)"

definition visit :: "a64_step list \<Rightarrow> nat list \<Rightarrow> (string \<Rightarrow> nat) \<Rightarrow> nat \<Rightarrow> flow_state \<Rightarrow> abi_error + flow_state" where
  "visit ss starts target b c =
     bind_sum (run_block target (block_steps ss starts b) (the (fst c b)) c) (\<lambda>(falls, c').
       case falls of
         None \<Rightarrow> Inr c'
       | Some st \<Rightarrow> if b + 1 < length starts then flow (b + 1) st c' else Inl No_exit)"

text \<open>The loop over the queue, with the code's own bound.\<close>

function flow_loop :: "int \<Rightarrow> a64_step list \<Rightarrow> nat list \<Rightarrow> (string \<Rightarrow> nat) \<Rightarrow> flow_state \<Rightarrow> abi_error + (nat \<Rightarrow> abi_state option)" where
  "flow_loop guard ss starts target (inState, []) = Inr inState"
| "flow_loop guard ss starts target (inState, b # queue) =
     (if guard + 1 > 10000 then Inl No_convergence
      else bind_sum (visit ss starts target b (inState, queue)) (flow_loop (guard + 1) ss starts target))"
  by pat_completeness auto
termination by (relation "measure (\<lambda>(guard, _). nat (10001 - guard))") auto

fun check_reachable :: "a64_step list \<Rightarrow> nat list \<Rightarrow> (nat \<Rightarrow> abi_state option) \<Rightarrow> nat list \<Rightarrow> abi_error + unit" where
  "check_reachable ss starts inState [] = Inr ()"
| "check_reachable ss starts inState (b # bs) =
     (if inState b = None \<and> \<not> list_all is_label (block_steps ss starts b) then Inl (Unreachable (starts ! b))
      else check_reachable ss starts inState bs)"

definition entry_state :: "int \<Rightarrow> abi_state" where
  "entry_state parameters = \<lparr>Depth = 0, Written = set (map int [0..<nat parameters])\<rparr>"

definition Test_A64CallAbi :: "a64_step list \<Rightarrow> int \<Rightarrow> abi_error + unit" where
  "Test_A64CallAbi ss parameters =
     (if ss = [] then Inl No_steps
      else bind_sum (label_index 0 ss []) (\<lambda>ls.
      bind_sum (check_steps ls ss) (\<lambda>_.
      bind_sum (prologue ss) (\<lambda>(ps, k).
      if list_ex (\<lambda>s. step_call s \<noteq> None) ss \<and> 30 \<notin> set (saved_registers ps) then Inl Link_not_saved
      else bind_sum (check_saved ps k 0 [] ss) (\<lambda>_.
      let starts = block_starts ss; target = (\<lambda>l. block_of starts (the (label_at ls l))) in
      bind_sum (flow_loop 0 ss starts target ([0 \<mapsto> entry_state parameters], [0])) (\<lambda>inState.
      check_reachable ss starts inState [0..<length starts]))))))"

end
