(* ===== verification/A64_Flow.thy ===== *)
theory A64_Flow
  imports A64_Abi
begin

text \<open>
  What an accepted program does on every path.  A configuration is the index of a step, the bytes below
  the entry stack pointer and the registers that hold a value the function put there or an argument; the
  step relation follows the fall-throughs and branches of the program.
\<close>

section \<open>Paths\<close>

fun effect :: "a64_step \<Rightarrow> abi_state \<Rightarrow> abi_state" where
  "effect (Pair Stp_pre Rt Rt2 off) st = st\<lparr>Depth := Depth st - off\<rparr>"
| "effect (Pair Ldp_post Rt Rt2 off) st = st\<lparr>Depth := Depth st - off, Written := {Rt, Rt2} \<union> Written st\<rparr>"
| "effect (Pair Ldp Rt Rt2 off) st = st\<lparr>Written := {Rt, Rt2} \<union> Written st\<rparr>"
| "effect (Pair Stp Rt Rt2 off) st = st"
| "effect s st =
     (if step_call s \<noteq> None then st\<lparr>Written := insert 0 (Written st \<inter> {19..29})\<rparr> else st\<lparr>Written := writes s \<union> Written st\<rparr>)"

inductive path_step :: "a64_step list \<Rightarrow> nat \<times> abi_state \<Rightarrow> nat \<times> abi_state \<Rightarrow> bool" for ss where
  next_step: "i < length ss \<Longrightarrow> falls_through (ss ! i) \<Longrightarrow> path_step ss (i, st) (Suc i, effect (ss ! i) st)"
| branch_taken: "i < length ss \<Longrightarrow> step_branch (ss ! i) = Some l \<Longrightarrow> j < length ss \<Longrightarrow> ss ! j = Label n \<Longrightarrow> fold_case n = fold_case l \<Longrightarrow>
    path_step ss (i, st) (j, effect (ss ! i) st)"

inductive on_path :: "a64_step list \<Rightarrow> int \<Rightarrow> nat \<times> abi_state \<Rightarrow> bool" for ss parameters where
  at_entry: "on_path ss parameters (0, entry_state parameters)"
| further: "on_path ss parameters c \<Longrightarrow> path_step ss c c' \<Longrightarrow> on_path ss parameters c'"

inductive_cases path_stepE: "path_step ss (i, st) c"

section \<open>States\<close>

text \<open>The checker's state of a point covers every state that reaches it.\<close>

definition covers :: "abi_state \<Rightarrow> abi_state \<Rightarrow> bool" where
  "covers a c \<longleftrightarrow> Depth a = Depth c \<and> Written a \<subseteq> Written c"

lemma covers_refl [simp]: "covers a a" by (simp add: covers_def)
lemma covers_trans: "covers a b \<Longrightarrow> covers b c \<Longrightarrow> covers a c" by (auto simp: covers_def)

lemma argument_missing_None: "argument_missing n W = None \<longleftrightarrow> {0..<n} \<subseteq> W"
proof -
  have "{0..<n} = int ` set [0..<nat n]" by (cases "0 \<le> n") (auto simp: image_iff intro!: bexI [of _ "nat _"])
  then show ?thesis by (auto simp: argument_missing_def find_None_iff)
qed

lemma argument_missing_Some: "argument_missing n W = Some a \<Longrightarrow> \<not> {0..<n} \<subseteq> W"
  using argument_missing_None [of n W] by simp

lemma calleeSaved_set: "set calleeSaved = {19..29}"
proof (rule set_eqI)
  show "x \<in> set calleeSaved \<longleftrightarrow> x \<in> {19..29}" for x by (simp add: calleeSaved_def) presburger
qed

text \<open>What the checker asks of a step.\<close>

definition step_fine :: "a64_step \<Rightarrow> abi_state \<Rightarrow> bool" where
  "step_fine s st \<longleftrightarrow> (\<forall>n. step_call s = Some n \<longrightarrow> Depth st mod 16 = 0 \<and> {0..<n} \<subseteq> Written st) \<and> (is_exit s \<longrightarrow> Depth st = 0)"

lemma step_state_iff: "step_state s st = Inr st' \<longleftrightarrow> step_fine s st \<and> st' = effect s st"
  by (cases "(s, st)" rule: step_state.cases)
    (auto simp: step_fine_def argument_missing_None calleeSaved_set writes_def List.map_filter_simps dest!: argument_missing_Some split: option.splits)

lemma covers_effect: "covers a c \<Longrightarrow> covers (effect s a) (effect s c)"
  by (cases "(s, a)" rule: effect.cases) (auto simp: covers_def)

lemma covers_fine: "covers a c \<Longrightarrow> step_fine s a \<Longrightarrow> step_fine s c"
  by (auto simp: covers_def step_fine_def)

section \<open>Blocks\<close>

fun fine_run :: "a64_step list \<Rightarrow> abi_state \<Rightarrow> bool" where
  "fine_run [] st \<longleftrightarrow> True"
| "fine_run (s # ss) st \<longleftrightarrow> step_fine s st \<and> fine_run ss (effect s st)"

fun block_edges :: "(string \<Rightarrow> nat) \<Rightarrow> a64_step list \<Rightarrow> abi_state \<Rightarrow> (nat \<times> abi_state) list" where
  "block_edges target [] st = []"
| "block_edges target (s # ss) st =
     (case step_branch s of Some l \<Rightarrow> [(target l, effect s st)] | None \<Rightarrow> []) @ block_edges target ss (effect s st)"

fun flows :: "(nat \<times> abi_state) list \<Rightarrow> flow_state \<Rightarrow> abi_error + flow_state" where
  "flows [] c = Inr c"
| "flows ((t, st) # es) c = bind_sum (flow t st c) (flows es)"

lemma flows_append: "flows (es @ es') c = bind_sum (flows es c) (flows es')"
proof (induction es c rule: flows.induct)
  case (2 t st es c)
  then show ?case by (cases "flow t st c") auto
qed simp

lemma flows_single: "flows [(t, st)] c = flow t st c"
  by (cases "flow t st c") auto

lemma run_block_Inr:
  "run_block target ss st c = Inr (falls, c') \<longleftrightarrow>
     fine_run ss st \<and> falls = (if list_all falls_through ss then Some (fold effect ss st) else None) \<and>
     flows (block_edges target ss st) c = Inr c'"
  by (induction ss arbitrary: st c falls c')
    (auto simp: bind_sum_Inr_iff step_state_iff flows_append split: option.splits)

definition visit_edges :: "(string \<Rightarrow> nat) \<Rightarrow> nat \<Rightarrow> a64_step list \<Rightarrow> abi_state \<Rightarrow> (nat \<times> abi_state) list" where
  "visit_edges target b blk st =
     block_edges target blk st @ (if list_all falls_through blk then [(b + 1, fold effect blk st)] else [])"

lemma visit_Inr:
  "visit ss starts target b c = Inr c' \<longleftrightarrow>
     (let blk = block_steps ss starts b; st = the (fst c b) in
      fine_run blk st \<and> (list_all falls_through blk \<longrightarrow> b + 1 < length starts) \<and> flows (visit_edges target b blk st) c = Inr c')"
  by (auto simp: visit_def bind_sum_Inr_iff run_block_Inr visit_edges_def flows_append flows_single Let_def split: option.splits if_splits
      simp del: flows.simps(2))

lemma block_edges_at:
  "k < length blk \<Longrightarrow> step_branch (blk ! k) = Some l \<Longrightarrow>
    (target l, effect (blk ! k) (fold effect (take k blk) st)) \<in> set (block_edges target blk st)"
proof (induction blk arbitrary: k st)
  case (Cons s blk)
  then show ?case by (cases k) auto
qed simp

lemma fine_run_at: "fine_run blk st \<Longrightarrow> k < length blk \<Longrightarrow> step_fine (blk ! k) (fold effect (take k blk) st)"
proof (induction blk arbitrary: k st)
  case (Cons s blk)
  then show ?case by (cases k) auto
qed simp

section \<open>The fixed point\<close>

definition refines :: "(nat \<Rightarrow> abi_state option) \<Rightarrow> (nat \<Rightarrow> abi_state option) \<Rightarrow> bool" where
  "refines m m' \<longleftrightarrow> (\<forall>b x. m b = Some x \<longrightarrow> (\<exists>x'. m' b = Some x' \<and> covers x' x))"

definition holds_at :: "(nat \<Rightarrow> abi_state option) \<Rightarrow> nat \<times> abi_state \<Rightarrow> bool" where
  "holds_at m e = (\<exists>z. m (fst e) = Some z \<and> covers z (snd e))"

definition finite_states :: "(nat \<Rightarrow> abi_state option) \<Rightarrow> bool" where
  "finite_states m \<longleftrightarrow> (\<forall>b x. m b = Some x \<longrightarrow> finite (Written x))"

lemma refines_refl [simp]: "refines m m" by (simp add: refines_def)
lemma refines_trans: "refines a b \<Longrightarrow> refines b c \<Longrightarrow> refines a c" unfolding refines_def by (metis covers_trans)
lemma refines_holds: "refines m m' \<Longrightarrow> holds_at m e \<Longrightarrow> holds_at m' e" unfolding refines_def holds_at_def by (metis covers_trans)

text \<open>What one flow does: the target is covered, states only shrink, and a state that changes is queued.\<close>

definition flow_result :: "flow_state \<Rightarrow> flow_state \<Rightarrow> bool" where
  "flow_result c c' \<longleftrightarrow> refines (fst c) (fst c') \<and> set (snd c) \<subseteq> set (snd c') \<and> finite_states (fst c') \<and>
     (\<forall>b. b \<notin> set (snd c') \<longrightarrow> fst c' b = fst c b)"

lemma flow_Inr:
  assumes "flow t st c = Inr c'" "finite_states (fst c)" "finite (Written st)"
  shows "flow_result c c' \<and> holds_at (fst c') (t, st) \<and> dom (fst c') = insert t (dom (fst c)) \<and> set (snd c') \<subseteq> insert t (set (snd c))"
proof (cases "fst c t")
  case None
  then show ?thesis using assms
    by (cases c) (auto simp: flow_def flow_result_def refines_def holds_at_def finite_states_def split: if_splits)
next
  case (Some x)
  obtain m q where c: "c = (m, q)" by (cases c)
  have x: "m t = Some x" "finite (Written x)" using Some assms(2) by (auto simp: c finite_states_def)
  let ?kept = "Written x \<inter> Written st"
  have d: "Depth x = Depth st" and c': "c' = (m(t \<mapsto> x\<lparr>Written := ?kept\<rparr>), if card ?kept \<noteq> card (Written x) then q @ [t] else q)"
    using assms(1) x by (auto simp: c flow_def Let_def split: if_splits)
  have same: "?kept = Written x" if "card ?kept = card (Written x)" using that x(2) card_subset_eq [of "Written x" ?kept] by blast
  have unchanged: "x\<lparr>Written := ?kept\<rparr> = x" if "card ?kept = card (Written x)" using same [OF that] by simp
  have "holds_at (fst c') (t, st)" using d by (simp add: c' holds_at_def covers_def)
  moreover have "refines m (fst c')" using x by (auto simp: c' refines_def covers_def)
  moreover have "finite_states (fst c')" using assms(2) x by (auto simp: c c' finite_states_def)
  moreover have "fst c' b = m b" if "b \<notin> set (snd c')" for b
  proof (cases "card ?kept = card (Written x)")
    case True
    then show ?thesis using x(1) unchanged by (simp add: c')
  next
    case False
    then show ?thesis using that by (auto simp: c')
  qed
  moreover have "dom (fst c') = insert t (dom m)" "set q \<subseteq> set (snd c')" "set (snd c') \<subseteq> insert t (set q)" by (auto simp: c')
  ultimately show ?thesis unfolding c flow_result_def fst_conv snd_conv by blast
qed

lemma flow_result_trans: "flow_result a b \<Longrightarrow> flow_result b c \<Longrightarrow> flow_result a c"
  unfolding flow_result_def using refines_trans [of "fst a" "fst b" "fst c"] by (auto simp: subset_iff)

lemma flows_Inr:
  assumes "flows es c = Inr c'" "finite_states (fst c)" "\<forall>e \<in> set es. finite (Written (snd e))"
  shows "flow_result c c' \<and> (\<forall>e \<in> set es. holds_at (fst c') e) \<and> dom (fst c') = fst ` set es \<union> dom (fst c) \<and>
     set (snd c') \<subseteq> fst ` set es \<union> set (snd c)"
  using assms
proof (induction es c rule: flows.induct)
  case (2 t st es c)
  obtain c1 where c1: "flow t st c = Inr c1" "flows es c1 = Inr c'" using "2.prems"(1) by (auto simp: bind_sum_Inr_iff)
  from "2.prems"(3) have st: "finite (Written st)" "\<forall>e \<in> set es. finite (Written (snd e))" by simp_all
  have f: "flow_result c c1 \<and> holds_at (fst c1) (t, st) \<and> dom (fst c1) = insert t (dom (fst c)) \<and> set (snd c1) \<subseteq> insert t (set (snd c))"
    by (rule flow_Inr [OF c1(1) "2.prems"(2) st(1)])
  have g: "flow_result c1 c' \<and> (\<forall>e \<in> set es. holds_at (fst c') e) \<and> dom (fst c') = fst ` set es \<union> dom (fst c1) \<and>
     set (snd c') \<subseteq> fst ` set es \<union> set (snd c1)"
  proof -
    have "finite_states (fst c1)" using f by (simp only: flow_result_def)
    then show ?thesis by (rule "2.IH" [OF c1 _ st(2)])
  qed
  have "refines (fst c1) (fst c')" using g by (simp add: flow_result_def)
  then have "holds_at (fst c') (t, st)" by (rule refines_holds) (use f in simp)
  moreover have "flow_result c c'" using f g by (intro flow_result_trans [of c c1 c']) simp_all
  moreover have "dom (fst c') = fst ` set ((t, st) # es) \<union> dom (fst c)"
  proof -
    have "dom (fst c') = fst ` set es \<union> dom (fst c1)" "dom (fst c1) = insert t (dom (fst c))" using f g by blast+
    then show ?thesis by simp
  qed
  moreover have "set (snd c') \<subseteq> fst ` set ((t, st) # es) \<union> set (snd c)"
  proof -
    have "set (snd c') \<subseteq> fst ` set es \<union> set (snd c1)" "set (snd c1) \<subseteq> insert t (set (snd c))" using f g by blast+
    then show ?thesis by auto
  qed
  moreover have "\<forall>e \<in> set es. holds_at (fst c') e" using g by blast
  ultimately show ?case by (metis set_ConsD)
qed (simp add: flow_result_def)

lemma finite_effect: "finite (Written st) \<Longrightarrow> finite (Written (effect s st))"
  by (cases "(s, st)" rule: effect.cases) (auto simp: writes_def)

lemma finite_fold_effect: "finite (Written st) \<Longrightarrow> finite (Written (fold effect blk st))"
  by (induction blk arbitrary: st) (auto simp: finite_effect)

lemma finite_block_edges: "finite (Written st) \<Longrightarrow> e \<in> set (block_edges target blk st) \<Longrightarrow> finite (Written (snd e))"
proof (induction blk arbitrary: st)
  case (Cons s blk)
  then show ?case using finite_effect [OF Cons.prems(1), of s] by (auto split: option.splits)
qed simp

lemma finite_visit_edges: "finite (Written st) \<Longrightarrow> e \<in> set (visit_edges target b blk st) \<Longrightarrow> finite (Written (snd e))"
  by (auto simp: visit_edges_def finite_block_edges finite_fold_effect split: if_splits)

text \<open>A block whose run from its state succeeds and whose edges are covered; the loop keeps it for what is not queued.\<close>

definition stable :: "a64_step list \<Rightarrow> nat list \<Rightarrow> (string \<Rightarrow> nat) \<Rightarrow> (nat \<Rightarrow> abi_state option) \<Rightarrow> nat \<Rightarrow> abi_state \<Rightarrow> bool" where
  "stable ss starts target m b st =
     (let blk = block_steps ss starts b in
      fine_run blk st \<and> (list_all falls_through blk \<longrightarrow> b + 1 < length starts) \<and> (\<forall>e \<in> set (visit_edges target b blk st). holds_at m e))"

definition loop_invariant :: "a64_step list \<Rightarrow> nat list \<Rightarrow> (string \<Rightarrow> nat) \<Rightarrow> flow_state \<Rightarrow> bool" where
  "loop_invariant ss starts target c \<longleftrightarrow>
     finite_states (fst c) \<and> set (snd c) \<subseteq> dom (fst c) \<and>
     (\<forall>b x. fst c b = Some x \<longrightarrow> b \<notin> set (snd c) \<longrightarrow> stable ss starts target (fst c) b x)"

lemma stable_refines: "refines m m' \<Longrightarrow> stable ss starts target m b st \<Longrightarrow> stable ss starts target m' b st"
  unfolding stable_def Let_def using refines_holds by blast

lemma visit_keeps_invariant:
  assumes "visit ss starts target b (m, queue) = Inr c'" "loop_invariant ss starts target (m, b # queue)"
  shows "loop_invariant ss starts target c' \<and> refines m (fst c')"
proof -
  let ?blk = "block_steps ss starts b"
  obtain x where x: "m b = Some x" "finite (Written x)" using assms(2) by (auto simp: loop_invariant_def finite_states_def)
  have v: "fine_run ?blk x" "list_all falls_through ?blk \<longrightarrow> b + 1 < length starts" "flows (visit_edges target b ?blk x) (m, queue) = Inr c'"
    using assms(1) x(1) by (auto simp: visit_Inr Let_def)
  have fin: "finite_states m" using assms(2) by (simp add: loop_invariant_def)
  have r: "flow_result (m, queue) c'" "\<forall>e \<in> set (visit_edges target b ?blk x). holds_at (fst c') e"
    "dom (fst c') = fst ` set (visit_edges target b ?blk x) \<union> dom m" "set (snd c') \<subseteq> fst ` set (visit_edges target b ?blk x) \<union> set queue"
    using flows_Inr [OF v(3)] fin finite_visit_edges [OF x(2)] by auto
  have refined: "refines m (fst c')" and same: "\<And>b'. b' \<notin> set (snd c') \<Longrightarrow> fst c' b' = m b'" and kept: "set queue \<subseteq> set (snd c')"
    and fin': "finite_states (fst c')"
    using r(1) by (auto simp: flow_result_def)
  have "stable ss starts target (fst c') b' y" if "fst c' b' = Some y" "b' \<notin> set (snd c')" for b' y
  proof (cases "b' = b")
    case True
    then show ?thesis using that same [OF that(2)] x(1) v r(2) by (simp add: stable_def)
  next
    case False
    then have "stable ss starts target m b' y"
      using assms(2) that same [OF that(2)] kept by (auto simp: loop_invariant_def)
    then show ?thesis by (rule stable_refines [OF refined])
  qed
  moreover have "set (snd c') \<subseteq> dom (fst c')" using r(3,4) assms(2) by (auto simp: loop_invariant_def)
  ultimately show ?thesis using refined fin' by (simp add: loop_invariant_def)
qed

lemma flow_loop_stable:
  assumes "flow_loop g ss starts target c = Inr m" "loop_invariant ss starts target c"
  shows "refines (fst c) m \<and> (\<forall>b x. m b = Some x \<longrightarrow> stable ss starts target m b x)"
  using assms
proof (induction g ss starts target c rule: flow_loop.induct)
  case (1 g ss starts target m0)
  then show ?case by (simp add: loop_invariant_def)
next
  case (2 g ss starts target m0 b queue)
  obtain c' where c': "\<not> g + 1 > 10000" "visit ss starts target b (m0, queue) = Inr c'" "flow_loop (g + 1) ss starts target c' = Inr m"
    using "2.prems"(1) by (auto simp: bind_sum_Inr_iff split: if_splits)
  have i: "loop_invariant ss starts target c'" "refines m0 (fst c')" using visit_keeps_invariant [OF c'(2) "2.prems"(2)] by simp_all
  have "refines (fst c') m \<and> (\<forall>b x. m b = Some x \<longrightarrow> stable ss starts target m b x)" by (rule "2.IH" [OF c'(1,2,3) i(1)])
  then show ?case using refines_trans [OF i(2)] by simp
qed

section \<open>Blocks of a program\<close>

lemma block_starts_sorted: "sorted_wrt (<) (block_starts ss)"
  by (simp add: block_starts_def sorted_wrt_filter)

lemma block_starts_less: "j < length (block_starts ss) \<Longrightarrow> i < j \<Longrightarrow> block_starts ss ! i < block_starts ss ! j"
  using block_starts_sorted by (rule sorted_wrt_nth_less)

lemma in_block_starts: "i \<in> set (block_starts ss) \<longleftrightarrow> i < length ss \<and> is_leader ss i"
  by (auto simp: block_starts_def)

lemma block_starts_0: "ss \<noteq> [] \<Longrightarrow> block_starts ss \<noteq> [] \<and> block_starts ss ! 0 = 0"
  by (cases ss) (simp_all add: block_starts_def is_leader_def upt_conv_Cons del: upt_Suc)

lemma block_of_start:
  assumes "k < length (block_starts ss)"
  shows "block_of (block_starts ss) (block_starts ss ! k) = k"
proof -
  have "i \<le> k" if "i < length (block_starts ss)" "block_starts ss ! i \<le> block_starts ss ! k" for i
    using that block_starts_less [of i ss k] by (meson leD leI)
  moreover have "block_starts ss ! i \<le> block_starts ss ! k" if "i \<le> k" for i
    using that assms block_starts_less [of k ss i] by (cases "i = k") auto
  ultimately have "{i. i < length (block_starts ss) \<and> block_starts ss ! i \<le> block_starts ss ! k} = {..k}"
    using assms by auto
  then have "length (filter (\<lambda>s. s \<le> block_starts ss ! k) (block_starts ss)) = Suc k" by (simp add: length_filter_conv_card)
  then show ?thesis by (simp add: block_of_def)
qed

lemma block_of_leader:
  assumes "i < length ss" "is_leader ss i"
  shows "block_of (block_starts ss) i < length (block_starts ss)" "block_starts ss ! block_of (block_starts ss) i = i"
proof -
  obtain k where "k < length (block_starts ss)" "block_starts ss ! k = i"
    using assms in_block_starts by (metis in_set_conv_nth)
  then show "block_of (block_starts ss) i < length (block_starts ss)" "block_starts ss ! block_of (block_starts ss) i = i"
    using block_of_start [of k ss] by auto
qed

text \<open>A point inside a block is not a leader, and the end of a block is the start of the next.\<close>

lemma block_end_bound:
  assumes "b < length (block_starts ss)"
  shows "block_starts ss ! b < block_end (block_starts ss) (length ss) b" "block_end (block_starts ss) (length ss) b \<le> length ss"
proof -
  have "block_starts ss ! b < length ss" using assms in_block_starts nth_mem by blast
  moreover have "block_starts ss ! b < block_starts ss ! (b + 1)" "block_starts ss ! (b + 1) < length ss" if "b + 1 < length (block_starts ss)"
    using that block_starts_less [of "b + 1" ss b] in_block_starts nth_mem by auto
  ultimately show "block_starts ss ! b < block_end (block_starts ss) (length ss) b" "block_end (block_starts ss) (length ss) b \<le> length ss"
    by (auto simp: block_end_def less_imp_le)
qed

lemma inside_block:
  assumes "b < length (block_starts ss)" "block_starts ss ! b < i" "i < block_end (block_starts ss) (length ss) b"
  shows "\<not> is_leader ss i"
proof
  assume "is_leader ss i"
  moreover have "i < length ss" using assms block_end_bound(2) [OF assms(1)] by simp
  ultimately obtain k where k: "k < length (block_starts ss)" "block_starts ss ! k = i" using in_block_starts by (metis in_set_conv_nth)
  then have "b < k" using assms(1,2) block_starts_less [of b ss k] by (metis leI nat_less_le not_less_iff_gr_or_eq)
  then have "block_starts ss ! (b + 1) \<le> i" using k block_starts_less [of k ss "b + 1"] by (cases "k = b + 1") auto
  then show False using assms(3) \<open>b < k\<close> k(1) by (simp add: block_end_def)
qed

lemma label_index_at:
  assumes "label_index i ss ls = Inr ls'"
  shows "(\<forall>x v. label_at ls x = Some v \<longrightarrow> label_at ls' x = Some v) \<and>
    (\<forall>j < length ss. \<forall>n. ss ! j = Label n \<longrightarrow> label_at ls' n = Some (i + j))"
  using assms
proof (induction i ss ls rule: label_index.induct)
  case (2 i s ss ls)
  show ?case
  proof (cases "\<exists>n. s = Label n")
    case True
    then obtain n where n: "s = Label n" "label_at ls n = None" "label_index (Suc i) ss ((fold_case n, i) # ls) = Inr ls'"
      using "2.prems" by (auto split: if_splits)
    have *: "(\<forall>x v. label_at ((fold_case n, i) # ls) x = Some v \<longrightarrow> label_at ls' x = Some v) \<and>
        (\<forall>j < length ss. \<forall>n. ss ! j = Label n \<longrightarrow> label_at ls' n = Some (Suc i + j))"
      using "2.IH"(1) [OF n(1)] n by simp
    have "label_at ls' n = Some i" using * by (simp add: label_at_def)
    moreover have "label_at ls' x = Some v" if "label_at ls x = Some v" for x v
      using * that n(2) by (cases "fold_case x = fold_case n") (auto simp: label_at_def)
    ultimately show ?thesis using * n(1) by (auto simp: nth_Cons split: nat.splits)
  next
    case False
    then have "label_index (Suc i) ss ls = Inr ls'" using "2.prems" by (cases s) simp_all
    then have "(\<forall>x v. label_at ls x = Some v \<longrightarrow> label_at ls' x = Some v) \<and>
        (\<forall>j < length ss. \<forall>n. ss ! j = Label n \<longrightarrow> label_at ls' n = Some (Suc i + j))"
      using "2.IH" False by (cases s) simp_all
    then show ?thesis using False by (auto simp: nth_Cons split: nat.splits)
  qed
qed simp

end
