(* ===== verification/A64_Paths.thy ===== *)
theory A64_Paths
  imports A64_Flow
begin

text \<open>
  An accepted program is sound on every path: at a call the stack is aligned and the arguments are set, at
  an exit the stack pointer is that of the entry, a branch finds its label, and the program never runs off
  its end.
\<close>

section \<open>Points of a block\<close>

definition in_block :: "a64_step list \<Rightarrow> nat \<Rightarrow> nat \<Rightarrow> bool" where
  "in_block ss b i \<longleftrightarrow> b < length (block_starts ss) \<and> block_starts ss ! b \<le> i \<and> i < block_end (block_starts ss) (length ss) b"

abbreviation block :: "a64_step list \<Rightarrow> nat \<Rightarrow> a64_step list" where
  "block ss b \<equiv> block_steps ss (block_starts ss) b"

lemma in_block_nth:
  assumes "in_block ss b i"
  shows "i < length ss" "i - block_starts ss ! b < length (block ss b)" "block ss b ! (i - block_starts ss ! b) = ss ! i"
    "length (block ss b) = block_end (block_starts ss) (length ss) b - block_starts ss ! b"
  using assms block_end_bound [of b ss] by (auto simp: in_block_def block_steps_def)

text \<open>The checker's state at a point covers the state of the path.\<close>

definition covered_at :: "a64_step list \<Rightarrow> (nat \<Rightarrow> abi_state option) \<Rightarrow> nat \<times> abi_state \<Rightarrow> bool" where
  "covered_at ss m c \<longleftrightarrow>
     (\<exists>b x. in_block ss b (fst c) \<and> m b = Some x \<and> covers (fold effect (take (fst c - block_starts ss ! b) (block ss b)) x) (snd c))"

lemma covered_start:
  assumes "b < length (block_starts ss)" "holds_at m (b, st)" "covers st c"
  shows "covered_at ss m (block_starts ss ! b, c)"
  using assms block_end_bound [OF assms(1)] covers_trans
  by (fastforce simp: covered_at_def holds_at_def in_block_def)

lemma fold_take_Suc: "k < length xs \<Longrightarrow> fold effect (take (Suc k) xs) x = effect (xs ! k) (fold effect (take k xs) x)"
  by (simp add: take_Suc_conv_app_nth)

section \<open>Steps\<close>

lemma label_origin:
  assumes "label_index i ss ls = Inr ls'" "label_at ls' x = Some v"
  shows "label_at ls x = Some v \<or> (\<exists>j < length ss. \<exists>n. v = i + j \<and> ss ! j = Label n \<and> fold_case n = fold_case x)"
  using assms
proof (induction i ss ls rule: label_index.induct)
  case (2 i s ss ls)
  have later: "\<exists>j < length (s # ss). \<exists>n. v = i + j \<and> (s # ss) ! j = Label n \<and> fold_case n = fold_case x"
    if "j < length ss" "v = Suc i + j" "ss ! j = Label n" "fold_case n = fold_case x" for j n
    using that by (intro exI [of _ "Suc j"]) auto
  show ?case
  proof (cases "\<exists>n. s = Label n")
    case True
    then obtain n where n: "s = Label n" "label_at ls n = None" "label_index (Suc i) ss ((fold_case n, i) # ls) = Inr ls'"
      using "2.prems"(1) by (auto split: if_splits)
    have "label_at ((fold_case n, i) # ls) x = Some v \<or>
        (\<exists>j < length ss. \<exists>n. v = Suc i + j \<and> ss ! j = Label n \<and> fold_case n = fold_case x)"
      using "2.IH"(1) [OF n(1)] n "2.prems"(2) by simp
    then show ?thesis using n(1) later by (fastforce simp: label_at_def split: if_splits)
  next
    case False
    then have "label_index (Suc i) ss ls = Inr ls'" using "2.prems"(1) by (cases s) simp_all
    then have "label_at ls x = Some v \<or> (\<exists>j < length ss. \<exists>n. v = Suc i + j \<and> ss ! j = Label n \<and> fold_case n = fold_case x)"
      using "2.IH" "2.prems"(2) False by (cases s) simp_all
    then show ?thesis using later by blast
  qed
qed simp

lemma checked_label: "check_steps ls ss = Inr () \<Longrightarrow> i < length ss \<Longrightarrow> step_branch (ss ! i) = Some l \<Longrightarrow> \<exists>v. label_at ls l = Some v"
proof (induction ss arbitrary: i)
  case (Cons s ss)
  then show ?case by (cases i) (auto simp: check_step_def bind_sum_Inr_iff split: if_splits)
qed simp

text \<open>What the passes of an accepted program found.\<close>

definition flow_target :: "a64_step list \<Rightarrow> label_table \<Rightarrow> string \<Rightarrow> nat" where
  "flow_target ss ls = (\<lambda>l. block_of (block_starts ss) (the (label_at ls l)))"

lemma accepted_parts:
  assumes "Test_A64CallAbi ss parameters = Inr ()"
  obtains ls m where "ss \<noteq> []" "label_index 0 ss [] = Inr ls" "check_steps ls ss = Inr ()"
    "flow_loop 0 ss (block_starts ss) (flow_target ss ls) ([0 \<mapsto> entry_state parameters], [0]) = Inr m"
  using assms by (fastforce simp: Test_A64CallAbi_def bind_sum_Inr_iff Let_def flow_target_def split: if_splits)

lemma covered_next:
  assumes "covered_at ss m (i, c)" "falls_through (ss ! i)"
    and "\<And>b x. m b = Some x \<Longrightarrow> stable ss (block_starts ss) target m b x"
  shows "covered_at ss m (Suc i, effect (ss ! i) c)"
proof -
  obtain b x where bx: "in_block ss b i" "m b = Some x" "covers (fold effect (take (i - block_starts ss ! b) (block ss b)) x) c"
    using assms(1) by (auto simp: covered_at_def)
  let ?k = "i - block_starts ss ! b"
  have s: "stable ss (block_starts ss) target m b x" by (rule assms(3) [OF bx(2)])
  have e: "covers (fold effect (take (Suc ?k) (block ss b)) x) (effect (ss ! i) c)"
    using covers_effect [OF bx(3), of "ss ! i"] in_block_nth [OF bx(1)] by (simp add: fold_take_Suc)
  show ?thesis
  proof (cases "Suc i < block_end (block_starts ss) (length ss) b")
    case True
    then show ?thesis using bx e by (auto simp: covered_at_def in_block_def Suc_diff_le intro!: exI [of _ b])
  next
    case False
    then have last: "block_end (block_starts ss) (length ss) b = Suc i" using bx(1) by (simp add: in_block_def)
    have inner: "falls_through (block ss b ! k)" if "k < length (block ss b)" for k
    proof (cases "k = ?k")
      case True
      then show ?thesis using assms(2) in_block_nth [OF bx(1)] by simp
    next
      case False
      let ?j = "block_starts ss ! b + k"
      have j: "in_block ss b ?j" "Suc ?j < block_end (block_starts ss) (length ss) b"
        using that False last in_block_nth(4) [OF bx(1)] bx(1) by (auto simp: in_block_def)
      have "\<not> is_leader ss (Suc ?j)" using inside_block [of b ss "Suc ?j"] j bx(1) by (simp add: in_block_def)
      then have "\<not> ends_block (ss ! ?j)" by (simp add: is_leader_def)
      then have "falls_through (ss ! ?j)" by (cases "ss ! ?j") (simp_all add: ends_block_def)
      then show ?thesis using in_block_nth(3) [OF j(1)] by simp
    qed
    then have all: "list_all falls_through (block ss b)" by (simp add: list_all_length)
    have len: "length (block ss b) = Suc ?k" using in_block_nth(4) [OF bx(1)] last bx(1) by (auto simp: in_block_def)
    have next_b: "b + 1 < length (block_starts ss)" "holds_at m (b + 1, fold effect (block ss b) x)"
      using s all by (auto simp: stable_def visit_edges_def Let_def)
    have "block_starts ss ! (b + 1) = Suc i" using last next_b(1) by (simp add: block_end_def)
    then show ?thesis using covered_start [OF next_b] e len by simp
  qed
qed

lemma covered_branch:
  assumes "covered_at ss m (i, c)" "step_branch (ss ! i) = Some l" "j < length ss" "ss ! j = Label n" "label_at ls l = Some j"
    and "\<And>b x. m b = Some x \<Longrightarrow> stable ss (block_starts ss) (flow_target ss ls) m b x"
  shows "covered_at ss m (j, effect (ss ! i) c)"
proof -
  obtain b x where bx: "in_block ss b i" "m b = Some x" "covers (fold effect (take (i - block_starts ss ! b) (block ss b)) x) c"
    using assms(1) by (auto simp: covered_at_def)
  let ?st = "effect (ss ! i) (fold effect (take (i - block_starts ss ! b) (block ss b)) x)"
  have "(flow_target ss ls l, ?st) \<in> set (visit_edges (flow_target ss ls) b (block ss b) x)"
    using block_edges_at [of "i - block_starts ss ! b" "block ss b" l "flow_target ss ls" x] in_block_nth [OF bx(1)] assms(2)
    by (simp add: visit_edges_def)
  then have "holds_at m (flow_target ss ls l, ?st)" using assms(6) [OF bx(2)] by (simp add: stable_def Let_def)
  moreover have "is_leader ss j" using assms(4) by (simp add: is_leader_def)
  ultimately show ?thesis
    using covered_start [OF block_of_leader(1) [OF assms(3)], of m ?st "effect (ss ! i) c"] block_of_leader(2) [OF assms(3)]
      covers_effect [OF bx(3)] by (simp add: flow_target_def assms(5))
qed

lemma covered_fine:
  assumes "covered_at ss m (i, c)" and "\<And>b x. m b = Some x \<Longrightarrow> stable ss (block_starts ss) target m b x"
  shows "i < length ss" "step_fine (ss ! i) c"
proof -
  obtain b x where bx: "in_block ss b i" "m b = Some x" "covers (fold effect (take (i - block_starts ss ! b) (block ss b)) x) c"
    using assms(1) by (auto simp: covered_at_def)
  show "i < length ss" by (rule in_block_nth(1) [OF bx(1)])
  have "fine_run (block ss b) x" using assms(2) [OF bx(2)] by (simp add: stable_def Let_def)
  from fine_run_at [OF this in_block_nth(2) [OF bx(1)]] show "step_fine (ss ! i) c"
    using covers_fine [OF bx(3)] in_block_nth(3) [OF bx(1)] by simp
qed

lemma covered_depth:
  assumes "covered_at ss m (i, c)" "covered_at ss m (i, c')"
  shows "Depth c = Depth c'"
proof -
  have one: "b = b'" if "in_block ss b i" "in_block ss b' i" for b b'
  proof (rule ccontr)
    assume "b \<noteq> b'"
    moreover have False if "in_block ss b i" "in_block ss b' i" "b < b'" for b b'
    proof -
      have "block_end (block_starts ss) (length ss) b \<le> block_starts ss ! b'"
        using that block_starts_less [of b' ss "b + 1"] by (cases "b' = b + 1") (auto simp: in_block_def block_end_def)
      then show False using that by (simp add: in_block_def)
    qed
    ultimately show False using that by (meson nat_neq_iff)
  qed
  obtain b x where b: "in_block ss b i" "m b = Some x" "covers (fold effect (take (i - block_starts ss ! b) (block ss b)) x) c"
    using assms(1) by (auto simp: covered_at_def)
  obtain b' x' where b': "in_block ss b' i" "m b' = Some x'" "covers (fold effect (take (i - block_starts ss ! b') (block ss b')) x') c'"
    using assms(2) by (auto simp: covered_at_def)
  show ?thesis using b b' one [OF b(1) b'(1)] by (simp add: covers_def)
qed

lemma on_path_covered:
  assumes "Test_A64CallAbi ss parameters = Inr ()"
  shows "\<exists>ls m. label_index 0 ss [] = Inr ls \<and> check_steps ls ss = Inr () \<and> (\<forall>c. on_path ss parameters c \<longrightarrow> covered_at ss m c) \<and>
    (\<forall>b x. m b = Some x \<longrightarrow> stable ss (block_starts ss) (flow_target ss ls) m b x)"
proof -
  obtain ls m where parts: "ss \<noteq> []" "label_index 0 ss [] = Inr ls" "check_steps ls ss = Inr ()"
    "flow_loop 0 ss (block_starts ss) (flow_target ss ls) ([0 \<mapsto> entry_state parameters], [0]) = Inr m"
    by (rule accepted_parts [OF assms])
  have "loop_invariant ss (block_starts ss) (flow_target ss ls) ([0 \<mapsto> entry_state parameters], [0])"
    by (auto simp: loop_invariant_def finite_states_def entry_state_def split: if_splits)
  from flow_loop_stable [OF parts(4) this]
  have m: "refines [0 \<mapsto> entry_state parameters] m" and stable: "\<And>b x. m b = Some x \<Longrightarrow> stable ss (block_starts ss) (flow_target ss ls) m b x"
    by simp_all
  have "covered_at ss m c" if "on_path ss parameters c" for c
    using that
  proof (induction rule: on_path.induct)
    case at_entry
    have "holds_at m (0, entry_state parameters)" using m by (simp add: refines_def holds_at_def)
    then show ?case using covered_start [of 0 ss m] block_starts_0 [OF parts(1)] by simp
  next
    case (further c c')
    obtain i st where c: "c = (i, st)" by (cases c)
    show ?case
    proof (rule path_stepE [OF further.hyps(2) [unfolded c]])
      assume "c' = (Suc i, effect (ss ! i) st)" "falls_through (ss ! i)"
      then show ?thesis using covered_next [OF _ _ stable] further.IH by (simp add: c)
    next
      fix l j n
      assume b: "c' = (j, effect (ss ! i) st)" "step_branch (ss ! i) = Some l" "j < length ss" "ss ! j = Label n" "fold_case n = fold_case l"
      have "label_at ls n = Some j" using label_index_at [OF parts(2)] b by simp
      then have "label_at ls l = Some j" using b(5) by (simp add: label_at_def)
      then show ?thesis using covered_branch [OF _ _ _ _ _ stable] further.IH b by (simp add: c)
    qed
  qed
  then show ?thesis using parts(2,3) stable by blast
qed

section \<open>Soundness\<close>


end
