(* ===== verification/A64_Converges.thy ===== *)
theory A64_Converges
  imports A64_Paths
begin

text \<open>
  The worklist of \<open>Test-A64CallAbi\<close> empties before the bound of the code: every visit after the first one of
  a block has lost a register of its state, so a block is visited at most 33 times.
\<close>

definition registers_in_range :: "a64_step \<Rightarrow> bool" where
  "registers_in_range s \<longleftrightarrow> (\<forall>r. Some r \<in> {step_Rd s, step_Rt s, step_Rt2 s} \<longrightarrow> in_range 0 31 r)"

abbreviation machine_registers :: "int set" where "machine_registers \<equiv> {0..31}"

lemma effect_registers:
  assumes "registers_in_range s" "Written st \<subseteq> machine_registers"
  shows "Written (effect s st) \<subseteq> machine_registers"
  using assms by (cases "(s, st)" rule: effect.cases)
    (auto simp: registers_in_range_def in_range_def writes_def List.map_filter_simps split: option.splits)

lemma fold_effect_registers:
  "list_all registers_in_range blk \<Longrightarrow> Written st \<subseteq> machine_registers \<Longrightarrow> Written (fold effect blk st) \<subseteq> machine_registers"
  by (induction blk arbitrary: st) (simp_all add: effect_registers)

text \<open>What a block may still cost: 33 before it is met, then the registers of its state.\<close>

definition cost :: "abi_state option \<Rightarrow> nat" where
  "cost x = (case x of None \<Rightarrow> 33 | Some st \<Rightarrow> card (Written st))"

definition potential :: "nat \<Rightarrow> flow_state \<Rightarrow> nat" where
  "potential n c = length (snd c) + (\<Sum>b<n. cost (fst c b))"

definition registers_known :: "(nat \<Rightarrow> abi_state option) \<Rightarrow> bool" where
  "registers_known m \<longleftrightarrow> (\<forall>b x. m b = Some x \<longrightarrow> Written x \<subseteq> machine_registers)"

lemma card_registers: "W \<subseteq> machine_registers \<Longrightarrow> finite W \<and> card W \<le> 32"
  using card_mono [of machine_registers W] finite_subset [of W machine_registers] by simp

lemma flow_potential:
  assumes "flow t st c = Inr c'" "t < n" "registers_known (fst c)" "Written st \<subseteq> machine_registers"
  shows "potential n c' \<le> potential n c \<and> registers_known (fst c')"
proof -
  obtain m q where c: "c = (m, q)" by (cases c)
  have sum: "(\<Sum>b<n. cost ((m(t \<mapsto> y)) b)) + cost (m t) = (\<Sum>b<n. cost (m b)) + cost (Some y)" for y
    using assms(2) by (simp add: sum.remove [of "{..<n}" t])
  show ?thesis
  proof (cases "m t")
    case None
    then have "c' = (m(t \<mapsto> st), q @ [t])" using assms(1) by (simp add: flow_def c)
    then show ?thesis using None sum [of st] card_registers [OF assms(4)] assms(3,4)
      by (auto simp: potential_def cost_def c registers_known_def)
  next
    case (Some x)
    let ?kept = "Written x \<inter> Written st"
    have x: "finite (Written x)" "Written x \<subseteq> machine_registers" using assms(3) Some card_registers by (auto simp: c registers_known_def)
    have c': "c' = (m(t \<mapsto> x\<lparr>Written := ?kept\<rparr>), if card ?kept \<noteq> card (Written x) then q @ [t] else q)"
      using assms(1) Some by (auto simp: c flow_def Let_def split: if_splits)
    have "card ?kept \<le> card (Written x)" by (rule card_mono [OF x(1)]) simp
    then have "potential n c' \<le> potential n c" using Some sum [of "x\<lparr>Written := ?kept\<rparr>"] by (simp add: potential_def cost_def c c')
    moreover have "registers_known (fst c')" using assms(3) x by (auto simp: c c' registers_known_def)
    ultimately show ?thesis by simp
  qed
qed

lemma flows_potential:
  assumes "flows es c = Inr c'" "registers_known (fst c)" "\<forall>e \<in> set es. fst e < n \<and> Written (snd e) \<subseteq> machine_registers"
  shows "potential n c' \<le> potential n c \<and> registers_known (fst c')"
  using assms
proof (induction es c rule: flows.induct)
  case (2 t st es c)
  obtain c1 where c1: "flow t st c = Inr c1" "flows es c1 = Inr c'" using "2.prems"(1) by (auto simp: bind_sum_Inr_iff)
  have one: "potential n c1 \<le> potential n c \<and> registers_known (fst c1)" using flow_potential [OF c1(1), of n] "2.prems" by simp
  then have "potential n c' \<le> potential n c1 \<and> registers_known (fst c')" using "2.IH" [OF c1] "2.prems"(3) by simp
  then show ?case using one by simp
qed simp

lemma flow_converges: "flow t st c \<noteq> Inl No_convergence"
  by (auto simp: flow_def Let_def split: prod.splits option.splits)

lemma step_converges: "step_state s st \<noteq> Inl No_convergence"
  by (cases "(s, st)" rule: step_state.cases) (auto split: option.splits)

lemma bind_sum_Inl: "bind_sum x f = Inl e \<longleftrightarrow> x = Inl e \<or> (\<exists>v. x = Inr v \<and> f v = Inl e)"
  by (cases x) auto

lemma run_block_converges: "run_block target ss st c \<noteq> Inl No_convergence"
  by (induction ss arbitrary: st c)
    (auto simp: bind_sum_Inl flow_converges step_converges split: option.splits)

lemma visit_converges: "visit ss starts target b c \<noteq> Inl No_convergence"
  by (auto simp: visit_def bind_sum_Inl run_block_converges flow_converges split: option.splits prod.splits if_splits)

lemma block_edges_bound:
  assumes "e \<in> set (block_edges target blk st)" "list_all registers_in_range blk" "Written st \<subseteq> machine_registers"
  shows "(\<exists>s \<in> set blk. \<exists>l. step_branch s = Some l \<and> fst e = target l) \<and> Written (snd e) \<subseteq> machine_registers"
  using assms
proof (induction blk arbitrary: st)
  case (Cons s blk)
  have st: "Written (effect s st) \<subseteq> machine_registers" using effect_registers Cons.prems(2,3) by simp
  consider l where "step_branch s = Some l" "e = (target l, effect s st)" | "e \<in> set (block_edges target blk (effect s st))"
    using Cons.prems(1) by (cases "step_branch s") auto
  then show ?case
  proof cases
    case (1 l)
    then show ?thesis using st by simp
  next
    case 2
    then show ?thesis using Cons.IH [OF 2 _ st] Cons.prems(2) by auto
  qed
qed simp

lemma block_subset: "set (block_steps ss starts b) \<subseteq> set ss"
  by (auto simp: block_steps_def dest!: in_set_takeD in_set_dropD)

lemma visit_potential:
  assumes "visit ss starts target b (m, queue) = Inr c'" "registers_known m" "m b = Some x"
    and "list_all registers_in_range ss" "\<forall>s \<in> set ss. \<forall>l. step_branch s = Some l \<longrightarrow> target l < length starts"
  shows "potential (length starts) c' \<le> potential (length starts) (m, queue) \<and> registers_known (fst c')"
proof -
  let ?blk = "block_steps ss starts b"
  have v: "list_all falls_through ?blk \<longrightarrow> b + 1 < length starts" "flows (visit_edges target b ?blk x) (m, queue) = Inr c'"
    using assms(1,3) by (auto simp: visit_Inr Let_def)
  have x: "Written x \<subseteq> machine_registers" using assms(2,3) by (simp add: registers_known_def)
  have r: "list_all registers_in_range ?blk" using assms(4) block_subset [of ss starts b] by (auto simp: list_all_iff)
  have "fst e < length starts \<and> Written (snd e) \<subseteq> machine_registers" if e: "e \<in> set (visit_edges target b ?blk x)" for e
  proof (cases "e \<in> set (block_edges target ?blk x)")
    case True
    then show ?thesis using block_edges_bound [OF True r x] assms(5) block_subset [of ss starts b] by fastforce
  next
    case False
    then show ?thesis using e v(1) fold_effect_registers [OF r x] by (auto simp: visit_edges_def split: if_splits)
  qed
  then show ?thesis using flows_potential [OF v(2), of "length starts"] assms(2) by simp
qed

lemma flow_loop_converges:
  assumes "int (potential (length starts) c) + g \<le> 10000" "registers_known (fst c)" "loop_invariant ss starts target c"
    and "list_all registers_in_range ss" "\<forall>s \<in> set ss. \<forall>l. step_branch s = Some l \<longrightarrow> target l < length starts"
  shows "flow_loop g ss starts target c \<noteq> Inl No_convergence"
  using assms
proof (induction g ss starts target c rule: flow_loop.induct)
  case (2 g ss starts target m b queue)
  have popped: "potential (length starts) (m, b # queue) = Suc (potential (length starts) (m, queue))" by (simp add: potential_def)
  then have bound: "\<not> g + 1 > 10000" using "2.prems"(1) by simp
  obtain x where x: "m b = Some x" using "2.prems"(3) by (auto simp: loop_invariant_def)
  show ?case
  proof (cases "visit ss starts target b (m, queue)")
    case (Inl e)
    then show ?thesis using bound visit_converges by (metis bind_sum_simps(2) flow_loop.simps(2) sum.inject(1))
  next
    case (Inr c')
    have p: "potential (length starts) c' \<le> potential (length starts) (m, queue) \<and> registers_known (fst c')"
      using visit_potential [OF Inr _ x "2.prems"(4,5)] "2.prems"(2) by simp
    have i: "loop_invariant ss starts target c'" using visit_keeps_invariant [OF Inr "2.prems"(3)] by simp
    have "int (potential (length starts) c') + (g + 1) \<le> 10000" using p popped "2.prems"(1) by simp
    then have "flow_loop (g + 1) ss starts target c' \<noteq> Inl No_convergence"
      using "2.IH" [OF bound Inr _ _ i "2.prems"(4,5)] p by blast
    then show ?thesis using Inr bound by simp
  qed
qed simp

section \<open>The other passes\<close>

lemma label_index_converges: "label_index i ss ls \<noteq> Inl No_convergence"
  by (induction i ss ls rule: label_index.induct) (auto split: a64_step.splits)

lemma check_steps_converges: "check_steps ls ss \<noteq> Inl No_convergence"
  by (induction ss) (auto simp: bind_sum_Inl check_step_def split: option.splits)

lemma prologue_converges: "prologue ss \<noteq> Inl No_convergence"
  by (auto simp: prologue_def Let_def split: list.splits a64_step.splits pair_op.splits prod.splits)

lemma check_saved_converges: "check_saved ps k i before ss \<noteq> Inl No_convergence"
  by (induction ss arbitrary: i before) (auto simp: bind_sum_Inl check_exit_def)

lemma check_reachable_converges: "check_reachable ss starts m bs \<noteq> Inl No_convergence"
  by (induction bs) auto

text \<open>
  C16. The control-flow analysis of \<open>Test-A64CallAbi\<close> never gives up: a program of at most 303 basic blocks whose
  registers are those of the machine and that takes at most 32 arguments is accepted or rejected for a
  reason of its own, within the 10000 rounds the code allows.
\<close>

theorem abi_check_converges:
  assumes "length (block_starts ss) \<le> 303" "list_all registers_in_range ss" "parameters \<le> 32"
  shows "Test_A64CallAbi ss parameters \<noteq> Inl No_convergence"
proof -
  have "flow_loop 0 ss (block_starts ss) (flow_target ss ls) ([0 \<mapsto> entry_state parameters], [0]) \<noteq> Inl No_convergence"
    if a: "ss \<noteq> []" "label_index 0 ss [] = Inr ls" "check_steps ls ss = Inr ()" for ls
  proof (rule flow_loop_converges)
    let ?n = "length (block_starts ss)"
    have "Written (entry_state parameters) \<subseteq> machine_registers" using assms(3) by (auto simp: entry_state_def)
    then have k: "registers_known [0 \<mapsto> entry_state parameters]" "card (Written (entry_state parameters)) \<le> 32"
      using card_registers by (auto simp: registers_known_def)
    have n: "0 < ?n" using block_starts_0 [OF a(1)] by simp
    have "(\<Sum>b<?n. cost ([0 \<mapsto> entry_state parameters] b)) \<le> 32 + (\<Sum>b\<in>{..<?n} - {0}. 33)"
      using n k(2) by (simp add: sum.remove [of "{..<?n}" 0] cost_def)
    then have "potential ?n ([0 \<mapsto> entry_state parameters], [0]) \<le> 10000"
      using n assms(1) by (simp add: potential_def)
    then show "int (potential ?n ([0 \<mapsto> entry_state parameters], [0])) + 0 \<le> 10000" by linarith
    show "registers_known (fst ([0 \<mapsto> entry_state parameters], [0::nat]))" using k by simp
    show "loop_invariant ss (block_starts ss) (flow_target ss ls) ([0 \<mapsto> entry_state parameters], [0])"
      by (auto simp: loop_invariant_def finite_states_def entry_state_def split: if_splits)
    show "list_all registers_in_range ss" by (rule assms(2))
    have "flow_target ss ls l < ?n" if s: "s \<in> set ss" "step_branch s = Some l" for s l
    proof -
      obtain i where i: "i < length ss" "ss ! i = s" using s(1) by (auto simp: in_set_conv_nth)
      obtain v where v: "label_at ls l = Some v" using checked_label [OF a(3) i(1)] i(2) s(2) by blast
      then obtain j n where j: "j < length ss" "v = j" "ss ! j = Label n" using label_origin [OF a(2) v] by (auto simp: label_at_def)
      then have "is_leader ss v" by (simp add: is_leader_def)
      then show ?thesis using block_of_leader(1) [of v ss] j v by (simp add: flow_target_def)
    qed
    then show "\<forall>s \<in> set ss. \<forall>l. step_branch s = Some l \<longrightarrow> flow_target ss ls l < ?n" by blast
  qed
  then show ?thesis
    by (auto simp: Test_A64CallAbi_def bind_sum_Inl Let_def label_index_converges check_steps_converges prologue_converges
        check_saved_converges check_reachable_converges flow_target_def split: if_splits prod.splits)
qed

end
