(* ===== verification/A64_Host.thy ===== *)
theory A64_Host
  imports A64_Converges
begin

text \<open>
  The step programs of the AArch64 host: \<open>ANativeActivity_onCreate\<close> and \<open>pwsh_assembly_probe\<close> of
  \<open>New-NativeHostLibrary\<close>, and the programs of \<open>Test-NativeEmitterControls\<close> that the check has to reject.
\<close>

section \<open>The host\<close>

definition logFailure :: "int \<Rightarrow> string \<Rightarrow> string \<Rightarrow> a64_step list" where
  "logFailure errorPriority label format = [
     Label label, Mov 3 0 False, Wide Movz 0 errorPriority False, Page_data Lea_data 1 ''tag'',
     Page_data Lea_data 2 format, Call_import ''__android_log_print'' 4, Branch ''done'']"

definition a64_onCreate :: "int \<Rightarrow> int \<Rightarrow> a64_step list" where
  "a64_onCreate info errorPriority = [
     Pair Stp_pre 29 30 (-32), Add_imm 29 31 0, Pair Stp 19 20 16, Mov 19 0 True,
     Page_data Lea_data 0 ''baseDirectory'', Wide Movz 1 512 True, Page_data Lea_data 2 ''fmtDirectory'',
     Mem Ldr64 3 19 32, Call_import ''snprintf'' 4, Cmp_imm32 0 512, Branch_hs ''directoryFailed'',
     Page_data Lea_data 0 ''contractText'', Wide Movz 1 32 True, Page_data Lea_data 2 ''fmtPointer'',
     Page_data Lea_data 3 ''contract'', Call_import ''snprintf'' 4, Cmp_imm32 0 32, Branch_hs ''contractFailed'',
     Page_data Lea_data 0 ''packageName'', Page_data Lea_data 1 ''domainName'', Wide Movz 2 3 False,
     Page_data Lea_data 3 ''propertyKeys'', Page_data Lea_data 4 ''propertyValues'',
     Page_data Lea_data 5 ''hostHandle'', Page_data Lea_data 6 ''domainId'', Call_import ''coreclr_initialize'' 7,
     Compare_branch True 0 False ''initFailed'', Page_data Load64_data 0 ''hostHandle'',
     Page_data Load32_data 1 ''domainId'', Page_data Lea_data 2 ''assemblyName'', Page_data Lea_data 3 ''typeName'',
     Page_data Lea_data 4 ''methodName'', Page_data Lea_data 5 ''admit'', Call_import ''coreclr_create_delegate'' 6,
     Compare_branch True 0 False ''delegateFailed'', Call_data ''admit'' 0,
     Page_data Load32_data 1 ''admitComplement'', Add_reg 1 0 1, Compare_branch True 1 False ''admitWrong'',
     Mov 3 0 False, Wide Movz 0 info False, Page_data Lea_data 1 ''tag'', Page_data Lea_data 2 ''fmtAdmit'',
     Call_import ''__android_log_print'' 4, Page_data Load64_data 0 ''hostHandle'',
     Page_data Load32_data 1 ''domainId'', Page_data Lea_data 2 ''assemblyName'', Page_data Lea_data 3 ''typeName'',
     Page_data Lea_data 4 ''runMethodName'', Page_data Lea_data 5 ''runPowerShell'',
     Call_import ''coreclr_create_delegate'' 6, Compare_branch True 0 False ''runDelegateFailed'',
     Wide Movz 0 info False, Page_data Lea_data 1 ''tag'', Page_data Lea_data 2 ''fmtBegin'',
     Call_import ''__android_log_print'' 3, Mov 0 19 True, Call_data ''runPowerShell'' 1, Mov 3 0 False,
     Wide Movz 0 info False, Page_data Lea_data 1 ''tag'', Page_data Lea_data 2 ''fmtRun'',
     Call_import ''__android_log_print'' 4, Branch ''done''] @
     logFailure errorPriority ''directoryFailed'' ''fmtDirectory2'' @ logFailure errorPriority ''contractFailed'' ''fmtContract'' @
     logFailure errorPriority ''initFailed'' ''fmtInit'' @ logFailure errorPriority ''delegateFailed'' ''fmtDelegate'' @
     logFailure errorPriority ''admitWrong'' ''fmtAdmitWrong'' @ logFailure errorPriority ''runDelegateFailed'' ''fmtRunDelegate'' @
     [Label ''done'', Pair Ldp 19 20 16, Pair Ldp_post 29 30 32, Ret]"

definition a64_probe :: "string \<Rightarrow> a64_step list" where
  "a64_probe StoreSymbol = [
     Pair Stp_pre 29 30 (-48), Add_imm 29 31 0, Pair Stp 19 20 16, Pair Stp 21 22 32, Mov 19 0 True, Mov 20 1 True,
     Mov 21 2 True, Page_data Lea_data 22 ''probeTable'', Label ''next'', Mem Ldr64 1 22 0,
     Compare_branch False 1 True ''missing'', Mov 0 19 True, Call_import ''strcmp'' 2,
     Compare_branch False 0 False ''found'', Add_imm 22 22 24, Branch ''next'', Label ''found'',
     Load_got 0 StoreSymbol, Mem Ldr64 1 22 8, Add_reg 0 0 1, Mem Str64 0 20 0, Mem Ldr64 1 22 16, Mem Str64 1 21 0,
     Wide Movz 0 1 False, Branch ''out'', Label ''missing'', Wide Movz 0 0 False, Label ''out'', Pair Ldp 21 22 32,
     Pair Ldp 19 20 16, Pair Ldp_post 29 30 48, Ret]"

section \<open>Programs that have to be rejected\<close>

definition a64_frame :: a64_step where "a64_frame = Pair Stp_pre 29 30 (-16)"
definition a64_unframe :: a64_step where "a64_unframe = Pair Ldp_post 29 30 16"

definition a64_controls :: "(string \<times> a64_step list) list" where
  "a64_controls = [
     (''call without saving x30'', [Page_data Lea_data 0 ''a'', Call_import ''f'' 1, Ret]),
     (''argument set on one branch'', [a64_frame, Compare_branch False 1 True ''join'', Page_data Lea_data 0 ''a'', Label ''join'',
        Call_import ''f'' 1, a64_unframe, Ret]),
     (''unsaved callee-saved write'', [Mov 19 0 True, Ret]),
     (''restores out of order'', [a64_frame, Pair Stp 19 20 16, Pair Ldp_post 29 30 16, Ret]),
     (''writes x18'', [Wide Movz 18 1 True, Ret]),
     (''unreachable code'', [Ret, Wide Movz 0 0 False, Ret])]"

section \<open>What the check makes of them\<close>

lemma probe_checked: "Test_A64CallAbi (a64_probe ''store'') 3 = Inr ()"
  by code_simp

lemma on_create_checked: "Test_A64CallAbi (a64_onCreate 4 6) 3 = Inr ()"
  by code_simp

lemma controls_rejected: "map (\<lambda>(n, ss). Test_A64CallAbi ss 0) a64_controls =
   [Inl Link_not_saved, Inl Cannot_index, Inl (Register_not_saved 19), Inl Pairs_not_restored, Inl Platform_register, Inl (Unreachable 1)]"
  by code_simp

text \<open>
  A program that saves a single pair is never accepted if it has an exit: the control with an argument set
  on one branch is rejected for that, before the flow is looked at.  With a second pair it is rejected for
  the argument.
\<close>

lemma single_pair_has_no_exit: "check_saved [p] k i before ss = Inr () \<Longrightarrow> \<not> list_ex is_exit ss"
  by (induction ss arbitrary: i before) (auto simp: bind_sum_Inr_iff check_exit_def split: if_splits)

lemma one_branch_with_two_pairs:
  "Test_A64CallAbi [Pair Stp_pre 29 30 (-32), Pair Stp 19 20 16, Compare_branch False 1 True ''join'', Page_data Lea_data 0 ''a'', Label ''join'',
     Call_import ''f'' 1, Pair Ldp 19 20 16, Pair Ldp_post 29 30 32, Ret] 0 = Inl (Argument_not_set 0)"
  by code_simp

text \<open>The offsets of saves and restores are not compared.\<close>

lemma restored_from_another_slot:
  "Test_A64CallAbi [Pair Stp_pre 29 30 (-32), Pair Stp 19 20 16, Mov 19 0 True, Pair Ldp 19 20 0, Pair Ldp_post 29 30 32, Ret] 1 = Inr ()"
  by code_simp

section \<open>A path of the host\<close>

lemma on_path_straight:
  assumes "on_path ss parameters (i, st)" "list_all falls_through (take k (drop i ss))" "i + k \<le> length ss"
  shows "on_path ss parameters (i + k, fold effect (take k (drop i ss)) st)"
  using assms
proof (induction k)
  case (Suc k)
  have k: "i + k < length ss" using Suc.prems(3) by simp
  have split: "take (Suc k) (drop i ss) = take k (drop i ss) @ [ss ! (i + k)]" using k by (simp add: take_Suc_conv_app_nth)
  have "on_path ss parameters (i + k, fold effect (take k (drop i ss)) st)" using Suc split by simp
  moreover have "falls_through (ss ! (i + k))" using Suc.prems(2) by (simp add: split)
  ultimately have "on_path ss parameters (Suc (i + k), effect (ss ! (i + k)) (fold effect (take k (drop i ss)) st))"
    using k by (blast intro: on_path.further path_step.next_step)
  then show ?case by (simp add: split)
qed simp


lemma abi_check_converges_witness: "Test_A64CallAbi (a64_probe ''store'') 3 \<noteq> Inl No_convergence"
proof (rule abi_check_converges)
  have "length (block_starts (a64_probe ''store'')) \<le> length (a64_probe ''store'')"
    by (metis block_starts_def diff_zero length_filter_le length_upt)
  then show "length (block_starts (a64_probe ''store'')) \<le> 303" by (simp add: a64_probe_def)
  show "list_all registers_in_range (a64_probe ''store'')"
    by (simp add: a64_probe_def registers_in_range_def in_range_def)
qed simp

end
