(* ===== verification/Spec2Isabelle.thy ===== *)
theory Spec2Isabelle
  imports Store_Demo Decompress_Once Elf_Constants Elf_Demo Elf_Relro Elf_Library_Demo Arm_Crypto Jni_Types Native_Bind Axml_Demo
  Res_Table A64_Verified A64_Host
begin

text \<open>
  A verification of Pwsh, the build and runtime that bring a managed shell to Android in one native
  process.  The build, one script \<open>setup.ps1\<close>, writes an assembly store, wraps it in an ELF library, and
  packs it; on the device the dynamic linker loads that library and the runtime serves assemblies from
  the mapped store.  The C and C++ files under \<open>lib/\<close> are the pinned sources of the device side, against
  which the build writes its files.  The development models both sides and states that they fit.

  Parts and theories.

  \<^item> \<open>Prelude\<close>: integer types, little-endian images, and the locale \<open>record_codec\<close> of fixed-size
    structures, with the lemma on arrays of them.
  \<^item> The assembly store.  \<open>Store_Format\<close>: the structures and magic words of \<open>lib/xamarin-app.hh\<close>.
    \<open>Store_Reader\<close>: the runtime \<open>lib/assembly-store.cc\<close>, one definition per function (\<open>configure_from_payload\<close>,
    \<open>find_assembly_store_entry\<close>, \<open>get_assembly_data\<close>, \<open>open_assembly\<close>); its global variables are the record
    \<open>store_state\<close>, its aborts are values, and a read outside the payload has no value.  \<open>Store_Writer\<close>: the
    emitter \<open>New-AssemblyStoreBytes\<close>.  \<open>Store_Lookup\<close>, \<open>Store_Serve\<close>: search and serving of data; the search
    rests on the locale \<open>lower_bound_contract\<close>, which the binary search of the model fulfils.
    \<open>Store_Tables\<close>, \<open>Store_Roundtrip\<close>, \<open>Store_Demo\<close>: a written store is read back, name by name.
    \<open>Crc32\<close>: the name hash.  \<open>Decompress_Once\<close>: threads that open one compressed assembly, as a step
    relation over the double-checked lock, with its invariant and progress.
  \<^item> ELF.  \<open>Elf_Types\<close>: the structures of \<open>lib/ELF.h\<close> in both classes with their byte images and accessors;
    \<open>Elf_Enums\<close> and \<open>Elf_Constants\<close>: its enumerations, the \<open>.def\<close> files, and \<open>Get-ElfConstants\<close>, by which the
    build extracts the constants it uses.  \<open>Elf_Loader\<close> and \<open>Elf_Memory\<close>: the linker \<open>lib/linker_phdr.cpp\<close>, one
    definition per function, every error message a value, system calls recorded as lists of calls with
    a meaning on memory (\<open>apply_calls\<close>).  \<open>Elf_Read\<close> (locales \<open>file_access\<close>, \<open>class_layout\<close>, \<open>elf_reading\<close>),
    \<open>Elf_Load\<close> (locale \<open>paging\<close>), \<open>Elf_Image\<close>, \<open>Elf_Reserve\<close> (locale \<open>padding\<close>), \<open>Elf_Loading\<close>: what reading,
    reserving, mapping and the whole of \<open>Load\<close> establish.  \<open>Elf_Relro\<close>: sharing relocated pages.
    \<open>Elf_Demo\<close>: a small library.
  \<^item> The two sides together.  \<open>Elf_Writer\<close>: \<open>New-ElfPayloadLibrary\<close> of \<open>setup.ps1\<close> and everything it calls.
    \<open>Elf_Written\<close>: the exact bytes it writes.  \<open>Elf_Accepted\<close> (locales \<open>class_image\<close>, \<open>file_system\<close>,
    \<open>written_library\<close>): the linker accepts what the build writes and the payload ends up in memory.
    \<open>Elf_Library_Demo\<close>: a small library written, read and loaded.
  \<^item> The compiler driver's ARM helpers, \<open>lib/ARM.cpp\<close>.  \<open>Arm_Driver\<close>: architecture, thread pointer and
    floating-point ABI; \<open>Arm_Features\<close>: \<open>getARMTargetFeatures\<close> in stages, in the order of the source.
    \<open>Arm_Props\<close> and \<open>Arm_Crypto\<close>: what the finished feature vector guarantees.
  \<^item> Native interfaces.  \<open>C_Layout\<close>: C types and the natural layout of structures.  \<open>Native_Headers\<close>: the
    structures of \<open>lib/native_activity.h\<close> and \<open>lib/host_runtime_contract.h\<close>, the priorities of \<open>lib/log.h\<close>,
    and the functions of \<open>setup.ps1\<close> that read offsets and values out of their text.  \<open>Jni_Table\<close>,
    \<open>Jni_Slots\<close>: the function tables of \<open>lib/jni.h\<close> and \<open>Get-JniFunctionTable\<close>, with the fact that every
    offset the build reads is C's.  \<open>Jni_Wrappers\<close>: every member function of \<open>_JNIEnv\<close> and \<open>_JavaVM\<close> with
    its body; \<open>Jni_Calls\<close>: which pointer a call reaches; \<open>Jni_Types\<close>: the bodies are well typed.
    \<open>Native_Peers\<close>: \<open>Add-NativePeerMethods\<close>, the instructions it emits and a machine that runs them;
    \<open>Native_Bound\<close>: what each stretch of the emitted code acquires and keeps; \<open>Native_Bind\<close>: registration
    leaks nothing and registers what it was built for.
  \<^item> Resources.  \<open>Res_Types\<close>: the structures, enumerations, macros and inline functions of
    \<open>lib/ResourceTypes.h\<close>, each structure with its codec.  \<open>Axml_Writer\<close>: the emitters of binary XML of
    \<open>setup.ps1\<close> (string pools, resource map, nodes, attributes); a document is a list of calls.
    \<open>Axml_Reader\<close>: \<open>Test-BinaryAxml\<close> and the checks around it.  \<open>Axml_Image\<close>, \<open>Axml_Walk\<close>, \<open>Axml_Roundtrip\<close>:
    what is written, as structures of the header, and how the reader goes through it.  \<open>Axml_Tree\<close>: documents as
    trees without pools and indices, the abstract specification.  \<open>Axml_Drawable\<close> and \<open>Axml_Manifest\<close>: the
    launcher drawables and the Android manifest, which read back as the trees they stand for, with the declared
    resource ids.  \<open>Axml_Accepted\<close>: what acceptance means for any document.
    \<open>Res_Table\<close>: the resource table, and that every identifier resolves in it, read by the header's structures.  \<open>Axml_Demo\<close>: the application's
    own manifest.
  \<^item> AArch64 code.  \<open>A64_Code\<close>: the encoders of \<open>setup.ps1\<close>, its independent decoder, the step encoder
    \<open>New-A64Step\<close> and its verifier \<open>Test-A64Step\<close>.  \<open>A64_Read\<close> and \<open>A64_Verified\<close>: the decoder recovers every field, and
    every encoded step is accepted where it lies.  \<open>A64_Abi\<close>: \<open>Test-A64CallAbi\<close> with its worklist, whose
    bound of 10000 rounds is the code's own.  \<open>A64_Flow\<close> and \<open>A64_Paths\<close>: the paths of a program as a step
    relation, and what acceptance guarantees on each of them.  \<open>A64_Converges\<close>: 33 visits of a block are enough, so
    the bound is never met by a program of up to 303 blocks.  \<open>A64_Host\<close>: the step programs of the arm64 host and
    what the check makes of them.

  How state and operations correspond.  A C structure is a record whose fields have the source's names
  (prefixed where two structures share one) and widths; a member function takes and returns the record.
  A C++ exception, abort or \<open>DL_ERR\<close> and a PowerShell \<open>throw\<close> are constructors of an error type or \<open>None\<close>.
  Loops are structural recursions over the list the source walks, or recursions with a measure; none
  needs fuel.  One loop, the search for a chunk, may run for ever on a malformed document and is a partial
  function that is proved to return on every accepted one.  Emitted code branches forward only, so the machine that runs it terminates.

  Parameters.  Code that is not in the repository is an argument: the decompressor \<open>ZSTD_decompress\<close> and
  the size calls of the store runtime; \<open>safe_add\<close> and the mapped file fragments of the linker, with the
  documented behaviour as the locales \<open>file_access\<close> and \<open>file_system\<close>; the kernel (where a mapping is placed,
  which calls fail) as an oracle record; the note parser of the linker; LLVM's target parser for the ARM
  helpers; the comparer of string keys and the pinned list of attribute ids of the manifest; the Java machine, the allocator and the memory behind pointers for the native interfaces.  Each hypothesis of this kind has an interpretation on a concrete function.

  Bounds.  \<open>max_array\<close> is the longest byte array of the build's runtime; a library or a store below it
  keeps every offset below \<open>2 ^ 32\<close>, so the 32-bit fields are exact.  Machine integers of C are words and
  wrap; PowerShell's \<open>[uint32]\<close> casts fail out of range.

  Not modelled, and why.
  \<^item> \<open>New-ElfCodeLibrary\<close>, \<open>Read-ElfImage\<close> with the tests of the build, and the encoders and checks of the
    other instruction sets (x86-64, A32, T32), which have the shape of those for AArch64.  What an
    instruction does when it runs is not part of any source of the repository.
  \<^item> The classes of \<open>lib/ResourceTypes.h\<close> (string pools, parsers and tables on a device): they are declared
    there and implemented in a file that is not in the repository.  Its enumerators that take their values
    from another header are left out for the same reason.
  \<^item> The controls that mutate a manifest to test its reader, and the check by an external tool.
  \<^item> \<open>lib/zstd.h\<close> declares a library that is not in the repository; the rest of \<open>lib/log.h\<close> and of
    \<open>lib/native_activity.h\<close>, and \<open>lib/coreclrhost.h\<close>, declare functions of the system and the runtime.
  \<^item> The type map, application configuration, DSO cache and JNI remapping structures of
    \<open>lib/xamarin-app.hh\<close>: no code of the repository reads or writes them.
  \<^item> The interface, downloads, package verification, signing and the managed code generation of
    \<open>setup.ps1\<close>, the scripts and the Java and C# sources: input and output, other languages' runtimes, or
    cryptography of the platform.
\<close>

end
